(* ===== verification/Prelude.thy ===== *)
theory Prelude
  imports Main "HOL-Library.Char_ord" "HOL-Library.List_Lexorder"
begin

text \<open>
  Shared vocabulary of the development: Go's integers, strings and panics, as far as the operator
  uses them, with the lemmas the component theories rewrite with.

  \<^item> A Go \<^verbatim>\<open>string\<close> is a byte sequence, here a \<^typ>\<open>string\<close> (a character is a byte). The order on
    strings is the bytewise lexicographic one, as in Go (library theories List_Lexorder, Char_ord).
  \<^item> A Go \<^verbatim>\<open>int32\<close> or \<^verbatim>\<open>int64\<close> is an \<^typ>\<open>int\<close>; the operations that can leave the range go through
    \<open>i32\<close> and \<open>i64\<close>, which write the two's complement wrap-around out.
  \<^item> A nil-able pointer is an \<^typ>\<open>'a option\<close>; a call that may panic returns an \<open>'a outcome\<close>.
  \<^item> A Go map that is iterated is an association list with distinct keys; where the iteration
    order can be observed, the order is a parameter of the definition that iterates.
\<close>

section \<open>Proof collections\<close>

named_theorems go_str \<open>rewrite rules for the string library\<close>
named_theorems i32_rules \<open>rewrite rules for wrap-around arithmetic\<close>

section \<open>Panics\<close>

datatype 'a outcome = Returns 'a | Panics string

fun returned :: "'a outcome \<Rightarrow> 'a option" where
  "returned (Returns x) = Some x"
| "returned (Panics m) = None"

section \<open>Integers\<close>

definition MaxInt32 :: int where
  "MaxInt32 = 2147483647"

definition i32 :: "int \<Rightarrow> int" where
  "i32 x = (x + 2147483648) mod 4294967296 - 2147483648"

definition i64 :: "int \<Rightarrow> int" where
  "i64 x = (x + 9223372036854775808) mod 18446744073709551616 - 9223372036854775808"

definition is_i32 :: "int \<Rightarrow> bool" where
  "is_i32 x \<longleftrightarrow> - 2147483648 \<le> x \<and> x \<le> 2147483647"

text \<open>Go's \<^verbatim>\<open>/\<close> and \<^verbatim>\<open>%\<close> truncate towards zero.\<close>

definition go_quot :: "int \<Rightarrow> int \<Rightarrow> int" where
  "go_quot a b = sgn a * sgn b * (\<bar>a\<bar> div \<bar>b\<bar>)"

definition go_rem :: "int \<Rightarrow> int \<Rightarrow> int" where
  "go_rem a b = a - b * go_quot a b"

lemma is_i32_i32 [simp]: "is_i32 (i32 x)"
  unfolding is_i32_def i32_def by (simp add: pos_mod_bound [THEN zle_diff1_eq [THEN iffD2]])

lemma i32_id [i32_rules]: "is_i32 x \<Longrightarrow> i32 x = x"
  unfolding is_i32_def i32_def by simp

lemma i32_zero [simp]: "i32 0 = 0"
  by (simp add: i32_def)

lemma i64_id [i32_rules]:
  "- 9223372036854775808 \<le> x \<Longrightarrow> x \<le> 9223372036854775807 \<Longrightarrow> i64 x = x"
  unfolding i64_def by simp

lemma i32_add_left [simp]: "i32 (i32 a + b) = i32 (a + b)"
proof -
  have "((a + 2147483648) mod 4294967296 - 2147483648 + b + 2147483648) mod 4294967296
        = ((a + 2147483648) mod 4294967296 + b) mod 4294967296" by (simp add: algebra_simps)
  also have "\<dots> = (a + b + 2147483648) mod 4294967296"
    using mod_add_left_eq [of "a + 2147483648" 4294967296 b] by (simp add: algebra_simps)
  finally show ?thesis by (simp add: i32_def)
qed

lemma i32_add_right [simp]: "i32 (a + i32 b) = i32 (a + b)"
  using i32_add_left [of b a] by (simp add: add.commute)

lemma go_quot_nonneg: "0 \<le> a \<Longrightarrow> 0 < b \<Longrightarrow> go_quot a b = a div b"
  by (cases "a = 0") (simp_all add: go_quot_def)

lemma go_rem_nonneg: "0 \<le> a \<Longrightarrow> 0 < b \<Longrightarrow> go_rem a b = a mod b"
  by (simp add: go_rem_def go_quot_nonneg minus_mult_div_eq_mod)

section \<open>Strings\<close>

text \<open>\<^verbatim>\<open>strings.HasPrefix\<close>, \<^verbatim>\<open>HasSuffix\<close>, \<^verbatim>\<open>Index\<close>, \<^verbatim>\<open>Contains\<close>.\<close>

definition hasPrefix :: "string \<Rightarrow> string \<Rightarrow> bool" where
  "hasPrefix s p \<longleftrightarrow> take (length p) s = p"

definition hasSuffix :: "string \<Rightarrow> string \<Rightarrow> bool" where
  "hasSuffix s p \<longleftrightarrow> hasPrefix (rev s) (rev p)"

fun indexOf :: "string \<Rightarrow> string \<Rightarrow> nat option" where
  "indexOf [] p = (if p = [] then Some 0 else None)"
| "indexOf (c # s) p = (if hasPrefix (c # s) p then Some 0 else map_option Suc (indexOf s p))"

definition containsStr :: "string \<Rightarrow> string \<Rightarrow> bool" where
  "containsStr s p \<longleftrightarrow> indexOf s p \<noteq> None"

text \<open>\<^verbatim>\<open>strings.Split\<close> with a one-byte separator, \<^verbatim>\<open>strings.Join\<close>, \<^verbatim>\<open>strings.ReplaceAll\<close> of one byte.\<close>

fun splitOn :: "char \<Rightarrow> string \<Rightarrow> string list" where
  "splitOn c [] = [[]]"
| "splitOn c (x # xs) =
     (if x = c then [] # splitOn c xs
      else (case splitOn c xs of [] \<Rightarrow> [[x]] | y # ys \<Rightarrow> (x # y) # ys))"

fun joinStr :: "string \<Rightarrow> string list \<Rightarrow> string" where
  "joinStr sep [] = []"
| "joinStr sep [x] = x"
| "joinStr sep (x # y # ys) = x @ sep @ joinStr sep (y # ys)"

definition replaceChar :: "char \<Rightarrow> string \<Rightarrow> string \<Rightarrow> string" where
  "replaceChar c r s = concat (map (\<lambda>x. if x = c then r else [x]) s)"

text \<open>\<^verbatim>\<open>strings.Trim\<close> and \<^verbatim>\<open>TrimRight\<close> with an ASCII cutset.\<close>

definition trimRightSet :: "string \<Rightarrow> string \<Rightarrow> string" where
  "trimRightSet s cs = rev (dropWhile (\<lambda>c. c \<in> set cs) (rev s))"

definition trimSet :: "string \<Rightarrow> string \<Rightarrow> string" where
  "trimSet s cs = trimRightSet (dropWhile (\<lambda>c. c \<in> set cs) s) cs"

lemma hasPrefix_append [go_str]: "hasPrefix (p @ s) p"
  by (simp add: hasPrefix_def)

lemma hasPrefix_iff: "hasPrefix s p \<longleftrightarrow> (\<exists>t. s = p @ t)"
  unfolding hasPrefix_def by (metis append_eq_conv_conj append_take_drop_id)

lemma hasPrefix_Nil [simp]: "hasPrefix s []"
  by (simp add: hasPrefix_def)

lemma hasPrefix_Nil_left [simp]: "hasPrefix [] p \<longleftrightarrow> p = []"
  by (auto simp: hasPrefix_def)

lemma hasPrefix_Cons [simp]: "hasPrefix (c # s) (d # p) \<longleftrightarrow> c = d \<and> hasPrefix s p"
  by (auto simp: hasPrefix_def)

lemma containsStr_iff: "containsStr s p \<longleftrightarrow> (\<exists>a b. s = a @ p @ b)"
proof (induction s)
  case Nil
  then show ?case by (simp add: containsStr_def)
next
  case (Cons c s)
  have "containsStr (c # s) p \<longleftrightarrow> hasPrefix (c # s) p \<or> containsStr s p"
    by (simp add: containsStr_def)
  also have "\<dots> \<longleftrightarrow> (\<exists>b. c # s = p @ b) \<or> (\<exists>a b. s = a @ p @ b)"
    using Cons.IH by (simp add: hasPrefix_iff)
  also have "\<dots> \<longleftrightarrow> (\<exists>a b. c # s = a @ p @ b)"
    by (metis append_Cons append_Nil append_eq_Cons_conv)
  finally show ?case .
qed

lemma splitOn_not_Nil [simp]: "splitOn c s \<noteq> []"
  by (induction s) (auto split: list.splits)

lemma splitOn_no_sep [go_str]: "c \<notin> set s \<Longrightarrow> splitOn c s = [s]"
  by (induction s) auto

lemma splitOn_append_sep [go_str]:
  "c \<notin> set s \<Longrightarrow> splitOn c (s @ c # t) = s # splitOn c t"
  by (induction s) auto

lemma splitOn_parts: "x \<in> set (splitOn c s) \<Longrightarrow> c \<notin> set x"
  by (induction s arbitrary: x) (auto split: list.splits if_splits)

lemma join_splitOn: "joinStr [c] (splitOn c s) = s"
proof (induction s)
  case Nil
  then show ?case by simp
next
  case (Cons x xs)
  obtain y ys where s: "splitOn c xs = y # ys" by (cases "splitOn c xs") auto
  show ?case using Cons s by (cases ys) auto
qed

lemma splitOn_join [go_str]:
  "xs \<noteq> [] \<Longrightarrow> \<forall>x \<in> set xs. c \<notin> set x \<Longrightarrow> splitOn c (joinStr [c] xs) = xs"
  by (induction "[c]" xs rule: joinStr.induct) (auto simp: go_str)

lemma replaceChar_Nil [simp]: "replaceChar c r [] = []"
  by (simp add: replaceChar_def)

lemma replaceChar_Cons [simp]:
  "replaceChar c r (x # xs) = (if x = c then r else [x]) @ replaceChar c r xs"
  by (simp add: replaceChar_def)

lemma replaceChar_append [simp]: "replaceChar c r (xs @ ys) = replaceChar c r xs @ replaceChar c r ys"
  by (simp add: replaceChar_def)

lemma set_joinStr: "set (joinStr sep xs) \<subseteq> set sep \<union> (\<Union>x\<in>set xs. set x)"
  by (induction sep xs rule: joinStr.induct) auto

section \<open>Lists\<close>

lemma sum_list_zeros: "set xs \<subseteq> {0} \<Longrightarrow> sum_list (xs :: int list) = 0"
  by (induction xs) auto

section \<open>Association lists\<close>

text \<open>A Go map with the keys in the order of their first insertion.\<close>

fun alUpdate :: "'k \<Rightarrow> 'v \<Rightarrow> ('k \<times> 'v) list \<Rightarrow> ('k \<times> 'v) list" where
  "alUpdate k v [] = [(k, v)]"
| "alUpdate k v ((k', v') # m) = (if k' = k then (k, v) # m else (k', v') # alUpdate k v m)"

lemma map_of_alUpdate [simp]: "map_of (alUpdate k v m) = (map_of m)(k \<mapsto> v)"
  by (induction m) auto

lemma set_keys_alUpdate [simp]: "fst ` set (alUpdate k v m) = insert k (fst ` set m)"
  by (induction k v m rule: alUpdate.induct) (simp_all add: insert_commute)

lemma distinct_alUpdate [simp]: "distinct (map fst m) \<Longrightarrow> distinct (map fst (alUpdate k v m))"
proof (induction m)
  case Nil
  then show ?case by simp
next
  case (Cons p m)
  then show ?case by (cases p) auto
qed

lemma values_alUpdate: "snd ` set (alUpdate k v m) \<subseteq> insert v (snd ` set m)"
  by (induction k v m rule: alUpdate.induct) (auto split: if_splits)

lemma alUpdate_fresh: "k \<notin> fst ` set m \<Longrightarrow> alUpdate k v m = m @ [(k, v)]"
  by (induction m) auto

section \<open>Numbers in strings\<close>

definition isDigit :: "char \<Rightarrow> bool" where
  "isDigit c \<longleftrightarrow> c \<in> set ''0123456789''"

definition digitsVal :: "string \<Rightarrow> int" where
  "digitsVal s = foldl (\<lambda>n c. 10 * n + (of_char c - 48)) 0 s"

definition clampInt64 :: "int \<Rightarrow> int" where
  "clampInt64 n = max (- 9223372036854775808) (min 9223372036854775807 n)"

text \<open>The sign and the digits of a decimal number.\<close>

definition unsigned :: "string \<Rightarrow> string" where
  "unsigned s = (if s \<noteq> [] \<and> (hd s = CHR ''-'' \<or> hd s = CHR ''+'') then tl s else s)"

definition signedVal :: "string \<Rightarrow> int" where
  "signedVal s = (if s \<noteq> [] \<and> hd s = CHR ''-'' then - digitsVal (unsigned s) else digitsVal (unsigned s))"

definition isDecimal :: "string \<Rightarrow> bool" where
  "isDecimal s \<longleftrightarrow> unsigned s \<noteq> [] \<and> list_all isDigit (unsigned s)"

text \<open>\<^verbatim>\<open>strconv.ParseInt(s, 10, 64)\<close> with the error dropped: 0 on a syntax error, the nearest bound on overflow;
  and whether \<^verbatim>\<open>strconv.Atoi\<close> returns without an error.\<close>

definition parseInt64 :: "string \<Rightarrow> int" where
  "parseInt64 s = (if isDecimal s then clampInt64 (signedVal s) else 0)"

definition atoiOk :: "string \<Rightarrow> bool" where
  "atoiOk s \<longleftrightarrow> isDecimal s \<and> clampInt64 (signedVal s) = signedVal s"

text \<open>\<^verbatim>\<open>strconv.ParseBool\<close> with the error dropped.\<close>

definition parseBool :: "string \<Rightarrow> bool" where
  "parseBool s \<longleftrightarrow> s \<in> set [''1'', ''t'', ''T'', ''TRUE'', ''true'', ''True'']"

text \<open>\<^verbatim>\<open>strconv.FormatInt(n, 10)\<close> and the verb \<^verbatim>\<open>%d\<close>.\<close>

definition digitChar :: "nat \<Rightarrow> char" where
  "digitChar d = char_of (48 + d)"

fun showNat :: "nat \<Rightarrow> string" where
  "showNat n = (if n < 10 then [digitChar n] else showNat (n div 10) @ [digitChar (n mod 10)])"

declare showNat.simps [simp del]

definition showInt :: "int \<Rightarrow> string" where
  "showInt n = (if n < 0 then CHR ''-'' # showNat (nat (- n)) else showNat (nat n))"

lemma digitChar_digit:
  assumes "d < 10"
  shows "isDigit (digitChar d)" "(of_char (digitChar d) :: int) = 48 + int d"
proof -
  have "\<forall>d \<in> set [0..<10]. isDigit (digitChar d) \<and> (of_char (digitChar d) :: int) = 48 + int d" by code_simp
  then show "isDigit (digitChar d)" "(of_char (digitChar d) :: int) = 48 + int d" using assms by simp_all
qed

lemma digitsVal_snoc: "digitsVal (s @ [c]) = 10 * digitsVal s + (of_char c - 48)"
  by (simp add: digitsVal_def)

lemma showNat_digits: "showNat n \<noteq> [] \<and> list_all isDigit (showNat n) \<and> digitsVal (showNat n) = int n"
proof (induction n rule: showNat.induct)
  case (1 n)
  show ?case
  proof (cases "n < 10")
    case True
    have "digitsVal [digitChar n] = int n" using digitsVal_snoc [of "[]"] digitChar_digit(2) [OF True] by (simp add: digitsVal_def)
    then show ?thesis using True digitChar_digit(1) [OF True] by (simp add: showNat.simps [of n])
  next
    case False
    have m: "n mod 10 < 10" by simp
    have "10 * int (n div 10) + int (n mod 10) = int n" by (simp add: zdiv_int zmod_int)
    then show ?thesis using 1 False digitChar_digit [OF m] by (simp add: showNat.simps [of n] digitsVal_snoc)
  qed
qed

lemma hd_digit: "list_all isDigit s \<Longrightarrow> s \<noteq> [] \<Longrightarrow> hd s \<noteq> CHR ''-'' \<and> hd s \<noteq> CHR ''+''"
  by (cases s) (auto simp: isDigit_def)

text \<open>Reading a printed number gives it back.\<close>

lemma signedVal_showInt: "isDecimal (showInt n) \<and> signedVal (showInt n) = n"
proof (cases "n < 0")
  case True
  then show ?thesis using showNat_digits [of "nat (- n)"]
    by (simp add: showInt_def isDecimal_def signedVal_def unsigned_def)
next
  case False
  then show ?thesis using showNat_digits [of "nat n"] hd_digit [of "showNat (nat n)"]
    by (simp add: showInt_def isDecimal_def signedVal_def unsigned_def)
qed

lemma parseInt64_showInt:
  "- 9223372036854775808 \<le> n \<Longrightarrow> n \<le> 9223372036854775807 \<Longrightarrow> parseInt64 (showInt n) = n"
  using signedVal_showInt [of n] by (simp add: parseInt64_def clampInt64_def)

lemma showInt_inject [simp]: "showInt m = showInt n \<longleftrightarrow> m = n"
  by (metis signedVal_showInt)

section \<open>Lower case\<close>

text \<open>\<^verbatim>\<open>strings.ToLower\<close> on ASCII; other bytes are kept.\<close>

definition toLowerChar :: "char \<Rightarrow> char" where
  "toLowerChar c = (let n = of_char c :: nat in if 65 \<le> n \<and> n \<le> 90 then char_of (n + 32) else c)"

section \<open>Quoting in messages\<close>

text \<open>\<^verbatim>\<open>%q\<close>: bytes from 128 on belong to UTF-8 sequences and are kept.\<close>

definition hexDigit :: "nat \<Rightarrow> char" where
  "hexDigit n = ''0123456789abcdef'' ! n"

definition goQuoteChar :: "char \<Rightarrow> string" where
  "goQuoteChar c = (let n = of_char c :: nat; b = CHR 0x5C in
     if c = CHR 0x22 \<or> c = b then [b, c]
     else if 32 \<le> n \<and> n \<noteq> 127 then [c]
     else if n = 7 then [b, CHR ''a''] else if n = 8 then [b, CHR ''b''] else if n = 12 then [b, CHR ''f'']
     else if n = 10 then [b, CHR ''n''] else if n = 13 then [b, CHR ''r''] else if n = 9 then [b, CHR ''t'']
     else if n = 11 then [b, CHR ''v'']
     else [b, CHR ''x'', hexDigit (n div 16), hexDigit (n mod 16)])"

definition goQuote :: "string \<Rightarrow> string" where
  "goQuote s = [CHR 0x22] @ concat (map goQuoteChar s) @ [CHR 0x22]"

end
