(* ===== verification/CoreV1.thy ===== *)
theory CoreV1
  imports Prelude
begin

text \<open>
  The structs of the Kubernetes API (\<^verbatim>\<open>k8s.io/api\<close> and the OpenKruise API) that the operator reads or builds. A struct
  that is only copied from the specification to an object (an affinity, a security context, a DNS configuration)
  is a value of type \<open>opaque\<close>, as are the remaining fields of a struct of which only some are read. A pointer is
  an option. A \<^verbatim>\<open>map[string]string\<close> is its list of entries in increasing key order, so that equality of the lists
  is equality of the maps.
\<close>

type_synonym strmap = "(string \<times> string) list"
type_synonym time = int
type_synonym opaque = string

section \<open>Environment variables and resources\<close>

record SecretKeySelector =
  sks_Name :: string
  sks_Key :: string

datatype EnvVarSource =
    FieldRef string
  | SecretKeyRef SecretKeySelector
  | OtherEnvSource opaque

record EnvVar =
  ev_Name :: string
  ev_Value :: string
  ev_ValueFrom :: "EnvVarSource option"

text \<open>\<^verbatim>\<open>corev1.ResourceRequirements\<close>: the quantities by resource name (\<^verbatim>\<open>cpu\<close>, \<^verbatim>\<open>memory\<close>); \<^verbatim>\<open>None\<close> is a nil map.\<close>

record ResourceRequirements =
  rr_Limits :: "(string \<times> int) list option"
  rr_Requests :: "(string \<times> int) list option"

section \<open>Volumes\<close>

record KeyToPath =
  kp_Key :: string
  kp_Path :: string

record FilesSource =
  fs_Name :: string
  fs_Items :: "KeyToPath list"
  fs_Optional :: "bool option"

datatype VolumeSource =
    ConfigMapVolume FilesSource
  | SecretVolume FilesSource
  | OtherVolume opaque

record Volume =
  vol_Name :: string
  vol_Source :: VolumeSource

record VolumeMount =
  vm_Name :: string
  vm_ReadOnly :: bool
  vm_MountPath :: string
  vm_Rest :: opaque

record VolumeDevice =
  vd_Name :: string
  vd_DevicePath :: string

section \<open>Containers and pods\<close>

datatype IntOrString = IntVal int | StrVal string

record ContainerPort =
  cp_Name :: string
  cp_Protocol :: string
  cp_ContainerPort :: int

text \<open>A probe of a TCP socket; other probes are only copied.\<close>

record Probe =
  pr_InitialDelaySeconds :: int
  pr_PeriodSeconds :: int
  pr_TimeoutSeconds :: int
  pr_FailureThreshold :: int
  pr_TCPSocketPort :: "IntOrString option"
  pr_Rest :: opaque

record Container =
  c_Name :: string
  c_Image :: string
  c_Command :: "string list"
  c_Args :: "string list"
  c_Ports :: "ContainerPort list"
  c_EnvFrom :: "opaque list"
  c_Env :: "EnvVar list"
  c_Resources :: ResourceRequirements
  c_VolumeMounts :: "VolumeMount list"
  c_VolumeDevices :: "VolumeDevice list"
  c_LivenessProbe :: "Probe option"
  c_ReadinessProbe :: "Probe option"
  c_StartupProbe :: "Probe option"
  c_PreStop :: "string list option"
  c_ImagePullPolicy :: string
  c_SecurityContext :: "opaque option"
  c_Stdin :: bool
  c_StdinOnce :: bool
  c_TTY :: bool
  c_Rest :: opaque

text \<open>The part of a pod specification that the operator only copies from a node group.\<close>

record PodCopied =
  pc_ActiveDeadlineSeconds :: "int option"
  pc_TerminationGracePeriodSeconds :: "int option"
  pc_DNSPolicy :: string
  pc_NodeSelector :: strmap
  pc_ServiceAccountName :: string
  pc_AutomountServiceAccountToken :: "bool option"
  pc_HostPID :: bool
  pc_HostIPC :: bool
  pc_ShareProcessNamespace :: "bool option"
  pc_SecurityContext :: "opaque option"
  pc_ImagePullSecrets :: "string list"
  pc_Affinity :: "opaque option"
  pc_SchedulerName :: string
  pc_Tolerations :: "opaque list"
  pc_HostAliases :: "opaque list"
  pc_PriorityClassName :: string
  pc_Priority :: "int option"
  pc_DNSConfig :: "opaque option"
  pc_RuntimeClassName :: "string option"
  pc_PreemptionPolicy :: "string option"
  pc_TopologySpreadConstraints :: "opaque list"
  pc_SetHostnameAsFQDN :: "bool option"
  pc_OS :: "opaque option"
  pc_HostUsers :: "bool option"

record PodSpec =
  ps_InitContainers :: "Container list"
  ps_Containers :: "Container list"
  ps_EnableServiceLinks :: "bool option"
  ps_Volumes :: "Volume list"
  ps_ReadinessGates :: "string list"
  ps_Copied :: PodCopied

record PodTemplateSpec =
  pt_Labels :: strmap
  pt_Annotations :: strmap
  pt_Spec :: PodSpec

section \<open>Maps with ordered keys\<close>

fun smapUpdate :: "string \<Rightarrow> string \<Rightarrow> strmap \<Rightarrow> strmap" where
  "smapUpdate k v [] = [(k, v)]"
| "smapUpdate k v ((k', v') # m) =
     (if k = k' then (k, v) # m else if k < k' then (k, v) # (k', v') # m else (k', v') # smapUpdate k v m)"

definition smap :: "(string \<times> string) list \<Rightarrow> strmap" where
  "smap kvs = foldl (\<lambda>m (k, v). smapUpdate k v m) [] kvs"

abbreviation sorted_keys :: "strmap \<Rightarrow> bool" where
  "sorted_keys m \<equiv> sorted_wrt (<) (map fst m)"

lemma map_of_smapUpdate: "sorted_keys m \<Longrightarrow> map_of (smapUpdate k v m) = (map_of m)(k \<mapsto> v)"
proof (induction m)
  case Nil
  then show ?case by simp
next
  case (Cons p m)
  obtain k' v' where p: "p = (k', v')" by fastforce
  show ?case using Cons by (auto simp: p fun_eq_iff)
qed

lemma keys_smapUpdate: "fst ` set (smapUpdate k v m) = insert k (fst ` set m)"
  by (induction k v m rule: smapUpdate.induct) auto

lemma sorted_smapUpdate: "sorted_keys m \<Longrightarrow> sorted_keys (smapUpdate k v m)"
proof (induction m)
  case Nil
  then show ?case by simp
next
  case (Cons p m)
  obtain k' v' where p: "p = (k', v')" by fastforce
  have "\<forall>x \<in> fst ` set (smapUpdate k v m). k' < x" if "k' < k"
    using Cons.prems that by (auto simp: p keys_smapUpdate)
  then show ?case using Cons by (auto simp: p)
qed

lemma foldl_smapUpdate:
  assumes "sorted_keys m"
  shows "sorted_keys (foldl (\<lambda>m (k, v). smapUpdate k v m) m kvs)
    \<and> map_of (foldl (\<lambda>m (k, v). smapUpdate k v m) m kvs) = map_of m ++ map_of (rev kvs)"
  using assms
proof (induction kvs arbitrary: m)
  case Nil
  then show ?case by simp
next
  case (Cons p kvs)
  obtain k v where p: "p = (k, v)" by fastforce
  show ?case using Cons.IH [OF sorted_smapUpdate [OF Cons.prems, of k v]]
    by (simp add: p map_of_smapUpdate [OF Cons.prems] map_add_def fun_eq_iff split: option.split)
qed

lemma map_of_smap: "map_of (smap kvs) = map_of (rev kvs)"
  using foldl_smapUpdate [of "[]" kvs] by (simp add: smap_def)

lemma sorted_smap: "sorted_keys (smap kvs)"
  using foldl_smapUpdate [of "[]" kvs] by (simp add: smap_def)

end
