(* ===== verification/RwApi.thy ===== *)
theory RwApi
  imports CoreV1
begin

text \<open>
  The custom resources RisingWave and RisingWaveScaleView (\<^verbatim>\<open>apis/risingwave/v1alpha1\<close>): one record
  per Go struct, one field per Go field, each field with a prefix for its struct. A pointer field is
  an option. The structs of the Kubernetes API are those of CoreV1. A resource quantity is its
  value in the smallest unit; times are seconds since the zero time of Go.
\<close>

section \<open>Metadata\<close>

record OwnerReference =
  or_APIVersion :: string
  or_Kind :: string
  or_Name :: string
  or_UID :: string
  or_Controller :: "bool option"

record ObjectMeta =
  om_Name :: string
  om_Namespace :: string
  om_UID :: string
  om_Generation :: int
  om_Labels :: strmap
  om_Annotations :: strmap
  om_Finalizers :: "string list"
  om_DeletionTimestamp :: "time option"
  om_OwnerReferences :: "OwnerReference list"

record PartialObjectMeta =
  pm_Labels :: strmap
  pm_Annotations :: strmap

section \<open>RisingWaveScaleView\<close>

record RisingWaveScaleViewTargetRef =
  tr_Name :: string
  tr_Component :: string
  tr_UID :: string

record RisingWaveScaleViewSpecScalePolicy =
  sp_Group :: string
  sp_Priority :: int
  sp_MaxReplicas :: "int option"

record RisingWaveScaleViewSpec =
  svs_TargetRef :: RisingWaveScaleViewTargetRef
  svs_Replicas :: "int option"
  svs_LabelSelector :: string
  svs_ScalePolicy :: "RisingWaveScaleViewSpecScalePolicy list"

record RisingWaveScaleViewStatus =
  svst_Replicas :: "int option"
  svst_Locked :: bool

record RisingWaveScaleView =
  sv_Meta :: ObjectMeta
  sv_Spec :: RisingWaveScaleViewSpec
  sv_Status :: RisingWaveScaleViewStatus

section \<open>RisingWave: meta store and state store\<close>

record RisingWaveEtcdCredentials =
  ec_SecretName :: string
  ec_UsernameKeyRef :: string
  ec_PasswordKeyRef :: string

record RisingWaveMetaStoreBackendEtcd =
  etcd_Credentials :: "RisingWaveEtcdCredentials option"
  etcd_Endpoint :: string
  etcd_Secret :: string

record RisingWaveMetaStoreBackendSQLite =
  sqlite_Path :: string

record RisingWaveDBCredentials =
  dbc_SecretName :: string
  dbc_UsernameKeyRef :: string
  dbc_PasswordKeyRef :: string

record RisingWaveMetaStoreBackendMySQL =
  mysql_Credentials :: RisingWaveDBCredentials
  mysql_Host :: string
  mysql_Port :: int
  mysql_Database :: string
  mysql_Options :: strmap

record RisingWaveMetaStoreBackendPostgreSQL =
  pg_Credentials :: RisingWaveDBCredentials
  pg_Host :: string
  pg_Port :: int
  pg_Database :: string
  pg_Options :: strmap

record RisingWaveMetaStoreBackend =
  ms_Memory :: "bool option"
  ms_Etcd :: "RisingWaveMetaStoreBackendEtcd option"
  ms_SQLite :: "RisingWaveMetaStoreBackendSQLite option"
  ms_MySQL :: "RisingWaveMetaStoreBackendMySQL option"
  ms_PostgreSQL :: "RisingWaveMetaStoreBackendPostgreSQL option"

record RisingWaveMinIOCredentials =
  mc_SecretName :: string
  mc_UsernameKeyRef :: string
  mc_PasswordKeyRef :: string

record RisingWaveStateStoreBackendMinIO =
  minio_Credentials :: RisingWaveMinIOCredentials
  minio_Endpoint :: string
  minio_Bucket :: string

record RisingWaveS3Credentials =
  s3c_UseServiceAccount :: "bool option"
  s3c_SecretName :: string
  s3c_AccessKeyRef :: string
  s3c_SecretAccessKeyRef :: string

record RisingWaveStateStoreBackendS3 =
  s3_Credentials :: RisingWaveS3Credentials
  s3_Bucket :: string
  s3_Region :: string
  s3_Endpoint :: string
  s3_ForcePathStyle :: bool

record RisingWaveGCSCredentials =
  gcsc_UseWorkloadIdentity :: "bool option"
  gcsc_SecretName :: string
  gcsc_ServiceAccountCredentialsKeyRef :: string

record RisingWaveStateStoreBackendGCS =
  gcs_Credentials :: RisingWaveGCSCredentials
  gcs_Bucket :: string
  gcs_Root :: string

record RisingWaveAzureBlobCredentials =
  azc_SecretName :: string
  azc_AccountNameRef :: string
  azc_AccountKeyRef :: string
  azc_UseServiceAccount :: "bool option"

record RisingWaveAliyunOSSCredentials =
  ossc_SecretName :: string
  ossc_AccessKeyIDRef :: string
  ossc_AccessKeySecretRef :: string

record RisingWaveStateStoreBackendAzureBlob =
  az_Credentials :: RisingWaveAzureBlobCredentials
  az_Container :: string
  az_Root :: string
  az_Endpoint :: string

record RisingWaveStateStoreBackendAliyunOSS =
  oss_Credentials :: RisingWaveAliyunOSSCredentials
  oss_Bucket :: string
  oss_Root :: string
  oss_Region :: string
  oss_InternalEndpoint :: bool

record RisingWaveStateStoreBackendHDFS =
  hdfs_NameNode :: string
  hdfs_Root :: string

record RisingWaveStateStoreBackendLocalDisk =
  ld_Root :: string

record RisingWaveHuaweiCloudOBSCredentials =
  obsc_SecretName :: string
  obsc_AccessKeyIDRef :: string
  obsc_AccessKeySecretRef :: string

record RisingWaveStateStoreBackendHuaweiCloudOBS =
  obs_Credentials :: RisingWaveHuaweiCloudOBSCredentials
  obs_Bucket :: string
  obs_Region :: string

record RisingWaveStateStoreBackend =
  ss_DataDirectory :: string
  ss_Memory :: "bool option"
  ss_LocalDisk :: "RisingWaveStateStoreBackendLocalDisk option"
  ss_MinIO :: "RisingWaveStateStoreBackendMinIO option"
  ss_S3 :: "RisingWaveStateStoreBackendS3 option"
  ss_GCS :: "RisingWaveStateStoreBackendGCS option"
  ss_AliyunOSS :: "RisingWaveStateStoreBackendAliyunOSS option"
  ss_AzureBlob :: "RisingWaveStateStoreBackendAzureBlob option"
  ss_HDFS :: "RisingWaveStateStoreBackendHDFS option"
  ss_WebHDFS :: "RisingWaveStateStoreBackendHDFS option"
  ss_HuaweiCloudOBS :: "RisingWaveStateStoreBackendHuaweiCloudOBS option"

section \<open>RisingWave: node groups and components\<close>

record RisingWaveNodeContainer =
  nc_Image :: string
  nc_EnvFrom :: "opaque list"
  nc_Env :: "EnvVar list"
  nc_Resources :: ResourceRequirements
  nc_VolumeMounts :: "VolumeMount list"
  nc_VolumeDevices :: "VolumeDevice list"
  nc_ImagePullPolicy :: string
  nc_SecurityContext :: "opaque option"

text \<open>The fields that end up unchanged in the pod are kept together in \<open>tps_Copied\<close>.\<close>

record RisingWaveNodePodTemplateSpec =
  tps_Container :: RisingWaveNodeContainer
  tps_Volumes :: "Volume list"
  tps_Copied :: PodCopied
  tps_AdditionalContainers :: "Container list"

record RisingWaveNodePodTemplate =
  npt_ObjectMeta :: PartialObjectMeta
  npt_Spec :: RisingWaveNodePodTemplateSpec

record RisingWaveNodeGroupRollingUpdate =
  ru_MaxUnavailable :: "IntOrString option"
  ru_Partition :: "IntOrString option"
  ru_MaxSurge :: "IntOrString option"

text \<open>\<^verbatim>\<open>kruisepubs.InPlaceUpdateStrategy\<close> has one field.\<close>

record InPlaceUpdateStrategy =
  ips_GracePeriodSeconds :: int

definition RisingWaveUpgradeStrategyTypeRecreate :: string where
  "RisingWaveUpgradeStrategyTypeRecreate = ''Recreate''"

definition RisingWaveUpgradeStrategyTypeRollingUpdate :: string where
  "RisingWaveUpgradeStrategyTypeRollingUpdate = ''RollingUpdate''"

definition RisingWaveUpgradeStrategyTypeInPlaceIfPossible :: string where
  "RisingWaveUpgradeStrategyTypeInPlaceIfPossible = ''InPlaceIfPossible''"

definition RisingWaveUpgradeStrategyTypeInPlaceOnly :: string where
  "RisingWaveUpgradeStrategyTypeInPlaceOnly = ''InPlaceOnly''"

record RisingWaveNodeGroupUpgradeStrategy =
  us_Type :: string
  us_RollingUpdate :: "RisingWaveNodeGroupRollingUpdate option"
  us_InPlaceUpdateStrategy :: "InPlaceUpdateStrategy option"

record RisingWaveNodeConfigurationConfigMapSource =
  cms_Name :: string
  cms_Key :: string
  cms_Optional :: "bool option"

record RisingWaveNodeConfigurationSecretSource =
  css_Name :: string
  css_Key :: string
  css_Optional :: "bool option"

record RisingWaveNodeConfiguration =
  cfg_ConfigMap :: "RisingWaveNodeConfigurationConfigMapSource option"
  cfg_Secret :: "RisingWaveNodeConfigurationSecretSource option"

record PersistentVolumeClaimPartialObjectMeta =
  pvcm_Name :: string
  pvcm_Labels :: strmap
  pvcm_Annotations :: strmap
  pvcm_Finalizers :: "string list"

record PersistentVolumeClaim =
  pvc_Meta :: PersistentVolumeClaimPartialObjectMeta
  pvc_Spec :: opaque

text \<open>\<^verbatim>\<open>appsv1.StatefulSetPersistentVolumeClaimRetentionPolicy\<close>, the same fields in the OpenKruise API.\<close>

record RetentionPolicy =
  rp_WhenDeleted :: string
  rp_WhenScaled :: string

record RisingWaveNodeGroup =
  ng_Name :: string
  ng_Replicas :: int
  ng_RestartAt :: "time option"
  ng_Configuration :: "RisingWaveNodeConfiguration option"
  ng_UpgradeStrategy :: RisingWaveNodeGroupUpgradeStrategy
  ng_MinReadySeconds :: int
  ng_VolumeClaimTemplates :: "PersistentVolumeClaim list"
  ng_PersistentVolumeClaimRetentionPolicy :: "RetentionPolicy option"
  ng_ProgressDeadlineSeconds :: "int option"
  ng_Template :: RisingWaveNodePodTemplate

record RisingWaveComponent =
  cmp_LogLevel :: string
  cmp_DisallowPrintStackTraces :: "bool option"
  cmp_NodeGroups :: "RisingWaveNodeGroup list"

record RisingWaveStandaloneComponent =
  sa_LogLevel :: string
  sa_DisallowPrintStackTraces :: "bool option"
  sa_RestartAt :: "time option"
  sa_Replicas :: int
  sa_UpgradeStrategy :: RisingWaveNodeGroupUpgradeStrategy
  sa_MinReadySeconds :: int
  sa_VolumeClaimTemplates :: "PersistentVolumeClaim list"
  sa_PersistentVolumeClaimRetentionPolicy :: "RetentionPolicy option"
  sa_ProgressDeadlineSeconds :: "int option"
  sa_Template :: RisingWaveNodePodTemplate

record RisingWaveComponentsSpec =
  comps_Standalone :: "RisingWaveStandaloneComponent option"
  comps_Meta :: RisingWaveComponent
  comps_Frontend :: RisingWaveComponent
  comps_Compute :: RisingWaveComponent
  comps_Compactor :: RisingWaveComponent

section \<open>RisingWave: spec and status\<close>

record RisingWaveSecretStorePrivateKeySecretReference =
  pkr_Name :: string
  pkr_Key :: string

record RisingWaveSecretStorePrivateKey =
  pk_Value :: "string option"
  pk_SecretRef :: "RisingWaveSecretStorePrivateKeySecretReference option"

record RisingWaveSecretStore =
  sst_PrivateKey :: RisingWaveSecretStorePrivateKey

record RisingWaveTLSConfiguration =
  tls_SecretName :: string

record RisingWaveLicenseKey =
  lic_SecretName :: string
  lic_SecretKey :: string
  lic_PassAsFile :: "bool option"

record RisingWaveSpec =
  rws_Components :: RisingWaveComponentsSpec
  rws_Configuration :: RisingWaveNodeConfiguration
  rws_EnableOpenKruise :: "bool option"
  rws_EnableDefaultServiceMonitor :: "bool option"
  rws_EnableFullKubernetesAddr :: "bool option"
  rws_EnableStandaloneMode :: "bool option"
  rws_EnableEmbeddedServingMode :: "bool option"
  rws_EnableAdvertisingWithIP :: "bool option"
  rws_EnableWebhookListener :: "bool option"
  rws_Image :: string
  rws_FrontendServiceType :: string
  rws_AdditionalFrontendServiceMetadata :: PartialObjectMeta
  rws_AdditionalMetaServiceMetadata :: PartialObjectMeta
  rws_MetaStore :: RisingWaveMetaStoreBackend
  rws_StateStore :: RisingWaveStateStoreBackend
  rws_TLS :: "RisingWaveTLSConfiguration option"
  rws_StandaloneMode :: int
  rws_LicenseKey :: "RisingWaveLicenseKey option"
  rws_SecretStore :: RisingWaveSecretStore

record ComponentGroupReplicasStatus =
  cgr_Name :: string
  cgr_Target :: int
  cgr_Running :: int
  cgr_Exists :: bool

record ComponentReplicasStatus =
  crs_Target :: int
  crs_Running :: int
  crs_Groups :: "ComponentGroupReplicasStatus list"

record RisingWaveComponentsReplicasStatus =
  crep_Meta :: ComponentReplicasStatus
  crep_Frontend :: ComponentReplicasStatus
  crep_Compute :: ComponentReplicasStatus
  crep_Compactor :: ComponentReplicasStatus
  crep_Standalone :: ComponentReplicasStatus

record RisingWaveCondition =
  rc_Type :: string
  rc_Status :: string
  rc_LastTransitionTime :: time
  rc_Reason :: string
  rc_Message :: string

record RisingWaveScaleViewLockGroupLock =
  gl_Name :: string
  gl_Replicas :: int

record RisingWaveScaleViewLock =
  lk_Name :: string
  lk_UID :: string
  lk_Component :: string
  lk_Generation :: int
  lk_GroupLocks :: "RisingWaveScaleViewLockGroupLock list"

text \<open>\<^verbatim>\<open>RisingWaveInternalStatus\<close>, \<^verbatim>\<open>RisingWaveMetaStoreStatus\<close> and \<^verbatim>\<open>RisingWaveStateStoreStatus\<close> have one
  string each, which stands for the struct here.\<close>

record RisingWaveStatus =
  rst_ObservedGeneration :: int
  rst_Version :: string
  rst_ComponentReplicas :: RisingWaveComponentsReplicasStatus
  rst_Conditions :: "RisingWaveCondition list"
  rst_ScaleViews :: "RisingWaveScaleViewLock list"
  rst_StateStoreRootPath :: string
  rst_MetaStore :: string
  rst_StateStore :: string

record RisingWave =
  rw_Meta :: ObjectMeta
  rw_Spec :: RisingWaveSpec
  rw_Status :: RisingWaveStatus

section \<open>Zero values\<close>

text \<open>The Go zero value of each struct, for \<^verbatim>\<open>var x T\<close>.\<close>

definition zeroObjectMeta :: ObjectMeta where
  "zeroObjectMeta = \<lparr>om_Name = [], om_Namespace = [], om_UID = [], om_Generation = 0, om_Labels = [],
     om_Annotations = [], om_Finalizers = [], om_DeletionTimestamp = None, om_OwnerReferences = []\<rparr>"

definition zeroPartialObjectMeta :: PartialObjectMeta where
  "zeroPartialObjectMeta = \<lparr>pm_Labels = [], pm_Annotations = []\<rparr>"

definition zeroPodCopied :: PodCopied where
  "zeroPodCopied = \<lparr>pc_ActiveDeadlineSeconds = None, pc_TerminationGracePeriodSeconds = None, pc_DNSPolicy = [], pc_NodeSelector = [],
     pc_ServiceAccountName = [], pc_AutomountServiceAccountToken = None, pc_HostPID = False, pc_HostIPC = False,
     pc_ShareProcessNamespace = None, pc_SecurityContext = None, pc_ImagePullSecrets = [], pc_Affinity = None,
     pc_SchedulerName = [], pc_Tolerations = [], pc_HostAliases = [], pc_PriorityClassName = [], pc_Priority = None,
     pc_DNSConfig = None, pc_RuntimeClassName = None, pc_PreemptionPolicy = None, pc_TopologySpreadConstraints = [],
     pc_SetHostnameAsFQDN = None, pc_OS = None, pc_HostUsers = None\<rparr>"

definition zeroPodTemplate :: RisingWaveNodePodTemplate where
  "zeroPodTemplate = \<lparr>npt_ObjectMeta = zeroPartialObjectMeta,
     npt_Spec = \<lparr>tps_Container = \<lparr>nc_Image = [], nc_EnvFrom = [], nc_Env = [], nc_Resources = \<lparr>rr_Limits = None, rr_Requests = None\<rparr>,
         nc_VolumeMounts = [], nc_VolumeDevices = [], nc_ImagePullPolicy = [], nc_SecurityContext = None\<rparr>,
       tps_Volumes = [], tps_Copied = zeroPodCopied, tps_AdditionalContainers = []\<rparr>\<rparr>"

definition zeroComponent :: RisingWaveComponent where
  "zeroComponent = \<lparr>cmp_LogLevel = [], cmp_DisallowPrintStackTraces = None, cmp_NodeGroups = []\<rparr>"

definition zeroMetaStore :: RisingWaveMetaStoreBackend where
  "zeroMetaStore = \<lparr>ms_Memory = None, ms_Etcd = None, ms_SQLite = None, ms_MySQL = None, ms_PostgreSQL = None\<rparr>"

definition zeroStateStore :: RisingWaveStateStoreBackend where
  "zeroStateStore = \<lparr>ss_DataDirectory = [], ss_Memory = None, ss_LocalDisk = None, ss_MinIO = None, ss_S3 = None,
     ss_GCS = None, ss_AliyunOSS = None, ss_AzureBlob = None, ss_HDFS = None, ss_WebHDFS = None,
     ss_HuaweiCloudOBS = None\<rparr>"

definition zeroSpec :: RisingWaveSpec where
  "zeroSpec = \<lparr>rws_Components = \<lparr>comps_Standalone = None, comps_Meta = zeroComponent, comps_Frontend = zeroComponent,
       comps_Compute = zeroComponent, comps_Compactor = zeroComponent\<rparr>,
     rws_Configuration = \<lparr>cfg_ConfigMap = None, cfg_Secret = None\<rparr>,
     rws_EnableOpenKruise = None, rws_EnableDefaultServiceMonitor = None, rws_EnableFullKubernetesAddr = None,
     rws_EnableStandaloneMode = None, rws_EnableEmbeddedServingMode = None, rws_EnableAdvertisingWithIP = None,
     rws_EnableWebhookListener = None, rws_Image = [], rws_FrontendServiceType = [],
     rws_AdditionalFrontendServiceMetadata = zeroPartialObjectMeta,
     rws_AdditionalMetaServiceMetadata = zeroPartialObjectMeta,
     rws_MetaStore = zeroMetaStore, rws_StateStore = zeroStateStore,
     rws_TLS = None, rws_StandaloneMode = 0, rws_LicenseKey = None,
     rws_SecretStore = \<lparr>sst_PrivateKey = \<lparr>pk_Value = None, pk_SecretRef = None\<rparr>\<rparr>\<rparr>"

definition zeroReplicasStatus :: ComponentReplicasStatus where
  "zeroReplicasStatus = \<lparr>crs_Target = 0, crs_Running = 0, crs_Groups = []\<rparr>"

definition zeroStatus :: RisingWaveStatus where
  "zeroStatus = \<lparr>rst_ObservedGeneration = 0, rst_Version = [],
     rst_ComponentReplicas = \<lparr>crep_Meta = zeroReplicasStatus, crep_Frontend = zeroReplicasStatus,
       crep_Compute = zeroReplicasStatus, crep_Compactor = zeroReplicasStatus, crep_Standalone = zeroReplicasStatus\<rparr>,
     rst_Conditions = [], rst_ScaleViews = [], rst_StateStoreRootPath = [],
     rst_MetaStore = [], rst_StateStore = []\<rparr>"

definition zeroRisingWave :: RisingWave where
  "zeroRisingWave = \<lparr>rw_Meta = zeroObjectMeta, rw_Spec = zeroSpec, rw_Status = zeroStatus\<rparr>"

lemmas zero_defs = zeroObjectMeta_def zeroPartialObjectMeta_def zeroPodCopied_def zeroPodTemplate_def zeroComponent_def zeroMetaStore_def
  zeroStateStore_def zeroSpec_def zeroReplicasStatus_def zeroStatus_def zeroRisingWave_def

section \<open>Example objects\<close>

text \<open>A RisingWave with three compute groups, used by the witnesses.\<close>

definition demoNodeGroup :: "string \<Rightarrow> int \<Rightarrow> RisingWaveNodeGroup" where
  "demoNodeGroup g n = \<lparr>ng_Name = g, ng_Replicas = n, ng_RestartAt = None, ng_Configuration = None,
     ng_UpgradeStrategy = \<lparr>us_Type = [], us_RollingUpdate = None, us_InPlaceUpdateStrategy = None\<rparr>,
     ng_MinReadySeconds = 0, ng_VolumeClaimTemplates = [], ng_PersistentVolumeClaimRetentionPolicy = None, ng_ProgressDeadlineSeconds = None,
     ng_Template = zeroPodTemplate\<rparr>"

definition demoRisingWave :: RisingWave where
  "demoRisingWave = zeroRisingWave\<lparr>rw_Meta := zeroObjectMeta\<lparr>om_Name := ''rw'', om_Namespace := ''ns'', om_UID := ''uid-rw''\<rparr>,
     rw_Spec := zeroSpec\<lparr>rws_Components := \<lparr>comps_Standalone = None, comps_Meta = zeroComponent, comps_Frontend = zeroComponent,
       comps_Compute = zeroComponent\<lparr>cmp_NodeGroups := [demoNodeGroup ''a'' 1, demoNodeGroup ''b'' 2, demoNodeGroup ''c'' 3]\<rparr>,
       comps_Compactor = zeroComponent\<rparr>\<rparr>\<rparr>"

end
