(* ===== verification/ScaleSplit.thy ===== *)
theory ScaleSplit
  imports RwApi "HOL-Library.Product_Lexorder" "HOL-Library.Multiset"
begin

text \<open>
  \<^verbatim>\<open>pkg/object/scaleview/split.go\<close>: how the replicas of a RisingWaveScaleView are divided among its
  groups. The groups are taken by priority, highest first; inside a priority they are filled evenly
  up to their limits. The first part is the code; the second part (\<open>shares\<close>) is the division of one
  priority class as a function of the limits alone, with its bounds, its sum and its fairness; the
  third part carries those facts over to \<open>SplitReplicas\<close>.
\<close>

section \<open>The code\<close>

definition split_share :: "int \<Rightarrow> int \<Rightarrow> int" where
  "split_share t n = (if go_rem t n = 0 then go_quot t n else go_quot t n + 1)"

definition canonizeScalePolicy ::
  "RisingWaveScaleViewSpecScalePolicy \<Rightarrow> RisingWaveScaleViewSpecScalePolicy" where
  "canonizeScalePolicy p =
     (case sp_MaxReplicas p of
        None \<Rightarrow> p\<lparr>sp_MaxReplicas := Some MaxInt32\<rparr>
      | Some _ \<Rightarrow> p)"

text \<open>\<^verbatim>\<open>*g.MaxReplicas\<close> of a canonized policy, which is never nil.\<close>

definition maxReplicasOf :: "RisingWaveScaleViewSpecScalePolicy \<Rightarrow> int" where
  "maxReplicasOf g = (case sp_MaxReplicas g of Some m \<Rightarrow> m | None \<Rightarrow> 0)"

definition addToGroups ::
  "(int \<times> RisingWaveScaleViewSpecScalePolicy list) list \<Rightarrow> RisingWaveScaleViewSpecScalePolicy
   \<Rightarrow> (int \<times> RisingWaveScaleViewSpecScalePolicy list) list" where
  "addToGroups m p =
     (case map_of m (sp_Priority p) of
        None \<Rightarrow> alUpdate (sp_Priority p) [canonizeScalePolicy p] m
      | Some gs \<Rightarrow> alUpdate (sp_Priority p) (gs @ [canonizeScalePolicy p]) m)"

definition groupsByPriority ::
  "RisingWaveScaleViewSpecScalePolicy list \<Rightarrow> (int \<times> RisingWaveScaleViewSpecScalePolicy list) list" where
  "groupsByPriority ps = foldl addToGroups [] ps"

text \<open>\<^verbatim>\<open>sort.Slice\<close> by limit, then by group name.\<close>

definition sortGroups ::
  "RisingWaveScaleViewSpecScalePolicy list \<Rightarrow> RisingWaveScaleViewSpecScalePolicy list" where
  "sortGroups gs = sort_key (\<lambda>g. (maxReplicasOf g, sp_Group g)) gs"

text \<open>The loop over the groups of one priority; the state is \<^verbatim>\<open>(totalLeft, replicas)\<close>.\<close>

fun takeGroups ::
  "RisingWaveScaleViewSpecScalePolicy list \<Rightarrow> int \<Rightarrow> (string \<times> int) list \<Rightarrow> int \<times> (string \<times> int) list" where
  "takeGroups [] totalLeft replicas = (totalLeft, replicas)"
| "takeGroups (g # gs) totalLeft replicas =
     (let maxValue = maxReplicasOf g; left = int (length (g # gs)) in
      if i64 (maxValue * left) \<le> totalLeft
      then takeGroups gs (i64 (totalLeft - maxValue)) (alUpdate (sp_Group g) (i32 maxValue) replicas)
      else let taken = split_share totalLeft left in
           takeGroups gs (i64 (totalLeft - taken)) (alUpdate (sp_Group g) (i32 taken) replicas))"

text \<open>The loop over the priorities.\<close>

fun takePriorities ::
  "(int \<times> RisingWaveScaleViewSpecScalePolicy list) list \<Rightarrow> int list \<Rightarrow> int \<Rightarrow> (string \<times> int) list
   \<Rightarrow> int \<times> (string \<times> int) list" where
  "takePriorities m [] totalLeft replicas = (totalLeft, replicas)"
| "takePriorities m (p # ps) totalLeft replicas =
     (let groups = sortGroups (case map_of m p of Some gs \<Rightarrow> gs | None \<Rightarrow> []) in
      if totalLeft \<le> 0
      then takePriorities m ps totalLeft (foldl (\<lambda>r g. alUpdate (sp_Group g) 0 r) replicas groups)
      else (case takeGroups groups totalLeft replicas of
              (totalLeft', replicas') \<Rightarrow> takePriorities m ps totalLeft' replicas'))"

definition sumReplicas :: "(string \<times> int) list \<Rightarrow> int" where
  "sumReplicas r = foldl (\<lambda>s kv. i32 (s + snd kv)) 0 r"

definition derefReplicas :: "RisingWaveScaleView \<Rightarrow> int" where
  "derefReplicas sv = (case svs_Replicas (sv_Spec sv) of Some n \<Rightarrow> n | None \<Rightarrow> 0)"

definition SplitReplicas :: "RisingWaveScaleView \<Rightarrow> (string \<times> int) list outcome" where
  "SplitReplicas sv =
     (let m = groupsByPriority (svs_ScalePolicy (sv_Spec sv));
          priorities = rev (sort (map fst m));
          replicas = snd (takePriorities m priorities (derefReplicas sv) [])
      in if sumReplicas replicas \<noteq> derefReplicas sv then Panics ''algorithm has bug''
         else Returns replicas)"

section \<open>The division of one priority class\<close>

text \<open>
  \<open>shares ms t\<close> is what \<open>takeGroups\<close> takes for groups with the limits \<open>ms\<close> when \<open>t\<close> replicas are
  left, without the machine integers and without the names.
\<close>

fun shares :: "int list \<Rightarrow> int \<Rightarrow> int list" where
  "shares [] t = []"
| "shares (m # ms) t =
     (let n = int (length ms) + 1 in
      if m * n \<le> t then m # shares ms (t - m)
      else (let k = (t + n - 1) div n in k # shares ms (t - k)))"

lemma length_shares [simp]: "length (shares ms t) = length ms"
  by (induction ms t rule: shares.induct) (simp_all add: Let_def)

lemma ceil_div_bounds:
  fixes t n :: int
  assumes "0 < n"
  shows "t \<le> ((t + n - 1) div n) * n" and "((t + n - 1) div n) * n < t + n"
proof -
  have "t + n - 1 = ((t + n - 1) div n) * n + (t + n - 1) mod n" by simp
  moreover have "0 \<le> (t + n - 1) mod n" "(t + n - 1) mod n < n" using assms by simp_all
  ultimately show "t \<le> ((t + n - 1) div n) * n" and "((t + n - 1) div n) * n < t + n" by linarith+
qed

lemma split_share_ceil:
  assumes "0 \<le> t" "0 < n"
  shows "split_share t n = (t + n - 1) div n"
proof -
  let ?q = "t div n" and ?r = "t mod n"
  have t: "t = n * ?q + ?r" by simp
  have r: "0 \<le> ?r" "?r < n" using assms(2) by simp_all
  show ?thesis
  proof (cases "?r = 0")
    case True
    have "(t + n - 1) div n = ?q"
      by (rule int_div_pos_eq [of _ _ _ "n - 1"]) (use t True assms(2) in linarith)+
    then show ?thesis using assms True by (simp add: split_share_def go_rem_nonneg go_quot_nonneg)
  next
    case False
    have e: "t + n - 1 = n * (?q + 1) + (?r - 1)" using t by (simp add: distrib_left)
    have "(t + n - 1) div n = ?q + 1"
      by (rule int_div_pos_eq [OF e]) (use False r in linarith)+
    then show ?thesis using assms False by (simp add: split_share_def go_rem_nonneg go_quot_nonneg)
  qed
qed

text \<open>Even phase: once the limits no longer bind, every share is one of two neighbouring values.\<close>

lemma shares_even:
  assumes "a * int (length ms) \<le> t" "t \<le> b * int (length ms)" "b \<le> a + 1" "a \<le> b"
    and "\<forall>m \<in> set ms. b \<le> m"
  shows "sum_list (shares ms t) = t \<and> (\<forall>x \<in> set (shares ms t). a \<le> x \<and> x \<le> b)"
  using assms
proof (induction ms arbitrary: t)
  case Nil
  then show ?case by simp
next
  case (Cons m ms)
  let ?n = "int (length ms) + 1"
  let ?k = "(t + ?n - 1) div ?n"
  have lo: "a * ?n \<le> t" and hi: "t \<le> b * ?n" using Cons.prems(1,2) by (simp_all add: algebra_simps)
  have bm: "b \<le> m" "\<forall>m \<in> set ms. b \<le> m" using Cons.prems(5) by simp_all
  show ?case
  proof (cases "m * ?n \<le> t")
    case True
    have "m * ?n \<le> b * ?n" using True hi by linarith
    then have mb: "m = b" using bm(1) by (simp add: mult_le_cancel_right)
    then have t: "t = b * ?n" using True hi by simp
    have "a * int (length ms) \<le> b * int (length ms)" using Cons.prems(4) by (simp add: mult_right_mono)
    then have "sum_list (shares ms (t - m)) = t - m \<and> (\<forall>x \<in> set (shares ms (t - m)). a \<le> x \<and> x \<le> b)"
      using Cons.IH [of "t - m"] Cons.prems(3,4) bm(2) t mb by (simp add: algebra_simps)
    then show ?thesis using True mb Cons.prems(4) by (simp add: Let_def)
  next
    case False
    have k1: "t \<le> ?k * ?n" and k2: "?k * ?n < t + ?n" using ceil_div_bounds [of ?n t] by simp_all
    have "a * ?n \<le> ?k * ?n" using lo k1 by linarith
    then have ak: "a \<le> ?k" by (simp add: mult_le_cancel_right)
    have "?k * ?n < (b + 1) * ?n" using hi k2 by (simp add: algebra_simps)
    then have kb: "?k \<le> b" by (simp add: mult_less_cancel_right)
    have r: "a * int (length ms) \<le> t - ?k" "t - ?k \<le> b * int (length ms)"
    proof -
      consider "?k = a" | "?k = b" "?k = a + 1" using ak kb Cons.prems(3) by linarith
      then show "a * int (length ms) \<le> t - ?k"
        using lo k2 by cases (simp_all add: algebra_simps)
      from ak kb Cons.prems(3) consider "?k = b" | "?k = a" by linarith
      then show "t - ?k \<le> b * int (length ms)"
      proof cases
        case 1
        then show ?thesis using hi by (simp add: algebra_simps)
      next
        case 2
        have "a * int (length ms) \<le> b * int (length ms)" using Cons.prems(4) by (simp add: mult_right_mono)
        then show ?thesis using k1 2 by (simp add: algebra_simps)
      qed
    qed
    have "sum_list (shares ms (t - ?k)) = t - ?k \<and> (\<forall>x \<in> set (shares ms (t - ?k)). a \<le> x \<and> x \<le> b)"
      using Cons.IH [OF r Cons.prems(3,4) bm(2)] .
    then show ?thesis using False ak kb by (simp add: Let_def)
  qed
qed

text \<open>When the first limit does not fit evenly, the rest of the class is in the even phase.\<close>

lemma shares_tail_even:
  assumes "sorted (m # ms)" "0 \<le> t" "t < m * (int (length ms) + 1)"
  defines "a \<equiv> t div (int (length ms) + 1)"
  shows "sum_list (shares (m # ms) t) = t"
    and "\<forall>x \<in> set (shares (m # ms) t). a \<le> x \<and> x \<le> a + 1"
    and "\<forall>x \<in> set (shares (m # ms) t). \<forall>m' \<in> set (m # ms). x \<le> m'"
proof -
  let ?n = "int (length ms) + 1"
  let ?b = "(t + ?n - 1) div ?n"
  have n: "0 < ?n" by simp
  have t: "t = a * ?n + t mod ?n" unfolding a_def by (rule div_mult_mod_eq [symmetric])
  have r: "0 \<le> t mod ?n" "t mod ?n < ?n" by (rule pos_mod_sign [OF n], rule pos_mod_bound [OF n])
  have k: "t \<le> ?b * ?n" "?b * ?n < t + ?n" using ceil_div_bounds [OF n] by simp_all
  have "(a + 2) * ?n = a * ?n + ?n + ?n" by (simp add: algebra_simps)
  then have "?b * ?n < (a + 2) * ?n" using k(2) t r by linarith
  then have b1: "?b \<le> a + 1" by (simp add: mult_less_cancel_right)
  have "a * ?n \<le> ?b * ?n" using k(1) t r by linarith
  then have b2: "a \<le> ?b" by (simp add: mult_le_cancel_right)
  have "?b * ?n < (m + 1) * ?n" using assms(3) k(2) by (simp add: algebra_simps)
  then have bm: "?b \<le> m" by (simp add: mult_less_cancel_right)
  then have all: "\<forall>m' \<in> set (m # ms). ?b \<le> m'" using assms(1) by auto
  have len: "int (length (m # ms)) = ?n" by simp
  have "a * int (length (m # ms)) \<le> t" "t \<le> ?b * int (length (m # ms))"
    unfolding len using t r k(1) by linarith+
  from shares_even [OF this b1 b2 all]
  have e: "sum_list (shares (m # ms) t) = t" "\<forall>x \<in> set (shares (m # ms) t). a \<le> x \<and> x \<le> ?b"
    by blast+
  show "sum_list (shares (m # ms) t) = t" by (rule e(1))
  show "\<forall>x \<in> set (shares (m # ms) t). a \<le> x \<and> x \<le> a + 1" using e(2) b1 by force
  show "\<forall>x \<in> set (shares (m # ms) t). \<forall>m' \<in> set (m # ms). x \<le> m'" using e(2) all by force
qed

lemma shares_lower:
  assumes "sorted ms" "\<forall>m \<in> set ms. l \<le> m" "0 \<le> t" "l * int (length ms) \<le> t"
  shows "\<forall>x \<in> set (shares ms t). l \<le> x"
  using assms
proof (induction ms arbitrary: t)
  case Nil
  then show ?case by simp
next
  case (Cons m ms)
  let ?n = "int (length ms) + 1"
  show ?case
  proof (cases "m * ?n \<le> t")
    case True
    have lm: "l * int (length ms) \<le> m * int (length ms)"
      using Cons.prems(2) by (simp add: mult_right_mono)
    have l1: "l * int (length ms) \<le> t - m" using True lm by (simp add: algebra_simps)
    have "\<forall>x \<in> set (shares ms (t - m)). l \<le> x"
    proof (cases "ms = []")
      case True
      then show ?thesis by simp
    next
      case False
      then have "0 \<le> t - m"
      proof (cases "0 \<le> m")
        case True
        then have "0 \<le> m * int (length ms)" by simp
        then show ?thesis using \<open>m * ?n \<le> t\<close> by (simp add: algebra_simps)
      next
        case False
        then show ?thesis using Cons.prems(3) by simp
      qed
      then show ?thesis using Cons.IH [of "t - m"] Cons.prems(1,2) l1 by auto
    qed
    then show ?thesis using True Cons.prems(2) by (simp add: Let_def)
  next
    case False
    then have lt: "t < m * ?n" by simp
    have "(l * ?n) div ?n \<le> t div ?n"
      by (rule zdiv_mono1) (use Cons.prems(4) in \<open>simp_all add: algebra_simps\<close>)
    then have "l \<le> t div ?n" by simp
    then show ?thesis using shares_tail_even(2) [OF Cons.prems(1,3) lt] by force
  qed
qed

lemma shares_correct:
  assumes "sorted ms" "\<forall>m \<in> set ms. 0 \<le> m" "0 \<le> t"
  shows "sum_list (shares ms t) = min t (sum_list ms)"
    and "\<forall>(x, m) \<in> set (zip (shares ms t) ms). 0 \<le> x \<and> x \<le> m"
    and "\<forall>(x, m) \<in> set (zip (shares ms t) ms). \<forall>y \<in> set (shares ms t). x < m \<longrightarrow> y \<le> x + 1"
proof -
  have "sum_list (shares ms t) = min t (sum_list ms)
    \<and> (\<forall>(x, m) \<in> set (zip (shares ms t) ms). 0 \<le> x \<and> x \<le> m)
    \<and> (\<forall>(x, m) \<in> set (zip (shares ms t) ms). \<forall>y \<in> set (shares ms t). x < m \<longrightarrow> y \<le> x + 1)"
    using assms
  proof (induction ms arbitrary: t)
    case Nil
    then show ?case by simp
  next
    case (Cons m ms)
    let ?n = "int (length ms) + 1"
    have m0: "0 \<le> m" "\<forall>m' \<in> set ms. m \<le> m'" "sorted ms" using Cons.prems(1,2) by auto
    show ?case
    proof (cases "m * ?n \<le> t")
      case True
      have tm: "m * int (length ms) \<le> t - m" using True by (simp add: algebra_simps)
      have "0 \<le> m * int (length ms)" using m0(1) by simp
      then have t0: "0 \<le> t - m" using tm by linarith
      note IH = Cons.IH [OF m0(3) _ t0]
      have low: "\<forall>x \<in> set (shares ms (t - m)). m \<le> x"
        by (rule shares_lower [OF m0(3,2) t0 tm])
      have z: "x \<in> set (shares ms (t - m))" if "(x, k) \<in> set (zip (shares ms (t - m)) ms)" for x k
        using that by (rule set_zip_leftD)
      show ?thesis using IH Cons.prems(2) low True m0 z by (fastforce simp: Let_def)
    next
      case False
      then have lt: "t < m * ?n" by simp
      note e = shares_tail_even [OF Cons.prems(1,3) lt]
      have "sum_list (m # ms) \<ge> m * ?n"
        using m0(2) by (induction ms) (auto simp: algebra_simps)
      then have s: "min t (sum_list (m # ms)) = t" using lt by linarith
      have a0: "0 \<le> t div ?n" using Cons.prems(3) by (simp add: pos_imp_zdiv_nonneg_iff)
      have z: "x \<in> set (shares (m # ms) t) \<and> k \<in> set (m # ms)"
        if "(x, k) \<in> set (zip (shares (m # ms) t) (m # ms))" for x k
        using that by (blast dest: set_zip_leftD set_zip_rightD)
      show ?thesis
      proof (intro conjI)
        show "sum_list (shares (m # ms) t) = min t (sum_list (m # ms))" using e(1) s by simp
        show "\<forall>(x, k) \<in> set (zip (shares (m # ms) t) (m # ms)). 0 \<le> x \<and> x \<le> k"
          using e(2,3) a0 z by (force simp del: shares.simps)
        show "\<forall>(x, k) \<in> set (zip (shares (m # ms) t) (m # ms)). \<forall>y \<in> set (shares (m # ms) t). x < k \<longrightarrow> y \<le> x + 1"
        proof (clarify, rule order_trans)
          fix x k y
          assume "(x, k) \<in> set (zip (shares (m # ms) t) (m # ms))" and y: "y \<in> set (shares (m # ms) t)"
          then show "t div ?n + 1 \<le> x + 1" using e(2) z by (simp del: shares.simps)
          show "y \<le> t div ?n + 1" using e(2) y by blast
        qed
      qed
    qed
  qed
  then show "sum_list (shares ms t) = min t (sum_list ms)"
    and "\<forall>(x, m) \<in> set (zip (shares ms t) ms). 0 \<le> x \<and> x \<le> m"
    and "\<forall>(x, m) \<in> set (zip (shares ms t) ms). \<forall>y \<in> set (shares ms t). x < m \<longrightarrow> y \<le> x + 1"
    by blast+
qed

section \<open>From the shares to the code\<close>

text \<open>What the CRD schema and the machine allow a scale view to hold.\<close>

definition policy_ok :: "RisingWaveScaleViewSpecScalePolicy \<Rightarrow> bool" where
  "policy_ok p \<longleftrightarrow> (case sp_MaxReplicas p of None \<Rightarrow> True | Some m \<Rightarrow> 0 \<le> m \<and> m \<le> MaxInt32)"

definition policies_ok :: "RisingWaveScaleViewSpecScalePolicy list \<Rightarrow> bool" where
  "policies_ok ps \<longleftrightarrow> distinct (map sp_Group ps) \<and> (\<forall>p \<in> set ps. policy_ok p) \<and> length ps < 2147483648"

definition limitOf :: "RisingWaveScaleViewSpecScalePolicy \<Rightarrow> int" where
  "limitOf p = (case sp_MaxReplicas p of None \<Rightarrow> MaxInt32 | Some m \<Rightarrow> m)"

lemma canonize_simps [simp]:
  "sp_Group (canonizeScalePolicy p) = sp_Group p"
  "sp_Priority (canonizeScalePolicy p) = sp_Priority p"
  "maxReplicasOf (canonizeScalePolicy p) = limitOf p"
  by (simp_all add: canonizeScalePolicy_def maxReplicasOf_def limitOf_def split: option.splits)

lemma policy_ok_limit: "policy_ok p \<Longrightarrow> 0 \<le> limitOf p \<and> limitOf p \<le> MaxInt32"
  by (simp add: policy_ok_def limitOf_def MaxInt32_def split: option.splits)

abbreviation limits :: "RisingWaveScaleViewSpecScalePolicy list \<Rightarrow> int list" where
  "limits gs \<equiv> map maxReplicasOf gs"

lemma ceil_le_total:
  fixes t n :: int
  assumes "0 \<le> t" "0 < n"
  shows "0 \<le> (t + n - 1) div n" and "(t + n - 1) div n \<le> t"
proof -
  show "0 \<le> (t + n - 1) div n" using assms by (simp add: pos_imp_zdiv_nonneg_iff)
  have "0 \<le> t * (n - 1)" using assms by simp
  then have "t + n \<le> (t + 1) * n" by (simp add: algebra_simps)
  then have "((t + n - 1) div n) * n < (t + 1) * n" using ceil_div_bounds(2) [OF assms(2), of t] by linarith
  then show "(t + n - 1) div n \<le> t" using assms(2) by (simp add: mult_less_cancel_right)
qed

lemma takeGroups_shares:
  assumes "\<forall>g \<in> set gs. 0 \<le> maxReplicasOf g \<and> maxReplicasOf g \<le> MaxInt32"
    and "length gs < 2147483648" "0 \<le> t" "t \<le> MaxInt32"
    and "distinct (map sp_Group gs)" "sp_Group ` set gs \<inter> fst ` set r = {}"
  shows "takeGroups gs t r =
    (t - sum_list (shares (limits gs) t), r @ zip (map sp_Group gs) (shares (limits gs) t))"
  using assms
proof (induction gs arbitrary: t r)
  case Nil
  then show ?case by simp
next
  case (Cons g gs)
  let ?m = "maxReplicasOf g" and ?n = "int (length gs) + 1"
  let ?k = "(t + ?n - 1) div ?n"
  have m: "0 \<le> ?m" "?m \<le> 2147483647" using Cons.prems(1) by (auto simp: MaxInt32_def)
  have n: "0 < ?n" "?n \<le> 2147483648" using Cons.prems(2) by simp_all
  have "?m * ?n \<le> 2147483647 * 2147483648" using m n by (intro mult_mono) simp_all
  moreover have "0 \<le> ?m * ?n" using m n by simp
  ultimately have w: "i64 (?m * ?n) = ?m * ?n" by (intro i64_id) simp_all
  have k: "0 \<le> ?k" "?k \<le> t" "split_share t ?n = ?k"
    using ceil_le_total [OF Cons.prems(3) n(1)] split_share_ceil [OF Cons.prems(3) n(1)] by simp_all
  have step: "takeGroups gs (t - x) (r @ [(sp_Group g, x)]) =
      (t - x - sum_list (shares (limits gs) (t - x)),
       (r @ [(sp_Group g, x)]) @ zip (map sp_Group gs) (shares (limits gs) (t - x)))"
    if "0 \<le> x" "x \<le> t" for x
    using that Cons.prems by (intro Cons.IH) auto
  have fresh: "alUpdate (sp_Group g) x r = r @ [(sp_Group g, x)]" for x
    using Cons.prems(6) by (intro alUpdate_fresh) auto
  have t: "t \<le> 2147483647" using Cons.prems(4) by (simp add: MaxInt32_def)
  have len: "int (Suc (length gs)) = ?n" by simp
  show ?case
  proof (cases "?m * ?n \<le> t")
    case True
    have "0 \<le> ?m * int (length gs)" using m(1) by simp
    then have mt: "?m \<le> t" using True by (simp add: algebra_simps)
    have e: "i64 (t - ?m) = t - ?m" "i32 ?m = ?m"
      using m mt t Cons.prems(3) by (simp_all add: i32_rules is_i32_def)
    show ?thesis using True step [OF m(1) mt] fresh
      by (simp add: Let_def w e len del: of_nat_Suc)
  next
    case False
    have e: "i64 (t - ?k) = t - ?k" "i32 ?k = ?k"
      using k(1,2) t Cons.prems(3) by (simp_all add: i32_rules is_i32_def)
    show ?thesis using False step [OF k(1,2)] fresh e
      by (simp add: Let_def w k(3) len del: of_nat_Suc)
  qed
qed

text \<open>The values of all classes, in the order of the priorities.\<close>

fun classValues :: "RisingWaveScaleViewSpecScalePolicy list list \<Rightarrow> int \<Rightarrow> int list" where
  "classValues [] t = []"
| "classValues (gs # gss) t =
     shares (limits gs) t @ classValues gss (t - sum_list (shares (limits gs) t))"

lemma length_classValues [simp]: "length (classValues gss t) = length (concat gss)"
  by (induction gss arbitrary: t) simp_all

lemma shares_zero: "\<forall>m \<in> set ms. 0 \<le> m \<Longrightarrow> shares ms 0 = map (\<lambda>_. 0) ms"
proof (induction ms)
  case Nil
  then show ?case by simp
next
  case (Cons m ms)
  have "m = 0 \<or> 0 < m * (int (length ms) + 1)" using Cons.prems by (auto simp: order_le_less)
  then show ?case using Cons by (auto simp: Let_def)
qed

lemma zero_loop:
  assumes "distinct (map sp_Group gs)" "sp_Group ` set gs \<inter> fst ` set r = {}"
  shows "foldl (\<lambda>r g. alUpdate (sp_Group g) 0 r) r gs = r @ zip (map sp_Group gs) (map (\<lambda>_. 0) gs)"
  using assms
proof (induction gs arbitrary: r)
  case Nil
  then show ?case by simp
next
  case (Cons g gs)
  have "alUpdate (sp_Group g) 0 r = r @ [(sp_Group g, 0)]"
    using Cons.prems(2) by (intro alUpdate_fresh) auto
  then show ?case using Cons.IH [of "r @ [(sp_Group g, 0)]"] Cons.prems by auto
qed

definition class_ok :: "RisingWaveScaleViewSpecScalePolicy list \<Rightarrow> bool" where
  "class_ok gs \<longleftrightarrow> sorted (limits gs) \<and> length gs < 2147483648 \<and>
     (\<forall>g \<in> set gs. 0 \<le> maxReplicasOf g \<and> maxReplicasOf g \<le> MaxInt32)"

lemma class_ok_shares:
  assumes "class_ok gs" "0 \<le> t"
  shows "sum_list (shares (limits gs) t) = min t (sum_list (limits gs))"
    and "\<forall>(x, m) \<in> set (zip (shares (limits gs) t) (limits gs)). 0 \<le> x \<and> x \<le> m"
    and "\<forall>(x, m) \<in> set (zip (shares (limits gs) t) (limits gs)).
           \<forall>y \<in> set (shares (limits gs) t). x < m \<longrightarrow> y \<le> x + 1"
    and "0 \<le> sum_list (limits gs)"
proof -
  have *: "sorted (limits gs)" "\<forall>m \<in> set (limits gs). 0 \<le> m" using assms(1) by (auto simp: class_ok_def)
  show "sum_list (shares (limits gs) t) = min t (sum_list (limits gs))"
    and "\<forall>(x, m) \<in> set (zip (shares (limits gs) t) (limits gs)). 0 \<le> x \<and> x \<le> m"
    and "\<forall>(x, m) \<in> set (zip (shares (limits gs) t) (limits gs)).
           \<forall>y \<in> set (shares (limits gs) t). x < m \<longrightarrow> y \<le> x + 1"
    by (rule shares_correct [OF * assms(2)])+
  show "0 \<le> sum_list (limits gs)" using *(2) by (intro sum_list_nonneg) auto
qed

lemma takePriorities_values:
  fixes m :: "(int \<times> RisingWaveScaleViewSpecScalePolicy list) list"
  defines "cls \<equiv> \<lambda>p. sortGroups (case map_of m p of Some gs \<Rightarrow> gs | None \<Rightarrow> [])"
  assumes "\<forall>p \<in> set prs. class_ok (cls p)" "0 \<le> t" "t \<le> MaxInt32"
    and "distinct (map sp_Group (concat (map cls prs)))"
    and "sp_Group ` set (concat (map cls prs)) \<inter> fst ` set r = {}"
  shows "takePriorities m prs t r =
    (t - sum_list (classValues (map cls prs) t),
     r @ zip (map sp_Group (concat (map cls prs))) (classValues (map cls prs) t))"
  using assms(2-)
proof (induction prs arbitrary: t r)
  case Nil
  then show ?case by simp
next
  case (Cons p prs)
  let ?gs = "cls p"
  let ?sh = "shares (limits ?gs) t"
  have ok: "class_ok ?gs" using Cons.prems(1) by simp
  have d: "distinct (map sp_Group ?gs)" "sp_Group ` set ?gs \<inter> fst ` set r = {}"
    using Cons.prems(4,5) by auto
  have s: "sum_list ?sh = min t (sum_list (limits ?gs))" "0 \<le> sum_list (limits ?gs)"
    using class_ok_shares [OF ok Cons.prems(2)] by blast+
  have step: "(if t \<le> 0 then (t, foldl (\<lambda>r g. alUpdate (sp_Group g) 0 r) r ?gs) else takeGroups ?gs t r)
      = (t - sum_list ?sh, r @ zip (map sp_Group ?gs) ?sh)"
  proof (cases "t \<le> 0")
    case True
    then have "t = 0" using Cons.prems(2) by simp
    then have "?sh = map (\<lambda>_. 0) ?gs" using shares_zero [of "limits ?gs"] ok by (auto simp: class_ok_def)
    then show ?thesis using True zero_loop [OF d] \<open>t = 0\<close> s by simp
  next
    case False
    then show ?thesis using takeGroups_shares [OF _ _ Cons.prems(2,3) d] ok by (simp add: class_ok_def)
  qed
  have keys: "fst ` set (zip (map sp_Group ?gs) ?sh) = sp_Group ` set ?gs"
    by (simp flip: set_map add: map_fst_zip)
  have "takePriorities m prs (t - sum_list ?sh) (r @ zip (map sp_Group ?gs) ?sh) =
      (t - sum_list ?sh - sum_list (classValues (map cls prs) (t - sum_list ?sh)),
       (r @ zip (map sp_Group ?gs) ?sh) @
         zip (map sp_Group (concat (map cls prs))) (classValues (map cls prs) (t - sum_list ?sh)))"
  proof (rule Cons.IH)
    show "\<forall>p \<in> set prs. class_ok (cls p)" "distinct (map sp_Group (concat (map cls prs)))"
      using Cons.prems(1,4) by simp_all
    show "0 \<le> t - sum_list ?sh" "t - sum_list ?sh \<le> MaxInt32" using s Cons.prems(2,3) by simp_all
    have "set (map sp_Group ?gs) \<inter> set (map sp_Group (concat (map cls prs))) = {}"
      using Cons.prems(4) by (simp only: list.map concat.simps map_append distinct_append)
    then show "sp_Group ` set (concat (map cls prs)) \<inter> fst ` set (r @ zip (map sp_Group ?gs) ?sh) = {}"
      using Cons.prems(5) by (simp only: set_append image_Un keys list.map concat.simps set_map) blast
  qed
  then show ?case using step by (auto simp: Let_def cls_def split: if_splits prod.splits)
qed

definition assigned ::
  "RisingWaveScaleViewSpecScalePolicy list list \<Rightarrow> int \<Rightarrow> (RisingWaveScaleViewSpecScalePolicy \<times> int) list" where
  "assigned gss t = zip (concat gss) (classValues gss t)"

definition ranked :: "RisingWaveScaleViewSpecScalePolicy list list \<Rightarrow> bool" where
  "ranked gss \<longleftrightarrow>
     sorted_wrt (\<lambda>gs hs. \<forall>g \<in> set gs. \<forall>h \<in> set hs. sp_Priority h < sp_Priority g) gss \<and>
     (\<forall>gs \<in> set gss. \<forall>g \<in> set gs. \<forall>h \<in> set gs. sp_Priority g = sp_Priority h)"

lemma assigned_Nil [simp]: "assigned [] t = []"
  by (simp add: assigned_def)

lemma assigned_Cons [simp]:
  "assigned (gs # gss) t =
     zip gs (shares (limits gs) t) @ assigned gss (t - sum_list (shares (limits gs) t))"
  by (simp add: assigned_def zip_append)

lemma ranked_Cons:
  "ranked (gs # gss) \<Longrightarrow> ranked gss \<and>
     (\<forall>g \<in> set gs. \<forall>h \<in> set gs. sp_Priority g = sp_Priority h) \<and>
     (\<forall>g \<in> set gs. \<forall>h \<in> set (concat gss). sp_Priority h < sp_Priority g)"
  unfolding ranked_def sorted_wrt.simps set_concat list.set by blast

lemma assigned_fst: "(g, x) \<in> set (assigned gss t) \<Longrightarrow> g \<in> set (concat gss)"
  unfolding assigned_def by (rule set_zip_leftD)

lemma zip_limit:
  assumes "(g, x) \<in> set (zip gs (shares (limits gs) t))"
  shows "(x, maxReplicasOf g) \<in> set (zip (shares (limits gs) t) (limits gs))"
    and "x \<in> set (shares (limits gs) t)"
proof -
  obtain i where i: "i < length gs" "g = gs ! i" "x = shares (limits gs) t ! i"
    using assms by (auto simp: in_set_zip simp del: shares.simps)
  then show "(x, maxReplicasOf g) \<in> set (zip (shares (limits gs) t) (limits gs))"
    by (auto simp: in_set_zip simp del: shares.simps intro!: exI [of _ i])
  show "x \<in> set (shares (limits gs) t)" using assms by (rule set_zip_rightD)
qed

lemma rest_nonneg:
  assumes "class_ok gs" "0 \<le> t"
  shows "0 \<le> t - sum_list (shares (limits gs) t)"
  using class_ok_shares(1,4) [OF assms] by linarith

lemma classValues_sum:
  assumes "\<forall>gs \<in> set gss. class_ok gs" "0 \<le> t"
  shows "sum_list (classValues gss t) = min t (sum_list (limits (concat gss)))"
  using assms
proof (induction gss arbitrary: t)
  case Nil
  then show ?case by simp
next
  case (Cons gs gss)
  have ok: "class_ok gs" using Cons.prems(1) by simp
  have "0 \<le> sum_list (limits (concat gss))"
    using Cons.prems(1) by (intro sum_list_nonneg) (auto simp: class_ok_def)
  then show ?case
    using Cons.IH [OF _ rest_nonneg [OF ok Cons.prems(2)]] Cons.prems class_ok_shares(1,4) [OF ok Cons.prems(2)]
    by simp
qed

lemma assigned_bounds:
  assumes "\<forall>gs \<in> set gss. class_ok gs" "0 \<le> t" "(g, x) \<in> set (assigned gss t)"
  shows "0 \<le> x \<and> x \<le> maxReplicasOf g"
  using assms
proof (induction gss arbitrary: t)
  case Nil
  then show ?case by simp
next
  case (Cons gs gss)
  have ok: "class_ok gs" using Cons.prems(1) by simp
  show ?case
  proof (cases "(g, x) \<in> set (zip gs (shares (limits gs) t))")
    case True
    show ?thesis using bspec [OF class_ok_shares(2) [OF ok Cons.prems(2)] zip_limit(1) [OF True]] by simp
  next
    case False
    then show ?thesis using Cons.IH [OF _ rest_nonneg [OF ok Cons.prems(2)]] Cons.prems by simp
  qed
qed

lemma assigned_nothing_left:
  assumes "\<forall>gs \<in> set gss. class_ok gs" "0 \<le> t" "(g, x) \<in> set (assigned gss t)"
  shows "x \<le> t"
proof -
  have "x \<in> set (classValues gss t)" using assms(3) unfolding assigned_def by (rule set_zip_rightD)
  moreover have nonneg: "0 \<le> y" if y: "y \<in> set (classValues gss t)" for y
  proof -
    obtain i where "i < length (concat gss)" "classValues gss t ! i = y"
      using y by (auto simp: in_set_conv_nth)
    then have "(concat gss ! i, y) \<in> set (assigned gss t)" by (auto simp: assigned_def in_set_zip)
    then show ?thesis using assigned_bounds [OF assms(1,2)] by blast
  qed
  ultimately have "x \<le> sum_list (classValues gss t)" by (intro member_le_sum_list) auto
  then show ?thesis using classValues_sum [OF assms(1,2)] by simp
qed

lemma saturated:
  assumes "class_ok gs" "0 \<le> t" "sum_list (limits gs) \<le> t" "(g, x) \<in> set (zip gs (shares (limits gs) t))"
  shows "x = maxReplicasOf g"
proof -
  have "sum_list (shares (limits gs) t) = sum_list (limits gs)"
    using class_ok_shares(1) [OF assms(1,2)] assms(3) by simp
  moreover have le: "shares (limits gs) t ! i \<le> limits gs ! i" if "i < length gs" for i
  proof -
    have "(shares (limits gs) t ! i, limits gs ! i) \<in> set (zip (shares (limits gs) t) (limits gs))"
      using that by (auto simp: in_set_zip)
    then show ?thesis using class_ok_shares(2) [OF assms(1,2)] by blast
  qed
  ultimately have eq: "shares (limits gs) t ! i = limits gs ! i" if "i < length gs" for i
    using that by (intro sum_mono_inv [of "\<lambda>i. shares (limits gs) t ! i" "{0..<length gs}"])
      (simp_all add: sum_list_sum_nth)
  obtain i where "i < length gs" "g = gs ! i" "x = shares (limits gs) t ! i"
    using assms(4) by (auto simp: in_set_zip simp del: shares.simps)
  then show ?thesis using eq by simp
qed

lemma assigned_priority:
  assumes "\<forall>gs \<in> set gss. class_ok gs" "0 \<le> t" "ranked gss"
    and "(g, x) \<in> set (assigned gss t)" "(h, y) \<in> set (assigned gss t)"
    and "sp_Priority h < sp_Priority g" "0 < y"
  shows "x = maxReplicasOf g"
  using assms
proof (induction gss arbitrary: t)
  case Nil
  then show ?case by simp
next
  case (Cons gs gss)
  let ?t = "t - sum_list (shares (limits gs) t)"
  have ok: "class_ok gs" "\<forall>gs \<in> set gss. class_ok gs" using Cons.prems(1) by simp_all
  note t0 = rest_nonneg [OF ok(1) Cons.prems(2)]
  note rk = ranked_Cons [OF Cons.prems(3)]
  have inT: "u \<in> set (concat gss)" if "(u, z) \<in> set (assigned gss ?t)" for u z
    using assigned_fst [OF that] .
  have inH: "u \<in> set gs" if "(u, z) \<in> set (zip gs (shares (limits gs) t))" for u z
    using that by (rule set_zip_leftD)
  have hT: "(h, y) \<in> set (assigned gss ?t)"
  proof (rule ccontr)
    assume "(h, y) \<notin> set (assigned gss ?t)"
    then have "h \<in> set gs" using Cons.prems(5) inH by auto
    moreover have "g \<in> set gs \<or> g \<in> set (concat gss)" using Cons.prems(4) inH inT by (auto simp del: set_concat)
    ultimately show False using rk Cons.prems(6) by (metis less_irrefl less_asym)
  qed
  show ?case
  proof (cases "(g, x) \<in> set (assigned gss ?t)")
    case True
    show ?thesis by (rule Cons.IH [OF ok(2) t0 _ True hT Cons.prems(6,7)]) (use rk in blast)
  next
    case False
    then have "(g, x) \<in> set (zip gs (shares (limits gs) t))" using Cons.prems(4) by auto
    moreover have "0 < ?t" using assigned_nothing_left [OF ok(2) t0 hT] Cons.prems(7) by simp
    then have "sum_list (limits gs) \<le> t" using class_ok_shares(1) [OF ok(1) Cons.prems(2)] by simp
    ultimately show ?thesis using saturated [OF ok(1) Cons.prems(2)] by blast
  qed
qed

lemma assigned_fair:
  assumes "\<forall>gs \<in> set gss. class_ok gs" "0 \<le> t" "ranked gss"
    and "(g, x) \<in> set (assigned gss t)" "(h, y) \<in> set (assigned gss t)"
    and "sp_Priority h = sp_Priority g" "x < maxReplicasOf g"
  shows "y \<le> x + 1"
  using assms
proof (induction gss arbitrary: t)
  case Nil
  then show ?case by simp
next
  case (Cons gs gss)
  let ?t = "t - sum_list (shares (limits gs) t)"
  have ok: "class_ok gs" "\<forall>gs \<in> set gss. class_ok gs" using Cons.prems(1) by simp_all
  note t0 = rest_nonneg [OF ok(1) Cons.prems(2)]
  note rk = ranked_Cons [OF Cons.prems(3)]
  have sep: "\<not> (sp_Priority u = sp_Priority w)"
    if "(u, z) \<in> set (assigned gss ?t)" "(w, v) \<in> set (zip gs (shares (limits gs) t))" for u z w v
  proof -
    have "sp_Priority u < sp_Priority w" using rk assigned_fst [OF that(1)] set_zip_leftD [OF that(2)] by blast
    then show ?thesis by simp
  qed
  show ?case
  proof (cases "(g, x) \<in> set (assigned gss ?t)")
    case True
    then have "(h, y) \<in> set (assigned gss ?t)" using Cons.prems(5,6) sep by fastforce
    then show ?thesis using Cons.IH [OF ok(2) t0 _ True _ Cons.prems(6,7)] rk by blast
  next
    case False
    then have g: "(g, x) \<in> set (zip gs (shares (limits gs) t))" using Cons.prems(4) by auto
    then have "(h, y) \<in> set (zip gs (shares (limits gs) t))" using Cons.prems(5,6) sep by fastforce
    then have "y \<in> set (shares (limits gs) t)" by (rule zip_limit(2))
    moreover have "\<forall>y \<in> set (shares (limits gs) t). x < maxReplicasOf g \<longrightarrow> y \<le> x + 1"
      using bspec [OF class_ok_shares(3) [OF ok(1) Cons.prems(2)] zip_limit(1) [OF g]] by simp
    ultimately show ?thesis using Cons.prems(7) by blast
  qed
qed

section \<open>Grouping by priority\<close>

abbreviation ofPriority ::
  "RisingWaveScaleViewSpecScalePolicy list \<Rightarrow> int \<Rightarrow> RisingWaveScaleViewSpecScalePolicy list" where
  "ofPriority ps p \<equiv> map canonizeScalePolicy (filter (\<lambda>q. sp_Priority q = p) ps)"

lemma groupsByPriority_lookup:
  "map_of (groupsByPriority ps) p =
     (if p \<in> sp_Priority ` set ps then Some (ofPriority ps p) else None)"
proof (induction ps arbitrary: p rule: rev_induct)
  case Nil
  then show ?case by (simp add: groupsByPriority_def)
next
  case (snoc q ps)
  have "groupsByPriority (ps @ [q]) = addToGroups (groupsByPriority ps) q"
    by (simp add: groupsByPriority_def)
  moreover have "filter (\<lambda>r. sp_Priority r = sp_Priority q) ps = []" if "sp_Priority q \<notin> sp_Priority ` set ps"
    using that by (auto simp: filter_empty_conv image_iff)
  ultimately show ?case by (auto simp: addToGroups_def snoc)
qed

lemma groupsByPriority_keys:
  "set (map fst (groupsByPriority ps)) = sp_Priority ` set ps \<and> distinct (map fst (groupsByPriority ps))"
proof (induction ps rule: rev_induct)
  case Nil
  then show ?case by (simp add: groupsByPriority_def)
next
  case (snoc q ps)
  have "groupsByPriority (ps @ [q]) = addToGroups (groupsByPriority ps) q"
    by (simp add: groupsByPriority_def)
  then show ?case using snoc by (simp add: addToGroups_def insert_absorb split: option.splits)
qed

lemma mset_classes:
  assumes "distinct prs"
  shows "mset (concat (map (\<lambda>p. filter (\<lambda>q. f q = p) ps) prs)) = mset (filter (\<lambda>q. f q \<in> set prs) ps)"
  using assms
proof (induction prs)
  case Nil
  then show ?case by simp
next
  case (Cons p prs)
  have "mset (filter (\<lambda>q. f q = p) ps) + mset (filter (\<lambda>q. f q \<in> set prs) ps)
        = mset (filter (\<lambda>q. f q \<in> set (p # prs)) ps)"
    using Cons.prems by (induction ps) auto
  then show ?case using Cons by simp
qed

definition prioritiesOf :: "RisingWaveScaleViewSpecScalePolicy list \<Rightarrow> int list" where
  "prioritiesOf ps = rev (sort (map fst (groupsByPriority ps)))"

definition classesOf :: "RisingWaveScaleViewSpecScalePolicy list \<Rightarrow> RisingWaveScaleViewSpecScalePolicy list list" where
  "classesOf ps = map (\<lambda>p. sortGroups (ofPriority ps p)) (prioritiesOf ps)"

lemma mset_sortGroups [simp]: "mset (sortGroups gs) = mset gs"
  by (simp add: sortGroups_def)

lemma set_sortGroups [simp]: "set (sortGroups gs) = set gs"
  by (simp add: sortGroups_def)

lemma length_sortGroups [simp]: "length (sortGroups gs) = length gs"
  by (simp add: sortGroups_def)

lemma sorted_limits_sortGroups: "sorted (limits (sortGroups gs))"
proof -
  have "sorted (map (\<lambda>g. (maxReplicasOf g, sp_Group g)) (sortGroups gs))" by (simp add: sortGroups_def)
  then show ?thesis
    unfolding sorted_map by (rule sorted_wrt_mono_rel [rotated]) (auto simp: less_eq_prod_def)
qed

lemma prioritiesOf_props:
  "set (prioritiesOf ps) = sp_Priority ` set ps" "distinct (prioritiesOf ps)"
  "sorted_wrt (>) (prioritiesOf ps)"
proof -
  show "set (prioritiesOf ps) = sp_Priority ` set ps" "distinct (prioritiesOf ps)"
    using groupsByPriority_keys [of ps] by (auto simp: prioritiesOf_def)
  have "sorted_wrt (<) (sort (map fst (groupsByPriority ps)))"
    using groupsByPriority_keys [of ps] by (simp add: strict_sorted_iff)
  then show "sorted_wrt (>) (prioritiesOf ps)" by (simp add: prioritiesOf_def sorted_wrt_rev)
qed

lemma mset_classesOf: "mset (concat (classesOf ps)) = mset (map canonizeScalePolicy ps)"
proof -
  have "mset (concat (map (\<lambda>p. sortGroups (ofPriority ps p)) prs))
        = image_mset canonizeScalePolicy (mset (concat (map (\<lambda>p. filter (\<lambda>q. sp_Priority q = p) ps) prs)))" for prs
    by (induction prs) simp_all
  then have "mset (concat (classesOf ps))
     = image_mset canonizeScalePolicy (mset (filter (\<lambda>q. sp_Priority q \<in> sp_Priority ` set ps) ps))"
    using mset_classes [OF prioritiesOf_props(2), of sp_Priority ps ps]
    by (simp add: classesOf_def prioritiesOf_props(1))
  also have "filter (\<lambda>q. sp_Priority q \<in> sp_Priority ` set ps) ps = ps" by (simp add: filter_id_conv)
  finally show ?thesis by simp
qed

lemma ranked_classesOf: "ranked (classesOf ps)"
proof -
  have "sorted_wrt (\<lambda>gs hs. \<forall>g \<in> set gs. \<forall>h \<in> set hs. sp_Priority h < sp_Priority g) (classesOf ps)"
    unfolding classesOf_def sorted_wrt_map
    by (rule sorted_wrt_mono_rel [OF _ prioritiesOf_props(3)]) auto
  then show ?thesis by (auto simp: ranked_def classesOf_def)
qed

lemma class_ok_classesOf:
  assumes "policies_ok ps" "gs \<in> set (classesOf ps)"
  shows "class_ok gs"
proof -
  obtain p where gs: "gs = sortGroups (ofPriority ps p)" using assms(2) by (auto simp: classesOf_def)
  have "length (filter (\<lambda>q. sp_Priority q = p) ps) \<le> length ps" by simp
  moreover have "length ps < 2147483648" using assms(1) by (simp add: policies_ok_def)
  ultimately have "length gs < 2147483648" unfolding gs length_sortGroups length_map by linarith
  moreover have "\<forall>g \<in> set gs. 0 \<le> maxReplicasOf g \<and> maxReplicasOf g \<le> MaxInt32"
    using assms(1) policy_ok_limit unfolding gs by (auto simp: policies_ok_def)
  ultimately show ?thesis using sorted_limits_sortGroups gs by (simp add: class_ok_def)
qed

lemma sumReplicas_sum: "sumReplicas r = i32 (sum_list (map snd r))"
proof -
  have "foldl (\<lambda>s kv. i32 (s + snd kv)) (i32 a) r = i32 (a + sum_list (map snd r))" for a
    by (induction r arbitrary: a) (simp_all add: add.assoc)
  from this [of 0] show ?thesis by (simp add: sumReplicas_def)
qed

section \<open>What \<^verbatim>\<open>SplitReplicas\<close> computes\<close>

abbreviation policiesOf :: "RisingWaveScaleView \<Rightarrow> RisingWaveScaleViewSpecScalePolicy list" where
  "policiesOf sv \<equiv> svs_ScalePolicy (sv_Spec sv)"

definition sv_ok :: "RisingWaveScaleView \<Rightarrow> bool" where
  "sv_ok sv \<longleftrightarrow> policies_ok (policiesOf sv) \<and> 0 \<le> derefReplicas sv \<and> derefReplicas sv \<le> MaxInt32"

definition resultOf :: "RisingWaveScaleView \<Rightarrow> (string \<times> int) list" where
  "resultOf sv = map (\<lambda>(g, x). (sp_Group g, x)) (assigned (classesOf (policiesOf sv)) (derefReplicas sv))"

lemma set_classesOf: "set (concat (classesOf ps)) = canonizeScalePolicy ` set ps"
  by (metis mset_classesOf set_mset_mset set_map)

lemma names_classesOf: "mset (map sp_Group (concat (classesOf ps))) = mset (map sp_Group ps)"
  unfolding mset_map mset_classesOf by (simp add: multiset.map_comp comp_def)

lemma limits_classesOf: "sum_list (limits (concat (classesOf ps))) = sum_list (map limitOf ps)"
proof -
  have "mset (limits (concat (classesOf ps))) = mset (map limitOf ps)"
    unfolding mset_map mset_classesOf by (simp add: multiset.map_comp comp_def)
  then show ?thesis by (metis sum_mset_sum_list)
qed

lemma classesOf_lookup:
  "map (\<lambda>p. sortGroups (case map_of (groupsByPriority ps) p of Some gs \<Rightarrow> gs | None \<Rightarrow> [])) (prioritiesOf ps)
   = classesOf ps"
  unfolding classesOf_def by (rule map_cong) (simp_all add: groupsByPriority_lookup prioritiesOf_props(1))

lemma SplitReplicas_eq:
  assumes "sv_ok sv"
  shows "SplitReplicas sv =
    (if derefReplicas sv \<le> sum_list (map limitOf (policiesOf sv)) then Returns (resultOf sv)
     else Panics ''algorithm has bug'')"
proof -
  let ?ps = "policiesOf sv" and ?t = "derefReplicas sv"
  let ?v = "classValues (classesOf ?ps) ?t"
  have ok: "policies_ok ?ps" "0 \<le> ?t" "?t \<le> MaxInt32" using assms by (simp_all add: sv_ok_def)
  have cls: "\<forall>gs \<in> set (classesOf ?ps). class_ok gs" using class_ok_classesOf [OF ok(1)] by blast
  have d: "distinct (map sp_Group (concat (classesOf ?ps)))"
    using ok(1) mset_eq_imp_distinct_iff [OF names_classesOf] by (simp add: policies_ok_def)
  have "\<forall>p \<in> set (prioritiesOf ?ps).
      class_ok (sortGroups (case map_of (groupsByPriority ?ps) p of Some gs \<Rightarrow> gs | None \<Rightarrow> []))"
    using cls unfolding classesOf_lookup [symmetric] by simp
  from takePriorities_values [OF this ok(2,3), unfolded classesOf_lookup, OF d, of "[]"]
  have r: "snd (takePriorities (groupsByPriority ?ps) (prioritiesOf ?ps) ?t [])
      = zip (map sp_Group (concat (classesOf ?ps))) ?v" by simp
  have res: "zip (map sp_Group (concat (classesOf ?ps))) ?v = resultOf sv"
    by (simp add: resultOf_def assigned_def zip_map1 case_prod_unfold)
  have "sum_list (map snd (resultOf sv)) = min ?t (sum_list (map limitOf ?ps))"
    unfolding res [symmetric] using classValues_sum [OF cls ok(2)] limits_classesOf by (simp add: map_snd_zip)
  moreover have "0 \<le> sum_list (map limitOf ?ps)"
    using ok(1) policy_ok_limit by (intro sum_list_nonneg) (auto simp: policies_ok_def)
  ultimately have "sumReplicas (resultOf sv) = min ?t (sum_list (map limitOf ?ps))"
    using ok(2,3) by (simp add: sumReplicas_sum i32_id is_i32_def MaxInt32_def min_def)
  then show ?thesis
    unfolding SplitReplicas_def Let_def prioritiesOf_def [symmetric] r res by (simp add: min_def)
qed

lemma resultOf_lookup:
  assumes "sv_ok sv" "p \<in> set (policiesOf sv)"
  obtains x where "(canonizeScalePolicy p, x) \<in> set (assigned (classesOf (policiesOf sv)) (derefReplicas sv))"
    and "map_of (resultOf sv) (sp_Group p) = Some x"
proof -
  let ?ps = "policiesOf sv"
  let ?L = "assigned (classesOf ?ps) (derefReplicas sv)"
  have keys: "map fst (resultOf sv) = map sp_Group (concat (classesOf ?ps))"
  proof -
    have "map fst (resultOf sv) = map sp_Group (map fst ?L)" by (simp add: resultOf_def comp_def case_prod_unfold)
    also have "map fst ?L = concat (classesOf ?ps)" by (simp add: assigned_def map_fst_zip)
    finally show ?thesis .
  qed
  have "distinct (map fst (resultOf sv))"
    using assms(1) mset_eq_imp_distinct_iff [OF names_classesOf] unfolding keys by (simp add: sv_ok_def policies_ok_def)
  moreover have "canonizeScalePolicy p \<in> set (map fst ?L)"
    using assms(2) set_classesOf [of ?ps] unfolding assigned_def by (simp add: map_fst_zip del: set_concat)
  then obtain x where x: "(canonizeScalePolicy p, x) \<in> set ?L" by force
  then have "(sp_Group p, x) \<in> set (resultOf sv)" by (force simp: resultOf_def)
  ultimately have "map_of (resultOf sv) (sp_Group p) = Some x" by simp
  with x show thesis by (rule that)
qed

lemma SplitReplicas_Returns:
  assumes "sv_ok sv" "SplitReplicas sv = Returns r"
  shows "r = resultOf sv"
  using assms SplitReplicas_eq [OF assms(1)] by (simp split: if_splits)

lemma sv_ok_classes:
  assumes "sv_ok sv"
  shows "\<forall>gs \<in> set (classesOf (policiesOf sv)). class_ok gs" "0 \<le> derefReplicas sv"
  using assms class_ok_classesOf by (auto simp: sv_ok_def)

lemma zero_loop_values:
  "set (map snd (foldl (\<lambda>r g. alUpdate (sp_Group g) 0 r) r gs)) \<subseteq> insert 0 (set (map snd r))"
proof (induction gs arbitrary: r)
  case Nil
  then show ?case by auto
next
  case (Cons g gs)
  show ?case using Cons.IH [of "alUpdate (sp_Group g) 0 r"] values_alUpdate [of "sp_Group g" 0 r] by auto
qed

lemma takePriorities_none_left:
  assumes "t \<le> 0" "set (map snd r) \<subseteq> {0}"
  shows "set (map snd (snd (takePriorities m prs t r))) \<subseteq> {0}"
  using assms
proof (induction prs arbitrary: r)
  case Nil
  then show ?case by simp
next
  case (Cons p prs)
  let ?gs = "sortGroups (case map_of m p of Some gs \<Rightarrow> gs | None \<Rightarrow> [])"
  have "set (map snd (foldl (\<lambda>r g. alUpdate (sp_Group g) 0 r) r ?gs)) \<subseteq> {0}"
    using zero_loop_values [of r ?gs] Cons.prems(2) by blast
  then show ?case using Cons.IH Cons.prems(1) by (simp add: Let_def)
qed

lemma takeGroups_keys: "set (map fst (snd (takeGroups gs t r))) = sp_Group ` set gs \<union> set (map fst r)"
  by (induction gs t r rule: takeGroups.induct) (auto simp: Let_def)

section \<open>The splitter as an interface\<close>

text \<open>
  What the lock manager relies on: a division that returns assigns every group of the policy a
  number, and the numbers add up, in 32-bit arithmetic, to the replicas asked for.
\<close>

locale replica_splitter =
  fixes splitter :: "RisingWaveScaleView \<Rightarrow> (string \<times> int) list outcome"
  assumes split_groups: "splitter sv = Returns r \<Longrightarrow> set (map fst r) = sp_Group ` set (policiesOf sv)"
    and split_sum: "splitter sv = Returns r \<Longrightarrow> i32 (sum_list (map snd r)) = derefReplicas sv"
begin

lemma split_defined:
  assumes "splitter sv = Returns r" "p \<in> set (policiesOf sv)"
  shows "\<exists>x. map_of r (sp_Group p) = Some x"
proof -
  have "sp_Group p \<in> fst ` set r" using split_groups [OF assms(1)] assms(2) by auto
  then show ?thesis by (simp add: map_of_eq_None_iff flip: not_None_eq)
qed

end

lemma takePriorities_keys:
  "set (map fst (snd (takePriorities m prs t r))) =
   (\<Union>p \<in> set prs. sp_Group ` set (case map_of m p of Some gs \<Rightarrow> gs | None \<Rightarrow> [])) \<union> set (map fst r)"
proof (induction prs arbitrary: t r)
  case Nil
  then show ?case by simp
next
  case (Cons p prs)
  have z: "fst ` set (foldl (\<lambda>r g. alUpdate (sp_Group g) 0 r) r gs) = sp_Group ` set gs \<union> fst ` set r" for r gs
    by (induction gs arbitrary: r) auto
  show ?case
    using Cons takeGroups_keys
    by (simp add: Let_def z case_prod_unfold Un_assoc Un_left_commute)
qed

interpretation sr: replica_splitter SplitReplicas
proof
  fix sv r
  assume r: "SplitReplicas sv = Returns r"
  let ?ps = "policiesOf sv"
  have eq: "r = snd (takePriorities (groupsByPriority ?ps) (prioritiesOf ?ps) (derefReplicas sv) [])"
    and sum: "sumReplicas r = derefReplicas sv"
    using r by (auto simp: SplitReplicas_def Let_def prioritiesOf_def split: if_splits)
  show "i32 (sum_list (map snd r)) = derefReplicas sv" using sum by (simp add: sumReplicas_sum)
  have "set (map fst r) = (\<Union>p \<in> sp_Priority ` set ?ps. sp_Group ` set (ofPriority ?ps p))"
    unfolding eq takePriorities_keys prioritiesOf_props(1) by (simp add: groupsByPriority_lookup)
  also have "\<dots> = sp_Group ` (\<Union>q \<in> set ?ps. {r \<in> set ?ps. sp_Priority r = sp_Priority q})"
    by (simp add: image_image image_UN)
  also have "(\<Union>q \<in> set ?ps. {r \<in> set ?ps. sp_Priority r = sp_Priority q}) = set ?ps" by blast
  finally show "set (map fst r) = sp_Group ` set ?ps" .
qed

section \<open>Properties\<close>

text \<open>C1: Whenever the limits of the groups can hold the requested replicas, \<^verbatim>\<open>SplitReplicas\<close> returns (its
  built-in check does not panic), every group of the policy gets exactly one entry, the entries add
  up to the requested replicas, and no entry is negative or above the limit of its group.\<close>
theorem SplitReplicas_total:
  assumes "sv_ok sv" "derefReplicas sv \<le> sum_list (map limitOf (policiesOf sv))"
  shows "\<exists>r. SplitReplicas sv = Returns r
    \<and> set (map fst r) = sp_Group ` set (policiesOf sv)
    \<and> sum_list (map snd r) = derefReplicas sv
    \<and> (\<forall>p \<in> set (policiesOf sv). \<exists>x. map_of r (sp_Group p) = Some x \<and> 0 \<le> x \<and> x \<le> limitOf p)"
proof -
  have r: "SplitReplicas sv = Returns (resultOf sv)" using SplitReplicas_eq [OF assms(1)] assms(2) by simp
  have "map snd (resultOf sv) = classValues (classesOf (policiesOf sv)) (derefReplicas sv)"
    by (simp add: resultOf_def assigned_def comp_def case_prod_unfold map_snd_zip)
  then have sum: "sum_list (map snd (resultOf sv)) = derefReplicas sv"
    using classValues_sum [OF sv_ok_classes [OF assms(1)]] limits_classesOf assms(2) by simp
  have "\<exists>x. map_of (resultOf sv) (sp_Group p) = Some x \<and> 0 \<le> x \<and> x \<le> limitOf p"
    if p: "p \<in> set (policiesOf sv)" for p
  proof -
    obtain x where "(canonizeScalePolicy p, x) \<in> set (assigned (classesOf (policiesOf sv)) (derefReplicas sv))"
      and "map_of (resultOf sv) (sp_Group p) = Some x" using resultOf_lookup [OF assms(1) p] .
    then show ?thesis using assigned_bounds [OF sv_ok_classes [OF assms(1)]] by fastforce
  qed
  then show ?thesis using r sr.split_groups [OF r] sum by blast
qed

text \<open>C14: Priorities are strict: if a group gets any replica, every group of a higher priority is
  filled up to its limit.\<close>
theorem SplitReplicas_priority:
  assumes "sv_ok sv" "SplitReplicas sv = Returns r"
    and "p \<in> set (policiesOf sv)" "q \<in> set (policiesOf sv)" "sp_Priority q < sp_Priority p"
    and "map_of r (sp_Group q) = Some y" "0 < y"
  shows "map_of r (sp_Group p) = Some (limitOf p)"
proof -
  note r = SplitReplicas_Returns [OF assms(1,2)]
  obtain x where x: "(canonizeScalePolicy p, x) \<in> set (assigned (classesOf (policiesOf sv)) (derefReplicas sv))"
    "map_of r (sp_Group p) = Some x" using resultOf_lookup [OF assms(1,3)] r by metis
  obtain y' where y: "(canonizeScalePolicy q, y') \<in> set (assigned (classesOf (policiesOf sv)) (derefReplicas sv))"
    "map_of r (sp_Group q) = Some y'" using resultOf_lookup [OF assms(1,4)] r by metis
  have "x = maxReplicasOf (canonizeScalePolicy p)"
    by (rule assigned_priority [OF sv_ok_classes [OF assms(1)] ranked_classesOf x(1) y(1)])
      (use assms(5-7) y(2) in simp_all)
  then show ?thesis using x(2) by simp
qed

text \<open>C13: The division is fair inside a priority: a group that is below its limit is at most one replica
  behind any other group of the same priority.\<close>
theorem SplitReplicas_fair:
  assumes "sv_ok sv" "SplitReplicas sv = Returns r"
    and "p \<in> set (policiesOf sv)" "q \<in> set (policiesOf sv)" "sp_Priority q = sp_Priority p"
    and "map_of r (sp_Group p) = Some x" "map_of r (sp_Group q) = Some y" "x < limitOf p"
  shows "y \<le> x + 1"
proof -
  note r = SplitReplicas_Returns [OF assms(1,2)]
  obtain x' where x: "(canonizeScalePolicy p, x') \<in> set (assigned (classesOf (policiesOf sv)) (derefReplicas sv))"
    "map_of r (sp_Group p) = Some x'" using resultOf_lookup [OF assms(1,3)] r by metis
  obtain y' where y: "(canonizeScalePolicy q, y') \<in> set (assigned (classesOf (policiesOf sv)) (derefReplicas sv))"
    "map_of r (sp_Group q) = Some y'" using resultOf_lookup [OF assms(1,4)] r by metis
  show ?thesis
    by (rule assigned_fair [OF sv_ok_classes [OF assms(1)] ranked_classesOf, of "canonizeScalePolicy p" _ "canonizeScalePolicy q"])
      (use x y assms(5-8) in auto)
qed

text \<open>A negative number of replicas makes the built-in check fail, whatever the policies are: the
  function panics.\<close>
theorem SplitReplicas_negative_panics:
  assumes "derefReplicas sv < 0"
  shows "SplitReplicas sv = Panics ''algorithm has bug''"
proof -
  let ?r = "snd (takePriorities (groupsByPriority (policiesOf sv)) (prioritiesOf (policiesOf sv)) (derefReplicas sv) [])"
  have "set (map snd ?r) \<subseteq> {0}" using assms by (intro takePriorities_none_left) auto
  then have "sum_list (map snd ?r) = 0" by (rule sum_list_zeros)
  then have "sumReplicas ?r = 0" by (simp add: sumReplicas_sum)
  then show ?thesis using assms by (simp add: SplitReplicas_def Let_def prioritiesOf_def)
qed

section \<open>Witnesses\<close>

definition demoMeta :: ObjectMeta where
  "demoMeta = \<lparr>om_Name = ''sv'', om_Namespace = ''ns'', om_UID = ''uid-1'', om_Generation = 1, om_Labels = [],
     om_Annotations = [], om_Finalizers = [], om_DeletionTimestamp = None, om_OwnerReferences = []\<rparr>"

definition demoPolicy :: "string \<Rightarrow> int \<Rightarrow> int option \<Rightarrow> RisingWaveScaleViewSpecScalePolicy" where
  "demoPolicy g p m = \<lparr>sp_Group = g, sp_Priority = p, sp_MaxReplicas = m\<rparr>"

definition demoScaleView :: "int \<Rightarrow> RisingWaveScaleView" where
  "demoScaleView n = \<lparr>sv_Meta = demoMeta,
     sv_Spec = \<lparr>svs_TargetRef = \<lparr>tr_Name = ''rw'', tr_Component = ''compute'', tr_UID = ''uid-rw''\<rparr>,
       svs_Replicas = Some n, svs_LabelSelector = [],
       svs_ScalePolicy = [demoPolicy ''c'' 0 None, demoPolicy ''a'' 1 (Some 2), demoPolicy ''b'' 0 None]\<rparr>,
     sv_Status = \<lparr>svst_Replicas = None, svst_Locked = False\<rparr>\<rparr>"

lemma demo_split: "SplitReplicas (demoScaleView 7) = Returns [(''a'', 2), (''b'', 3), (''c'', 2)]"
  by code_simp

lemmas demo_simps = demoScaleView_def demoPolicy_def derefReplicas_def limitOf_def MaxInt32_def

lemma demo_ok: "sv_ok (demoScaleView 7)"
  by (simp add: sv_ok_def policies_ok_def policy_ok_def demo_simps)

theorem SplitReplicas_total_witness:
  "sv_ok (demoScaleView 7) \<and> (\<exists>r. SplitReplicas (demoScaleView 7) = Returns r \<and> sum_list (map snd r) = 7)"
  using demo_ok SplitReplicas_total [OF demo_ok] by (auto simp: demo_simps)

theorem SplitReplicas_priority_witness:
  "SplitReplicas (demoScaleView 7) = Returns [(''a'', 2), (''b'', 3), (''c'', 2)]
   \<and> map_of [(''a'', 2), (''b'', 3), (''c'', 2)] ''a'' = Some (limitOf (demoPolicy ''a'' 1 (Some 2)))"
  using demo_split
    SplitReplicas_priority [OF demo_ok demo_split, of "demoPolicy ''a'' 1 (Some 2)" "demoPolicy ''b'' 0 None" 3]
  by (simp add: demo_simps)

theorem SplitReplicas_fair_witness: "sv_ok (demoScaleView 7) \<and> (3 :: int) \<le> 2 + 1"
  using demo_ok
    SplitReplicas_fair [OF demo_ok demo_split, of "demoPolicy ''c'' 0 None" "demoPolicy ''b'' 0 None" 2 3]
  by (simp add: demo_simps)

theorem SplitReplicas_negative_panics_witness:
  "SplitReplicas (demoScaleView (- 1)) = Panics ''algorithm has bug''"
  using SplitReplicas_negative_panics [of "demoScaleView (- 1)"] by (simp add: demo_simps)

end
