(* ===== verification/ScaleLock.thy ===== *)
theory ScaleLock
  imports ScaleSplit
begin

text \<open>
  \<^verbatim>\<open>pkg/scaleview/scale_view_helper.go\<close> (reading and writing the replicas of a node group of a component)
  and \<^verbatim>\<open>pkg/object/scale_view_lock_manager.go\<close> (the lock records a RisingWaveScaleView keeps in the
  status of its RisingWave). The Go code mutates the RisingWave in place; the model returns the new
  one. A method that can panic returns an \<^typ>\<open>'a outcome\<close>, one that returns an error a sum.
\<close>

section \<open>Component names (\<^verbatim>\<open>pkg/consts\<close>)\<close>

definition ComponentMeta :: string where "ComponentMeta = ''meta''"
definition ComponentFrontend :: string where "ComponentFrontend = ''frontend''"
definition ComponentCompute :: string where "ComponentCompute = ''compute''"
definition ComponentCompactor :: string where "ComponentCompactor = ''compactor''"
definition ComponentStandalone :: string where "ComponentStandalone = ''standalone''"

lemmas component_defs = ComponentMeta_def ComponentFrontend_def ComponentCompute_def
  ComponentCompactor_def ComponentStandalone_def

section \<open>The helper\<close>

record RisingWaveScaleViewHelper =
  h_risingwave :: RisingWave
  h_component :: string

definition NewRisingWaveScaleViewHelper :: "RisingWave \<Rightarrow> string \<Rightarrow> RisingWaveScaleViewHelper" where
  "NewRisingWaveScaleViewHelper rw c = \<lparr>h_risingwave = rw, h_component = c\<rparr>"

text \<open>\<^verbatim>\<open>findNodeGroup\<close>: the index of the first group with the name (a pointer into the slice).\<close>

fun findNodeGroup :: "'a list \<Rightarrow> string \<Rightarrow> ('a \<Rightarrow> string) \<Rightarrow> nat option" where
  "findNodeGroup [] target name = None"
| "findNodeGroup (g # gs) target name =
     (if name g = target then Some 0 else map_option Suc (findNodeGroup gs target name))"

text \<open>The slice of node groups the pointers of \<^verbatim>\<open>findReplicaPtrGroup\<close> point into, by component.\<close>

definition componentNodeGroups :: "RisingWave \<Rightarrow> string \<Rightarrow> RisingWaveNodeGroup list outcome" where
  "componentNodeGroups rw c =
     (let cs = rws_Components (rw_Spec rw) in
      if c = ComponentMeta then Returns (cmp_NodeGroups (comps_Meta cs))
      else if c = ComponentFrontend then Returns (cmp_NodeGroups (comps_Frontend cs))
      else if c = ComponentCompactor then Returns (cmp_NodeGroups (comps_Compactor cs))
      else if c = ComponentCompute then Returns (cmp_NodeGroups (comps_Compute cs))
      else if c = ComponentStandalone then Panics ''not supported''
      else Panics (''Unknown component '' @ c))"

definition setComponents :: "RisingWave \<Rightarrow> RisingWaveComponentsSpec \<Rightarrow> RisingWave" where
  "setComponents rw cs = rw\<lparr>rw_Spec := (rw_Spec rw)\<lparr>rws_Components := cs\<rparr>\<rparr>"

text \<open>A write through such a pointer: the same slice, stored back.\<close>

definition storeNodeGroups :: "RisingWave \<Rightarrow> string \<Rightarrow> RisingWaveNodeGroup list \<Rightarrow> RisingWave" where
  "storeNodeGroups rw c gs =
     (let cs = rws_Components (rw_Spec rw) in
      if c = ComponentMeta then setComponents rw (cs\<lparr>comps_Meta := (comps_Meta cs)\<lparr>cmp_NodeGroups := gs\<rparr>\<rparr>)
      else if c = ComponentFrontend then setComponents rw (cs\<lparr>comps_Frontend := (comps_Frontend cs)\<lparr>cmp_NodeGroups := gs\<rparr>\<rparr>)
      else if c = ComponentCompactor then setComponents rw (cs\<lparr>comps_Compactor := (comps_Compactor cs)\<lparr>cmp_NodeGroups := gs\<rparr>\<rparr>)
      else if c = ComponentCompute then setComponents rw (cs\<lparr>comps_Compute := (comps_Compute cs)\<lparr>cmp_NodeGroups := gs\<rparr>\<rparr>)
      else rw)"

definition getReplicasPtr ::
  "RisingWaveScaleViewHelper \<Rightarrow> string \<Rightarrow> (RisingWaveNodeGroup list \<times> nat option) outcome" where
  "getReplicasPtr h grp =
     (case componentNodeGroups (h_risingwave h) (h_component h) of
        Panics m \<Rightarrow> Panics m
      | Returns gs \<Rightarrow> Returns (gs, findNodeGroup gs grp ng_Name))"

definition ListComponentGroups :: "RisingWaveScaleViewHelper \<Rightarrow> string list outcome" where
  "ListComponentGroups h =
     (let cs = rws_Components (rw_Spec (h_risingwave h)); c = h_component h in
      if c = ComponentMeta then Returns (map ng_Name (cmp_NodeGroups (comps_Meta cs)))
      else if c = ComponentFrontend then Returns (map ng_Name (cmp_NodeGroups (comps_Frontend cs)))
      else if c = ComponentCompute then Returns (map ng_Name (cmp_NodeGroups (comps_Compute cs)))
      else if c = ComponentCompactor then Returns (map ng_Name (cmp_NodeGroups (comps_Compactor cs)))
      else Panics (''unknown component '' @ c))"

definition GetGroupIndex :: "RisingWaveScaleViewHelper \<Rightarrow> string \<Rightarrow> (nat \<times> bool) outcome" where
  "GetGroupIndex h grp =
     (case getReplicasPtr h grp of
        Panics m \<Rightarrow> Panics m
      | Returns (gs, None) \<Rightarrow> Returns (0, False)
      | Returns (gs, Some i) \<Rightarrow> Returns (i, True))"

definition ReadReplicas :: "RisingWaveScaleViewHelper \<Rightarrow> string \<Rightarrow> (int \<times> bool) outcome" where
  "ReadReplicas h grp =
     (case getReplicasPtr h grp of
        Panics m \<Rightarrow> Panics m
      | Returns (gs, None) \<Rightarrow> Returns (0, False)
      | Returns (gs, Some i) \<Rightarrow> Returns (ng_Replicas (gs ! i), True))"

definition WriteReplicas ::
  "RisingWaveScaleViewHelper \<Rightarrow> string \<Rightarrow> int \<Rightarrow> (bool \<times> RisingWaveScaleViewHelper) outcome" where
  "WriteReplicas h grp replicas =
     (case getReplicasPtr h grp of
        Panics m \<Rightarrow> Panics m
      | Returns (gs, None) \<Rightarrow> Returns (False, h)
      | Returns (gs, Some i) \<Rightarrow>
          if ng_Replicas (gs ! i) = replicas then Returns (False, h)
          else Returns (True, h\<lparr>h_risingwave :=
                 storeNodeGroups (h_risingwave h) (h_component h) (gs[i := (gs ! i)\<lparr>ng_Replicas := replicas\<rparr>])\<rparr>))"

section \<open>The lock manager\<close>

abbreviation locksOf :: "RisingWave \<Rightarrow> RisingWaveScaleViewLock list" where
  "locksOf rw \<equiv> rst_ScaleViews (rw_Status rw)"

definition setLocks :: "RisingWave \<Rightarrow> RisingWaveScaleViewLock list \<Rightarrow> RisingWave" where
  "setLocks rw ls = rw\<lparr>rw_Status := (rw_Status rw)\<lparr>rst_ScaleViews := ls\<rparr>\<rparr>"

abbreviation svName :: "RisingWaveScaleView \<Rightarrow> string" where "svName sv \<equiv> om_Name (sv_Meta sv)"
abbreviation svUID :: "RisingWaveScaleView \<Rightarrow> string" where "svUID sv \<equiv> om_UID (sv_Meta sv)"
abbreviation svGeneration :: "RisingWaveScaleView \<Rightarrow> int" where "svGeneration sv \<equiv> om_Generation (sv_Meta sv)"
abbreviation svComponent :: "RisingWaveScaleView \<Rightarrow> string" where
  "svComponent sv \<equiv> tr_Component (svs_TargetRef (sv_Spec sv))"

fun lockIndex :: "RisingWaveScaleViewLock list \<Rightarrow> RisingWaveScaleView \<Rightarrow> nat option" where
  "lockIndex [] sv = None"
| "lockIndex (s # ss) sv =
     (if lk_Name s = svName sv \<and> lk_UID s = svUID sv then Some 0 else map_option Suc (lockIndex ss sv))"

definition getScaleViewLockIndex ::
  "RisingWave \<Rightarrow> RisingWaveScaleView \<Rightarrow> nat \<times> RisingWaveScaleViewLock option" where
  "getScaleViewLockIndex rw sv =
     (case lockIndex (locksOf rw) sv of
        Some i \<Rightarrow> (i, Some (locksOf rw ! i))
      | None \<Rightarrow> (0, None))"

definition GetScaleViewLock :: "RisingWave \<Rightarrow> RisingWaveScaleView \<Rightarrow> RisingWaveScaleViewLock option" where
  "GetScaleViewLock rw sv = snd (getScaleViewLockIndex rw sv)"

definition IsScaleViewLocked :: "RisingWave \<Rightarrow> RisingWaveScaleView \<Rightarrow> bool" where
  "IsScaleViewLocked rw sv \<longleftrightarrow> GetScaleViewLock rw sv \<noteq> None"

text \<open>The group locks written for a scale view: a missing map entry reads as 0.\<close>

definition groupLocksFor ::
  "RisingWaveScaleView \<Rightarrow> (string \<times> int) list \<Rightarrow> RisingWaveScaleViewLockGroupLock list" where
  "groupLocksFor sv groupReplicas =
     map (\<lambda>t. \<lparr>gl_Name = sp_Group t,
               gl_Replicas = (case map_of groupReplicas (sp_Group t) of Some x \<Rightarrow> x | None \<Rightarrow> 0)\<rparr>)
       (policiesOf sv)"

text \<open>The conflict checks of \<^verbatim>\<open>GrabScaleViewLockFor\<close>, in the order of the records.\<close>

fun grabConflict :: "RisingWaveScaleViewLock list \<Rightarrow> RisingWaveScaleView \<Rightarrow> string option" where
  "grabConflict [] sv = None"
| "grabConflict (s # ss) sv =
     (if lk_Name s = svName sv \<and> lk_UID s \<noteq> svUID sv then Some ''scale view found but uid mismatch''
      else if lk_Name s = svName sv \<and> lk_UID s = svUID sv then Some ''already grabbed''
      else
        (case (if lk_Component s = svComponent sv
               then find (\<lambda>sp. sp_Group sp \<in> set (map gl_Name (lk_GroupLocks s))) (policiesOf sv)
               else None) of
           Some sp \<Rightarrow> Some (''lock conflict on group '' @ sp_Group sp @ '', already returnErr by '' @ lk_Name s)
         | None \<Rightarrow> grabConflict ss sv))"

definition GrabScaleViewLockFor :: "RisingWave \<Rightarrow> RisingWaveScaleView \<Rightarrow> (string + RisingWave) outcome" where
  "GrabScaleViewLockFor rw sv =
     (case SplitReplicas sv of
        Panics m \<Rightarrow> Panics m
      | Returns groupReplicas \<Rightarrow>
          (case grabConflict (locksOf rw) sv of
             Some e \<Rightarrow> Returns (Inl e)
           | None \<Rightarrow> Returns (Inr (setLocks rw (locksOf rw @
               [\<lparr>lk_Name = svName sv, lk_UID = svUID sv, lk_Component = svComponent sv,
                 lk_Generation = svGeneration sv, lk_GroupLocks = groupLocksFor sv groupReplicas\<rparr>])))))"

definition GrabOrUpdateScaleViewLockFor ::
  "RisingWave \<Rightarrow> RisingWaveScaleView \<Rightarrow> (string + bool \<times> RisingWave) outcome" where
  "GrabOrUpdateScaleViewLockFor rw sv =
     (case getScaleViewLockIndex rw sv of
        (_, None) \<Rightarrow>
          (case GrabScaleViewLockFor rw sv of
             Panics m \<Rightarrow> Panics m
           | Returns (Inl e) \<Rightarrow> Returns (Inl e)
           | Returns (Inr rw') \<Rightarrow> Returns (Inr (True, rw')))
      | (i, Some l) \<Rightarrow>
          if lk_Generation l = svGeneration sv then Returns (Inr (False, rw))
          else (case SplitReplicas sv of
                  Panics m \<Rightarrow> Panics m
                | Returns groupReplicas \<Rightarrow>
                    Returns (Inr (True, setLocks rw ((locksOf rw)[i :=
                      l\<lparr>lk_Generation := svGeneration sv, lk_GroupLocks := groupLocksFor sv groupReplicas\<rparr>])))))"

definition ReleaseLockFor :: "RisingWave \<Rightarrow> RisingWaveScaleView \<Rightarrow> bool \<times> RisingWave" where
  "ReleaseLockFor rw sv =
     (case getScaleViewLockIndex rw sv of
        (i, Some l) \<Rightarrow> (True, setLocks rw (take i (locksOf rw) @ drop (Suc i) (locksOf rw)))
      | (_, None) \<Rightarrow> (False, rw))"

section \<open>Reading and writing replicas\<close>

lemma findNodeGroup_map: "findNodeGroup gs t name = findNodeGroup (map name gs) t (\<lambda>x. x)"
  by (induction gs) simp_all

lemma findNodeGroup_Some:
  "findNodeGroup gs t name = Some i \<Longrightarrow> i < length gs \<and> name (gs ! i) = t"
  by (induction gs arbitrary: i) (auto split: if_splits)

lemma findNodeGroup_None: "findNodeGroup gs t name = None \<longleftrightarrow> t \<notin> name ` set gs"
  by (induction gs) auto

lemma findNodeGroup_update:
  assumes "name (gs ! i) = name g"
  shows "findNodeGroup (gs[i := g]) t name = findNodeGroup gs t name"
proof -
  have "map name (gs[i := g]) = map name gs"
    using assms by (metis list_update_beyond list_update_id map_update not_le_imp_less)
  then show ?thesis by (metis findNodeGroup_map)
qed

definition known_component :: "string \<Rightarrow> bool" where
  "known_component c \<longleftrightarrow> c = ComponentMeta \<or> c = ComponentFrontend \<or> c = ComponentCompute \<or> c = ComponentCompactor"

definition nodeGroups :: "RisingWave \<Rightarrow> string \<Rightarrow> RisingWaveNodeGroup list" where
  "nodeGroups rw c = (case componentNodeGroups rw c of Returns gs \<Rightarrow> gs | Panics m \<Rightarrow> [])"

lemma componentNodeGroups_known:
  "componentNodeGroups rw c = (if known_component c then Returns (nodeGroups rw c)
     else Panics (if c = ComponentStandalone then ''not supported'' else ''Unknown component '' @ c))"
  by (auto simp: componentNodeGroups_def nodeGroups_def known_component_def Let_def)

lemma nodeGroups_store:
  assumes "known_component c"
  shows "nodeGroups (storeNodeGroups rw c gs) c' = (if c' = c then gs else nodeGroups rw c')"
  using assms
  by (auto simp: nodeGroups_def componentNodeGroups_def storeNodeGroups_def setComponents_def
      known_component_def component_defs Let_def)

lemma storeNodeGroups_frame:
  "rw_Status (storeNodeGroups rw c gs) = rw_Status rw" "rw_Meta (storeNodeGroups rw c gs) = rw_Meta rw"
  by (simp_all add: storeNodeGroups_def setComponents_def Let_def)

text \<open>The replicas of a group as a partial map: what \<^verbatim>\<open>ReadReplicas\<close> returns.\<close>

definition replicasOf :: "RisingWave \<Rightarrow> string \<Rightarrow> string \<rightharpoonup> int" where
  "replicasOf rw c g =
     map_option (\<lambda>i. ng_Replicas (nodeGroups rw c ! i)) (findNodeGroup (nodeGroups rw c) g ng_Name)"

lemma ReadReplicas_eq:
  assumes "known_component c"
  shows "ReadReplicas (NewRisingWaveScaleViewHelper rw c) g =
    Returns (case replicasOf rw c g of Some n \<Rightarrow> (n, True) | None \<Rightarrow> (0, False))"
  using assms
  by (simp add: ReadReplicas_def getReplicasPtr_def NewRisingWaveScaleViewHelper_def
      componentNodeGroups_known replicasOf_def split: option.splits)

lemma replicasOf_store:
  assumes "known_component c" "findNodeGroup (nodeGroups rw c) g ng_Name = Some i"
  shows "replicasOf (storeNodeGroups rw c ((nodeGroups rw c)[i := (nodeGroups rw c ! i)\<lparr>ng_Replicas := n\<rparr>])) c' g' =
    (if c' = c \<and> g' = g then Some n else replicasOf rw c' g')"
proof (cases "c' = c")
  case True
  let ?gs = "nodeGroups rw c"
  let ?gs' = "?gs[i := (?gs ! i)\<lparr>ng_Replicas := n\<rparr>]"
  have i: "i < length ?gs" "ng_Name (?gs ! i) = g" using findNodeGroup_Some [OF assms(2)] by simp_all
  have find: "findNodeGroup ?gs' x ng_Name = findNodeGroup ?gs x ng_Name" for x
    by (rule findNodeGroup_update) simp
  have other: "j \<noteq> i" if "findNodeGroup ?gs g' ng_Name = Some j" "g' \<noteq> g" for j
    using findNodeGroup_Some [OF that(1)] that(2) i by auto
  show ?thesis
    using True assms(1,2) i other
    by (cases "findNodeGroup ?gs g' ng_Name") (auto simp: replicasOf_def nodeGroups_store find)
next
  case False
  then show ?thesis using assms(1) by (simp add: replicasOf_def nodeGroups_store)
qed

definition writeTo :: "RisingWave \<Rightarrow> string \<Rightarrow> string \<Rightarrow> int \<Rightarrow> RisingWave" where
  "writeTo rw c g n =
     (case WriteReplicas (NewRisingWaveScaleViewHelper rw c) g n of
        Returns (_, h) \<Rightarrow> h_risingwave h | Panics m \<Rightarrow> rw)"

lemma WriteReplicas_eq:
  assumes "known_component c"
  shows "WriteReplicas (NewRisingWaveScaleViewHelper rw c) g n =
    Returns (replicasOf rw c g \<noteq> None \<and> replicasOf rw c g \<noteq> Some n,
             NewRisingWaveScaleViewHelper (writeTo rw c g n) c)"
  using assms
  by (auto simp: writeTo_def WriteReplicas_def getReplicasPtr_def NewRisingWaveScaleViewHelper_def
      componentNodeGroups_known replicasOf_def split: option.splits)

lemma replicasOf_writeTo:
  assumes "known_component c"
  shows "replicasOf (writeTo rw c g n) c' g' =
    (if c' = c \<and> g' = g \<and> replicasOf rw c g \<noteq> None then Some n else replicasOf rw c' g')"
proof (cases "findNodeGroup (nodeGroups rw c) g ng_Name")
  case None
  then show ?thesis using assms
    by (simp add: writeTo_def WriteReplicas_def getReplicasPtr_def NewRisingWaveScaleViewHelper_def
        componentNodeGroups_known replicasOf_def)
next
  case (Some i)
  show ?thesis
  proof (cases "ng_Replicas (nodeGroups rw c ! i) = n")
    case True
    then have "writeTo rw c g n = rw" using assms Some
      by (simp add: writeTo_def WriteReplicas_def getReplicasPtr_def NewRisingWaveScaleViewHelper_def
          componentNodeGroups_known)
    then show ?thesis using True Some by (auto simp: replicasOf_def)
  next
    case False
    then have "writeTo rw c g n =
      storeNodeGroups rw c ((nodeGroups rw c)[i := (nodeGroups rw c ! i)\<lparr>ng_Replicas := n\<rparr>])"
      using assms Some
      by (simp add: writeTo_def WriteReplicas_def getReplicasPtr_def NewRisingWaveScaleViewHelper_def
          componentNodeGroups_known)
    then show ?thesis using replicasOf_store [OF assms Some] Some by (simp add: replicasOf_def)
  qed
qed

lemma writeTo_status: "rw_Status (writeTo rw c g n) = rw_Status rw"
  by (simp add: writeTo_def WriteReplicas_def NewRisingWaveScaleViewHelper_def storeNodeGroups_frame
      split: outcome.splits prod.splits option.splits if_splits)

text \<open>
  The contract the controllers rely on when they copy locked replicas into a RisingWave: a write
  changes exactly the group it names, and only if the group exists.
\<close>

locale replica_store =
  fixes load :: "'s \<Rightarrow> string \<Rightarrow> string \<Rightarrow> int option"
    and store :: "'s \<Rightarrow> string \<Rightarrow> string \<Rightarrow> int \<Rightarrow> 's"
    and valid :: "string \<Rightarrow> bool"
  assumes load_store: "valid c \<Longrightarrow> load (store s c g n) c' g' =
    (if c' = c \<and> g' = g \<and> load s c g \<noteq> None then Some n else load s c' g')"
begin

lemma load_stores:
  assumes "valid c" "distinct (map fst gs)"
  shows "load (foldl (\<lambda>s p. store s c (fst p) (snd p)) s gs) c' g' =
    (if c' = c \<and> load s c g' \<noteq> None then
       (case map_of gs g' of Some n \<Rightarrow> Some n | None \<Rightarrow> load s c g')
     else load s c' g')"
  using assms
proof (induction gs arbitrary: s)
  case Nil
  then show ?case by simp
next
  case (Cons p gs)
  then have "map_of gs (fst p) = None" by (simp add: map_of_eq_None_iff)
  then show ?case using Cons by (auto simp: load_store split: option.splits)
qed

end

interpretation rs: replica_store replicasOf writeTo known_component
  by unfold_locales (rule replicasOf_writeTo)

section \<open>The lock records exclude each other\<close>

definition groupsOfLock :: "RisingWaveScaleViewLock \<Rightarrow> string set" where
  "groupsOfLock l = gl_Name ` set (lk_GroupLocks l)"

definition groupsOfView :: "RisingWaveScaleView \<Rightarrow> string set" where
  "groupsOfView sv = sp_Group ` set (policiesOf sv)"

definition apart :: "RisingWaveScaleViewLock \<Rightarrow> RisingWaveScaleViewLock \<Rightarrow> bool" where
  "apart a b \<longleftrightarrow> lk_Name a \<noteq> lk_Name b \<and>
     (lk_Component a = lk_Component b \<longrightarrow> groupsOfLock a \<inter> groupsOfLock b = {})"

text \<open>The invariant: no two records have the same name or lock the same group of the same component.\<close>

definition locks_exclusive :: "RisingWaveScaleViewLock list \<Rightarrow> bool" where
  "locks_exclusive ls \<longleftrightarrow> sorted_wrt apart ls"

lemma apart_sym: "apart a b \<Longrightarrow> apart b a"
  by (auto simp: apart_def)

lemma locks_exclusive_nth:
  assumes "locks_exclusive ls" "i < length ls" "j < length ls" "i \<noteq> j"
  shows "apart (ls ! i) (ls ! j)"
  using assms by (metis apart_sym linorder_neqE_nat locks_exclusive_def sorted_wrt_nth_less)

lemma locks_exclusiveI:
  assumes "\<And>i j. i < j \<Longrightarrow> j < length ls \<Longrightarrow> apart (ls ! i) (ls ! j)"
  shows "locks_exclusive ls"
  using assms by (auto simp: locks_exclusive_def sorted_wrt_iff_nth_less)

lemma locks_exclusive_filter: "locks_exclusive ls \<Longrightarrow> locks_exclusive (filter P ls)"
  by (simp add: locks_exclusive_def sorted_wrt_filter)

lemma locks_setLocks [simp]: "locksOf (setLocks rw ls) = ls"
  by (simp add: setLocks_def)

lemma lockIndex_Some:
  "lockIndex ls sv = Some i \<Longrightarrow> i < length ls \<and> lk_Name (ls ! i) = svName sv \<and> lk_UID (ls ! i) = svUID sv"
  by (induction ls arbitrary: i) (auto split: if_splits)

lemma lockIndex_None:
  "lockIndex ls sv = None \<longleftrightarrow> (\<forall>l \<in> set ls. \<not> (lk_Name l = svName sv \<and> lk_UID l = svUID sv))"
  by (induction ls) auto

lemma noGroupConflict:
  "find (\<lambda>sp. sp_Group sp \<in> set (map gl_Name (lk_GroupLocks s))) (policiesOf sv) = None \<longleftrightarrow>
     groupsOfLock s \<inter> groupsOfView sv = {}"
  unfolding find_None_iff groupsOfLock_def groupsOfView_def set_map disjoint_iff
  by (metis (no_types, lifting) imageE imageI)

lemma grabConflict_None:
  "grabConflict ls sv = None \<longleftrightarrow>
     (\<forall>l \<in> set ls. lk_Name l \<noteq> svName sv \<and>
        (lk_Component l = svComponent sv \<longrightarrow> groupsOfLock l \<inter> groupsOfView sv = {}))"
proof (induction ls)
  case Nil
  then show ?case by simp
next
  case (Cons s ss)
  have "grabConflict (s # ss) sv = None \<longleftrightarrow> lk_Name s \<noteq> svName sv \<and>
      (lk_Component s = svComponent sv \<longrightarrow> groupsOfLock s \<inter> groupsOfView sv = {}) \<and> grabConflict ss sv = None"
    unfolding noGroupConflict [symmetric] by (simp split: option.split)
  then show ?case using Cons.IH by auto
qed

lemma groupLocksFor_groups [simp]: "gl_Name ` set (groupLocksFor sv r) = groupsOfView sv"
  by (auto simp: groupLocksFor_def groupsOfView_def image_iff)

lemma Grab_Inr:
  assumes "GrabScaleViewLockFor rw sv = Returns (Inr rw')"
  obtains r where "SplitReplicas sv = Returns r" "grabConflict (locksOf rw) sv = None"
    "rw' = setLocks rw (locksOf rw @ [\<lparr>lk_Name = svName sv, lk_UID = svUID sv, lk_Component = svComponent sv,
        lk_Generation = svGeneration sv, lk_GroupLocks = groupLocksFor sv r\<rparr>])"
  using assms by (auto simp: GrabScaleViewLockFor_def split: outcome.splits option.splits)

lemma Grab_exclusive:
  assumes "locks_exclusive (locksOf rw)" "GrabScaleViewLockFor rw sv = Returns (Inr rw')"
  shows "locks_exclusive (locksOf rw')"
  using assms(2)
proof (rule Grab_Inr)
  fix r
  let ?l = "\<lparr>lk_Name = svName sv, lk_UID = svUID sv, lk_Component = svComponent sv,
        lk_Generation = svGeneration sv, lk_GroupLocks = groupLocksFor sv r\<rparr>"
  assume "grabConflict (locksOf rw) sv = None" and rw': "rw' = setLocks rw (locksOf rw @ [?l])"
  then have "\<forall>l \<in> set (locksOf rw). apart l ?l"
    by (auto simp: grabConflict_None apart_def groupsOfLock_def)
  then show ?thesis using assms(1) rw' by (simp add: locks_exclusive_def sorted_wrt_append)
qed

lemma Release_exclusive:
  assumes "locks_exclusive (locksOf rw)"
  shows "locks_exclusive (locksOf (snd (ReleaseLockFor rw sv)))"
proof -
  have "sorted_wrt apart (take i ls @ drop (Suc i) ls)" if s: "sorted_wrt apart ls" for i ls
  proof -
    have "sorted_wrt apart (take i ls @ drop i ls)" using s by simp
    then have "\<forall>x \<in> set (take i ls). \<forall>y \<in> set (drop i ls). apart x y" "sorted_wrt apart (take i ls)"
      unfolding sorted_wrt_append by blast+
    moreover have "set (drop (Suc i) ls) \<subseteq> set (drop i ls)" by (simp add: set_drop_subset_set_drop)
    moreover have "sorted_wrt apart (drop (Suc i) ls)" using s by (rule sorted_wrt_drop)
    ultimately show ?thesis by (auto simp: sorted_wrt_append)
  qed
  then show ?thesis using assms
    by (simp add: ReleaseLockFor_def getScaleViewLockIndex_def locks_exclusive_def split: option.splits)
qed

lemma Update_exclusive:
  assumes "locks_exclusive ls" "i < length ls"
    and "lk_Name l' = lk_Name (ls ! i)" "lk_Component l' = lk_Component (ls ! i)"
    and "groupsOfLock l' \<subseteq> groupsOfLock (ls ! i)"
  shows "locks_exclusive (ls[i := l'])"
proof (rule locks_exclusiveI)
  fix a b assume ab: "a < b" "b < length (ls[i := l'])"
  have "apart (ls ! a) (ls ! b)" using locks_exclusive_nth [OF assms(1)] ab by simp
  then show "apart (ls[i := l'] ! a) (ls[i := l'] ! b)"
    using ab assms(3-5) by (cases "a = i"; cases "b = i") (auto simp: apart_def)
qed

lemma GrabOrUpdate_cases:
  assumes "GrabOrUpdateScaleViewLockFor rw sv = Returns (Inr (u, rw'))"
  obtains (grab) "lockIndex (locksOf rw) sv = None" "u" "GrabScaleViewLockFor rw sv = Returns (Inr rw')"
  | (keep) i where "lockIndex (locksOf rw) sv = Some i" "\<not> u" "rw' = rw"
      "lk_Generation (locksOf rw ! i) = svGeneration sv"
  | (update) i r where "lockIndex (locksOf rw) sv = Some i" "u" "SplitReplicas sv = Returns r"
      "lk_Generation (locksOf rw ! i) \<noteq> svGeneration sv"
      "rw' = setLocks rw ((locksOf rw)[i := (locksOf rw ! i)\<lparr>lk_Generation := svGeneration sv,
         lk_GroupLocks := groupLocksFor sv r\<rparr>])"
proof (cases "lockIndex (locksOf rw) sv")
  case None
  then show thesis using assms grab
    by (simp add: GrabOrUpdateScaleViewLockFor_def getScaleViewLockIndex_def
        split: outcome.splits sum.splits)
next
  case (Some i)
  then show thesis using assms keep [OF Some] update [OF Some]
    by (simp add: GrabOrUpdateScaleViewLockFor_def getScaleViewLockIndex_def
        split: outcome.splits if_splits)
qed

text \<open>
  An update rewrites the groups of the record. The admission webhook does not let the groups of a
  scale view change, which is the last hypothesis.
\<close>

lemma GrabOrUpdate_exclusive:
  assumes "locks_exclusive (locksOf rw)" "GrabOrUpdateScaleViewLockFor rw sv = Returns (Inr (u, rw'))"
    and "\<And>l. GetScaleViewLock rw sv = Some l \<Longrightarrow> groupsOfView sv \<subseteq> groupsOfLock l"
  shows "locks_exclusive (locksOf rw')"
  using assms(2)
proof (cases rule: GrabOrUpdate_cases)
  case grab
  then show ?thesis using Grab_exclusive [OF assms(1)] by blast
next
  case (keep i)
  then show ?thesis using assms(1) by simp
next
  case (update i r)
  have "GetScaleViewLock rw sv = Some (locksOf rw ! i)"
    using update(1) by (simp add: GetScaleViewLock_def getScaleViewLockIndex_def)
  then have "groupsOfView sv \<subseteq> groupsOfLock (locksOf rw ! i)" by (rule assms(3))
  then show ?thesis
    unfolding update(5) locks_setLocks using lockIndex_Some [OF update(1)] assms(1)
    by (intro Update_exclusive) (auto simp: groupsOfLock_def)
qed

end
