(* ===== verification/Admission.thy ===== *)
theory Admission
  imports RwApi
begin

text \<open>
  What the webhooks and controllers share of the Kubernetes API machinery: field errors, API errors
  and the result of a reconciliation. A field error keeps its kind, its path and its message; the
  offending value that \<^verbatim>\<open>field.Invalid\<close> also records is left out. The API server itself is a parameter
  of the definitions that call it.
\<close>

datatype PathElem = Child string | Idx nat | Key string

type_synonym path = "PathElem list"

datatype FieldErrType = FInvalid | FRequired | FForbidden | FTooLong | FNotFound | FInternal

record FieldError =
  fe_Type :: FieldErrType
  fe_Path :: path
  fe_Detail :: string

definition fieldErr :: "FieldErrType \<Rightarrow> path \<Rightarrow> string \<Rightarrow> FieldError" where
  "fieldErr t p d = \<lparr>fe_Type = t, fe_Path = p, fe_Detail = d\<rparr>"

datatype ApiError =
    NotFoundErr
  | AlreadyExistsErr
  | ConflictErr string
  | InvalidErr "FieldError list"
  | ForbiddenErr FieldError
  | OtherErr string

text \<open>\<^verbatim>\<open>apierrors.NewInvalid\<close> on a non-empty list of field errors, nil otherwise.\<close>

definition invalidIfAny :: "FieldError list \<Rightarrow> ApiError option" where
  "invalidIfAny es = (if es = [] then None else Some (InvalidErr es))"

text \<open>
  The outcome of an action: \<^verbatim>\<open>ctrl.Result\<close> and an error, as the constructors of ctrlkit name them; times
  in milliseconds. \<^verbatim>\<open>Continue\<close> and \<^verbatim>\<open>NoRequeue\<close> are both the empty result without an error and are one
  value here; \<^verbatim>\<open>Exit\<close> stops a sequence and is ignored by \<^verbatim>\<open>IgnoreExit\<close>. An error keeps the message it is wrapped with.
\<close>

datatype Res =
    Continue
  | RequeueImmediately
  | RequeueAfter int
  | ExitAction
  | RequeueErr string ApiError

abbreviation NoRequeue :: Res where "NoRequeue \<equiv> Continue"

fun RequeueIfErrorAndWrap :: "string \<Rightarrow> ApiError option \<Rightarrow> Res" where
  "RequeueIfErrorAndWrap msg None = NoRequeue"
| "RequeueIfErrorAndWrap msg (Some e) = RequeueErr msg e"

definition ExitIf :: "bool \<Rightarrow> Res" where
  "ExitIf b = (if b then ExitAction else Continue)"

lemma invalidIfAny_None [simp]: "invalidIfAny es = None \<longleftrightarrow> es = []"
  by (simp add: invalidIfAny_def)

end
