(* ===== verification/ScaleWebhook.thy ===== *)
theory ScaleWebhook
  imports ScaleLock Admission
begin

text \<open>
  The admission webhooks of RisingWaveScaleView: \<^verbatim>\<open>pkg/webhook/risingwave_scale_view_mutating_webhook.go\<close>
  fills in the target's uid, the default groups, the replicas and the label selector;
  \<^verbatim>\<open>pkg/webhook/risingwave_scale_view_validating_webhook.go\<close> checks the object, tries to grab the lock and
  forbids changes of the target and of the groups. \<open>get ns name\<close> is the API server's read of a
  RisingWave.
\<close>

type_synonym getRW = "string \<Rightarrow> string \<Rightarrow> ApiError + RisingWave"

section \<open>The validating webhook\<close>

fun maxConstraintsFrom :: "int \<Rightarrow> RisingWaveScaleViewSpecScalePolicy list \<Rightarrow> int" where
  "maxConstraintsFrom maxValue [] = maxValue"
| "maxConstraintsFrom maxValue (p # ps) =
     (case sp_MaxReplicas p of
        None \<Rightarrow> MaxInt32
      | Some m \<Rightarrow> maxConstraintsFrom (i32 (maxValue + m)) ps)"

definition getScaleViewMaxConstraints :: "RisingWaveScaleView \<Rightarrow> int" where
  "getScaleViewMaxConstraints sv = maxConstraintsFrom 0 (policiesOf sv)"

abbreviation targetOf :: "RisingWaveScaleView \<Rightarrow> RisingWaveScaleViewTargetRef" where
  "targetOf sv \<equiv> svs_TargetRef (sv_Spec sv)"

definition sv_validateObject :: "RisingWaveScaleView \<Rightarrow> ApiError option" where
  "sv_validateObject obj = invalidIfAny
     ((if tr_Name (targetOf obj) = [] then
         [fieldErr FRequired [Child ''spec'', Child ''targetRef'', Child ''name''] ''target name must be provided''] else []) @
      (if tr_UID (targetOf obj) = [] then
         [fieldErr FRequired [Child ''spec'', Child ''targetRef'', Child ''uid''] ''uid should be set by mutating webhook''] else []) @
      (if policiesOf obj = [] then
         [fieldErr FRequired [Child ''spec'', Child ''scalePolicy''] ''must not be empty''] else []) @
      (if getScaleViewMaxConstraints obj \<noteq> MaxInt32 then
         [fieldErr FInvalid [Child ''spec'', Child ''scalePolicy''] ''at least one unlimited replicas''] else []))"

definition sv_validateCreate :: "getRW \<Rightarrow> RisingWaveScaleView \<Rightarrow> ApiError option outcome" where
  "sv_validateCreate get obj =
     (case sv_validateObject obj of
        Some e \<Rightarrow> Returns (Some e)
      | None \<Rightarrow>
          (case get (om_Namespace (sv_Meta obj)) (tr_Name (targetOf obj)) of
             Inl e \<Rightarrow> Returns (Some (OtherErr ''unable to get the risingwave''))
           | Inr rw \<Rightarrow>
               if tr_UID (targetOf obj) \<noteq> om_UID (rw_Meta rw)
               then Returns (Some (OtherErr (''risingwave not match, expect uid: '' @ tr_UID (targetOf obj) @
                      '', but is: '' @ om_UID (rw_Meta rw))))
               else (case GrabScaleViewLockFor rw obj of
                       Panics m \<Rightarrow> Panics m
                     | Returns (Inl e) \<Rightarrow> Returns (Some (ConflictErr (''conflict detected: '' @ e)))
                     | Returns (Inr _) \<Rightarrow> Returns None)))"

definition sv_ValidateCreate :: "getRW \<Rightarrow> RisingWaveScaleView \<Rightarrow> ApiError option outcome" where
  "sv_ValidateCreate get obj = sv_validateCreate get obj"

definition sv_validateUpdate :: "RisingWaveScaleView \<Rightarrow> RisingWaveScaleView \<Rightarrow> ApiError option" where
  "sv_validateUpdate oldObj newObj = invalidIfAny
     ((if targetOf oldObj \<noteq> targetOf newObj then
         [fieldErr FForbidden [Child ''spec'', Child ''targetRef''] ''targetRefs should not be different''] else []) @
      (if svs_LabelSelector (sv_Spec oldObj) \<noteq> svs_LabelSelector (sv_Spec newObj) then
         [fieldErr FForbidden [Child ''spec'', Child ''labelSelector''] ''labelSelector should not be changed''] else []) @
      (if sort (map sp_Group (policiesOf oldObj)) \<noteq> sort (map sp_Group (policiesOf newObj)) then
         [fieldErr FForbidden [Child ''spec'', Child ''scalePolicy''] ''groups should no be changed''] else []))"

definition sv_ValidateUpdate :: "RisingWaveScaleView \<Rightarrow> RisingWaveScaleView \<Rightarrow> ApiError option" where
  "sv_ValidateUpdate oldObj newObj =
     (case sv_validateObject newObj of
        Some e \<Rightarrow> Some e
      | None \<Rightarrow> sv_validateUpdate oldObj newObj)"

definition sv_ValidateDelete :: "RisingWaveScaleView \<Rightarrow> ApiError option" where
  "sv_ValidateDelete obj = None"

section \<open>The mutating webhook\<close>

definition setLabelSelector :: "RisingWaveScaleView \<Rightarrow> RisingWaveScaleView" where
  "setLabelSelector obj = obj\<lparr>sv_Spec := (sv_Spec obj)\<lparr>svs_LabelSelector :=
     ''risingwave/name='' @ tr_Name (targetOf obj) @ '','' @
     ''risingwave/component='' @ tr_Component (targetOf obj) @ '','' @
     ''risingwave/group in ('' @ joinStr '','' (map sp_Group (policiesOf obj)) @ '')''\<rparr>\<rparr>"

text \<open>The loop that reads the replicas of the groups: the errors and the 32-bit sum.\<close>

fun readGroups ::
  "RisingWaveScaleViewHelper \<Rightarrow> nat \<Rightarrow> RisingWaveScaleViewSpecScalePolicy list \<Rightarrow> FieldError list \<Rightarrow> int
   \<Rightarrow> (FieldError list \<times> int) outcome" where
  "readGroups h i [] errs replicas = Returns (errs, replicas)"
| "readGroups h i (p # ps) errs replicas =
     (case ReadReplicas h (sp_Group p) of
        Panics m \<Rightarrow> Panics m
      | Returns (r, True) \<Rightarrow>
          readGroups h (Suc i) ps
            (errs @ (if (case sp_MaxReplicas p of Some m \<Rightarrow> m < r | None \<Rightarrow> False) then
               [fieldErr FInvalid [Child ''spec'', Child ''scalePolicy'', Idx i, Key ''replicas'']
                  ''replicas of RisingWave out of range''] else []))
            (i32 (replicas + r))
      | Returns (r, False) \<Rightarrow>
          readGroups h (Suc i) ps
            (errs @ [fieldErr FInvalid [Child ''spec'', Child ''scalePolicy'', Idx i]
               (''target group not found: '' @ sp_Group p)])
            replicas)"

definition defaultPolicies ::
  "RisingWaveScaleViewHelper \<Rightarrow> RisingWaveScaleView \<Rightarrow> RisingWaveScaleViewSpecScalePolicy list outcome" where
  "defaultPolicies h obj =
     (if policiesOf obj \<noteq> [] then Returns (policiesOf obj)
      else (case ListComponentGroups h of
              Panics m \<Rightarrow> Panics m
            | Returns gs \<Rightarrow> Returns (map (\<lambda>g. \<lparr>sp_Group = g, sp_Priority = 0, sp_MaxReplicas = None\<rparr>) gs)))"

text \<open>
  \<^verbatim>\<open>readGroupReplicasFromRisingWave\<close>: returns the error and the mutated object. An error of the read
  other than not-found is ignored by the code, which goes on with the zero RisingWave.
\<close>

definition readGroupReplicasFromRisingWave ::
  "getRW \<Rightarrow> RisingWaveScaleView \<Rightarrow> (ApiError option \<times> RisingWaveScaleView) outcome" where
  "readGroupReplicasFromRisingWave get obj =
     (case get (om_Namespace (sv_Meta obj)) (tr_Name (targetOf obj)) of
        Inl NotFoundErr \<Rightarrow>
          Returns (Some (InvalidErr [fieldErr FInvalid [Child ''spec'', Child ''targetRef''] ''target risingwave not found'']), obj)
      | r \<Rightarrow>
          (let targetObj = (case r of Inr rw \<Rightarrow> rw | Inl _ \<Rightarrow> zeroRisingWave);
               obj1 = obj\<lparr>sv_Spec := (sv_Spec obj)\<lparr>svs_TargetRef := (targetOf obj)\<lparr>tr_UID := om_UID (rw_Meta targetObj)\<rparr>\<rparr>\<rparr>;
               h = NewRisingWaveScaleViewHelper targetObj (tr_Component (targetOf obj))
           in (case defaultPolicies h obj1 of
                 Panics m \<Rightarrow> Panics m
               | Returns ps \<Rightarrow>
                   (case readGroups h 0 ps [] 0 of
                      Panics m \<Rightarrow> Panics m
                    | Returns (errs, replicas) \<Rightarrow>
                        Returns (invalidIfAny errs,
                          obj1\<lparr>sv_Spec := (sv_Spec obj1)\<lparr>svs_ScalePolicy := ps, svs_Replicas := Some replicas\<rparr>\<rparr>)))))"

definition sv_setDefault ::
  "getRW \<Rightarrow> RisingWaveScaleView \<Rightarrow> (ApiError option \<times> RisingWaveScaleView) outcome" where
  "sv_setDefault get obj =
     (if tr_UID (targetOf obj) \<noteq> [] then
        Returns (Some (InvalidErr [fieldErr FInvalid [Child ''spec'', Child ''targetRef'', Child ''uid'']
          ''uid must be empty and set by webhook'']), obj)
      else (case readGroupReplicasFromRisingWave get obj of
              Panics m \<Rightarrow> Panics m
            | Returns (Some e, obj') \<Rightarrow> Returns (Some e, obj')
            | Returns (None, obj') \<Rightarrow> Returns (None, setLabelSelector obj')))"

definition sv_Default ::
  "getRW \<Rightarrow> RisingWaveScaleView \<Rightarrow> (ApiError option \<times> RisingWaveScaleView) outcome" where
  "sv_Default get obj = sv_setDefault get obj"

section \<open>What the webhooks guarantee\<close>

lemma maxConstraints_capacity:
  assumes "\<forall>p \<in> set ps. policy_ok p" "0 \<le> a" "maxConstraintsFrom (i32 a) ps = MaxInt32"
  shows "MaxInt32 \<le> a + sum_list (map limitOf ps)"
  using assms
proof (induction ps arbitrary: a)
  case Nil
  have "a < MaxInt32 \<Longrightarrow> i32 a = a" using Nil.prems(2) by (intro i32_id) (simp add: is_i32_def MaxInt32_def)
  then show ?case using Nil.prems(3) by force
next
  case (Cons p ps)
  have nonneg: "0 \<le> sum_list (map limitOf ps)"
    using Cons.prems(1) policy_ok_limit by (intro sum_list_nonneg) auto
  show ?case
  proof (cases "sp_MaxReplicas p")
    case None
    then have "limitOf p = MaxInt32" by (simp add: limitOf_def)
    then show ?thesis using nonneg Cons.prems(2) by simp
  next
    case (Some m)
    then have m: "limitOf p = m" "0 \<le> m" using Cons.prems(1) policy_ok_limit [of p] by (auto simp: limitOf_def)
    have "maxConstraintsFrom (i32 (a + m)) ps = MaxInt32" using Cons.prems(3) Some by simp
    then show ?thesis using Cons.IH [of "a + m"] Cons.prems(1,2) m by simp
  qed
qed

lemma validateObject_capacity:
  assumes "sv_validateObject sv = None" "\<forall>p \<in> set (policiesOf sv). policy_ok p"
  shows "MaxInt32 \<le> sum_list (map limitOf (policiesOf sv))"
proof -
  have "getScaleViewMaxConstraints sv = MaxInt32"
    using assms(1) by (simp add: sv_validateObject_def split: if_splits)
  then show ?thesis
    using maxConstraints_capacity [OF assms(2), of 0] by (simp add: getScaleViewMaxConstraints_def)
qed

lemma validateUpdate_groups:
  assumes "sv_ValidateUpdate old new = None"
  shows "groupsOfView new = groupsOfView old" "svComponent new = svComponent old"
    "sv_validateObject new = None"
proof -
  have v: "sv_validateObject new = None" "sv_validateUpdate old new = None"
    using assms by (auto simp: sv_ValidateUpdate_def split: option.splits)
  then have "sort (map sp_Group (policiesOf old)) = sort (map sp_Group (policiesOf new))"
    and t: "targetOf old = targetOf new"
    by (auto simp: sv_validateUpdate_def split: if_splits)
  then have "set (map sp_Group (policiesOf old)) = set (map sp_Group (policiesOf new))" by (metis set_sort)
  then show "groupsOfView new = groupsOfView old" by (simp add: groupsOfView_def)
  show "svComponent new = svComponent old" using t by simp
  show "sv_validateObject new = None" by (rule v(1))
qed

lemma validateCreate_grab:
  assumes "sv_ValidateCreate get obj = Returns None"
  obtains rw rw' where "sv_validateObject obj = None"
    "get (om_Namespace (sv_Meta obj)) (tr_Name (targetOf obj)) = Inr rw"
    "tr_UID (targetOf obj) = om_UID (rw_Meta rw)" "GrabScaleViewLockFor rw obj = Returns (Inr rw')"
  using assms
  by (auto simp: sv_ValidateCreate_def sv_validateCreate_def
      split: option.splits sum.splits outcome.splits if_splits)

text \<open>The reading loop: without errors every group exists within its limit, and the sum is the number returned.\<close>

definition groupReplicas :: "RisingWave \<Rightarrow> string \<Rightarrow> RisingWaveScaleViewSpecScalePolicy \<Rightarrow> int" where
  "groupReplicas rw c p = (case replicasOf rw c (sp_Group p) of Some r \<Rightarrow> r | None \<Rightarrow> 0)"

definition group_within :: "RisingWave \<Rightarrow> string \<Rightarrow> RisingWaveScaleViewSpecScalePolicy \<Rightarrow> bool" where
  "group_within rw c p = (case replicasOf rw c (sp_Group p) of None \<Rightarrow> False
     | Some r \<Rightarrow> (case sp_MaxReplicas p of None \<Rightarrow> True | Some m \<Rightarrow> r \<le> m))"

lemma readGroups_ok:
  assumes "known_component c" "is_i32 n"
    and "readGroups (NewRisingWaveScaleViewHelper rw c) i ps errs n = Returns ([], tot)"
  shows "errs = [] \<and> (\<forall>p \<in> set ps. group_within rw c p)
     \<and> tot = i32 (n + (\<Sum>p \<leftarrow> ps. groupReplicas rw c p))"
  using assms(2,3)
proof (induction ps arbitrary: i errs n)
  case Nil
  then show ?case by (simp add: i32_id)
next
  case (Cons p ps)
  show ?case
  proof (cases "replicasOf rw c (sp_Group p)")
    case None
    then show ?thesis using Cons.prems Cons.IH by (auto simp: ReadReplicas_eq [OF assms(1)])
  next
    case (Some r)
    let ?e = "if (case sp_MaxReplicas p of Some m \<Rightarrow> m < r | None \<Rightarrow> False) then
               [fieldErr FInvalid [Child ''spec'', Child ''scalePolicy'', Idx i, Key ''replicas'']
                  ''replicas of RisingWave out of range''] else []"
    have "readGroups (NewRisingWaveScaleViewHelper rw c) (Suc i) ps (errs @ ?e) (i32 (n + r)) = Returns ([], tot)"
      using Cons.prems Some by (simp add: ReadReplicas_eq [OF assms(1)])
    note IH = Cons.IH [OF is_i32_i32 this]
    have "group_within rw c p"
      using IH Some by (auto simp: group_within_def split: if_splits option.splits)
    then show ?thesis using IH Some by (auto simp: add.assoc groupReplicas_def)
  qed
qed

section \<open>Properties\<close>


text \<open>What a successful defaulting leaves behind: the uid of the target, the given groups or else all
  the groups of the component, every group an existing one within its limit, the replicas their
  32-bit sum and a label selector that lists them.\<close>
theorem sv_Default_fills:
  assumes "get (om_Namespace (sv_Meta sv)) (tr_Name (targetOf sv)) = Inr rw"
    and "known_component (svComponent sv)" "sv_Default get sv = Returns (None, sv')"
  shows "tr_UID (targetOf sv') = om_UID (rw_Meta rw)
    \<and> policiesOf sv' = (if policiesOf sv \<noteq> [] then policiesOf sv
      else map (\<lambda>g. \<lparr>sp_Group = ng_Name g, sp_Priority = 0, sp_MaxReplicas = None\<rparr>) (nodeGroups rw (svComponent sv)))
    \<and> (\<forall>p \<in> set (policiesOf sv'). group_within rw (svComponent sv) p)
    \<and> svs_Replicas (sv_Spec sv') = Some (i32 (\<Sum>p \<leftarrow> policiesOf sv'. groupReplicas rw (svComponent sv) p))
    \<and> sv' = setLabelSelector sv'"
proof -
  let ?h = "NewRisingWaveScaleViewHelper rw (svComponent sv)"
  let ?ps = "if policiesOf sv \<noteq> [] then policiesOf sv
      else map (\<lambda>g. \<lparr>sp_Group = ng_Name g, sp_Priority = 0, sp_MaxReplicas = None\<rparr>) (nodeGroups rw (svComponent sv))"
  have groups: "ListComponentGroups ?h = Returns (map ng_Name (nodeGroups rw (svComponent sv)))"
    using assms(2) by (auto simp: ListComponentGroups_def NewRisingWaveScaleViewHelper_def nodeGroups_def
        componentNodeGroups_def known_component_def component_defs Let_def)
  let ?sv1 = "sv\<lparr>sv_Spec := (sv_Spec sv)\<lparr>svs_TargetRef := (targetOf sv)\<lparr>tr_UID := om_UID (rw_Meta rw)\<rparr>\<rparr>\<rparr>"
  have "defaultPolicies ?h ?sv1 = Returns ?ps" using groups by (simp add: defaultPolicies_def comp_def)
  then have read: "readGroupReplicasFromRisingWave get sv = (case readGroups ?h 0 ?ps [] 0 of
      Panics m \<Rightarrow> Panics m
    | Returns (errs, n) \<Rightarrow> Returns (invalidIfAny errs,
        ?sv1\<lparr>sv_Spec := (sv_Spec ?sv1)\<lparr>svs_ScalePolicy := ?ps, svs_Replicas := Some n\<rparr>\<rparr>))"
    unfolding readGroupReplicasFromRisingWave_def assms(1) Let_def by (simp only: sum.case outcome.case)
  obtain sv1 where sv1: "readGroupReplicasFromRisingWave get sv = Returns (None, sv1)" "sv' = setLabelSelector sv1"
    using assms(3) unfolding sv_Default_def sv_setDefault_def
    by (simp split: if_splits outcome.splits prod.splits option.splits)
  obtain tot where tot: "readGroups ?h 0 ?ps [] 0 = Returns ([], tot)"
    and "sv1 = ?sv1\<lparr>sv_Spec := (sv_Spec ?sv1)\<lparr>svs_ScalePolicy := ?ps, svs_Replicas := Some tot\<rparr>\<rparr>"
    using sv1(1) unfolding read by (cases "readGroups ?h 0 ?ps [] 0") auto
  note sv' = sv1(2) [unfolded this(2)]
  note ok = readGroups_ok [OF assms(2) _ tot]
  have fields: "tr_UID (targetOf sv') = om_UID (rw_Meta rw)" "policiesOf sv' = ?ps" "sv' = setLabelSelector sv'"
    "svs_Replicas (sv_Spec sv') = Some tot"
    using sv' by (simp_all add: setLabelSelector_def)
  have "tot = i32 (\<Sum>p \<leftarrow> ?ps. groupReplicas rw (svComponent sv) p)" "\<forall>p \<in> set ?ps. group_within rw (svComponent sv) p"
    using ok by (simp_all add: is_i32_def)
  then show ?thesis unfolding fields(2) [symmetric] using fields by blast
qed

section \<open>Witnesses\<close>

definition demoGet :: getRW where
  "demoGet ns n = (if ns = ''ns'' \<and> n = ''rw'' then Inr demoRisingWave else Inl NotFoundErr)"

text \<open>The scale view as the user submits it: no uid, no replicas.\<close>

definition demoSubmitted :: RisingWaveScaleView where
  "demoSubmitted = (demoScaleView 0)\<lparr>sv_Spec := (sv_Spec (demoScaleView 0))\<lparr>svs_Replicas := None,
     svs_TargetRef := \<lparr>tr_Name = ''rw'', tr_Component = ''compute'', tr_UID = []\<rparr>\<rparr>\<rparr>"

lemma demoSubmitted_default:
  "sv_Default demoGet demoSubmitted = Returns (None, (demoScaleView 6)\<lparr>sv_Spec := (sv_Spec (demoScaleView 6))\<lparr>svs_LabelSelector :=
     ''risingwave/name=rw,risingwave/component=compute,risingwave/group in (c,a,b)''\<rparr>\<rparr>)"
  by code_simp


theorem sv_Default_fills_witness:
  "\<exists>sv'. sv_Default demoGet demoSubmitted = Returns (None, sv') \<and> tr_UID (targetOf sv') = ''uid-rw''"
proof -
  have "demoGet (om_Namespace (sv_Meta demoSubmitted)) (tr_Name (targetOf demoSubmitted)) = Inr demoRisingWave"
    and "known_component (svComponent demoSubmitted)" by code_simp+
  from sv_Default_fills [OF this demoSubmitted_default] show ?thesis
    unfolding demoSubmitted_default by (simp add: demoRisingWave_def)
qed

end
