(* ===== verification/RwObject.thy ===== *)
theory RwObject
  imports ScaleLock Admission
begin

text \<open>
  \<^verbatim>\<open>pkg/object/risingwave_manager.go\<close>: the reader of a RisingWave and the manager, which keeps the object
  as observed and a copy that the actions of a reconciliation change; \<^verbatim>\<open>pkg/event/message_store.go\<close>,
  \<^verbatim>\<open>pkg/controller/risingwave_event_recorder.go\<close>, and \<^verbatim>\<open>GetVersionFromImage\<close> of \<^verbatim>\<open>pkg/utils/common.go\<close>.
  Every method of the manager holds its mutex for the whole of its body, so a method is one atomic
  step. \<^verbatim>\<open>metav1.Now()\<close> is the argument \<open>now\<close>; the zero time is 0.
\<close>

section \<open>The reader\<close>

definition StateStoreRootPath :: "RisingWave \<Rightarrow> string" where
  "StateStoreRootPath rw =
     (let s = rws_StateStore (rw_Spec rw) in
      case ss_AzureBlob s of Some a \<Rightarrow> az_Root a | None \<Rightarrow>
      (case ss_AliyunOSS s of Some a \<Rightarrow> oss_Root a | None \<Rightarrow>
      (case ss_GCS s of Some a \<Rightarrow> gcs_Root a | None \<Rightarrow>
      (case ss_HDFS s of Some a \<Rightarrow> hdfs_Root a | None \<Rightarrow>
      (case ss_WebHDFS s of Some a \<Rightarrow> hdfs_Root a | None \<Rightarrow> [])))))"

definition IsObservedGenerationOutdated :: "RisingWave \<Rightarrow> bool" where
  "IsObservedGenerationOutdated rw \<longleftrightarrow> rst_ObservedGeneration (rw_Status rw) < om_Generation (rw_Meta rw)"

definition conditionIn :: "RisingWaveCondition list \<Rightarrow> string \<Rightarrow> RisingWaveCondition option" where
  "conditionIn cs t = find (\<lambda>c. rc_Type c = t) cs"

definition GetCondition :: "RisingWave \<Rightarrow> string \<Rightarrow> RisingWaveCondition option" where
  "GetCondition rw t = conditionIn (rst_Conditions (rw_Status rw)) t"

definition ConditionTrue :: string where "ConditionTrue = ''True''"
definition ConditionFalse :: string where "ConditionFalse = ''False''"

definition DoesConditionExistAndEqual :: "RisingWave \<Rightarrow> string \<Rightarrow> bool \<Rightarrow> bool" where
  "DoesConditionExistAndEqual rw t value =
     (case GetCondition rw t of
        None \<Rightarrow> False
      | Some c \<Rightarrow> (rc_Status c = ConditionTrue) = value)"

definition GetNodeGroups :: "RisingWave \<Rightarrow> string \<Rightarrow> RisingWaveNodeGroup list outcome" where
  "GetNodeGroups rw c =
     (let cs = rws_Components (rw_Spec rw) in
      if c = ComponentMeta then Returns (cmp_NodeGroups (comps_Meta cs))
      else if c = ComponentCompactor then Returns (cmp_NodeGroups (comps_Compactor cs))
      else if c = ComponentFrontend then Returns (cmp_NodeGroups (comps_Frontend cs))
      else if c = ComponentCompute then Returns (cmp_NodeGroups (comps_Compute cs))
      else if c = ComponentStandalone then Panics ''not supported''
      else Panics (''unknown component: '' @ c))"

definition GetNodeGroup :: "RisingWave \<Rightarrow> string \<Rightarrow> string \<Rightarrow> RisingWaveNodeGroup option outcome" where
  "GetNodeGroup rw c grp =
     (case GetNodeGroups rw c of
        Panics m \<Rightarrow> Panics m
      | Returns gs \<Rightarrow> Returns (find (\<lambda>g. ng_Name g = grp) gs))"

definition derefBool :: "bool option \<Rightarrow> bool \<Rightarrow> bool" where
  "derefBool p d = (case p of Some b \<Rightarrow> b | None \<Rightarrow> d)"

definition IsStandaloneModeEnabled :: "RisingWave \<Rightarrow> bool" where
  "IsStandaloneModeEnabled rw = derefBool (rws_EnableStandaloneMode (rw_Spec rw)) False"

definition IsAdvertisingWithIP :: "RisingWave \<Rightarrow> bool" where
  "IsAdvertisingWithIP rw = derefBool (rws_EnableAdvertisingWithIP (rw_Spec rw)) False"

section \<open>The manager\<close>

record RisingWaveManager =
  m_risingwave :: RisingWave
  m_mutableRisingWave :: RisingWave
  m_openkruiseAvailable :: bool

definition NewRisingWaveManager :: "RisingWave \<Rightarrow> bool \<Rightarrow> RisingWaveManager" where
  "NewRisingWaveManager rw k = \<lparr>m_risingwave = rw, m_mutableRisingWave = rw, m_openkruiseAvailable = k\<rparr>"

definition RisingWaveAfterImage :: "RisingWaveManager \<Rightarrow> RisingWave" where
  "RisingWaveAfterImage m = m_mutableRisingWave m"

definition UpdateStatus :: "RisingWaveManager \<Rightarrow> (RisingWaveStatus \<Rightarrow> RisingWaveStatus) \<Rightarrow> RisingWaveManager" where
  "UpdateStatus m f = m\<lparr>m_mutableRisingWave :=
     (m_mutableRisingWave m)\<lparr>rw_Status := f (rw_Status (m_mutableRisingWave m))\<rparr>\<rparr>"

definition SyncObservedGeneration :: "RisingWaveManager \<Rightarrow> RisingWaveManager" where
  "SyncObservedGeneration m =
     UpdateStatus m (\<lambda>s. s\<lparr>rst_ObservedGeneration := om_Generation (rw_Meta (m_mutableRisingWave m))\<rparr>)"

fun removeFirst :: "string \<Rightarrow> RisingWaveCondition list \<Rightarrow> RisingWaveCondition list" where
  "removeFirst t [] = []"
| "removeFirst t (c # cs) = (if rc_Type c = t then cs else c # removeFirst t cs)"

definition RemoveCondition :: "RisingWaveManager \<Rightarrow> string \<Rightarrow> RisingWaveManager" where
  "RemoveCondition m t = UpdateStatus m (\<lambda>s. s\<lparr>rst_Conditions := removeFirst t (rst_Conditions s)\<rparr>)"

fun putCondition :: "RisingWaveCondition \<Rightarrow> RisingWaveCondition list \<Rightarrow> RisingWaveCondition list" where
  "putCondition c [] = [c]"
| "putCondition c (d # ds) = (if rc_Type d = rc_Type c then c # ds else d # putCondition c ds)"

text \<open>The condition that \<^verbatim>\<open>UpdateCondition\<close> stores: the time is set when the observed condition is missing
  or has another status, and otherwise left as the caller passed it.\<close>

definition stampCondition :: "time \<Rightarrow> RisingWaveManager \<Rightarrow> RisingWaveCondition \<Rightarrow> RisingWaveCondition" where
  "stampCondition now m c =
     (case GetCondition (m_risingwave m) (rc_Type c) of
        None \<Rightarrow> c\<lparr>rc_LastTransitionTime := now\<rparr>
      | Some o' \<Rightarrow> if rc_Status o' \<noteq> rc_Status c then c\<lparr>rc_LastTransitionTime := now\<rparr> else c)"

definition UpdateCondition :: "time \<Rightarrow> RisingWaveManager \<Rightarrow> RisingWaveCondition \<Rightarrow> RisingWaveManager" where
  "UpdateCondition now m c =
     UpdateStatus m (\<lambda>s. s\<lparr>rst_Conditions := putCondition (stampCondition now m c) (rst_Conditions s)\<rparr>)"

text \<open>\<open>update\<close> is the API server's answer to a status update: \<^verbatim>\<open>None\<close> for success.\<close>

definition UpdateRemoteRisingWaveStatus ::
  "(RisingWave \<Rightarrow> ApiError option) \<Rightarrow> RisingWaveManager \<Rightarrow> ApiError option" where
  "UpdateRemoteRisingWaveStatus update m =
     (if rw_Status (m_mutableRisingWave m) = rw_Status (m_risingwave m) then None
      else update (m_mutableRisingWave m))"

definition IsOpenKruiseAvailable :: "RisingWaveManager \<Rightarrow> bool" where
  "IsOpenKruiseAvailable m = m_openkruiseAvailable m"

definition IsOpenKruiseEnabled :: "RisingWaveManager \<Rightarrow> bool" where
  "IsOpenKruiseEnabled m \<longleftrightarrow> IsOpenKruiseAvailable m \<and>
     (case rws_EnableOpenKruise (rw_Spec (m_risingwave m)) of None \<Rightarrow> False | Some b \<Rightarrow> b)"

definition KeepLock :: "RisingWaveManager \<Rightarrow> RisingWaveScaleViewLock list \<Rightarrow> RisingWaveManager" where
  "KeepLock m ls = UpdateStatus m (\<lambda>s. s\<lparr>rst_ScaleViews := ls\<rparr>)"

section \<open>The message store and the event recorder\<close>

type_synonym MessageStore = strmap

definition NewMessageStore :: MessageStore where "NewMessageStore = []"

definition SetMessage :: "MessageStore \<Rightarrow> string \<Rightarrow> string \<Rightarrow> MessageStore" where
  "SetMessage s ev msg = alUpdate ev msg s"

definition MessageFor :: "MessageStore \<Rightarrow> string \<Rightarrow> string" where
  "MessageFor s ev = (case map_of s ev of Some msg \<Rightarrow> msg | None \<Rightarrow> ev)"

definition IsMessageSet :: "MessageStore \<Rightarrow> string \<Rightarrow> bool" where
  "IsMessageSet s ev \<longleftrightarrow> map_of s ev \<noteq> None"

definition RisingWaveConditionRunning :: string where "RisingWaveConditionRunning = ''Running''"
definition RisingWaveConditionInitializing :: string where "RisingWaveConditionInitializing = ''Initializing''"
definition RisingWaveConditionUpgrading :: string where "RisingWaveConditionUpgrading = ''Upgrading''"

lemmas condition_defs = RisingWaveConditionRunning_def RisingWaveConditionInitializing_def
  RisingWaveConditionUpgrading_def ConditionTrue_def ConditionFalse_def

datatype RisingWaveEventType =
    RisingWaveEventTypeInitializing
  | RisingWaveEventTypeRunning
  | RisingWaveEventTypeUnhealthy
  | RisingWaveEventTypeRecovering
  | RisingWaveEventTypeUpgrading

fun eventName :: "RisingWaveEventType \<Rightarrow> string" where
  "eventName RisingWaveEventTypeInitializing = ''Initializing''"
| "eventName RisingWaveEventTypeRunning = ''Running''"
| "eventName RisingWaveEventTypeUnhealthy = ''Unhealthy''"
| "eventName RisingWaveEventTypeRecovering = ''Recovering''"
| "eventName RisingWaveEventTypeUpgrading = ''Upgrading''"

definition isAfterConditionTrueAndChanged :: "RisingWave \<Rightarrow> RisingWave \<Rightarrow> (RisingWave \<Rightarrow> bool) \<Rightarrow> bool" where
  "isAfterConditionTrueAndChanged before after eval' \<longleftrightarrow> eval' after \<and> \<not> eval' before"

text \<open>The events emitted, each with its message.\<close>

definition recordEvent :: "MessageStore \<Rightarrow> RisingWaveEventType \<Rightarrow> RisingWaveEventType \<times> string" where
  "recordEvent s e = (e, MessageFor s (eventName e))"

definition isRecovering :: "RisingWave \<Rightarrow> bool" where
  "isRecovering r \<longleftrightarrow> GetCondition r RisingWaveConditionInitializing = None \<and>
     DoesConditionExistAndEqual r RisingWaveConditionRunning False"

definition recordConditionChangingEvents :: "RisingWaveManager \<Rightarrow> MessageStore \<Rightarrow> (RisingWaveEventType \<times> string) list" where
  "recordConditionChangingEvents m s =
     (let before = m_risingwave m; after = RisingWaveAfterImage m;
          emit = (\<lambda>eval' e. if isAfterConditionTrueAndChanged before after eval' then [recordEvent s e] else [])
      in emit (\<lambda>r. DoesConditionExistAndEqual r RisingWaveConditionInitializing True) RisingWaveEventTypeInitializing @
         emit (\<lambda>r. DoesConditionExistAndEqual r RisingWaveConditionRunning True) RisingWaveEventTypeRunning @
         emit isRecovering RisingWaveEventTypeRecovering @
         emit (\<lambda>r. DoesConditionExistAndEqual r RisingWaveConditionUpgrading True) RisingWaveEventTypeUpgrading)"

definition recordStatesWarningEvents :: "MessageStore \<Rightarrow> (RisingWaveEventType \<times> string) list" where
  "recordStatesWarningEvents s =
     map (recordEvent s) (filter (\<lambda>e. IsMessageSet s (eventName e)) [RisingWaveEventTypeUnhealthy])"

definition PostRun ::
  "RisingWaveManager \<Rightarrow> MessageStore \<Rightarrow> string \<Rightarrow> ApiError option \<Rightarrow> (RisingWaveEventType \<times> string) list" where
  "PostRun m s action err =
     (if action \<noteq> ''UpdateRisingWaveStatusViaClient'' then []
      else if err \<noteq> None then []
      else recordConditionChangingEvents m s @ recordStatesWarningEvents s)"

section \<open>The version of an image\<close>

text \<open>\<^verbatim>\<open>strings.LastIndex\<close> of a one-character separator.\<close>

definition lastIndexOf :: "char \<Rightarrow> string \<Rightarrow> nat option" where
  "lastIndexOf c s = map_option (\<lambda>i. length s - Suc i) (indexOf (rev s) [c])"

definition GetVersionFromImage :: "string \<Rightarrow> string" where
  "GetVersionFromImage img =
     (if img = [] then []
      else let afterRepo = (case lastIndexOf CHR ''/'' img of Some i \<Rightarrow> drop (Suc i) img | None \<Rightarrow> img)
           in (case lastIndexOf CHR '':'' afterRepo of
                 None \<Rightarrow> ''latest''
               | Some i \<Rightarrow> drop (Suc i) afterRepo))"

section \<open>Lemmas\<close>

lemma UpdateStatus_fields [simp]:
  "m_risingwave (UpdateStatus m f) = m_risingwave m"
  "m_openkruiseAvailable (UpdateStatus m f) = m_openkruiseAvailable m"
  "rw_Status (m_mutableRisingWave (UpdateStatus m f)) = f (rw_Status (m_mutableRisingWave m))"
  "rw_Spec (m_mutableRisingWave (UpdateStatus m f)) = rw_Spec (m_mutableRisingWave m)"
  "rw_Meta (m_mutableRisingWave (UpdateStatus m f)) = rw_Meta (m_mutableRisingWave m)"
  by (simp_all add: UpdateStatus_def)

lemma UpdateStatus_twice [simp]: "UpdateStatus (UpdateStatus m f) g = UpdateStatus m (g \<circ> f)"
  by (simp add: UpdateStatus_def)

lemma conditionIn_Cons:
  "conditionIn (c # cs) t = (if rc_Type c = t then Some c else conditionIn cs t)"
  by (simp add: conditionIn_def)

lemma conditionIn_put:
  "conditionIn (putCondition c cs) t = (if t = rc_Type c then Some c else conditionIn cs t)"
  by (induction cs) (auto simp: conditionIn_Cons conditionIn_def)

lemma putCondition_types: "rc_Type ` set (putCondition c cs) = insert (rc_Type c) (rc_Type ` set cs)"
  by (induction cs) auto

lemma putCondition_distinct: "distinct (map rc_Type cs) \<Longrightarrow> distinct (map rc_Type (putCondition c cs))"
proof (induction cs)
  case (Cons d ds)
  then show ?case using putCondition_types [of c ds] by (auto simp: image_iff)
qed simp

lemma conditionIn_absent: "t \<notin> rc_Type ` set cs \<Longrightarrow> conditionIn cs t = None"
  by (auto simp: conditionIn_def find_None_iff)

lemma conditionIn_remove:
  assumes "distinct (map rc_Type cs)"
  shows "conditionIn (removeFirst t cs) t' = (if t' = t then None else conditionIn cs t')"
  using assms by (induction cs) (auto simp: conditionIn_Cons conditionIn_absent conditionIn_def [of "[]"])

lemma removeFirst_set: "set (removeFirst t cs) \<subseteq> set cs"
  by (induction cs) auto

lemma removeFirst_distinct: "distinct (map rc_Type cs) \<Longrightarrow> distinct (map rc_Type (removeFirst t cs))"
proof (induction cs)
  case (Cons c cs)
  then show ?case using removeFirst_set [of t cs] by auto
qed simp

lemma stampCondition_fields [simp]:
  "rc_Type (stampCondition now m c) = rc_Type c" "rc_Status (stampCondition now m c) = rc_Status c"
  by (auto simp: stampCondition_def split: option.splits)

lemma UpdateCondition_reader [simp]: "m_risingwave (UpdateCondition now m c) = m_risingwave m"
  by (simp add: UpdateCondition_def)

lemma GetCondition_update:
  "GetCondition (m_mutableRisingWave (UpdateCondition now m c)) t =
     (if t = rc_Type c then Some (stampCondition now m c) else GetCondition (m_mutableRisingWave m) t)"
  by (simp add: UpdateCondition_def GetCondition_def conditionIn_put)

lemma GetCondition_remove:
  assumes "distinct (map rc_Type (rst_Conditions (rw_Status (m_mutableRisingWave m))))"
  shows "GetCondition (m_mutableRisingWave (RemoveCondition m t)) t' =
     (if t' = t then None else GetCondition (m_mutableRisingWave m) t')"
  using assms by (simp add: RemoveCondition_def GetCondition_def conditionIn_remove)

lemma GetNodeGroups_eq:
  "GetNodeGroups rw c = (if known_component c then Returns (nodeGroups rw c)
     else Panics (if c = ComponentStandalone then ''not supported'' else ''unknown component: '' @ c))"
  by (auto simp: GetNodeGroups_def nodeGroups_def componentNodeGroups_def known_component_def component_defs Let_def)

text \<open>The last index of a character splits a string at its last occurrence.\<close>

lemma indexOf_single:
  "c \<notin> set a \<Longrightarrow> indexOf (a @ c # b) [c] = Some (length a)"
  by (induction a) (auto simp: hasPrefix_def)

lemma indexOf_absent: "c \<notin> set a \<Longrightarrow> indexOf a [c] = None"
  by (induction a) (auto simp: hasPrefix_def)

lemma lastIndexOf_split: "c \<notin> set b \<Longrightarrow> lastIndexOf c (a @ c # b) = Some (length a)"
  using indexOf_single [of c "rev b" "rev a"] by (simp add: lastIndexOf_def)

lemma lastIndexOf_absent: "c \<notin> set a \<Longrightarrow> lastIndexOf c a = None"
  using indexOf_absent [of c "rev a"] by (simp add: lastIndexOf_def)

section \<open>Properties\<close>

text \<open>\<^verbatim>\<open>UpdateCondition\<close> sets the one condition of its type with the given status and keeps every other
  condition; the types stay distinct and the observed object is untouched. The time is \<open>now\<close> exactly when
  the observed condition is missing or has another status; otherwise it is the time the caller passed,
  not the one that was observed.\<close>
theorem UpdateCondition_spec:
  assumes "distinct (map rc_Type (rst_Conditions (rw_Status (m_mutableRisingWave m))))"
  shows "m_risingwave (UpdateCondition now m c) = m_risingwave m
    \<and> distinct (map rc_Type (rst_Conditions (rw_Status (RisingWaveAfterImage (UpdateCondition now m c)))))
    \<and> (\<forall>t. t \<noteq> rc_Type c \<longrightarrow>
        GetCondition (RisingWaveAfterImage (UpdateCondition now m c)) t = GetCondition (RisingWaveAfterImage m) t)
    \<and> GetCondition (RisingWaveAfterImage (UpdateCondition now m c)) (rc_Type c) =
        Some (c\<lparr>rc_LastTransitionTime :=
          (if map_option rc_Status (GetCondition (m_risingwave m) (rc_Type c)) = Some (rc_Status c)
           then rc_LastTransitionTime c else now)\<rparr>)"
proof -
  have "stampCondition now m c = c\<lparr>rc_LastTransitionTime :=
      (if map_option rc_Status (GetCondition (m_risingwave m) (rc_Type c)) = Some (rc_Status c)
       then rc_LastTransitionTime c else now)\<rparr>"
    by (auto simp: stampCondition_def split: option.splits)
  then show ?thesis
    using putCondition_distinct [OF assms] unfolding RisingWaveAfterImage_def
    by (simp add: GetCondition_update) (simp add: UpdateCondition_def)
qed

text \<open>The version reported for an image: the tag after the last path element, so that a registry
  port is never taken for a tag, and \<^verbatim>\<open>latest\<close> for an untagged image.\<close>
theorem GetVersionFromImage_tag:
  assumes "CHR ''/'' \<notin> set name" "CHR ''/'' \<notin> set tag" "CHR '':'' \<notin> set tag" "CHR '':'' \<notin> set name"
  shows "GetVersionFromImage (repo @ ''/'' @ name @ '':'' @ tag) = tag
    \<and> GetVersionFromImage (repo @ ''/'' @ name) = ''latest''"
proof -
  have "CHR ''/'' \<notin> set (name @ '':'' @ tag)" using assms by simp
  from lastIndexOf_split [OF this, of repo] lastIndexOf_split [OF assms(3), of name]
    lastIndexOf_split [OF assms(1), of repo] lastIndexOf_absent [OF assms(4)]
  show ?thesis by (simp add: GetVersionFromImage_def Let_def)
qed

section \<open>Witnesses\<close>

definition demoCondition :: "string \<Rightarrow> string \<Rightarrow> time \<Rightarrow> RisingWaveCondition" where
  "demoCondition t st time = \<lparr>rc_Type = t, rc_Status = st, rc_LastTransitionTime = time, rc_Reason = [], rc_Message = []\<rparr>"

definition demoRunning :: RisingWave where
  "demoRunning = zeroRisingWave\<lparr>rw_Status := zeroStatus\<lparr>rst_Conditions :=
     [demoCondition RisingWaveConditionRunning ConditionFalse 100]\<rparr>\<rparr>"

theorem UpdateCondition_spec_witness:
  "GetCondition (RisingWaveAfterImage (UpdateCondition 200 (NewRisingWaveManager demoRunning False)
     (demoCondition RisingWaveConditionRunning ConditionFalse 0))) RisingWaveConditionRunning =
   Some (demoCondition RisingWaveConditionRunning ConditionFalse 0)"
proof -
  have "distinct (map rc_Type (rst_Conditions (rw_Status (m_mutableRisingWave (NewRisingWaveManager demoRunning False)))))"
    by (simp add: NewRisingWaveManager_def demoRunning_def)
  from UpdateCondition_spec [OF this, of 200 "demoCondition RisingWaveConditionRunning ConditionFalse 0"]
  show ?thesis
    by (simp add: NewRisingWaveManager_def demoRunning_def demoCondition_def GetCondition_def conditionIn_def)
qed

theorem GetVersionFromImage_tag_witness:
  "GetVersionFromImage ''localhost:5000/risingwave:v2.1'' = ''v2.1'' \<and>
   GetVersionFromImage ''localhost:5000/risingwave'' = ''latest''"
  using GetVersionFromImage_tag [of "''risingwave''" "''v2.1''" "''localhost:5000''"] by simp

end
