(* ===== verification/ScaleManager.thy ===== *)
theory ScaleManager
  imports ScaleWebhook RwObject
begin

text \<open>
  \<^verbatim>\<open>pkg/manager/risingwave_scale_view_controller_manager_impl.go\<close>: the actions of the scale view controller,
  and the action of \<^verbatim>\<open>pkg/controller/risingwave_controller.go\<close> that releases the locks of scale views that
  are gone. An action returns its result, the manager (its scale view is changed in memory) and the
  writes it sent to the API server, in order; the server's answer to a write is the argument \<open>api\<close>.
\<close>

section \<open>The actions\<close>

record ScaleViewControllerManager =
  svm_scaleView :: RisingWaveScaleView
  svm_scaleViewStatusCopy :: RisingWaveScaleViewStatus

datatype ScaleWrite =
    StatusUpdateRW RisingWave
  | PatchRW RisingWave RisingWave
  | StatusUpdateSV RisingWaveScaleView

type_synonym scaleApi = "ScaleWrite \<Rightarrow> ApiError option"
type_synonym scaleStep = "Res \<times> ScaleViewControllerManager \<times> ScaleWrite list"

definition NewRisingWaveScaleViewControllerManagerImpl :: "RisingWaveScaleView \<Rightarrow> ScaleViewControllerManager" where
  "NewRisingWaveScaleViewControllerManagerImpl sv = \<lparr>svm_scaleView = sv, svm_scaleViewStatusCopy = sv_Status sv\<rparr>"

definition isStatusChanged :: "ScaleViewControllerManager \<Rightarrow> bool" where
  "isStatusChanged mgr \<longleftrightarrow> sv_Status (svm_scaleView mgr) \<noteq> svm_scaleViewStatusCopy mgr"

definition isTargetObjMatched :: "ScaleViewControllerManager \<Rightarrow> RisingWave option \<Rightarrow> bool" where
  "isTargetObjMatched mgr t = (case t of None \<Rightarrow> False
     | Some rw \<Rightarrow> om_UID (rw_Meta rw) = tr_UID (targetOf (svm_scaleView mgr)))"

definition UpdateScaleViewStatus :: "scaleApi \<Rightarrow> ScaleViewControllerManager \<Rightarrow> scaleStep" where
  "UpdateScaleViewStatus api mgr =
     (if isStatusChanged mgr then
        let w = StatusUpdateSV (svm_scaleView mgr)
        in (RequeueIfErrorAndWrap ''unable to update status of risingwavescaleview'' (api w), mgr, [w])
      else (Continue, mgr, []))"

definition setLocked :: "bool \<Rightarrow> ScaleViewControllerManager \<Rightarrow> ScaleViewControllerManager" where
  "setLocked b mgr = mgr\<lparr>svm_scaleView := (svm_scaleView mgr)\<lparr>sv_Status :=
     (sv_Status (svm_scaleView mgr))\<lparr>svst_Locked := b\<rparr>\<rparr>\<rparr>"

definition setStatusReplicas :: "int \<Rightarrow> ScaleViewControllerManager \<Rightarrow> ScaleViewControllerManager" where
  "setStatusReplicas n mgr = mgr\<lparr>svm_scaleView := (svm_scaleView mgr)\<lparr>sv_Status :=
     (sv_Status (svm_scaleView mgr))\<lparr>svst_Replicas := Some n\<rparr>\<rparr>\<rparr>"

definition GrabOrUpdateScaleViewLock ::
  "scaleApi \<Rightarrow> ScaleViewControllerManager \<Rightarrow> RisingWave option \<Rightarrow> scaleStep outcome" where
  "GrabOrUpdateScaleViewLock api mgr t =
     (case t of
        None \<Rightarrow> Returns (Continue, mgr, [])
      | Some rw \<Rightarrow>
          if \<not> isTargetObjMatched mgr t then Returns (Continue, mgr, [])
          else (case GrabOrUpdateScaleViewLockFor rw (svm_scaleView mgr) of
                  Panics m \<Rightarrow> Panics m
                | Returns (Inl e) \<Rightarrow> Returns (RequeueErr ''unable to grab or update lock'' (OtherErr e), mgr, [])
                | Returns (Inr (updated, rw')) \<Rightarrow>
                    if updated then
                      (case api (StatusUpdateRW rw') of
                         Some e \<Rightarrow> Returns (RequeueErr ''unable to update the status of RisingWave'' e, mgr, [StatusUpdateRW rw'])
                       | None \<Rightarrow> Returns (RequeueImmediately, setLocked True mgr, [StatusUpdateRW rw']))
                    else Returns (Continue, mgr, [])))"

fun writeAll ::
  "RisingWaveScaleViewHelper \<Rightarrow> RisingWaveScaleViewLockGroupLock list \<Rightarrow> bool \<Rightarrow> (bool \<times> RisingWaveScaleViewHelper) outcome" where
  "writeAll h [] changed = Returns (changed, h)"
| "writeAll h (g # gs) changed =
     (case WriteReplicas h (gl_Name g) (gl_Replicas g) of
        Panics m \<Rightarrow> Panics m
      | Returns (updated, h') \<Rightarrow> writeAll h' gs (changed \<or> updated))"

definition SyncGroupReplicasToRisingWave ::
  "scaleApi \<Rightarrow> ScaleViewControllerManager \<Rightarrow> RisingWave option \<Rightarrow> scaleStep outcome" where
  "SyncGroupReplicasToRisingWave api mgr t =
     (case t of
        None \<Rightarrow> Returns (Continue, mgr, [])
      | Some rw \<Rightarrow>
          if \<not> isTargetObjMatched mgr t then Returns (Continue, mgr, [])
          else (case GetScaleViewLock rw (svm_scaleView mgr) of
                  None \<Rightarrow> Returns (RequeueAfter 5, mgr, [])
                | Some l \<Rightarrow>
                    if lk_Generation l \<noteq> svGeneration (svm_scaleView mgr) then Returns (RequeueAfter 5, mgr, [])
                    else (case writeAll (NewRisingWaveScaleViewHelper rw (svComponent (svm_scaleView mgr))) (lk_GroupLocks l) False of
                            Panics m \<Rightarrow> Panics m
                          | Returns (changed, h) \<Rightarrow>
                              if changed then
                                (let w = PatchRW (h_risingwave h) rw
                                 in Returns (RequeueIfErrorAndWrap ''unable to update the replicas of RisingWave'' (api w), mgr, [w]))
                              else Returns (Continue, mgr, []))))"

definition runningIn :: "ComponentReplicasStatus \<Rightarrow> string \<Rightarrow> int" where
  "runningIn s grp = (case find (\<lambda>g. cgr_Name g = grp) (crs_Groups s) of Some g \<Rightarrow> cgr_Running g | None \<Rightarrow> 0)"

definition readRunningReplicas :: "RisingWave \<Rightarrow> string \<Rightarrow> string \<Rightarrow> int outcome" where
  "readRunningReplicas rw c grp =
     (let s = rst_ComponentReplicas (rw_Status rw) in
      if c = ComponentMeta then Returns (runningIn (crep_Meta s) grp)
      else if c = ComponentFrontend then Returns (runningIn (crep_Frontend s) grp)
      else if c = ComponentCompactor then Returns (runningIn (crep_Compactor s) grp)
      else if c = ComponentCompute then Returns (runningIn (crep_Compute s) grp)
      else if c = ComponentStandalone then Panics ''not supported''
      else Panics ''unexpected'')"

fun sumRunning :: "RisingWave \<Rightarrow> string \<Rightarrow> RisingWaveScaleViewSpecScalePolicy list \<Rightarrow> int \<Rightarrow> int outcome" where
  "sumRunning rw c [] replicas = Returns replicas"
| "sumRunning rw c (p # ps) replicas =
     (case readRunningReplicas rw c (sp_Group p) of
        Panics m \<Rightarrow> Panics m
      | Returns n \<Rightarrow> sumRunning rw c ps (i32 (replicas + n)))"

definition SyncGroupReplicasStatusFromRisingWave ::
  "ScaleViewControllerManager \<Rightarrow> RisingWave option \<Rightarrow> scaleStep outcome" where
  "SyncGroupReplicasStatusFromRisingWave mgr t =
     (case t of
        None \<Rightarrow> Returns (Continue, setLocked False (setStatusReplicas 0 mgr), [])
      | Some rw \<Rightarrow>
          if \<not> isTargetObjMatched mgr t then Returns (Continue, setLocked False (setStatusReplicas 0 mgr), [])
          else (case sumRunning rw (svComponent (svm_scaleView mgr)) (policiesOf (svm_scaleView mgr)) 0 of
                  Panics m \<Rightarrow> Panics m
                | Returns n \<Rightarrow> Returns (Continue, setStatusReplicas n mgr, [])))"

section \<open>Releasing the locks of scale views that are gone\<close>

type_synonym getSV = "string \<Rightarrow> string \<Rightarrow> ApiError + RisingWaveScaleView"

fun aliveLocks :: "getSV \<Rightarrow> string \<Rightarrow> RisingWaveScaleViewLock list \<Rightarrow> ApiError + RisingWaveScaleViewLock list" where
  "aliveLocks get ns [] = Inr []"
| "aliveLocks get ns (s # ss) =
     (case get ns (lk_Name s) of
        Inl NotFoundErr \<Rightarrow> aliveLocks get ns ss
      | Inl e \<Rightarrow> Inl e
      | Inr sv \<Rightarrow>
          if lk_Name s = svName sv \<and> lk_UID s \<noteq> svUID sv then aliveLocks get ns ss
          else (case aliveLocks get ns ss of Inl e \<Rightarrow> Inl e | Inr ls \<Rightarrow> Inr (s # ls)))"

definition releaseScaleViewLock :: "getSV \<Rightarrow> RisingWaveManager \<Rightarrow> Res \<times> RisingWaveManager" where
  "releaseScaleViewLock get m =
     (case aliveLocks get (om_Namespace (rw_Meta (m_risingwave m))) (locksOf (m_risingwave m)) of
        Inl e \<Rightarrow> (RequeueErr ''unable to get risingwavescaleview'' e, m)
      | Inr ls \<Rightarrow> (Continue, KeepLock m ls))"

section \<open>Lemmas\<close>

definition lock_alive :: "getSV \<Rightarrow> string \<Rightarrow> RisingWaveScaleViewLock \<Rightarrow> bool" where
  "lock_alive get ns s = (case get ns (lk_Name s) of Inl _ \<Rightarrow> False
     | Inr sv \<Rightarrow> \<not> (lk_Name s = svName sv \<and> lk_UID s \<noteq> svUID sv))"

lemma aliveLocks_Inr: "aliveLocks get ns ls = Inr ls' \<Longrightarrow> ls' = filter (lock_alive get ns) ls"
proof (induction ls arbitrary: ls')
  case (Cons s ss)
  show ?case
  proof (cases "get ns (lk_Name s)")
    case (Inl e)
    then have "\<not> lock_alive get ns s" by (simp add: lock_alive_def)
    then show ?thesis using Cons Inl by (simp split: ApiError.splits)
  next
    case (Inr sv)
    then have "lock_alive get ns s \<longleftrightarrow> \<not> (lk_Name s = svName sv \<and> lk_UID s \<noteq> svUID sv)" by (simp add: lock_alive_def)
    then show ?thesis using Cons Inr by (cases "lock_alive get ns s") (auto split: sum.splits if_splits)
  qed
qed simp

lemma writeTo_noop:
  assumes "known_component c" "replicasOf rw c g = None \<or> replicasOf rw c g = Some n"
  shows "writeTo rw c g n = rw"
  using assms
  by (auto simp: writeTo_def WriteReplicas_def getReplicasPtr_def NewRisingWaveScaleViewHelper_def
      componentNodeGroups_known replicasOf_def split: option.splits)

definition writeLocks :: "RisingWave \<Rightarrow> string \<Rightarrow> RisingWaveScaleViewLockGroupLock list \<Rightarrow> RisingWave" where
  "writeLocks rw c gs = foldl (\<lambda>s p. writeTo s c (fst p) (snd p)) rw (map (\<lambda>g. (gl_Name g, gl_Replicas g)) gs)"

lemma writeLocks_simps [simp]:
  "writeLocks rw c [] = rw"
  "writeLocks rw c (g # gs) = writeLocks (writeTo rw c (gl_Name g) (gl_Replicas g)) c gs"
  by (simp_all add: writeLocks_def)

text \<open>Writing the group locks through the helper is writing to the store, one group after the other.\<close>

lemma writeAll_eq:
  assumes "known_component c"
  shows "\<exists>b. writeAll (NewRisingWaveScaleViewHelper rw c) gs changed =
    Returns (b, NewRisingWaveScaleViewHelper (writeLocks rw c gs) c) \<and> (\<not> b \<longrightarrow> \<not> changed \<and> writeLocks rw c gs = rw)"
proof (induction gs arbitrary: rw changed)
  case (Cons g gs)
  let ?ch = "replicasOf rw c (gl_Name g) \<noteq> None \<and> replicasOf rw c (gl_Name g) \<noteq> Some (gl_Replicas g)"
  have "\<not> ?ch \<Longrightarrow> writeTo rw c (gl_Name g) (gl_Replicas g) = rw" by (rule writeTo_noop [OF assms]) blast
  then show ?case
    using Cons [of "writeTo rw c (gl_Name g) (gl_Replicas g)" "changed \<or> ?ch"]
    unfolding writeAll.simps WriteReplicas_eq [OF assms] writeLocks_simps outcome.case prod.case by metis
qed simp

lemma writeLocks_status: "rw_Status (writeLocks rw c gs) = rw_Status rw"
  by (induction gs arbitrary: rw) (simp_all add: writeTo_status)

lemma replicasOf_writeLocks:
  assumes "known_component c" "distinct (map gl_Name gs)"
  shows "replicasOf (writeLocks rw c gs) c' g' =
    (if c' = c \<and> replicasOf rw c g' \<noteq> None then
       (case map_of (map (\<lambda>g. (gl_Name g, gl_Replicas g)) gs) g' of Some n \<Rightarrow> Some n | None \<Rightarrow> replicasOf rw c g')
     else replicasOf rw c' g')"
  unfolding writeLocks_def by (rule rs.load_stores [OF assms(1)]) (use assms(2) in \<open>simp add: comp_def\<close>)

section \<open>Properties\<close>

text \<open>When the scale view holds a lock of its generation on its target, syncing ends with the
  RisingWave whose groups have exactly the locked replicas: the patch sent, if any, holds it, no
  patch is sent only if it is the object already, and nothing else of the object is changed.\<close>
theorem SyncGroupReplicasToRisingWave_writes:
  assumes "known_component (svComponent sv)" "mgr = NewRisingWaveScaleViewControllerManagerImpl sv"
    and "om_UID (rw_Meta rw) = tr_UID (targetOf sv)"
    and "GetScaleViewLock rw sv = Some l" "lk_Generation l = svGeneration sv" "distinct (map gl_Name (lk_GroupLocks l))"
  shows "\<exists>res ws rw'. SyncGroupReplicasToRisingWave api mgr (Some rw) = Returns (res, mgr, ws)
    \<and> (ws = [PatchRW rw' rw] \<or> ws = [] \<and> rw' = rw)
    \<and> rw_Status rw' = rw_Status rw
    \<and> (\<forall>c g. replicasOf rw' c g =
        (if c = svComponent sv \<and> replicasOf rw c g \<noteq> None then
          (case map_of (map (\<lambda>g. (gl_Name g, gl_Replicas g)) (lk_GroupLocks l)) g of
             Some n \<Rightarrow> Some n | None \<Rightarrow> replicasOf rw c g)
         else replicasOf rw c g))"
proof -
  let ?rw' = "writeLocks rw (svComponent sv) (lk_GroupLocks l)"
  obtain b where b: "writeAll (NewRisingWaveScaleViewHelper rw (svComponent sv)) (lk_GroupLocks l) False =
      Returns (b, NewRisingWaveScaleViewHelper ?rw' (svComponent sv))" "\<not> b \<longrightarrow> ?rw' = rw"
    using writeAll_eq [OF assms(1)] by blast
  have "SyncGroupReplicasToRisingWave api mgr (Some rw) =
    (if b then Returns (RequeueIfErrorAndWrap ''unable to update the replicas of RisingWave'' (api (PatchRW ?rw' rw)), mgr, [PatchRW ?rw' rw])
     else Returns (Continue, mgr, []))"
    using assms(2-5) b(1)
    by (simp add: SyncGroupReplicasToRisingWave_def isTargetObjMatched_def Let_def
        NewRisingWaveScaleViewControllerManagerImpl_def NewRisingWaveScaleViewHelper_def)
  then show ?thesis
    using b(2) writeLocks_status [of rw "svComponent sv" "lk_GroupLocks l"]
      replicasOf_writeLocks [OF assms(1,6), of rw]
    by (intro exI [of _ "if b then _ else _"] exI [of _ "if b then _ else []"] exI [of _ ?rw']) auto
qed

text \<open>Releasing keeps, in their order, exactly the locks whose scale view still exists under the
  recorded uid; an error of the API server keeps all of them.\<close>
theorem releaseScaleViewLock_keeps:
  "releaseScaleViewLock get (NewRisingWaveManager rw k) = (res, m) \<Longrightarrow>
   locksOf (RisingWaveAfterImage m) =
     (if res = Continue then filter (lock_alive get (om_Namespace (rw_Meta rw))) (locksOf rw) else locksOf rw)"
  by (auto simp: releaseScaleViewLock_def RisingWaveAfterImage_def NewRisingWaveManager_def KeepLock_def
      dest: aliveLocks_Inr split: sum.splits)

section \<open>Witnesses\<close>

definition demoLock :: RisingWaveScaleViewLock where
  "demoLock = \<lparr>lk_Name = ''sv'', lk_UID = ''uid-1'', lk_Component = ''compute'', lk_Generation = 1,
     lk_GroupLocks = [\<lparr>gl_Name = ''c'', gl_Replicas = 2\<rparr>, \<lparr>gl_Name = ''a'', gl_Replicas = 2\<rparr>, \<lparr>gl_Name = ''b'', gl_Replicas = 3\<rparr>]\<rparr>"

definition demoLocked :: RisingWave where
  "demoLocked = setLocks demoRisingWave [demoLock]"

lemma demoLocked_grab: "GrabScaleViewLockFor demoRisingWave (demoScaleView 7) = Returns (Inr demoLocked)"
  by code_simp

theorem SyncGroupReplicasToRisingWave_writes_witness:
  "\<exists>res ws. SyncGroupReplicasToRisingWave (\<lambda>_. None) (NewRisingWaveScaleViewControllerManagerImpl (demoScaleView 7))
     (Some demoLocked) = Returns (res, NewRisingWaveScaleViewControllerManagerImpl (demoScaleView 7), ws)"
proof -
  have "known_component (svComponent (demoScaleView 7))" "om_UID (rw_Meta demoLocked) = tr_UID (targetOf (demoScaleView 7))"
    "GetScaleViewLock demoLocked (demoScaleView 7) = Some demoLock" "lk_Generation demoLock = svGeneration (demoScaleView 7)"
    "distinct (map gl_Name (lk_GroupLocks demoLock))" by code_simp+
  then show ?thesis using SyncGroupReplicasToRisingWave_writes [OF _ refl] by blast
qed

theorem releaseScaleViewLock_keeps_witness:
  "locksOf (RisingWaveAfterImage (snd (releaseScaleViewLock (\<lambda>ns n. Inl NotFoundErr) (NewRisingWaveManager demoLocked False)))) = []"
proof -
  obtain m where m: "releaseScaleViewLock (\<lambda>ns n. Inl NotFoundErr) (NewRisingWaveManager demoLocked False) = (Continue, m)"
    by (simp add: releaseScaleViewLock_def NewRisingWaveManager_def demoLocked_def setLocks_def)
  from releaseScaleViewLock_keeps [OF this] show ?thesis unfolding m by (simp add: lock_alive_def demoLocked_def setLocks_def)
qed

end
