(* ===== verification/ScaleProtocol.thy ===== *)
theory ScaleProtocol
  imports ScaleManager
begin

text \<open>
  The scale view protocol as a whole: scale views are created, updated and deleted through the
  webhooks of \<open>ScaleWebhook\<close>, their status is written, the controllers of \<open>ScaleManager\<close> grab, update and release the locks in the
  status of the RisingWave, in any order and on any version of a scale view that ever existed (the
  controllers read from caches). What the API server contributes is in the steps: a uid is never used
  twice, names are unique, and a status update is accepted only for the RisingWave the server holds.
\<close>

section \<open>The steps\<close>

record World =
  w_rw :: RisingWave
  w_views :: "RisingWaveScaleView list"
  w_seen :: "RisingWaveScaleView list"

inductive scale_step :: "World \<Rightarrow> World \<Rightarrow> bool" where
  create: "\<lbrakk>sv_ValidateCreate get sv = Returns None; svName sv \<notin> svName ` set (w_views w); svUID sv \<notin> svUID ` set (w_seen w)\<rbrakk>
     \<Longrightarrow> scale_step w (w\<lparr>w_views := sv # w_views w, w_seen := sv # w_seen w\<rparr>)"
| update: "\<lbrakk>old \<in> set (w_views w); sv_ValidateUpdate old new = None; svName new = svName old; svUID new = svUID old\<rbrakk>
     \<Longrightarrow> scale_step w (w\<lparr>w_views := new # remove1 old (w_views w), w_seen := new # w_seen w\<rparr>)"
| view_status: "old \<in> set (w_views w)
     \<Longrightarrow> scale_step w (w\<lparr>w_views := old\<lparr>sv_Status := st\<rparr> # remove1 old (w_views w), w_seen := old\<lparr>sv_Status := st\<rparr> # w_seen w\<rparr>)"
| delete: "scale_step w (w\<lparr>w_views := filter (\<lambda>v. svName v \<noteq> n) (w_views w)\<rparr>)"
| lock: "\<lbrakk>sv \<in> set (w_seen w);
      GrabOrUpdateScaleViewLock (\<lambda>_. None) (NewRisingWaveScaleViewControllerManagerImpl sv) (Some (w_rw w)) =
        Returns (res, mgr, [StatusUpdateRW rw'])\<rbrakk>
     \<Longrightarrow> scale_step w (w\<lparr>w_rw := rw'\<rparr>)"
| release: "releaseScaleViewLock get (NewRisingWaveManager (w_rw w) k) = (res, m)
     \<Longrightarrow> scale_step w (w\<lparr>w_rw := RisingWaveAfterImage m\<rparr>)"
| edit: "locksOf rw' = locksOf (w_rw w) \<Longrightarrow> scale_step w (w\<lparr>w_rw := rw'\<rparr>)"

definition initial_world :: "World \<Rightarrow> bool" where
  "initial_world w \<longleftrightarrow> locksOf (w_rw w) = [] \<and> w_views w = [] \<and> w_seen w = []"

inductive reachable_world :: "World \<Rightarrow> bool" where
  start: "initial_world w \<Longrightarrow> reachable_world w"
| next_step: "\<lbrakk>reachable_world w; scale_step w w'\<rbrakk> \<Longrightarrow> reachable_world w'"

inductive_cases scale_stepE: "scale_step w w'"

section \<open>The invariant\<close>

text \<open>A lock record was written for this version of a scale view.\<close>

definition lock_of :: "RisingWaveScaleView \<Rightarrow> RisingWaveScaleViewLock \<Rightarrow> bool" where
  "lock_of v l \<longleftrightarrow> lk_Name l = svName v \<and> lk_UID l = svUID v \<and> lk_Component l = svComponent v
     \<and> lk_Generation l = svGeneration v
     \<and> (\<exists>r. SplitReplicas v = Returns r \<and> lk_GroupLocks l = groupLocksFor v r)"

text \<open>Versions of one scale view have the same name, target and groups.\<close>

definition same_view :: "RisingWaveScaleView \<Rightarrow> RisingWaveScaleView \<Rightarrow> bool" where
  "same_view v v' \<longleftrightarrow> svName v = svName v' \<and> svComponent v = svComponent v' \<and> groupsOfView v = groupsOfView v'"

definition versions_agree :: "RisingWaveScaleView list \<Rightarrow> bool" where
  "versions_agree vs \<longleftrightarrow> (\<forall>v \<in> set vs. \<forall>v' \<in> set vs. svUID v = svUID v' \<longrightarrow> same_view v v')"

definition world_ok :: "World \<Rightarrow> bool" where
  "world_ok w \<longleftrightarrow> locks_exclusive (locksOf (w_rw w))
     \<and> set (w_views w) \<subseteq> set (w_seen w) \<and> versions_agree (w_seen w)
     \<and> (\<forall>l \<in> set (locksOf (w_rw w)). \<exists>v \<in> set (w_seen w). lock_of v l)"

lemma same_view_refl [simp]: "same_view v v"
  by (simp add: same_view_def)

lemma same_view_sym: "same_view v v' \<Longrightarrow> same_view v' v"
  by (simp add: same_view_def)

lemma same_view_trans: "\<lbrakk>same_view u v; same_view v v'\<rbrakk> \<Longrightarrow> same_view u v'"
  by (simp add: same_view_def)

lemma lock_of_groups: "lock_of v l \<Longrightarrow> groupsOfLock l = groupsOfView v"
  using groupLocksFor_groups unfolding lock_of_def groupsOfLock_def by metis

lemma world_okI:
  assumes "locks_exclusive (locksOf (w_rw w))" "set (w_views w) \<subseteq> set (w_seen w)" "versions_agree (w_seen w)"
    and "\<And>l. l \<in> set (locksOf (w_rw w)) \<Longrightarrow> \<exists>v \<in> set (w_seen w). lock_of v l"
  shows "world_ok w"
  using assms by (simp add: world_ok_def)

lemma versions_agree_Cons:
  assumes "versions_agree vs" "\<And>v. v \<in> set vs \<Longrightarrow> svUID v = svUID sv \<Longrightarrow> same_view v sv"
  shows "versions_agree (sv # vs)"
  using assms same_view_sym by (auto simp: versions_agree_def)

lemma create_ok:
  assumes "world_ok w" "svUID sv \<notin> svUID ` set (w_seen w)"
  shows "world_ok (w\<lparr>w_views := sv # w_views w, w_seen := sv # w_seen w\<rparr>)"
proof -
  have "versions_agree (sv # w_seen w)"
    using assms by (intro versions_agree_Cons) (auto simp: world_ok_def image_iff)
  then show ?thesis using assms(1) by (intro world_okI) (auto simp: world_ok_def)
qed

lemma update_ok:
  assumes "world_ok w" "old \<in> set (w_views w)" "sv_ValidateUpdate old new = None"
    and "svName new = svName old" "svUID new = svUID old"
  shows "world_ok (w\<lparr>w_views := new # remove1 old (w_views w), w_seen := new # w_seen w\<rparr>)"
proof -
  have same: "same_view old new"
    using validateUpdate_groups [OF assms(3)] assms(4) by (simp add: same_view_def)
  have old: "old \<in> set (w_seen w)" and agree: "versions_agree (w_seen w)"
    using assms(1,2) by (auto simp: world_ok_def)
  have "versions_agree (new # w_seen w)"
  proof (rule versions_agree_Cons [OF agree])
    fix v
    assume "v \<in> set (w_seen w)" "svUID v = svUID new"
    then have "same_view v old" using agree old assms(5) by (simp add: versions_agree_def)
    then show "same_view v new" using same by (rule same_view_trans)
  qed
  then show ?thesis
    using assms(1) set_remove1_subset [of old "w_views w"] by (intro world_okI) (auto simp: world_ok_def)
qed

lemma view_status_ok:
  assumes "world_ok w" "old \<in> set (w_views w)"
  shows "world_ok (w\<lparr>w_views := old\<lparr>sv_Status := st\<rparr> # remove1 old (w_views w), w_seen := old\<lparr>sv_Status := st\<rparr> # w_seen w\<rparr>)"
proof -
  have old: "old \<in> set (w_seen w)" and agree: "versions_agree (w_seen w)"
    using assms by (auto simp: world_ok_def)
  have same: "same_view old (old\<lparr>sv_Status := st\<rparr>)" by (simp add: same_view_def groupsOfView_def)
  have "versions_agree (old\<lparr>sv_Status := st\<rparr> # w_seen w)"
    using old agree by (intro versions_agree_Cons [OF agree]) (auto simp: versions_agree_def intro: same_view_trans [OF _ same])
  then show ?thesis
    using assms(1) set_remove1_subset [of old "w_views w"] by (intro world_okI) (auto simp: world_ok_def)
qed

lemma mgr_scaleView: "svm_scaleView (NewRisingWaveScaleViewControllerManagerImpl sv) = sv"
  by (simp add: NewRisingWaveScaleViewControllerManagerImpl_def)

lemma lock_written:
  assumes "GrabOrUpdateScaleViewLock api (NewRisingWaveScaleViewControllerManagerImpl sv) (Some rw) =
    Returns (res, mgr, [StatusUpdateRW rw'])"
  shows "\<exists>u. GrabOrUpdateScaleViewLockFor rw sv = Returns (Inr (u, rw'))"
proof -
  have eq: "GrabOrUpdateScaleViewLock api (NewRisingWaveScaleViewControllerManagerImpl sv) (Some rw) =
    (if om_UID (rw_Meta rw) \<noteq> tr_UID (targetOf sv) then Returns (Continue, NewRisingWaveScaleViewControllerManagerImpl sv, [])
     else (case GrabOrUpdateScaleViewLockFor rw sv of
       Panics m \<Rightarrow> Panics m
     | Returns (Inl e) \<Rightarrow> Returns (RequeueErr ''unable to grab or update lock'' (OtherErr e), NewRisingWaveScaleViewControllerManagerImpl sv, [])
     | Returns (Inr (updated, rw1)) \<Rightarrow>
         if updated then
           (case api (StatusUpdateRW rw1) of
              Some e \<Rightarrow> Returns (RequeueErr ''unable to update the status of RisingWave'' e, NewRisingWaveScaleViewControllerManagerImpl sv, [StatusUpdateRW rw1])
            | None \<Rightarrow> Returns (RequeueImmediately, setLocked True (NewRisingWaveScaleViewControllerManagerImpl sv), [StatusUpdateRW rw1]))
         else Returns (Continue, NewRisingWaveScaleViewControllerManagerImpl sv, [])))"
    by (simp add: GrabOrUpdateScaleViewLock_def isTargetObjMatched_def mgr_scaleView)
  obtain u rw1 where "GrabOrUpdateScaleViewLockFor rw sv = Returns (Inr (u, rw1))"
    using assms unfolding eq by (simp split: if_splits outcome.splits sum.splits prod.splits)
  moreover from this have "rw1 = rw'"
    using assms unfolding eq by (simp split: if_splits option.splits)
  ultimately show ?thesis by blast
qed

lemma lock_ok:
  assumes "world_ok w" "sv \<in> set (w_seen w)"
    and "GrabOrUpdateScaleViewLockFor (w_rw w) sv = Returns (Inr (u, rw'))"
  shows "world_ok (w\<lparr>w_rw := rw'\<rparr>)"
proof -
  let ?ls = "locksOf (w_rw w)"
  have own: "groupsOfLock l = groupsOfView sv \<and> lk_Component l = svComponent sv"
    if l: "l \<in> set ?ls" "lk_UID l = svUID sv" for l
  proof -
    obtain v where v: "v \<in> set (w_seen w)" "lock_of v l" using assms(1) l(1) by (auto simp: world_ok_def)
    then have "svUID v = svUID sv" using l(2) by (simp add: lock_of_def)
    then have "same_view v sv" using assms(1,2) v(1) by (simp add: world_ok_def versions_agree_def)
    then show ?thesis using v(2) lock_of_groups [OF v(2)] by (simp add: same_view_def lock_of_def)
  qed
  have idx: "locksOf (w_rw w) ! i \<in> set ?ls \<and> lk_Name (?ls ! i) = svName sv \<and> lk_UID (?ls ! i) = svUID sv"
    if "lockIndex ?ls sv = Some i" for i
    using lockIndex_Some [OF that] by simp
  have excl: "locks_exclusive (locksOf rw')"
  proof (rule GrabOrUpdate_exclusive [OF _ assms(3)])
    show "locks_exclusive ?ls" using assms(1) by (simp add: world_ok_def)
    show "groupsOfView sv \<subseteq> groupsOfLock l" if "GetScaleViewLock (w_rw w) sv = Some l" for l
      using that idx own by (auto simp: GetScaleViewLock_def getScaleViewLockIndex_def split: option.splits)
  qed
  have "\<exists>v \<in> set (w_seen w). lock_of v l" if l: "l \<in> set (locksOf rw')" for l
    using assms(3)
  proof (cases rule: GrabOrUpdate_cases)
    case grab
    obtain r where r: "SplitReplicas sv = Returns r"
      "rw' = setLocks (w_rw w) (?ls @ [\<lparr>lk_Name = svName sv, lk_UID = svUID sv, lk_Component = svComponent sv,
        lk_Generation = svGeneration sv, lk_GroupLocks = groupLocksFor sv r\<rparr>])"
      using Grab_Inr [OF grab(3)] by metis
    then have "l \<in> set ?ls \<or> lock_of sv l" using l by (auto simp: lock_of_def)
    then show ?thesis using assms(1,2) by (auto simp: world_ok_def)
  next
    case (keep i)
    then show ?thesis using l assms(1) by (simp add: world_ok_def)
  next
    case (update i r)
    have "l \<in> set ?ls \<or> l = (?ls ! i)\<lparr>lk_Generation := svGeneration sv, lk_GroupLocks := groupLocksFor sv r\<rparr>"
      using l update(5) set_update_subset_insert by fastforce
    then have "l \<in> set ?ls \<or> lock_of sv l"
      using update(3) idx [OF update(1)] own [of "?ls ! i"] by (auto simp: lock_of_def)
    then show ?thesis using assms(1,2) by (auto simp: world_ok_def)
  qed
  then show ?thesis using excl assms(1) by (intro world_okI) (auto simp: world_ok_def)
qed

lemma release_ok:
  assumes "world_ok w" "releaseScaleViewLock get (NewRisingWaveManager (w_rw w) k) = (res, m)"
  shows "world_ok (w\<lparr>w_rw := RisingWaveAfterImage m\<rparr>)"
proof -
  have "\<exists>P. locksOf (RisingWaveAfterImage m) = filter P (locksOf (w_rw w))"
  proof (cases "aliveLocks get (om_Namespace (rw_Meta (w_rw w))) (locksOf (w_rw w))")
    case (Inl e)
    then have "locksOf (RisingWaveAfterImage m) = locksOf (w_rw w)"
      using assms(2) by (auto simp: releaseScaleViewLock_def RisingWaveAfterImage_def NewRisingWaveManager_def)
    then show ?thesis by (intro exI [of _ "\<lambda>_. True"]) simp
  next
    case (Inr ls)
    then have "locksOf (RisingWaveAfterImage m) = ls"
      using assms(2) by (auto simp: releaseScaleViewLock_def RisingWaveAfterImage_def NewRisingWaveManager_def KeepLock_def)
    then show ?thesis using aliveLocks_Inr [OF Inr] by blast
  qed
  then obtain P where P: "locksOf (RisingWaveAfterImage m) = filter P (locksOf (w_rw w))" by blast
  show ?thesis
    using assms(1) P by (intro world_okI) (auto simp: world_ok_def locks_exclusive_filter)
qed

text \<open>The group locks of a division add up to the replicas divided.\<close>

lemma SplitReplicas_sum:
  assumes "sv_ok sv" "SplitReplicas sv = Returns r"
  shows "sum_list (map snd r) = derefReplicas sv" "map fst r = map sp_Group (concat (classesOf (policiesOf sv)))"
proof -
  have r: "r = resultOf sv" and le: "derefReplicas sv \<le> sum_list (map limitOf (policiesOf sv))"
    using assms SplitReplicas_eq [OF assms(1)] by (auto split: if_splits)
  have "map snd (resultOf sv) = classValues (classesOf (policiesOf sv)) (derefReplicas sv)"
    by (simp add: resultOf_def assigned_def comp_def case_prod_unfold map_snd_zip)
  then show "sum_list (map snd r) = derefReplicas sv"
    using classValues_sum [OF sv_ok_classes [OF assms(1)]] limits_classesOf le r by simp
  have "map fst r = map sp_Group (map fst (assigned (classesOf (policiesOf sv)) (derefReplicas sv)))"
    by (simp add: r resultOf_def comp_def case_prod_unfold)
  also have "map fst (assigned (classesOf (policiesOf sv)) (derefReplicas sv)) = concat (classesOf (policiesOf sv))"
    by (simp add: assigned_def map_fst_zip)
  finally show "map fst r = map sp_Group (concat (classesOf (policiesOf sv)))" .
qed

lemma groupLocksFor_sum:
  assumes "sv_ok sv" "SplitReplicas sv = Returns r"
  shows "sum_list (map gl_Replicas (groupLocksFor sv r)) = sum_list (map snd r)"
proof -
  let ?f = "\<lambda>g. case map_of r g of Some x \<Rightarrow> x | None \<Rightarrow> 0"
  have keys: "mset (map fst r) = mset (map sp_Group (policiesOf sv))"
    unfolding SplitReplicas_sum(2) [OF assms] by (rule names_classesOf)
  have d: "distinct (map fst r)"
    using assms(1) mset_eq_imp_distinct_iff [OF keys] by (simp add: sv_ok_def policies_ok_def)
  have "sum_list (map gl_Replicas (groupLocksFor sv r)) = sum_list (map ?f (map sp_Group (policiesOf sv)))"
    by (simp add: groupLocksFor_def comp_def)
  also have "\<dots> = sum_list (map ?f (map fst r))"
    by (simp only: sum_mset_sum_list [symmetric] mset_map [of ?f] keys)
  also have "map ?f (map fst r) = map snd r"
  proof -
    have "?f (fst p) = snd p" if "p \<in> set r" for p using map_of_is_SomeI [OF d, of "fst p" "snd p"] that by simp
    then show ?thesis by simp
  qed
  finally show ?thesis .
qed

lemma scale_step_ok:
  assumes "scale_step w w'" "world_ok w"
  shows "world_ok w'"
  using assms
proof (induction rule: scale_step.induct)
  case (create get sv w)
  then show ?case using create_ok by blast
next
  case (update old w new)
  then show ?case using update_ok by blast
next
  case (view_status old w st)
  then show ?case using view_status_ok by blast
next
  case (delete w n)
  then show ?case by (auto simp: world_ok_def)
next
  case (lock sv w res mgr rw')
  then show ?case using lock_ok lock_written by blast
next
  case (release get w k res m)
  then show ?case using release_ok by blast
next
  case (edit rw' w)
  then show ?case by (simp add: world_ok_def)
qed

lemma initial_world_ok: "initial_world w \<Longrightarrow> world_ok w"
  by (simp add: initial_world_def world_ok_def versions_agree_def locks_exclusive_def)

lemma reachable_world_ok: "reachable_world w \<Longrightarrow> world_ok w"
  by (induction rule: reachable_world.induct) (blast intro: initial_world_ok scale_step_ok)+

section \<open>Properties\<close>

text \<open>C2: In every reachable state of the protocol no two locks have the same name or hold the same group of
  the same component, however the controllers are interleaved and whatever stale versions they read.\<close>
theorem locks_always_exclusive:
  assumes "reachable_world w" "i < length (locksOf (w_rw w))" "j < length (locksOf (w_rw w))" "i \<noteq> j"
  shows "lk_Name (locksOf (w_rw w) ! i) \<noteq> lk_Name (locksOf (w_rw w) ! j)
    \<and> (lk_Component (locksOf (w_rw w) ! i) = lk_Component (locksOf (w_rw w) ! j) \<longrightarrow>
       groupsOfLock (locksOf (w_rw w) ! i) \<inter> groupsOfLock (locksOf (w_rw w) ! j) = {})"
proof -
  have "locks_exclusive (locksOf (w_rw w))" using reachable_world_ok [OF assms(1)] by (simp add: world_ok_def)
  from locks_exclusive_nth [OF this assms(2,3,4)] show ?thesis by (simp add: apart_def)
qed


section \<open>Witnesses\<close>

definition demoSecond :: RisingWaveScaleView where
  "demoSecond = \<lparr>sv_Meta = demoMeta\<lparr>om_Name := ''sv2'', om_UID := ''uid-2''\<rparr>,
     sv_Spec = \<lparr>svs_TargetRef = \<lparr>tr_Name = ''rw'', tr_Component = ''frontend'', tr_UID = ''uid-rw''\<rparr>,
       svs_Replicas = Some 4, svs_LabelSelector = [], svs_ScalePolicy = [demoPolicy ''a'' 0 None]\<rparr>,
     sv_Status = \<lparr>svst_Replicas = None, svst_Locked = False\<rparr>\<rparr>"

definition demoSecondLock :: RisingWaveScaleViewLock where
  "demoSecondLock = \<lparr>lk_Name = ''sv2'', lk_UID = ''uid-2'', lk_Component = ''frontend'', lk_Generation = 1,
     lk_GroupLocks = [\<lparr>gl_Name = ''a'', gl_Replicas = 4\<rparr>]\<rparr>"

definition demoWorld :: World where
  "demoWorld = \<lparr>w_rw = setLocks demoRisingWave [demoLock, demoSecondLock],
     w_views = [demoSecond, demoScaleView 7], w_seen = [demoSecond, demoScaleView 7]\<rparr>"

lemma demo_create:
  "sv_ValidateCreate demoGet (demoScaleView 7) = Returns None" "sv_ValidateCreate demoGet demoSecond = Returns None"
  by code_simp+

lemma demo_lock:
  "GrabOrUpdateScaleViewLock (\<lambda>_. None) (NewRisingWaveScaleViewControllerManagerImpl (demoScaleView 7)) (Some demoRisingWave) =
     Returns (RequeueImmediately, setLocked True (NewRisingWaveScaleViewControllerManagerImpl (demoScaleView 7)), [StatusUpdateRW demoLocked])"
  "GrabOrUpdateScaleViewLock (\<lambda>_. None) (NewRisingWaveScaleViewControllerManagerImpl demoSecond) (Some demoLocked) =
     Returns (RequeueImmediately, setLocked True (NewRisingWaveScaleViewControllerManagerImpl demoSecond),
       [StatusUpdateRW (setLocks demoRisingWave [demoLock, demoSecondLock])])"
  by code_simp+

lemma demoWorld_reachable: "reachable_world demoWorld"
proof -
  let ?w0 = "\<lparr>w_rw = demoRisingWave, w_views = [], w_seen = []\<rparr>"
  let ?w1 = "?w0\<lparr>w_views := [demoScaleView 7], w_seen := [demoScaleView 7]\<rparr>"
  let ?w2 = "?w1\<lparr>w_views := [demoSecond, demoScaleView 7], w_seen := [demoSecond, demoScaleView 7]\<rparr>"
  let ?w3 = "?w2\<lparr>w_rw := demoLocked\<rparr>"
  have "locksOf demoRisingWave = []" by code_simp
  then have "reachable_world ?w0" by (intro start) (simp add: initial_world_def)
  moreover have "scale_step ?w0 ?w1" using scale_step.create [OF demo_create(1), of ?w0] by simp
  moreover have "scale_step ?w1 ?w2"
    using scale_step.create [OF demo_create(2), of ?w1] by (simp add: demoSecond_def demoScaleView_def demoMeta_def)
  moreover have "scale_step ?w2 ?w3"
    using scale_step.lock [of "demoScaleView 7" ?w2] demo_lock(1) by simp
  moreover have "scale_step ?w3 demoWorld"
    using scale_step.lock [of demoSecond ?w3] demo_lock(2) by (simp add: demoWorld_def)
  ultimately show ?thesis using next_step by blast
qed

theorem locks_always_exclusive_witness: "reachable_world demoWorld \<and> lk_Name demoLock \<noteq> lk_Name demoSecondLock"
  using demoWorld_reachable locks_always_exclusive [OF demoWorld_reachable, of 0 1]
  by (simp add: demoWorld_def setLocks_def)


end
