(* ===== verification/Workloads.thy ===== *)
theory Workloads
  imports RwObject
begin

text \<open>
  The actions of \<^verbatim>\<open>pkg/manager/risingwave_controller_manager_impl.go\<close> that create, update, delete and wait
  for the Kubernetes objects of a RisingWave, and the roll-out checks of \<^verbatim>\<open>pkg/utils/apps.go\<close>. One record
  stands for every kind of Kubernetes object; it has the fields the code reads. The API server is the
  argument \<open>api\<close>, its answer to a request; an action returns its result and the requests it sent, in
  order. The object factory is a record of functions. The order of a Go map iteration is the argument
  \<open>ord\<close>.
\<close>

section \<open>Kubernetes objects\<close>

record ObjCondition =
  oc_Type :: string
  oc_Reason :: string

record K8sObject =
  ko_Kind :: string
  ko_Name :: string
  ko_Namespace :: string
  ko_UID :: string
  ko_ResourceVersion :: string
  ko_Labels :: strmap
  ko_Generation :: int
  ko_SpecReplicas :: "int option"
  ko_ObservedGeneration :: int
  ko_Conditions :: "ObjCondition list"
  ko_Replicas :: int
  ko_UpdatedReplicas :: int
  ko_ReadyReplicas :: int
  ko_AvailableReplicas :: int
  ko_OwnerReferences :: "OwnerReference list"

definition labelOf :: "string \<Rightarrow> K8sObject \<Rightarrow> string" where
  "labelOf k obj = (case map_of (ko_Labels obj) k of Some v \<Rightarrow> v | None \<Rightarrow> [])"

definition LabelRisingWaveGroup :: string where "LabelRisingWaveGroup = ''risingwave/group''"
definition LabelRisingWaveGeneration :: string where "LabelRisingWaveGeneration = ''risingwave/generation''"
definition LabelRisingWaveOperatorVersion :: string where "LabelRisingWaveOperatorVersion = ''risingwave/operator-version''"
definition NoSync :: string where "NoSync = ''nosync''"

abbreviation groupOf :: "K8sObject \<Rightarrow> string" where "groupOf \<equiv> labelOf LabelRisingWaveGroup"

section \<open>Roll-out checks\<close>

text \<open>The part the four checks share: the spec is observed and the pods are updated.\<close>

definition replicasUpdated :: "K8sObject \<Rightarrow> bool" where
  "replicasUpdated w \<longleftrightarrow>
     \<not> (case ko_SpecReplicas w of Some n \<Rightarrow> ko_UpdatedReplicas w < n | None \<Rightarrow> False)
     \<and> \<not> ko_UpdatedReplicas w < ko_Replicas w"

definition readyCount :: "K8sObject \<Rightarrow> int" where
  "readyCount w = (if ko_AvailableReplicas w = 0 \<and> 0 < ko_ReadyReplicas w then ko_ReadyReplicas w else ko_AvailableReplicas w)"

fun IsDeploymentRolledOut :: "K8sObject option \<Rightarrow> bool" where
  "IsDeploymentRolledOut None = False"
| "IsDeploymentRolledOut (Some d) =
     (if ko_ObservedGeneration d < ko_Generation d then False
      else if \<exists>c \<in> set (ko_Conditions d). oc_Type c = ''Progressing'' \<and> oc_Reason c = ''ProgressDeadlineExceeded'' then False
      else if \<not> replicasUpdated d then False
      else \<not> ko_AvailableReplicas d < ko_UpdatedReplicas d)"

fun IsStatefulSetRolledOut :: "K8sObject option \<Rightarrow> bool" where
  "IsStatefulSetRolledOut None = False"
| "IsStatefulSetRolledOut (Some s) =
     (if ko_ObservedGeneration s < ko_Generation s then False
      else if \<not> replicasUpdated s then False
      else \<not> readyCount s < ko_UpdatedReplicas s)"

fun IsCloneSetRolledOut :: "K8sObject option \<Rightarrow> bool" where
  "IsCloneSetRolledOut None = False"
| "IsCloneSetRolledOut (Some s) =
     (if ko_ObservedGeneration s < ko_Generation s then False
      else if \<exists>c \<in> set (ko_Conditions s). oc_Type c = ''FailedUpdate'' \<or> oc_Type c = ''FailedScale'' then False
      else if \<not> replicasUpdated s then False
      else \<not> ko_AvailableReplicas s < ko_UpdatedReplicas s)"

fun IsAdvancedStatefulSetRolledOut :: "K8sObject option \<Rightarrow> bool" where
  "IsAdvancedStatefulSetRolledOut None = False"
| "IsAdvancedStatefulSetRolledOut (Some s) =
     (if ko_ObservedGeneration s < ko_Generation s then False
      else if \<exists>c \<in> set (ko_Conditions s). oc_Type c = ''FailedCreatePod'' \<or> oc_Type c = ''FailedUpdatePod'' then False
      else if \<not> replicasUpdated s then False
      else \<not> readyCount s < ko_UpdatedReplicas s)"

section \<open>The manager\<close>

record ObjectFactory =
  of_NewMetaService :: K8sObject
  of_NewFrontendService :: K8sObject
  of_NewComputeService :: K8sObject
  of_NewCompactorService :: K8sObject
  of_NewStandaloneService :: K8sObject
  of_NewStandaloneStatefulSet :: K8sObject
  of_NewStandaloneAdvancedStatefulSet :: K8sObject
  of_NewConfigConfigMap :: "string \<Rightarrow> K8sObject"
  of_NewServiceMonitor :: K8sObject
  of_NewMetaStatefulSet :: "string \<Rightarrow> K8sObject"
  of_NewMetaAdvancedStatefulSet :: "string \<Rightarrow> K8sObject"
  of_NewFrontendDeployment :: "string \<Rightarrow> K8sObject"
  of_NewFrontendCloneSet :: "string \<Rightarrow> K8sObject"
  of_NewComputeStatefulSet :: "string \<Rightarrow> K8sObject"
  of_NewComputeAdvancedStatefulSet :: "string \<Rightarrow> K8sObject"
  of_NewCompactorDeployment :: "string \<Rightarrow> K8sObject"
  of_NewCompactorCloneSet :: "string \<Rightarrow> K8sObject"

record RisingWaveControllerManagerImpl =
  im_risingwaveManager :: RisingWaveManager
  im_objectFactory :: ObjectFactory
  im_eventMessageStore :: MessageStore
  im_forceUpdateEnabled :: bool

datatype Request =
    CreateReq K8sObject
  | UpdateReq K8sObject
  | DeleteReq K8sObject

type_synonym api = "Request \<Rightarrow> ApiError option"
type_synonym gvk = "K8sObject \<Rightarrow> ApiError option"

definition IgnoreAlreadyExists :: "ApiError option \<Rightarrow> ApiError option" where
  "IgnoreAlreadyExists e = (if e = Some AlreadyExistsErr then None else e)"

definition IgnoreNotFound :: "ApiError option \<Rightarrow> ApiError option" where
  "IgnoreNotFound e = (if e = Some NotFoundErr then None else e)"

fun isInvalid :: "ApiError \<Rightarrow> bool" where
  "isInvalid (InvalidErr es) = True"
| "isInvalid e = False"

section \<open>Whether an object is in sync\<close>

abbreviation currentGeneration :: "RisingWaveControllerManagerImpl \<Rightarrow> int" where
  "currentGeneration mgr \<equiv> om_Generation (rw_Meta (m_risingwave (im_risingwaveManager mgr)))"

fun isObjectSynced :: "RisingWaveControllerManagerImpl \<Rightarrow> K8sObject option \<Rightarrow> bool" where
  "isObjectSynced mgr None = False"
| "isObjectSynced mgr (Some obj) =
     (if labelOf LabelRisingWaveGeneration obj = NoSync then True
      else currentGeneration mgr \<le> parseInt64 (labelOf LabelRisingWaveGeneration obj))"

section \<open>Syncing one object\<close>

definition ensureTheSameObject :: "K8sObject option \<Rightarrow> K8sObject \<Rightarrow> K8sObject outcome" where
  "ensureTheSameObject obj newObj =
     (if (case obj of None \<Rightarrow> False | Some x \<Rightarrow> ko_Name x \<noteq> ko_Name newObj \<or> ko_Namespace x \<noteq> ko_Namespace newObj)
      then Panics ''objects not the same''
      else if (case obj of None \<Rightarrow> False | Some x \<Rightarrow> ko_Kind x \<noteq> ko_Kind newObj) then Panics ''object types' not equal''
      else Returns newObj)"

definition syncObject ::
  "gvk \<Rightarrow> api \<Rightarrow> RisingWaveControllerManagerImpl \<Rightarrow> K8sObject option \<Rightarrow> K8sObject
   \<Rightarrow> (ApiError option \<times> Request list) outcome" where
  "syncObject gvk api mgr obj built =
     (case obj of
        None \<Rightarrow>
          (case ensureTheSameObject obj built of
             Panics m \<Rightarrow> Panics m
           | Returns newObj \<Rightarrow>
               (case gvk newObj of
                  Some e \<Rightarrow> Returns (Some e, [])
                | None \<Rightarrow> Returns (IgnoreAlreadyExists (api (CreateReq newObj)), [CreateReq newObj])))
      | Some x \<Rightarrow>
          (case gvk x of
             Some e \<Rightarrow> Returns (Some e, [])
           | None \<Rightarrow>
               if isObjectSynced mgr obj then Returns (None, [])
               else
                 (case ensureTheSameObject obj built of
                    Panics m \<Rightarrow> Panics m
                  | Returns new0 \<Rightarrow>
                      let newObj = new0\<lparr>ko_ResourceVersion := ko_ResourceVersion x\<rparr> in
                      (case api (UpdateReq newObj) of
                         None \<Rightarrow> Returns (None, [UpdateReq newObj])
                       | Some e \<Rightarrow>
                           if \<not> isInvalid e then Returns (Some e, [UpdateReq newObj])
                           else if \<not> im_forceUpdateEnabled mgr
                             \<and> labelOf LabelRisingWaveOperatorVersion x = labelOf LabelRisingWaveOperatorVersion newObj
                           then Returns (Some e, [UpdateReq newObj])
                           else (case api (DeleteReq x) of
                                   Some e' \<Rightarrow> Returns (Some e', [UpdateReq newObj, DeleteReq x])
                                 | None \<Rightarrow>
                                     let fresh = newObj\<lparr>ko_ResourceVersion := []\<rparr> in
                                     Returns (IgnoreAlreadyExists (api (CreateReq fresh)),
                                       [UpdateReq newObj, DeleteReq x, CreateReq fresh]))))))"

section \<open>Syncing the workloads of a component\<close>

text \<open>
  What to delete and what to sync: a later object of a group seen before is a duplicate; an object out
  of sync is synced when its group is expected and deleted otherwise. The third argument holds the
  groups seen so far.
\<close>

fun decide ::
  "(K8sObject \<Rightarrow> bool) \<Rightarrow> string list \<Rightarrow> string list \<Rightarrow> K8sObject list \<Rightarrow> K8sObject list \<times> (string \<times> K8sObject option) list" where
  "decide synced expected seen [] = ([], [])"
| "decide synced expected seen (w # ws) =
     (case decide synced expected (groupOf w # seen) ws of
        (ds, ss) \<Rightarrow>
          if groupOf w \<in> set seen then (w # ds, ss)
          else if \<not> synced w then
            (if groupOf w \<in> set expected then (ds, (groupOf w, Some w) # ss) else (w # ds, ss))
          else (ds, ss))"

text \<open>\<^verbatim>\<open>buildKeyMapFromList\<close>: the keys of the map.\<close>

definition buildKeyMapFromList :: "'a list \<Rightarrow> ('a \<Rightarrow> string) \<Rightarrow> string list" where
  "buildKeyMapFromList xs key = remdups (map key xs)"

definition missingGroups :: "string list \<Rightarrow> K8sObject list \<Rightarrow> (string \<times> K8sObject option) list" where
  "missingGroups expected objects =
     map (\<lambda>g. (g, None)) (filter (\<lambda>g. g \<notin> groupOf ` set objects) expected)"

fun deleteAll :: "api \<Rightarrow> K8sObject list \<Rightarrow> ApiError option \<times> Request list" where
  "deleteAll api [] = (None, [])"
| "deleteAll api (w # ws) =
     (case IgnoreNotFound (api (DeleteReq w)) of
        Some e \<Rightarrow> (Some e, [DeleteReq w])
      | None \<Rightarrow> (case deleteAll api ws of (r, qs) \<Rightarrow> (r, DeleteReq w # qs)))"

fun syncAll ::
  "gvk \<Rightarrow> api \<Rightarrow> RisingWaveControllerManagerImpl \<Rightarrow> (string \<Rightarrow> K8sObject) \<Rightarrow> (string \<times> K8sObject option) list
   \<Rightarrow> (ApiError option \<times> Request list) outcome" where
  "syncAll gvk api mgr factory [] = Returns (None, [])"
| "syncAll gvk api mgr factory ((g, obj) # rest) =
     (case syncObject gvk api mgr obj (factory g) of
        Panics m \<Rightarrow> Panics m
      | Returns (Some e, qs) \<Rightarrow> Returns (Some e, qs)
      | Returns (None, qs) \<Rightarrow>
          (case syncAll gvk api mgr factory rest of
             Panics m \<Rightarrow> Panics m
           | Returns (r, qs') \<Rightarrow> Returns (r, qs @ qs')))"

type_synonym mapOrder = "(string \<times> K8sObject option) list \<Rightarrow> (string \<times> K8sObject option) list"

definition syncComponentGroupWorkloads ::
  "mapOrder \<Rightarrow> gvk \<Rightarrow> api \<Rightarrow> RisingWaveControllerManagerImpl \<Rightarrow> string \<Rightarrow> K8sObject list \<Rightarrow> (string \<Rightarrow> K8sObject) \<Rightarrow> bool
   \<Rightarrow> (Res \<times> Request list) outcome" where
  "syncComponentGroupWorkloads ord gvk api mgr component objects factory enabled =
     (case (if enabled
            then (case GetNodeGroups (m_risingwave (im_risingwaveManager mgr)) component of
                    Panics m \<Rightarrow> Panics m
                  | Returns gs \<Rightarrow> Returns (buildKeyMapFromList gs ng_Name))
            else Returns []) of
        Panics m \<Rightarrow> Panics m
      | Returns expected \<Rightarrow>
          (case decide (\<lambda>w. isObjectSynced mgr (Some w)) expected [] objects of
             (toDelete, toSync) \<Rightarrow>
               (case deleteAll api toDelete of
                  (Some e, qs) \<Rightarrow> Returns (RequeueErr ''unable to delete object'' e, qs)
                | (None, qs) \<Rightarrow>
                    (case syncAll gvk api mgr factory (ord (toSync @ missingGroups expected objects)) of
                       Panics m \<Rightarrow> Panics m
                     | Returns (Some e, qs') \<Rightarrow> Returns (RequeueErr ''unable to sync object'' e, qs @ qs')
                     | Returns (None, qs') \<Rightarrow> Returns (Continue, qs @ qs')))))"

section \<open>Waiting for the workloads of a component\<close>

fun waitObjects :: "string list \<Rightarrow> (K8sObject \<Rightarrow> bool) \<Rightarrow> K8sObject list \<Rightarrow> Res" where
  "waitObjects groups isReady [] = Continue"
| "waitObjects groups isReady (w # ws) =
     (if groupOf w \<notin> set groups then ExitAction
      else if \<not> isReady w then ExitAction
      else waitObjects groups isReady ws)"

definition waitComponentGroupWorkloadsReady :: "string list \<Rightarrow> K8sObject list \<Rightarrow> (K8sObject \<Rightarrow> bool) \<Rightarrow> Res" where
  "waitComponentGroupWorkloadsReady groups objects isReady =
     (case waitObjects groups isReady objects of
        Continue \<Rightarrow> ExitIf (\<exists>g \<in> set groups. g \<notin> groupOf ` set objects)
      | r \<Rightarrow> r)"

definition buildExpectedGroupSet :: "RisingWaveControllerManagerImpl \<Rightarrow> string \<Rightarrow> string list outcome" where
  "buildExpectedGroupSet mgr component =
     (case GetNodeGroups (m_risingwave (im_risingwaveManager mgr)) component of
        Panics m \<Rightarrow> Panics m
      | Returns gs \<Rightarrow> Returns (buildKeyMapFromList gs ng_Name))"

section \<open>The effect of the requests\<close>

text \<open>What a successful request does to the objects of one kind: names are unique in a namespace.\<close>

definition keyOf :: "K8sObject \<Rightarrow> string \<times> string" where
  "keyOf w = (ko_Namespace w, ko_Name w)"

fun applyRequest :: "K8sObject list \<Rightarrow> Request \<Rightarrow> K8sObject list" where
  "applyRequest ws (CreateReq w) = (if keyOf w \<in> keyOf ` set ws then ws else ws @ [w])"
| "applyRequest ws (UpdateReq w) = map (\<lambda>x. if keyOf x = keyOf w then w else x) ws"
| "applyRequest ws (DeleteReq w) = filter (\<lambda>x. keyOf x \<noteq> keyOf w) ws"

definition applyRequests :: "K8sObject list \<Rightarrow> Request list \<Rightarrow> K8sObject list" where
  "applyRequests ws qs = foldl applyRequest ws qs"

lemma applyRequests_simps [simp]:
  "applyRequests ws [] = ws" "applyRequests ws (q # qs) = applyRequests (applyRequest ws q) qs"
  "applyRequests ws (qs @ qs') = applyRequests (applyRequests ws qs) qs'"
  by (simp_all add: applyRequests_def)

lemma rv_label [simp]: "labelOf k (w\<lparr>ko_ResourceVersion := v\<rparr>) = labelOf k w"
  by (simp add: labelOf_def)

lemma rv_key [simp]: "keyOf (w\<lparr>ko_ResourceVersion := v\<rparr>) = keyOf w"
  by (simp add: keyOf_def)

lemma rv_synced [simp]: "isObjectSynced mgr (Some (w\<lparr>ko_ResourceVersion := v\<rparr>)) = isObjectSynced mgr (Some w)"
  by simp

section \<open>Lemmas on the decision\<close>

lemma decide_sub:
  "decide sy ex seen ws = (ds, ss) \<Longrightarrow> set ds \<subseteq> set ws \<and>
    (\<forall>(g, obj) \<in> set ss. \<exists>w. obj = Some w \<and> w \<in> set ws \<and> g = groupOf w \<and> g \<in> set ex \<and> \<not> sy w \<and> g \<notin> set seen)"
  by (induction ws arbitrary: seen ds ss) (fastforce split: prod.splits if_splits)+

lemma decide_distinct: "decide sy ex seen ws = (ds, ss) \<Longrightarrow> distinct (map fst ss)"
proof (induction ws arbitrary: seen ds ss)
  case (Cons w ws)
  obtain ds' ss' where r: "decide sy ex (groupOf w # seen) ws = (ds', ss')" by fastforce
  have "groupOf w \<notin> fst ` set ss'" using decide_sub [OF r] by fastforce
  then show ?case using Cons.IH [OF r] Cons.prems r by (auto split: if_splits)
qed simp

text \<open>What is left after the deletions: one object of each group, in sync or to be synced.\<close>

lemma decide_rest:
  assumes "decide sy ex seen ws = (ds, ss)" "distinct ws"
  shows "distinct (map groupOf (filter (\<lambda>w. w \<notin> set ds) ws))
    \<and> groupOf ` set (filter (\<lambda>w. w \<notin> set ds) ws) \<inter> set seen = {}
    \<and> (\<forall>w \<in> set ws. w \<notin> set ds \<longrightarrow> sy w \<or> (groupOf w, Some w) \<in> set ss)
    \<and> (\<forall>g \<in> groupOf ` set ws. g \<in> set ex \<longrightarrow> g \<notin> set seen \<longrightarrow> g \<in> groupOf ` set (filter (\<lambda>w. w \<notin> set ds) ws))
    \<and> (\<forall>(g, obj) \<in> set ss. \<forall>w. obj = Some w \<longrightarrow> w \<notin> set ds)"
  using assms
proof (induction ws arbitrary: seen ds ss)
  case (Cons w ws)
  obtain ds' ss' where r: "decide sy ex (groupOf w # seen) ws = (ds', ss')" by fastforce
  have sub: "set ds' \<subseteq> set ws" "\<forall>(g, obj) \<in> set ss'. \<exists>w. obj = Some w \<and> w \<in> set ws" using decide_sub [OF r] by fastforce+
  have w: "w \<notin> set ws" "w \<notin> set ds'" using Cons.prems(2) sub(1) by auto
  note IH = Cons.IH [OF r] Cons.prems(2)
  consider (dup) "groupOf w \<in> set seen" "ds = w # ds'" "ss = ss'"
    | (sync) "groupOf w \<notin> set seen" "\<not> sy w" "groupOf w \<in> set ex" "ds = ds'" "ss = (groupOf w, Some w) # ss'"
    | (drop) "groupOf w \<notin> set seen" "\<not> sy w" "groupOf w \<notin> set ex" "ds = w # ds'" "ss = ss'"
    | (keep) "groupOf w \<notin> set seen" "sy w" "ds = ds'" "ss = ss'"
    using Cons.prems(1) r by (auto split: if_splits)
  then show ?case
  proof cases
    case dup
    have "filter (\<lambda>x. x \<notin> set ds) (w # ws) = filter (\<lambda>x. x \<notin> set ds') ws" using dup w(1) by (auto intro: filter_cong)
    then show ?thesis using IH dup w sub(2) by fastforce
  next
    case sync
    have "filter (\<lambda>x. x \<notin> set ds) (w # ws) = w # filter (\<lambda>x. x \<notin> set ds') ws" using sync w by simp
    then show ?thesis using IH sync w sub(2) by auto
  next
    case drop
    have "filter (\<lambda>x. x \<notin> set ds) (w # ws) = filter (\<lambda>x. x \<notin> set ds') ws" using drop w(1) by (auto intro: filter_cong)
    then show ?thesis using IH drop w sub(2) by fastforce
  next
    case keep
    have "filter (\<lambda>x. x \<notin> set ds) (w # ws) = w # filter (\<lambda>x. x \<notin> set ds') ws" using keep w by simp
    then show ?thesis using IH keep w sub(2) by auto
  qed
qed simp

lemma decide_settled:
  "\<lbrakk>\<forall>w \<in> set ws. sy w; distinct (map groupOf ws); groupOf ` set ws \<inter> set seen = {}\<rbrakk> \<Longrightarrow> decide sy ex seen ws = ([], [])"
  by (induction ws arbitrary: seen) auto

section \<open>Lemmas on the requests\<close>

lemma deleteAll_ok: "\<forall>q. api q = None \<Longrightarrow> deleteAll api ds = (None, map DeleteReq ds)"
  by (induction ds) (simp_all add: IgnoreNotFound_def)

lemma applyRequests_deletes: "applyRequests ws (map DeleteReq ds) = filter (\<lambda>x. keyOf x \<notin> keyOf ` set ds) ws"
proof (induction ds arbitrary: ws)
  case (Cons d ds)
  then show ?case by (auto simp: conj_commute intro: filter_cong)
qed simp

text \<open>The request that syncs a group.\<close>

fun requestFor :: "(string \<Rightarrow> K8sObject) \<Rightarrow> string \<times> K8sObject option \<Rightarrow> Request" where
  "requestFor factory (g, None) = CreateReq (factory g)"
| "requestFor factory (g, Some w) = UpdateReq ((factory g)\<lparr>ko_ResourceVersion := ko_ResourceVersion w\<rparr>)"

lemma syncAll_ok:
  assumes "\<forall>q. api q = None" "\<forall>w. gvk w = None"
    and "\<forall>(g, obj) \<in> set S. \<forall>w. obj = Some w \<longrightarrow>
      \<not> isObjectSynced mgr (Some w) \<and> keyOf w = keyOf (factory g) \<and> ko_Kind w = ko_Kind (factory g)"
  shows "syncAll gvk api mgr factory S = Returns (None, map (requestFor factory) S)"
  using assms(3)
proof (induction S)
  case (Cons p S)
  obtain g obj where p: "p = (g, obj)" by fastforce
  have "syncObject gvk api mgr obj (factory g) = Returns (None, [requestFor factory (g, obj)])"
    using Cons.prems p assms(1,2)
    by (cases obj) (auto simp: syncObject_def ensureTheSameObject_def keyOf_def IgnoreAlreadyExists_def Let_def)
  then show ?case using Cons p by simp
qed simp

text \<open>The effect of syncing the groups \<open>S\<close> on the objects \<open>L\<close>, whatever the order.\<close>

definition sync_pre :: "(string \<Rightarrow> K8sObject) \<Rightarrow> K8sObject list \<Rightarrow> (string \<times> K8sObject option) list \<Rightarrow> bool" where
  "sync_pre factory L S \<longleftrightarrow> distinct (map fst S) \<and> distinct (map keyOf L) \<and> distinct (map groupOf L)
     \<and> inj_on (\<lambda>g. keyOf (factory g)) (fst ` set S)
     \<and> (\<forall>p \<in> set S. groupOf (factory (fst p)) = fst p)
     \<and> (\<forall>p \<in> set S. snd p = None \<longrightarrow> fst p \<notin> groupOf ` set L \<and> keyOf (factory (fst p)) \<notin> keyOf ` set L)
     \<and> (\<forall>p \<in> set S. snd p \<noteq> None \<longrightarrow> (\<exists>x \<in> set L. keyOf x = keyOf (factory (fst p)) \<and> groupOf x = fst p))"

lemma sync_pre_create:
  assumes "sync_pre factory L ((g, None) # S)"
  shows "sync_pre factory (L @ [factory g]) S" "applyRequest L (requestFor factory (g, None)) = L @ [factory g]"
  using assms unfolding sync_pre_def by (auto simp: inj_on_def image_iff)

lemma replace_groups:
  assumes "x \<in> set L" "distinct (map keyOf L)" "keyOf x = keyOf n" "groupOf x = groupOf n"
  shows "map groupOf (map (\<lambda>y. if keyOf y = keyOf n then n else y) L) = map groupOf L"
    "map keyOf (map (\<lambda>y. if keyOf y = keyOf n then n else y) L) = map keyOf L"
proof -
  have "y = x" if "y \<in> set L" "keyOf y = keyOf n" for y
    using that assms(1,2,3) by (metis distinct_map inj_onD)
  then show "map groupOf (map (\<lambda>y. if keyOf y = keyOf n then n else y) L) = map groupOf L" using assms(4) by auto
  show "map keyOf (map (\<lambda>y. if keyOf y = keyOf n then n else y) L) = map keyOf L" by simp
qed

lemma sync_pre_update:
  assumes "sync_pre factory L ((g, Some w) # S)"
  defines "n \<equiv> (factory g)\<lparr>ko_ResourceVersion := ko_ResourceVersion w\<rparr>"
  defines "L' \<equiv> map (\<lambda>y. if keyOf y = keyOf n then n else y) L"
  shows "sync_pre factory L' S" "map groupOf L' = map groupOf L" "n \<in> set L'"
    "set L' \<subseteq> insert n {x \<in> set L. groupOf x \<noteq> g}"
proof -
  obtain x where x: "x \<in> set L" "keyOf x = keyOf n" "groupOf x = g" "groupOf n = g"
    using assms(1) by (auto simp: sync_pre_def n_def)
  have dk: "distinct (map keyOf L)" and dg: "distinct (map groupOf L)" using assms(1) by (simp_all add: sync_pre_def)
  have maps: "map groupOf L' = map groupOf L" "map keyOf L' = map keyOf L"
    unfolding L'_def using replace_groups [OF x(1) dk x(2)] x(3,4) by auto
  then have sets: "groupOf ` set L' = groupOf ` set L" "keyOf ` set L' = keyOf ` set L" by (metis set_map)+
  have other: "y \<in> set L'" if "y \<in> set L" "groupOf y \<noteq> g" for y
  proof -
    have "keyOf y \<noteq> keyOf n" using that x dk by (metis distinct_map inj_onD)
    then show ?thesis unfolding L'_def using that(1) by force
  qed
  show "n \<in> set L'" unfolding L'_def using x(1,2) by force
  have "groupOf y \<noteq> g" if "y \<in> set L" "keyOf y \<noteq> keyOf n" for y
    using that x dg by (metis distinct_map inj_onD)
  then show "set L' \<subseteq> insert n {x \<in> set L. groupOf x \<noteq> g}" unfolding L'_def by auto
  show "map groupOf L' = map groupOf L" by (rule maps(1))
  have "\<exists>y \<in> set L'. keyOf y = keyOf (factory (fst p)) \<and> groupOf y = fst p" if p: "p \<in> set S" "snd p \<noteq> None" for p
  proof -
    have ne: "fst p \<noteq> g" using assms(1) p(1) by (force simp: sync_pre_def)
    obtain y where "y \<in> set L" "keyOf y = keyOf (factory (fst p))" "groupOf y = fst p"
      using assms(1) p unfolding sync_pre_def by (meson list.set_intros(2))
    then show ?thesis using other [of y] ne by metis
  qed
  then show "sync_pre factory L' S"
    using assms(1) sets maps by (auto simp: sync_pre_def inj_on_def)
qed

lemma applyRequests_sync:
  assumes "sync_pre factory L S" "\<And>p. p \<in> set S \<Longrightarrow> sy (factory (fst p))" "\<And>w v. sy (w\<lparr>ko_ResourceVersion := v\<rparr>) = sy w"
  shows "distinct (map groupOf (applyRequests L (map (requestFor factory) S)))
    \<and> groupOf ` set (applyRequests L (map (requestFor factory) S)) = groupOf ` set L \<union> fst ` set S
    \<and> (\<forall>x \<in> set (applyRequests L (map (requestFor factory) S)). sy x \<or> x \<in> set L \<and> groupOf x \<notin> fst ` set S)"
  using assms(1,2)
proof (induction S arbitrary: L)
  case Nil
  then show ?case by (simp add: sync_pre_def)
next
  case (Cons p S)
  obtain g obj where p: "p = (g, obj)" by fastforce
  show ?case
  proof (cases obj)
    case None
    have pre: "sync_pre factory L ((g, None) # S)" using Cons.prems(1) p None by simp
    have "groupOf (factory g) = g" "sy (factory g)" using Cons.prems(1) Cons.prems(2) [of p] p by (auto simp: sync_pre_def)
    moreover have "g \<notin> groupOf ` set L" using pre by (simp add: sync_pre_def)
    ultimately show ?thesis using Cons.IH [OF sync_pre_create(1) [OF pre]] sync_pre_create(2) [OF pre] Cons.prems(2) p None by auto
  next
    case (Some w)
    let ?n = "(factory g)\<lparr>ko_ResourceVersion := ko_ResourceVersion w\<rparr>"
    let ?L = "map (\<lambda>y. if keyOf y = keyOf ?n then ?n else y) L"
    have pre: "sync_pre factory L ((g, Some w) # S)" using Cons.prems(1) p Some by simp
    note u = sync_pre_update [OF pre]
    have n: "groupOf ?n = g" "sy ?n" using Cons.prems(1) Cons.prems(2) [of p] p assms(3) by (auto simp: sync_pre_def)
    have g: "groupOf ` set ?L = groupOf ` set L" using u(2) by (metis set_map)
    have "groupOf ?n \<in> groupOf ` set ?L" by (rule imageI [OF u(3)])
    then have gin: "g \<in> groupOf ` set L" unfolding g n(1) .
    have req: "applyRequests L (map (requestFor factory) (p # S)) = applyRequests ?L (map (requestFor factory) S)"
      using p Some by simp
    have sub: "sy x \<or> x \<in> set L \<and> groupOf x \<noteq> g" if "x \<in> set ?L" for x using subsetD [OF u(4) that] n(2) by auto
    have fst_S: "fst ` set (p # S) = insert g (fst ` set S)" using p by simp
    have "sy (factory (fst q))" if "q \<in> set S" for q using Cons.prems(2) that by simp
    note IH = Cons.IH [OF u(1) this, unfolded g]
    show ?thesis unfolding req fst_S
    proof (intro conjI ballI)
      show "groupOf ` set (applyRequests ?L (map (requestFor factory) S)) = groupOf ` set L \<union> insert g (fst ` set S)"
        using conjunct1 [OF conjunct2 [OF IH]] gin by (simp add: insert_absorb)
      show "sy x \<or> x \<in> set L \<and> groupOf x \<notin> insert g (fst ` set S)"
        if "x \<in> set (applyRequests ?L (map (requestFor factory) S))" for x
        using bspec [OF conjunct2 [OF conjunct2 [OF IH]] that] sub by blast
    qed (rule conjunct1 [OF IH])
  qed
qed

lemma decide_first:
  "decide sy ex seen ws = (ds, ss) \<Longrightarrow> (g, Some w) \<in> set ss \<Longrightarrow> find (\<lambda>x. groupOf x = g) ws = Some w"
proof (induction ws arbitrary: seen ds ss)
  case (Cons v ws)
  obtain ds' ss' where r: "decide sy ex (groupOf v # seen) ws = (ds', ss')" by fastforce
  have "(g, Some w) \<in> set ss' \<Longrightarrow> g \<noteq> groupOf v" using decide_sub [OF r] by fastforce
  then show ?case using Cons.IH [OF r] Cons.prems r by (auto split: if_splits)
qed simp

text \<open>
  What the sync relies on of the object factory, for the node groups \<open>expected\<close> and the \<open>objects\<close> that
  exist: the object of a group carries the label of the group and the current generation, different groups
  have objects of different names, the first object of a group is the one the factory builds, and no other
  object has the name of a missing one.
\<close>

definition factory_ok ::
  "RisingWaveControllerManagerImpl \<Rightarrow> (string \<Rightarrow> K8sObject) \<Rightarrow> string list \<Rightarrow> K8sObject list \<Rightarrow> bool" where
  "factory_ok mgr factory expected objects \<longleftrightarrow>
     (\<forall>g \<in> set expected. groupOf (factory g) = g \<and> isObjectSynced mgr (Some (factory g)))
     \<and> inj_on (\<lambda>g. keyOf (factory g)) (set expected)
     \<and> (\<forall>g \<in> set expected. \<forall>w. find (\<lambda>x. groupOf x = g) objects = Some w \<longrightarrow>
          keyOf w = keyOf (factory g) \<and> ko_Kind w = ko_Kind (factory g))
     \<and> (\<forall>g \<in> set expected. g \<notin> groupOf ` set objects \<longrightarrow> keyOf (factory g) \<notin> keyOf ` set objects)"

lemma decided_sync:
  assumes ok: "factory_ok mgr factory expected objects" and d: "distinct (map keyOf objects)" "distinct expected"
    and dec: "decide (\<lambda>w. isObjectSynced mgr (Some w)) expected [] objects = (ds, ss)"
    and S: "mset S = mset (ss @ missingGroups expected objects)"
  defines "L \<equiv> filter (\<lambda>w. w \<notin> set ds) objects"
  shows "sync_pre factory L S" "fst ` set S \<subseteq> set expected" "set expected \<subseteq> groupOf ` set L \<union> fst ` set S"
    "\<forall>x \<in> set L. isObjectSynced mgr (Some x) \<or> groupOf x \<in> fst ` set S"
    "\<forall>(g, obj) \<in> set S. \<forall>w. obj = Some w \<longrightarrow> \<not> isObjectSynced mgr (Some w) \<and>
       keyOf w = keyOf (factory g) \<and> ko_Kind w = ko_Kind (factory g)"
proof -
  note sub = decide_sub [OF dec] and first = decide_first [OF dec]
  note rest = decide_rest [OF dec distinct_map [THEN iffD1, OF d(1), THEN conjunct1]]
  have set_S: "set S = set ss \<union> set (missingGroups expected objects)" using S by (metis set_append set_mset_mset)
  have ss: "\<exists>w. obj = Some w \<and> w \<in> set L \<and> g = groupOf w \<and> g \<in> set expected \<and> \<not> isObjectSynced mgr (Some w)
      \<and> keyOf w = keyOf (factory g) \<and> ko_Kind w = ko_Kind (factory g)" if g: "(g, obj) \<in> set ss" for g obj
  proof -
    obtain w where w: "obj = Some w" "w \<in> set objects" "g = groupOf w" "g \<in> set expected" "\<not> isObjectSynced mgr (Some w)"
      using sub g by fastforce
    moreover have "w \<in> set L" using rest g w(1,2) by (fastforce simp: L_def)
    moreover have "find (\<lambda>x. groupOf x = g) objects = Some w" using first g unfolding w(1) by blast
    then have "keyOf w = keyOf (factory g) \<and> ko_Kind w = ko_Kind (factory g)"
      using ok w(4) unfolding factory_ok_def by blast
    ultimately show ?thesis by blast
  qed
  have mg: "obj = None \<and> g \<in> set expected \<and> g \<notin> groupOf ` set objects" if "(g, obj) \<in> set (missingGroups expected objects)" for g obj
    using that by (auto simp: missingGroups_def)
  have L: "set L \<subseteq> set objects" by (auto simp: L_def)
  have "distinct (map fst (ss @ missingGroups expected objects))"
    using decide_distinct [OF dec] d(2) sub by (fastforce simp: missingGroups_def comp_def)
  then have ds: "distinct (map fst S)" using S by (metis mset_eq_imp_distinct_iff mset_map)
  show fs: "fst ` set S \<subseteq> set expected" unfolding set_S using ss mg by fastforce
  have some: "\<exists>w. p = (groupOf w, Some w) \<and> w \<in> set L \<and> keyOf w = keyOf (factory (groupOf w))" if "p \<in> set S" "snd p \<noteq> None" for p
  proof -
    obtain g obj where p: "p = (g, obj)" by fastforce
    then have "(g, obj) \<in> set ss" using that mg [of g obj] unfolding set_S by auto
    from ss [OF this] show ?thesis using p by blast
  qed
  have none: "fst p \<notin> groupOf ` set objects" if "p \<in> set S" "snd p = None" for p
  proof -
    obtain g obj where p: "p = (g, obj)" by fastforce
    then have "(g, obj) \<in> set (missingGroups expected objects)" using that ss [of g obj] unfolding set_S by auto
    from mg [OF this] show ?thesis using p by simp
  qed
  show "sync_pre factory L S" unfolding sync_pre_def
  proof (intro conjI ballI impI)
    show "distinct (map keyOf L)" using d(1) by (auto simp: L_def distinct_map inj_on_def)
    show "distinct (map groupOf L)" using rest by (simp add: L_def)
    show "inj_on (\<lambda>g. keyOf (factory g)) (fst ` set S)" using ok fs inj_on_subset by (fastforce simp: factory_ok_def)
    show "groupOf (factory (fst p)) = fst p" if "p \<in> set S" for p using ok fs that by (auto simp: factory_ok_def)
    show "fst p \<notin> groupOf ` set L" if "p \<in> set S" "snd p = None" for p using none [OF that] L by blast
    show "keyOf (factory (fst p)) \<notin> keyOf ` set L" if p: "p \<in> set S" "snd p = None" for p
      using none [OF p] ok fs p(1) L unfolding factory_ok_def by (meson image_eqI image_mono subsetD)
    show "\<exists>x \<in> set L. keyOf x = keyOf (factory (fst p)) \<and> groupOf x = fst p" if "p \<in> set S" "snd p \<noteq> None" for p
      using some [OF that] by force
  qed (rule ds)
  show "set expected \<subseteq> groupOf ` set L \<union> fst ` set S"
  proof
    fix g
    assume g: "g \<in> set expected"
    show "g \<in> groupOf ` set L \<union> fst ` set S"
    proof (cases "g \<in> groupOf ` set objects")
      case True
      then have "g \<in> groupOf ` set (filter (\<lambda>w. w \<notin> set ds) objects)" using rest g by (metis empty_iff empty_set)
      then show ?thesis unfolding L_def by blast
    next
      case False
      then have "(g, None) \<in> set (missingGroups expected objects)" using g by (auto simp: missingGroups_def)
      then show ?thesis using set_S by force
    qed
  qed
  show "\<forall>x \<in> set L. isObjectSynced mgr (Some x) \<or> groupOf x \<in> fst ` set S"
    using rest unfolding L_def set_S by force
  show "\<forall>(g, obj) \<in> set S. \<forall>w. obj = Some w \<longrightarrow> \<not> isObjectSynced mgr (Some w) \<and>
       keyOf w = keyOf (factory g) \<and> ko_Kind w = ko_Kind (factory g)"
    unfolding set_S using ss mg by fastforce
qed

lemma deletes_rest:
  assumes "distinct (map keyOf objects)" "set ds \<subseteq> set objects"
  shows "applyRequests objects (map DeleteReq ds) = filter (\<lambda>w. w \<notin> set ds) objects"
  unfolding applyRequests_deletes using assms by (intro filter_cong) (auto simp: distinct_map inj_on_def)

lemma wait_objects_iff:
  "waitObjects groups isReady ws = Continue \<longleftrightarrow> (\<forall>w \<in> set ws. groupOf w \<in> set groups \<and> isReady w)"
  by (induction ws) auto

lemma wait_objects_cases: "waitObjects groups isReady ws = Continue \<or> waitObjects groups isReady ws = ExitAction"
  by (induction ws) auto

section \<open>Properties\<close>

text \<open>Syncing the workloads of a component with a factory that keeps the laws above: when the API server accepts
  the requests, one round settles the component.\<close>
lemma sync_converges:
  assumes api: "\<forall>q. api q = None" "\<forall>w. gvk w = None" and ord: "\<forall>xs. mset (ord xs) = mset xs"
    and c: "known_component component"
    and expected: "expected = buildKeyMapFromList (nodeGroups (m_risingwave (im_risingwaveManager mgr)) component) ng_Name"
    and ok: "factory_ok mgr factory expected objects" "distinct (map keyOf objects)"
  shows "\<exists>qs. syncComponentGroupWorkloads ord gvk api mgr component objects factory True = Returns (Continue, qs)
    \<and> (\<forall>w \<in> set (applyRequests objects qs). isObjectSynced mgr (Some w))
    \<and> distinct (map groupOf (applyRequests objects qs))
    \<and> set expected \<subseteq> groupOf ` set (applyRequests objects qs)
    \<and> syncComponentGroupWorkloads ord gvk api mgr component (applyRequests objects qs) factory True = Returns (Continue, [])"
proof -
  let ?sy = "\<lambda>w. isObjectSynced mgr (Some w)"
  obtain ds ss where dec: "decide ?sy expected [] objects = (ds, ss)" by fastforce
  define S where "S = ord (ss @ missingGroups expected objects)"
  define L where "L = filter (\<lambda>w. w \<notin> set ds) objects"
  define R where "R = applyRequests L (map (requestFor factory) S)"
  have d: "distinct expected" unfolding expected buildKeyMapFromList_def by simp
  have S: "mset S = mset (ss @ missingGroups expected objects)" unfolding S_def using ord by blast
  note pre = decided_sync [OF ok d dec S, folded L_def]
  have built: "?sy (factory (fst p))" if "p \<in> set S" for p
    using ok(1) pre(2) that unfolding factory_ok_def by blast
  have eff: "distinct (map groupOf R) \<and> groupOf ` set R = groupOf ` set L \<union> fst ` set S
      \<and> (\<forall>x \<in> set R. ?sy x \<or> x \<in> set L \<and> groupOf x \<notin> fst ` set S)"
    unfolding R_def by (rule applyRequests_sync [OF pre(1) built rv_synced])
  have synced: "\<forall>x \<in> set R. ?sy x" using eff pre(4) by blast
  have covered: "set expected \<subseteq> groupOf ` set R"
    unfolding conjunct1 [OF conjunct2 [OF eff]] by (rule pre(3))
  define qs where "qs = map DeleteReq ds @ map (requestFor factory) S"
  have run: "syncComponentGroupWorkloads ord gvk api mgr component ws factory True =
      (case decide ?sy expected [] ws of (toDelete, toSync) \<Rightarrow>
         (case syncAll gvk api mgr factory (ord (toSync @ missingGroups expected ws)) of
            Panics m \<Rightarrow> Panics m
          | Returns (Some e, qs') \<Rightarrow> Returns (RequeueErr ''unable to sync object'' e, map DeleteReq toDelete @ qs')
          | Returns (None, qs') \<Rightarrow> Returns (Continue, map DeleteReq toDelete @ qs')))" for ws
    unfolding syncComponentGroupWorkloads_def GetNodeGroups_eq expected
    using c deleteAll_ok [OF api(1)] by (simp split: prod.splits)
  have one: "syncComponentGroupWorkloads ord gvk api mgr component objects factory True = Returns (Continue, qs)"
    unfolding run dec prod.case S_def [symmetric] syncAll_ok [OF api pre(5)] qs_def by simp
  have R: "applyRequests objects qs = R"
    unfolding qs_def R_def L_def using deletes_rest [OF ok(2)] decide_sub [OF dec] by simp
  have "missingGroups expected R = []" using covered by (auto simp: missingGroups_def filter_empty_conv)
  moreover have "decide ?sy expected [] R = ([], [])" using synced eff by (intro decide_settled) auto
  moreover have "ord [] = []" using ord by (metis mset_zero_iff_right mset.simps(1))
  ultimately have two: "syncComponentGroupWorkloads ord gvk api mgr component R factory True = Returns (Continue, [])"
    unfolding run by simp
  show ?thesis
    by (intro exI [of _ qs], unfold R) (use one two synced covered eff in blast)
qed

text \<open>C18: The wait for a component continues exactly when every workload belongs to an expected group and is
  ready and every expected group has a workload; in every other case it exits the workflow.\<close>
theorem waitComponentGroupWorkloadsReady_iff:
  "waitComponentGroupWorkloadsReady groups objects isReady =
     (if (\<forall>w \<in> set objects. groupOf w \<in> set groups \<and> isReady w) \<and> set groups \<subseteq> groupOf ` set objects
      then Continue else ExitAction)"
proof (cases "waitObjects groups isReady objects = Continue")
  case True
  then show ?thesis
    using wait_objects_iff [of groups isReady objects] by (auto simp: waitComponentGroupWorkloadsReady_def ExitIf_def)
next
  case False
  then have "waitObjects groups isReady objects = ExitAction" using wait_objects_cases by blast
  moreover have "\<not> (\<forall>w \<in> set objects. groupOf w \<in> set groups \<and> isReady w)" using False wait_objects_iff by blast
  ultimately show ?thesis by (simp only: waitComponentGroupWorkloadsReady_def Res.case if_not_P simp_thms if_False)
qed

text \<open>C17: A sync of one object never sends more than its purpose: nothing for an object in sync; the object
  is deleted and created anew only after the server rejected the update as invalid and either forced
  updates are enabled or the operator's version changed; otherwise the rejection is returned.\<close>
theorem syncObject_requests:
  assumes "syncObject gvk api mgr (Some x) built = Returns (err, qs)"
  shows "(isObjectSynced mgr (Some x) \<longrightarrow> qs = [])
    \<and> (DeleteReq x \<in> set qs \<longrightarrow> (\<exists>es. api (UpdateReq (built\<lparr>ko_ResourceVersion := ko_ResourceVersion x\<rparr>)) = Some (InvalidErr es))
         \<and> (im_forceUpdateEnabled mgr \<or>
            labelOf LabelRisingWaveOperatorVersion x \<noteq> labelOf LabelRisingWaveOperatorVersion built))
    \<and> (\<forall>w. CreateReq w \<in> set qs \<longrightarrow> w = built\<lparr>ko_ResourceVersion := []\<rparr> \<and> api (DeleteReq x) = None)
    \<and> (\<forall>w. UpdateReq w \<in> set qs \<longrightarrow> keyOf w = keyOf x \<and> ko_ResourceVersion w = ko_ResourceVersion x)"
proof -
  have inv: "isInvalid e \<longleftrightarrow> (\<exists>es. e = InvalidErr es)" for e by (cases e) auto
  have same: "keyOf built = keyOf x \<and> n = built" if "ensureTheSameObject (Some x) built = Returns n" for n
    using that by (auto simp: ensureTheSameObject_def keyOf_def split: if_splits)
  show ?thesis
    using assms unfolding syncObject_def option.case
    by (auto simp del: isObjectSynced.simps simp: Let_def inv dest!: same split: option.splits outcome.splits if_splits)
qed

section \<open>Witnesses\<close>

definition demoWorkload :: "string \<Rightarrow> string \<Rightarrow> K8sObject" where
  "demoWorkload g gen = \<lparr>ko_Kind = ''StatefulSet'', ko_Name = ''rw-compute-'' @ g, ko_Namespace = ''ns'', ko_UID = [],
     ko_ResourceVersion = [], ko_Labels = [(LabelRisingWaveGeneration, gen), (LabelRisingWaveGroup, g)], ko_Generation = 1,
     ko_SpecReplicas = None, ko_ObservedGeneration = 1, ko_Conditions = [], ko_Replicas = 1, ko_UpdatedReplicas = 1,
     ko_ReadyReplicas = 1, ko_AvailableReplicas = 1, ko_OwnerReferences = []\<rparr>"

definition demoFactory :: ObjectFactory where
  "demoFactory = (let w = demoWorkload [] ''7''; f = (\<lambda>g. demoWorkload g ''7'') in
     \<lparr>of_NewMetaService = w, of_NewFrontendService = w, of_NewComputeService = w, of_NewCompactorService = w,
      of_NewStandaloneService = w, of_NewStandaloneStatefulSet = w, of_NewStandaloneAdvancedStatefulSet = w,
      of_NewConfigConfigMap = f, of_NewServiceMonitor = w, of_NewMetaStatefulSet = f, of_NewMetaAdvancedStatefulSet = f,
      of_NewFrontendDeployment = f, of_NewFrontendCloneSet = f, of_NewComputeStatefulSet = f,
      of_NewComputeAdvancedStatefulSet = f, of_NewCompactorDeployment = f, of_NewCompactorCloneSet = f\<rparr>)"

definition demoImpl :: RisingWaveControllerManagerImpl where
  "demoImpl = \<lparr>im_risingwaveManager = NewRisingWaveManager
       (demoRisingWave\<lparr>rw_Meta := (rw_Meta demoRisingWave)\<lparr>om_Generation := 7\<rparr>\<rparr>) False,
     im_objectFactory = demoFactory, im_eventMessageStore = [], im_forceUpdateEnabled = False\<rparr>"

text \<open>Group a is out of date, group b is missing, group d is not expected any more.\<close>

definition demoObjects :: "K8sObject list" where
  "demoObjects = [demoWorkload ''a'' ''6'', demoWorkload ''c'' ''7'', demoWorkload ''d'' ''6'']"

theorem waitComponentGroupWorkloadsReady_iff_witness:
  "waitComponentGroupWorkloadsReady [''c'', ''d''] [demoWorkload ''d'' ''6'', demoWorkload ''c'' ''7''] (\<lambda>w. IsStatefulSetRolledOut (Some w)) = Continue
   \<and> waitComponentGroupWorkloadsReady [''b'', ''c''] [demoWorkload ''c'' ''7''] (\<lambda>w. IsStatefulSetRolledOut (Some w)) = ExitAction"
proof -
  have r: "IsStatefulSetRolledOut (Some (demoWorkload ''d'' ''6''))" "IsStatefulSetRolledOut (Some (demoWorkload ''c'' ''7''))"
    and g: "groupOf (demoWorkload ''d'' ''6'') = ''d''" "groupOf (demoWorkload ''c'' ''7'') = ''c''" by code_simp+
  show ?thesis unfolding waitComponentGroupWorkloadsReady_iff
    by (simp only: list.set ball_simps image_insert image_empty r g simp_thms if_True) simp
qed

theorem syncObject_requests_witness:
  "\<exists>qs. syncObject (\<lambda>_. None) (\<lambda>_. None) demoImpl (Some (demoWorkload ''c'' ''7'')) (demoWorkload ''c'' ''7'') = Returns (None, qs) \<and> qs = []"
proof -
  have r: "syncObject (\<lambda>_. None) (\<lambda>_. None) demoImpl (Some (demoWorkload ''c'' ''7'')) (demoWorkload ''c'' ''7'') = Returns (None, [])"
    and s: "isObjectSynced demoImpl (Some (demoWorkload ''c'' ''7''))" by code_simp+
  show ?thesis using r s syncObject_requests [OF r] by blast
qed

end
