(* ===== verification/RwActions.thy ===== *)
theory RwActions
  imports Workloads
begin

text \<open>
  The actions of \<^verbatim>\<open>pkg/manager/risingwave_controller_manager_impl.go\<close> over the definitions of \<open>Workloads\<close>:
  the sync and wait actions of each component, in the distributed and the standalone mode and with and
  without OpenKruise, and the collection of the running statistics into the status.
\<close>

section \<open>Sync actions of the component workloads\<close>

abbreviation imRisingWave :: "RisingWaveControllerManagerImpl \<Rightarrow> RisingWave" where
  "imRisingWave mgr \<equiv> m_risingwave (im_risingwaveManager mgr)"

abbreviation kruise :: "RisingWaveControllerManagerImpl \<Rightarrow> bool" where
  "kruise mgr \<equiv> IsOpenKruiseEnabled (im_risingwaveManager mgr)"

abbreviation standalone :: "RisingWaveControllerManagerImpl \<Rightarrow> bool" where
  "standalone mgr \<equiv> IsStandaloneModeEnabled (imRisingWave mgr)"

type_synonym syncAction =
  "mapOrder \<Rightarrow> gvk \<Rightarrow> api \<Rightarrow> RisingWaveControllerManagerImpl \<Rightarrow> K8sObject list \<Rightarrow> (Res \<times> Request list) outcome"

definition SyncCompactorDeployments :: syncAction where
  "SyncCompactorDeployments ord gvk api mgr ws = syncComponentGroupWorkloads ord gvk api mgr ComponentCompactor ws
     (of_NewCompactorDeployment (im_objectFactory mgr)) (\<not> kruise mgr \<and> \<not> standalone mgr)"

definition SyncCompactorCloneSets :: syncAction where
  "SyncCompactorCloneSets ord gvk api mgr ws = syncComponentGroupWorkloads ord gvk api mgr ComponentCompactor ws
     (of_NewCompactorCloneSet (im_objectFactory mgr)) (kruise mgr \<and> \<not> standalone mgr)"

definition SyncComputeStatefulSets :: syncAction where
  "SyncComputeStatefulSets ord gvk api mgr ws = syncComponentGroupWorkloads ord gvk api mgr ComponentCompute ws
     (of_NewComputeStatefulSet (im_objectFactory mgr)) (\<not> kruise mgr \<and> \<not> standalone mgr)"

definition SyncComputeAdvancedStatefulSets :: syncAction where
  "SyncComputeAdvancedStatefulSets ord gvk api mgr ws = syncComponentGroupWorkloads ord gvk api mgr ComponentCompute ws
     (of_NewComputeAdvancedStatefulSet (im_objectFactory mgr)) (kruise mgr \<and> \<not> standalone mgr)"

definition SyncFrontendDeployments :: syncAction where
  "SyncFrontendDeployments ord gvk api mgr ws = syncComponentGroupWorkloads ord gvk api mgr ComponentFrontend ws
     (of_NewFrontendDeployment (im_objectFactory mgr)) (\<not> kruise mgr \<and> \<not> standalone mgr)"

definition SyncFrontendCloneSets :: syncAction where
  "SyncFrontendCloneSets ord gvk api mgr ws = syncComponentGroupWorkloads ord gvk api mgr ComponentFrontend ws
     (of_NewFrontendCloneSet (im_objectFactory mgr)) (kruise mgr \<and> \<not> standalone mgr)"

definition SyncMetaStatefulSets :: syncAction where
  "SyncMetaStatefulSets ord gvk api mgr ws = syncComponentGroupWorkloads ord gvk api mgr ComponentMeta ws
     (of_NewMetaStatefulSet (im_objectFactory mgr)) (\<not> kruise mgr \<and> \<not> standalone mgr)"

definition SyncMetaAdvancedStatefulSets :: syncAction where
  "SyncMetaAdvancedStatefulSets ord gvk api mgr ws = syncComponentGroupWorkloads ord gvk api mgr ComponentMeta ws
     (of_NewMetaAdvancedStatefulSet (im_objectFactory mgr)) (kruise mgr \<and> \<not> standalone mgr)"

section \<open>Wait actions of the component workloads\<close>

text \<open>\<^verbatim>\<open>lo.If\<close> evaluates its argument: the expected groups are built in either case.\<close>

definition waitGroups ::
  "RisingWaveControllerManagerImpl \<Rightarrow> string \<Rightarrow> bool \<Rightarrow> K8sObject list \<Rightarrow> (K8sObject option \<Rightarrow> bool) \<Rightarrow> Res outcome" where
  "waitGroups mgr component cond ws rolledOut =
     (case buildExpectedGroupSet mgr component of
        Panics m \<Rightarrow> Panics m
      | Returns gs \<Rightarrow> Returns (waitComponentGroupWorkloadsReady (if cond then gs else []) ws
          (\<lambda>w. isObjectSynced mgr (Some w) \<and> rolledOut (Some w))))"

type_synonym waitAction = "RisingWaveControllerManagerImpl \<Rightarrow> K8sObject list \<Rightarrow> Res outcome"

definition WaitBeforeCompactorDeploymentsReady :: waitAction where
  "WaitBeforeCompactorDeploymentsReady mgr ws =
     waitGroups mgr ComponentCompactor (\<not> kruise mgr \<and> \<not> standalone mgr) ws IsDeploymentRolledOut"

definition WaitBeforeCompactorCloneSetsReady :: waitAction where
  "WaitBeforeCompactorCloneSetsReady mgr ws =
     waitGroups mgr ComponentCompactor (kruise mgr \<and> \<not> standalone mgr) ws IsCloneSetRolledOut"

definition WaitBeforeComputeStatefulSetsReady :: waitAction where
  "WaitBeforeComputeStatefulSetsReady mgr ws =
     waitGroups mgr ComponentCompute (\<not> kruise mgr \<and> \<not> standalone mgr) ws IsStatefulSetRolledOut"

definition WaitBeforeComputeAdvancedStatefulSetsReady :: waitAction where
  "WaitBeforeComputeAdvancedStatefulSetsReady mgr ws =
     waitGroups mgr ComponentCompute (kruise mgr \<and> \<not> standalone mgr) ws IsAdvancedStatefulSetRolledOut"

definition WaitBeforeFrontendDeploymentsReady :: waitAction where
  "WaitBeforeFrontendDeploymentsReady mgr ws =
     waitGroups mgr ComponentFrontend (\<not> kruise mgr \<and> \<not> standalone mgr) ws IsDeploymentRolledOut"

definition WaitBeforeFrontendCloneSetsReady :: waitAction where
  "WaitBeforeFrontendCloneSetsReady mgr ws =
     waitGroups mgr ComponentFrontend (kruise mgr \<and> \<not> standalone mgr) ws IsCloneSetRolledOut"

definition WaitBeforeMetaStatefulSetsReady :: waitAction where
  "WaitBeforeMetaStatefulSetsReady mgr ws =
     waitGroups mgr ComponentMeta (\<not> kruise mgr \<and> \<not> standalone mgr) ws IsStatefulSetRolledOut"

definition WaitBeforeMetaAdvancedStatefulSetsReady :: waitAction where
  "WaitBeforeMetaAdvancedStatefulSetsReady mgr ws =
     waitGroups mgr ComponentMeta (kruise mgr \<and> \<not> standalone mgr) ws IsAdvancedStatefulSetRolledOut"

section \<open>Services, the configuration map and the service monitor\<close>

definition syncOne ::
  "string \<Rightarrow> gvk \<Rightarrow> api \<Rightarrow> RisingWaveControllerManagerImpl \<Rightarrow> K8sObject option \<Rightarrow> K8sObject \<Rightarrow> (Res \<times> Request list) outcome" where
  "syncOne msg gvk api mgr obj built =
     (case syncObject gvk api mgr obj built of
        Panics m \<Rightarrow> Panics m
      | Returns (err, qs) \<Rightarrow> Returns (RequeueIfErrorAndWrap msg err, qs))"

text \<open>Sync the object when it is wanted, delete it when it is not and exists.\<close>

definition syncOrDelete ::
  "bool \<Rightarrow> string \<Rightarrow> gvk \<Rightarrow> api \<Rightarrow> RisingWaveControllerManagerImpl \<Rightarrow> K8sObject option \<Rightarrow> K8sObject \<Rightarrow> (Res \<times> Request list) outcome" where
  "syncOrDelete wanted msg gvk api mgr obj built =
     (if wanted then syncOne msg gvk api mgr obj built
      else (case obj of
              Some x \<Rightarrow> Returns (RequeueIfErrorAndWrap msg (api (DeleteReq x)), [DeleteReq x])
            | None \<Rightarrow> Returns (NoRequeue, [])))"

type_synonym objectAction =
  "gvk \<Rightarrow> api \<Rightarrow> RisingWaveControllerManagerImpl \<Rightarrow> K8sObject option \<Rightarrow> (Res \<times> Request list) outcome"

definition SyncCompactorService :: objectAction where
  "SyncCompactorService gvk api mgr svc = syncOrDelete (\<not> standalone mgr) ''unable to sync compactor service'' gvk api mgr svc
     (of_NewCompactorService (im_objectFactory mgr))"

definition SyncComputeService :: objectAction where
  "SyncComputeService gvk api mgr svc = syncOrDelete (\<not> standalone mgr) ''unable to sync compute service'' gvk api mgr svc
     (of_NewComputeService (im_objectFactory mgr))"

definition SyncFrontendService :: objectAction where
  "SyncFrontendService gvk api mgr svc = syncOne ''unable to sync frontend service'' gvk api mgr svc
     (of_NewFrontendService (im_objectFactory mgr))"

definition SyncMetaService :: objectAction where
  "SyncMetaService gvk api mgr svc = syncOrDelete (\<not> standalone mgr) ''unable to sync meta service'' gvk api mgr svc
     (of_NewMetaService (im_objectFactory mgr))"

definition WaitBeforeMetaServiceIsAvailable :: "RisingWaveControllerManagerImpl \<Rightarrow> K8sObject option \<Rightarrow> Res" where
  "WaitBeforeMetaServiceIsAvailable mgr svc =
     (if \<not> standalone mgr then (if isObjectSynced mgr svc then NoRequeue else ExitAction)
      else if svc \<noteq> None then ExitAction else NoRequeue)"

definition SyncConfigConfigMap :: objectAction where
  "SyncConfigConfigMap gvk api mgr cm = syncOne ''unable to sync config configmap'' gvk api mgr cm
     (of_NewConfigConfigMap (im_objectFactory mgr) [])"

definition SyncServiceMonitor :: objectAction where
  "SyncServiceMonitor gvk api mgr sm = syncOne ''unable to sync service monitor'' gvk api mgr sm
     (of_NewServiceMonitor (im_objectFactory mgr))"

section \<open>The standalone mode\<close>

definition SyncStandaloneService :: objectAction where
  "SyncStandaloneService gvk api mgr svc = syncOrDelete (standalone mgr) ''unable to sync standalone service'' gvk api mgr svc
     (of_NewStandaloneService (im_objectFactory mgr))"

definition SyncStandaloneStatefulSet :: objectAction where
  "SyncStandaloneStatefulSet gvk api mgr sts = syncOrDelete (standalone mgr \<and> \<not> kruise mgr) ''unable to sync standalone statefulset'' gvk api mgr sts
     (of_NewStandaloneStatefulSet (im_objectFactory mgr))"

definition SyncStandaloneAdvancedStatefulSet :: objectAction where
  "SyncStandaloneAdvancedStatefulSet gvk api mgr sts = syncOrDelete (standalone mgr \<and> kruise mgr) ''unable to sync standalone statefulset'' gvk api mgr sts
     (of_NewStandaloneAdvancedStatefulSet (im_objectFactory mgr))"

definition WaitBeforeStandaloneStatefulSetReady :: "RisingWaveControllerManagerImpl \<Rightarrow> K8sObject option \<Rightarrow> Res" where
  "WaitBeforeStandaloneStatefulSetReady mgr sts =
     (if standalone mgr \<and> \<not> kruise mgr then
        (if isObjectSynced mgr sts \<and> IsStatefulSetRolledOut sts then NoRequeue else ExitAction)
      else if sts \<noteq> None then ExitAction else NoRequeue)"

definition WaitBeforeStandaloneAdvancedStatefulSetReady :: "RisingWaveControllerManagerImpl \<Rightarrow> K8sObject option \<Rightarrow> Res" where
  "WaitBeforeStandaloneAdvancedStatefulSetReady mgr sts =
     (if standalone mgr \<and> kruise mgr then
        (if isObjectSynced mgr sts \<and> IsAdvancedStatefulSetRolledOut sts then NoRequeue else ExitAction)
      else if sts \<noteq> None then ExitAction else NoRequeue)"

section \<open>The running statistics\<close>

definition getStandaloneStatusUtil :: "RisingWave \<Rightarrow> int \<Rightarrow> ComponentReplicasStatus" where
  "getStandaloneStatusUtil rw readyReplicas =
     (let required = (case comps_Standalone (rws_Components (rw_Spec rw)) of Some s \<Rightarrow> sa_Replicas s | None \<Rightarrow> 1)
      in \<lparr>crs_Target = required, crs_Running = readyReplicas,
          crs_Groups = [\<lparr>cgr_Name = [], cgr_Target = required, cgr_Running = readyReplicas, cgr_Exists = True\<rparr>]\<rparr>)"

definition getStandaloneStatus :: "RisingWave \<Rightarrow> K8sObject option \<Rightarrow> ComponentReplicasStatus" where
  "getStandaloneStatus rw sts =
     getStandaloneStatusUtil rw (case sts of Some s \<Rightarrow> ko_ReadyReplicas s | None \<Rightarrow> 0)"

text \<open>
  \<^verbatim>\<open>buildNodeGroupStatus\<close>. The last node group of a name decides its replicas (a map). The final sort is by
  name; among entries of one name, which only duplicate workloads of a group have, the order is the stable one.
\<close>

definition expectedReplicas :: "RisingWaveNodeGroup list \<Rightarrow> (string \<times> int) list" where
  "expectedReplicas gs = foldl (\<lambda>m g. alUpdate (ng_Name g) (ng_Replicas g) m) [] gs"

definition workloadStatus :: "(string \<times> int) list \<Rightarrow> K8sObject \<Rightarrow> ComponentGroupReplicasStatus" where
  "workloadStatus expected w =
     (case map_of expected (groupOf w) of
        Some n \<Rightarrow> \<lparr>cgr_Name = groupOf w, cgr_Target = n, cgr_Running = ko_ReadyReplicas w, cgr_Exists = True\<rparr>
      | None \<Rightarrow> \<lparr>cgr_Name = groupOf w @ ''(-)'', cgr_Target = 0, cgr_Running = ko_ReadyReplicas w, cgr_Exists = True\<rparr>)"

definition missingStatus :: "string \<times> int \<Rightarrow> ComponentGroupReplicasStatus" where
  "missingStatus e = \<lparr>cgr_Name = fst e, cgr_Target = snd e, cgr_Running = 0, cgr_Exists = False\<rparr>"

definition buildNodeGroupStatus :: "RisingWaveNodeGroup list \<Rightarrow> K8sObject list \<Rightarrow> ComponentReplicasStatus" where
  "buildNodeGroupStatus groups workloads =
     (let expected = expectedReplicas groups in
      \<lparr>crs_Target = foldl (\<lambda>n g. i32 (n + ng_Replicas g)) 0 groups,
       crs_Running = foldl (\<lambda>n w. i32 (n + ko_ReadyReplicas w)) 0 workloads,
       crs_Groups = sort_key cgr_Name (map (workloadStatus expected) workloads @
         map missingStatus (filter (\<lambda>e. fst e \<notin> groupOf ` set workloads) expected))\<rparr>)"

definition isGroupMissing :: "ComponentGroupReplicasStatus \<Rightarrow> bool" where
  "isGroupMissing g \<longleftrightarrow> \<not> cgr_Exists g"

definition buildMetaStoreType :: "RisingWaveMetaStoreBackend \<Rightarrow> string" where
  "buildMetaStoreType ms =
     (if ms_Memory ms = Some True then ''Memory''
      else if ms_Etcd ms \<noteq> None then ''Etcd''
      else if ms_SQLite ms \<noteq> None then ''SQLite''
      else if ms_MySQL ms \<noteq> None then ''MySQL''
      else if ms_PostgreSQL ms \<noteq> None then ''PostgreSQL''
      else ''Unknown'')"

definition buildStateStoreType :: "RisingWaveStateStoreBackend \<Rightarrow> string" where
  "buildStateStoreType ss =
     (if derefBool (ss_Memory ss) False then ''Memory''
      else if ss_MinIO ss \<noteq> None then ''MinIO''
      else if ss_S3 ss \<noteq> None then ''S3''
      else if ss_GCS ss \<noteq> None then ''GCS''
      else if ss_AliyunOSS ss \<noteq> None then ''AliyunOSS''
      else if ss_AzureBlob ss \<noteq> None then ''AzureBlob''
      else if ss_HDFS ss \<noteq> None then ''HDFS''
      else if ss_WebHDFS ss \<noteq> None then ''WebHDFS''
      else if ss_LocalDisk ss \<noteq> None then ''LocalDisk''
      else if ss_HuaweiCloudOBS ss \<noteq> None then ''HuaweiCloudOBS''
      else ''Unknown'')"

definition reportStatus :: "RisingWave \<Rightarrow> RisingWaveComponentsReplicasStatus \<Rightarrow> RisingWaveStatus \<Rightarrow> RisingWaveStatus" where
  "reportStatus rw reps s = s\<lparr>rst_MetaStore := buildMetaStoreType (rws_MetaStore (rw_Spec rw)),
     rst_StateStore := buildStateStoreType (rws_StateStore (rw_Spec rw)),
     rst_Version := GetVersionFromImage (rws_Image (rw_Spec rw)), rst_ComponentReplicas := reps\<rparr>"

definition newCondition :: "string \<Rightarrow> string \<Rightarrow> RisingWaveCondition" where
  "newCondition t st = \<lparr>rc_Type = t, rc_Status = st, rc_LastTransitionTime = 0, rc_Reason = [], rc_Message = []\<rparr>"

text \<open>The end of the four collecting actions: broken components turn Running to false and, when the
  RisingWave was running, leave a message for the Unhealthy event.\<close>

definition reportBroken ::
  "time \<Rightarrow> RisingWaveControllerManagerImpl \<Rightarrow> (bool \<times> string) list \<Rightarrow> RisingWaveControllerManagerImpl" where
  "reportBroken now mgr checks =
     (let broken = map snd (filter fst checks) in
      if broken = [] then mgr
      else mgr\<lparr>im_risingwaveManager := UpdateCondition now (im_risingwaveManager mgr)
                 (newCondition RisingWaveConditionRunning ConditionFalse),
               im_eventMessageStore :=
                 (if DoesConditionExistAndEqual (imRisingWave mgr) RisingWaveConditionRunning True
                  then SetMessage (im_eventMessageStore mgr) ''Unhealthy''
                         (''Found components broken or missing: '' @ joinStr '','' broken)
                  else im_eventMessageStore mgr)\<rparr>)"

definition withStatus ::
  "RisingWaveControllerManagerImpl \<Rightarrow> RisingWaveComponentsReplicasStatus \<Rightarrow> RisingWaveControllerManagerImpl" where
  "withStatus mgr reps = mgr\<lparr>im_risingwaveManager :=
     UpdateStatus (im_risingwaveManager mgr) (reportStatus (imRisingWave mgr) reps)\<rparr>"

definition componentReplicas ::
  "RisingWave \<Rightarrow> K8sObject list \<Rightarrow> K8sObject list \<Rightarrow> K8sObject list \<Rightarrow> K8sObject list \<Rightarrow> RisingWaveComponentsReplicasStatus" where
  "componentReplicas rw metas frontends computes compactors =
     (let cs = rws_Components (rw_Spec rw) in
      \<lparr>crep_Meta = buildNodeGroupStatus (cmp_NodeGroups (comps_Meta cs)) metas,
       crep_Frontend = buildNodeGroupStatus (cmp_NodeGroups (comps_Frontend cs)) frontends,
       crep_Compute = buildNodeGroupStatus (cmp_NodeGroups (comps_Compute cs)) computes,
       crep_Compactor = buildNodeGroupStatus (cmp_NodeGroups (comps_Compactor cs)) compactors,
       crep_Standalone = zeroReplicasStatus\<rparr>)"

text \<open>The nine checks, with the names of the workloads of the mode.\<close>

definition distributedChecks ::
  "string list \<Rightarrow> RisingWaveComponentsReplicasStatus \<Rightarrow> K8sObject option \<Rightarrow> K8sObject option \<Rightarrow> K8sObject option \<Rightarrow> K8sObject option
   \<Rightarrow> K8sObject option \<Rightarrow> (bool \<times> string) list" where
  "distributedChecks names reps frontendService metaService computeService compactorService cm =
     [(frontendService = None, ''Service(frontend)''),
      (metaService = None, ''Service(meta)''),
      (computeService = None, ''Service(compute)''),
      (compactorService = None, ''Service(compactor)''),
      (cm = None, ''ConfigMap(config)''),
      (\<exists>g \<in> set (crs_Groups (crep_Meta reps)). isGroupMissing g, names ! 0),
      (\<exists>g \<in> set (crs_Groups (crep_Frontend reps)). isGroupMissing g, names ! 1),
      (\<exists>g \<in> set (crs_Groups (crep_Compute reps)). isGroupMissing g, names ! 2),
      (\<exists>g \<in> set (crs_Groups (crep_Compactor reps)). isGroupMissing g, names ! 3)]"

definition CollectRunningStatisticsAndSyncStatus ::
  "time \<Rightarrow> RisingWaveControllerManagerImpl \<Rightarrow> K8sObject option \<Rightarrow> K8sObject option \<Rightarrow> K8sObject option \<Rightarrow> K8sObject option
   \<Rightarrow> K8sObject list \<Rightarrow> K8sObject list \<Rightarrow> K8sObject list \<Rightarrow> K8sObject list \<Rightarrow> K8sObject option
   \<Rightarrow> Res \<times> RisingWaveControllerManagerImpl" where
  "CollectRunningStatisticsAndSyncStatus now mgr frontendService metaService computeService compactorService
     metaStatefulSets frontendDeployments computeStatefulSets compactorDeployments cm =
     (let reps = componentReplicas (imRisingWave mgr) metaStatefulSets frontendDeployments computeStatefulSets compactorDeployments
      in (Continue, reportBroken now (withStatus mgr reps)
           (distributedChecks [''Deployments(meta)'', ''Deployments(frontend)'', ''StatefulSets(compute)'', ''Deployments(compactor)'']
              reps frontendService metaService computeService compactorService cm)))"

definition CollectOpenKruiseRunningStatisticsAndSyncStatus ::
  "time \<Rightarrow> RisingWaveControllerManagerImpl \<Rightarrow> K8sObject option \<Rightarrow> K8sObject option \<Rightarrow> K8sObject option \<Rightarrow> K8sObject option
   \<Rightarrow> K8sObject list \<Rightarrow> K8sObject list \<Rightarrow> K8sObject list \<Rightarrow> K8sObject list \<Rightarrow> K8sObject option
   \<Rightarrow> Res \<times> RisingWaveControllerManagerImpl" where
  "CollectOpenKruiseRunningStatisticsAndSyncStatus now mgr frontendService metaService computeService compactorService
     metaAdvancedStatefulSets frontendCloneSets computeStatefulSets compactorCloneSets cm =
     (let reps = componentReplicas (imRisingWave mgr) metaAdvancedStatefulSets frontendCloneSets computeStatefulSets compactorCloneSets
      in (Continue, reportBroken now (withStatus mgr reps)
           (distributedChecks [''CloneSets(meta)'', ''CloneSets(frontend)'', ''AdvancedStatefulSets(compute)'', ''CloneSets(compactor)'']
              reps frontendService metaService computeService compactorService cm)))"

definition standaloneReplicas :: "RisingWave \<Rightarrow> K8sObject option \<Rightarrow> RisingWaveComponentsReplicasStatus" where
  "standaloneReplicas rw sts = \<lparr>crep_Meta = zeroReplicasStatus, crep_Frontend = zeroReplicasStatus,
     crep_Compute = zeroReplicasStatus, crep_Compactor = zeroReplicasStatus, crep_Standalone = getStandaloneStatus rw sts\<rparr>"

definition CollectRunningStatisticsAndSyncStatusForStandalone ::
  "time \<Rightarrow> RisingWaveControllerManagerImpl \<Rightarrow> K8sObject option \<Rightarrow> K8sObject option \<Rightarrow> K8sObject option
   \<Rightarrow> Res \<times> RisingWaveControllerManagerImpl" where
  "CollectRunningStatisticsAndSyncStatusForStandalone now mgr svc sts cm =
     (Continue, reportBroken now (withStatus mgr (standaloneReplicas (imRisingWave mgr) sts))
        [(svc = None, ''Service(standalone)''), (cm = None, ''ConfigMap(config)''), (sts = None, ''StatefulSet(standalone)'')])"

definition CollectOpenKruiseRunningStatisticsAndSyncStatusForStandalone ::
  "time \<Rightarrow> RisingWaveControllerManagerImpl \<Rightarrow> K8sObject option \<Rightarrow> K8sObject option \<Rightarrow> K8sObject option
   \<Rightarrow> Res \<times> RisingWaveControllerManagerImpl" where
  "CollectOpenKruiseRunningStatisticsAndSyncStatusForStandalone now mgr svc sts cm =
     (Continue, reportBroken now (withStatus mgr (standaloneReplicas (imRisingWave mgr) sts))
        [(svc = None, ''Service(standalone)''), (cm = None, ''ConfigMap(config)''), (sts = None, ''AdvancedStatefulSet(standalone)'')])"

section \<open>Lemmas\<close>

lemma foldl_alUpdate_keys:
  "fst ` set (foldl (\<lambda>m g. alUpdate (ng_Name g) (ng_Replicas g) m) m gs) = fst ` set m \<union> ng_Name ` set gs"
proof (induction gs arbitrary: m)
  case (Cons g gs)
  then show ?case using set_keys_alUpdate [of "ng_Name g" "ng_Replicas g" m] by auto
qed simp

lemma foldl_alUpdate_lookup:
  "distinct (map ng_Name gs) \<Longrightarrow> map_of (foldl (\<lambda>m g. alUpdate (ng_Name g) (ng_Replicas g) m) m gs) n =
     (case find (\<lambda>g. ng_Name g = n) gs of Some g \<Rightarrow> Some (ng_Replicas g) | None \<Rightarrow> map_of m n)"
proof (induction gs arbitrary: m)
  case (Cons g gs)
  have "find (\<lambda>h. ng_Name h = ng_Name g) gs = None" using Cons.prems by (fastforce simp: find_None_iff image_iff)
  then show ?case using Cons by (auto simp: map_of_alUpdate split: option.splits)
qed simp

lemma expectedReplicas_keys: "fst ` set (expectedReplicas gs) = ng_Name ` set gs"
  unfolding expectedReplicas_def using foldl_alUpdate_keys [of "[]"] by simp

lemma i32_sum: "foldl (\<lambda>n x. i32 (n + f x)) (i32 a) xs = i32 (a + sum_list (map f xs))"
  by (induction xs arbitrary: a) (simp_all add: add.assoc)

lemma groupsStatus_missing:
  "(\<exists>g \<in> set (crs_Groups (buildNodeGroupStatus gs ws)). isGroupMissing g) \<longleftrightarrow> \<not> ng_Name ` set gs \<subseteq> groupOf ` set ws"
proof -
  have "(\<exists>g \<in> set (crs_Groups (buildNodeGroupStatus gs ws)). isGroupMissing g) \<longleftrightarrow>
      (\<exists>e \<in> set (expectedReplicas gs). fst e \<notin> groupOf ` set ws)"
    by (auto simp: buildNodeGroupStatus_def Let_def isGroupMissing_def workloadStatus_def missingStatus_def
        split: option.splits) force+
  also have "\<dots> \<longleftrightarrow> \<not> fst ` set (expectedReplicas gs) \<subseteq> groupOf ` set ws" by auto
  finally show ?thesis unfolding expectedReplicas_keys .
qed

lemma buildExpectedGroupSet_known:
  "known_component c \<Longrightarrow> buildExpectedGroupSet mgr c = Returns (remdups (map ng_Name (nodeGroups (imRisingWave mgr) c)))"
  by (simp add: buildExpectedGroupSet_def GetNodeGroups_eq buildKeyMapFromList_def)

lemma wait_continue:
  "waitComponentGroupWorkloadsReady groups objects isReady = Continue \<longleftrightarrow>
     (\<forall>w \<in> set objects. groupOf w \<in> set groups \<and> isReady w) \<and> set groups \<subseteq> groupOf ` set objects"
  using wait_objects_iff [of groups isReady objects] wait_objects_cases [of groups isReady objects]
  by (auto simp: waitComponentGroupWorkloadsReady_def ExitIf_def split: Res.splits)

lemma waitGroups_continue:
  assumes "known_component c"
  shows "waitGroups mgr c cond ws r = Returns Continue \<longleftrightarrow>
    (if cond then (\<forall>w \<in> set ws. isObjectSynced mgr (Some w) \<and> r (Some w))
       \<and> groupOf ` set ws = ng_Name ` set (nodeGroups (imRisingWave mgr) c)
     else ws = [])"
proof -
  have "waitGroups mgr c cond ws r = Returns Continue \<longleftrightarrow>
      waitComponentGroupWorkloadsReady (if cond then remdups (map ng_Name (nodeGroups (imRisingWave mgr) c)) else []) ws
        (\<lambda>w. isObjectSynced mgr (Some w) \<and> r (Some w)) = Continue"
    by (simp add: waitGroups_def buildExpectedGroupSet_known [OF assms])
  then show ?thesis unfolding wait_continue by (auto simp del: isObjectSynced.simps)
qed

section \<open>Properties\<close>

text \<open>When both waits of the compute component continue, the workloads of the mode in use are those of
  exactly the node groups, all in sync with the current generation and rolled out, and there is no
  workload of the other mode left; in standalone mode there is none of either kind.\<close>
theorem wait_compute_modes:
  assumes "WaitBeforeComputeStatefulSetsReady mgr stss = Returns Continue"
    and "WaitBeforeComputeAdvancedStatefulSetsReady mgr advs = Returns Continue"
  shows "(standalone mgr \<longrightarrow> stss = [] \<and> advs = [])
    \<and> (\<not> standalone mgr \<and> kruise mgr \<longrightarrow> stss = []
        \<and> groupOf ` set advs = ng_Name ` set (nodeGroups (imRisingWave mgr) ComponentCompute)
        \<and> (\<forall>w \<in> set advs. isObjectSynced mgr (Some w) \<and> IsAdvancedStatefulSetRolledOut (Some w)))
    \<and> (\<not> standalone mgr \<and> \<not> kruise mgr \<longrightarrow> advs = []
        \<and> groupOf ` set stss = ng_Name ` set (nodeGroups (imRisingWave mgr) ComponentCompute)
        \<and> (\<forall>w \<in> set stss. isObjectSynced mgr (Some w) \<and> IsStatefulSetRolledOut (Some w)))"
proof -
  have c: "known_component ComponentCompute" by (simp add: known_component_def)
  note w = assms [unfolded WaitBeforeComputeStatefulSetsReady_def WaitBeforeComputeAdvancedStatefulSetsReady_def
    waitGroups_continue [OF c]]
  show ?thesis using w by (simp split: if_splits del: isObjectSynced.simps IsStatefulSetRolledOut.simps IsAdvancedStatefulSetRolledOut.simps)
qed

text \<open>The statistics of a component: the target and the running replicas are the 32-bit sums over its node
  groups and its workloads; the entries are sorted by name; a group is reported as missing exactly
  when a node group has no workload; and the entry of a workload of a node group shows its replicas.\<close>
theorem buildNodeGroupStatus_spec:
  fixes gs :: "RisingWaveNodeGroup list" and ws :: "K8sObject list"
  assumes "distinct (map ng_Name gs)"
  defines "st \<equiv> buildNodeGroupStatus gs ws"
  shows "crs_Target st = i32 (\<Sum>g \<leftarrow> gs. ng_Replicas g) \<and> crs_Running st = i32 (\<Sum>w \<leftarrow> ws. ko_ReadyReplicas w)
    \<and> sorted (map cgr_Name (crs_Groups st))
    \<and> ((\<exists>g \<in> set (crs_Groups st). isGroupMissing g) \<longleftrightarrow> (\<exists>g \<in> set gs. ng_Name g \<notin> groupOf ` set ws))
    \<and> (\<forall>g \<in> set gs. \<forall>w \<in> set ws. groupOf w = ng_Name g \<longrightarrow>
        \<lparr>cgr_Name = ng_Name g, cgr_Target = ng_Replicas g, cgr_Running = ko_ReadyReplicas w, cgr_Exists = True\<rparr> \<in> set (crs_Groups st))"
proof (intro conjI ballI impI)
  show "crs_Target st = i32 (\<Sum>g \<leftarrow> gs. ng_Replicas g)" "crs_Running st = i32 (\<Sum>w \<leftarrow> ws. ko_ReadyReplicas w)"
    using i32_sum [of ng_Replicas 0 gs] i32_sum [of ko_ReadyReplicas 0 ws]
    by (simp_all add: st_def buildNodeGroupStatus_def Let_def)
  show "sorted (map cgr_Name (crs_Groups st))" by (simp add: st_def buildNodeGroupStatus_def Let_def)
  show "(\<exists>g \<in> set (crs_Groups st). isGroupMissing g) \<longleftrightarrow> (\<exists>g \<in> set gs. ng_Name g \<notin> groupOf ` set ws)"
    unfolding st_def groupsStatus_missing by auto
  fix g w
  assume g: "g \<in> set gs" and w: "w \<in> set ws" "groupOf w = ng_Name g"
  have "find (\<lambda>h. ng_Name h = ng_Name g) gs = Some g"
    using g assms(1) by (induction gs) (auto simp: image_iff)
  then have "map_of (expectedReplicas gs) (groupOf w) = Some (ng_Replicas g)"
    unfolding expectedReplicas_def w(2) foldl_alUpdate_lookup [OF assms(1)] by simp
  then show "\<lparr>cgr_Name = ng_Name g, cgr_Target = ng_Replicas g, cgr_Running = ko_ReadyReplicas w, cgr_Exists = True\<rparr>
      \<in> set (crs_Groups st)"
    using w by (force simp: st_def buildNodeGroupStatus_def Let_def workloadStatus_def)
qed

text \<open>C19: Collecting the statistics in the distributed mode turns the condition Running to false exactly when a
  service, the configuration map or the workload of a node group is missing; it leaves a message for the
  Unhealthy event exactly when the RisingWave was observed as running, and changes no other condition.\<close>
theorem CollectRunningStatistics_condition:
  assumes "CollectRunningStatisticsAndSyncStatus now mgr fs ms cps cts metas fronts computes compactors cm = (res, mgr')"
  defines "missing \<equiv> fs = None \<or> ms = None \<or> cps = None \<or> cts = None \<or> cm = None
    \<or> \<not> ng_Name ` set (nodeGroups (imRisingWave mgr) ComponentMeta) \<subseteq> groupOf ` set metas
    \<or> \<not> ng_Name ` set (nodeGroups (imRisingWave mgr) ComponentFrontend) \<subseteq> groupOf ` set fronts
    \<or> \<not> ng_Name ` set (nodeGroups (imRisingWave mgr) ComponentCompute) \<subseteq> groupOf ` set computes
    \<or> \<not> ng_Name ` set (nodeGroups (imRisingWave mgr) ComponentCompactor) \<subseteq> groupOf ` set compactors"
  shows "res = Continue
    \<and> (\<forall>t. map_option rc_Status (GetCondition (RisingWaveAfterImage (im_risingwaveManager mgr')) t) =
        (if missing \<and> t = RisingWaveConditionRunning then Some ConditionFalse
         else map_option rc_Status (GetCondition (RisingWaveAfterImage (im_risingwaveManager mgr)) t)))
    \<and> (IsMessageSet (im_eventMessageStore mgr') ''Unhealthy'' \<longleftrightarrow> IsMessageSet (im_eventMessageStore mgr) ''Unhealthy'' \<or>
        missing \<and> DoesConditionExistAndEqual (imRisingWave mgr) RisingWaveConditionRunning True)"
proof -
  define reps where "reps = componentReplicas (imRisingWave mgr) metas fronts computes compactors"
  define checks where "checks = distributedChecks
    [''Deployments(meta)'', ''Deployments(frontend)'', ''StatefulSets(compute)'', ''Deployments(compactor)''] reps fs ms cps cts cm"
  have broken: "filter fst checks = [] \<longleftrightarrow> \<not> missing"
    unfolding checks_def distributedChecks_def reps_def componentReplicas_def Let_def missing_def
    by (simp add: groupsStatus_missing nodeGroups_def componentNodeGroups_def component_defs Let_def)
  have mgr': "res = Continue" "mgr' = reportBroken now (withStatus mgr reps) checks"
    using assms(1) by (simp_all add: CollectRunningStatisticsAndSyncStatus_def reps_def checks_def Let_def)
  have cond: "GetCondition (RisingWaveAfterImage (im_risingwaveManager (withStatus mgr reps))) t =
      GetCondition (RisingWaveAfterImage (im_risingwaveManager mgr)) t" for t
    by (simp add: withStatus_def RisingWaveAfterImage_def GetCondition_def reportStatus_def)
  have same: "imRisingWave (withStatus mgr reps) = imRisingWave mgr"
    "im_eventMessageStore (withStatus mgr reps) = im_eventMessageStore mgr" by (simp_all add: withStatus_def)
  show ?thesis
  proof (cases missing)
    case True
    then have "mgr' = (withStatus mgr reps)\<lparr>im_risingwaveManager := UpdateCondition now (im_risingwaveManager (withStatus mgr reps))
                 (newCondition RisingWaveConditionRunning ConditionFalse),
               im_eventMessageStore :=
                 (if DoesConditionExistAndEqual (imRisingWave mgr) RisingWaveConditionRunning True
                  then SetMessage (im_eventMessageStore mgr) ''Unhealthy''
                         (''Found components broken or missing: '' @ joinStr '','' (map snd (filter fst checks)))
                  else im_eventMessageStore mgr)\<rparr>"
      using broken unfolding mgr'(2) reportBroken_def same Let_def by simp
    then show ?thesis
      using True mgr'(1) cond
      by (simp add: RisingWaveAfterImage_def GetCondition_update newCondition_def SetMessage_def IsMessageSet_def)
  next
    case False
    then have "mgr' = withStatus mgr reps" using broken unfolding mgr'(2) reportBroken_def by simp
    then show ?thesis using False mgr'(1) cond same by simp
  qed
qed

section \<open>Witnesses\<close>

definition demoReady :: "K8sObject list" where
  "demoReady = [demoWorkload ''a'' ''7'', demoWorkload ''c'' ''8'', demoWorkload ''b'' ''7'']"

theorem wait_compute_modes_witness:
  "groupOf ` set demoReady = ng_Name ` set (nodeGroups (imRisingWave demoImpl) ComponentCompute)"
proof -
  have "WaitBeforeComputeStatefulSetsReady demoImpl demoReady = Returns Continue"
    "WaitBeforeComputeAdvancedStatefulSetsReady demoImpl [] = Returns Continue" "\<not> standalone demoImpl" "\<not> kruise demoImpl"
    by code_simp+
  then show ?thesis using wait_compute_modes [of demoImpl demoReady "[]"] by blast
qed

theorem buildNodeGroupStatus_spec_witness:
  "crs_Target (buildNodeGroupStatus (nodeGroups demoRisingWave ''compute'') demoObjects) = 6"
proof -
  have "distinct (map ng_Name (nodeGroups demoRisingWave ''compute''))" by code_simp
  moreover have "i32 (\<Sum>g \<leftarrow> nodeGroups demoRisingWave ''compute''. ng_Replicas g) = 6" by code_simp
  ultimately show ?thesis using buildNodeGroupStatus_spec [of "nodeGroups demoRisingWave ''compute''" demoObjects] by simp
qed

theorem CollectRunningStatistics_condition_witness:
  "map_option rc_Status (GetCondition (RisingWaveAfterImage (im_risingwaveManager (snd
     (CollectRunningStatisticsAndSyncStatus 5 demoImpl None None None None [] [] demoObjects [] None)))) RisingWaveConditionRunning) =
   Some ConditionFalse"
proof -
  obtain mgr' where m: "CollectRunningStatisticsAndSyncStatus 5 demoImpl None None None None [] [] demoObjects [] None = (Continue, mgr')"
    by (simp add: CollectRunningStatisticsAndSyncStatus_def Let_def)
  from CollectRunningStatistics_condition [OF this] show ?thesis unfolding m by simp
qed

end
