(* ===== verification/RwController.thy ===== *)
theory RwController
  imports RwActions ScaleManager
begin

text \<open>
  \<^verbatim>\<open>pkg/controller/risingwave_controller.go\<close>: the guards of \<^verbatim>\<open>Reconcile\<close>, the actions defined in
  \<^verbatim>\<open>reactiveWorkflow\<close> and the branches that drive the conditions Initializing, Running and Upgrading. An
  action takes the manager and returns a result and the manager. The workflow combinators belong to the
  ctrlkit library: \<^verbatim>\<open>ctrlkit.Sequential\<close> is the argument \<open>sequential\<close>, and the parallel join of the
  branches is a run of them in any order.
\<close>

section \<open>Actions\<close>

type_synonym action = "RisingWaveManager \<Rightarrow> Res \<times> RisingWaveManager"

definition firstTimeObservedBarrier :: action where
  "firstTimeObservedBarrier m = (ExitIf (rst_Conditions (rw_Status (m_risingwave m)) \<noteq> []), m)"

definition markCondition :: "time \<Rightarrow> string \<Rightarrow> string \<Rightarrow> action" where
  "markCondition now t st m = (Continue, UpdateCondition now m (newCondition t st))"

definition markConditionInitializingAsTrue :: "time \<Rightarrow> action" where
  "markConditionInitializingAsTrue now = markCondition now RisingWaveConditionInitializing ConditionTrue"

definition markConditionRunningAsFalse :: "time \<Rightarrow> action" where
  "markConditionRunningAsFalse now = markCondition now RisingWaveConditionRunning ConditionFalse"

definition markConditionRunningAsTrue :: "time \<Rightarrow> action" where
  "markConditionRunningAsTrue now = markCondition now RisingWaveConditionRunning ConditionTrue"

definition markConditionUpgradingAsTrue :: "time \<Rightarrow> action" where
  "markConditionUpgradingAsTrue now = markCondition now RisingWaveConditionUpgrading ConditionTrue"

definition markConditionUpgradingAsFalse :: "time \<Rightarrow> action" where
  "markConditionUpgradingAsFalse now = markCondition now RisingWaveConditionUpgrading ConditionFalse"

definition conditionBarrier :: "string \<Rightarrow> string \<Rightarrow> action" where
  "conditionBarrier t st m =
     (ExitIf (case GetCondition (m_risingwave m) t of None \<Rightarrow> True | Some c \<Rightarrow> rc_Status c \<noteq> st), m)"

definition conditionInitializingIsTrueBarrier :: action where
  "conditionInitializingIsTrueBarrier = conditionBarrier RisingWaveConditionInitializing ConditionTrue"

definition conditionRunningIsTrueBarrier :: action where
  "conditionRunningIsTrueBarrier = conditionBarrier RisingWaveConditionRunning ConditionTrue"

definition conditionRunningIsFalseBarrier :: action where
  "conditionRunningIsFalseBarrier = conditionBarrier RisingWaveConditionRunning ConditionFalse"

definition conditionUpgradingIsTrueBarrier :: action where
  "conditionUpgradingIsTrueBarrier = conditionBarrier RisingWaveConditionUpgrading ConditionTrue"

definition removeConditionInitializing :: action where
  "removeConditionInitializing m = (Continue, RemoveCondition m RisingWaveConditionInitializing)"

definition observedGenerationOutdatedBarrier :: action where
  "observedGenerationOutdatedBarrier m = (ExitIf (\<not> IsObservedGenerationOutdated (m_risingwave m)), m)"

definition syncObservedGeneration :: action where
  "syncObservedGeneration m = (Continue, SyncObservedGeneration m)"

text \<open>The root path of the state store is recorded once and never changed.\<close>

definition syncInternalStatus :: action where
  "syncInternalStatus m =
     (let path = StateStoreRootPath (m_risingwave m) in
      (Continue, UpdateStatus m (\<lambda>s. if rst_StateStoreRootPath s = [] then s\<lparr>rst_StateStoreRootPath := path\<rparr> else s)))"

definition updateRisingWaveStatus :: "(RisingWave \<Rightarrow> ApiError option) \<Rightarrow> RisingWaveManager \<Rightarrow> Res" where
  "updateRisingWaveStatus update m =
     (case UpdateRemoteRisingWaveStatus update m of
        Some NotFoundErr \<Rightarrow> NoRequeue
      | Some (ConflictErr e) \<Rightarrow> RequeueAfter 10
      | err \<Rightarrow> RequeueIfErrorAndWrap ''unable to update status'' err)"

text \<open>The guards at the start of \<^verbatim>\<open>Reconcile\<close>: the RisingWave to go on with, or the result.\<close>

definition AnnotationPauseReconcile :: string where
  "AnnotationPauseReconcile = ''risingwave.risingwavelabs.com/pause-reconcile''"

definition reconcileGuard :: "ApiError + RisingWave \<Rightarrow> Res + RisingWave" where
  "reconcileGuard got =
     (case got of
        Inl NotFoundErr \<Rightarrow> Inl NoRequeue
      | Inl e \<Rightarrow> Inl (RequeueErr ''unable to get risingwave'' e)
      | Inr rw \<Rightarrow>
          if map_of (om_Annotations (rw_Meta rw)) AnnotationPauseReconcile \<noteq> None then Inl NoRequeue
          else if om_DeletionTimestamp (rw_Meta rw) \<noteq> None then Inl NoRequeue
          else Inr rw)"

section \<open>The branches that drive the conditions\<close>

definition conditionBranches :: "(action list \<Rightarrow> action) \<Rightarrow> time \<Rightarrow> action \<Rightarrow> action list" where
  "conditionBranches sequential now sharedSyncAllAndWait =
     [sequential [firstTimeObservedBarrier, markConditionInitializingAsTrue now, markConditionRunningAsFalse now],
      sequential [conditionInitializingIsTrueBarrier, sharedSyncAllAndWait, removeConditionInitializing],
      sequential [conditionRunningIsFalseBarrier, sharedSyncAllAndWait, markConditionRunningAsTrue now],
      sequential [conditionRunningIsTrueBarrier, observedGenerationOutdatedBarrier, markConditionUpgradingAsTrue now],
      sequential [conditionUpgradingIsTrueBarrier, sharedSyncAllAndWait, markConditionUpgradingAsFalse now]]"

definition runBranches :: "action list \<Rightarrow> RisingWaveManager \<Rightarrow> RisingWaveManager" where
  "runBranches bs m = foldl (\<lambda>m b. snd (b m)) m bs"

text \<open>\<^verbatim>\<open>ctrlkit.Sequential\<close>: the actions run in order up to the first that does not continue.\<close>

fun runInOrder :: "action list \<Rightarrow> action" where
  "runInOrder [] m = (Continue, m)"
| "runInOrder (a # as) m = (case a m of (Continue, m') \<Rightarrow> runInOrder as m' | r \<Rightarrow> r)"

definition sequential_law :: "(action list \<Rightarrow> action) \<Rightarrow> bool" where
  "sequential_law sequential \<longleftrightarrow> (\<forall>as m. sequential as m = runInOrder as m)"

text \<open>The shared sync: it records the generation, syncs everything and continues when all is ready.\<close>

definition sync_law :: "bool \<Rightarrow> action \<Rightarrow> bool" where
  "sync_law ready a \<longleftrightarrow> (\<forall>m. a m = (if ready then Continue else ExitAction, SyncObservedGeneration m))"

section \<open>Lemmas\<close>

definition statusOf :: "RisingWaveManager \<Rightarrow> string \<Rightarrow> string option" where
  "statusOf m t = map_option rc_Status (GetCondition (m_mutableRisingWave m) t)"

definition observed :: "RisingWave \<Rightarrow> string \<Rightarrow> string option" where
  "observed rw t = map_option rc_Status (GetCondition rw t)"

text \<open>The manager of a run that started from \<open>rw\<close>.\<close>

definition run_of :: "RisingWave \<Rightarrow> RisingWaveManager \<Rightarrow> bool" where
  "run_of rw m \<longleftrightarrow> m_risingwave m = rw \<and> distinct (map rc_Type (rst_Conditions (rw_Status (m_mutableRisingWave m))))"

lemma run_of_update: "run_of rw m \<Longrightarrow> run_of rw (UpdateCondition now m c)"
  by (simp add: run_of_def UpdateCondition_def putCondition_distinct)

lemma run_of_remove: "run_of rw m \<Longrightarrow> run_of rw (RemoveCondition m t)"
  by (simp add: run_of_def RemoveCondition_def removeFirst_distinct)

lemma run_of_sync: "run_of rw m \<Longrightarrow> run_of rw (SyncObservedGeneration m)"
  by (simp add: run_of_def SyncObservedGeneration_def)

lemma statusOf_update [simp]:
  "statusOf (UpdateCondition now m c) t = (if t = rc_Type c then Some (rc_Status c) else statusOf m t)"
  by (simp add: statusOf_def GetCondition_update)

lemma statusOf_remove: "run_of rw m \<Longrightarrow> statusOf (RemoveCondition m t) t' = (if t' = t then None else statusOf m t')"
  by (simp add: statusOf_def run_of_def GetCondition_remove)

lemma statusOf_sync [simp]: "statusOf (SyncObservedGeneration m) t = statusOf m t"
  by (simp add: statusOf_def SyncObservedGeneration_def GetCondition_def)

lemma conditionBarrier_run:
  "run_of rw m \<Longrightarrow> conditionBarrier t st m = (if observed rw t = Some st then Continue else ExitAction, m)"
  by (auto simp: conditionBarrier_def run_of_def observed_def ExitIf_def split: option.splits)

text \<open>A branch, as its effect on the conditions.\<close>

definition effect_of :: "RisingWave \<Rightarrow> action \<Rightarrow> (string \<rightharpoonup> string option) \<Rightarrow> bool" where
  "effect_of rw b e \<longleftrightarrow> (\<forall>m. run_of rw m \<longrightarrow> run_of rw (snd (b m)) \<and>
     (\<forall>t. statusOf (snd (b m)) t = (case e t of Some s \<Rightarrow> s | None \<Rightarrow> statusOf m t)))"

lemma runBranches_effects:
  assumes "list_all2 (effect_of rw) bs es" "run_of rw m"
    and "\<And>e e' s s'. \<lbrakk>e \<in> set es; e' \<in> set es; e t = Some s; e' t = Some s'\<rbrakk> \<Longrightarrow> s = s'"
  shows "(\<forall>e \<in> set es. \<forall>s. e t = Some s \<longrightarrow> statusOf (runBranches bs m) t = s)
    \<and> ((\<forall>e \<in> set es. e t = None) \<longrightarrow> statusOf (runBranches bs m) t = statusOf m t)"
  using assms
proof (induction arbitrary: m rule: list_all2_induct)
  case Nil
  then show ?case by (simp add: runBranches_def)
next
  case (Cons b bs e es)
  have b: "run_of rw (snd (b m))" "statusOf (snd (b m)) t = (case e t of Some s \<Rightarrow> s | None \<Rightarrow> statusOf m t)"
    using Cons.hyps(1) Cons.prems(1) by (auto simp: effect_of_def)
  have run: "runBranches (b # bs) m = runBranches bs (snd (b m))" by (simp add: runBranches_def)
  have IH: "(\<forall>e \<in> set es. \<forall>s. e t = Some s \<longrightarrow> statusOf (runBranches (b # bs) m) t = s)
      \<and> ((\<forall>e \<in> set es. e t = None) \<longrightarrow> statusOf (runBranches (b # bs) m) t = statusOf (snd (b m)) t)"
    unfolding run by (rule Cons.IH [OF b(1)]) (use Cons.prems(2) in \<open>auto\<close>)
  have "statusOf (runBranches (b # bs) m) t = s" if s: "e t = Some s" for s
  proof (cases "\<forall>e' \<in> set es. e' t = None")
    case True
    then show ?thesis using IH b(2) s by simp
  next
    case False
    then obtain e' s' where "e' \<in> set es" "e' t = Some s'" by auto
    moreover from this have "s' = s" using Cons.prems(2) [of e' e] s by simp
    ultimately show ?thesis using IH by blast
  qed
  then show ?case using IH b(2) by auto
qed

text \<open>The effects of the five branches.\<close>

definition branchEffects :: "RisingWave \<Rightarrow> bool \<Rightarrow> (string \<rightharpoonup> string option) list" where
  "branchEffects rw ready =
     [if rst_Conditions (rw_Status rw) = []
        then [RisingWaveConditionInitializing \<mapsto> Some ConditionTrue, RisingWaveConditionRunning \<mapsto> Some ConditionFalse] else Map.empty,
      if observed rw RisingWaveConditionInitializing = Some ConditionTrue \<and> ready then [RisingWaveConditionInitializing \<mapsto> None] else Map.empty,
      if observed rw RisingWaveConditionRunning = Some ConditionFalse \<and> ready then [RisingWaveConditionRunning \<mapsto> Some ConditionTrue] else Map.empty,
      if observed rw RisingWaveConditionRunning = Some ConditionTrue \<and> IsObservedGenerationOutdated rw
        then [RisingWaveConditionUpgrading \<mapsto> Some ConditionTrue] else Map.empty,
      if observed rw RisingWaveConditionUpgrading = Some ConditionTrue \<and> ready then [RisingWaveConditionUpgrading \<mapsto> Some ConditionFalse] else Map.empty]"

lemmas branch_defs = firstTimeObservedBarrier_def markConditionInitializingAsTrue_def markConditionRunningAsFalse_def
  markConditionRunningAsTrue_def markConditionUpgradingAsTrue_def markConditionUpgradingAsFalse_def markCondition_def
  conditionInitializingIsTrueBarrier_def conditionRunningIsTrueBarrier_def conditionRunningIsFalseBarrier_def
  conditionUpgradingIsTrueBarrier_def removeConditionInitializing_def observedGenerationOutdatedBarrier_def newCondition_def

lemma three_step_effect:
  assumes "\<And>m. run_of rw m \<Longrightarrow> barrier m = (if B then Continue else ExitAction, m)"
    and "\<And>m. run_of rw m \<Longrightarrow> mid m = (if M then Continue else ExitAction, f m)"
    and "\<And>m. run_of rw m \<Longrightarrow> run_of rw (f m)" "\<And>m t. statusOf (f m) t = statusOf m t"
    and "effect_of rw fin e"
  shows "effect_of rw (runInOrder [barrier, mid, fin]) (if B \<and> M then e else Map.empty)"
  unfolding effect_of_def
proof (intro allI impI)
  fix m
  assume m: "run_of rw m"
  have f: "run_of rw (f m)" by (rule assms(3) [OF m])
  have "snd (runInOrder [barrier, mid, fin] m) = (if B then if M then snd (fin (f m)) else f m else m)"
    using assms(1) [OF m] assms(2) [OF m] by (auto split: Res.splits prod.splits)
  moreover have "statusOf (f m) = statusOf m" by (rule ext) (rule assms(4))
  ultimately show "run_of rw (snd (runInOrder [barrier, mid, fin] m)) \<and>
      (\<forall>t. statusOf (snd (runInOrder [barrier, mid, fin] m)) t =
        (case (if B \<and> M then e else Map.empty) t of Some s \<Rightarrow> s | None \<Rightarrow> statusOf m t))"
    using m f assms(5) by (simp only: effect_of_def) (simp split: option.split)
qed

lemma mark_effect: "effect_of rw (markCondition now t st) [t \<mapsto> Some st]"
  by (simp add: effect_of_def markCondition_def newCondition_def run_of_update)

lemma remove_effect: "effect_of rw removeConditionInitializing [RisingWaveConditionInitializing \<mapsto> None]"
  by (simp add: effect_of_def removeConditionInitializing_def run_of_remove statusOf_remove)

lemma first_effect:
  "effect_of rw (runInOrder [firstTimeObservedBarrier, markConditionInitializingAsTrue now, markConditionRunningAsFalse now])
     (if rst_Conditions (rw_Status rw) = []
      then [RisingWaveConditionInitializing \<mapsto> Some ConditionTrue, RisingWaveConditionRunning \<mapsto> Some ConditionFalse] else Map.empty)"
  unfolding effect_of_def
proof (rule allI, rule impI)
  fix m
  assume m: "run_of rw m"
  moreover from m have "m_risingwave m = rw" by (simp add: run_of_def)
  ultimately show "run_of rw (snd (runInOrder [firstTimeObservedBarrier, markConditionInitializingAsTrue now, markConditionRunningAsFalse now] m)) \<and>
     (\<forall>t. statusOf (snd (runInOrder [firstTimeObservedBarrier, markConditionInitializingAsTrue now, markConditionRunningAsFalse now] m)) t =
       (case (if rst_Conditions (rw_Status rw) = []
          then [RisingWaveConditionInitializing \<mapsto> Some ConditionTrue, RisingWaveConditionRunning \<mapsto> Some ConditionFalse] else Map.empty) t of
          Some s \<Rightarrow> s | None \<Rightarrow> statusOf m t))"
    by (simp add: branch_defs run_of_update ExitIf_def)
qed

lemma branchEffects_ok:
  assumes "sequential_law sequential" "sync_law ready sync"
  shows "list_all2 (effect_of rw) (conditionBranches sequential now sync) (branchEffects rw ready)"
proof -
  have seq: "sequential as = runInOrder as" for as using assms(1) by (auto simp: sequential_law_def)
  have sync: "sync m = (if ready then Continue else ExitAction, SyncObservedGeneration m)" for m
    using assms(2) by (simp add: sync_law_def)
  have outdated: "observedGenerationOutdatedBarrier m = (if IsObservedGenerationOutdated rw then Continue else ExitAction, m)"
    if "run_of rw m" for m using that by (simp add: observedGenerationOutdatedBarrier_def run_of_def ExitIf_def)
  have b: "effect_of rw (runInOrder [conditionBarrier t st, sync, fin]) (if observed rw t = Some st \<and> ready then e else Map.empty)"
    if "effect_of rw fin e" for t st fin e
    by (rule three_step_effect [where f = SyncObservedGeneration]) (simp_all add: conditionBarrier_run sync run_of_sync that)
  have c: "effect_of rw (runInOrder [conditionBarrier t st, observedGenerationOutdatedBarrier, fin])
      (if observed rw t = Some st \<and> IsObservedGenerationOutdated rw then e else Map.empty)"
    if "effect_of rw fin e" for t st fin e
    by (rule three_step_effect [where f = "\<lambda>m. m"]) (simp_all add: conditionBarrier_run outdated that)
  show ?thesis
    unfolding conditionBranches_def branchEffects_def seq
      conditionInitializingIsTrueBarrier_def conditionRunningIsFalseBarrier_def conditionUpgradingIsTrueBarrier_def
      conditionRunningIsTrueBarrier_def markConditionRunningAsTrue_def markConditionUpgradingAsTrue_def markConditionUpgradingAsFalse_def
    by (intro list_all2_Cons [THEN iffD2] conjI first_effect b c remove_effect mark_effect) simp
qed

lemma observed_empty: "rst_Conditions (rw_Status rw) = [] \<Longrightarrow> observed rw t = None"
  by (simp add: observed_def GetCondition_def conditionIn_def)

section \<open>Properties\<close>


section \<open>Witnesses\<close>

text \<open>A RisingWave that is being initialized becomes ready.\<close>

definition demoInitializing :: RisingWave where
  "demoInitializing = zeroRisingWave\<lparr>rw_Status := zeroStatus\<lparr>rst_Conditions :=
     [demoCondition RisingWaveConditionInitializing ConditionTrue 1, demoCondition RisingWaveConditionRunning ConditionFalse 1]\<rparr>\<rparr>"

definition demoSync :: action where
  "demoSync m = (Continue, SyncObservedGeneration m)"


end
