(* ===== verification/RwState.thy ===== *)
theory RwState
  imports RwController
begin

text \<open>
  \<^verbatim>\<open>pkg/manager/risingwave_controller_manager_generated.go\<close>: the state of the RisingWave controller manager, which
  reads the observed objects of the target from the API server, and the actions of the manager, which fetch
  the states they need, call the hook and hand them to the actions of \<open>RwActions\<close>. The reader and
  \<^verbatim>\<open>ctrlkit.ValidateOwnership\<close> are arguments.
\<close>

section \<open>The state of the manager\<close>

type_synonym ownership = "K8sObject \<Rightarrow> RisingWave \<Rightarrow> bool"

record Reader =
  rd_Get :: "string \<Rightarrow> string \<times> string \<Rightarrow> ApiError + K8sObject"
  rd_List :: "string \<Rightarrow> string \<Rightarrow> strmap \<Rightarrow> ApiError + K8sObject list"

record RisingWaveControllerManagerState =
  st_Reader :: Reader
  st_target :: RisingWave

definition NewRisingWaveControllerManagerState :: "Reader \<Rightarrow> RisingWave \<Rightarrow> RisingWaveControllerManagerState" where
  "NewRisingWaveControllerManagerState reader target = \<lparr>st_Reader = reader, st_target = target\<rparr>"

text \<open>What a getter returns: an error with the text that wraps it, or the state.\<close>

type_synonym 'a fetch = "string \<times> ApiError + 'a"

definition stateError :: "string \<Rightarrow> ApiError \<Rightarrow> string \<times> ApiError" where
  "stateError state e = (''unable to get state '' @ [CHR 0x27] @ state @ [CHR 0x27], e)"

abbreviation targetNamespace :: "RisingWaveControllerManagerState \<Rightarrow> string" where
  "targetNamespace s \<equiv> om_Namespace (rw_Meta (st_target s))"

abbreviation targetName :: "RisingWaveControllerManagerState \<Rightarrow> string" where
  "targetName s \<equiv> om_Name (rw_Meta (st_target s))"

text \<open>The getters of lists: the objects of the kind in the namespace with the labels, those that the target owns.\<close>

definition listOwned ::
  "ownership \<Rightarrow> RisingWaveControllerManagerState \<Rightarrow> string \<Rightarrow> string \<Rightarrow> string \<Rightarrow> K8sObject list fetch" where
  "listOwned owned s state kind component =
     (case rd_List (st_Reader s) kind (targetNamespace s)
             [(''risingwave/component'', component), (''risingwave/name'', targetName s)] of
        Inl e \<Rightarrow> Inl (stateError state e)
      | Inr items \<Rightarrow> Inr (filter (\<lambda>obj. owned obj (st_target s)) items))"

text \<open>The getters of one object: no object is nil, an object of another owner is an error.\<close>

definition getOwned ::
  "ownership \<Rightarrow> RisingWaveControllerManagerState \<Rightarrow> string \<Rightarrow> string \<Rightarrow> string \<Rightarrow> K8sObject option fetch" where
  "getOwned owned s state kind name =
     (case rd_Get (st_Reader s) kind (targetNamespace s, name) of
        Inl NotFoundErr \<Rightarrow> Inr None
      | Inl e \<Rightarrow> Inl (stateError state e)
      | Inr obj \<Rightarrow> if \<not> owned obj (st_target s) then Inl (stateError state (OtherErr ''object not owned by target''))
                   else Inr (Some obj))"

type_synonym listGetter = "ownership \<Rightarrow> RisingWaveControllerManagerState \<Rightarrow> K8sObject list fetch"
type_synonym objectGetter = "ownership \<Rightarrow> RisingWaveControllerManagerState \<Rightarrow> K8sObject option fetch"

definition GetCompactorCloneSets :: listGetter where
  "GetCompactorCloneSets owned s = listOwned owned s ''compactorCloneSets'' ''CloneSet'' ''compactor''"

definition GetCompactorDeployments :: listGetter where
  "GetCompactorDeployments owned s = listOwned owned s ''compactorDeployments'' ''Deployment'' ''compactor''"

definition GetComputeAdvancedStatefulSets :: listGetter where
  "GetComputeAdvancedStatefulSets owned s = listOwned owned s ''computeAdvancedStatefulSets'' ''AdvancedStatefulSet'' ''compute''"

definition GetComputeStatefulSets :: listGetter where
  "GetComputeStatefulSets owned s = listOwned owned s ''computeStatefulSets'' ''StatefulSet'' ''compute''"

definition GetFrontendCloneSets :: listGetter where
  "GetFrontendCloneSets owned s = listOwned owned s ''frontendCloneSets'' ''CloneSet'' ''frontend''"

definition GetFrontendDeployments :: listGetter where
  "GetFrontendDeployments owned s = listOwned owned s ''frontendDeployments'' ''Deployment'' ''frontend''"

definition GetMetaAdvancedStatefulSets :: listGetter where
  "GetMetaAdvancedStatefulSets owned s = listOwned owned s ''metaAdvancedStatefulSets'' ''AdvancedStatefulSet'' ''meta''"

definition GetMetaStatefulSets :: listGetter where
  "GetMetaStatefulSets owned s = listOwned owned s ''metaStatefulSets'' ''StatefulSet'' ''meta''"

definition GetCompactorService :: objectGetter where
  "GetCompactorService owned s = getOwned owned s ''compactorService'' ''Service'' (targetName s @ ''-compactor'')"

definition GetComputeService :: objectGetter where
  "GetComputeService owned s = getOwned owned s ''computeService'' ''Service'' (targetName s @ ''-compute'')"

definition GetConfigConfigMap :: objectGetter where
  "GetConfigConfigMap owned s = getOwned owned s ''configConfigMap'' ''ConfigMap'' (targetName s @ ''-default-config'')"

definition GetFrontendService :: objectGetter where
  "GetFrontendService owned s = getOwned owned s ''frontendService'' ''Service'' (targetName s @ ''-frontend'')"

definition GetMetaService :: objectGetter where
  "GetMetaService owned s = getOwned owned s ''metaService'' ''Service'' (targetName s @ ''-meta'')"

definition GetServiceMonitor :: objectGetter where
  "GetServiceMonitor owned s = getOwned owned s ''serviceMonitor'' ''ServiceMonitor'' (''risingwave-'' @ targetName s)"

definition GetStandaloneAdvancedStatefulSet :: objectGetter where
  "GetStandaloneAdvancedStatefulSet owned s = getOwned owned s ''standaloneAdvancedStatefulSet'' ''AdvancedStatefulSet'' (targetName s @ ''-standalone'')"

definition GetStandaloneService :: objectGetter where
  "GetStandaloneService owned s = getOwned owned s ''standaloneService'' ''Service'' (targetName s @ ''-standalone'')"

definition GetStandaloneStatefulSet :: objectGetter where
  "GetStandaloneStatefulSet owned s = getOwned owned s ''standaloneStatefulSet'' ''StatefulSet'' (targetName s @ ''-standalone'')"

lemmas list_getters = GetCompactorCloneSets_def GetCompactorDeployments_def GetComputeAdvancedStatefulSets_def GetComputeStatefulSets_def
  GetFrontendCloneSets_def GetFrontendDeployments_def GetMetaAdvancedStatefulSets_def GetMetaStatefulSets_def

lemmas object_getters = GetCompactorService_def GetComputeService_def GetConfigConfigMap_def GetFrontendService_def GetMetaService_def
  GetServiceMonitor_def GetStandaloneAdvancedStatefulSet_def GetStandaloneService_def GetStandaloneStatefulSet_def

section \<open>The manager and its hook\<close>

text \<open>The states that an action shows to the hook, and the calls of the hook.\<close>

datatype StateValue = OneState "K8sObject option" | ListState "K8sObject list"

datatype HookCall =
    PreRunCall string "(string \<times> StateValue) list"
  | PostRunCall string Res

record RisingWaveControllerManager =
  cm_hook :: bool
  cm_state :: RisingWaveControllerManagerState
  cm_impl :: RisingWaveControllerManagerImpl

type_synonym RisingWaveControllerManagerOption = "RisingWaveControllerManager \<Rightarrow> RisingWaveControllerManager"

definition RisingWaveControllerManager_WithActionHook :: "bool \<Rightarrow> RisingWaveControllerManagerOption" where
  "RisingWaveControllerManager_WithActionHook hook m = m\<lparr>cm_hook := hook\<rparr>"

definition NewRisingWaveControllerManager ::
  "RisingWaveControllerManagerState \<Rightarrow> RisingWaveControllerManagerImpl \<Rightarrow> RisingWaveControllerManagerOption list \<Rightarrow> RisingWaveControllerManager" where
  "NewRisingWaveControllerManager state impl opts =
     foldl (\<lambda>m opt. opt m) \<lparr>cm_hook = False, cm_state = state, cm_impl = impl\<rparr> opts"

text \<open>What a run of an action leaves: the result, the requests sent, the implementation and the calls of the hook.\<close>

record Ran =
  ran_Res :: Res
  ran_Requests :: "Request list"
  ran_Impl :: RisingWaveControllerManagerImpl
  ran_Hooks :: "HookCall list"

text \<open>\<^verbatim>\<open>ctrlkit.RequeueIfError\<close> on the error of a getter; the hook is not called.\<close>

definition fetching :: "RisingWaveControllerManager \<Rightarrow> 'a fetch \<Rightarrow> ('a \<Rightarrow> Ran outcome) \<Rightarrow> Ran outcome" where
  "fetching m got k =
     (case got of
        Inl (msg, e) \<Rightarrow> Returns \<lparr>ran_Res = RequeueErr msg e, ran_Requests = [], ran_Impl = cm_impl m, ran_Hooks = []\<rparr>
      | Inr x \<Rightarrow> k x)"

definition invoke ::
  "RisingWaveControllerManager \<Rightarrow> string \<Rightarrow> (string \<times> StateValue) list \<Rightarrow> (Res \<times> Request list \<times> RisingWaveControllerManagerImpl) outcome
   \<Rightarrow> Ran outcome" where
  "invoke m action states body =
     (case body of
        Panics msg \<Rightarrow> Panics msg
      | Returns (r, qs, impl) \<Rightarrow> Returns \<lparr>ran_Res = r, ran_Requests = qs, ran_Impl = impl,
          ran_Hooks = (if cm_hook m then [PreRunCall action states, PostRunCall action r] else [])\<rparr>)"

text \<open>The actions that change no status, those that send no request, and those that collect the status.\<close>

definition sends :: "RisingWaveControllerManager \<Rightarrow> (Res \<times> Request list) outcome \<Rightarrow> (Res \<times> Request list \<times> RisingWaveControllerManagerImpl) outcome" where
  "sends m x = (case x of Panics msg \<Rightarrow> Panics msg | Returns (r, qs) \<Rightarrow> Returns (r, qs, cm_impl m))"

definition waits :: "RisingWaveControllerManager \<Rightarrow> Res outcome \<Rightarrow> (Res \<times> Request list \<times> RisingWaveControllerManagerImpl) outcome" where
  "waits m x = (case x of Panics msg \<Rightarrow> Panics msg | Returns r \<Rightarrow> Returns (r, [], cm_impl m))"

definition collects :: "Res \<times> RisingWaveControllerManagerImpl \<Rightarrow> (Res \<times> Request list \<times> RisingWaveControllerManagerImpl) outcome" where
  "collects x = (case x of (r, impl) \<Rightarrow> Returns (r, [], impl))"

text \<open>What the actions use of their surroundings.\<close>

record ActionEnv =
  ae_ord :: mapOrder
  ae_gvk :: gvk
  ae_api :: api
  ae_now :: time
  ae_owned :: ownership

type_synonym managerAction = "ActionEnv \<Rightarrow> RisingWaveControllerManager \<Rightarrow> Ran outcome"

text \<open>\<^verbatim>\<open>NewAction\<close>: an action of the controller itself.\<close>

definition NewAction ::
  "string \<Rightarrow> (RisingWaveControllerManagerImpl \<Rightarrow> (Res \<times> Request list \<times> RisingWaveControllerManagerImpl) outcome) \<Rightarrow> managerAction" where
  "NewAction description f env m = invoke m description [] (f (cm_impl m))"

section \<open>The actions\<close>

definition SyncMetaService_action :: managerAction where
  "SyncMetaService_action env m = fetching m (GetMetaService (ae_owned env) (cm_state m)) (\<lambda>metaService.
     invoke m ''SyncMetaService'' [(''metaService'', OneState metaService)]
       (sends m (SyncMetaService (ae_gvk env) (ae_api env) (cm_impl m) metaService)))"

definition SyncMetaStatefulSets_action :: managerAction where
  "SyncMetaStatefulSets_action env m = fetching m (GetMetaStatefulSets (ae_owned env) (cm_state m)) (\<lambda>metaStatefulSets.
     invoke m ''SyncMetaStatefulSets'' [(''metaStatefulSets'', ListState metaStatefulSets)]
       (sends m (SyncMetaStatefulSets (ae_ord env) (ae_gvk env) (ae_api env) (cm_impl m) metaStatefulSets)))"

definition SyncMetaAdvancedStatefulSets_action :: managerAction where
  "SyncMetaAdvancedStatefulSets_action env m = fetching m (GetMetaAdvancedStatefulSets (ae_owned env) (cm_state m)) (\<lambda>metaAdvancedStatefulSets.
     invoke m ''SyncMetaAdvancedStatefulSets'' [(''metaAdvancedStatefulSets'', ListState metaAdvancedStatefulSets)]
       (sends m (SyncMetaAdvancedStatefulSets (ae_ord env) (ae_gvk env) (ae_api env) (cm_impl m) metaAdvancedStatefulSets)))"

definition WaitBeforeMetaServiceIsAvailable_action :: managerAction where
  "WaitBeforeMetaServiceIsAvailable_action env m = fetching m (GetMetaService (ae_owned env) (cm_state m)) (\<lambda>metaService.
     invoke m ''WaitBeforeMetaServiceIsAvailable'' [(''metaService'', OneState metaService)]
       (waits m (Returns (WaitBeforeMetaServiceIsAvailable (cm_impl m) metaService))))"

definition WaitBeforeMetaStatefulSetsReady_action :: managerAction where
  "WaitBeforeMetaStatefulSetsReady_action env m = fetching m (GetMetaStatefulSets (ae_owned env) (cm_state m)) (\<lambda>metaStatefulSets.
     invoke m ''WaitBeforeMetaStatefulSetsReady'' [(''metaStatefulSets'', ListState metaStatefulSets)]
       (waits m (WaitBeforeMetaStatefulSetsReady (cm_impl m) metaStatefulSets)))"

definition WaitBeforeMetaAdvancedStatefulSetsReady_action :: managerAction where
  "WaitBeforeMetaAdvancedStatefulSetsReady_action env m = fetching m (GetMetaAdvancedStatefulSets (ae_owned env) (cm_state m)) (\<lambda>metaAdvancedStatefulSets.
     invoke m ''WaitBeforeMetaAdvancedStatefulSetsReady'' [(''metaAdvancedStatefulSets'', ListState metaAdvancedStatefulSets)]
       (waits m (WaitBeforeMetaAdvancedStatefulSetsReady (cm_impl m) metaAdvancedStatefulSets)))"

definition SyncFrontendService_action :: managerAction where
  "SyncFrontendService_action env m = fetching m (GetFrontendService (ae_owned env) (cm_state m)) (\<lambda>frontendService.
     invoke m ''SyncFrontendService'' [(''frontendService'', OneState frontendService)]
       (sends m (SyncFrontendService (ae_gvk env) (ae_api env) (cm_impl m) frontendService)))"

definition SyncFrontendDeployments_action :: managerAction where
  "SyncFrontendDeployments_action env m = fetching m (GetFrontendDeployments (ae_owned env) (cm_state m)) (\<lambda>frontendDeployments.
     invoke m ''SyncFrontendDeployments'' [(''frontendDeployments'', ListState frontendDeployments)]
       (sends m (SyncFrontendDeployments (ae_ord env) (ae_gvk env) (ae_api env) (cm_impl m) frontendDeployments)))"

definition SyncFrontendCloneSets_action :: managerAction where
  "SyncFrontendCloneSets_action env m = fetching m (GetFrontendCloneSets (ae_owned env) (cm_state m)) (\<lambda>frontendCloneSets.
     invoke m ''SyncFrontendCloneSets'' [(''frontendCloneSets'', ListState frontendCloneSets)]
       (sends m (SyncFrontendCloneSets (ae_ord env) (ae_gvk env) (ae_api env) (cm_impl m) frontendCloneSets)))"

definition WaitBeforeFrontendDeploymentsReady_action :: managerAction where
  "WaitBeforeFrontendDeploymentsReady_action env m = fetching m (GetFrontendDeployments (ae_owned env) (cm_state m)) (\<lambda>frontendDeployments.
     invoke m ''WaitBeforeFrontendDeploymentsReady'' [(''frontendDeployments'', ListState frontendDeployments)]
       (waits m (WaitBeforeFrontendDeploymentsReady (cm_impl m) frontendDeployments)))"

definition WaitBeforeFrontendCloneSetsReady_action :: managerAction where
  "WaitBeforeFrontendCloneSetsReady_action env m = fetching m (GetFrontendCloneSets (ae_owned env) (cm_state m)) (\<lambda>frontendCloneSets.
     invoke m ''WaitBeforeFrontendCloneSetsReady'' [(''frontendCloneSets'', ListState frontendCloneSets)]
       (waits m (WaitBeforeFrontendCloneSetsReady (cm_impl m) frontendCloneSets)))"

definition SyncComputeService_action :: managerAction where
  "SyncComputeService_action env m = fetching m (GetComputeService (ae_owned env) (cm_state m)) (\<lambda>computeService.
     invoke m ''SyncComputeService'' [(''computeService'', OneState computeService)]
       (sends m (SyncComputeService (ae_gvk env) (ae_api env) (cm_impl m) computeService)))"

definition SyncComputeStatefulSets_action :: managerAction where
  "SyncComputeStatefulSets_action env m = fetching m (GetComputeStatefulSets (ae_owned env) (cm_state m)) (\<lambda>computeStatefulSets.
     invoke m ''SyncComputeStatefulSets'' [(''computeStatefulSets'', ListState computeStatefulSets)]
       (sends m (SyncComputeStatefulSets (ae_ord env) (ae_gvk env) (ae_api env) (cm_impl m) computeStatefulSets)))"

definition SyncComputeAdvancedStatefulSets_action :: managerAction where
  "SyncComputeAdvancedStatefulSets_action env m = fetching m (GetComputeAdvancedStatefulSets (ae_owned env) (cm_state m)) (\<lambda>computeAdvancedStatefulSets.
     invoke m ''SyncComputeAdvancedStatefulSets'' [(''computeAdvancedStatefulSets'', ListState computeAdvancedStatefulSets)]
       (sends m (SyncComputeAdvancedStatefulSets (ae_ord env) (ae_gvk env) (ae_api env) (cm_impl m) computeAdvancedStatefulSets)))"

definition WaitBeforeComputeStatefulSetsReady_action :: managerAction where
  "WaitBeforeComputeStatefulSetsReady_action env m = fetching m (GetComputeStatefulSets (ae_owned env) (cm_state m)) (\<lambda>computeStatefulSets.
     invoke m ''WaitBeforeComputeStatefulSetsReady'' [(''computeStatefulSets'', ListState computeStatefulSets)]
       (waits m (WaitBeforeComputeStatefulSetsReady (cm_impl m) computeStatefulSets)))"

definition WaitBeforeComputeAdvancedStatefulSetsReady_action :: managerAction where
  "WaitBeforeComputeAdvancedStatefulSetsReady_action env m = fetching m (GetComputeAdvancedStatefulSets (ae_owned env) (cm_state m)) (\<lambda>computeAdvancedStatefulSets.
     invoke m ''WaitBeforeComputeAdvancedStatefulSetsReady'' [(''computeAdvancedStatefulSets'', ListState computeAdvancedStatefulSets)]
       (waits m (WaitBeforeComputeAdvancedStatefulSetsReady (cm_impl m) computeAdvancedStatefulSets)))"

definition SyncCompactorService_action :: managerAction where
  "SyncCompactorService_action env m = fetching m (GetCompactorService (ae_owned env) (cm_state m)) (\<lambda>compactorService.
     invoke m ''SyncCompactorService'' [(''compactorService'', OneState compactorService)]
       (sends m (SyncCompactorService (ae_gvk env) (ae_api env) (cm_impl m) compactorService)))"

definition SyncCompactorDeployments_action :: managerAction where
  "SyncCompactorDeployments_action env m = fetching m (GetCompactorDeployments (ae_owned env) (cm_state m)) (\<lambda>compactorDeployments.
     invoke m ''SyncCompactorDeployments'' [(''compactorDeployments'', ListState compactorDeployments)]
       (sends m (SyncCompactorDeployments (ae_ord env) (ae_gvk env) (ae_api env) (cm_impl m) compactorDeployments)))"

definition SyncCompactorCloneSets_action :: managerAction where
  "SyncCompactorCloneSets_action env m = fetching m (GetCompactorCloneSets (ae_owned env) (cm_state m)) (\<lambda>compactorCloneSets.
     invoke m ''SyncCompactorCloneSets'' [(''compactorCloneSets'', ListState compactorCloneSets)]
       (sends m (SyncCompactorCloneSets (ae_ord env) (ae_gvk env) (ae_api env) (cm_impl m) compactorCloneSets)))"

definition WaitBeforeCompactorDeploymentsReady_action :: managerAction where
  "WaitBeforeCompactorDeploymentsReady_action env m = fetching m (GetCompactorDeployments (ae_owned env) (cm_state m)) (\<lambda>compactorDeployments.
     invoke m ''WaitBeforeCompactorDeploymentsReady'' [(''compactorDeployments'', ListState compactorDeployments)]
       (waits m (WaitBeforeCompactorDeploymentsReady (cm_impl m) compactorDeployments)))"

definition WaitBeforeCompactorCloneSetsReady_action :: managerAction where
  "WaitBeforeCompactorCloneSetsReady_action env m = fetching m (GetCompactorCloneSets (ae_owned env) (cm_state m)) (\<lambda>compactorCloneSets.
     invoke m ''WaitBeforeCompactorCloneSetsReady'' [(''compactorCloneSets'', ListState compactorCloneSets)]
       (waits m (WaitBeforeCompactorCloneSetsReady (cm_impl m) compactorCloneSets)))"

definition SyncConfigConfigMap_action :: managerAction where
  "SyncConfigConfigMap_action env m = fetching m (GetConfigConfigMap (ae_owned env) (cm_state m)) (\<lambda>configConfigMap.
     invoke m ''SyncConfigConfigMap'' [(''configConfigMap'', OneState configConfigMap)]
       (sends m (SyncConfigConfigMap (ae_gvk env) (ae_api env) (cm_impl m) configConfigMap)))"

definition SyncStandaloneService_action :: managerAction where
  "SyncStandaloneService_action env m = fetching m (GetStandaloneService (ae_owned env) (cm_state m)) (\<lambda>standaloneService.
     invoke m ''SyncStandaloneService'' [(''standaloneService'', OneState standaloneService)]
       (sends m (SyncStandaloneService (ae_gvk env) (ae_api env) (cm_impl m) standaloneService)))"

definition SyncStandaloneStatefulSet_action :: managerAction where
  "SyncStandaloneStatefulSet_action env m = fetching m (GetStandaloneStatefulSet (ae_owned env) (cm_state m)) (\<lambda>standaloneStatefulSet.
     invoke m ''SyncStandaloneStatefulSet'' [(''standaloneStatefulSet'', OneState standaloneStatefulSet)]
       (sends m (SyncStandaloneStatefulSet (ae_gvk env) (ae_api env) (cm_impl m) standaloneStatefulSet)))"

definition SyncStandaloneAdvancedStatefulSet_action :: managerAction where
  "SyncStandaloneAdvancedStatefulSet_action env m = fetching m (GetStandaloneAdvancedStatefulSet (ae_owned env) (cm_state m)) (\<lambda>standaloneAdvancedStatefulSet.
     invoke m ''SyncStandaloneAdvancedStatefulSet'' [(''standaloneAdvancedStatefulSet'', OneState standaloneAdvancedStatefulSet)]
       (sends m (SyncStandaloneAdvancedStatefulSet (ae_gvk env) (ae_api env) (cm_impl m) standaloneAdvancedStatefulSet)))"

definition WaitBeforeStandaloneStatefulSetReady_action :: managerAction where
  "WaitBeforeStandaloneStatefulSetReady_action env m = fetching m (GetStandaloneStatefulSet (ae_owned env) (cm_state m)) (\<lambda>standaloneStatefulSet.
     invoke m ''WaitBeforeStandaloneStatefulSetReady'' [(''standaloneStatefulSet'', OneState standaloneStatefulSet)]
       (waits m (Returns (WaitBeforeStandaloneStatefulSetReady (cm_impl m) standaloneStatefulSet))))"

definition WaitBeforeStandaloneAdvancedStatefulSetReady_action :: managerAction where
  "WaitBeforeStandaloneAdvancedStatefulSetReady_action env m = fetching m (GetStandaloneAdvancedStatefulSet (ae_owned env) (cm_state m)) (\<lambda>standaloneAdvancedStatefulSet.
     invoke m ''WaitBeforeStandaloneAdvancedStatefulSetReady'' [(''standaloneAdvancedStatefulSet'', OneState standaloneAdvancedStatefulSet)]
       (waits m (Returns (WaitBeforeStandaloneAdvancedStatefulSetReady (cm_impl m) standaloneAdvancedStatefulSet))))"

definition SyncServiceMonitor_action :: managerAction where
  "SyncServiceMonitor_action env m = fetching m (GetServiceMonitor (ae_owned env) (cm_state m)) (\<lambda>serviceMonitor.
     invoke m ''SyncServiceMonitor'' [(''serviceMonitor'', OneState serviceMonitor)]
       (sends m (SyncServiceMonitor (ae_gvk env) (ae_api env) (cm_impl m) serviceMonitor)))"

definition CollectRunningStatisticsAndSyncStatus_action :: managerAction where
  "CollectRunningStatisticsAndSyncStatus_action env m =
     fetching m (GetFrontendService (ae_owned env) (cm_state m)) (\<lambda>frontendService.
     fetching m (GetMetaService (ae_owned env) (cm_state m)) (\<lambda>metaService.
     fetching m (GetComputeService (ae_owned env) (cm_state m)) (\<lambda>computeService.
     fetching m (GetCompactorService (ae_owned env) (cm_state m)) (\<lambda>compactorService.
     fetching m (GetMetaStatefulSets (ae_owned env) (cm_state m)) (\<lambda>metaStatefulSets.
     fetching m (GetFrontendDeployments (ae_owned env) (cm_state m)) (\<lambda>frontendDeployments.
     fetching m (GetComputeStatefulSets (ae_owned env) (cm_state m)) (\<lambda>computeStatefulSets.
     fetching m (GetCompactorDeployments (ae_owned env) (cm_state m)) (\<lambda>compactorDeployments.
     fetching m (GetConfigConfigMap (ae_owned env) (cm_state m)) (\<lambda>configConfigMap.
     invoke m ''CollectRunningStatisticsAndSyncStatus''
       [(''frontendService'', OneState frontendService),
        (''metaService'', OneState metaService),
        (''computeService'', OneState computeService),
        (''compactorService'', OneState compactorService),
        (''metaStatefulSets'', ListState metaStatefulSets),
        (''frontendDeployments'', ListState frontendDeployments),
        (''computeStatefulSets'', ListState computeStatefulSets),
        (''compactorDeployments'', ListState compactorDeployments),
        (''configConfigMap'', OneState configConfigMap)]
       (collects (CollectRunningStatisticsAndSyncStatus (ae_now env) (cm_impl m)
          frontendService metaService computeService compactorService metaStatefulSets frontendDeployments computeStatefulSets compactorDeployments configConfigMap)))))))))))"

definition CollectOpenKruiseRunningStatisticsAndSyncStatus_action :: managerAction where
  "CollectOpenKruiseRunningStatisticsAndSyncStatus_action env m =
     fetching m (GetFrontendService (ae_owned env) (cm_state m)) (\<lambda>frontendService.
     fetching m (GetMetaService (ae_owned env) (cm_state m)) (\<lambda>metaService.
     fetching m (GetComputeService (ae_owned env) (cm_state m)) (\<lambda>computeService.
     fetching m (GetCompactorService (ae_owned env) (cm_state m)) (\<lambda>compactorService.
     fetching m (GetMetaAdvancedStatefulSets (ae_owned env) (cm_state m)) (\<lambda>metaAdvancedStatefulSets.
     fetching m (GetFrontendCloneSets (ae_owned env) (cm_state m)) (\<lambda>frontendCloneSets.
     fetching m (GetComputeAdvancedStatefulSets (ae_owned env) (cm_state m)) (\<lambda>computeAdvancedStatefulSets.
     fetching m (GetCompactorCloneSets (ae_owned env) (cm_state m)) (\<lambda>compactorCloneSets.
     fetching m (GetConfigConfigMap (ae_owned env) (cm_state m)) (\<lambda>configConfigMap.
     invoke m ''CollectOpenKruiseRunningStatisticsAndSyncStatus''
       [(''frontendService'', OneState frontendService),
        (''metaService'', OneState metaService),
        (''computeService'', OneState computeService),
        (''compactorService'', OneState compactorService),
        (''metaAdvancedStatefulSets'', ListState metaAdvancedStatefulSets),
        (''frontendCloneSets'', ListState frontendCloneSets),
        (''computeAdvancedStatefulSets'', ListState computeAdvancedStatefulSets),
        (''compactorCloneSets'', ListState compactorCloneSets),
        (''configConfigMap'', OneState configConfigMap)]
       (collects (CollectOpenKruiseRunningStatisticsAndSyncStatus (ae_now env) (cm_impl m)
          frontendService metaService computeService compactorService metaAdvancedStatefulSets frontendCloneSets computeAdvancedStatefulSets compactorCloneSets configConfigMap)))))))))))"

definition CollectRunningStatisticsAndSyncStatusForStandalone_action :: managerAction where
  "CollectRunningStatisticsAndSyncStatusForStandalone_action env m =
     fetching m (GetStandaloneService (ae_owned env) (cm_state m)) (\<lambda>standaloneService.
     fetching m (GetStandaloneStatefulSet (ae_owned env) (cm_state m)) (\<lambda>standaloneStatefulSet.
     fetching m (GetConfigConfigMap (ae_owned env) (cm_state m)) (\<lambda>configConfigMap.
     invoke m ''CollectRunningStatisticsAndSyncStatusForStandalone''
       [(''standaloneService'', OneState standaloneService),
        (''standaloneStatefulSet'', OneState standaloneStatefulSet),
        (''configConfigMap'', OneState configConfigMap)]
       (collects (CollectRunningStatisticsAndSyncStatusForStandalone (ae_now env) (cm_impl m)
          standaloneService standaloneStatefulSet configConfigMap)))))"

definition CollectOpenKruiseRunningStatisticsAndSyncStatusForStandalone_action :: managerAction where
  "CollectOpenKruiseRunningStatisticsAndSyncStatusForStandalone_action env m =
     fetching m (GetStandaloneService (ae_owned env) (cm_state m)) (\<lambda>standaloneService.
     fetching m (GetStandaloneAdvancedStatefulSet (ae_owned env) (cm_state m)) (\<lambda>standaloneAdvancedStatefulSet.
     fetching m (GetConfigConfigMap (ae_owned env) (cm_state m)) (\<lambda>configConfigMap.
     invoke m ''CollectOpenKruiseRunningStatisticsAndSyncStatusForStandalone''
       [(''standaloneService'', OneState standaloneService),
        (''standaloneAdvancedStatefulSet'', OneState standaloneAdvancedStatefulSet),
        (''configConfigMap'', OneState configConfigMap)]
       (collects (CollectOpenKruiseRunningStatisticsAndSyncStatusForStandalone (ae_now env) (cm_impl m)
          standaloneService standaloneAdvancedStatefulSet configConfigMap)))))"

end
