(* ===== verification/Workflow.thy ===== *)
theory Workflow
  imports Admission
begin

text \<open>
  The workflows that the controllers build with the ctrlkit library, and what the runs of a workflow look
  like: a run is the sequence of the actions that were executed, each with its result, in the order of their execution.
  Parallel branches interleave. The runs are what the library documents of its combinators; where its
  documentation leaves something open (the order of a join, how results are joined, when a time-out cuts an
  action short) every possibility is a run. The library itself is an argument of the theorems, which
  assume that its runs are among these.
\<close>

section \<open>Workflows\<close>

datatype Workflow =
    Action string
  | Sequential "Workflow list"
  | Join "Workflow list"
  | ParallelJoin "Workflow list"
  | OrderedJoin "Workflow list"
  | SequentialJoin "Workflow list"
  | WhenTrue bool Workflow
  | IfElse bool Workflow Workflow
  | Timeout int Workflow
  | RetryInterval nat int Workflow
  | Shared Workflow

text \<open>An executed action with its result, the end of the one run of a shared workflow, or another user of it that
  gets the same result.\<close>

datatype Event =
    Ran string Res
  | SharedRan Res
  | SharedUsed Res

type_synonym trace = "Event list"

section \<open>Runs\<close>

inductive runs :: "Workflow \<Rightarrow> trace \<Rightarrow> Res \<Rightarrow> bool"
  and runs_seq :: "Workflow list \<Rightarrow> trace \<Rightarrow> Res \<Rightarrow> bool"
  and runs_par :: "Workflow list \<Rightarrow> trace \<Rightarrow> Res list \<Rightarrow> bool"
  and runs_ord :: "Workflow list \<Rightarrow> trace \<Rightarrow> Res list \<Rightarrow> bool" where
  action: "runs (Action a) [Ran a r] r"
| sequential: "runs_seq xs t r \<Longrightarrow> runs (Sequential xs) t r"
| join: "\<lbrakk>runs_par xs t rs; r = Continue \<longrightarrow> set rs \<subseteq> {Continue}\<rbrakk> \<Longrightarrow> runs (Join xs) t r"
| parallelJoin: "\<lbrakk>runs_par xs t rs; r = Continue \<longrightarrow> set rs \<subseteq> {Continue}\<rbrakk> \<Longrightarrow> runs (ParallelJoin xs) t r"
| orderedJoin: "\<lbrakk>runs_ord xs t rs; r = Continue \<longrightarrow> set rs \<subseteq> {Continue}\<rbrakk> \<Longrightarrow> runs (OrderedJoin xs) t r"
| sequentialJoin: "\<lbrakk>runs_ord xs t rs; r = Continue \<longrightarrow> set rs \<subseteq> {Continue}\<rbrakk> \<Longrightarrow> runs (SequentialJoin xs) t r"
| when_true: "runs x t r \<Longrightarrow> runs (WhenTrue True x) t r"
| when_false: "runs (WhenTrue False x) [] Continue"
| if_true: "runs x t r \<Longrightarrow> runs (IfElse True x y) t r"
| if_false: "runs y t r \<Longrightarrow> runs (IfElse False x y) t r"
| in_time: "runs x t r \<Longrightarrow> runs (Timeout d x) t r"
| timed_out: "\<lbrakk>runs x t r'; r \<noteq> Continue\<rbrakk> \<Longrightarrow> runs (Timeout d x) t r"
| retry_last: "runs x t r \<Longrightarrow> runs (RetryInterval n d x) t r"
| retry_again: "\<lbrakk>runs x t r'; runs (RetryInterval n d x) u r\<rbrakk> \<Longrightarrow> runs (RetryInterval (Suc n) d x) (t @ u) r"
| shared_run: "runs x t r \<Longrightarrow> runs (Shared x) (t @ [SharedRan r]) r"
| shared_use: "runs (Shared x) [SharedUsed r] r"
| seq_nil: "runs_seq [] [] Continue"
| seq_stop: "\<lbrakk>runs x t r; r \<noteq> Continue\<rbrakk> \<Longrightarrow> runs_seq (x # xs) t r"
| seq_next: "\<lbrakk>runs x t Continue; runs_seq xs u r\<rbrakk> \<Longrightarrow> runs_seq (x # xs) (t @ u) r"
| par_nil: "runs_par [] [] []"
| par_cons: "\<lbrakk>runs x t r; runs_par xs u rs; v \<in> shuffles t u\<rbrakk> \<Longrightarrow> runs_par (x # xs) v (r # rs)"
| ord_nil: "runs_ord [] [] []"
| ord_cons: "\<lbrakk>runs x t r; runs_ord xs u rs\<rbrakk> \<Longrightarrow> runs_ord (x # xs) (t @ u) (r # rs)"

inductive_cases runs_ActionE: "runs (Action a) t r"
inductive_cases runs_SequentialE: "runs (Sequential xs) t r"
inductive_cases runs_JoinE: "runs (Join xs) t r"
inductive_cases runs_ParallelJoinE: "runs (ParallelJoin xs) t r"
inductive_cases runs_OrderedJoinE: "runs (OrderedJoin xs) t r"
inductive_cases runs_SequentialJoinE: "runs (SequentialJoin xs) t r"
inductive_cases runs_WhenTrueE: "runs (WhenTrue b x) t r"
inductive_cases runs_IfElseE: "runs (IfElse b x y) t r"
inductive_cases runs_SharedE: "runs (Shared x) t r"
inductive_cases runs_seq_ConsE: "runs_seq (x # xs) t r"
inductive_cases runs_seq_NilE: "runs_seq [] t r"
inductive_cases runs_par_ConsE: "runs_par (x # xs) t rs"
inductive_cases runs_par_NilE: "runs_par [] t rs"
inductive_cases runs_ord_ConsE: "runs_ord (x # xs) t rs"
inductive_cases runs_ord_NilE: "runs_ord [] t rs"

text \<open>A shared workflow of a run is executed at most once, and its other users get its result afterwards.\<close>

fun shared_ok :: "Res option \<Rightarrow> trace \<Rightarrow> bool" where
  "shared_ok got [] = True"
| "shared_ok got (SharedRan r # t) = (got = None \<and> shared_ok (Some r) t)"
| "shared_ok got (SharedUsed r # t) = (got = Some r \<and> shared_ok got t)"
| "shared_ok got (Ran a r # t) = shared_ok got t"

section \<open>The actions of a workflow\<close>

fun actions :: "Workflow \<Rightarrow> string set" where
  "actions (Action a) = {a}"
| "actions (Sequential xs) = (\<Union>x \<in> set xs. actions x)"
| "actions (Join xs) = (\<Union>x \<in> set xs. actions x)"
| "actions (ParallelJoin xs) = (\<Union>x \<in> set xs. actions x)"
| "actions (OrderedJoin xs) = (\<Union>x \<in> set xs. actions x)"
| "actions (SequentialJoin xs) = (\<Union>x \<in> set xs. actions x)"
| "actions (WhenTrue b x) = (if b then actions x else {})"
| "actions (IfElse b x y) = (if b then actions x else actions y)"
| "actions (Timeout d x) = actions x"
| "actions (RetryInterval n d x) = actions x"
| "actions (Shared x) = actions x"

fun unshared :: "Workflow \<Rightarrow> bool" where
  "unshared (Action a) = True"
| "unshared (Sequential xs) = (\<forall>x \<in> set xs. unshared x)"
| "unshared (Join xs) = (\<forall>x \<in> set xs. unshared x)"
| "unshared (ParallelJoin xs) = (\<forall>x \<in> set xs. unshared x)"
| "unshared (OrderedJoin xs) = (\<forall>x \<in> set xs. unshared x)"
| "unshared (SequentialJoin xs) = (\<forall>x \<in> set xs. unshared x)"
| "unshared (WhenTrue b x) = unshared x"
| "unshared (IfElse b x y) = (unshared x \<and> unshared y)"
| "unshared (Timeout d x) = unshared x"
| "unshared (RetryInterval n d x) = unshared x"
| "unshared (Shared x) = False"

text \<open>The actions of an event.\<close>

fun ranOf :: "Event \<Rightarrow> string set" where
  "ranOf (Ran a r) = {a}"
| "ranOf (SharedRan r) = {}"
| "ranOf (SharedUsed r) = {}"

lemma runs_actions:
  "runs x t r \<Longrightarrow> \<forall>e \<in> set t. ranOf e \<subseteq> actions x"
  "runs_seq xs t r \<Longrightarrow> \<forall>e \<in> set t. ranOf e \<subseteq> (\<Union>x \<in> set xs. actions x)"
  "runs_par xs t rs \<Longrightarrow> \<forall>e \<in> set t. ranOf e \<subseteq> (\<Union>x \<in> set xs. actions x)"
  "runs_ord xs t rs \<Longrightarrow> \<forall>e \<in> set t. ranOf e \<subseteq> (\<Union>x \<in> set xs. actions x)"
  by (induction rule: runs_runs_seq_runs_par_runs_ord.inducts) (fastforce dest: set_shuffles)+

text \<open>A workflow without a shared part that continues has executed all of its actions, and each of them continued at
  least once.\<close>

lemma runs_continue:
  "runs x t r \<Longrightarrow> r = Continue \<Longrightarrow> unshared x \<Longrightarrow> \<forall>a \<in> actions x. Ran a Continue \<in> set t"
  "runs_seq xs t r \<Longrightarrow> r = Continue \<Longrightarrow> \<forall>x \<in> set xs. unshared x \<Longrightarrow> \<forall>x \<in> set xs. \<forall>a \<in> actions x. Ran a Continue \<in> set t"
  "runs_par xs t rs \<Longrightarrow> set rs \<subseteq> {Continue} \<Longrightarrow> \<forall>x \<in> set xs. unshared x \<Longrightarrow> \<forall>x \<in> set xs. \<forall>a \<in> actions x. Ran a Continue \<in> set t"
  "runs_ord xs t rs \<Longrightarrow> set rs \<subseteq> {Continue} \<Longrightarrow> \<forall>x \<in> set xs. unshared x \<Longrightarrow> \<forall>x \<in> set xs. \<forall>a \<in> actions x. Ran a Continue \<in> set t"
  by (induction rule: runs_runs_seq_runs_par_runs_ord.inducts) (auto dest!: set_shuffles)

section \<open>Order of events\<close>

text \<open>Every event of \<open>Q\<close> comes after an event of \<open>P\<close>; no event of \<open>Q\<close> comes after an event of \<open>P\<close>.\<close>

fun before :: "(Event \<Rightarrow> bool) \<Rightarrow> (Event \<Rightarrow> bool) \<Rightarrow> trace \<Rightarrow> bool" where
  "before P Q [] = True"
| "before P Q (e # t) = (\<not> Q e \<and> (P e \<or> before P Q t))"

fun never_after :: "(Event \<Rightarrow> bool) \<Rightarrow> (Event \<Rightarrow> bool) \<Rightarrow> trace \<Rightarrow> bool" where
  "never_after P Q [] = True"
| "never_after P Q (e # t) = ((P e \<longrightarrow> (\<forall>x \<in> set t. \<not> Q x)) \<and> never_after P Q t)"

lemma before_shuffles: "v \<in> shuffles t u \<Longrightarrow> before P Q t \<Longrightarrow> before P Q u \<Longrightarrow> before P Q v"
  by (induction t u arbitrary: v rule: shuffles.induct) (auto simp: Cons_in_shuffles_iff)

lemma before_none: "\<forall>e \<in> set t. \<not> Q e \<Longrightarrow> before P Q t"
  by (induction t) auto

lemma before_append: "before P Q t \<Longrightarrow> (\<exists>e \<in> set t. P e) \<or> before P Q u \<Longrightarrow> before P Q (t @ u)"
  by (induction t) auto

lemma before_hit:
  "\<forall>e \<in> set t. \<not> Q e \<Longrightarrow> \<not> Q p \<Longrightarrow> P p \<or> (\<forall>e \<in> set u. \<not> Q e) \<Longrightarrow> before P Q (t @ p # u)"
  by (induction t) (auto intro: before_none)

lemma before_at: "before P Q (t1 @ e # t2) \<Longrightarrow> Q e \<Longrightarrow> \<exists>p \<in> set t1. P p"
  by (induction t1) auto

lemma before_trans: "before P Q t \<Longrightarrow> before Q R t \<Longrightarrow> before P R t"
  by (induction t) (auto intro: before_none)

lemma never_after_none: "\<forall>e \<in> set t. \<not> P e \<Longrightarrow> never_after P Q t"
  by (induction t) auto

lemma never_after_shuffles:
  "v \<in> shuffles t u \<Longrightarrow> never_after P Q t \<Longrightarrow> \<forall>e \<in> set u. \<not> P e \<and> \<not> Q e \<Longrightarrow> never_after P Q v"
proof (induction t u arbitrary: v rule: shuffles.induct)
  case (3 x xs y ys)
  from 3(3) obtain w where "v = x # w \<and> w \<in> shuffles xs (y # ys) \<or> v = y # w \<and> w \<in> shuffles (x # xs) ys" by auto
  then show ?case using 3 set_shuffles [of w xs "y # ys"] by auto
qed (auto intro: never_after_none)

lemma never_after_append:
  "never_after P Q (t @ u) \<longleftrightarrow> never_after P Q t \<and> never_after P Q u \<and> ((\<exists>e \<in> set t. P e) \<longrightarrow> (\<forall>e \<in> set u. \<not> Q e))"
  by (induction t) auto

section \<open>Shared workflows\<close>

fun isSharedRan :: "Event \<Rightarrow> bool" where
  "isSharedRan (SharedRan r) = True"
| "isSharedRan e = False"

lemma unshared_events:
  "runs x t r \<Longrightarrow> unshared x \<Longrightarrow> \<forall>e \<in> set t. \<exists>a r. e = Ran a r"
  "runs_seq xs t r \<Longrightarrow> \<forall>x \<in> set xs. unshared x \<Longrightarrow> \<forall>e \<in> set t. \<exists>a r. e = Ran a r"
  "runs_par xs t rs \<Longrightarrow> \<forall>x \<in> set xs. unshared x \<Longrightarrow> \<forall>e \<in> set t. \<exists>a r. e = Ran a r"
  "runs_ord xs t rs \<Longrightarrow> \<forall>x \<in> set xs. unshared x \<Longrightarrow> \<forall>e \<in> set t. \<exists>a r. e = Ran a r"
  by (induction rule: runs_runs_seq_runs_par_runs_ord.inducts) (auto dest!: set_shuffles)

lemma shared_once: "shared_ok got t \<Longrightarrow> length (filter isSharedRan t) \<le> (if got = None then 1 else 0)"
  by (induction got t rule: shared_ok.induct) auto

lemma shared_ok_prefix: "shared_ok got (t @ u) \<Longrightarrow> shared_ok got t"
  by (induction got t rule: shared_ok.induct) auto

lemma shared_same: "shared_ok (Some r) t \<Longrightarrow> SharedUsed r' \<in> set t \<Longrightarrow> r' = r"
  by (induction "Some r" t rule: shared_ok.induct) auto

lemma shared_before: "shared_ok None t \<Longrightarrow> before (\<lambda>e. e = SharedRan r) (\<lambda>e. e = SharedUsed r) t"
proof (induction "None :: Res option" t rule: shared_ok.induct)
  case (2 r' t)
  then have "SharedUsed r \<notin> set t \<or> r = r'" using shared_same by auto
  then show ?case by (auto intro: before_none)
qed auto

lemma before_par:
  "runs_par xs t rs \<Longrightarrow> \<forall>x \<in> set xs. \<forall>t r. runs x t r \<longrightarrow> before P Q t \<Longrightarrow> before P Q t"
proof (induction xs arbitrary: t rs)
  case Nil
  then show ?case by (auto elim: runs_par_NilE)
next
  case (Cons x xs)
  from Cons.prems(1) obtain t1 r1 u rs' where u: "runs x t1 r1" "runs_par xs u rs'" "t \<in> shuffles t1 u" by (auto elim: runs_par_ConsE)
  then show ?case using before_shuffles [OF u(3), of P Q] Cons.IH [OF u(2)] Cons.prems(2) by auto
qed

lemma before_or: "before P Q t \<Longrightarrow> before P R t \<Longrightarrow> before P (\<lambda>e. Q e \<or> R e) t"
  by (induction t) (auto intro: before_none)

text \<open>When only the run of the shared workflow holds events of \<open>P\<close> and \<open>Q\<close>, and there is at most one such run, the branches
  of a join keep their order.\<close>

definition ordered :: "(Event \<Rightarrow> bool) \<Rightarrow> (Event \<Rightarrow> bool) \<Rightarrow> trace \<Rightarrow> bool" where
  "ordered P Q t \<longleftrightarrow> never_after P Q t \<and> ((\<exists>e \<in> set t. isSharedRan e) \<or> (\<forall>e \<in> set t. \<not> P e \<and> \<not> Q e))"

lemma ordered_shuffles:
  assumes "v \<in> shuffles t u" "ordered P Q t" "ordered P Q u" "length (filter isSharedRan v) \<le> 1"
  shows "ordered P Q v"
proof -
  have "filter isSharedRan v \<in> shuffles (filter isSharedRan t) (filter isSharedRan u)"
    using assms(1) filter_shuffles by blast
  then have "length (filter isSharedRan t) + length (filter isSharedRan u) \<le> 1"
    using length_shuffles assms(4) by metis
  then have "filter isSharedRan t = [] \<or> filter isSharedRan u = []" by (cases "filter isSharedRan t") auto
  then have "(\<forall>e \<in> set t. \<not> P e \<and> \<not> Q e) \<or> (\<forall>e \<in> set u. \<not> P e \<and> \<not> Q e)"
    using assms(2,3) by (fastforce simp: ordered_def filter_empty_conv)
  then have "never_after P Q v"
    using assms(1-3) never_after_shuffles [of v t u P Q] never_after_shuffles [of v u t P Q] shuffles_commutes
    unfolding ordered_def by blast
  then show ?thesis using assms(2,3) set_shuffles [OF assms(1)] by (auto simp: ordered_def)
qed

lemma ordered_par:
  "runs_par xs t rs \<Longrightarrow> \<forall>x \<in> set xs. \<forall>t r. runs x t r \<longrightarrow> ordered P Q t \<Longrightarrow> length (filter isSharedRan t) \<le> 1 \<Longrightarrow> ordered P Q t"
proof (induction xs arbitrary: t rs)
  case Nil
  then show ?case by (auto elim!: runs_par_NilE simp: ordered_def)
next
  case (Cons x xs)
  from Cons.prems(1) obtain t1 r1 u rs' where u: "runs x t1 r1" "runs_par xs u rs'" "t \<in> shuffles t1 u" by (auto elim: runs_par_ConsE)
  have "filter isSharedRan t \<in> shuffles (filter isSharedRan t1) (filter isSharedRan u)"
    using u(3) filter_shuffles by blast
  then have "length (filter isSharedRan u) \<le> 1" using length_shuffles Cons.prems(3) by fastforce
  then have "ordered P Q u" using Cons.prems(2) by (intro Cons.IH [OF u(2)]) auto
  then show ?case using ordered_shuffles [OF u(3), of P Q] u(1) Cons.prems(2,3) by auto
qed

section \<open>Replaying a run\<close>

text \<open>The actions of a run, executed one after the other from a state, give the results that the run recorded.\<close>

fun replay :: "(string \<Rightarrow> 'w \<Rightarrow> (Res \<times> 'w) outcome) \<Rightarrow> 'w \<Rightarrow> trace \<Rightarrow> 'w option" where
  "replay act w [] = Some w"
| "replay act w (Ran a r # t) =
     (case act a w of
        Panics m \<Rightarrow> None
      | Returns (r', w') \<Rightarrow> if r' = r then replay act w' t else None)"
| "replay act w (SharedRan r # t) = replay act w t"
| "replay act w (SharedUsed r # t) = replay act w t"

lemma replay_append: "replay act w (t @ u) = Option.bind (replay act w t) (\<lambda>w'. replay act w' u)"
  by (induction act w t rule: replay.induct) (auto split: outcome.split)

lemma replay_Ran: "replay act w (Ran a r # t) = Some w' \<longleftrightarrow> (\<exists>v. act a w = Returns (r, v) \<and> replay act v t = Some w')"
  by (cases "act a w") (auto split: if_splits)

text \<open>A relation between states that every action of the run respects holds between its ends.\<close>

lemma replay_rel:
  assumes "replay act w t = Some w'" "\<And>w. R w w" "\<And>u v w. R u v \<Longrightarrow> R v w \<Longrightarrow> R u w"
    and "\<forall>a r u v. Ran a r \<in> set t \<longrightarrow> act a u = Returns (r, v) \<longrightarrow> R u v"
  shows "R w w'"
  using assms(1,4)
proof (induction act w t rule: replay.induct)
  case (1 act w)
  then show ?case by (simp add: assms(2))
next
  case (2 act w a r t)
  then obtain v where "act a w = Returns (r, v)" "replay act v t = Some w'" by (auto simp: replay_Ran simp del: replay.simps)
  moreover from this have "R v w'" using 2 by simp
  ultimately have "R w v" "R v w'" using "2.prems"(2) by auto
  then show ?case by (rule assms(3))
qed auto

section \<open>A run in the order of the text\<close>

text \<open>One of the runs: every join runs its parts one after the other. The third component is the result of the shared
  workflow once it has run.\<close>

type_synonym 'w ran = "(trace \<times> Res \<times> Res option \<times> 'w) option"

fun joinRes :: "Res list \<Rightarrow> Res" where
  "joinRes [] = Continue"
| "joinRes (r # rs) = (if r = Continue then joinRes rs else r)"

fun exec :: "(string \<Rightarrow> 'w \<Rightarrow> (Res \<times> 'w) outcome) \<Rightarrow> Workflow \<Rightarrow> Res option \<Rightarrow> 'w \<Rightarrow> 'w ran"
  and exec_seq :: "(string \<Rightarrow> 'w \<Rightarrow> (Res \<times> 'w) outcome) \<Rightarrow> Workflow list \<Rightarrow> Res option \<Rightarrow> 'w \<Rightarrow> 'w ran"
  and exec_all :: "(string \<Rightarrow> 'w \<Rightarrow> (Res \<times> 'w) outcome) \<Rightarrow> Workflow list \<Rightarrow> Res option \<Rightarrow> 'w \<Rightarrow> (trace \<times> Res list \<times> Res option \<times> 'w) option" where
  "exec act (Action a) sh w = (case act a w of Panics m \<Rightarrow> None | Returns (r, w') \<Rightarrow> Some ([Ran a r], r, sh, w'))"
| "exec act (Sequential xs) sh w = exec_seq act xs sh w"
| "exec act (Join xs) sh w = map_option (\<lambda>(t, rs, s). (t, joinRes rs, s)) (exec_all act xs sh w)"
| "exec act (ParallelJoin xs) sh w = map_option (\<lambda>(t, rs, s). (t, joinRes rs, s)) (exec_all act xs sh w)"
| "exec act (OrderedJoin xs) sh w = map_option (\<lambda>(t, rs, s). (t, joinRes rs, s)) (exec_all act xs sh w)"
| "exec act (SequentialJoin xs) sh w = map_option (\<lambda>(t, rs, s). (t, joinRes rs, s)) (exec_all act xs sh w)"
| "exec act (WhenTrue b x) sh w = (if b then exec act x sh w else Some ([], Continue, sh, w))"
| "exec act (IfElse b x y) sh w = (if b then exec act x sh w else exec act y sh w)"
| "exec act (Timeout d x) sh w = exec act x sh w"
| "exec act (RetryInterval n d x) sh w = exec act x sh w"
| "exec act (Shared x) sh w =
     (case sh of
        Some r \<Rightarrow> Some ([SharedUsed r], r, sh, w)
      | None \<Rightarrow> (case exec act x sh w of
                  Some (t, r, None, w') \<Rightarrow> Some (t @ [SharedRan r], r, Some r, w')
                | _ \<Rightarrow> None))"
| "exec_seq act [] sh w = Some ([], Continue, sh, w)"
| "exec_seq act (x # xs) sh w =
     (case exec act x sh w of
        None \<Rightarrow> None
      | Some (t, r, sh', w') \<Rightarrow>
          if r = Continue then map_option (\<lambda>(u, s). (t @ u, s)) (exec_seq act xs sh' w') else Some (t, r, sh', w'))"
| "exec_all act [] sh w = Some ([], [], sh, w)"
| "exec_all act (x # xs) sh w =
     (case exec act x sh w of
        None \<Rightarrow> None
      | Some (t, r, sh', w') \<Rightarrow> map_option (\<lambda>(u, rs, s). (t @ u, r # rs, s)) (exec_all act xs sh' w'))"

lemma joinRes_Continue: "joinRes rs = Continue \<Longrightarrow> set rs \<subseteq> {Continue}"
  by (induction rs) (auto split: if_splits)

lemma append_shuffles: "t @ u \<in> shuffles t u"
  by (induction t) (auto simp: Cons_in_shuffles_iff)

lemma exec_runs:
  "exec act x sh w = Some (t, r, s) \<Longrightarrow> runs x t r"
  "exec_seq act xs sh w = Some (t, r, s) \<Longrightarrow> runs_seq xs t r"
  "exec_all act xs sh w = Some (t, rs, s) \<Longrightarrow> runs_par xs t rs \<and> runs_ord xs t rs"
proof (induction act x sh w and act xs sh w and act xs sh w arbitrary: t r s and t r s and t rs s rule: exec_exec_seq_exec_all.induct)
qed (auto split: outcome.splits prod.splits if_splits option.splits intro!: runs_runs_seq_runs_par_runs_ord.intros
    intro: append_shuffles dest: joinRes_Continue)

text \<open>It is replayed by the actions, and it runs the shared workflow once.\<close>

fun sharedAfter :: "Res option \<Rightarrow> trace \<Rightarrow> Res option" where
  "sharedAfter got [] = got"
| "sharedAfter got (SharedRan r # t) = sharedAfter (Some r) t"
| "sharedAfter got (e # t) = sharedAfter got t"

lemma shared_append:
  "shared_ok got (t @ u) \<longleftrightarrow> shared_ok got t \<and> shared_ok (sharedAfter got t) u"
  "sharedAfter got (t @ u) = sharedAfter (sharedAfter got t) u"
  by (induction got t rule: shared_ok.induct) auto

lemma exec_replay:
  "exec act x sh w = Some (t, r, sh', w') \<Longrightarrow> shared_ok sh t \<and> sharedAfter sh t = sh' \<and> replay act w t = Some w'"
  "exec_seq act xs sh w = Some (t, r, sh', w') \<Longrightarrow> shared_ok sh t \<and> sharedAfter sh t = sh' \<and> replay act w t = Some w'"
  "exec_all act xs sh w = Some (t, rs, sh', w') \<Longrightarrow> shared_ok sh t \<and> sharedAfter sh t = sh' \<and> replay act w t = Some w'"
proof (induction act x sh w and act xs sh w and act xs sh w arbitrary: t r sh' w' and t r sh' w' and t rs sh' w' rule: exec_exec_seq_exec_all.induct)
  case (1 act a sh w)
  then show ?case by (cases "act a w") auto
next
  case (11 act x sh w)
  then show ?case by (cases sh) (auto simp: shared_append replay_append split: option.splits prod.splits)
next
  case (13 act x xs sh w)
  from 13(3) obtain t1 r1 s1 w1 where x: "exec act x sh w = Some (t1, r1, s1, w1)" by (auto split: option.splits)
  show ?case
  proof (cases "r1 = Continue")
    case True
    then obtain u where "exec_seq act xs s1 w1 = Some (u, r, sh', w')" "t = t1 @ u" using 13(3) x by auto
    then show ?thesis using 13(1) [OF x] 13(2) [OF x refl refl refl True] by (simp add: shared_append replay_append)
  next
    case False
    then show ?thesis using 13(1) [OF x] 13(3) x by simp
  qed
next
  case (15 act x xs sh w)
  from 15(3) obtain t1 r1 s1 w1 where x: "exec act x sh w = Some (t1, r1, s1, w1)" by (auto split: option.splits)
  then obtain u rs1 where "exec_all act xs s1 w1 = Some (u, rs1, sh', w')" "t = t1 @ u" using 15(3) by auto
  then show ?case using 15(1) [OF x] 15(2) [OF x refl refl refl] by (simp add: shared_append replay_append)
qed (auto split: if_splits)

end
