(* ===== verification/RwWorkflow.thy ===== *)
theory RwWorkflow
  imports RwState Workflow
begin

text \<open>
  The workflow of the RisingWave controller (\<^verbatim>\<open>Reconcile\<close> and \<^verbatim>\<open>reactiveWorkflow\<close> of
  \<^verbatim>\<open>pkg/controller/risingwave_controller.go\<close>) over the actions of \<open>RwState\<close> and \<open>RwController\<close>, and the look-up of the
  definition of the service monitors (\<^verbatim>\<open>pkg/utils/apiextenions.go\<close>). A run of the workflow is an
  interleaving of its actions; each action is a step on the state of the run, which holds the objects of
  the cluster and the manager. The API server is an argument.
\<close>

section \<open>Custom resource definitions\<close>

record CustomResourceDefinitionVersion =
  crdv_Name :: string
  crdv_Served :: bool
  crdv_Deprecated :: bool

type_synonym CustomResourceDefinition = "CustomResourceDefinitionVersion list"

type_synonym getCRD = "string \<Rightarrow> ApiError + CustomResourceDefinition"

definition GetCustomResourceDefinition :: "getCRD \<Rightarrow> string \<Rightarrow> string \<Rightarrow> ApiError + CustomResourceDefinition" where
  "GetCustomResourceDefinition get grp kind = get (map toLowerChar kind @ ''s.'' @ grp)"

definition IsVersionServingInCustomResourceDefinition :: "CustomResourceDefinition option \<Rightarrow> string \<Rightarrow> bool" where
  "IsVersionServingInCustomResourceDefinition crd version =
     (case crd of
        None \<Rightarrow> False
      | Some versions \<Rightarrow> version \<noteq> [] \<and>
          (\<exists>v \<in> set versions. crdv_Name v = version \<and> crdv_Served v \<and> \<not> crdv_Deprecated v))"

definition prometheusCRDsInstalledBarrier :: "getCRD \<Rightarrow> Res" where
  "prometheusCRDsInstalledBarrier get =
     (case GetCustomResourceDefinition get ''monitoring.coreos.com'' ''ServiceMonitor'' of
        Inl NotFoundErr \<Rightarrow> ExitAction
      | Inl e \<Rightarrow> RequeueErr ''unable to find CRD for ServiceMonitor'' e
      | Inr crd \<Rightarrow> ExitIf (\<not> IsVersionServingInCustomResourceDefinition (Some crd) ''v1''))"

section \<open>The controller and the state of a run\<close>

text \<open>What the controller is given: its configuration, the API server and the other parameters of the actions.
  The answer of the server to a request and its effect on the objects of the cluster may change from action to
  action: they depend on the number of actions executed so far.\<close>

record RisingWaveController =
  rc_openKruiseAvailable :: bool
  rc_owned :: ownership
  rc_ord :: mapOrder
  rc_gvk :: gvk
  rc_now :: time
  rc_reader :: "K8sObject list \<Rightarrow> Reader"
  rc_answer :: "nat \<Rightarrow> K8sObject list \<Rightarrow> Request \<Rightarrow> ApiError option"
  rc_effect :: "nat \<Rightarrow> K8sObject list \<Rightarrow> Request \<Rightarrow> K8sObject list"
  rc_getScaleView :: getSV
  rc_getCRD :: getCRD
  rc_updateStatus :: "RisingWave \<Rightarrow> ApiError option"

record Run =
  run_Step :: nat
  run_Objects :: "K8sObject list"
  run_Impl :: RisingWaveControllerManagerImpl
  run_Reported :: "RisingWave list"
  run_Events :: "(RisingWaveEventType \<times> string) list"

abbreviation runManager :: "Run \<Rightarrow> RisingWaveManager" where
  "runManager w \<equiv> im_risingwaveManager (run_Impl w)"

abbreviation runTarget :: "Run \<Rightarrow> RisingWave" where
  "runTarget w \<equiv> m_risingwave (runManager w)"

text \<open>The error that the hook sees.\<close>

fun resError :: "Res \<Rightarrow> ApiError option" where
  "resError (RequeueErr msg e) = Some e"
| "resError ExitAction = Some (OtherErr ''exit'')"
| "resError r = None"

text \<open>\<^verbatim>\<open>managerOpts\<close>: the event recorder is the hook.\<close>

fun hookEvents :: "RisingWaveControllerManagerImpl \<Rightarrow> HookCall \<Rightarrow> (RisingWaveEventType \<times> string) list" where
  "hookEvents impl (PreRunCall a states) = []"
| "hookEvents impl (PostRunCall a r) = PostRun (im_risingwaveManager impl) (im_eventMessageStore impl) a (resError r)"

definition managerOf :: "RisingWaveController \<Rightarrow> Run \<Rightarrow> RisingWaveControllerManager" where
  "managerOf c w = NewRisingWaveControllerManager
     (NewRisingWaveControllerManagerState (rc_reader c (run_Objects w)) (runTarget w)) (run_Impl w)
     [RisingWaveControllerManager_WithActionHook True]"

definition envOf :: "RisingWaveController \<Rightarrow> Run \<Rightarrow> ActionEnv" where
  "envOf c w = \<lparr>ae_ord = rc_ord c, ae_gvk = rc_gvk c, ae_api = rc_answer c (run_Step w) (run_Objects w),
     ae_now = rc_now c, ae_owned = rc_owned c\<rparr>"

type_synonym runAction = "Run \<Rightarrow> (Res \<times> Run) outcome"

text \<open>An action of the manager as a step of the run.\<close>

definition step :: "RisingWaveController \<Rightarrow> managerAction \<Rightarrow> runAction" where
  "step c a w =
     (case a (envOf c w) (managerOf c w) of
        Panics m \<Rightarrow> Panics m
      | Returns x \<Rightarrow> Returns (ran_Res x,
          w\<lparr>run_Step := Suc (run_Step w),
            run_Objects := foldl (rc_effect c (run_Step w)) (run_Objects w) (ran_Requests x),
            run_Impl := ran_Impl x,
            run_Events := run_Events w @ concat (map (hookEvents (ran_Impl x)) (ran_Hooks x))\<rparr>))"

text \<open>An action on the RisingWave manager, made with \<^verbatim>\<open>NewAction\<close>.\<close>

definition onManager :: "string \<Rightarrow> (RisingWaveManager \<Rightarrow> Res \<times> RisingWaveManager) \<Rightarrow> managerAction" where
  "onManager description f = NewAction description (\<lambda>impl.
     case f (im_risingwaveManager impl) of (r, m) \<Rightarrow> Returns (r, [], impl\<lparr>im_risingwaveManager := m\<rparr>))"

text \<open>The final status update; the status that is sent is recorded.\<close>

definition UpdateRisingWaveStatusViaClient :: "RisingWaveController \<Rightarrow> runAction" where
  "UpdateRisingWaveStatusViaClient c w =
     step c (onManager ''UpdateRisingWaveStatusViaClient'' (\<lambda>m. (updateRisingWaveStatus (rc_updateStatus c) m, m)))
       (w\<lparr>run_Reported := run_Reported w @
            (if rw_Status (m_mutableRisingWave (runManager w)) = rw_Status (runTarget w) then [] else [m_mutableRisingWave (runManager w)])\<rparr>)"

section \<open>The actions by name\<close>

definition syncActions :: "(string \<times> managerAction) list" where
  "syncActions =
     [(''SyncConfigConfigMap'', SyncConfigConfigMap_action),
      (''SyncMetaService'', SyncMetaService_action),
      (''SyncMetaStatefulSets'', SyncMetaStatefulSets_action),
      (''SyncMetaAdvancedStatefulSets'', SyncMetaAdvancedStatefulSets_action),
      (''SyncFrontendService'', SyncFrontendService_action),
      (''SyncFrontendDeployments'', SyncFrontendDeployments_action),
      (''SyncFrontendCloneSets'', SyncFrontendCloneSets_action),
      (''SyncComputeService'', SyncComputeService_action),
      (''SyncComputeStatefulSets'', SyncComputeStatefulSets_action),
      (''SyncComputeAdvancedStatefulSets'', SyncComputeAdvancedStatefulSets_action),
      (''SyncCompactorService'', SyncCompactorService_action),
      (''SyncCompactorDeployments'', SyncCompactorDeployments_action),
      (''SyncCompactorCloneSets'', SyncCompactorCloneSets_action),
      (''SyncStandaloneService'', SyncStandaloneService_action),
      (''SyncStandaloneStatefulSet'', SyncStandaloneStatefulSet_action),
      (''SyncStandaloneAdvancedStatefulSet'', SyncStandaloneAdvancedStatefulSet_action)]"

definition waitActions :: "(string \<times> managerAction) list" where
  "waitActions =
     [(''WaitBeforeMetaServiceIsAvailable'', WaitBeforeMetaServiceIsAvailable_action),
      (''WaitBeforeMetaStatefulSetsReady'', WaitBeforeMetaStatefulSetsReady_action),
      (''WaitBeforeMetaAdvancedStatefulSetsReady'', WaitBeforeMetaAdvancedStatefulSetsReady_action),
      (''WaitBeforeFrontendDeploymentsReady'', WaitBeforeFrontendDeploymentsReady_action),
      (''WaitBeforeFrontendCloneSetsReady'', WaitBeforeFrontendCloneSetsReady_action),
      (''WaitBeforeComputeStatefulSetsReady'', WaitBeforeComputeStatefulSetsReady_action),
      (''WaitBeforeComputeAdvancedStatefulSetsReady'', WaitBeforeComputeAdvancedStatefulSetsReady_action),
      (''WaitBeforeCompactorDeploymentsReady'', WaitBeforeCompactorDeploymentsReady_action),
      (''WaitBeforeCompactorCloneSetsReady'', WaitBeforeCompactorCloneSetsReady_action),
      (''WaitBeforeStandaloneStatefulSetReady'', WaitBeforeStandaloneStatefulSetReady_action),
      (''WaitBeforeStandaloneAdvancedStatefulSetReady'', WaitBeforeStandaloneAdvancedStatefulSetReady_action)]"

definition statusActions :: "RisingWaveController \<Rightarrow> (string \<times> managerAction) list" where
  "statusActions c =
     [(''CollectRunningStatisticsAndSyncStatus'', CollectRunningStatisticsAndSyncStatus_action),
      (''CollectOpenKruiseRunningStatisticsAndSyncStatus'', CollectOpenKruiseRunningStatisticsAndSyncStatus_action),
      (''CollectRunningStatisticsAndSyncStatusForStandalone'', CollectRunningStatisticsAndSyncStatusForStandalone_action),
      (''CollectOpenKruiseRunningStatisticsAndSyncStatusForStandalone'', CollectOpenKruiseRunningStatisticsAndSyncStatusForStandalone_action),
      (''BarrierFirstTimeObserved'', onManager ''BarrierFirstTimeObserved'' firstTimeObservedBarrier),
      (''MarkConditionInitializingAsTrue'', onManager ''MarkConditionInitializingAsTrue'' (markConditionInitializingAsTrue (rc_now c))),
      (''MarkConditionRunningAsFalse'', onManager ''MarkConditionRunningAsFalse'' (markConditionRunningAsFalse (rc_now c))),
      (''BarrierConditionInitializingIsTrue'', onManager ''BarrierConditionInitializingIsTrue'' conditionInitializingIsTrueBarrier),
      (''RemoveConditionInitializing'', onManager ''RemoveConditionInitializing'' removeConditionInitializing),
      (''BarrierConditionRunningIsTrue'', onManager ''BarrierConditionRunningIsTrue'' conditionRunningIsTrueBarrier),
      (''BarrierConditionRunningIsFalse'', onManager ''BarrierConditionRunningIsFalse'' conditionRunningIsFalseBarrier),
      (''MarkConditionUpgradingAsTrue'', onManager ''MarkConditionUpgradingAsTrue'' (markConditionUpgradingAsTrue (rc_now c))),
      (''BarrierConditionUpgradingIsTrue'', onManager ''BarrierConditionUpgradingIsTrue'' conditionUpgradingIsTrueBarrier),
      (''MarkConditionUpgradingAsFalse'', onManager ''MarkConditionUpgradingAsFalse'' (markConditionUpgradingAsFalse (rc_now c))),
      (''BarrierObservedGenerationOutdated'', onManager ''BarrierObservedGenerationOutdated'' observedGenerationOutdatedBarrier),
      (''SyncObservedGeneration'', onManager ''SyncObservedGeneration'' syncObservedGeneration),
      (''BarrierPrometheusCRDsInstalled'', onManager ''BarrierPrometheusCRDsInstalled'' (\<lambda>m. (prometheusCRDsInstalledBarrier (rc_getCRD c), m))),
      (''ReleaseScaleViewLock'', onManager ''ReleaseScaleViewLock'' (releaseScaleViewLock (rc_getScaleView c))),
      (''SyncInternalStatus'', onManager ''SyncInternalStatus'' syncInternalStatus)]"

definition markRunning :: string where "markRunning = ''MarkConditionRunningAsTrue''"

definition actionOf :: "RisingWaveController \<Rightarrow> string \<Rightarrow> runAction" where
  "actionOf c name =
     (if name = ''UpdateRisingWaveStatusViaClient'' then UpdateRisingWaveStatusViaClient c
      else if name = markRunning then step c (onManager markRunning (markConditionRunningAsTrue (rc_now c)))
      else if name = ''SyncServiceMonitor'' then step c SyncServiceMonitor_action
      else case map_of waitActions name of
             Some a \<Rightarrow> step c a
           | None \<Rightarrow>
               (case map_of syncActions name of
                  Some a \<Rightarrow> step c a
                | None \<Rightarrow>
                    (case map_of (statusActions c) name of
                       Some a \<Rightarrow> step c a
                     | None \<Rightarrow> (\<lambda>w. Panics ''no such action''))))"

section \<open>The workflow\<close>

definition syncMetaComponent :: "bool \<Rightarrow> Workflow" where
  "syncMetaComponent kr = ParallelJoin
     [Action ''SyncMetaService'',
      Action ''SyncMetaStatefulSets'',
      WhenTrue kr (Action ''SyncMetaAdvancedStatefulSets'')]"

definition metaComponentReadyBarrier :: "bool \<Rightarrow> Workflow" where
  "metaComponentReadyBarrier kr = Sequential
     [Action ''WaitBeforeMetaStatefulSetsReady'',
      WhenTrue kr (Action ''WaitBeforeMetaAdvancedStatefulSetsReady''),
      Timeout 1000 (Action ''WaitBeforeMetaServiceIsAvailable'')]"

definition syncOtherComponents :: "bool \<Rightarrow> Workflow" where
  "syncOtherComponents kr = ParallelJoin
     [Sequential
        [Action ''SyncComputeService'',
         Action ''SyncComputeStatefulSets'',
         WhenTrue kr (Action ''SyncComputeAdvancedStatefulSets'')],
      ParallelJoin
        [Action ''SyncCompactorService'',
         Action ''SyncCompactorDeployments'',
         WhenTrue kr (Action ''SyncCompactorCloneSets'')],
      ParallelJoin
        [Action ''SyncFrontendService'',
         Action ''SyncFrontendDeployments'',
         WhenTrue kr (Action ''SyncFrontendCloneSets'')]]"

definition otherOpenKruiseComponentsReadyBarrier :: Workflow where
  "otherOpenKruiseComponentsReadyBarrier = ParallelJoin
     [Action ''WaitBeforeFrontendCloneSetsReady'',
      Action ''WaitBeforeComputeAdvancedStatefulSetsReady'',
      Action ''WaitBeforeCompactorCloneSetsReady'']"

definition otherComponentsReadyBarrier :: "bool \<Rightarrow> Workflow" where
  "otherComponentsReadyBarrier kr = Join
     [Action ''WaitBeforeFrontendDeploymentsReady'',
      Action ''WaitBeforeComputeStatefulSetsReady'',
      Action ''WaitBeforeCompactorDeploymentsReady'',
      WhenTrue kr otherOpenKruiseComponentsReadyBarrier]"

definition syncStandaloneComponent :: "bool \<Rightarrow> Workflow" where
  "syncStandaloneComponent kr = Join
     [Action ''SyncStandaloneService'',
      Action ''SyncStandaloneStatefulSet'',
      WhenTrue kr (Action ''SyncStandaloneAdvancedStatefulSet'')]"

definition standaloneReadyBarrier :: "bool \<Rightarrow> Workflow" where
  "standaloneReadyBarrier kr = Join
     [Action ''WaitBeforeStandaloneStatefulSetReady'',
      WhenTrue kr (Action ''WaitBeforeStandaloneAdvancedStatefulSetReady'')]"

definition syncAllComponents :: "bool \<Rightarrow> Workflow" where
  "syncAllComponents kr = ParallelJoin
     [Action ''SyncConfigConfigMap'', syncMetaComponent kr, syncOtherComponents kr, syncStandaloneComponent kr]"

definition allComponentsReadyBarrier :: "bool \<Rightarrow> Workflow" where
  "allComponentsReadyBarrier kr = Join
     [metaComponentReadyBarrier kr, otherComponentsReadyBarrier kr, standaloneReadyBarrier kr]"

lemmas component_workflows = syncAllComponents_def syncMetaComponent_def syncOtherComponents_def syncStandaloneComponent_def
  allComponentsReadyBarrier_def metaComponentReadyBarrier_def otherComponentsReadyBarrier_def otherOpenKruiseComponentsReadyBarrier_def
  standaloneReadyBarrier_def

definition syncAllAndWait :: "bool \<Rightarrow> Workflow" where
  "syncAllAndWait kr = Sequential
     [Action ''SyncObservedGeneration'', Action ''SyncConfigConfigMap'', syncAllComponents kr, allComponentsReadyBarrier kr]"

definition syncRunningStatus :: "RisingWaveManager \<Rightarrow> Workflow" where
  "syncRunningStatus m = IfElse (IsStandaloneModeEnabled (m_risingwave m))
     (IfElse (IsOpenKruiseEnabled m)
        (Action ''CollectOpenKruiseRunningStatisticsAndSyncStatusForStandalone'')
        (Action ''CollectRunningStatisticsAndSyncStatusForStandalone''))
     (IfElse (IsOpenKruiseEnabled m)
        (Action ''CollectOpenKruiseRunningStatisticsAndSyncStatus'')
        (Action ''CollectRunningStatisticsAndSyncStatus''))"

definition syncServiceMonitorIfPossible :: "RisingWaveManager \<Rightarrow> Workflow" where
  "syncServiceMonitorIfPossible m = WhenTrue (derefBool (rws_EnableDefaultServiceMonitor (rw_Spec (m_risingwave m))) False)
     (Sequential [Action ''BarrierPrometheusCRDsInstalled'', Action ''SyncServiceMonitor''])"

definition reactiveWorkflow :: "bool \<Rightarrow> RisingWaveManager \<Rightarrow> Workflow" where
  "reactiveWorkflow kr m = ParallelJoin
     [Action ''SyncInternalStatus'',
      Sequential
        [Action ''BarrierFirstTimeObserved'',
         Action ''MarkConditionInitializingAsTrue'',
         Action ''MarkConditionRunningAsFalse''],
      Sequential
        [Action ''BarrierConditionInitializingIsTrue'',
         Shared (syncAllAndWait kr),
         Action ''RemoveConditionInitializing''],
      Sequential
        [Action ''BarrierConditionRunningIsFalse'',
         Shared (syncAllAndWait kr),
         Action markRunning],
      Sequential
        [Action ''BarrierConditionRunningIsTrue'',
         Action ''BarrierObservedGenerationOutdated'',
         Action ''MarkConditionUpgradingAsTrue''],
      Sequential
        [Action ''BarrierConditionUpgradingIsTrue'',
         Shared (syncAllAndWait kr),
         Action ''MarkConditionUpgradingAsFalse''],
      syncRunningStatus m,
      syncServiceMonitorIfPossible m,
      Action ''ReleaseScaleViewLock'']"

definition reconcileWorkflow :: "bool \<Rightarrow> RisingWaveManager \<Rightarrow> Workflow" where
  "reconcileWorkflow kr m = SequentialJoin [reactiveWorkflow kr m, Action ''UpdateRisingWaveStatusViaClient'']"

text \<open>\<^verbatim>\<open>Reconcile\<close> behind its guards: the managers that a run starts with.\<close>

definition startRun :: "RisingWaveController \<Rightarrow> ObjectFactory \<Rightarrow> bool \<Rightarrow> RisingWave \<Rightarrow> K8sObject list \<Rightarrow> Run" where
  "startRun c factory forceUpdateEnabled rw objects =
     \<lparr>run_Step = 0, run_Objects = objects,
      run_Impl = \<lparr>im_risingwaveManager = NewRisingWaveManager rw (rc_openKruiseAvailable c), im_objectFactory = factory,
        im_eventMessageStore = NewMessageStore, im_forceUpdateEnabled = forceUpdateEnabled\<rparr>,
      run_Reported = [], run_Events = []\<rparr>"

text \<open>\<^verbatim>\<open>runWorkflow\<close>: an exit is no error of the reconciliation.\<close>

fun IgnoreExit :: "Res \<Rightarrow> Res" where
  "IgnoreExit ExitAction = Continue"
| "IgnoreExit r = r"

text \<open>A reconciliation of an observed RisingWave: the result of a guard, or a run of the workflow by the library.\<close>

inductive reconciles ::
  "(Workflow \<Rightarrow> trace \<Rightarrow> Res \<Rightarrow> bool) \<Rightarrow> RisingWaveController \<Rightarrow> ObjectFactory \<Rightarrow> bool \<Rightarrow> ApiError + RisingWave \<Rightarrow> K8sObject list
   \<Rightarrow> Res \<Rightarrow> Run option \<Rightarrow> bool" for ctrlkit c factory forceUpdateEnabled where
  guarded: "reconcileGuard got = Inl r \<Longrightarrow> reconciles ctrlkit c factory forceUpdateEnabled got objects r None"
| workflow: "\<lbrakk>reconcileGuard got = Inr rw;
      ctrlkit (reconcileWorkflow (rc_openKruiseAvailable c) (NewRisingWaveManager rw (rc_openKruiseAvailable c))) t r;
      shared_ok None t;
      replay (actionOf c) (startRun c factory forceUpdateEnabled rw objects) t = Some w\<rbrakk>
     \<Longrightarrow> reconciles ctrlkit c factory forceUpdateEnabled got objects (IgnoreExit r) (Some w)"

inductive_cases reconcilesE: "reconciles ctrlkit c factory forceUpdateEnabled got objects r (Some w)"

end
