(* ===== verification/ScaleWorkflow.thy ===== *)
theory ScaleWorkflow
  imports ScaleProtocol RwWorkflow
begin

text \<open>
  The controller of scale views: \<^verbatim>\<open>pkg/manager/risingwave_scale_view_controller_manager_generated.go\<close> (the getter of the
  target and the actions with their hook) and \<^verbatim>\<open>pkg/controller/risingwave_scale_view_controller.go\<close> (\<^verbatim>\<open>Reconcile\<close> as the workflow
  that it builds). A run of the workflow works against a cluster, the \<open>World\<close> of \<open>ScaleProtocol\<close>, which others
  change between the actions; reads may be stale. It is shown that the writes of a run come in the
  intended order and hold what they should, and that every run is a sequence of steps of the protocol.
\<close>

section \<open>The generated manager\<close>

record RisingWaveScaleViewControllerManagerState =
  vs_Reader :: "string \<times> string \<Rightarrow> ApiError + RisingWave"
  vs_target :: RisingWaveScaleView

definition NewRisingWaveScaleViewControllerManagerState ::
  "(string \<times> string \<Rightarrow> ApiError + RisingWave) \<Rightarrow> RisingWaveScaleView \<Rightarrow> RisingWaveScaleViewControllerManagerState" where
  "NewRisingWaveScaleViewControllerManagerState reader target = \<lparr>vs_Reader = reader, vs_target = target\<rparr>"

definition GetTargetObj :: "RisingWaveScaleViewControllerManagerState \<Rightarrow> RisingWave option fetch" where
  "GetTargetObj s =
     (case vs_Reader s (om_Namespace (sv_Meta (vs_target s)), tr_Name (targetOf (vs_target s))) of
        Inl NotFoundErr \<Rightarrow> Inr None
      | Inl e \<Rightarrow> Inl (stateError ''targetObj'' e)
      | Inr targetObj \<Rightarrow> Inr (Some targetObj))"

datatype ScaleHookCall =
    ScalePreRun string "(string \<times> RisingWave option) list"
  | ScalePostRun string Res

record RisingWaveScaleViewControllerManager =
  vm_hook :: bool
  vm_state :: RisingWaveScaleViewControllerManagerState
  vm_impl :: ScaleViewControllerManager

type_synonym RisingWaveScaleViewControllerManagerOption =
  "RisingWaveScaleViewControllerManager \<Rightarrow> RisingWaveScaleViewControllerManager"

definition RisingWaveScaleViewControllerManager_WithActionHook :: "bool \<Rightarrow> RisingWaveScaleViewControllerManagerOption" where
  "RisingWaveScaleViewControllerManager_WithActionHook hook m = m\<lparr>vm_hook := hook\<rparr>"

definition NewRisingWaveScaleViewControllerManager ::
  "RisingWaveScaleViewControllerManagerState \<Rightarrow> ScaleViewControllerManager \<Rightarrow> RisingWaveScaleViewControllerManagerOption list
   \<Rightarrow> RisingWaveScaleViewControllerManager" where
  "NewRisingWaveScaleViewControllerManager state impl opts =
     foldl (\<lambda>m opt. opt m) \<lparr>vm_hook = False, vm_state = state, vm_impl = impl\<rparr> opts"

text \<open>What a run of an action leaves: the result, the writes, the implementation and the calls of the hook.\<close>

record ScaleRan =
  sran_Res :: Res
  sran_Writes :: "ScaleWrite list"
  sran_Impl :: ScaleViewControllerManager
  sran_Hooks :: "ScaleHookCall list"

type_synonym scaleAction = "scaleApi \<Rightarrow> RisingWaveScaleViewControllerManager \<Rightarrow> ScaleRan outcome"

definition scaleInvoke ::
  "RisingWaveScaleViewControllerManager \<Rightarrow> string \<Rightarrow> (string \<times> RisingWave option) list \<Rightarrow> scaleStep outcome \<Rightarrow> ScaleRan outcome" where
  "scaleInvoke m action states body =
     (case body of
        Panics msg \<Rightarrow> Panics msg
      | Returns (r, impl, ws) \<Rightarrow> Returns \<lparr>sran_Res = r, sran_Writes = ws, sran_Impl = impl,
          sran_Hooks = (if vm_hook m then [ScalePreRun action states, ScalePostRun action r] else [])\<rparr>)"

definition scaleFetching ::
  "RisingWaveScaleViewControllerManager \<Rightarrow> RisingWave option fetch \<Rightarrow> (RisingWave option \<Rightarrow> ScaleRan outcome) \<Rightarrow> ScaleRan outcome" where
  "scaleFetching m got k =
     (case got of
        Inl (msg, e) \<Rightarrow> Returns \<lparr>sran_Res = RequeueErr msg e, sran_Writes = [], sran_Impl = vm_impl m, sran_Hooks = []\<rparr>
      | Inr x \<Rightarrow> k x)"

definition NewScaleAction :: "string \<Rightarrow> (ScaleViewControllerManager \<Rightarrow> scaleStep outcome) \<Rightarrow> scaleAction" where
  "NewScaleAction description f api m = scaleInvoke m description [] (f (vm_impl m))"

definition GrabOrUpdateScaleViewLock_action :: scaleAction where
  "GrabOrUpdateScaleViewLock_action api m = scaleFetching m (GetTargetObj (vm_state m)) (\<lambda>targetObj.
     scaleInvoke m ''GrabOrUpdateScaleViewLock'' [(''targetObj'', targetObj)] (GrabOrUpdateScaleViewLock api (vm_impl m) targetObj))"

definition SyncGroupReplicasToRisingWave_action :: scaleAction where
  "SyncGroupReplicasToRisingWave_action api m = scaleFetching m (GetTargetObj (vm_state m)) (\<lambda>targetObj.
     scaleInvoke m ''SyncGroupReplicasToRisingWave'' [(''targetObj'', targetObj)] (SyncGroupReplicasToRisingWave api (vm_impl m) targetObj))"

definition SyncGroupReplicasStatusFromRisingWave_action :: scaleAction where
  "SyncGroupReplicasStatusFromRisingWave_action api m = scaleFetching m (GetTargetObj (vm_state m)) (\<lambda>targetObj.
     scaleInvoke m ''SyncGroupReplicasStatusFromRisingWave'' [(''targetObj'', targetObj)]
       (SyncGroupReplicasStatusFromRisingWave (vm_impl m) targetObj))"

definition UpdateScaleViewStatus_action :: scaleAction where
  "UpdateScaleViewStatus_action api m =
     scaleInvoke m ''UpdateScaleViewStatus'' [] (Returns (UpdateScaleViewStatus api (vm_impl m)))"

section \<open>The controller\<close>

text \<open>What the controller is given. Before the action of a step, others change the cluster; the answer to a write may depend on the
  object that the action had read, as its resource version is sent with the write.\<close>

record RisingWaveScaleViewController =
  sc_others :: "nat \<Rightarrow> World \<Rightarrow> World"
  sc_read :: "nat \<Rightarrow> World \<Rightarrow> string \<times> string \<Rightarrow> ApiError + RisingWave"
  sc_answer :: "nat \<Rightarrow> World \<Rightarrow> RisingWave option \<Rightarrow> ScaleWrite \<Rightarrow> ApiError option"
  sc_effect :: "nat \<Rightarrow> World \<Rightarrow> ScaleWrite \<Rightarrow> World"

record ScaleRun =
  sr_Step :: nat
  sr_World :: World
  sr_Target :: RisingWaveScaleView
  sr_Impl :: ScaleViewControllerManager
  sr_Log :: "(ScaleWrite \<times> ApiError option) list"

definition scaleManagerOf :: "RisingWaveScaleViewController \<Rightarrow> ScaleRun \<Rightarrow> World \<Rightarrow> RisingWaveScaleViewControllerManager" where
  "scaleManagerOf c s w = NewRisingWaveScaleViewControllerManager
     (NewRisingWaveScaleViewControllerManagerState (sc_read c (sr_Step s) w) (sr_Target s)) (sr_Impl s) []"

text \<open>The object that the action reads.\<close>

definition baseOf :: "RisingWaveScaleViewController \<Rightarrow> ScaleRun \<Rightarrow> World \<Rightarrow> RisingWave option" where
  "baseOf c s w = (case GetTargetObj (vm_state (scaleManagerOf c s w)) of Inl e \<Rightarrow> None | Inr t \<Rightarrow> t)"

abbreviation scaleApiOf :: "RisingWaveScaleViewController \<Rightarrow> ScaleRun \<Rightarrow> World \<Rightarrow> scaleApi" where
  "scaleApiOf c s w \<equiv> sc_answer c (sr_Step s) w (baseOf c s w)"

text \<open>The cluster after a write: nothing happens when it was refused.\<close>

definition afterWrite :: "RisingWaveScaleViewController \<Rightarrow> nat \<Rightarrow> scaleApi \<Rightarrow> World \<Rightarrow> ScaleWrite \<Rightarrow> World" where
  "afterWrite c n api w q = (if api q = None then sc_effect c n w q else w)"

definition scaleRunStep :: "RisingWaveScaleViewController \<Rightarrow> scaleAction \<Rightarrow> ScaleRun \<Rightarrow> (Res \<times> ScaleRun) outcome" where
  "scaleRunStep c a s =
     (let w = sc_others c (sr_Step s) (sr_World s); api = scaleApiOf c s w in
      case a api (scaleManagerOf c s w) of
        Panics m \<Rightarrow> Panics m
      | Returns x \<Rightarrow> Returns (sran_Res x,
          s\<lparr>sr_Step := Suc (sr_Step s),
            sr_World := foldl (afterWrite c (sr_Step s) api) w (sran_Writes x),
            sr_Impl := sran_Impl x,
            sr_Log := sr_Log s @ map (\<lambda>q. (q, api q)) (sran_Writes x)\<rparr>))"

definition scaleActionOf :: "RisingWaveScaleViewController \<Rightarrow> string \<Rightarrow> ScaleRun \<Rightarrow> (Res \<times> ScaleRun) outcome" where
  "scaleActionOf c name =
     (if name = ''GrabOrUpdateScaleViewLock'' then scaleRunStep c GrabOrUpdateScaleViewLock_action
      else if name = ''SyncGroupReplicasToRisingWave'' then scaleRunStep c SyncGroupReplicasToRisingWave_action
      else if name = ''SyncGroupReplicasStatusFromRisingWave'' then scaleRunStep c SyncGroupReplicasStatusFromRisingWave_action
      else if name = ''UpdateScaleViewStatus'' then scaleRunStep c UpdateScaleViewStatus_action
      else (\<lambda>s. Panics ''no such action''))"

definition RisingWaveScaleViewSyncLockRetryLimit :: nat where "RisingWaveScaleViewSyncLockRetryLimit = 2"
definition RisingWaveScaleViewSyncLockRetryInterval :: int where "RisingWaveScaleViewSyncLockRetryInterval = 5"

definition scaleWorkflow :: "bool \<Rightarrow> Workflow" where
  "scaleWorkflow isScaleViewDeleted = WhenTrue (\<not> isScaleViewDeleted)
     (OrderedJoin
        [Join
           [Sequential
              [RetryInterval RisingWaveScaleViewSyncLockRetryLimit RisingWaveScaleViewSyncLockRetryInterval (Action ''GrabOrUpdateScaleViewLock''),
               Action ''SyncGroupReplicasToRisingWave''],
            Action ''SyncGroupReplicasStatusFromRisingWave''],
         Action ''UpdateScaleViewStatus''])"

definition startScaleRun :: "RisingWaveScaleView \<Rightarrow> World \<Rightarrow> ScaleRun" where
  "startScaleRun sv w = \<lparr>sr_Step = 0, sr_World = w, sr_Target = sv,
     sr_Impl = NewRisingWaveScaleViewControllerManagerImpl sv, sr_Log = []\<rparr>"

text \<open>A reconciliation: the result, the events of the run, and the run that is left.\<close>

inductive scale_reconciles ::
  "(Workflow \<Rightarrow> trace \<Rightarrow> Res \<Rightarrow> bool) \<Rightarrow> RisingWaveScaleViewController \<Rightarrow> ApiError + RisingWaveScaleView \<Rightarrow> World \<Rightarrow> Res \<Rightarrow> ScaleRun option \<Rightarrow> bool"
  for ctrlkit c where
  gone: "scale_reconciles ctrlkit c (Inl NotFoundErr) w NoRequeue None"
| failed: "e \<noteq> NotFoundErr \<Longrightarrow> scale_reconciles ctrlkit c (Inl e) w (RequeueErr ''unable to get risingwavescaleview'' e) None"
| workflow: "\<lbrakk>ctrlkit (scaleWorkflow (om_DeletionTimestamp (sv_Meta sv) \<noteq> None)) t r; replay (scaleActionOf c) (startScaleRun sv w) t = Some s\<rbrakk>
     \<Longrightarrow> scale_reconciles ctrlkit c (Inr sv) w (IgnoreExit r) (Some s)"

inductive_cases scale_reconcilesE: "scale_reconciles ctrlkit c (Inr sv) w r (Some s)"

text \<open>The watch on the RisingWave: the scale views with a lock in its status are reconciled.\<close>

definition requestsForLocks :: "RisingWave \<Rightarrow> (string \<times> string) list" where
  "requestsForLocks obj = map (\<lambda>t. (om_Namespace (rw_Meta obj), lk_Name t)) (locksOf obj)"

section \<open>What an action does\<close>

text \<open>The scale view in memory has the identity and the specification of the one that was observed.\<close>

definition sameView :: "RisingWaveScaleView \<Rightarrow> RisingWaveScaleView \<Rightarrow> bool" where
  "sameView sv v \<longleftrightarrow> sv_Meta v = sv_Meta sv \<and> sv_Spec v = sv_Spec sv"

lemma sameView_refl [simp]: "sameView sv sv"
  by (simp add: sameView_def)

lemma lockIndex_sameView: "sameView sv v \<Longrightarrow> lockIndex ls v = lockIndex ls sv"
  by (induction ls) (simp_all add: sameView_def)

lemma grabConflict_sameView: "sameView sv v \<Longrightarrow> grabConflict ls v = grabConflict ls sv"
  by (induction ls) (simp_all add: sameView_def split: option.split)

lemma sameView_locks:
  assumes "sameView sv v"
  shows "GrabOrUpdateScaleViewLockFor rw v = GrabOrUpdateScaleViewLockFor rw sv" "GetScaleViewLock rw v = GetScaleViewLock rw sv"
proof -
  have v: "sv_Meta v = sv_Meta sv" "sv_Spec v = sv_Spec sv" using assms by (simp_all add: sameView_def)
  have split: "SplitReplicas v = SplitReplicas sv" "groupLocksFor v = groupLocksFor sv"
    unfolding fun_eq_iff SplitReplicas_def derefReplicas_def groupLocksFor_def v by simp_all
  note index = lockIndex_sameView [OF assms] grabConflict_sameView [OF assms]
  show "GetScaleViewLock rw v = GetScaleViewLock rw sv" by (simp add: GetScaleViewLock_def getScaleViewLockIndex_def index)
  show "GrabOrUpdateScaleViewLockFor rw v = GrabOrUpdateScaleViewLockFor rw sv"
    unfolding GrabOrUpdateScaleViewLockFor_def GrabScaleViewLockFor_def getScaleViewLockIndex_def index split v by (rule refl)
qed

text \<open>The lock of a version of a scale view in the status of its target.\<close>

definition upToDate :: "RisingWaveScaleView \<Rightarrow> RisingWave \<Rightarrow> RisingWaveScaleViewLock \<Rightarrow> bool" where
  "upToDate sv rw l \<longleftrightarrow> om_UID (rw_Meta rw) = tr_UID (targetOf sv) \<and> GetScaleViewLock rw sv = Some l \<and> lk_Generation l = svGeneration sv"

lemma Grab_effect:
  assumes "GrabOrUpdateScaleViewLock api mgr t = Returns (r, mgr', ws)" "sameView sv (svm_scaleView mgr)"
  shows "(ws = [] \<and> mgr' = mgr) \<or>
    (\<exists>rw rw'. t = Some rw \<and> om_UID (rw_Meta rw) = tr_UID (targetOf sv) \<and> GrabOrUpdateScaleViewLockFor rw sv = Returns (Inr (True, rw'))
      \<and> ws = [StatusUpdateRW rw'] \<and> r \<noteq> Continue \<and> mgr' = (if api (StatusUpdateRW rw') = None then setLocked True mgr else mgr))"
proof (cases "\<exists>rw. t = Some rw \<and> om_UID (rw_Meta rw) = tr_UID (targetOf sv)")
  case True
  then obtain rw where rw: "t = Some rw" "om_UID (rw_Meta rw) = tr_UID (targetOf sv)" by blast
  then have m: "isTargetObjMatched mgr t" using assms(2) by (simp add: isTargetObjMatched_def sameView_def)
  consider (panics) msg where "GrabOrUpdateScaleViewLockFor rw sv = Panics msg"
    | (refused) e where "GrabOrUpdateScaleViewLockFor rw sv = Returns (Inl e)"
    | (kept) rw' where "GrabOrUpdateScaleViewLockFor rw sv = Returns (Inr (False, rw'))"
    | (updated) rw' where "GrabOrUpdateScaleViewLockFor rw sv = Returns (Inr (True, rw'))"
    by (cases "GrabOrUpdateScaleViewLockFor rw sv") (metis sum.exhaust prod.exhaust outcome.distinct)+
  then show ?thesis
    using assms(1) rw m unfolding GrabOrUpdateScaleViewLock_def sameView_locks(1) [OF assms(2)]
    by cases (auto split: option.splits)
next
  case False
  then have "t = None \<or> \<not> isTargetObjMatched mgr t" using assms(2) by (auto simp: isTargetObjMatched_def sameView_def split: option.splits)
  then show ?thesis using assms(1) by (auto simp: GrabOrUpdateScaleViewLock_def split: option.splits)
qed

lemma Sync_effect:
  assumes "SyncGroupReplicasToRisingWave api mgr t = Returns (r, mgr', ws)" "sameView sv (svm_scaleView mgr)" "known_component (svComponent sv)"
  shows "mgr' = mgr \<and> (ws = [] \<or> (\<exists>rw l. t = Some rw \<and> upToDate sv rw l \<and> ws = [PatchRW (writeLocks rw (svComponent sv) (lk_GroupLocks l)) rw]))"
proof -
  have w: "\<exists>b. writeAll (NewRisingWaveScaleViewHelper rw (svComponent sv)) gs False =
    Returns (b, NewRisingWaveScaleViewHelper (writeLocks rw (svComponent sv) gs) (svComponent sv))" for rw gs
    using writeAll_eq [OF assms(3)] by blast
  have v: "svComponent (svm_scaleView mgr) = svComponent sv" "svGeneration (svm_scaleView mgr) = svGeneration sv" "targetOf (svm_scaleView mgr) = targetOf sv"
    using assms(2) by (simp_all add: sameView_def)
  show ?thesis
  proof (cases t)
    case (Some rw)
    show ?thesis
    proof (cases "\<exists>l. upToDate sv rw l")
      case True
      then obtain l where l: "upToDate sv rw l" by blast
      obtain b where "writeAll (NewRisingWaveScaleViewHelper rw (svComponent sv)) (lk_GroupLocks l) False =
          Returns (b, NewRisingWaveScaleViewHelper (writeLocks rw (svComponent sv) (lk_GroupLocks l)) (svComponent sv))"
        using w by blast
      then show ?thesis
        using assms(1) Some l v sameView_locks(2) [OF assms(2)]
        by (auto simp: SyncGroupReplicasToRisingWave_def isTargetObjMatched_def upToDate_def Let_def NewRisingWaveScaleViewHelper_def split: if_splits)
    next
      case False
      then show ?thesis
        using assms(1) Some v sameView_locks(2) [OF assms(2)]
        by (auto simp: SyncGroupReplicasToRisingWave_def isTargetObjMatched_def upToDate_def split: if_splits option.splits)
    qed
  qed (use assms(1) in \<open>simp add: SyncGroupReplicasToRisingWave_def\<close>)
qed

lemma Status_effect:
  assumes "SyncGroupReplicasStatusFromRisingWave mgr t = Returns (r, mgr', ws)" "sameView sv (svm_scaleView mgr)"
  shows "ws = [] \<and> sameView sv (svm_scaleView mgr') \<and> (svst_Locked (sv_Status (svm_scaleView mgr')) \<longrightarrow> svst_Locked (sv_Status (svm_scaleView mgr)))"
  using assms
  by (auto simp: SyncGroupReplicasStatusFromRisingWave_def setStatusReplicas_def setLocked_def sameView_def
      split: option.splits if_splits outcome.splits)

lemma Update_effect:
  assumes "UpdateScaleViewStatus api mgr = (r, mgr', ws)"
  shows "mgr' = mgr \<and> (ws = [] \<or> ws = [StatusUpdateSV (svm_scaleView mgr)])"
  using assms by (auto simp: UpdateScaleViewStatus_def Let_def split: if_splits)

text \<open>What is written to the log by an action of the run.\<close>

definition logged :: "RisingWaveScaleView \<Rightarrow> string \<Rightarrow> Res \<Rightarrow> ScaleWrite list \<Rightarrow> bool" where
  "logged sv a r ws \<longleftrightarrow> ws = [] \<or>
     (\<exists>rw rw'. a = ''GrabOrUpdateScaleViewLock'' \<and> r \<noteq> Continue \<and> om_UID (rw_Meta rw) = tr_UID (targetOf sv)
        \<and> GrabOrUpdateScaleViewLockFor rw sv = Returns (Inr (True, rw')) \<and> ws = [StatusUpdateRW rw']) \<or>
     (\<exists>rw l. a = ''SyncGroupReplicasToRisingWave'' \<and> upToDate sv rw l \<and> ws = [PatchRW (writeLocks rw (svComponent sv) (lk_GroupLocks l)) rw]) \<or>
     (\<exists>v. a = ''UpdateScaleViewStatus'' \<and> sameView sv v \<and> ws = [StatusUpdateSV v])"

text \<open>What holds of a run: the scale view in memory is that of the observed version, and it says that it is locked, in memory and in
  what was written, only if it said so before or the server accepted its lock.\<close>

definition lockKnown :: "RisingWaveScaleView \<Rightarrow> RisingWaveScaleView \<Rightarrow> (ScaleWrite \<times> ApiError option) list \<Rightarrow> bool" where
  "lockKnown sv v log \<longleftrightarrow> (svst_Locked (sv_Status v) \<longrightarrow> svst_Locked (sv_Status sv) \<or> (\<exists>rw'. (StatusUpdateRW rw', None) \<in> set log))"

lemma lockKnown_append: "lockKnown sv v log \<Longrightarrow> lockKnown sv v (log @ log')"
  by (auto simp: lockKnown_def)

definition run_ok :: "RisingWaveScaleView \<Rightarrow> ScaleRun \<Rightarrow> bool" where
  "run_ok sv s \<longleftrightarrow> sr_Target s = sv \<and> sameView sv (svm_scaleView (sr_Impl s))
     \<and> lockKnown sv (svm_scaleView (sr_Impl s)) (sr_Log s)
     \<and> (\<forall>v e. (StatusUpdateSV v, e) \<in> set (sr_Log s) \<longrightarrow> lockKnown sv v (sr_Log s))"

lemma scaleInvoke_Returns:
  "scaleInvoke m a st b = Returns x \<longleftrightarrow> (\<exists>r ws impl. b = Returns (r, impl, ws) \<and>
     x = \<lparr>sran_Res = r, sran_Writes = ws, sran_Impl = impl, sran_Hooks = (if vm_hook m then [ScalePreRun a st, ScalePostRun a r] else [])\<rparr>)"
  by (auto simp: scaleInvoke_def split: outcome.splits)

lemma scaleFetching_Returns:
  "scaleFetching m got k = Returns x \<longleftrightarrow>
     (\<exists>msg e. got = Inl (msg, e) \<and> x = \<lparr>sran_Res = RequeueErr msg e, sran_Writes = [], sran_Impl = vm_impl m, sran_Hooks = []\<rparr>)
     \<or> (\<exists>y. got = Inr y \<and> k y = Returns x)"
  by (auto simp: scaleFetching_def split: sum.splits)

lemma scaleManagerOf_impl [simp]: "vm_impl (scaleManagerOf c s w) = sr_Impl s"
  by (simp add: scaleManagerOf_def NewRisingWaveScaleViewControllerManager_def)

text \<open>One action of a run: its writes, what they are based on, and the invariant. An action sends at most one write.\<close>

definition stepped :: "RisingWaveScaleViewController \<Rightarrow> RisingWaveScaleView \<Rightarrow> string \<Rightarrow> ScaleRun \<Rightarrow> Res \<Rightarrow> ScaleRun \<Rightarrow> bool" where
  "stepped c sv a s r s' \<longleftrightarrow> run_ok sv s' \<and>
     (let w = sc_others c (sr_Step s) (sr_World s); api = scaleApiOf c s w in
      \<exists>ws. logged sv a r ws \<and> sr_Log s' = sr_Log s @ map (\<lambda>q. (q, api q)) ws
        \<and> sr_World s' = foldl (afterWrite c (sr_Step s) api) w ws
        \<and> (\<forall>rw'. StatusUpdateRW rw' \<in> set ws \<longrightarrow> (\<exists>rw. baseOf c s w = Some rw \<and> om_UID (rw_Meta rw) = tr_UID (targetOf sv)
             \<and> GrabOrUpdateScaleViewLockFor rw sv = Returns (Inr (True, rw')))))"

text \<open>The run after an action that returned.\<close>

definition runAfter :: "RisingWaveScaleViewController \<Rightarrow> ScaleRun \<Rightarrow> ScaleRan \<Rightarrow> ScaleRun" where
  "runAfter c s x =
     (let w = sc_others c (sr_Step s) (sr_World s); api = scaleApiOf c s w in
      s\<lparr>sr_Step := Suc (sr_Step s), sr_World := foldl (afterWrite c (sr_Step s) api) w (sran_Writes x),
        sr_Impl := sran_Impl x, sr_Log := sr_Log s @ map (\<lambda>q. (q, api q)) (sran_Writes x)\<rparr>)"

lemma runAfter_sel [simp]:
  "sr_Target (runAfter c s x) = sr_Target s" "sr_Impl (runAfter c s x) = sran_Impl x"
  "sr_Log (runAfter c s x) = sr_Log s @ map (\<lambda>q. (q, scaleApiOf c s (sc_others c (sr_Step s) (sr_World s)) q)) (sran_Writes x)"
  by (simp_all add: runAfter_def Let_def)

lemma scaleRunStep_after:
  assumes "scaleRunStep c a s = Returns (r, s')"
  obtains x where "a (scaleApiOf c s (sc_others c (sr_Step s) (sr_World s))) (scaleManagerOf c s (sc_others c (sr_Step s) (sr_World s))) = Returns x"
    "r = sran_Res x" "s' = runAfter c s x"
  using assms by (auto simp: scaleRunStep_def runAfter_def Let_def split: outcome.splits)

lemma steppedI:
  assumes "run_ok sv (runAfter c s x)" "logged sv a r (sran_Writes x)"
    and "\<And>rw'. sran_Writes x = [StatusUpdateRW rw'] \<Longrightarrow> \<exists>rw. baseOf c s (sc_others c (sr_Step s) (sr_World s)) = Some rw
      \<and> om_UID (rw_Meta rw) = tr_UID (targetOf sv) \<and> GrabOrUpdateScaleViewLockFor rw sv = Returns (Inr (True, rw'))"
  shows "stepped c sv a s r (runAfter c s x)"
proof -
  have one: "sran_Writes x = [StatusUpdateRW rw']" if "StatusUpdateRW rw' \<in> set (sran_Writes x)" for rw'
    using that assms(2) by (auto simp: logged_def)
  show ?thesis
    unfolding stepped_def Let_def
    by (intro conjI assms(1) exI [of _ "sran_Writes x"] assms(2)) (use one assms(3) in \<open>auto simp: runAfter_def Let_def\<close>)
qed

lemma run_ok_after:
  assumes "run_ok sv s" "sameView sv (svm_scaleView (sran_Impl x))" "lockKnown sv (svm_scaleView (sran_Impl x)) (sr_Log (runAfter c s x))"
    and "\<And>v. StatusUpdateSV v \<in> set (sran_Writes x) \<Longrightarrow> v = svm_scaleView (sr_Impl s)"
  shows "run_ok sv (runAfter c s x)"
  using assms lockKnown_append unfolding run_ok_def by (auto 0 3)

lemma silent_stepped: "run_ok sv s \<Longrightarrow> sran_Writes x = [] \<Longrightarrow> sran_Impl x = sr_Impl s \<Longrightarrow> stepped c sv a s r (runAfter c s x)"
  by (intro steppedI run_ok_after) (auto simp: run_ok_def logged_def)

lemma grab_stepped:
  assumes "scaleRunStep c GrabOrUpdateScaleViewLock_action s = Returns (r, s')" "run_ok sv s"
  shows "stepped c sv ''GrabOrUpdateScaleViewLock'' s r s'"
proof -
  let ?w = "sc_others c (sr_Step s) (sr_World s)"
  let ?api = "scaleApiOf c s ?w"
  obtain x where x: "GrabOrUpdateScaleViewLock_action ?api (scaleManagerOf c s ?w) = Returns x" "r = sran_Res x" and s': "s' = runAfter c s x"
    using assms(1) by (rule scaleRunStep_after)
  have v: "sameView sv (svm_scaleView (sr_Impl s))" using assms(2) by (simp add: run_ok_def)
  from x(1) consider (unread) "sran_Writes x = []" "sran_Impl x = sr_Impl s"
    | (read) t where "baseOf c s ?w = t" "GrabOrUpdateScaleViewLock ?api (sr_Impl s) t = Returns (r, sran_Impl x, sran_Writes x)"
    by (auto simp: GrabOrUpdateScaleViewLock_action_def scaleFetching_Returns scaleInvoke_Returns baseOf_def x(2))
  then show ?thesis
  proof cases
    case (read t)
    from Grab_effect [OF read(2) v] consider (none) "sran_Writes x = []" "sran_Impl x = sr_Impl s"
      | (wrote) rw rw' where "t = Some rw" "om_UID (rw_Meta rw) = tr_UID (targetOf sv)" "GrabOrUpdateScaleViewLockFor rw sv = Returns (Inr (True, rw'))"
        "sran_Writes x = [StatusUpdateRW rw']" "r \<noteq> Continue" "sran_Impl x = (if ?api (StatusUpdateRW rw') = None then setLocked True (sr_Impl s) else sr_Impl s)"
      by blast
    then show ?thesis
    proof cases
      case wrote
      have "run_ok sv (runAfter c s x)"
        using assms(2) wrote(4,6) by (intro run_ok_after) (auto simp: run_ok_def lockKnown_def setLocked_def sameView_def)
      then show ?thesis unfolding s' using wrote read(1) by (intro steppedI) (auto simp: logged_def)
    qed (use assms(2) in \<open>simp add: s' silent_stepped\<close>)
  qed (use assms(2) in \<open>simp add: s' silent_stepped\<close>)
qed

lemma sync_stepped:
  assumes "scaleRunStep c SyncGroupReplicasToRisingWave_action s = Returns (r, s')" "run_ok sv s" "known_component (svComponent sv)"
  shows "stepped c sv ''SyncGroupReplicasToRisingWave'' s r s'"
proof -
  let ?w = "sc_others c (sr_Step s) (sr_World s)"
  let ?api = "scaleApiOf c s ?w"
  obtain x where x: "SyncGroupReplicasToRisingWave_action ?api (scaleManagerOf c s ?w) = Returns x" "r = sran_Res x" and s': "s' = runAfter c s x"
    using assms(1) by (rule scaleRunStep_after)
  have v: "sameView sv (svm_scaleView (sr_Impl s))" using assms(2) by (simp add: run_ok_def)
  from x(1) consider (unread) "sran_Writes x = []" "sran_Impl x = sr_Impl s"
    | (read) t where "SyncGroupReplicasToRisingWave ?api (sr_Impl s) t = Returns (r, sran_Impl x, sran_Writes x)"
    by (auto simp: SyncGroupReplicasToRisingWave_action_def scaleFetching_Returns scaleInvoke_Returns x(2))
  then show ?thesis
  proof cases
    case (read t)
    note e = Sync_effect [OF read v assms(3)]
    then have "run_ok sv (runAfter c s x)"
      using assms(2) by (intro run_ok_after) (auto simp: run_ok_def intro: lockKnown_append)
    then show ?thesis unfolding s' using e by (intro steppedI) (auto simp: logged_def)
  qed (use assms(2) in \<open>simp add: s' silent_stepped\<close>)
qed

lemma status_stepped:
  assumes "scaleRunStep c SyncGroupReplicasStatusFromRisingWave_action s = Returns (r, s')" "run_ok sv s"
  shows "stepped c sv ''SyncGroupReplicasStatusFromRisingWave'' s r s'"
proof -
  let ?w = "sc_others c (sr_Step s) (sr_World s)"
  let ?api = "scaleApiOf c s ?w"
  obtain x where x: "SyncGroupReplicasStatusFromRisingWave_action ?api (scaleManagerOf c s ?w) = Returns x" "r = sran_Res x" and s': "s' = runAfter c s x"
    using assms(1) by (rule scaleRunStep_after)
  have v: "sameView sv (svm_scaleView (sr_Impl s))" using assms(2) by (simp add: run_ok_def)
  from x(1) consider (unread) "sran_Writes x = []" "sran_Impl x = sr_Impl s"
    | (read) t where "SyncGroupReplicasStatusFromRisingWave (sr_Impl s) t = Returns (r, sran_Impl x, sran_Writes x)"
    by (auto simp: SyncGroupReplicasStatusFromRisingWave_action_def scaleFetching_Returns scaleInvoke_Returns x(2))
  then show ?thesis
  proof cases
    case (read t)
    note e = Status_effect [OF read v]
    then have "run_ok sv (runAfter c s x)"
      using assms(2) by (intro run_ok_after) (auto simp: run_ok_def lockKnown_def)
    then show ?thesis unfolding s' using e by (intro steppedI) (auto simp: logged_def)
  qed (use assms(2) in \<open>simp add: s' silent_stepped\<close>)
qed

lemma update_stepped:
  assumes "scaleRunStep c UpdateScaleViewStatus_action s = Returns (r, s')" "run_ok sv s"
  shows "stepped c sv ''UpdateScaleViewStatus'' s r s'"
proof -
  let ?w = "sc_others c (sr_Step s) (sr_World s)"
  let ?api = "scaleApiOf c s ?w"
  obtain x where x: "UpdateScaleViewStatus_action ?api (scaleManagerOf c s ?w) = Returns x" "r = sran_Res x" and s': "s' = runAfter c s x"
    using assms(1) by (rule scaleRunStep_after)
  then have e: "sran_Impl x = sr_Impl s \<and> (sran_Writes x = [] \<or> sran_Writes x = [StatusUpdateSV (svm_scaleView (sr_Impl s))])"
    using Update_effect by (auto simp: UpdateScaleViewStatus_action_def scaleInvoke_Returns) metis+
  then have "run_ok sv (runAfter c s x)" using assms(2) by (intro run_ok_after) (auto simp: run_ok_def intro: lockKnown_append)
  then show ?thesis unfolding s' using e assms(2) by (intro steppedI) (auto simp: logged_def run_ok_def)
qed

lemma scaleActionOf_stepped:
  assumes "scaleActionOf c a s = Returns (r, s')" "run_ok sv s" "known_component (svComponent sv)"
  shows "stepped c sv a s r s'"
  using assms grab_stepped sync_stepped status_stepped update_stepped by (auto simp: scaleActionOf_def split: if_splits)

section \<open>Runs are sequences of protocol steps\<close>

text \<open>What the API server documents: others take steps of the protocol; an update is accepted only when the object that was read is the
  stored one; an accepted status update stores the status, a patch that keeps the status leaves the locks, and
  the status of a scale view is stored when it still exists under the name and uid.\<close>

definition scale_server :: "RisingWaveScaleViewController \<Rightarrow> bool" where
  "scale_server c \<longleftrightarrow> (\<forall>n w.
     scale_step\<^sup>*\<^sup>* w (sc_others c n w)
     \<and> (\<forall>rw rw'. sc_answer c n w (Some rw) (StatusUpdateRW rw') = None \<longrightarrow> om_UID (rw_Meta rw) = om_UID (rw_Meta (w_rw w)) \<longrightarrow> rw = w_rw w)
     \<and> (\<forall>rw'. om_UID (rw_Meta rw') = om_UID (rw_Meta (w_rw w)) \<longrightarrow>
          (\<exists>x. locksOf x = locksOf rw' \<and> sc_effect c n w (StatusUpdateRW rw') = w\<lparr>w_rw := x\<rparr>))
     \<and> (\<forall>rw'. om_UID (rw_Meta rw') \<noteq> om_UID (rw_Meta (w_rw w)) \<longrightarrow> sc_effect c n w (StatusUpdateRW rw') = w)
     \<and> (\<forall>rw rw'. rw_Status rw' = rw_Status rw \<longrightarrow>
          (\<exists>x. locksOf x = locksOf (w_rw w) \<and> sc_effect c n w (PatchRW rw' rw) = w\<lparr>w_rw := x\<rparr>))
     \<and> (\<forall>v. sc_effect c n w (StatusUpdateSV v) = w \<or>
          (\<exists>old \<in> set (w_views w). svName old = svName v \<and> svUID old = svUID v \<and>
             sc_effect c n w (StatusUpdateSV v) = w\<lparr>w_views := old\<lparr>sv_Status := sv_Status v\<rparr> # remove1 old (w_views w),
               w_seen := old\<lparr>sv_Status := sv_Status v\<rparr> # w_seen w\<rparr>)))"

lemma scale_step_seen: "scale_step w w' \<Longrightarrow> set (w_seen w) \<subseteq> set (w_seen w')"
  by (auto elim: scale_step.cases)

lemma scale_steps_seen: "scale_step\<^sup>*\<^sup>* w w' \<Longrightarrow> set (w_seen w) \<subseteq> set (w_seen w')"
  by (induction rule: rtranclp_induct) (use scale_step_seen in blast)+

lemma GrabOrUpdate_meta:
  assumes "GrabOrUpdateScaleViewLockFor rw sv = Returns (Inr (u, rw'))"
  shows "rw_Meta rw' = rw_Meta rw"
  using assms by (cases rule: GrabOrUpdate_cases) (auto elim!: Grab_Inr simp: setLocks_def)

text \<open>The effect of one write.\<close>

lemma lock_write_step:
  assumes "scale_server c" "sv \<in> set (w_seen w)" "sc_answer c n w (Some rw) (StatusUpdateRW rw') = None"
    and "om_UID (rw_Meta rw) = tr_UID (targetOf sv)" "GrabOrUpdateScaleViewLockFor rw sv = Returns (Inr (True, rw'))"
  shows "scale_step\<^sup>*\<^sup>* w (sc_effect c n w (StatusUpdateRW rw'))"
proof (cases "om_UID (rw_Meta rw) = om_UID (rw_Meta (w_rw w))")
  case True
  then have rw: "rw = w_rw w" and uid: "om_UID (rw_Meta rw') = om_UID (rw_Meta (w_rw w))"
    using assms(1,3) GrabOrUpdate_meta [OF assms(5)] unfolding scale_server_def by (blast, simp)
  obtain x where x: "locksOf x = locksOf rw'" "sc_effect c n w (StatusUpdateRW rw') = w\<lparr>w_rw := x\<rparr>"
    using assms(1) uid unfolding scale_server_def by blast
  have "GrabOrUpdateScaleViewLock (\<lambda>_. None) (NewRisingWaveScaleViewControllerManagerImpl sv) (Some (w_rw w)) =
      Returns (RequeueImmediately, setLocked True (NewRisingWaveScaleViewControllerManagerImpl sv), [StatusUpdateRW rw'])"
    using assms(4,5) by (simp add: GrabOrUpdateScaleViewLock_def isTargetObjMatched_def mgr_scaleView rw)
  then have "scale_step w (w\<lparr>w_rw := rw'\<rparr>)" by (rule scale_step.lock [OF assms(2)])
  moreover have "scale_step (w\<lparr>w_rw := rw'\<rparr>) (w\<lparr>w_rw := x\<rparr>)" using scale_step.edit [of x "w\<lparr>w_rw := rw'\<rparr>"] x(1) by simp
  ultimately show ?thesis unfolding x(2) by (meson converse_rtranclp_into_rtranclp r_into_rtranclp)
next
  case False
  then have "om_UID (rw_Meta rw') \<noteq> om_UID (rw_Meta (w_rw w))" using GrabOrUpdate_meta [OF assms(5)] by simp
  then have "sc_effect c n w (StatusUpdateRW rw') = w" using assms(1) unfolding scale_server_def by blast
  then show ?thesis by simp
qed

lemma patch_write_step:
  assumes "scale_server c" "rw_Status rw' = rw_Status rw"
  shows "scale_step\<^sup>*\<^sup>* w (sc_effect c n w (PatchRW rw' rw))"
proof -
  obtain x where "locksOf x = locksOf (w_rw w)" "sc_effect c n w (PatchRW rw' rw) = w\<lparr>w_rw := x\<rparr>"
    using assms unfolding scale_server_def by blast
  then show ?thesis by (auto intro: scale_step.edit)
qed

lemma status_write_step: "scale_server c \<Longrightarrow> scale_step\<^sup>*\<^sup>* w (sc_effect c n w (StatusUpdateSV v))"
  unfolding scale_server_def by (metis r_into_rtranclp rtranclp.rtrancl_refl scale_step.view_status)

lemma stepped_protocol:
  assumes "scale_server c" "stepped c sv a s r s'" "sv \<in> set (w_seen (sr_World s))"
  shows "scale_step\<^sup>*\<^sup>* (sr_World s) (sr_World s')"
proof -
  let ?w = "sc_others c (sr_Step s) (sr_World s)"
  let ?api = "scaleApiOf c s ?w"
  obtain ws where ws: "logged sv a r ws" "sr_World s' = foldl (afterWrite c (sr_Step s) ?api) ?w ws"
    and base: "\<forall>rw'. StatusUpdateRW rw' \<in> set ws \<longrightarrow> (\<exists>rw. baseOf c s ?w = Some rw \<and> om_UID (rw_Meta rw) = tr_UID (targetOf sv)
             \<and> GrabOrUpdateScaleViewLockFor rw sv = Returns (Inr (True, rw')))"
    using assms(2) unfolding stepped_def Let_def by blast
  have others: "scale_step\<^sup>*\<^sup>* (sr_World s) ?w" using assms(1) by (simp add: scale_server_def)
  then have seen: "sv \<in> set (w_seen ?w)" using assms(3) scale_steps_seen by blast
  have "scale_step\<^sup>*\<^sup>* ?w (afterWrite c (sr_Step s) ?api ?w q)" if "ws = [q]" for q
    using ws(1) base lock_write_step [OF assms(1) seen] patch_write_step [OF assms(1)] status_write_step [OF assms(1)]
    unfolding that by (auto simp: logged_def afterWrite_def writeLocks_status)
  moreover have "ws = [] \<or> (\<exists>q. ws = [q])" using ws(1) by (auto simp: logged_def)
  ultimately show ?thesis using others ws(2) by (auto intro: rtranclp_trans)
qed

definition advances :: "RisingWaveScaleView \<Rightarrow> ScaleRun \<Rightarrow> ScaleRun \<Rightarrow> bool" where
  "advances sv s s' \<longleftrightarrow> (run_ok sv s \<longrightarrow> sv \<in> set (w_seen (sr_World s)) \<longrightarrow>
     run_ok sv s' \<and> sv \<in> set (w_seen (sr_World s')) \<and> scale_step\<^sup>*\<^sup>* (sr_World s) (sr_World s'))"

lemma replay_advances:
  assumes "scale_server c" "known_component (svComponent sv)" "replay (scaleActionOf c) s t = Some s'"
  shows "advances sv s s'"
proof (rule replay_rel [OF assms(3)])
  show "\<forall>a r u v. Ran a r \<in> set t \<longrightarrow> scaleActionOf c a u = Returns (r, v) \<longrightarrow> advances sv u v"
  proof (intro allI impI)
    fix a r u v
    assume e: "scaleActionOf c a u = Returns (r, v)"
    have st: "stepped c sv a u r v" if "run_ok sv u" using scaleActionOf_stepped [OF e that assms(2)] .
    then have "scale_step\<^sup>*\<^sup>* (sr_World u) (sr_World v)" if "run_ok sv u" "sv \<in> set (w_seen (sr_World u))"
      using stepped_protocol [OF assms(1)] that by blast
    then show "advances sv u v" using st scale_steps_seen unfolding advances_def stepped_def by blast
  qed
qed (auto simp: advances_def intro: rtranclp_trans)

lemma startScaleRun_ok: "run_ok sv (startScaleRun sv w)"
  by (simp add: run_ok_def lockKnown_def startScaleRun_def NewRisingWaveScaleViewControllerManagerImpl_def)

section \<open>The order of the writes\<close>

text \<open>What the actions of a run wrote, one list for each event.\<close>

fun loggedBy :: "RisingWaveScaleView \<Rightarrow> Event \<Rightarrow> ScaleWrite list \<Rightarrow> bool" where
  "loggedBy sv (Ran a r) ws = logged sv a r ws"
| "loggedBy sv e ws = (ws = [])"

lemma replay_logged:
  assumes "replay (scaleActionOf c) s t = Some s'" "run_ok sv s" "known_component (svComponent sv)"
  shows "run_ok sv s' \<and> (\<exists>ls. list_all2 (loggedBy sv) t ls \<and> map fst (sr_Log s') = map fst (sr_Log s) @ concat ls)"
  using assms(1,2)
proof (induction t arbitrary: s)
  case (Cons e t)
  show ?case
  proof (cases e)
    case (Ran a r)
    then obtain v where v: "scaleActionOf c a s = Returns (r, v)" "replay (scaleActionOf c) v t = Some s'"
      using Cons.prems(1) by (auto simp: replay_Ran simp del: replay.simps)
    have st: "stepped c sv a s r v" using scaleActionOf_stepped [OF v(1) Cons.prems(2) assms(3)] .
    then obtain ws where "logged sv a r ws" "map fst (sr_Log v) = map fst (sr_Log s) @ ws"
      unfolding stepped_def Let_def by (auto simp: comp_def)
    moreover obtain ls where "list_all2 (loggedBy sv) t ls" "map fst (sr_Log s') = map fst (sr_Log v) @ concat ls" "run_ok sv s'"
      using Cons.IH [OF v(2)] st by (auto simp: stepped_def)
    ultimately show ?thesis using Ran by (auto intro!: exI [of _ "ws # ls"])
  next
    case (SharedRan r)
    then have "replay (scaleActionOf c) s t = Some s'" using Cons.prems by simp
    then obtain ls where "list_all2 (loggedBy sv) t ls" "map fst (sr_Log s') = map fst (sr_Log s) @ concat ls" "run_ok sv s'"
      using Cons.IH Cons.prems(2) by blast
    then show ?thesis using SharedRan by (auto intro!: exI [of _ "[] # ls"])
  next
    case (SharedUsed r)
    then have "replay (scaleActionOf c) s t = Some s'" using Cons.prems by simp
    then obtain ls where "list_all2 (loggedBy sv) t ls" "map fst (sr_Log s') = map fst (sr_Log s) @ concat ls" "run_ok sv s'"
      using Cons.IH Cons.prems(2) by blast
    then show ?thesis using SharedUsed by (auto intro!: exI [of _ "[] # ls"])
  qed
qed simp

abbreviation grabName :: string where "grabName \<equiv> ''GrabOrUpdateScaleViewLock''"
abbreviation syncName :: string where "syncName \<equiv> ''SyncGroupReplicasToRisingWave''"
abbreviation collectName :: string where "collectName \<equiv> ''SyncGroupReplicasStatusFromRisingWave''"
abbreviation updateName :: string where "updateName \<equiv> ''UpdateScaleViewStatus''"

text \<open>The runs of the workflow: at most three attempts to take the lock, the sync only after one that continued, the collection of the
  replicas anywhere in between, and the status update at the end.\<close>

lemma retry_action:
  "runs x t r \<Longrightarrow> x = RetryInterval n d (Action a) \<Longrightarrow> \<exists>rs. t = map (Ran a) (rs @ [r]) \<and> length rs \<le> n"
proof (induction arbitrary: n rule: runs_runs_seq_runs_par_runs_ord.inducts(1) [where ?P2.0 = "\<lambda>_ _ _. True" and ?P3.0 = "\<lambda>_ _ _. True" and ?P4.0 = "\<lambda>_ _ _. True"])
  case (retry_last x t r n' d')
  then show ?case by (auto elim!: runs_ActionE)
next
  case (retry_again x t r' n' d' u r)
  then obtain rs where "u = map (Ran a) (rs @ [r])" "length rs \<le> n'" by auto
  moreover have "t = [Ran a r']" using retry_again by (auto elim!: runs_ActionE)
  ultimately show ?case using retry_again by (intro exI [of _ "r' # rs"]) auto
qed auto

definition grabSync :: Workflow where
  "grabSync = Sequential
     [RetryInterval RisingWaveScaleViewSyncLockRetryLimit RisingWaveScaleViewSyncLockRetryInterval (Action grabName), Action syncName]"

lemma grabSync_runs:
  assumes "runs grabSync t r"
  shows "\<exists>rs g ss. t = map (Ran grabName) (rs @ [g]) @ ss \<and> length rs \<le> 2 \<and> (ss = [] \<or> g = Continue \<and> (\<exists>q. ss = [Ran syncName q]))"
proof -
  let ?grab = "RetryInterval RisingWaveScaleViewSyncLockRetryLimit RisingWaveScaleViewSyncLockRetryInterval (Action grabName)"
  from assms have "runs_seq [?grab, Action syncName] t r" unfolding grabSync_def by (rule runs_SequentialE) blast
  then consider (stop) "runs ?grab t r" | (go) t1 u where "runs ?grab t1 Continue" "runs_seq [Action syncName] u r" "t = t1 @ u"
    by (rule runs_seq_ConsE) blast+
  then show ?thesis
  proof cases
    case stop
    then show ?thesis using retry_action [OF stop refl] by (auto simp: RisingWaveScaleViewSyncLockRetryLimit_def)
  next
    case go
    obtain q where "u = [Ran syncName q]" using go(2) by (auto elim!: runs_seq_ConsE runs_ActionE runs_seq_NilE)
    moreover obtain rs where "t1 = map (Ran grabName) (rs @ [Continue])" "length rs \<le> 2"
      using retry_action [OF go(1) refl] by (auto simp: RisingWaveScaleViewSyncLockRetryLimit_def)
    ultimately show ?thesis using go(3) by blast
  qed
qed

definition isCollect :: "Event \<Rightarrow> bool" where
  "isCollect e \<longleftrightarrow> (\<exists>r. e = Ran collectName r)"

lemma scaleWorkflow_runs:
  assumes "runs (scaleWorkflow False) t r"
  shows "\<exists>rs g ss q. filter (\<lambda>e. \<not> isCollect e) t = map (Ran grabName) (rs @ [g]) @ ss @ [Ran updateName q]
    \<and> length rs \<le> 2 \<and> (ss = [] \<or> g = Continue \<and> (\<exists>q. ss = [Ran syncName q]))"
proof -
  have "runs (OrderedJoin [Join [grabSync, Action collectName], Action updateName]) t r"
    using assms by (auto simp: scaleWorkflow_def grabSync_def elim: runs_WhenTrueE)
  then obtain rs where "runs_ord [Join [grabSync, Action collectName], Action updateName] t rs" by (rule runs_OrderedJoinE)
  then obtain t1 r1 q where t: "runs (Join [grabSync, Action collectName]) t1 r1" "t = t1 @ [Ran updateName q]"
    by (auto elim!: runs_ord_ConsE runs_ActionE runs_ord_NilE)
  from t(1) obtain rs' where "runs_par [grabSync, Action collectName] t1 rs'" by (rule runs_JoinE)
  then obtain t2 r2 q2 where t2: "runs grabSync t2 r2" "t1 \<in> shuffles t2 [Ran collectName q2]"
    by (auto elim!: runs_par_ConsE runs_ActionE runs_par_NilE)
  have "filter (\<lambda>e. \<not> isCollect e) t1 \<in> shuffles (filter (\<lambda>e. \<not> isCollect e) t2) (filter (\<lambda>e. \<not> isCollect e) [Ran collectName q2])"
    using t2(2) filter_shuffles by blast
  then have "filter (\<lambda>e. \<not> isCollect e) t1 = filter (\<lambda>e. \<not> isCollect e) t2" by (simp add: isCollect_def)
  moreover have "filter (\<lambda>e. \<not> isCollect e) t2 = t2"
    using grabSync_runs [OF t2(1)] by (auto simp: isCollect_def filter_id_conv)
  ultimately have "filter (\<lambda>e. \<not> isCollect e) t = t2 @ [Ran updateName q]" using t(2) by (simp add: isCollect_def)
  then show ?thesis using grabSync_runs [OF t2(1)] by auto
qed

lemma loggedBy_collect: "isCollect e \<Longrightarrow> loggedBy sv e ws \<Longrightarrow> ws = []"
  by (auto simp: isCollect_def logged_def)

lemma logged_filter:
  "list_all2 (loggedBy sv) t ls \<Longrightarrow> \<exists>ls'. list_all2 (loggedBy sv) (filter (\<lambda>e. \<not> isCollect e) t) ls' \<and> concat ls' = concat ls"
proof (induction t ls rule: list_all2_induct)
  case (Cons e t ws ls)
  then obtain ls' where "list_all2 (loggedBy sv) (filter (\<lambda>e. \<not> isCollect e) t) ls'" "concat ls' = concat ls" by blast
  then show ?case
    using Cons.hyps(1) loggedBy_collect [of e sv ws] by (intro exI [of _ "if isCollect e then ls' else ws # ls'"]) auto
qed simp

text \<open>A lock that is written is the lock of this version of the scale view and holds the division of its replicas.\<close>

lemma lockIndex_last: "lockIndex ls sv = None \<Longrightarrow> lk_Name l = svName sv \<Longrightarrow> lk_UID l = svUID sv \<Longrightarrow> lockIndex (ls @ [l]) sv = Some (length ls)"
  by (induction ls) (auto split: if_splits)

lemma lockIndex_update:
  "lockIndex ls sv = Some i \<Longrightarrow> lk_Name l = svName sv \<Longrightarrow> lk_UID l = svUID sv \<Longrightarrow> lockIndex (ls[i := l]) sv = Some i"
  by (induction ls arbitrary: i) (auto split: if_splits)

definition holdsSplit :: "RisingWaveScaleView \<Rightarrow> RisingWave \<Rightarrow> bool" where
  "holdsSplit sv rw \<longleftrightarrow> (\<exists>l r. upToDate sv rw l \<and> SplitReplicas sv = Returns r \<and> lk_GroupLocks l = groupLocksFor sv r)"

lemma lock_written_holds:
  assumes "GrabOrUpdateScaleViewLockFor rw sv = Returns (Inr (True, rw'))" "om_UID (rw_Meta rw) = tr_UID (targetOf sv)"
  shows "holdsSplit sv rw'"
  using assms(1)
proof (cases rule: GrabOrUpdate_cases)
  case grab
  obtain r where r: "SplitReplicas sv = Returns r" "rw' = setLocks rw (locksOf rw @ [\<lparr>lk_Name = svName sv, lk_UID = svUID sv,
      lk_Component = svComponent sv, lk_Generation = svGeneration sv, lk_GroupLocks = groupLocksFor sv r\<rparr>])"
    using Grab_Inr [OF grab(3)] by blast
  let ?l = "\<lparr>lk_Name = svName sv, lk_UID = svUID sv, lk_Component = svComponent sv, lk_Generation = svGeneration sv, lk_GroupLocks = groupLocksFor sv r\<rparr>"
  have "GetScaleViewLock rw' sv = Some ?l"
    using lockIndex_last [OF grab(1), of ?l] by (simp add: GetScaleViewLock_def getScaleViewLockIndex_def r(2))
  then have "upToDate sv rw' ?l" using assms(2) by (simp add: upToDate_def r(2) setLocks_def)
  then show ?thesis using r(1) unfolding holdsSplit_def by (intro exI [of _ ?l] exI [of _ r]) simp
next
  case (update i r)
  let ?l = "(locksOf rw ! i)\<lparr>lk_Generation := svGeneration sv, lk_GroupLocks := groupLocksFor sv r\<rparr>"
  have i: "i < length (locksOf rw)" "lk_Name ?l = svName sv" "lk_UID ?l = svUID sv" using lockIndex_Some [OF update(1)] by simp_all
  have "GetScaleViewLock rw' sv = Some ?l"
    using lockIndex_update [OF update(1) i(2,3)] i(1) by (simp add: GetScaleViewLock_def getScaleViewLockIndex_def update(5))
  then have "upToDate sv rw' ?l" using assms(2) by (simp add: upToDate_def update(5) setLocks_def)
  then show ?thesis using update(3) unfolding holdsSplit_def by (intro exI [of _ ?l] exI [of _ r]) simp
qed simp

text \<open>The replicas of the groups of a lock.\<close>

definition lockedReplicas :: "RisingWaveScaleViewLock \<Rightarrow> string \<rightharpoonup> int" where
  "lockedReplicas l = map_of (map (\<lambda>g. (gl_Name g, gl_Replicas g)) (lk_GroupLocks l))"

definition appliesLock :: "RisingWaveScaleView \<Rightarrow> RisingWaveScaleViewLock \<Rightarrow> RisingWave \<Rightarrow> RisingWave \<Rightarrow> bool" where
  "appliesLock sv l rw rw' \<longleftrightarrow> rw_Status rw' = rw_Status rw \<and>
     (distinct (map gl_Name (lk_GroupLocks l)) \<longrightarrow> (\<forall>c g. replicasOf rw' c g =
        (if c = svComponent sv \<and> replicasOf rw c g \<noteq> None \<and> lockedReplicas l g \<noteq> None then lockedReplicas l g else replicasOf rw c g)))"

lemma writeLocks_applies: "known_component (svComponent sv) \<Longrightarrow> appliesLock sv l rw (writeLocks rw (svComponent sv) (lk_GroupLocks l))"
  by (auto simp: appliesLock_def writeLocks_status replicasOf_writeLocks lockedReplicas_def split: option.split)

text \<open>The writes of the attempts to take the lock, of the sync and of the status update.\<close>

lemma grab_logs:
  assumes "list_all2 (loggedBy sv) (map (Ran grabName) rs) ls"
  shows "length (concat ls) \<le> length (filter (\<lambda>r. r \<noteq> Continue) rs) \<and>
    (\<forall>q \<in> set (concat ls). \<exists>rw'. q = StatusUpdateRW rw' \<and> holdsSplit sv rw')"
  using assms
proof (induction rs arbitrary: ls)
  case (Cons r rs)
  then obtain ws ls' where ls: "ls = ws # ls'" "logged sv grabName r ws" "list_all2 (loggedBy sv) (map (Ran grabName) rs) ls'"
    by (auto simp: list_all2_Cons1)
  then have "ws = [] \<or> r \<noteq> Continue \<and> (\<exists>rw'. ws = [StatusUpdateRW rw'] \<and> holdsSplit sv rw')"
    using lock_written_holds by (auto simp: logged_def)
  then show ?case using Cons.IH [OF ls(3)] ls(1) by auto
qed simp

lemma sync_logs:
  "logged sv syncName r ws \<Longrightarrow> known_component (svComponent sv) \<Longrightarrow>
     ws = [] \<or> (\<exists>rw rw' l. ws = [PatchRW rw' rw] \<and> upToDate sv rw l \<and> appliesLock sv l rw rw')"
  using writeLocks_applies unfolding logged_def by blast

lemma update_logs: "logged sv updateName r ws \<Longrightarrow> ws = [] \<or> (\<exists>v. ws = [StatusUpdateSV v] \<and> sameView sv v)"
  by (auto simp: logged_def)

lemma workflow_logs:
  assumes "list_all2 (loggedBy sv) (map (Ran grabName) (rs @ [g]) @ ss @ [Ran updateName q]) ls" "known_component (svComponent sv)"
    and "length rs \<le> 2" "ss = [] \<or> g = Continue \<and> (\<exists>q. ss = [Ran syncName q])"
  obtains locks patch status where "concat ls = locks @ patch @ status"
    "length locks \<le> 3" "patch \<noteq> [] \<longrightarrow> length locks \<le> 2" "\<forall>q \<in> set locks. \<exists>rw'. q = StatusUpdateRW rw' \<and> holdsSplit sv rw'"
    "patch = [] \<or> (\<exists>rw rw' l. patch = [PatchRW rw' rw] \<and> upToDate sv rw l \<and> appliesLock sv l rw rw')"
    "status = [] \<or> (\<exists>v. status = [StatusUpdateSV v] \<and> sameView sv v)"
proof -
  obtain ls1 ls2 ws where ls: "ls = ls1 @ ls2 @ [ws]" "list_all2 (loggedBy sv) (map (Ran grabName) (rs @ [g])) ls1"
    "list_all2 (loggedBy sv) ss ls2" "logged sv updateName q ws"
    using assms(1) unfolding list_all2_append1 [of _ "map (Ran grabName) (rs @ [g])"] list_all2_append1 [of _ ss] by (auto simp: list_all2_Cons1)
  note grab = grab_logs [OF ls(2)]
  have "length (filter (\<lambda>r. r \<noteq> Continue) rs) \<le> 2" using le_trans [OF length_filter_le assms(3)] .
  then have "length (filter (\<lambda>r. r \<noteq> Continue) (rs @ [g])) \<le> (if g = Continue then 2 else 3)" by simp
  then have len: "length (concat ls1) \<le> (if g = Continue then 2 else 3)" using grab by linarith
  have "ls2 = [] \<or> g = Continue \<and> (\<exists>p r. ls2 = [p] \<and> logged sv syncName r p)" using assms(4) ls(3) by (auto simp: list_all2_Cons1) blast+
  then have patch: "concat ls2 = [] \<or> g = Continue \<and> (\<exists>rw rw' l. concat ls2 = [PatchRW rw' rw] \<and> upToDate sv rw l \<and> appliesLock sv l rw rw')"
    by (auto dest!: sync_logs [OF _ assms(2)])
  show thesis
  proof (rule that)
    show "concat ls = concat ls1 @ concat ls2 @ ws" using ls(1) by simp
    show "length (concat ls1) \<le> 3" using len by (auto split: if_splits)
    show "concat ls2 \<noteq> [] \<longrightarrow> length (concat ls1) \<le> 2" using len patch by auto
    show "\<forall>q \<in> set (concat ls1). \<exists>rw'. q = StatusUpdateRW rw' \<and> holdsSplit sv rw'" using grab by blast
    show "concat ls2 = [] \<or> (\<exists>rw rw' l. concat ls2 = [PatchRW rw' rw] \<and> upToDate sv rw l \<and> appliesLock sv l rw rw')" using patch by blast
    show "ws = [] \<or> (\<exists>v. ws = [StatusUpdateSV v] \<and> sameView sv v)" using update_logs [OF ls(4)] .
  qed
qed

section \<open>Properties\<close>

text \<open>C12: In every run of the scale view controller, with stale reads and with others working on the cluster, the writes come in one
  order: at most three status updates of the RisingWave that hold a lock of this version with the division of its
  replicas, then at most one patch, which gives the locked groups the locked replicas under an up-to-date lock, changes no other replicas and
  keeps the status, and at last at most one status update of the scale view, which keeps its specification and claims a new lock only if
  the server accepted one in this run. A scale view that is being deleted leads to no write.\<close>
theorem scale_run_writes:
  assumes library: "\<And>x t r. ctrlkit x t r \<Longrightarrow> runs x t r"
    and "known_component (svComponent sv)" "scale_reconciles ctrlkit c (Inr sv) w r (Some s)"
  shows "\<exists>locks patch status. map fst (sr_Log s) = locks @ patch @ status
    \<and> length locks \<le> 3 \<and> (\<forall>q \<in> set locks. \<exists>rw'. q = StatusUpdateRW rw' \<and> holdsSplit sv rw')
    \<and> (patch \<noteq> [] \<longrightarrow> length locks \<le> 2)
    \<and> (patch = [] \<or> (\<exists>rw rw' l. patch = [PatchRW rw' rw] \<and> upToDate sv rw l \<and> appliesLock sv l rw rw'))
    \<and> (status = [] \<or> (\<exists>v. status = [StatusUpdateSV v] \<and> sameView sv v \<and>
        (svst_Locked (sv_Status v) \<longrightarrow> svst_Locked (sv_Status sv) \<or> (\<exists>rw'. (StatusUpdateRW rw', None) \<in> set (sr_Log s)))))
    \<and> (om_DeletionTimestamp (sv_Meta sv) \<noteq> None \<longrightarrow> sr_Log s = [])"
proof -
  obtain t r' where t: "ctrlkit (scaleWorkflow (om_DeletionTimestamp (sv_Meta sv) \<noteq> None)) t r'"
    "replay (scaleActionOf c) (startScaleRun sv w) t = Some s"
    using assms(3) by (auto elim: scale_reconcilesE)
  obtain ls where ok: "run_ok sv s" and ls: "list_all2 (loggedBy sv) t ls" "map fst (sr_Log s) = concat ls"
    using replay_logged [OF t(2) startScaleRun_ok assms(2)] by (auto simp: startScaleRun_def)
  show ?thesis
  proof (cases "om_DeletionTimestamp (sv_Meta sv) = None")
    case True
    then have "runs (scaleWorkflow False) t r'" using library t(1) by simp
    from scaleWorkflow_runs [OF this] obtain rs g ss q
      where f: "filter (\<lambda>e. \<not> isCollect e) t = map (Ran grabName) (rs @ [g]) @ ss @ [Ran updateName q]"
        "length rs \<le> 2" "ss = [] \<or> g = Continue \<and> (\<exists>q. ss = [Ran syncName q])" by blast
    obtain ls' where ls': "list_all2 (loggedBy sv) (map (Ran grabName) (rs @ [g]) @ ss @ [Ran updateName q]) ls'" "concat ls' = concat ls"
      using logged_filter [OF ls(1)] f(1) by auto
    obtain locks patch status where w: "concat ls' = locks @ patch @ status"
      "length locks \<le> 3" "patch \<noteq> [] \<longrightarrow> length locks \<le> 2" "\<forall>q \<in> set locks. \<exists>rw'. q = StatusUpdateRW rw' \<and> holdsSplit sv rw'"
      "patch = [] \<or> (\<exists>rw rw' l. patch = [PatchRW rw' rw] \<and> upToDate sv rw l \<and> appliesLock sv l rw rw')"
      "status = [] \<or> (\<exists>v. status = [StatusUpdateSV v] \<and> sameView sv v)"
      by (rule workflow_logs [OF ls'(1) assms(2) f(2,3)])
    have log: "map fst (sr_Log s) = locks @ patch @ status" using ls(2) ls'(2) w(1) by simp
    have "lockKnown sv v (sr_Log s)" if "status = [StatusUpdateSV v]" for v
    proof -
      have "StatusUpdateSV v \<in> fst ` set (sr_Log s)" using log that by (simp flip: set_map)
      then obtain e where "(StatusUpdateSV v, e) \<in> set (sr_Log s)" by force
      then show ?thesis using ok unfolding run_ok_def by blast
    qed
    then show ?thesis using log w True by (intro exI [of _ locks] exI [of _ patch] exI [of _ status]) (auto simp: lockKnown_def)
  next
    case False
    then have "runs (scaleWorkflow True) t r'" using library t(1) by simp
    then have "t = []" by (auto simp: scaleWorkflow_def elim: runs_WhenTrueE)
    then show ?thesis using ls by simp
  qed
qed

text \<open>C11: The controller implements the protocol. However its actions are interleaved with what others do, and wherever it
  stops (a panic included), what it does to the cluster is a sequence of steps of the scale view protocol; so the cluster stays in
  the reachable states, whose locks are exclusive and hold divisions.\<close>
theorem scale_controller_refines_protocol:
  assumes "scale_server c" "known_component (svComponent sv)" "reachable_world w" "sv \<in> set (w_seen w)"
    and "replay (scaleActionOf c) (startScaleRun sv w) t = Some s"
  shows "scale_step\<^sup>*\<^sup>* w (sr_World s) \<and> reachable_world (sr_World s)"
proof -
  have steps: "scale_step\<^sup>*\<^sup>* w (sr_World s)"
    using replay_advances [OF assms(1,2,5)] startScaleRun_ok [of sv w] assms(4) by (simp add: advances_def startScaleRun_def)
  then have "reachable_world (sr_World s)" by (induction rule: rtranclp_induct) (use assms(3) next_step in blast)+
  then show ?thesis using steps by blast
qed

section \<open>Witnesses\<close>

text \<open>A server that nobody else uses, and a run that takes the lock at the first attempt, retries, and patches the RisingWave.\<close>

definition demoAnswer :: "nat \<Rightarrow> World \<Rightarrow> RisingWave option \<Rightarrow> ScaleWrite \<Rightarrow> ApiError option" where
  "demoAnswer n w base q = (case q of StatusUpdateRW rw' \<Rightarrow> if base = Some (w_rw w) then None else Some (ConflictErr ''modified'') | _ \<Rightarrow> None)"

definition demoEffect :: "nat \<Rightarrow> World \<Rightarrow> ScaleWrite \<Rightarrow> World" where
  "demoEffect n w q =
     (case q of
        StatusUpdateRW rw' \<Rightarrow> if om_UID (rw_Meta rw') = om_UID (rw_Meta (w_rw w)) then w\<lparr>w_rw := rw'\<rparr> else w
      | PatchRW rw' rw \<Rightarrow> w\<lparr>w_rw := rw'\<lparr>rw_Status := rw_Status (w_rw w)\<rparr>\<rparr>
      | StatusUpdateSV v \<Rightarrow>
          (case find (\<lambda>old. svName old = svName v \<and> svUID old = svUID v) (w_views w) of
             None \<Rightarrow> w
           | Some old \<Rightarrow> w\<lparr>w_views := old\<lparr>sv_Status := sv_Status v\<rparr> # remove1 old (w_views w), w_seen := old\<lparr>sv_Status := sv_Status v\<rparr> # w_seen w\<rparr>))"

definition demoScaleController :: RisingWaveScaleViewController where
  "demoScaleController = \<lparr>sc_others = (\<lambda>n w. w), sc_read = (\<lambda>n w k. Inr (w_rw w)), sc_answer = demoAnswer, sc_effect = demoEffect\<rparr>"

lemma find_member: "find P xs = Some x \<Longrightarrow> x \<in> set xs \<and> P x"
  by (auto simp: find_Some_iff)

lemma demo_scale_server: "scale_server demoScaleController"
proof -
  have patch: "\<exists>x. locksOf x = locksOf (w_rw w) \<and> demoEffect n w (PatchRW rw' rw) = w\<lparr>w_rw := x\<rparr>" for n w rw rw'
    by (intro exI [of _ "rw'\<lparr>rw_Status := rw_Status (w_rw w)\<rparr>"]) (simp add: demoEffect_def)
  show ?thesis
    unfolding scale_server_def demoScaleController_def
    by (auto simp: patch) (auto simp: demoAnswer_def demoEffect_def dest: find_member split: if_splits option.splits)
qed

definition demoTraceScale :: trace where
  "demoTraceScale = [Ran grabName RequeueImmediately, Ran collectName Continue, Ran grabName Continue, Ran syncName Continue, Ran updateName Continue]"

definition demoStartWorld :: World where
  "demoStartWorld = \<lparr>w_rw = demoRisingWave, w_views = [demoScaleView 7], w_seen = [demoScaleView 7]\<rparr>"

lemma demoStartWorld_reachable: "reachable_world demoStartWorld"
proof -
  let ?w0 = "\<lparr>w_rw = demoRisingWave, w_views = [], w_seen = []\<rparr>"
  have "locksOf demoRisingWave = []" by code_simp
  then have "reachable_world ?w0" by (intro start) (simp add: initial_world_def)
  moreover have "scale_step ?w0 demoStartWorld" using scale_step.create [OF demo_create(1), of ?w0] by (simp add: demoStartWorld_def)
  ultimately show ?thesis by (rule next_step)
qed

definition demoScaleRun :: ScaleRun where
  "demoScaleRun = (case replay (scaleActionOf demoScaleController) (startScaleRun (demoScaleView 7) demoStartWorld) demoTraceScale of
     Some s \<Rightarrow> s | None \<Rightarrow> startScaleRun (demoScaleView 7) demoStartWorld)"

lemma demo_replay: "replay (scaleActionOf demoScaleController) (startScaleRun (demoScaleView 7) demoStartWorld) demoTraceScale = Some demoScaleRun"
proof -
  have "replay (scaleActionOf demoScaleController) (startScaleRun (demoScaleView 7) demoStartWorld) demoTraceScale \<noteq> None" by code_simp
  then show ?thesis by (auto simp: demoScaleRun_def)
qed

lemma demo_known: "known_component (svComponent (demoScaleView 7))"
  by code_simp

theorem scale_controller_refines_protocol_witness:
  "reachable_world (sr_World demoScaleRun) \<and> length (locksOf (w_rw (sr_World demoScaleRun))) = 1"
proof
  have "demoScaleView 7 \<in> set (w_seen demoStartWorld)" by (simp add: demoStartWorld_def)
  from scale_controller_refines_protocol [OF demo_scale_server demo_known demoStartWorld_reachable this demo_replay]
  show "reachable_world (sr_World demoScaleRun)" by blast
  show "length (locksOf (w_rw (sr_World demoScaleRun))) = 1" by code_simp
qed

lemma demo_runs: "runs (scaleWorkflow False) demoTraceScale Continue"
proof -
  let ?grab = "RetryInterval RisingWaveScaleViewSyncLockRetryLimit RisingWaveScaleViewSyncLockRetryInterval (Action grabName)"
  have "runs ?grab ([Ran grabName RequeueImmediately] @ [Ran grabName Continue]) Continue"
    unfolding RisingWaveScaleViewSyncLockRetryLimit_def numeral_2_eq_2 by (rule retry_again [OF runs_runs_seq_runs_par_runs_ord.action retry_last [OF runs_runs_seq_runs_par_runs_ord.action]])
  then have "runs grabSync [Ran grabName RequeueImmediately, Ran grabName Continue, Ran syncName Continue] Continue"
    unfolding grabSync_def using seq_next [OF _ seq_next [OF runs_runs_seq_runs_par_runs_ord.action seq_nil]] by (force intro: sequential)
  moreover have "runs_par [Action collectName] [Ran collectName Continue] [Continue]"
    by (rule par_cons [OF runs_runs_seq_runs_par_runs_ord.action par_nil]) simp
  moreover have "[Ran grabName RequeueImmediately, Ran collectName Continue, Ran grabName Continue, Ran syncName Continue]
      \<in> shuffles [Ran grabName RequeueImmediately, Ran grabName Continue, Ran syncName Continue] [Ran collectName Continue]" by simp
  ultimately have "runs_par [grabSync, Action collectName]
      [Ran grabName RequeueImmediately, Ran collectName Continue, Ran grabName Continue, Ran syncName Continue] [Continue, Continue]"
    by (rule par_cons)
  then have "runs (Join [grabSync, Action collectName])
      [Ran grabName RequeueImmediately, Ran collectName Continue, Ran grabName Continue, Ran syncName Continue] Continue"
    by (rule join) simp
  from ord_cons [OF this ord_cons [OF runs_runs_seq_runs_par_runs_ord.action [of updateName Continue] ord_nil]]
  have "runs_ord [Join [grabSync, Action collectName], Action updateName] demoTraceScale [Continue, Continue]"
    by (simp add: demoTraceScale_def)
  then have "runs (OrderedJoin [Join [grabSync, Action collectName], Action updateName]) demoTraceScale Continue"
    by (rule orderedJoin) simp
  from when_true [OF this] show ?thesis by (simp add: scaleWorkflow_def grabSync_def)
qed

theorem scale_run_writes_witness: "\<exists>locks patch status. map fst (sr_Log demoScaleRun) = locks @ patch @ status \<and> length locks \<le> 3 \<and> patch \<noteq> []"
proof -
  have "om_DeletionTimestamp (sv_Meta (demoScaleView 7)) = None" by code_simp
  then have "scale_reconciles runs demoScaleController (Inr (demoScaleView 7)) demoStartWorld (IgnoreExit Continue) (Some demoScaleRun)"
    using demo_runs demo_replay by (intro workflow) simp_all
  from scale_run_writes [OF _ demo_known this] obtain locks patch status where w: "map fst (sr_Log demoScaleRun) = locks @ patch @ status"
    "length locks \<le> 3" "\<forall>q \<in> set locks. \<exists>rw'. q = StatusUpdateRW rw' \<and> holdsSplit (demoScaleView 7) rw'"
    "status = [] \<or> (\<exists>v. status = [StatusUpdateSV v])" by blast
  have "\<exists>q \<in> set (map fst (sr_Log demoScaleRun)). case q of PatchRW a b \<Rightarrow> True | _ \<Rightarrow> False" by code_simp
  then have "patch \<noteq> []" using w by auto
  then show ?thesis using w(1,2) by blast
qed

end
