(* ===== verification/RwWebhook.thy ===== *)
theory RwWebhook
  imports RwObject
begin

text \<open>
  The admission webhooks of RisingWave: \<^verbatim>\<open>pkg/webhook/risingwave_validating_webhook.go\<close> and
  \<^verbatim>\<open>pkg/webhook/risingwave_mutating_webhook.go\<close>. The regular expression for image references and the check
  for DNS-1123 names belong to other libraries and are the arguments \<open>imageOk\<close> and \<open>dnsErrs\<close>. The
  errors of the loops over label maps are in the order of the keys.
\<close>

section \<open>Node groups\<close>

type_synonym imageCheck = "string \<Rightarrow> bool"
type_synonym dnsCheck = "string \<Rightarrow> string list"

definition systemEnv :: "string list" where
  "systemEnv = [''POD_IP'', ''POD_NAME'', ''POD_NAMESPACE'', ''RUST_BACKTRACE'', ''RW_WORKER_THREADS'', ''JAVA_OPTS'']"

definition AnnotationBypassValidatingWebhook :: string where
  "AnnotationBypassValidatingWebhook = ''risingwave.risingwavelabs.com/bypass-validating-webhook''"

definition isBypassed :: "RisingWave \<Rightarrow> bool" where
  "isBypassed rw = (case map_of (om_Annotations (rw_Meta rw)) AnnotationBypassValidatingWebhook of
     None \<Rightarrow> False | Some v \<Rightarrow> parseBool v)"

definition nodeGroupPartitionExistAndIsString :: "RisingWaveNodeGroup \<Rightarrow> bool" where
  "nodeGroupPartitionExistAndIsString g =
     (case us_RollingUpdate (ng_UpgradeStrategy g) of
        None \<Rightarrow> False
      | Some ru \<Rightarrow> (case ru_Partition ru of Some (StrVal s) \<Rightarrow> True | _ \<Rightarrow> False))"

definition partitionString :: "RisingWaveNodeGroup \<Rightarrow> string" where
  "partitionString g =
     (case us_RollingUpdate (ng_UpgradeStrategy g) of
        None \<Rightarrow> []
      | Some ru \<Rightarrow> (case ru_Partition ru of Some (StrVal s) \<Rightarrow> s | _ \<Rightarrow> []))"

definition children :: "string list \<Rightarrow> path" where
  "children cs = map Child cs"

text \<open>The errors of the labels with the reserved prefix.\<close>

definition reservedLabels :: "path \<Rightarrow> strmap \<Rightarrow> FieldError list" where
  "reservedLabels p labels =
     map (\<lambda>l. fieldErr FInvalid p ''Labels with the prefix 'risingwave/' are system reserved'')
       (filter (\<lambda>l. hasPrefix (fst l) ''risingwave/'') labels)"

fun envErrors :: "path \<Rightarrow> nat \<Rightarrow> EnvVar list \<Rightarrow> FieldError list" where
  "envErrors p i [] = []"
| "envErrors p i (e # es) =
     (if ev_Name e \<in> set systemEnv
      then [fieldErr FInvalid (p @ [Idx i, Child ''name'']) (''Env with the name '' @ ev_Name e @ '' is system reserved'')] else []) @
     envErrors p (Suc i) es"

definition quantity :: "(string \<times> int) list option \<Rightarrow> string \<Rightarrow> int" where
  "quantity m r = (case m of None \<Rightarrow> 0 | Some l \<Rightarrow> (case map_of l r of Some q \<Rightarrow> q | None \<Rightarrow> 0))"

definition resourceError :: "ResourceRequirements \<Rightarrow> path \<Rightarrow> string \<Rightarrow> FieldError list" where
  "resourceError rr p r =
     (case rr_Limits rr of
        None \<Rightarrow> []
      | Some l \<Rightarrow>
          if map_of l r \<noteq> None \<and> quantity (Some l) r < quantity (rr_Requests rr) r
          then [fieldErr FRequired (p @ children [''template'', ''spec'', ''resources'', r]) (''insufficient '' @ r @ '' resource'')]
          else [])"

definition validateNodeGroup ::
  "imageCheck \<Rightarrow> dnsCheck \<Rightarrow> path \<Rightarrow> RisingWaveNodeGroup \<Rightarrow> bool \<Rightarrow> FieldError list" where
  "validateNodeGroup imageOk dnsErrs p g openKruiseEnabled =
     (let us = ng_UpgradeStrategy g; tpl = ng_Template g; c = tps_Container (npt_Spec tpl);
          inPlace = (us_Type us = RisingWaveUpgradeStrategyTypeInPlaceOnly \<or> us_Type us = RisingWaveUpgradeStrategyTypeInPlaceIfPossible)
      in
      (if ng_Name g \<noteq> [] \<and> dnsErrs (ng_Name g) \<noteq> [] then
         [fieldErr FInvalid (p @ children [''name''])
            (''invalid node group name, must be a valid DNS-1123 subdomain: '' @ joinStr ''; '' (dnsErrs (ng_Name g)))] else []) @
      (if nc_Image c \<noteq> [] \<and> \<not> imageOk (nc_Image c) then
         [fieldErr FInvalid (p @ children [''template'', ''spec'', ''image'']) ''invalid image reference''] else []) @
      (if us_Type us = RisingWaveUpgradeStrategyTypeRecreate \<and> us_RollingUpdate us \<noteq> None then
         [fieldErr FForbidden (p @ children [''upgradeStrategy'', ''rollingUpdate'']) ''must be nil when type is Recreate''] else []) @
      (if \<not> openKruiseEnabled then
         (if inPlace then
            [fieldErr FInvalid (p @ children [''upgradeStrategy'', ''type'']) ''invalid upgrade strategy type''] else []) @
         (if us_InPlaceUpdateStrategy us \<noteq> None then
            [fieldErr FForbidden (p @ children [''upgradeStrategy'', ''inPlaceUpdateStrategy'']) ''not allowed''] else [])
       else if \<not> inPlace \<and> us_InPlaceUpdateStrategy us \<noteq> None then
         [fieldErr FForbidden (p @ children [''upgradeStrategy'', ''inPlaceUpdateStrategy'']) ''not allowed''] else []) @
      (if nodeGroupPartitionExistAndIsString g \<and> \<not> atoiOk (replaceChar CHR ''%'' [] (partitionString g)) then
         [fieldErr FInvalid (p @ children [''upgradeStrategy'', ''rollingUpdate'', ''partition''])
            ''percentage/string unable to be converted to an integer value''] else []) @
      reservedLabels (p @ children [''template'', ''metadata'', ''labels'']) (pm_Labels (npt_ObjectMeta tpl)) @
      envErrors (p @ children [''template'', ''spec'', ''env'']) 0 (nc_Env c) @
      resourceError (nc_Resources c) p ''cpu'' @
      resourceError (nc_Resources c) p ''memory'')"

section \<open>Meta store and state store\<close>

definition ptrValueNotZero :: "'a \<Rightarrow> 'a option \<Rightarrow> bool" where
  "ptrValueNotZero zero p \<longleftrightarrow> p \<noteq> None \<and> p \<noteq> Some zero"

definition zeroDB :: RisingWaveDBCredentials where
  "zeroDB = \<lparr>dbc_SecretName = [], dbc_UsernameKeyRef = [], dbc_PasswordKeyRef = []\<rparr>"

definition countTrue :: "bool list \<Rightarrow> nat" where
  "countTrue bs = length (filter (\<lambda>b. b) bs)"

definition metaStoreKinds :: "RisingWaveMetaStoreBackend \<Rightarrow> bool list" where
  "metaStoreKinds ms =
     [ptrValueNotZero False (ms_Memory ms),
      ptrValueNotZero \<lparr>etcd_Credentials = None, etcd_Endpoint = [], etcd_Secret = []\<rparr> (ms_Etcd ms),
      ptrValueNotZero \<lparr>sqlite_Path = []\<rparr> (ms_SQLite ms),
      ptrValueNotZero \<lparr>mysql_Credentials = zeroDB, mysql_Host = [], mysql_Port = 0, mysql_Database = [], mysql_Options = []\<rparr> (ms_MySQL ms),
      ptrValueNotZero \<lparr>pg_Credentials = zeroDB, pg_Host = [], pg_Port = 0, pg_Database = [], pg_Options = []\<rparr> (ms_PostgreSQL ms)]"

definition stateStoreKinds :: "RisingWaveStateStoreBackend \<Rightarrow> bool list" where
  "stateStoreKinds ss =
     [ptrValueNotZero False (ss_Memory ss), ss_MinIO ss \<noteq> None, ss_S3 ss \<noteq> None, ss_GCS ss \<noteq> None, ss_AliyunOSS ss \<noteq> None,
      ss_AzureBlob ss \<noteq> None, ss_HDFS ss \<noteq> None, ss_WebHDFS ss \<noteq> None, ss_LocalDisk ss \<noteq> None, ss_HuaweiCloudOBS ss \<noteq> None]"

definition kindErrors :: "nat \<Rightarrow> path \<Rightarrow> string \<Rightarrow> FieldError list" where
  "kindErrors n p what =
     (if n = 0 then [fieldErr FInvalid p (''must configure the '' @ what @ '' store'')]
      else if n > 1 then [fieldErr FInvalid p (''multiple '' @ what @ '' store types'')] else [])"

definition s3Errors :: "path \<Rightarrow> RisingWaveStateStoreBackendS3 \<Rightarrow> FieldError list" where
  "s3Errors p s =
     (if s3_Endpoint s \<noteq> [] then
        (if s3c_SecretName (s3_Credentials s) = [] then
           [fieldErr FRequired (p @ children [''stateStore'', ''s3'', ''credentials'', ''secretName'']) ''secretName is required''] else [])
      else if \<not> derefBool (s3c_UseServiceAccount (s3_Credentials s)) False \<and> s3c_SecretName (s3_Credentials s) = [] then
        [fieldErr FInvalid (p @ children [''stateStore'', ''s3'', ''credentials'']) ''either secretName or useServiceAccount must be specified'']
      else [])"

text \<open>The value reported for Azure is read from the S3 settings, which are nil unless both are given.\<close>

definition azureErrors :: "path \<Rightarrow> RisingWaveStateStoreBackend \<Rightarrow> RisingWaveStateStoreBackendAzureBlob \<Rightarrow> FieldError list outcome" where
  "azureErrors p ss a =
     (if \<not> derefBool (azc_UseServiceAccount (az_Credentials a)) False \<and> azc_SecretName (az_Credentials a) = [] then
        (case ss_S3 ss of
           None \<Rightarrow> Panics ''nil pointer dereference''
         | Some _ \<Rightarrow> Returns [fieldErr FInvalid (p @ children [''stateStore'', ''azureBlob'', ''credentials''])
             ''either secretName or useServiceAccount must be specified''])
      else Returns [])"

definition gcsErrors :: "path \<Rightarrow> RisingWaveStateStoreBackendGCS \<Rightarrow> FieldError list" where
  "gcsErrors p g =
     (if \<not> derefBool (gcsc_UseWorkloadIdentity (gcs_Credentials g)) False \<and> gcsc_SecretName (gcs_Credentials g) = [] then
        [fieldErr FInvalid (p @ children [''stateStore'', ''gcs'', ''credentials'']) ''either secretName or useWorkloadIdentity must be specified'']
      else [])"

definition dataDirectoryOk :: "string \<Rightarrow> bool" where
  "dataDirectoryOk d \<longleftrightarrow> \<not> (hasSuffix d ''/'' \<or> hasPrefix d ''/'' \<or> containsStr d ''//'' \<or> length d > 800)"

definition validateMetaStoreAndStateStore ::
  "path \<Rightarrow> RisingWaveMetaStoreBackend \<Rightarrow> RisingWaveStateStoreBackend \<Rightarrow> FieldError list outcome" where
  "validateMetaStoreAndStateStore p ms ss =
     (case (case ss_AzureBlob ss of None \<Rightarrow> Returns [] | Some a \<Rightarrow> azureErrors p ss a) of
        Panics m \<Rightarrow> Panics m
      | Returns azure \<Rightarrow> Returns
          (kindErrors (countTrue (metaStoreKinds ms)) (p @ children [''metaStore'']) ''meta'' @
           (case ss_S3 ss of None \<Rightarrow> [] | Some s \<Rightarrow> s3Errors p s) @
           azure @
           (case ss_GCS ss of None \<Rightarrow> [] | Some g \<Rightarrow> gcsErrors p g) @
           kindErrors (countTrue (stateStoreKinds ss)) (p @ children [''stateStore'']) ''state'' @
           (if \<not> dataDirectoryOk (ss_DataDirectory ss) then
              [fieldErr FInvalid (p @ children [''stateStore'', ''dataDirectory'']) ''must be a valid path''] else [])))"

definition validateConfiguration :: "path \<Rightarrow> RisingWaveNodeConfiguration \<Rightarrow> FieldError list" where
  "validateConfiguration p c =
     (case cfg_ConfigMap c of
        None \<Rightarrow> []
      | Some cm \<Rightarrow>
          if cms_Name cm = [] then [fieldErr FRequired (p @ children [''configmap'', ''name'']) ''must be specified'']
          else if cms_Key cm = [] then [fieldErr FRequired (p @ children [''configmap'', ''key'']) ''must be specified'']
          else [])"

section \<open>Components\<close>

fun validateGroups ::
  "imageCheck \<Rightarrow> dnsCheck \<Rightarrow> path \<Rightarrow> nat \<Rightarrow> RisingWaveNodeGroup list \<Rightarrow> bool \<Rightarrow> FieldError list" where
  "validateGroups imageOk dnsErrs p i [] k = []"
| "validateGroups imageOk dnsErrs p i (g # gs) k =
     validateNodeGroup imageOk dnsErrs (p @ [Idx i]) g k @ validateGroups imageOk dnsErrs p (Suc i) gs k"

definition validateComponents ::
  "imageCheck \<Rightarrow> dnsCheck \<Rightarrow> path \<Rightarrow> RisingWaveComponentsSpec \<Rightarrow> bool \<Rightarrow> FieldError list" where
  "validateComponents imageOk dnsErrs p cs k =
     validateGroups imageOk dnsErrs (p @ children [''meta'', ''nodeGroups'']) 0 (cmp_NodeGroups (comps_Meta cs)) k @
     validateGroups imageOk dnsErrs (p @ children [''frontend'', ''nodeGroups'']) 0 (cmp_NodeGroups (comps_Frontend cs)) k @
     validateGroups imageOk dnsErrs (p @ children [''compactor'', ''nodeGroups'']) 0 (cmp_NodeGroups (comps_Compactor cs)) k @
     validateGroups imageOk dnsErrs (p @ children [''compute'', ''nodeGroups'']) 0 (cmp_NodeGroups (comps_Compute cs)) k"

definition validateMetaReplicas :: "RisingWave \<Rightarrow> FieldError list" where
  "validateMetaReplicas rw =
     (if \<not> derefBool (ms_Memory (rws_MetaStore (rw_Spec rw))) False then []
      else if foldl (\<lambda>n g. i32 (n + ng_Replicas g)) 0 (cmp_NodeGroups (comps_Meta (rws_Components (rw_Spec rw)))) > 1
      then [fieldErr FForbidden (children [''spec'', ''components'', ''meta'']) ''meta with replicas over 1 isn't allowed'']
      else [])"

definition validateSecretStore :: "RisingWave \<Rightarrow> FieldError list" where
  "validateSecretStore rw =
     (let pk = sst_PrivateKey (rws_SecretStore (rw_Spec rw)) in
      if pk_Value pk \<noteq> None \<and> pk_SecretRef pk \<noteq> None
      then [fieldErr FForbidden (children [''spec'', ''secretStore'', ''privateKey'']) ''both value and secretRef are set''] else [])"

section \<open>Create\<close>

definition rw_validateCreate :: "imageCheck \<Rightarrow> dnsCheck \<Rightarrow> bool \<Rightarrow> RisingWave \<Rightarrow> ApiError option outcome" where
  "rw_validateCreate imageOk dnsErrs kruiseAvailable rw =
     (let s = rw_Spec rw in
      case validateMetaStoreAndStateStore (children [''spec'']) (rws_MetaStore s) (rws_StateStore s) of
        Panics m \<Rightarrow> Panics m
      | Returns stores \<Rightarrow> Returns (invalidIfAny
          ((if \<not> imageOk (rws_Image s) then [fieldErr FInvalid (children [''spec'', ''image'']) ''invalid image reference''] else []) @
           reservedLabels (children [''spec'', ''additionalFrontendServiceMetadata'', ''labels'']) (pm_Labels (rws_AdditionalFrontendServiceMetadata s)) @
           reservedLabels (children [''spec'', ''additionalMetaServiceMetadata'', ''labels'']) (pm_Labels (rws_AdditionalMetaServiceMetadata s)) @
           (if \<not> kruiseAvailable \<and> derefBool (rws_EnableOpenKruise s) False
            then [fieldErr FForbidden (children [''spec'', ''enableOpenKruise'']) ''OpenKruise is disabled.''] else []) @
           stores @
           validateConfiguration (children [''spec'', ''configuration'']) (rws_Configuration s) @
           validateComponents imageOk dnsErrs (children [''spec'', ''components'']) (rws_Components s)
             (kruiseAvailable \<and> derefBool (rws_EnableOpenKruise s) False) @
           validateMetaReplicas rw @
           validateSecretStore rw)))"

definition rw_ValidateCreate :: "imageCheck \<Rightarrow> dnsCheck \<Rightarrow> bool \<Rightarrow> RisingWave \<Rightarrow> ApiError option outcome" where
  "rw_ValidateCreate imageOk dnsErrs k rw = (if isBypassed rw then Returns None else rw_validateCreate imageOk dnsErrs k rw)"

definition rw_ValidateDelete :: "RisingWave \<Rightarrow> ApiError option" where
  "rw_ValidateDelete rw = None"

section \<open>Update\<close>

definition isMetaStoresTheSame :: "RisingWave \<Rightarrow> RisingWave \<Rightarrow> bool" where
  "isMetaStoresTheSame old new \<longleftrightarrow> rws_MetaStore (rw_Spec old) = rws_MetaStore (rw_Spec new)"

definition isStateStoresTheSame :: "RisingWave \<Rightarrow> RisingWave \<Rightarrow> bool" where
  "isStateStoresTheSame old new \<longleftrightarrow> rws_StateStore (rw_Spec old) = rws_StateStore (rw_Spec new)"

definition isPrivateKeySet :: "RisingWave \<Rightarrow> bool" where
  "isPrivateKeySet rw \<longleftrightarrow> (let pk = sst_PrivateKey (rws_SecretStore (rw_Spec rw)) in pk_Value pk \<noteq> None \<or> pk_SecretRef pk \<noteq> None)"

definition isSecretStoreChangeAllowed :: "RisingWave \<Rightarrow> RisingWave \<Rightarrow> bool" where
  "isSecretStoreChangeAllowed old new \<longleftrightarrow>
     (if \<not> isPrivateKeySet old then True
      else sst_PrivateKey (rws_SecretStore (rw_Spec old)) = sst_PrivateKey (rws_SecretStore (rw_Spec new)))"

definition pathForGroupReplicas :: "RisingWave \<Rightarrow> string \<Rightarrow> string \<Rightarrow> path outcome" where
  "pathForGroupReplicas rw c grp =
     (case GetGroupIndex (NewRisingWaveScaleViewHelper rw c) grp of
        Panics m \<Rightarrow> Panics m
      | Returns (i, _) \<Rightarrow> Returns (children [''spec'', ''components'', c, ''nodeGroups''] @ [Idx i, Child ''replicas'']))"

text \<open>The loop over the group locks of one scale view, with its two counters.\<close>

primrec checkGroupLocks ::
  "RisingWave \<Rightarrow> RisingWave \<Rightarrow> string \<Rightarrow> RisingWaveScaleViewLockGroupLock list \<Rightarrow> nat \<Rightarrow> nat \<Rightarrow> FieldError list outcome" where
  "checkGroupLocks old new c [] unchanged updated = Returns []"
| "checkGroupLocks old new c (l # ls) unchanged updated =
     (case ReadReplicas (NewRisingWaveScaleViewHelper old c) (gl_Name l) of
        Panics m \<Rightarrow> Panics m
      | Returns (o', _) \<Rightarrow>
          (case ReadReplicas (NewRisingWaveScaleViewHelper new c) (gl_Name l) of
             Panics m \<Rightarrow> Panics m
           | Returns (cur, False) \<Rightarrow>
               (case pathForGroupReplicas old c (gl_Name l) of
                  Panics m \<Rightarrow> Panics m
                | Returns p \<Rightarrow>
                    (case checkGroupLocks old new c ls unchanged updated of
                       Panics m \<Rightarrow> Panics m
                     | Returns es \<Rightarrow> Returns (fieldErr FForbidden p ''group is locked (delete)'' # es)))
           | Returns (cur, True) \<Rightarrow>
               (let unchanged' = (if cur \<noteq> gl_Replicas l \<and> cur = o' then Suc unchanged else unchanged);
                    updated' = (if cur \<noteq> gl_Replicas l \<and> cur = o' then updated else Suc updated)
                in if (unchanged' > 0 \<and> cur \<noteq> o') \<or> (updated' > 0 \<and> cur \<noteq> gl_Replicas l) then
                     (case pathForGroupReplicas new c (gl_Name l) of
                        Panics m \<Rightarrow> Panics m
                      | Returns p \<Rightarrow>
                          (case checkGroupLocks old new c ls unchanged' updated' of
                             Panics m \<Rightarrow> Panics m
                           | Returns es \<Rightarrow> Returns (fieldErr FForbidden p ''group is locked (update)'' # es)))
                   else checkGroupLocks old new c ls unchanged' updated')))"

fun checkLocks :: "RisingWave \<Rightarrow> RisingWave \<Rightarrow> RisingWaveScaleViewLock list \<Rightarrow> FieldError list outcome" where
  "checkLocks old new [] = Returns []"
| "checkLocks old new (l # ls) =
     (case checkGroupLocks old new (lk_Component l) (lk_GroupLocks l) 0 0 of
        Panics m \<Rightarrow> Panics m
      | Returns es \<Rightarrow> (case checkLocks old new ls of Panics m \<Rightarrow> Panics m | Returns es' \<Rightarrow> Returns (es @ es')))"

definition rw_validateUpdate :: "RisingWave \<Rightarrow> RisingWave \<Rightarrow> ApiError option outcome" where
  "rw_validateUpdate old new =
     (if \<not> isMetaStoresTheSame old new then
        Returns (Some (ForbiddenErr (fieldErr FForbidden (children [''spec'', ''metaStore'']) ''meta store must be kept consistent'')))
      else if \<not> isStateStoresTheSame old new then
        Returns (Some (ForbiddenErr (fieldErr FForbidden (children [''spec'', ''stateStore'']) ''state store must be kept consistent'')))
      else if \<not> isSecretStoreChangeAllowed old new then
        Returns (Some (ForbiddenErr (fieldErr FForbidden (children [''spec'', ''secretStore'']) ''secret store must be kept consistent'')))
      else (case checkLocks old new (locksOf new) of
              Panics m \<Rightarrow> Panics m
            | Returns es \<Rightarrow> Returns (invalidIfAny es)))"

definition rw_ValidateUpdate :: "imageCheck \<Rightarrow> dnsCheck \<Rightarrow> bool \<Rightarrow> RisingWave \<Rightarrow> RisingWave \<Rightarrow> ApiError option outcome" where
  "rw_ValidateUpdate imageOk dnsErrs k old new =
     (if isBypassed new then Returns None
      else (case rw_ValidateCreate imageOk dnsErrs k new of
              Panics m \<Rightarrow> Panics m
            | Returns (Some e) \<Rightarrow> Returns (Some e)
            | Returns None \<Rightarrow> rw_validateUpdate old new))"

section \<open>The mutating webhook\<close>

text \<open>Whether the feature RandomSecretStorePrivateKey is enabled and the random key are arguments; the white space
  of \<^verbatim>\<open>strings.TrimSpace\<close> is that of ASCII.\<close>

definition asciiSpace :: string where
  "asciiSpace = [CHR '' '', char_of (9 :: nat), char_of (10 :: nat), char_of (11 :: nat), char_of (12 :: nat), char_of (13 :: nat)]"

definition rw_Default :: "bool \<Rightarrow> string \<Rightarrow> RisingWave \<Rightarrow> RisingWave" where
  "rw_Default randomKeyEnabled randomHex rw =
     (let s = rw_Spec rw; ss = rws_StateStore s; pk = sst_PrivateKey (rws_SecretStore s);
          pk' = (if randomKeyEnabled \<and> pk_Value pk = None \<and> pk_SecretRef pk = None then pk\<lparr>pk_Value := Some randomHex\<rparr> else pk)
      in rw\<lparr>rw_Spec := s\<lparr>rws_StateStore := ss\<lparr>ss_DataDirectory := trimRightSet (trimSet (ss_DataDirectory ss) asciiSpace) ''/''\<rparr>,
           rws_SecretStore := (rws_SecretStore s)\<lparr>sst_PrivateKey := pk'\<rparr>\<rparr>\<rparr>)"

section \<open>Lemmas\<close>

lemma reservedLabels_Nil: "reservedLabels p ls = [] \<longleftrightarrow> (\<forall>l \<in> set ls. \<not> hasPrefix (fst l) ''risingwave/'')"
  by (auto simp: reservedLabels_def filter_empty_conv)

lemma envErrors_Nil: "envErrors p i es = [] \<longleftrightarrow> (\<forall>e \<in> set es. ev_Name e \<notin> set systemEnv)"
  by (induction es arbitrary: i) auto

text \<open>What the checks of a node group guarantee about its template and strategy.\<close>

definition group_clean :: "imageCheck \<Rightarrow> bool \<Rightarrow> RisingWaveNodeGroup \<Rightarrow> bool" where
  "group_clean imageOk k g \<longleftrightarrow>
     (\<forall>l \<in> set (pm_Labels (npt_ObjectMeta (ng_Template g))). \<not> hasPrefix (fst l) ''risingwave/'')
     \<and> (\<forall>e \<in> set (nc_Env (tps_Container (npt_Spec (ng_Template g)))). ev_Name e \<notin> set systemEnv)
     \<and> (nc_Image (tps_Container (npt_Spec (ng_Template g))) = [] \<or> imageOk (nc_Image (tps_Container (npt_Spec (ng_Template g)))))
     \<and> (\<not> k \<longrightarrow> us_Type (ng_UpgradeStrategy g) \<notin> {RisingWaveUpgradeStrategyTypeInPlaceOnly, RisingWaveUpgradeStrategyTypeInPlaceIfPossible}
          \<and> us_InPlaceUpdateStrategy (ng_UpgradeStrategy g) = None)"

lemma if_Nil: "(if b then [x] else []) = [] \<longleftrightarrow> \<not> b"
  by simp

lemma validateNodeGroup_clean:
  assumes "validateNodeGroup imageOk dnsErrs p g k = []"
  shows "group_clean imageOk k g"
proof -
  note parts = assms [unfolded validateNodeGroup_def Let_def append_is_Nil_conv reservedLabels_Nil envErrors_Nil if_Nil]
  note rest2 = conjunct2 [OF conjunct2 [OF parts]]
  note kruise = conjunct1 [OF conjunct2 [OF rest2]] and rest5 = conjunct2 [OF conjunct2 [OF conjunct2 [OF rest2]]]
  have a: "\<not> k \<longrightarrow> us_Type (ng_UpgradeStrategy g) \<notin> {RisingWaveUpgradeStrategyTypeInPlaceOnly, RisingWaveUpgradeStrategyTypeInPlaceIfPossible}
      \<and> us_InPlaceUpdateStrategy (ng_UpgradeStrategy g) = None"
    using kruise by (simp split: if_split_asm)
  have b: "nc_Image (tps_Container (npt_Spec (ng_Template g))) = [] \<or> imageOk (nc_Image (tps_Container (npt_Spec (ng_Template g))))"
    using conjunct1 [OF conjunct2 [OF parts]] by blast
  show ?thesis unfolding group_clean_def
    by (rule conjI [OF conjunct1 [OF rest5] conjI [OF conjunct1 [OF conjunct2 [OF rest5]] conjI [OF b a]]])
qed

lemma validateGroups_clean: "validateGroups imageOk dnsErrs p i gs k = [] \<Longrightarrow> \<forall>g \<in> set gs. group_clean imageOk k g"
  by (induction gs arbitrary: i) (auto dest: validateNodeGroup_clean)

lemma validateComponents_clean:
  assumes "validateComponents imageOk dnsErrs p (rws_Components (rw_Spec rw)) k = []" "known_component c"
  shows "\<forall>g \<in> set (nodeGroups rw c). group_clean imageOk k g"
proof -
  let ?cs = "rws_Components (rw_Spec rw)"
  have "\<forall>comp \<in> {comps_Meta ?cs, comps_Frontend ?cs, comps_Compactor ?cs, comps_Compute ?cs}.
      \<forall>g \<in> set (cmp_NodeGroups comp). group_clean imageOk k g"
    using assms(1) unfolding validateComponents_def append_is_Nil_conv by (blast dest: validateGroups_clean)
  moreover have "nodeGroups rw c \<in> cmp_NodeGroups ` {comps_Meta ?cs, comps_Frontend ?cs, comps_Compactor ?cs, comps_Compute ?cs}"
    using assms(2) by (auto simp: known_component_def nodeGroups_def componentNodeGroups_def Let_def)
  ultimately show ?thesis by (elim imageE) auto
qed

lemma kindErrors_Nil: "kindErrors n p w = [] \<longleftrightarrow> n = 1"
  by (auto simp: kindErrors_def)

definition readOr0 :: "RisingWave \<Rightarrow> string \<Rightarrow> string \<Rightarrow> int" where
  "readOr0 rw c g = (case replicasOf rw c g of Some n \<Rightarrow> n | None \<Rightarrow> 0)"

text \<open>Without an error the replicas of the locked groups are either all the locked or all the old ones.\<close>

lemma checkGroupLocks_Nil:
  assumes "known_component c" "checkGroupLocks old new c ls u d = Returns []"
  shows "(\<forall>l \<in> set ls. replicasOf new c (gl_Name l) \<noteq> None)
    \<and> ((\<forall>l \<in> set ls. readOr0 new c (gl_Name l) = gl_Replicas l) \<or> (\<forall>l \<in> set ls. readOr0 new c (gl_Name l) = readOr0 old c (gl_Name l)))
    \<and> (u > 0 \<longrightarrow> (\<forall>l \<in> set ls. readOr0 new c (gl_Name l) = readOr0 old c (gl_Name l)))
    \<and> (d > 0 \<longrightarrow> (\<forall>l \<in> set ls. readOr0 new c (gl_Name l) = gl_Replicas l))"
  using assms(2)
proof (induction ls arbitrary: u d)
  case (Cons l ls)
  let ?cur = "readOr0 new c (gl_Name l)" and ?old = "readOr0 old c (gl_Name l)"
  let ?u = "if ?cur \<noteq> gl_Replicas l \<and> ?cur = ?old then Suc u else u"
  let ?d = "if ?cur \<noteq> gl_Replicas l \<and> ?cur = ?old then d else Suc d"
  have rd: "ReadReplicas (NewRisingWaveScaleViewHelper old c) (gl_Name l) = Returns (?old, replicasOf old c (gl_Name l) \<noteq> None)"
    "ReadReplicas (NewRisingWaveScaleViewHelper new c) (gl_Name l) = Returns (?cur, replicasOf new c (gl_Name l) \<noteq> None)"
    by (simp_all add: ReadReplicas_eq [OF assms(1)] readOr0_def split: option.splits)
  have some: "replicasOf new c (gl_Name l) \<noteq> None"
  proof
    assume "replicasOf new c (gl_Name l) = None"
    then show False using Cons.prems rd by (simp split: outcome.splits)
  qed
  then have rd2: "ReadReplicas (NewRisingWaveScaleViewHelper new c) (gl_Name l) = Returns (?cur, True)" using rd(2) by simp
  have rest: "checkGroupLocks old new c ls ?u ?d = Returns []" "\<not> (0 < ?u \<and> ?cur \<noteq> ?old)" "\<not> (0 < ?d \<and> ?cur \<noteq> gl_Replicas l)"
    using Cons.prems unfolding checkGroupLocks.simps rd(1) rd2 outcome.case prod.case bool.case Let_def
    by (auto split: if_split_asm outcome.split_asm)
  note IH = Cons.IH [OF rest(1)]
  show ?case
  proof (cases "?cur \<noteq> gl_Replicas l \<and> ?cur = ?old")
    case True
    then have "d = 0" using rest(3) unfolding if_P [OF True] by simp
    then show ?thesis using IH True some unfolding if_P [OF True] by simp
  next
    case False
    have "?cur = gl_Replicas l" "u > 0 \<longrightarrow> ?cur = ?old" using rest(2,3) unfolding if_not_P [OF False] by auto
    then show ?thesis using IH some unfolding if_not_P [OF False] by simp
  qed
qed simp

lemma checkGroupLocks_locked:
  assumes "known_component c" "\<forall>l \<in> set ls. replicasOf new c (gl_Name l) = Some (gl_Replicas l)"
  shows "checkGroupLocks old new c ls 0 d = Returns []"
  using assms(2)
proof (induction ls arbitrary: d)
  case (Cons l ls)
  then show ?case by (simp add: ReadReplicas_eq [OF assms(1)] Let_def)
qed simp

lemma checkLocks_Nil:
  assumes "checkLocks old new ls = Returns []" "l \<in> set ls"
  shows "checkGroupLocks old new (lk_Component l) (lk_GroupLocks l) 0 0 = Returns []"
  using assms by (induction ls) (auto split: outcome.splits)

lemma ValidateUpdate_None:
  assumes "\<not> isBypassed new" "rw_ValidateUpdate imageOk dnsErrs k old new = Returns None"
  shows "rw_validateCreate imageOk dnsErrs k new = Returns None" "isMetaStoresTheSame old new" "isStateStoresTheSame old new"
    "isSecretStoreChangeAllowed old new" "checkLocks old new (locksOf new) = Returns []"
proof -
  have "rw_validateCreate imageOk dnsErrs k new = Returns None \<and> rw_validateUpdate old new = Returns None"
    using assms by (auto simp: rw_ValidateUpdate_def rw_ValidateCreate_def split: outcome.splits option.splits)
  then show "rw_validateCreate imageOk dnsErrs k new = Returns None" "isMetaStoresTheSame old new" "isStateStoresTheSame old new"
    "isSecretStoreChangeAllowed old new" "checkLocks old new (locksOf new) = Returns []"
    by (auto simp: rw_validateUpdate_def split: if_splits outcome.splits)
qed

text \<open>A RisingWave whose lock was just grabbed: group a has the locked replicas, groups c and b have not.\<close>

definition demoPending :: RisingWave where
  "demoPending = setLocks demoRisingWave [\<lparr>lk_Name = ''sv'', lk_UID = ''uid-1'', lk_Component = ''compute'', lk_Generation = 1,
      lk_GroupLocks = [\<lparr>gl_Name = ''c'', gl_Replicas = 0\<rparr>, \<lparr>gl_Name = ''a'', gl_Replicas = 1\<rparr>, \<lparr>gl_Name = ''b'', gl_Replicas = 0\<rparr>]\<rparr>]"

section \<open>Properties\<close>

text \<open>C3: The lock is effective: an accepted update keeps every group that a scale view has locked, and the
  replicas of the groups of one lock are either all the locked ones or all the ones before the update, so
  that nobody but the scale view scales a locked group.\<close>
theorem rw_update_respects_locks:
  assumes "\<not> isBypassed new" "rw_ValidateUpdate imageOk dnsErrs k old new = Returns None"
    and "l \<in> set (locksOf new)" "known_component (lk_Component l)"
  shows "(\<forall>g \<in> set (lk_GroupLocks l). replicasOf new (lk_Component l) (gl_Name g) \<noteq> None)
    \<and> ((\<forall>g \<in> set (lk_GroupLocks l). replicasOf new (lk_Component l) (gl_Name g) = Some (gl_Replicas g))
       \<or> (\<forall>g \<in> set (lk_GroupLocks l). readOr0 new (lk_Component l) (gl_Name g) = readOr0 old (lk_Component l) (gl_Name g)))"
proof -
  have "checkGroupLocks old new (lk_Component l) (lk_GroupLocks l) 0 0 = Returns []"
    using checkLocks_Nil [OF ValidateUpdate_None(5) [OF assms(1,2)] assms(3)] .
  from checkGroupLocks_Nil [OF assms(4) this] show ?thesis by (fastforce simp: readOr0_def)
qed

text \<open>C15: The stores of a RisingWave are immutable: an accepted update leaves the meta store and the state store
  as they were, and a private key of the secret store, once set, as well.\<close>
theorem rw_update_immutable:
  assumes "\<not> isBypassed new" "rw_ValidateUpdate imageOk dnsErrs k old new = Returns None"
  shows "rws_MetaStore (rw_Spec new) = rws_MetaStore (rw_Spec old) \<and> rws_StateStore (rw_Spec new) = rws_StateStore (rw_Spec old)
    \<and> (isPrivateKeySet old \<longrightarrow> sst_PrivateKey (rws_SecretStore (rw_Spec new)) = sst_PrivateKey (rws_SecretStore (rw_Spec old)))"
  using ValidateUpdate_None [OF assms]
  by (simp add: isMetaStoresTheSame_def isStateStoresTheSame_def isSecretStoreChangeAllowed_def)


text \<open>A RisingWave on Azure Blob with neither a secret nor a service account is not rejected with a field error:
  the webhook dereferences the S3 settings, which are nil, and panics.\<close>
theorem rw_create_azure_panics:
  assumes "\<not> isBypassed rw" "ss_AzureBlob (rws_StateStore (rw_Spec rw)) = Some a" "ss_S3 (rws_StateStore (rw_Spec rw)) = None"
    and "azc_UseServiceAccount (az_Credentials a) \<noteq> Some True" "azc_SecretName (az_Credentials a) = []"
  shows "rw_ValidateCreate imageOk dnsErrs k rw = Panics ''nil pointer dereference''"
proof -
  have "derefBool (azc_UseServiceAccount (az_Credentials a)) False = False"
    using assms(4) by (auto simp: derefBool_def split: option.splits)
  then show ?thesis using assms
    by (simp add: rw_ValidateCreate_def rw_validateCreate_def validateMetaStoreAndStateStore_def azureErrors_def Let_def)
qed

text \<open>The lock is too strict while a scale view waits for its replicas to be written: after the lock is grabbed,
  an update that changes nothing at all is rejected when one of the groups has its locked replicas already
  and a later one has not.\<close>
theorem rw_noop_update_rejected:
  "\<exists>rw sv rw' es. sv_ok sv \<and> GrabScaleViewLockFor rw sv = Returns (Inr rw') \<and>
     rw_validateUpdate rw' rw' = Returns (Some (InvalidErr es))"
proof -
  have "sv_ok (demoScaleView 1)" by (simp add: sv_ok_def policies_ok_def policy_ok_def demo_simps)
  moreover have "GrabScaleViewLockFor demoRisingWave (demoScaleView 1) = Returns (Inr demoPending)" by code_simp
  moreover have "\<exists>es. rw_validateUpdate demoPending demoPending = Returns (Some (InvalidErr es))"
  proof -
    have "rw_validateUpdate demoPending demoPending = Returns (Some (InvalidErr
      [fieldErr FForbidden (children [''spec'', ''components'', ''compute'', ''nodeGroups''] @ [Idx 1, Child ''replicas'']) ''group is locked (update)'']))"
      by code_simp
    then show ?thesis by blast
  qed
  ultimately show ?thesis by blast
qed

section \<open>Witnesses\<close>

definition demoMemory :: RisingWave where
  "demoMemory = demoRisingWave\<lparr>rw_Spec := (rw_Spec demoRisingWave)\<lparr>rws_Image := ''rw:v2'',
     rws_MetaStore := zeroMetaStore\<lparr>ms_Memory := Some True\<rparr>,
     rws_StateStore := zeroStateStore\<lparr>ss_Memory := Some True, ss_DataDirectory := ''data''\<rparr>\<rparr>\<rparr>"

definition demoMemoryLocked :: RisingWave where
  "demoMemoryLocked = setLocks demoMemory [\<lparr>lk_Name = ''sv'', lk_UID = ''uid-1'', lk_Component = ''compute'', lk_Generation = 1,
      lk_GroupLocks = [\<lparr>gl_Name = ''c'', gl_Replicas = 3\<rparr>]\<rparr>]"

definition demoAzure :: RisingWave where
  "demoAzure = demoMemory\<lparr>rw_Spec := (rw_Spec demoMemory)\<lparr>rws_StateStore := zeroStateStore\<lparr>ss_AzureBlob := Some
     \<lparr>az_Credentials = \<lparr>azc_SecretName = [], azc_AccountNameRef = [], azc_AccountKeyRef = [], azc_UseServiceAccount = None\<rparr>,
      az_Container = ''c'', az_Root = [], az_Endpoint = []\<rparr>\<rparr>\<rparr>\<rparr>"

definition demoMemoryNew :: RisingWave where
  "demoMemoryNew = demoMemoryLocked\<lparr>rw_Spec := (rw_Spec demoMemoryLocked)\<lparr>rws_Image := ''rw:v3''\<rparr>\<rparr>"

lemma demo_update:
  "\<not> isBypassed demoMemoryNew"
  "rw_ValidateUpdate (\<lambda>_. True) (\<lambda>_. []) False demoMemoryLocked demoMemoryNew = Returns None"
  by code_simp+

theorem rw_update_respects_locks_witness:
  "rws_Image (rw_Spec demoMemoryNew) \<noteq> rws_Image (rw_Spec demoMemoryLocked)
   \<and> replicasOf demoMemoryNew ''compute'' ''c'' \<noteq> None"
proof -
  let ?l = "hd (locksOf demoMemoryNew)"
  have l: "?l \<in> set (locksOf demoMemoryNew)" "known_component (lk_Component ?l)"
    and c: "lk_Component ?l = ''compute''" "lk_GroupLocks ?l = [\<lparr>gl_Name = ''c'', gl_Replicas = 3\<rparr>]"
    and i: "rws_Image (rw_Spec demoMemoryNew) \<noteq> rws_Image (rw_Spec demoMemoryLocked)"
    by code_simp+
  from rw_update_respects_locks [OF demo_update l] i show ?thesis unfolding c by simp
qed

theorem rw_update_immutable_witness:
  "rws_Image (rw_Spec demoMemoryNew) \<noteq> rws_Image (rw_Spec demoMemoryLocked)
   \<and> rws_StateStore (rw_Spec demoMemoryNew) = rws_StateStore (rw_Spec demoMemoryLocked)"
proof -
  have "rws_Image (rw_Spec demoMemoryNew) \<noteq> rws_Image (rw_Spec demoMemoryLocked)" by code_simp
  with rw_update_immutable [OF demo_update] show ?thesis by blast
qed


theorem rw_create_azure_panics_witness:
  "rw_ValidateCreate (\<lambda>_. True) (\<lambda>_. []) False demoAzure = Panics ''nil pointer dereference''"
proof -
  have "\<not> isBypassed demoAzure" by code_simp
  then show ?thesis
    by (rule rw_create_azure_panics [of demoAzure "the (ss_AzureBlob (rws_StateStore (rw_Spec demoAzure)))"])
      (simp_all add: demoAzure_def zero_defs)
qed

end
