(* ===== verification/UserApi.thy ===== *)
theory UserApi
  imports RwApi
begin

text \<open>
  The custom resource RisingWaveUser (\<^verbatim>\<open>apis/risingwave/v1alpha1/risingwave_user_types.go\<close>), in the
  conventions of \<open>RwApi\<close>. The string types of the source (authentication types, privileges, user
  permissions, phases, condition types) are strings.
\<close>

section \<open>Connection, password and authentication\<close>

record SecretReference =
  sref_Name :: string
  sref_Namespace :: string
  sref_Key :: string

record AdminCredentials =
  acr_Username :: string
  acr_Password :: string
  acr_PasswordSecretRef :: "SecretReference option"

record RisingWaveReference =
  rwref_Name :: string
  rwref_Namespace :: string
  rwref_Credentials :: "AdminCredentials option"

record ConnectionRef =
  cref_Host :: string
  cref_Port :: int
  cref_Credentials :: "AdminCredentials option"

record PasswordConfig =
  pwc_SecretRef :: "SecretReference option"
  pwc_GenerateRandomLength :: "int option"

definition AuthTypePassword :: string where "AuthTypePassword = ''password''"
definition AuthTypeOAuth :: string where "AuthTypeOAuth = ''oauth''"
definition AuthTypeLDAP :: string where "AuthTypeLDAP = ''ldap''"

lemmas auth_type_defs = AuthTypePassword_def AuthTypeOAuth_def AuthTypeLDAP_def

record OAuthConfig =
  oauth_JWKSUrl :: string
  oauth_Issuer :: string
  oauth_Audience :: "string list"

record LDAPConfig =
  ldap_Host :: string
  ldap_Port :: int
  ldap_BaseDN :: string
  ldap_UseSSL :: "bool option"
  ldap_InsecureSkipVerify :: "bool option"

record AuthConfig =
  auth_Type :: "string option"
  auth_OAuth :: "OAuthConfig option"
  auth_LDAP :: "LDAPConfig option"

section \<open>Privileges\<close>

record NestedTablePrivilege =
  ntp_Name :: string
  ntp_Privileges :: "string list"
  ntp_WithGrantOption :: bool

record NestedViewPrivilege =
  nvp_Name :: string
  nvp_Privileges :: "string list"
  nvp_WithGrantOption :: bool

record NestedMaterializedViewPrivilege =
  nmp_Name :: string
  nmp_Privileges :: "string list"
  nmp_WithGrantOption :: bool

record NestedSourcePrivilege =
  nsop_Name :: string
  nsop_Privileges :: "string list"
  nsop_WithGrantOption :: bool

record NestedSinkPrivilege =
  nskp_Name :: string
  nskp_Privileges :: "string list"
  nskp_WithGrantOption :: bool

record NestedConnectionPrivilege =
  ncp_Name :: string
  ncp_Privileges :: "string list"
  ncp_WithGrantOption :: bool

record NestedSecretPrivilege =
  nsep_Name :: string
  nsep_Privileges :: "string list"
  nsep_WithGrantOption :: bool

record NestedFunctionPrivilege =
  nfp_Name :: string
  nfp_Privileges :: "string list"
  nfp_WithGrantOption :: bool

record NestedSchemaPrivilege =
  nsp_Name :: string
  nsp_Privileges :: "string list"
  nsp_WithGrantOption :: bool
  nsp_Tables :: "NestedTablePrivilege list"
  nsp_Views :: "NestedViewPrivilege list"
  nsp_MaterializedViews :: "NestedMaterializedViewPrivilege list"
  nsp_Sources :: "NestedSourcePrivilege list"
  nsp_Sinks :: "NestedSinkPrivilege list"
  nsp_Connections :: "NestedConnectionPrivilege list"
  nsp_Secrets :: "NestedSecretPrivilege list"
  nsp_Functions :: "NestedFunctionPrivilege list"

record DatabasePrivilege =
  dpr_Name :: string
  dpr_Privileges :: "string list"
  dpr_WithGrantOption :: bool
  dpr_Schemas :: "NestedSchemaPrivilege list"

record GrantSpec =
  grs_Databases :: "DatabasePrivilege list"

section \<open>The user\<close>

record RisingWaveUserSpec =
  uspec_RisingWaveRef :: "RisingWaveReference option"
  uspec_ConnectionRef :: "ConnectionRef option"
  uspec_Name :: string
  uspec_Password :: "PasswordConfig option"
  uspec_Auth :: "AuthConfig option"
  uspec_Permissions :: "string list"
  uspec_Grants :: "GrantSpec option"

text \<open>\<^verbatim>\<open>metav1.Condition\<close>.\<close>

record MetaCondition =
  mcond_Type :: string
  mcond_Status :: string
  mcond_Reason :: string
  mcond_Message :: string
  mcond_LastTransitionTime :: time

record ConnectionStatus =
  cst_Connected :: bool
  cst_LastConnectedTime :: "time option"
  cst_ErrorMessage :: string

record RisingWaveUserStatus =
  ust_Conditions :: "MetaCondition list"
  ust_ObservedGeneration :: int
  ust_UserCreated :: bool
  ust_SecretCreated :: bool
  ust_SecretName :: string
  ust_PrivilegesSynced :: bool
  ust_ConnectionStatus :: "ConnectionStatus option"
  ust_Phase :: string

record RisingWaveUser =
  usr_Meta :: ObjectMeta
  usr_Spec :: RisingWaveUserSpec
  usr_Status :: RisingWaveUserStatus

definition RisingWaveUserPhasePending :: string where "RisingWaveUserPhasePending = ''Pending''"
definition RisingWaveUserPhaseCreating :: string where "RisingWaveUserPhaseCreating = ''Creating''"
definition RisingWaveUserPhaseReady :: string where "RisingWaveUserPhaseReady = ''Ready''"
definition RisingWaveUserPhaseUpdating :: string where "RisingWaveUserPhaseUpdating = ''Updating''"
definition RisingWaveUserPhaseDeleting :: string where "RisingWaveUserPhaseDeleting = ''Deleting''"
definition RisingWaveUserPhaseFailed :: string where "RisingWaveUserPhaseFailed = ''Failed''"
definition RisingWaveUserPhaseUnknown :: string where "RisingWaveUserPhaseUnknown = ''Unknown''"

lemmas user_phase_defs =
  RisingWaveUserPhasePending_def
  RisingWaveUserPhaseCreating_def
  RisingWaveUserPhaseReady_def
  RisingWaveUserPhaseUpdating_def
  RisingWaveUserPhaseDeleting_def
  RisingWaveUserPhaseFailed_def
  RisingWaveUserPhaseUnknown_def

definition RisingWaveUserConditionReady :: string where "RisingWaveUserConditionReady = ''Ready''"
definition RisingWaveUserConditionUserCreated :: string where "RisingWaveUserConditionUserCreated = ''UserCreated''"
definition RisingWaveUserConditionSecretCreated :: string where "RisingWaveUserConditionSecretCreated = ''SecretCreated''"
definition RisingWaveUserConditionPrivilegesSynced :: string where "RisingWaveUserConditionPrivilegesSynced = ''PrivilegesSynced''"
definition RisingWaveUserConditionConnectionError :: string where "RisingWaveUserConditionConnectionError = ''ConnectionError''"

lemmas user_condition_defs =
  RisingWaveUserConditionReady_def
  RisingWaveUserConditionUserCreated_def
  RisingWaveUserConditionSecretCreated_def
  RisingWaveUserConditionPrivilegesSynced_def
  RisingWaveUserConditionConnectionError_def

definition GetConditions :: "RisingWaveUser \<Rightarrow> MetaCondition list" where
  "GetConditions u = ust_Conditions (usr_Status u)"

definition SetConditions :: "RisingWaveUser \<Rightarrow> MetaCondition list \<Rightarrow> RisingWaveUser" where
  "SetConditions u cs = u\<lparr>usr_Status := (usr_Status u)\<lparr>ust_Conditions := cs\<rparr>\<rparr>"

section \<open>A sample user\<close>

definition demoUser :: RisingWaveUser where
  "demoUser =
    \<lparr>usr_Meta = \<lparr>om_Name = ''alice'', om_Namespace = ''ns'', om_UID = ''uid-u'', om_Generation = 1, om_Labels = [],
       om_Annotations = [], om_Finalizers = [], om_DeletionTimestamp = None, om_OwnerReferences = []\<rparr>,
     usr_Spec = \<lparr>uspec_RisingWaveRef = Some \<lparr>rwref_Name = ''rw'', rwref_Namespace = [], rwref_Credentials = None\<rparr>,
       uspec_ConnectionRef = None, uspec_Name = [], uspec_Password = None, uspec_Auth = None,
       uspec_Permissions = [''LOGIN''], uspec_Grants = None\<rparr>,
     usr_Status = \<lparr>ust_Conditions = [], ust_ObservedGeneration = 0, ust_UserCreated = False, ust_SecretCreated = False,
       ust_SecretName = [], ust_PrivilegesSynced = False, ust_ConnectionStatus = None, ust_Phase = []\<rparr>\<rparr>"

end
