(* ===== verification/SqlSyntax.thy ===== *)
theory SqlSyntax
  imports Prelude
begin

text \<open>
  A reference for the SQL that \<^verbatim>\<open>pkg/rwclient\<close> sends: the lexical structure of a statement (words, symbols,
  quoted identifiers and string literals, where a quote inside quotes is doubled) and the shape of GRANT
  and REVOKE statements. The builders of the source are compared with it: what they write, read back
  by the database, is the statement that was meant, whatever characters the names and passwords have.
\<close>

section \<open>Tokens\<close>

datatype token = Word string | Sym char | Ident string | Lit string

datatype lexMode = Plain string | InQuote char string | Closing char string

definition symbols :: string where
  "symbols = '',.*;()''"

definition dquote :: char where "dquote = CHR 0x22"
definition squote :: char where "squote = CHR 0x27"

definition quotedTok :: "char \<Rightarrow> string \<Rightarrow> token" where
  "quotedTok q w = (if q = dquote then Ident w else Lit w)"

definition flush :: "string \<Rightarrow> token list" where
  "flush w = (if w = [] then [] else [Word w])"

definition emit :: "token list \<Rightarrow> token list option \<Rightarrow> token list option" where
  "emit ts r = map_option ((@) ts) r"

lemma emit_simps [simp]: "emit ts (Some us) = Some (ts @ us)" "emit ts None = None" "emit [] r = r"
  by (simp_all add: emit_def, cases r) simp_all

lemma emit_emit [simp]: "emit ts (emit us r) = emit (ts @ us) r"
  by (cases r) simp_all

fun closing :: "lexMode \<Rightarrow> nat" where
  "closing (Closing q w) = 1"
| "closing m = 0"

function (sequential) lexFrom :: "lexMode \<Rightarrow> string \<Rightarrow> token list option" where
  "lexFrom (Plain w) [] = Some (flush w)"
| "lexFrom (Plain w) (c # s) =
     (if c = dquote \<or> c = squote then emit (flush w) (lexFrom (InQuote c []) s)
      else if c = CHR '' '' then emit (flush w) (lexFrom (Plain []) s)
      else if c \<in> set symbols then emit (flush w @ [Sym c]) (lexFrom (Plain []) s)
      else lexFrom (Plain (w @ [c])) s)"
| "lexFrom (InQuote q w) [] = None"
| "lexFrom (InQuote q w) (c # s) =
     (if c = q then lexFrom (Closing q w) s else lexFrom (InQuote q (w @ [c])) s)"
| "lexFrom (Closing q w) [] = Some [quotedTok q w]"
| "lexFrom (Closing q w) (c # s) =
     (if c = q then lexFrom (InQuote q (w @ [q])) s
      else emit [quotedTok q w] (lexFrom (Plain []) (c # s)))"
  by pat_completeness auto

termination by (relation "measure (\<lambda>(m, s). 2 * length s + closing m)") auto

definition lexSql :: "string \<Rightarrow> token list option" where
  "lexSql s = lexFrom (Plain []) s"

text \<open>A word that stands for itself: no blank, no quote and no symbol.\<close>

definition plainChar :: "char \<Rightarrow> bool" where
  "plainChar c \<longleftrightarrow> c \<noteq> dquote \<and> c \<noteq> squote \<and> c \<noteq> CHR '' '' \<and> c \<notin> set symbols"

definition plainWord :: "string \<Rightarrow> bool" where
  "plainWord w \<longleftrightarrow> w \<noteq> [] \<and> list_all plainChar w"

text \<open>The text does not go on with the given quote, which would be read as an escaped one.\<close>

definition endsQuote :: "char \<Rightarrow> string \<Rightarrow> bool" where
  "endsQuote q s \<longleftrightarrow> (case s of [] \<Rightarrow> True | c # _ \<Rightarrow> c \<noteq> q)"

lemma endsQuote_simps [simp]: "endsQuote q []" "endsQuote q (c # s) \<longleftrightarrow> c \<noteq> q"
  by (simp_all add: endsQuote_def)

lemma lexFrom_InQuote:
  "lexFrom (InQuote q w) (replaceChar q [q, q] s @ q # t) = lexFrom (Closing q (w @ s)) t"
  by (induction s arbitrary: w) simp_all

lemma lexFrom_Closing:
  "endsQuote q t \<Longrightarrow> lexFrom (Closing q w) t = emit [quotedTok q w] (lexFrom (Plain []) t)"
  by (cases t) (simp_all add: flush_def)

lemma lexFrom_plain:
  "list_all plainChar w \<Longrightarrow> lexFrom (Plain u) (w @ s) = lexFrom (Plain (u @ w)) s"
  by (induction w arbitrary: u) (simp_all add: plainChar_def)

lemma lexFrom_word:
  assumes "plainWord w"
  shows "lexFrom (Plain []) w = Some [Word w]"
    and "lexFrom (Plain []) (w @ CHR '' '' # s) = emit [Word w] (lexFrom (Plain []) s)"
    and "lexFrom (Plain []) (w @ CHR '','' # s) = emit [Word w, Sym CHR '',''] (lexFrom (Plain []) s)"
  using assms lexFrom_plain [of w "[]"] lexFrom_plain [of w "[]" "[]"]
  by (simp_all add: plainWord_def flush_def dquote_def squote_def symbols_def)

text \<open>A quoted name or literal is read back as what was quoted.\<close>

definition quoteWith :: "char \<Rightarrow> string \<Rightarrow> string" where
  "quoteWith q s = [q] @ replaceChar q [q, q] s @ [q]"

lemma lexFrom_quoteWith:
  assumes "q = dquote \<or> q = squote" "endsQuote q t"
  shows "lexFrom (Plain w) (quoteWith q s @ t) = emit (flush w @ [quotedTok q s]) (lexFrom (Plain []) t)"
  using assms by (auto simp: quoteWith_def lexFrom_InQuote lexFrom_Closing)

section \<open>Statements\<close>

datatype sqlObject =
    OnDatabase token
  | OnSchema token
  | OnQualified "string list" token token token
  | OnUnqualified "string list" token
  | OnAll "string list" token

datatype sqlStmt =
    Grant "string list" sqlObject string bool
  | Revoke "string list" sqlObject string

fun sepWords :: "string list \<Rightarrow> token list" where
  "sepWords [] = []"
| "sepWords [w] = [Word w]"
| "sepWords (w # v # ws) = Word w # Sym CHR '','' # sepWords (v # ws)"

fun objectTokens :: "sqlObject \<Rightarrow> token list" where
  "objectTokens (OnDatabase n) = [Word ''DATABASE'', n]"
| "objectTokens (OnSchema n) = [Word ''SCHEMA'', n]"
| "objectTokens (OnQualified k d s n) = map Word k @ [d, Sym CHR ''.'', s, Sym CHR ''.'', n]"
| "objectTokens (OnUnqualified k n) = map Word k @ [n]"
| "objectTokens (OnAll k s) = Word ''ALL'' # map Word k @ [Word ''IN'', Word ''SCHEMA'', s]"

fun stmtTokens :: "sqlStmt \<Rightarrow> token list" where
  "stmtTokens (Grant ps obj u withOption) =
     Word ''GRANT'' # sepWords ps @ Word ''ON'' # objectTokens obj @ [Word ''TO'', Ident u] @
     (if withOption then [Word ''WITH'', Word ''GRANT'', Word ''OPTION''] else [])"
| "stmtTokens (Revoke ps obj u) =
     Word ''REVOKE'' # sepWords ps @ Word ''ON'' # objectTokens obj @ [Word ''FROM'', Ident u]"

lemma lexFrom_join:
  "\<lbrakk>ws \<noteq> []; \<forall>w \<in> set ws. plainWord w\<rbrakk> \<Longrightarrow>
   lexFrom (Plain []) (joinStr '', '' ws @ CHR '' '' # s) = emit (sepWords ws) (lexFrom (Plain []) s)"
proof (induction ws rule: sepWords.induct)
  case (3 w v ws)
  then show ?case
    by (simp add: lexFrom_word symbols_def dquote_def squote_def flush_def)
qed (simp_all add: lexFrom_word)

end
