(* ===== verification/UserWebhook.thy ===== *)
theory UserWebhook
  imports UserApi Admission SqlSyntax
begin

text \<open>
  \<^verbatim>\<open>pkg/webhook/risingwave_user_validating_webhook.go\<close>. The API server's read of a RisingWave is the argument
  \<open>get\<close>, the text of its errors \<open>errText\<close>. A validation returns the warnings and the error.
\<close>

section \<open>The code\<close>

definition passwordRotateAnnotation :: string where
  "passwordRotateAnnotation = ''risingwave.risingwavelabs.com/rotate-password''"

type_synonym getRisingWave = "string \<Rightarrow> string \<Rightarrow> ApiError + RisingWave"
type_synonym errText = "ApiError \<Rightarrow> string"

definition uw_getUserName :: "RisingWaveUser \<Rightarrow> string" where
  "uw_getUserName obj = (if uspec_Name (usr_Spec obj) \<noteq> [] then uspec_Name (usr_Spec obj) else om_Name (usr_Meta obj))"

definition uw_getAuthType :: "RisingWaveUser \<Rightarrow> string" where
  "uw_getAuthType obj =
     (case uspec_Auth (usr_Spec obj) of
        None \<Rightarrow> AuthTypePassword
      | Some a \<Rightarrow> (case auth_Type a of None \<Rightarrow> AuthTypePassword | Some t \<Rightarrow> t))"

definition passwordConfigEqual :: "PasswordConfig option \<Rightarrow> PasswordConfig option \<Rightarrow> bool" where
  "passwordConfigEqual a b =
     (case (a, b) of
        (None, None) \<Rightarrow> True
      | (None, Some _) \<Rightarrow> False
      | (Some _, None) \<Rightarrow> False
      | (Some a, Some b) \<Rightarrow>
          (case (pwc_SecretRef a, pwc_SecretRef b) of
             (Some s, Some t) \<Rightarrow> sref_Name s = sref_Name t \<and> sref_Namespace s = sref_Namespace t \<and> sref_Key s = sref_Key t
           | _ \<Rightarrow>
               (case (pwc_GenerateRandomLength a, pwc_GenerateRandomLength b) of
                  (Some m, Some n) \<Rightarrow> m = n
                | _ \<Rightarrow> True)))"

definition validateAdminCredentials :: "AdminCredentials option \<Rightarrow> path \<Rightarrow> FieldError list" where
  "validateAdminCredentials creds p =
     (case creds of
        None \<Rightarrow> []
      | Some c \<Rightarrow>
          (case acr_PasswordSecretRef c of
             None \<Rightarrow> []
           | Some r \<Rightarrow> if sref_Name r = []
               then [fieldErr FRequired (p @ [Child ''passwordSecretRef'', Child ''name'']) ''passwordSecretRef.name is required'']
               else []))"

definition validateRisingWaveRef ::
  "getRisingWave \<Rightarrow> errText \<Rightarrow> RisingWaveUser \<Rightarrow> RisingWaveReference \<Rightarrow> path \<Rightarrow> FieldError list" where
  "validateRisingWaveRef get errText obj ref specPath =
     (let p = specPath @ [Child ''risingWaveRef''] in
      if rwref_Name ref = [] then [fieldErr FRequired (p @ [Child ''name'']) ''risingWaveRef.name is required'']
      else
        (let namespace = (if rwref_Namespace ref = [] then om_Namespace (usr_Meta obj) else rwref_Namespace ref);
             creds = validateAdminCredentials (rwref_Credentials ref) (p @ [Child ''credentials''])
         in case get namespace (rwref_Name ref) of
              Inr _ \<Rightarrow> creds
            | Inl e \<Rightarrow>
                if e = NotFoundErr
                then fieldErr FNotFound (p @ [Child ''name'']) (''RisingWave '' @ namespace @ ''/'' @ rwref_Name ref @ '' not found'') # creds
                else [fieldErr FInternal p (errText e)]))"

definition validateConnectionRef :: "ConnectionRef \<Rightarrow> path \<Rightarrow> FieldError list" where
  "validateConnectionRef ref specPath =
     (let p = specPath @ [Child ''connectionRef''] in
      (if cref_Host ref = [] then [fieldErr FRequired (p @ [Child ''host'']) ''connectionRef.host is required''] else []) @
      (if cref_Port ref \<noteq> 0 \<and> (cref_Port ref < 1 \<or> cref_Port ref > 65535)
       then [fieldErr FInvalid (p @ [Child ''port'']) ''port must be between 1 and 65535''] else []) @
      validateAdminCredentials (cref_Credentials ref) (p @ [Child ''credentials'']))"

definition validatePasswordConfig :: "RisingWaveUser \<Rightarrow> path \<Rightarrow> FieldError list" where
  "validatePasswordConfig obj specPath =
     (case uspec_Password (usr_Spec obj) of
        None \<Rightarrow> []
      | Some pw \<Rightarrow>
          (let p = specPath @ [Child ''password''] in
           (if pwc_SecretRef pw \<noteq> None \<and> pwc_GenerateRandomLength pw \<noteq> None
            then [fieldErr FInvalid (p @ [Child ''generateRandomLength'']) ''cannot specify both secretRef and generateRandomLength'']
            else []) @
           (case pwc_SecretRef pw of
              None \<Rightarrow> []
            | Some r \<Rightarrow> if sref_Name r = []
                then [fieldErr FRequired (p @ [Child ''secretRef'', Child ''name'']) ''secretRef.name is required''] else []) @
           (case pwc_GenerateRandomLength pw of
              None \<Rightarrow> []
            | Some n \<Rightarrow>
                (if n < 8 then [fieldErr FInvalid (p @ [Child ''generateRandomLength'']) ''must be greater than or equal to 8''] else []) @
                (if n > 128 then [fieldErr FInvalid (p @ [Child ''generateRandomLength'']) ''must be less than or equal to 128''] else []))))"

definition validateAuthConfig :: "RisingWaveUser \<Rightarrow> path \<Rightarrow> FieldError list" where
  "validateAuthConfig obj specPath =
     (case uspec_Auth (usr_Spec obj) of
        None \<Rightarrow> []
      | Some a \<Rightarrow>
          (let p = specPath @ [Child ''auth'']; authType = uw_getAuthType obj in
           if authType = AuthTypeOAuth then
             (case auth_OAuth a of
                None \<Rightarrow> [fieldErr FRequired (p @ [Child ''oauth'']) ''oauth configuration is required when auth.type is oauth'']
              | Some o' \<Rightarrow>
                  (let q = p @ [Child ''oauth''] in
                   (if oauth_JWKSUrl o' = [] then [fieldErr FRequired (q @ [Child ''jwksUrl'']) ''jwksUrl is required for OAuth authentication''] else []) @
                   (if \<not> hasPrefix (oauth_JWKSUrl o') ''http://'' \<and> \<not> hasPrefix (oauth_JWKSUrl o') ''https://''
                    then [fieldErr FInvalid (q @ [Child ''jwksUrl'']) ''must be a valid HTTP(S) URL''] else []) @
                   (if oauth_Issuer o' = [] then [fieldErr FRequired (q @ [Child ''issuer'']) ''issuer is required for OAuth authentication''] else [])))
           else if authType = AuthTypeLDAP then
             (case auth_LDAP a of
                None \<Rightarrow> [fieldErr FRequired (p @ [Child ''ldap'']) ''ldap configuration is required when auth.type is ldap'']
              | Some l \<Rightarrow>
                  (let q = p @ [Child ''ldap''] in
                   (if ldap_Host l = [] then [fieldErr FRequired (q @ [Child ''host'']) ''host is required for LDAP authentication''] else []) @
                   (if ldap_BaseDN l = [] then [fieldErr FRequired (q @ [Child ''baseDN'']) ''baseDN is required for LDAP authentication''] else []) @
                   (if ldap_Port l \<noteq> 0 \<and> (ldap_Port l < 1 \<or> ldap_Port l > 65535)
                    then [fieldErr FInvalid (q @ [Child ''port'']) ''port must be between 1 and 65535''] else [])))
           else []))"

text \<open>The loop over the objects of one kind, given as names with privileges.\<close>

definition validateNested :: "path \<Rightarrow> string \<Rightarrow> string \<Rightarrow> (string \<times> string list) list \<Rightarrow> FieldError list" where
  "validateNested schemaPath field what objs =
     concat (map (\<lambda>(k, (name, privs)).
       (let p = schemaPath @ [Child field, Idx k] in
        (if name = [] then [fieldErr FRequired (p @ [Child ''name'']) (what @ '' name is required'')] else []) @
        (if privs = [] then [fieldErr FRequired (p @ [Child ''privileges'']) ''at least one privilege is required''] else [])))
       (List.enumerate 0 objs))"

text \<open>The kinds of objects of a schema, in the order of the loops.\<close>

definition nestedObjects :: "NestedSchemaPrivilege \<Rightarrow> (string \<times> string \<times> (string \<times> string list) list) list" where
  "nestedObjects s =
     [(''tables'', ''table'', map (\<lambda>p. (ntp_Name p, ntp_Privileges p)) (nsp_Tables s)),
      (''views'', ''view'', map (\<lambda>p. (nvp_Name p, nvp_Privileges p)) (nsp_Views s)),
      (''materializedViews'', ''materialized view'', map (\<lambda>p. (nmp_Name p, nmp_Privileges p)) (nsp_MaterializedViews s)),
      (''sources'', ''source'', map (\<lambda>p. (nsop_Name p, nsop_Privileges p)) (nsp_Sources s)),
      (''sinks'', ''sink'', map (\<lambda>p. (nskp_Name p, nskp_Privileges p)) (nsp_Sinks s)),
      (''connections'', ''connection'', map (\<lambda>p. (ncp_Name p, ncp_Privileges p)) (nsp_Connections s)),
      (''secrets'', ''secret'', map (\<lambda>p. (nsep_Name p, nsep_Privileges p)) (nsp_Secrets s)),
      (''functions'', ''function'', map (\<lambda>p. (nfp_Name p, nfp_Privileges p)) (nsp_Functions s))]"

definition validateSchema :: "path \<Rightarrow> NestedSchemaPrivilege \<Rightarrow> FieldError list" where
  "validateSchema p s =
     (if nsp_Name s = [] then [fieldErr FRequired (p @ [Child ''name'']) ''schema name is required''] else []) @
     (if nsp_Privileges s = [] then [fieldErr FRequired (p @ [Child ''privileges'']) ''at least one privilege is required''] else []) @
     concat (map (\<lambda>(field, what, objs). validateNested p field what objs) (nestedObjects s))"

definition validateDatabase :: "path \<Rightarrow> DatabasePrivilege \<Rightarrow> FieldError list" where
  "validateDatabase p d =
     (if dpr_Name d = [] then [fieldErr FRequired (p @ [Child ''name'']) ''database name is required''] else []) @
     (if dpr_Name d = ''*'' then [fieldErr FInvalid (p @ [Child ''name''])
        (''wildcard '' @ [squote] @ ''*'' @ [squote] @ '' is not supported for database names, use specific database names'')] else []) @
     concat (map (\<lambda>(j, s). validateSchema (p @ [Child ''schemas'', Idx j]) s) (List.enumerate 0 (dpr_Schemas d))) @
     (if dpr_Privileges d = [] then [fieldErr FRequired (p @ [Child ''privileges'']) ''at least one privilege is required''] else [])"

definition validatePrivileges :: "RisingWaveUser \<Rightarrow> path \<Rightarrow> FieldError list" where
  "validatePrivileges obj specPath =
     (case uspec_Grants (usr_Spec obj) of
        None \<Rightarrow> []
      | Some g \<Rightarrow> concat (map (\<lambda>(i, d). validateDatabase (specPath @ [Child ''privileges'', Child ''databases'', Idx i]) d)
          (List.enumerate 0 (grs_Databases g))))"

definition uw_validateObject :: "getRisingWave \<Rightarrow> errText \<Rightarrow> RisingWaveUser \<Rightarrow> string list \<times> ApiError option" where
  "uw_validateObject get errText obj =
     (let sp = [Child ''spec'']; spec = usr_Spec obj;
          refErrs = (case (uspec_RisingWaveRef spec, uspec_ConnectionRef spec) of
              (Some _, Some _) \<Rightarrow> [fieldErr FInvalid (sp @ [Child ''connectionRef''])
                 ''cannot specify both risingWaveRef and connectionRef; exactly one is required'']
            | (None, None) \<Rightarrow> [fieldErr FRequired sp ''one of risingWaveRef or connectionRef is required'']
            | (Some r, None) \<Rightarrow> validateRisingWaveRef get errText obj r sp
            | (None, Some c) \<Rightarrow> validateConnectionRef c sp);
          nameErrs = (if uspec_Name spec \<noteq> [] \<and> length (uspec_Name spec) > 63
            then [fieldErr FTooLong (sp @ [Child ''name'']) ''may not be more than 63 bytes''] else []);
          warnings = (if uspec_Name spec \<noteq> [] \<and> (hasPrefix (uspec_Name spec) ''pg_'' \<or> hasPrefix (uspec_Name spec) ''rw_'')
            then [''User name '' @ goQuote (uspec_Name spec) @ '' starts with reserved prefix (pg_ or rw_), this may cause conflicts''] else [])
      in (warnings, invalidIfAny (refErrs @ nameErrs @ validatePasswordConfig obj sp @ validateAuthConfig obj sp @
            (if uspec_Grants spec \<noteq> None then validatePrivileges obj sp else []))))"

definition uw_ValidateCreate :: "getRisingWave \<Rightarrow> errText \<Rightarrow> RisingWaveUser \<Rightarrow> string list \<times> ApiError option" where
  "uw_ValidateCreate get errText obj = uw_validateObject get errText obj"

text \<open>The errors of an update, beyond those of the new object.\<close>

definition updateErrs :: "RisingWaveUser \<Rightarrow> RisingWaveUser \<Rightarrow> FieldError list" where
  "updateErrs old new =
     (let sp = [Child ''spec''] in
      (if (uspec_RisingWaveRef (usr_Spec old) \<noteq> None) \<noteq> (uspec_RisingWaveRef (usr_Spec new) \<noteq> None)
       then [fieldErr FForbidden sp ''cannot change connection type between risingWaveRef and connectionRef after creation''] else []) @
      (case (uspec_RisingWaveRef (usr_Spec old), uspec_RisingWaveRef (usr_Spec new)) of
         (Some r, Some s) \<Rightarrow> if rwref_Name r \<noteq> rwref_Name s
           then [fieldErr FForbidden (sp @ [Child ''risingWaveRef'']) ''risingWaveRef.name cannot be changed''] else []
       | _ \<Rightarrow> []) @
      (case (uspec_ConnectionRef (usr_Spec old), uspec_ConnectionRef (usr_Spec new)) of
         (Some r, Some s) \<Rightarrow> if cref_Host r \<noteq> cref_Host s
           then [fieldErr FForbidden (sp @ [Child ''connectionRef'', Child ''host'']) ''connectionRef.host cannot be changed''] else []
       | _ \<Rightarrow> []) @
      (let oldName = uw_getUserName old; newName = uw_getUserName new in
       if oldName \<noteq> [] \<and> newName \<noteq> [] \<and> oldName \<noteq> newName
       then [fieldErr FForbidden (sp @ [Child ''name'']) (''user name cannot be changed from '' @ goQuote oldName @ '' to '' @ goQuote newName)] else []) @
      (if map_of (om_Annotations (usr_Meta new)) passwordRotateAnnotation = None
          \<and> \<not> passwordConfigEqual (uspec_Password (usr_Spec old)) (uspec_Password (usr_Spec new))
       then [fieldErr FForbidden (sp @ [Child ''password'']) ''password configuration cannot be changed without rotate-password annotation''] else []) @
      (let oldType = uw_getAuthType old; newType = uw_getAuthType new in
       if oldType \<noteq> [] \<and> newType \<noteq> [] \<and> oldType \<noteq> newType
       then [fieldErr FForbidden (sp @ [Child ''auth'', Child ''type'']) (''auth type cannot be changed from '' @ oldType @ '' to '' @ newType)] else []))"

definition uw_ValidateUpdate ::
  "getRisingWave \<Rightarrow> errText \<Rightarrow> RisingWaveUser \<Rightarrow> RisingWaveUser \<Rightarrow> string list \<times> ApiError option" where
  "uw_ValidateUpdate get errText old new =
     (case uw_validateObject get errText new of
        (warnings, Some e) \<Rightarrow> (warnings, Some e)
      | (warnings, None) \<Rightarrow> (warnings, invalidIfAny (updateErrs old new)))"

definition uw_ValidateDelete :: "RisingWaveUser \<Rightarrow> string list \<times> ApiError option" where
  "uw_ValidateDelete obj = ([], None)"

section \<open>What an accepted user satisfies\<close>

definition grantsNamed :: "GrantSpec \<Rightarrow> bool" where
  "grantsNamed g \<longleftrightarrow> list_all (\<lambda>d. dpr_Name d \<noteq> [] \<and> dpr_Name d \<noteq> ''*'' \<and> dpr_Privileges d \<noteq> []
     \<and> list_all (\<lambda>s. nsp_Name s \<noteq> [] \<and> nsp_Privileges s \<noteq> []
         \<and> list_all (\<lambda>(field, what, objs). list_all (\<lambda>(n, ps). n \<noteq> [] \<and> ps \<noteq> []) objs) (nestedObjects s)) (dpr_Schemas d)) (grs_Databases g)"

definition credentialsNamed :: "AdminCredentials option \<Rightarrow> bool" where
  "credentialsNamed c \<longleftrightarrow> (case c of None \<Rightarrow> True | Some c \<Rightarrow>
     (case acr_PasswordSecretRef c of None \<Rightarrow> True | Some r \<Rightarrow> sref_Name r \<noteq> []))"

definition refOk :: "getRisingWave \<Rightarrow> RisingWaveUser \<Rightarrow> bool" where
  "refOk get u \<longleftrightarrow>
     (case (uspec_RisingWaveRef (usr_Spec u), uspec_ConnectionRef (usr_Spec u)) of
        (Some r, None) \<Rightarrow> rwref_Name r \<noteq> [] \<and> credentialsNamed (rwref_Credentials r) \<and>
          (\<exists>rw. get (if rwref_Namespace r = [] then om_Namespace (usr_Meta u) else rwref_Namespace r) (rwref_Name r) = Inr rw)
      | (None, Some c) \<Rightarrow> cref_Host c \<noteq> [] \<and> 0 \<le> cref_Port c \<and> cref_Port c \<le> 65535 \<and> credentialsNamed (cref_Credentials c)
      | _ \<Rightarrow> False)"

definition passwordOk :: "PasswordConfig option \<Rightarrow> bool" where
  "passwordOk p \<longleftrightarrow> (case p of None \<Rightarrow> True | Some pw \<Rightarrow>
     (case (pwc_SecretRef pw, pwc_GenerateRandomLength pw) of
        (Some r, None) \<Rightarrow> sref_Name r \<noteq> []
      | (None, Some n) \<Rightarrow> 8 \<le> n \<and> n \<le> 128
      | (None, None) \<Rightarrow> True
      | _ \<Rightarrow> False))"

definition authOk :: "RisingWaveUser \<Rightarrow> bool" where
  "authOk u \<longleftrightarrow> (case uspec_Auth (usr_Spec u) of None \<Rightarrow> True | Some a \<Rightarrow>
     (uw_getAuthType u = AuthTypeOAuth \<longrightarrow> (case auth_OAuth a of None \<Rightarrow> False
        | Some c \<Rightarrow> (hasPrefix (oauth_JWKSUrl c) ''http://'' \<or> hasPrefix (oauth_JWKSUrl c) ''https://'') \<and> oauth_Issuer c \<noteq> []))
     \<and> (uw_getAuthType u = AuthTypeLDAP \<longrightarrow> (case auth_LDAP a of None \<Rightarrow> False
        | Some l \<Rightarrow> ldap_Host l \<noteq> [] \<and> ldap_BaseDN l \<noteq> [] \<and> 0 \<le> ldap_Port l \<and> ldap_Port l \<le> 65535)))"

section \<open>Lemmas\<close>

lemma enumerate_Nil:
  assumes "concat (map (\<lambda>(i, x). f i x) (List.enumerate n xs)) = []" "x \<in> set xs"
  shows "\<exists>i. f i x = []"
proof -
  obtain i where "i < length xs" "xs ! i = x" using assms(2) by (auto simp: in_set_conv_nth)
  then have "(n + i, x) \<in> set (List.enumerate n xs)" by (auto simp: in_set_enumerate_eq)
  then show ?thesis using assms(1) by (force simp: concat_eq_Nil_conv)
qed

lemma validateNested_Nil:
  assumes "validateNested p field what objs = []"
  shows "list_all (\<lambda>(n, ps). n \<noteq> [] \<and> ps \<noteq> []) objs"
proof (unfold list_all_iff, rule ballI)
  fix x assume x: "x \<in> set objs"
  obtain n ps where [simp]: "x = (n, ps)" by (cases x)
  from enumerate_Nil [OF assms [unfolded validateNested_def] x] show "case x of (n, ps) \<Rightarrow> n \<noteq> [] \<and> ps \<noteq> []"
    by (auto simp: Let_def split: if_splits)
qed

lemma validateSchema_Nil:
  assumes "validateSchema p s = []"
  shows "nsp_Name s \<noteq> [] \<and> nsp_Privileges s \<noteq> []
    \<and> list_all (\<lambda>(field, what, objs). list_all (\<lambda>(n, ps). n \<noteq> [] \<and> ps \<noteq> []) objs) (nestedObjects s)"
proof -
  have n: "nsp_Name s \<noteq> []" "nsp_Privileges s \<noteq> []" and
    c: "concat (map (\<lambda>(field, what, objs). validateNested p field what objs) (nestedObjects s)) = []"
    using assms unfolding validateSchema_def by (auto split: if_splits)
  have "\<forall>x \<in> set (nestedObjects s). (case x of (field, what, objs) \<Rightarrow> validateNested p field what objs) = []"
    using c by (simp only: concat_eq_Nil_conv set_map ball_simps)
  then have "list_all (\<lambda>(field, what, objs). list_all (\<lambda>(n, ps). n \<noteq> [] \<and> ps \<noteq> []) objs) (nestedObjects s)"
    unfolding list_all_iff [of _ "nestedObjects s"] using validateNested_Nil by (metis (no_types, lifting) case_prodE case_prodI2 prod.case)
  with n show ?thesis by blast
qed

lemma validateDatabase_Nil:
  assumes "validateDatabase p d = []"
  shows "dpr_Name d \<noteq> [] \<and> dpr_Name d \<noteq> ''*'' \<and> dpr_Privileges d \<noteq> []
     \<and> list_all (\<lambda>s. nsp_Name s \<noteq> [] \<and> nsp_Privileges s \<noteq> []
         \<and> list_all (\<lambda>(field, what, objs). list_all (\<lambda>(n, ps). n \<noteq> [] \<and> ps \<noteq> []) objs) (nestedObjects s)) (dpr_Schemas d)"
proof -
  have n: "dpr_Name d \<noteq> []" "dpr_Name d \<noteq> ''*''" "dpr_Privileges d \<noteq> []" and
    c: "concat (map (\<lambda>(j, s). validateSchema (p @ [Child ''schemas'', Idx j]) s) (List.enumerate 0 (dpr_Schemas d))) = []"
    using assms unfolding validateDatabase_def by (auto split: if_splits)
  have "\<exists>j. validateSchema (p @ [Child ''schemas'', Idx j]) s = []" if "s \<in> set (dpr_Schemas d)" for s
    using enumerate_Nil [OF c that] .
  then show ?thesis using n validateSchema_Nil unfolding list_all_iff [of _ "dpr_Schemas d"] by blast
qed

lemma validatePrivileges_Nil:
  assumes "validatePrivileges u p = []" "uspec_Grants (usr_Spec u) = Some g"
  shows "grantsNamed g"
proof -
  have c: "concat (map (\<lambda>(i, d). validateDatabase (p @ [Child ''privileges'', Child ''databases'', Idx i]) d)
      (List.enumerate 0 (grs_Databases g))) = []" using assms by (simp add: validatePrivileges_def)
  have "\<exists>i. validateDatabase (p @ [Child ''privileges'', Child ''databases'', Idx i]) d = []" if "d \<in> set (grs_Databases g)" for d
    using enumerate_Nil [OF c that] .
  then show ?thesis using validateDatabase_Nil unfolding grantsNamed_def list_all_iff [of _ "grs_Databases g"] by blast
qed

lemma validateAdminCredentials_Nil: "validateAdminCredentials c p = [] \<longleftrightarrow> credentialsNamed c"
  by (simp add: validateAdminCredentials_def credentialsNamed_def split: option.split)

lemma validateRisingWaveRef_Nil:
  assumes "validateRisingWaveRef get errText u r p = []"
  shows "rwref_Name r \<noteq> [] \<and> credentialsNamed (rwref_Credentials r) \<and>
    (\<exists>rw. get (if rwref_Namespace r = [] then om_Namespace (usr_Meta u) else rwref_Namespace r) (rwref_Name r) = Inr rw)"
  using assms unfolding validateRisingWaveRef_def Let_def
  by (auto simp: validateAdminCredentials_Nil split: if_splits sum.splits)

lemma validateConnectionRef_Nil:
  "validateConnectionRef c p = [] \<Longrightarrow>
   cref_Host c \<noteq> [] \<and> 0 \<le> cref_Port c \<and> cref_Port c \<le> 65535 \<and> credentialsNamed (cref_Credentials c)"
  unfolding validateConnectionRef_def Let_def by (auto simp: validateAdminCredentials_Nil split: if_splits)

lemma validatePasswordConfig_Nil: "validatePasswordConfig u p = [] \<Longrightarrow> passwordOk (uspec_Password (usr_Spec u))"
  unfolding validatePasswordConfig_def passwordOk_def Let_def by (auto split: if_splits option.splits)

lemma validateAuthConfig_Nil: "validateAuthConfig u p = [] \<Longrightarrow> authOk u"
  unfolding validateAuthConfig_def authOk_def Let_def
  by (auto simp: auth_type_defs split: if_splits option.splits)

lemma refErrs_Nil:
  assumes "(case (uspec_RisingWaveRef (usr_Spec u), uspec_ConnectionRef (usr_Spec u)) of
              (Some _, Some _) \<Rightarrow> [e1]
            | (None, None) \<Rightarrow> [e2]
            | (Some r, None) \<Rightarrow> validateRisingWaveRef get errText u r sp
            | (None, Some c) \<Rightarrow> validateConnectionRef c sp) = []"
  shows "refOk get u"
  using assms validateRisingWaveRef_Nil validateConnectionRef_Nil unfolding refOk_def
  by (cases "uspec_RisingWaveRef (usr_Spec u)"; cases "uspec_ConnectionRef (usr_Spec u)"; simp; metis)

section \<open>Properties\<close>

text \<open>C29: An accepted RisingWaveUser refers to exactly one cluster, an existing RisingWave or a host with a valid
  port; its name has at most 63 bytes, its password comes from a named secret or has 8 to 128 characters, its
  authentication is complete, and all its grants name their objects and have privileges, none on all databases.\<close>
theorem user_create_sound:
  assumes "uw_ValidateCreate get errText u = (warnings, None)"
  shows "refOk get u \<and> length (uspec_Name (usr_Spec u)) \<le> 63 \<and> passwordOk (uspec_Password (usr_Spec u)) \<and> authOk u
    \<and> (\<forall>g. uspec_Grants (usr_Spec u) = Some g \<longrightarrow> grantsNamed g)"
proof -
  let ?sp = "[Child ''spec'']"
  have e: "validatePasswordConfig u ?sp = []" "validateAuthConfig u ?sp = []"
    "uspec_Grants (usr_Spec u) \<noteq> None \<longrightarrow> validatePrivileges u ?sp = []"
    "length (uspec_Name (usr_Spec u)) \<le> 63"
    using assms unfolding uw_ValidateCreate_def uw_validateObject_def Let_def by (auto split: if_splits)
  have "refOk get u"
    using assms unfolding uw_ValidateCreate_def uw_validateObject_def Let_def prod.inject invalidIfAny_None append_is_Nil_conv
    by (blast intro: refErrs_Nil)
  then show ?thesis using e validatePasswordConfig_Nil validateAuthConfig_Nil validatePrivileges_Nil by blast
qed


text \<open>The comparison of password configurations has a gap: without the rotation annotation an update may still go
  from a password in a secret to a generated one.\<close>
theorem user_update_password_gap:
  "\<exists>old new get. uw_ValidateUpdate get (\<lambda>_. []) old new = ([], None)
     \<and> map_of (om_Annotations (usr_Meta new)) passwordRotateAnnotation = None
     \<and> uspec_Password (usr_Spec old) = Some \<lparr>pwc_SecretRef = Some \<lparr>sref_Name = ''s'', sref_Namespace = [], sref_Key = []\<rparr>, pwc_GenerateRandomLength = None\<rparr>
     \<and> uspec_Password (usr_Spec new) = Some \<lparr>pwc_SecretRef = None, pwc_GenerateRandomLength = Some 8\<rparr>"
proof -
  let ?old = "demoUser\<lparr>usr_Spec := (usr_Spec demoUser)\<lparr>uspec_Password :=
     Some \<lparr>pwc_SecretRef = Some \<lparr>sref_Name = ''s'', sref_Namespace = [], sref_Key = []\<rparr>, pwc_GenerateRandomLength = None\<rparr>\<rparr>\<rparr>"
  let ?new = "demoUser\<lparr>usr_Spec := (usr_Spec demoUser)\<lparr>uspec_Password := Some \<lparr>pwc_SecretRef = None, pwc_GenerateRandomLength = Some 8\<rparr>\<rparr>\<rparr>"
  have "uw_ValidateUpdate (\<lambda>ns n. Inr demoRisingWave) (\<lambda>_. []) ?old ?new = ([], None)" by code_simp
  moreover have "map_of (om_Annotations (usr_Meta ?new)) passwordRotateAnnotation = None" by code_simp
  ultimately show ?thesis by (intro exI [of _ ?old] exI [of _ ?new] exI [of _ "\<lambda>ns n. Inr demoRisingWave"]) simp
qed

section \<open>Examples\<close>

definition demoGetRw :: getRisingWave where
  "demoGetRw ns n = (if n = ''rw'' then Inr demoRisingWave else Inl NotFoundErr)"

definition demoUserNew :: RisingWaveUser where
  "demoUserNew = demoUser\<lparr>usr_Spec := (usr_Spec demoUser)\<lparr>uspec_Permissions := []\<rparr>\<rparr>"

theorem user_create_sound_witness:
  "uw_ValidateCreate demoGetRw (\<lambda>_. []) demoUser = ([], None) \<and> refOk demoGetRw demoUser"
proof -
  have a: "uw_ValidateCreate demoGetRw (\<lambda>_. []) demoUser = ([], None)" by code_simp
  from user_create_sound [OF a] a show ?thesis by blast
qed


end
