(* ===== verification/SqlBuilder.thy ===== *)
theory SqlBuilder
  imports UserApi SqlSyntax
begin

text \<open>
  \<^verbatim>\<open>pkg/rwclient/sql_builder.go\<close>: quoting, and the statements that create, alter and drop a user and grant
  and revoke privileges. The theorems read every statement back with the lexer of \<open>SqlSyntax\<close>.
  Privileges and user permissions are written into the statements as they are; the theorems assume that
  they are single words (or \<^verbatim>\<open>ALL PRIVILEGES\<close>).
\<close>

section \<open>Quoting\<close>

definition QuoteIdentifier :: "string \<Rightarrow> string" where
  "QuoteIdentifier name =
     (if name = ''*'' then name else [dquote] @ replaceChar dquote [dquote, dquote] name @ [dquote])"

definition QuoteUser :: "string \<Rightarrow> string" where
  "QuoteUser name = [dquote] @ replaceChar dquote [dquote, dquote] name @ [dquote]"

definition escapeStringLiteral :: "string \<Rightarrow> string" where
  "escapeStringLiteral s = replaceChar squote [squote, squote] s"

definition normalizePrivileges :: "string list \<Rightarrow> string" where
  "normalizePrivileges privs =
     (if privs = [] then ''USAGE''
      else joinStr '', '' (map (\<lambda>p. if p = ''ALL PRIVILEGES'' then ''ALL'' else p) privs))"

definition buildGrantOption :: "bool \<Rightarrow> string" where
  "buildGrantOption withGrant = (if withGrant then '' WITH GRANT OPTION'' else [])"

section \<open>Users\<close>

definition sql_getUserName :: "RisingWaveUser \<Rightarrow> string" where
  "sql_getUserName user = (if uspec_Name (usr_Spec user) \<noteq> [] then uspec_Name (usr_Spec user) else om_Name (usr_Meta user))"

definition BuildCreateUserSQL :: "RisingWaveUser \<Rightarrow> string \<Rightarrow> string" where
  "BuildCreateUserSQL user password =
     ''CREATE USER '' @ QuoteUser (sql_getUserName user) @
     (if password \<noteq> [] then '' WITH PASSWORD '' @ [squote] @ escapeStringLiteral password @ [squote] else []) @
     concat (map (\<lambda>perm. CHR '' '' # perm) (uspec_Permissions (usr_Spec user)))"

definition BuildAlterUserPasswordSQL :: "string \<Rightarrow> string \<Rightarrow> string" where
  "BuildAlterUserPasswordSQL userName password =
     ''ALTER USER '' @ QuoteUser userName @ '' WITH PASSWORD '' @ [squote] @ escapeStringLiteral password @ [squote]"

definition BuildDropUserSQL :: "string \<Rightarrow> string" where
  "BuildDropUserSQL userName = ''DROP USER IF EXISTS '' @ QuoteUser userName"

definition BuildCreateUserWithOAuthSQL :: "string \<Rightarrow> OAuthConfig option \<Rightarrow> string" where
  "BuildCreateUserWithOAuthSQL userName oauth = ''CREATE USER '' @ QuoteUser userName @ '' WITH CREATE_USER_ONLY''"

definition BuildAlterUserOAuthSQL :: "string \<Rightarrow> OAuthConfig option \<Rightarrow> string list" where
  "BuildAlterUserOAuthSQL userName oauth = []"

definition BuildCreateUserWithLDAPSQL :: "string \<Rightarrow> LDAPConfig option \<Rightarrow> string" where
  "BuildCreateUserWithLDAPSQL userName ldap = ''CREATE USER '' @ QuoteUser userName @ '' WITH CREATE_USER_ONLY''"

definition BuildAlterUserPermissionsSQL :: "string \<Rightarrow> string list \<Rightarrow> string" where
  "BuildAlterUserPermissionsSQL userName permissions =
     (if permissions = [] then []
      else ''ALTER USER '' @ QuoteUser userName @ concat (map (\<lambda>perm. CHR '' '' # perm) permissions))"

section \<open>Single GRANT and REVOKE statements\<close>

definition buildGrantDatabasePrivilege :: "string \<Rightarrow> DatabasePrivilege \<Rightarrow> string" where
  "buildGrantDatabasePrivilege userName priv =
     ''GRANT '' @ normalizePrivileges (dpr_Privileges priv) @ '' ON DATABASE '' @ QuoteIdentifier (dpr_Name priv) @
     '' TO '' @ QuoteUser userName @ buildGrantOption (dpr_WithGrantOption priv)"

definition buildRevokeDatabasePrivilege :: "string \<Rightarrow> DatabasePrivilege \<Rightarrow> string" where
  "buildRevokeDatabasePrivilege userName priv =
     ''REVOKE '' @ normalizePrivileges (dpr_Privileges priv) @ '' ON DATABASE '' @ QuoteIdentifier (dpr_Name priv) @
     '' FROM '' @ QuoteUser userName"

definition buildGrantNestedSchemaPrivilege :: "string \<Rightarrow> NestedSchemaPrivilege \<Rightarrow> string" where
  "buildGrantNestedSchemaPrivilege userName priv =
     ''GRANT '' @ normalizePrivileges (nsp_Privileges priv) @ '' ON SCHEMA '' @ QuoteIdentifier (nsp_Name priv) @
     '' TO '' @ QuoteUser userName @ buildGrantOption (nsp_WithGrantOption priv)"

definition buildRevokeNestedSchemaPrivilege :: "string \<Rightarrow> NestedSchemaPrivilege \<Rightarrow> string" where
  "buildRevokeNestedSchemaPrivilege userName priv =
     ''REVOKE '' @ normalizePrivileges (nsp_Privileges priv) @ '' ON SCHEMA '' @ QuoteIdentifier (nsp_Name priv) @
     '' FROM '' @ QuoteUser userName"

definition buildGrantNestedTablePrivilege :: "string \<Rightarrow> string \<Rightarrow> string \<Rightarrow> NestedTablePrivilege \<Rightarrow> string" where
  "buildGrantNestedTablePrivilege userName database schema priv =
     (if ntp_Name priv = ''*''
      then ''GRANT '' @ normalizePrivileges (ntp_Privileges priv) @ '' ON ALL TABLES IN SCHEMA '' @ QuoteIdentifier schema @
           '' TO '' @ QuoteUser userName @ buildGrantOption (ntp_WithGrantOption priv)
      else ''GRANT '' @ normalizePrivileges (ntp_Privileges priv) @ '' ON TABLE '' @ QuoteIdentifier database @ ''.'' @
           QuoteIdentifier schema @ ''.'' @ QuoteIdentifier (ntp_Name priv) @
           '' TO '' @ QuoteUser userName @ buildGrantOption (ntp_WithGrantOption priv))"

definition buildGrantNestedViewPrivilege :: "string \<Rightarrow> string \<Rightarrow> string \<Rightarrow> NestedViewPrivilege \<Rightarrow> string" where
  "buildGrantNestedViewPrivilege userName database schema priv =
     (if nvp_Name priv = ''*''
      then ''GRANT '' @ normalizePrivileges (nvp_Privileges priv) @ '' ON ALL VIEWS IN SCHEMA '' @ QuoteIdentifier schema @
           '' TO '' @ QuoteUser userName @ buildGrantOption (nvp_WithGrantOption priv)
      else ''GRANT '' @ normalizePrivileges (nvp_Privileges priv) @ '' ON VIEW '' @ QuoteIdentifier database @ ''.'' @
           QuoteIdentifier schema @ ''.'' @ QuoteIdentifier (nvp_Name priv) @
           '' TO '' @ QuoteUser userName @ buildGrantOption (nvp_WithGrantOption priv))"

definition buildGrantNestedMaterializedViewPrivilege :: "string \<Rightarrow> string \<Rightarrow> string \<Rightarrow> NestedMaterializedViewPrivilege \<Rightarrow> string" where
  "buildGrantNestedMaterializedViewPrivilege userName database schema priv =
     (if nmp_Name priv = ''*''
      then ''GRANT '' @ normalizePrivileges (nmp_Privileges priv) @ '' ON ALL MATERIALIZED VIEWS IN SCHEMA '' @ QuoteIdentifier schema @
           '' TO '' @ QuoteUser userName @ buildGrantOption (nmp_WithGrantOption priv)
      else ''GRANT '' @ normalizePrivileges (nmp_Privileges priv) @ '' ON MATERIALIZED VIEW '' @ QuoteIdentifier database @ ''.'' @
           QuoteIdentifier schema @ ''.'' @ QuoteIdentifier (nmp_Name priv) @
           '' TO '' @ QuoteUser userName @ buildGrantOption (nmp_WithGrantOption priv))"

definition buildGrantNestedSourcePrivilege :: "string \<Rightarrow> string \<Rightarrow> string \<Rightarrow> NestedSourcePrivilege \<Rightarrow> string" where
  "buildGrantNestedSourcePrivilege userName database schema priv =
     (if nsop_Name priv = ''*''
      then ''GRANT '' @ normalizePrivileges (nsop_Privileges priv) @ '' ON ALL SOURCES IN SCHEMA '' @ QuoteIdentifier schema @
           '' TO '' @ QuoteUser userName @ buildGrantOption (nsop_WithGrantOption priv)
      else ''GRANT '' @ normalizePrivileges (nsop_Privileges priv) @ '' ON SOURCE '' @ QuoteIdentifier database @ ''.'' @
           QuoteIdentifier schema @ ''.'' @ QuoteIdentifier (nsop_Name priv) @
           '' TO '' @ QuoteUser userName @ buildGrantOption (nsop_WithGrantOption priv))"

definition buildGrantNestedSinkPrivilege :: "string \<Rightarrow> string \<Rightarrow> string \<Rightarrow> NestedSinkPrivilege \<Rightarrow> string" where
  "buildGrantNestedSinkPrivilege userName database schema priv =
     (if nskp_Name priv = ''*''
      then ''GRANT '' @ normalizePrivileges (nskp_Privileges priv) @ '' ON ALL SINKS IN SCHEMA '' @ QuoteIdentifier schema @
           '' TO '' @ QuoteUser userName @ buildGrantOption (nskp_WithGrantOption priv)
      else ''GRANT '' @ normalizePrivileges (nskp_Privileges priv) @ '' ON SINK '' @ QuoteIdentifier database @ ''.'' @
           QuoteIdentifier schema @ ''.'' @ QuoteIdentifier (nskp_Name priv) @
           '' TO '' @ QuoteUser userName @ buildGrantOption (nskp_WithGrantOption priv))"

definition buildGrantNestedConnectionPrivilege :: "string \<Rightarrow> string \<Rightarrow> string \<Rightarrow> NestedConnectionPrivilege \<Rightarrow> string" where
  "buildGrantNestedConnectionPrivilege userName database schema priv =
     (if ncp_Name priv = ''*''
      then ''GRANT '' @ normalizePrivileges (ncp_Privileges priv) @ '' ON ALL CONNECTIONS IN SCHEMA '' @ QuoteIdentifier schema @
           '' TO '' @ QuoteUser userName @ buildGrantOption (ncp_WithGrantOption priv)
      else ''GRANT '' @ normalizePrivileges (ncp_Privileges priv) @ '' ON CONNECTION '' @ QuoteIdentifier database @ ''.'' @
           QuoteIdentifier schema @ ''.'' @ QuoteIdentifier (ncp_Name priv) @
           '' TO '' @ QuoteUser userName @ buildGrantOption (ncp_WithGrantOption priv))"

definition buildGrantNestedSecretPrivilege :: "string \<Rightarrow> string \<Rightarrow> string \<Rightarrow> NestedSecretPrivilege \<Rightarrow> string" where
  "buildGrantNestedSecretPrivilege userName database schema priv =
     (if nsep_Name priv = ''*''
      then ''GRANT '' @ normalizePrivileges (nsep_Privileges priv) @ '' ON ALL SECRETS IN SCHEMA '' @ QuoteIdentifier schema @
           '' TO '' @ QuoteUser userName @ buildGrantOption (nsep_WithGrantOption priv)
      else ''GRANT '' @ normalizePrivileges (nsep_Privileges priv) @ '' ON SECRET '' @ QuoteIdentifier database @ ''.'' @
           QuoteIdentifier schema @ ''.'' @ QuoteIdentifier (nsep_Name priv) @
           '' TO '' @ QuoteUser userName @ buildGrantOption (nsep_WithGrantOption priv))"

definition buildGrantNestedFunctionPrivilege :: "string \<Rightarrow> string \<Rightarrow> string \<Rightarrow> NestedFunctionPrivilege \<Rightarrow> string" where
  "buildGrantNestedFunctionPrivilege userName database schema priv =
     (if nfp_Name priv = ''*''
      then ''GRANT '' @ normalizePrivileges (nfp_Privileges priv) @ '' ON ALL FUNCTIONS IN SCHEMA '' @ QuoteIdentifier schema @
           '' TO '' @ QuoteUser userName @ buildGrantOption (nfp_WithGrantOption priv)
      else ''GRANT '' @ normalizePrivileges (nfp_Privileges priv) @ '' ON FUNCTION '' @ QuoteIdentifier database @ ''.'' @
           QuoteIdentifier schema @ ''.'' @ QuoteIdentifier (nfp_Name priv) @
           '' TO '' @ QuoteUser userName @ buildGrantOption (nfp_WithGrantOption priv))"

section \<open>The statements of a user\<close>

definition buildSchemaPrivilegesHierarchical :: "string \<Rightarrow> string \<Rightarrow> NestedSchemaPrivilege \<Rightarrow> string list" where
  "buildSchemaPrivilegesHierarchical userName database schemaPriv =
     (if nsp_Privileges schemaPriv \<noteq> [] then [buildGrantNestedSchemaPrivilege userName schemaPriv] else []) @
     map (buildGrantNestedTablePrivilege userName database (nsp_Name schemaPriv)) (nsp_Tables schemaPriv) @
     map (buildGrantNestedViewPrivilege userName database (nsp_Name schemaPriv)) (nsp_Views schemaPriv) @
     map (buildGrantNestedMaterializedViewPrivilege userName database (nsp_Name schemaPriv)) (nsp_MaterializedViews schemaPriv) @
     map (buildGrantNestedSourcePrivilege userName database (nsp_Name schemaPriv)) (nsp_Sources schemaPriv) @
     map (buildGrantNestedSinkPrivilege userName database (nsp_Name schemaPriv)) (nsp_Sinks schemaPriv) @
     map (buildGrantNestedConnectionPrivilege userName database (nsp_Name schemaPriv)) (nsp_Connections schemaPriv) @
     map (buildGrantNestedSecretPrivilege userName database (nsp_Name schemaPriv)) (nsp_Secrets schemaPriv) @
     map (buildGrantNestedFunctionPrivilege userName database (nsp_Name schemaPriv)) (nsp_Functions schemaPriv)"

definition buildDatabasePrivilegesHierarchical :: "string \<Rightarrow> DatabasePrivilege \<Rightarrow> string list" where
  "buildDatabasePrivilegesHierarchical userName dbPriv =
     (if dpr_Privileges dbPriv \<noteq> [] then [buildGrantDatabasePrivilege userName dbPriv] else []) @
     concat (map (buildSchemaPrivilegesHierarchical userName (dpr_Name dbPriv)) (dpr_Schemas dbPriv))"

definition BuildGrantStatements :: "string \<Rightarrow> RisingWaveUserSpec \<Rightarrow> string list" where
  "BuildGrantStatements userName spec =
     (case uspec_Grants spec of
        None \<Rightarrow> []
      | Some g \<Rightarrow> concat (map (buildDatabasePrivilegesHierarchical userName) (grs_Databases g)))"

record DatabaseGroupedStatements =
  dgs_Database :: string
  dgs_Statements :: "string list"

definition buildSchemaPrivilegesHierarchicalGrouped ::
  "string \<Rightarrow> string \<Rightarrow> NestedSchemaPrivilege \<Rightarrow> DatabaseGroupedStatements list" where
  "buildSchemaPrivilegesHierarchicalGrouped userName database schemaPriv =
     (if nsp_Privileges schemaPriv \<noteq> []
      then [\<lparr>dgs_Database = database, dgs_Statements = [buildGrantNestedSchemaPrivilege userName schemaPriv]\<rparr>] else []) @
     map (\<lambda>p. \<lparr>dgs_Database = database,
            dgs_Statements = [buildGrantNestedTablePrivilege userName database (nsp_Name schemaPriv) p]\<rparr>) (nsp_Tables schemaPriv) @
     map (\<lambda>p. \<lparr>dgs_Database = database,
            dgs_Statements = [buildGrantNestedViewPrivilege userName database (nsp_Name schemaPriv) p]\<rparr>) (nsp_Views schemaPriv) @
     map (\<lambda>p. \<lparr>dgs_Database = database,
            dgs_Statements = [buildGrantNestedMaterializedViewPrivilege userName database (nsp_Name schemaPriv) p]\<rparr>) (nsp_MaterializedViews schemaPriv) @
     map (\<lambda>p. \<lparr>dgs_Database = database,
            dgs_Statements = [buildGrantNestedSourcePrivilege userName database (nsp_Name schemaPriv) p]\<rparr>) (nsp_Sources schemaPriv) @
     map (\<lambda>p. \<lparr>dgs_Database = database,
            dgs_Statements = [buildGrantNestedSinkPrivilege userName database (nsp_Name schemaPriv) p]\<rparr>) (nsp_Sinks schemaPriv) @
     map (\<lambda>p. \<lparr>dgs_Database = database,
            dgs_Statements = [buildGrantNestedConnectionPrivilege userName database (nsp_Name schemaPriv) p]\<rparr>) (nsp_Connections schemaPriv) @
     map (\<lambda>p. \<lparr>dgs_Database = database,
            dgs_Statements = [buildGrantNestedSecretPrivilege userName database (nsp_Name schemaPriv) p]\<rparr>) (nsp_Secrets schemaPriv) @
     map (\<lambda>p. \<lparr>dgs_Database = database,
            dgs_Statements = [buildGrantNestedFunctionPrivilege userName database (nsp_Name schemaPriv) p]\<rparr>) (nsp_Functions schemaPriv)"

definition buildDatabasePrivilegesHierarchicalGrouped ::
  "string \<Rightarrow> DatabasePrivilege \<Rightarrow> DatabaseGroupedStatements list" where
  "buildDatabasePrivilegesHierarchicalGrouped userName dbPriv =
     (if dpr_Privileges dbPriv \<noteq> []
      then [\<lparr>dgs_Database = [], dgs_Statements = [buildGrantDatabasePrivilege userName dbPriv]\<rparr>] else []) @
     concat (map (buildSchemaPrivilegesHierarchicalGrouped userName (dpr_Name dbPriv)) (dpr_Schemas dbPriv))"

definition BuildGrantStatementsByDatabase :: "string \<Rightarrow> RisingWaveUserSpec \<Rightarrow> DatabaseGroupedStatements list" where
  "BuildGrantStatementsByDatabase userName spec =
     (case uspec_Grants spec of
        None \<Rightarrow> []
      | Some g \<Rightarrow> concat (map (buildDatabasePrivilegesHierarchicalGrouped userName) (grs_Databases g)))"

definition BuildRevokeStatements :: "string \<Rightarrow> RisingWaveUserSpec \<Rightarrow> string list" where
  "BuildRevokeStatements userName spec =
     (case uspec_Grants spec of
        None \<Rightarrow> []
      | Some g \<Rightarrow> concat (map (\<lambda>dbPriv. buildRevokeDatabasePrivilege userName dbPriv #
          map (buildRevokeNestedSchemaPrivilege userName) (filter (\<lambda>s. nsp_Privileges s \<noteq> []) (dpr_Schemas dbPriv)))
          (grs_Databases g)))"

section \<open>What the statements say\<close>

definition identTok :: "string \<Rightarrow> token" where
  "identTok n = (if n = ''*'' then Sym CHR ''*'' else Ident n)"

definition normPrivs :: "string list \<Rightarrow> string list" where
  "normPrivs ps = (if ps = [] then [''USAGE''] else map (\<lambda>p. if p = ''ALL PRIVILEGES'' then ''ALL'' else p) ps)"

definition privsOk :: "string list \<Rightarrow> bool" where
  "privsOk ps \<longleftrightarrow> list_all (\<lambda>p. plainWord p \<or> p = ''ALL PRIVILEGES'') ps"

text \<open>The grant that is meant for an object of a schema: all objects of the kind for the name \<^verbatim>\<open>*\<close>, the named one otherwise.\<close>

definition objectGrant ::
  "string list \<Rightarrow> string list \<Rightarrow> string \<Rightarrow> string \<Rightarrow> string \<Rightarrow> string \<Rightarrow> string list \<Rightarrow> bool \<Rightarrow> sqlStmt" where
  "objectGrant kind kinds u d s n ps withOption =
     Grant (normPrivs ps) (if n = ''*'' then OnAll kinds (identTok s) else OnQualified kind (identTok d) (identTok s) (identTok n))
       u withOption"

definition schemaGrants :: "string \<Rightarrow> string \<Rightarrow> NestedSchemaPrivilege \<Rightarrow> sqlStmt list" where
  "schemaGrants u d sp =
     (if nsp_Privileges sp \<noteq> []
      then [Grant (normPrivs (nsp_Privileges sp)) (OnSchema (identTok (nsp_Name sp))) u (nsp_WithGrantOption sp)] else []) @
     map (\<lambda>p. objectGrant [''TABLE''] [''TABLES''] u d (nsp_Name sp) (ntp_Name p) (ntp_Privileges p) (ntp_WithGrantOption p)) (nsp_Tables sp) @
     map (\<lambda>p. objectGrant [''VIEW''] [''VIEWS''] u d (nsp_Name sp) (nvp_Name p) (nvp_Privileges p) (nvp_WithGrantOption p)) (nsp_Views sp) @
     map (\<lambda>p. objectGrant [''MATERIALIZED'', ''VIEW''] [''MATERIALIZED'', ''VIEWS''] u d (nsp_Name sp) (nmp_Name p) (nmp_Privileges p) (nmp_WithGrantOption p)) (nsp_MaterializedViews sp) @
     map (\<lambda>p. objectGrant [''SOURCE''] [''SOURCES''] u d (nsp_Name sp) (nsop_Name p) (nsop_Privileges p) (nsop_WithGrantOption p)) (nsp_Sources sp) @
     map (\<lambda>p. objectGrant [''SINK''] [''SINKS''] u d (nsp_Name sp) (nskp_Name p) (nskp_Privileges p) (nskp_WithGrantOption p)) (nsp_Sinks sp) @
     map (\<lambda>p. objectGrant [''CONNECTION''] [''CONNECTIONS''] u d (nsp_Name sp) (ncp_Name p) (ncp_Privileges p) (ncp_WithGrantOption p)) (nsp_Connections sp) @
     map (\<lambda>p. objectGrant [''SECRET''] [''SECRETS''] u d (nsp_Name sp) (nsep_Name p) (nsep_Privileges p) (nsep_WithGrantOption p)) (nsp_Secrets sp) @
     map (\<lambda>p. objectGrant [''FUNCTION''] [''FUNCTIONS''] u d (nsp_Name sp) (nfp_Name p) (nfp_Privileges p) (nfp_WithGrantOption p)) (nsp_Functions sp)"

definition databaseGrants :: "string \<Rightarrow> DatabasePrivilege \<Rightarrow> sqlStmt list" where
  "databaseGrants u dp =
     (if dpr_Privileges dp \<noteq> []
      then [Grant (normPrivs (dpr_Privileges dp)) (OnDatabase (identTok (dpr_Name dp))) u (dpr_WithGrantOption dp)] else []) @
     concat (map (schemaGrants u (dpr_Name dp)) (dpr_Schemas dp))"

definition specDatabases :: "RisingWaveUserSpec \<Rightarrow> DatabasePrivilege list" where
  "specDatabases spec = (case uspec_Grants spec of None \<Rightarrow> [] | Some g \<Rightarrow> grs_Databases g)"

definition schemaOk :: "NestedSchemaPrivilege \<Rightarrow> bool" where
  "schemaOk sp \<longleftrightarrow> privsOk (nsp_Privileges sp) \<and>
     list_all (\<lambda>p. privsOk (ntp_Privileges p)) (nsp_Tables sp) \<and>
     list_all (\<lambda>p. privsOk (nvp_Privileges p)) (nsp_Views sp) \<and>
     list_all (\<lambda>p. privsOk (nmp_Privileges p)) (nsp_MaterializedViews sp) \<and>
     list_all (\<lambda>p. privsOk (nsop_Privileges p)) (nsp_Sources sp) \<and>
     list_all (\<lambda>p. privsOk (nskp_Privileges p)) (nsp_Sinks sp) \<and>
     list_all (\<lambda>p. privsOk (ncp_Privileges p)) (nsp_Connections sp) \<and>
     list_all (\<lambda>p. privsOk (nsep_Privileges p)) (nsp_Secrets sp) \<and>
     list_all (\<lambda>p. privsOk (nfp_Privileges p)) (nsp_Functions sp)"

definition specOk :: "RisingWaveUserSpec \<Rightarrow> bool" where
  "specOk spec \<longleftrightarrow> list_all (\<lambda>dp. privsOk (dpr_Privileges dp) \<and> list_all schemaOk (dpr_Schemas dp)) (specDatabases spec)"

section \<open>Reading back\<close>

lemma lex_QuoteUser:
  "endsQuote dquote t \<Longrightarrow> lexFrom (Plain []) (QuoteUser n @ t) = emit [Ident n] (lexFrom (Plain []) t)"
  using lexFrom_quoteWith [of dquote t "[]" n] by (simp add: quoteWith_def QuoteUser_def quotedTok_def flush_def)

lemma lex_QuoteUser_end: "lexFrom (Plain []) (QuoteUser n) = Some [Ident n]"
  using lex_QuoteUser [of "[]" n] by (simp add: flush_def)

lemma lex_QuoteIdentifier:
  "endsQuote dquote t \<Longrightarrow> lexFrom (Plain []) (QuoteIdentifier n @ t) = emit [identTok n] (lexFrom (Plain []) t)"
  using lex_QuoteUser [of t n]
  by (auto simp: QuoteIdentifier_def QuoteUser_def identTok_def flush_def dquote_def squote_def symbols_def)

lemma lex_literal:
  "endsQuote squote t \<Longrightarrow>
   lexFrom (Plain []) (squote # escapeStringLiteral p @ squote # t) = emit [Lit p] (lexFrom (Plain []) t)"
  using lexFrom_quoteWith [of squote t "[]" p]
  by (simp add: quoteWith_def escapeStringLiteral_def quotedTok_def flush_def squote_def dquote_def)

lemma plainWord_consts: "plainWord ''USAGE''" "plainWord ''ALL''"
  by (simp_all add: plainWord_def plainChar_def dquote_def squote_def symbols_def)

lemma lex_normalizePrivileges:
  assumes "privsOk ps"
  shows "lexFrom (Plain []) (normalizePrivileges ps @ CHR '' '' # t) = emit (sepWords (normPrivs ps)) (lexFrom (Plain []) t)"
proof -
  have "normalizePrivileges ps = joinStr '', '' (normPrivs ps)" by (simp add: normalizePrivileges_def normPrivs_def)
  moreover have "normPrivs ps \<noteq> []" "\<forall>w \<in> set (normPrivs ps). plainWord w"
    using assms plainWord_consts by (auto simp: normPrivs_def privsOk_def list_all_iff)
  ultimately show ?thesis using lexFrom_join by simp
qed

lemmas lex_consts = flush_def dquote_def squote_def symbols_def

lemma lex_grantOption:
  "lexFrom (Plain []) (QuoteUser u @ buildGrantOption w) =
   Some (Ident u # (if w then [Word ''WITH'', Word ''GRANT'', Word ''OPTION''] else []))"
proof -
  have "endsQuote dquote (buildGrantOption w)" by (simp add: buildGrantOption_def dquote_def)
  from lex_QuoteUser [OF this] show ?thesis by (simp add: buildGrantOption_def lex_consts)
qed

lemmas lex_rules = lex_normalizePrivileges lex_QuoteIdentifier lex_grantOption lex_QuoteUser_end

lemma lex_user_statements:
  "lexSql (BuildAlterUserPasswordSQL u p) = Some [Word ''ALTER'', Word ''USER'', Ident u, Word ''WITH'', Word ''PASSWORD'', Lit p]"
  "lexSql (BuildDropUserSQL u) = Some [Word ''DROP'', Word ''USER'', Word ''IF'', Word ''EXISTS'', Ident u]"
  "lexSql (BuildCreateUserWithOAuthSQL u oa) = Some [Word ''CREATE'', Word ''USER'', Ident u, Word ''WITH'', Word ''CREATE_USER_ONLY'']"
  "lexSql (BuildCreateUserWithLDAPSQL u ld) = Some [Word ''CREATE'', Word ''USER'', Ident u, Word ''WITH'', Word ''CREATE_USER_ONLY'']"
  using lex_literal [of "[]" p]
  by (simp_all add: lexSql_def BuildAlterUserPasswordSQL_def BuildDropUserSQL_def BuildCreateUserWithOAuthSQL_def
      BuildCreateUserWithLDAPSQL_def lex_QuoteUser lex_QuoteUser_end lex_consts)

lemma endsQuote_perms: "q \<noteq> CHR '' '' \<Longrightarrow> endsQuote q (concat (map (\<lambda>perm. CHR '' '' # perm) ps))"
  by (cases ps) auto

lemma lex_perms:
  "list_all plainWord ps \<Longrightarrow> lexFrom (Plain []) (concat (map (\<lambda>perm. CHR '' '' # perm) ps)) = Some (map Word ps)"
proof (induction ps)
  case Nil
  then show ?case by (simp add: flush_def)
next
  case (Cons p ps)
  then have IH: "lexFrom (Plain []) (concat (map (\<lambda>perm. CHR '' '' # perm) ps)) = Some (map Word ps)" and p: "plainWord p" by simp_all
  have "lexFrom (Plain []) (p @ concat (map (\<lambda>perm. CHR '' '' # perm) ps)) = Some (Word p # map Word ps)"
  proof (cases ps)
    case Nil
    then show ?thesis using lexFrom_word(1) [OF p] by simp
  next
    case (Cons q qs)
    then show ?thesis using lexFrom_word(2) [OF p, of "q @ concat (map (\<lambda>perm. CHR '' '' # perm) qs)"] IH
      by (simp add: lex_consts)
  qed
  then show ?case by (simp add: lex_consts)
qed

lemma lex_database_grant:
  "privsOk (dpr_Privileges p) \<Longrightarrow> lexSql (buildGrantDatabasePrivilege u p) =
     Some (stmtTokens (Grant (normPrivs (dpr_Privileges p)) (OnDatabase (identTok (dpr_Name p))) u (dpr_WithGrantOption p)))"
  by (simp add: lexSql_def buildGrantDatabasePrivilege_def lex_rules lex_consts)

lemma lex_schema_grant:
  "privsOk (nsp_Privileges p) \<Longrightarrow> lexSql (buildGrantNestedSchemaPrivilege u p) =
     Some (stmtTokens (Grant (normPrivs (nsp_Privileges p)) (OnSchema (identTok (nsp_Name p))) u (nsp_WithGrantOption p)))"
  by (simp add: lexSql_def buildGrantNestedSchemaPrivilege_def lex_rules lex_consts)

lemma lex_revokes:
  "privsOk (dpr_Privileges dp) \<Longrightarrow> lexSql (buildRevokeDatabasePrivilege u dp) =
     Some (stmtTokens (Revoke (normPrivs (dpr_Privileges dp)) (OnDatabase (identTok (dpr_Name dp))) u))"
  "privsOk (nsp_Privileges sp) \<Longrightarrow> lexSql (buildRevokeNestedSchemaPrivilege u sp) =
     Some (stmtTokens (Revoke (normPrivs (nsp_Privileges sp)) (OnSchema (identTok (nsp_Name sp))) u))"
  by (simp_all add: lexSql_def buildRevokeDatabasePrivilege_def buildRevokeNestedSchemaPrivilege_def lex_rules lex_consts)

lemma lex_object_grants:
  "privsOk (ntp_Privileges ntp) \<Longrightarrow> lexSql (buildGrantNestedTablePrivilege u d s ntp) =
     Some (stmtTokens (objectGrant [''TABLE''] [''TABLES''] u d s (ntp_Name ntp) (ntp_Privileges ntp) (ntp_WithGrantOption ntp)))"
  "privsOk (nvp_Privileges nvp) \<Longrightarrow> lexSql (buildGrantNestedViewPrivilege u d s nvp) =
     Some (stmtTokens (objectGrant [''VIEW''] [''VIEWS''] u d s (nvp_Name nvp) (nvp_Privileges nvp) (nvp_WithGrantOption nvp)))"
  "privsOk (nmp_Privileges nmp) \<Longrightarrow> lexSql (buildGrantNestedMaterializedViewPrivilege u d s nmp) =
     Some (stmtTokens (objectGrant [''MATERIALIZED'', ''VIEW''] [''MATERIALIZED'', ''VIEWS''] u d s (nmp_Name nmp) (nmp_Privileges nmp) (nmp_WithGrantOption nmp)))"
  "privsOk (nsop_Privileges nsop) \<Longrightarrow> lexSql (buildGrantNestedSourcePrivilege u d s nsop) =
     Some (stmtTokens (objectGrant [''SOURCE''] [''SOURCES''] u d s (nsop_Name nsop) (nsop_Privileges nsop) (nsop_WithGrantOption nsop)))"
  "privsOk (nskp_Privileges nskp) \<Longrightarrow> lexSql (buildGrantNestedSinkPrivilege u d s nskp) =
     Some (stmtTokens (objectGrant [''SINK''] [''SINKS''] u d s (nskp_Name nskp) (nskp_Privileges nskp) (nskp_WithGrantOption nskp)))"
  "privsOk (ncp_Privileges ncp) \<Longrightarrow> lexSql (buildGrantNestedConnectionPrivilege u d s ncp) =
     Some (stmtTokens (objectGrant [''CONNECTION''] [''CONNECTIONS''] u d s (ncp_Name ncp) (ncp_Privileges ncp) (ncp_WithGrantOption ncp)))"
  "privsOk (nsep_Privileges nsep) \<Longrightarrow> lexSql (buildGrantNestedSecretPrivilege u d s nsep) =
     Some (stmtTokens (objectGrant [''SECRET''] [''SECRETS''] u d s (nsep_Name nsep) (nsep_Privileges nsep) (nsep_WithGrantOption nsep)))"
  "privsOk (nfp_Privileges nfp) \<Longrightarrow> lexSql (buildGrantNestedFunctionPrivilege u d s nfp) =
     Some (stmtTokens (objectGrant [''FUNCTION''] [''FUNCTIONS''] u d s (nfp_Name nfp) (nfp_Privileges nfp) (nfp_WithGrantOption nfp)))"
  subgoal by (simp add: lexSql_def objectGrant_def lex_rules lex_consts buildGrantNestedTablePrivilege_def)
  subgoal by (simp add: lexSql_def objectGrant_def lex_rules lex_consts buildGrantNestedViewPrivilege_def)
  subgoal by (simp add: lexSql_def objectGrant_def lex_rules lex_consts buildGrantNestedMaterializedViewPrivilege_def)
  subgoal by (simp add: lexSql_def objectGrant_def lex_rules lex_consts buildGrantNestedSourcePrivilege_def)
  subgoal by (simp add: lexSql_def objectGrant_def lex_rules lex_consts buildGrantNestedSinkPrivilege_def)
  subgoal by (simp add: lexSql_def objectGrant_def lex_rules lex_consts buildGrantNestedConnectionPrivilege_def)
  subgoal by (simp add: lexSql_def objectGrant_def lex_rules lex_consts buildGrantNestedSecretPrivilege_def)
  subgoal by (simp add: lexSql_def objectGrant_def lex_rules lex_consts buildGrantNestedFunctionPrivilege_def)
  done

lemma lex_schema:
  assumes "schemaOk sp"
  shows "map lexSql (buildSchemaPrivilegesHierarchical u d sp) = map (Some \<circ> stmtTokens) (schemaGrants u d sp)"
  using assms
  by (simp add: schemaOk_def buildSchemaPrivilegesHierarchical_def schemaGrants_def lex_schema_grant lex_object_grants list_all_iff)

lemma map_concat_cong:
  "\<forall>x \<in> set xs. map f (g x) = map h (k x) \<Longrightarrow> map f (concat (map g xs)) = map h (concat (map k xs))"
  by (induction xs) auto

lemma lex_database:
  assumes "privsOk (dpr_Privileges dp)" "list_all schemaOk (dpr_Schemas dp)"
  shows "map lexSql (buildDatabasePrivilegesHierarchical u dp) = map (Some \<circ> stmtTokens) (databaseGrants u dp)"
proof -
  have "map lexSql (concat (map (buildSchemaPrivilegesHierarchical u (dpr_Name dp)) (dpr_Schemas dp))) =
        map (Some \<circ> stmtTokens) (concat (map (schemaGrants u (dpr_Name dp)) (dpr_Schemas dp)))"
    using assms(2) by (intro map_concat_cong) (simp add: lex_schema list_all_iff)
  then show ?thesis using assms(1)
    by (simp add: buildDatabasePrivilegesHierarchical_def databaseGrants_def lex_database_grant)
qed

lemma grouped_schema:
  "concat (map dgs_Statements (buildSchemaPrivilegesHierarchicalGrouped u d sp)) = buildSchemaPrivilegesHierarchical u d sp"
  "\<forall>g \<in> set (buildSchemaPrivilegesHierarchicalGrouped u d sp). dgs_Database g = d"
  by (simp add: buildSchemaPrivilegesHierarchicalGrouped_def buildSchemaPrivilegesHierarchical_def o_def)
     (auto simp: buildSchemaPrivilegesHierarchicalGrouped_def)

lemma grouped_database:
  "concat (map dgs_Statements (buildDatabasePrivilegesHierarchicalGrouped u dp)) = buildDatabasePrivilegesHierarchical u dp"
proof -
  have "concat (map dgs_Statements (concat (map (buildSchemaPrivilegesHierarchicalGrouped u (dpr_Name dp)) sps))) =
        concat (map (buildSchemaPrivilegesHierarchical u (dpr_Name dp)) sps)" for sps
    by (induction sps) (simp_all add: grouped_schema)
  then show ?thesis
    by (simp add: buildDatabasePrivilegesHierarchicalGrouped_def buildDatabasePrivilegesHierarchical_def)
qed

section \<open>Properties\<close>

text \<open>C22: Names and passwords cannot break out of a user statement: read back by the lexer, the statements
  that create, alter and drop a user consist of exactly the intended keywords, the user name as one
  identifier and the password as one literal, whatever characters they contain.\<close>
theorem user_statements_read_back:
  assumes "list_all plainWord (uspec_Permissions (usr_Spec user))"
  shows "lexSql (BuildCreateUserSQL user p) = Some ([Word ''CREATE'', Word ''USER'', Ident (sql_getUserName user)] @
      (if p = [] then [] else [Word ''WITH'', Word ''PASSWORD'', Lit p]) @ map Word (uspec_Permissions (usr_Spec user)))
    \<and> lexSql (BuildAlterUserPasswordSQL u p) = Some [Word ''ALTER'', Word ''USER'', Ident u, Word ''WITH'', Word ''PASSWORD'', Lit p]
    \<and> lexSql (BuildDropUserSQL u) = Some [Word ''DROP'', Word ''USER'', Word ''IF'', Word ''EXISTS'', Ident u]
    \<and> lexSql (BuildAlterUserPermissionsSQL u (uspec_Permissions (usr_Spec user))) =
        Some (if uspec_Permissions (usr_Spec user) = [] then [] else
          [Word ''ALTER'', Word ''USER'', Ident u] @ map Word (uspec_Permissions (usr_Spec user)))"
proof -
  let ?ps = "uspec_Permissions (usr_Spec user)"
  let ?t = "concat (map (\<lambda>perm. CHR '' '' # perm) ?ps)"
  have q: "endsQuote dquote ?t" "endsQuote squote ?t" by (rule endsQuote_perms; simp add: dquote_def squote_def)+
  have l: "lexFrom (Plain []) ?t = Some (map Word ?ps)" using lex_perms [OF assms] .
  have c: "lexSql (BuildCreateUserSQL user p) = Some ([Word ''CREATE'', Word ''USER'', Ident (sql_getUserName user)] @
      (if p = [] then [] else [Word ''WITH'', Word ''PASSWORD'', Lit p]) @ map Word ?ps)"
    using lex_QuoteUser [OF q(1)] lex_literal [OF q(2), of p] l
    by (simp add: lexSql_def BuildCreateUserSQL_def lex_QuoteUser lex_consts)
  have a: "lexSql (BuildAlterUserPermissionsSQL u ?ps) = Some (if ?ps = [] then [] else [Word ''ALTER'', Word ''USER'', Ident u] @ map Word ?ps)"
    using lex_QuoteUser [OF q(1)] l by (simp add: lexSql_def BuildAlterUserPermissionsSQL_def lex_consts)
  show ?thesis using c a lex_user_statements(1,2) by simp
qed

text \<open>C23: The GRANT statements of a user are, one by one, the grants its specification asks for: on the
  database, on every schema with privileges and on every object, all objects of a kind for the name \<^verbatim>\<open>*\<close>,
  with the grant option where it is set; the names are single identifiers.\<close>
theorem grant_statements_refine:
  assumes "specOk spec"
  shows "map lexSql (BuildGrantStatements u spec) =
    map (Some \<circ> stmtTokens) (concat (map (databaseGrants u) (specDatabases spec)))"
proof (cases "uspec_Grants spec")
  case None
  then show ?thesis by (simp add: BuildGrantStatements_def specDatabases_def)
next
  case (Some g)
  have "map lexSql (concat (map (buildDatabasePrivilegesHierarchical u) (grs_Databases g))) =
        map (Some \<circ> stmtTokens) (concat (map (databaseGrants u) (grs_Databases g)))"
    using assms Some by (intro map_concat_cong) (simp add: specOk_def specDatabases_def lex_database list_all_iff)
  then show ?thesis using Some by (simp add: BuildGrantStatements_def specDatabases_def)
qed

text \<open>The grouped statements are the plain ones in the same order, each in a group of its own.\<close>
theorem grouped_statements_flatten:
  "concat (map dgs_Statements (BuildGrantStatementsByDatabase u spec)) = BuildGrantStatements u spec"
proof -
  have "concat (map dgs_Statements (concat (map (buildDatabasePrivilegesHierarchicalGrouped u) dps))) =
        concat (map (buildDatabasePrivilegesHierarchical u) dps)" for dps
    by (induction dps) (simp_all add: grouped_database)
  then show ?thesis by (simp add: BuildGrantStatementsByDatabase_def BuildGrantStatements_def split: option.split)
qed

section \<open>Examples\<close>

definition demoSchemaPrivilege :: NestedSchemaPrivilege where
  "demoSchemaPrivilege = \<lparr>nsp_Name = ''public'', nsp_Privileges = [''USAGE''], nsp_WithGrantOption = False,
     nsp_Tables = [\<lparr>ntp_Name = ''*'', ntp_Privileges = [''SELECT'', ''INSERT''], ntp_WithGrantOption = False\<rparr>], nsp_Views = [],
     nsp_MaterializedViews = [\<lparr>nmp_Name = ''mv'', nmp_Privileges = [''ALL PRIVILEGES''], nmp_WithGrantOption = True\<rparr>],
     nsp_Sources = [], nsp_Sinks = [], nsp_Connections = [], nsp_Secrets = [], nsp_Functions = []\<rparr>"

definition demoGrants :: GrantSpec where
  "demoGrants = \<lparr>grs_Databases = [\<lparr>dpr_Name = ''dev'', dpr_Privileges = [''CONNECT''], dpr_WithGrantOption = False,
     dpr_Schemas = [demoSchemaPrivilege]\<rparr>]\<rparr>"

definition demoGrantUser :: RisingWaveUser where
  "demoGrantUser = demoUser\<lparr>usr_Spec := (usr_Spec demoUser)\<lparr>uspec_Grants := Some demoGrants\<rparr>\<rparr>"

theorem user_statements_read_back_witness:
  "lexSql (BuildCreateUserSQL demoUser ''a b'') =
     Some [Word ''CREATE'', Word ''USER'', Ident ''alice'', Word ''WITH'', Word ''PASSWORD'', Lit ''a b'', Word ''LOGIN'']"
proof -
  have p: "list_all plainWord (uspec_Permissions (usr_Spec demoUser))" and n: "sql_getUserName demoUser = ''alice''"
    and q: "uspec_Permissions (usr_Spec demoUser) = [''LOGIN'']" by code_simp+
  from user_statements_read_back [OF p, of "''a b''"] show ?thesis unfolding n q by simp
qed

theorem grant_statements_refine_witness:
  "length (BuildGrantStatements ''bob'' (usr_Spec demoGrantUser)) = 4
   \<and> map lexSql (BuildGrantStatements ''bob'' (usr_Spec demoGrantUser)) =
       map (Some \<circ> stmtTokens) (concat (map (databaseGrants ''bob'') (specDatabases (usr_Spec demoGrantUser))))"
proof -
  have "specOk (usr_Spec demoGrantUser)" "length (BuildGrantStatements ''bob'' (usr_Spec demoGrantUser)) = 4" by code_simp+
  with grant_statements_refine show ?thesis by blast
qed

end
