(* ===== verification/AclParser.thy ===== *)
theory AclParser
  imports UserApi
begin

text \<open>
  \<^verbatim>\<open>pkg/rwclient/acl_parser.go\<close>: the access control lists of the catalog, e.g. \<^verbatim>\<open>{alice=r*a/root}\<close>, and the
  letters of the privileges. A printer for such lists is the reference the parser is compared with.
\<close>

section \<open>The code\<close>

record PrivilegeGrant =
  pgr_Privilege :: string
  pgr_WithGrantOption :: bool

record UserPrivileges =
  upr_User :: string
  upr_Privileges :: "PrivilegeGrant list"

text \<open>\<^verbatim>\<open>string(b)\<close> of a byte is the UTF-8 encoding of the code point \<^verbatim>\<open>b\<close>.\<close>

definition byteString :: "char \<Rightarrow> string" where
  "byteString c = (let n = of_char c :: nat in
     if n < 128 then [c] else [char_of (192 + n div 64), char_of (128 + n mod 64)])"

fun parsePrivs :: "string \<Rightarrow> PrivilegeGrant list" where
  "parsePrivs [] = []"
| "parsePrivs [c] = [\<lparr>pgr_Privilege = byteString c, pgr_WithGrantOption = False\<rparr>]"
| "parsePrivs (c # d # s) =
     (if d = CHR ''*'' then \<lparr>pgr_Privilege = byteString c, pgr_WithGrantOption = True\<rparr> # parsePrivs s
      else \<lparr>pgr_Privilege = byteString c, pgr_WithGrantOption = False\<rparr> # parsePrivs (d # s))"

definition parseEntry :: "string \<Rightarrow> UserPrivileges option" where
  "parseEntry entry =
     (case splitOn CHR ''='' entry of
        [grantee, remaining] \<Rightarrow>
          (case splitOn CHR ''/'' remaining of
             [privsStr, grantor] \<Rightarrow> Some \<lparr>upr_User = grantee, upr_Privileges = parsePrivs privsStr\<rparr>
           | _ \<Rightarrow> None)
      | _ \<Rightarrow> None)"

definition ParseACL :: "string \<Rightarrow> UserPrivileges list" where
  "ParseACL aclStr =
     (let s = trimSet aclStr ''{}'' in
      if s = [] then [] else List.map_filter parseEntry (splitOn CHR '','' s))"

definition MapCharToTablePrivilege :: "string \<Rightarrow> string" where
  "MapCharToTablePrivilege char =
     (if char = ''r'' then ''SELECT'' else if char = ''a'' then ''INSERT'' else if char = ''w'' then ''UPDATE''
      else if char = ''d'' then ''DELETE'' else if char = ''D'' then ''TRUNCATE'' else if char = ''x'' then ''REFERENCES''
      else if char = ''t'' then ''TRIGGER'' else [])"

definition MapCharToDatabasePrivilege :: "string \<Rightarrow> string" where
  "MapCharToDatabasePrivilege char =
     (if char = ''c'' then ''CONNECT'' else if char = ''C'' then ''CREATE'' else [])"

definition MapCharToSchemaPrivilege :: "string \<Rightarrow> string" where
  "MapCharToSchemaPrivilege char =
     (if char = ''U'' then ''USAGE'' else if char = ''C'' then ''CREATE'' else [])"

section \<open>The printer\<close>

definition showPriv :: "PrivilegeGrant \<Rightarrow> string" where
  "showPriv p = pgr_Privilege p @ (if pgr_WithGrantOption p then ''*'' else [])"

definition showEntry :: "UserPrivileges \<times> string \<Rightarrow> string" where
  "showEntry e = (case e of (up, grantor) \<Rightarrow>
     upr_User up @ ''='' @ concat (map showPriv (upr_Privileges up)) @ ''/'' @ grantor)"

definition showACL :: "(UserPrivileges \<times> string) list \<Rightarrow> string" where
  "showACL es = ''{'' @ joinStr '','' (map showEntry es) @ ''}''"

text \<open>Names without the characters that structure a list, and privileges that are one ASCII letter of their own.\<close>

definition aclChar :: "char \<Rightarrow> bool" where
  "aclChar c \<longleftrightarrow> c \<notin> set '',=/{}''"

definition aclPriv :: "PrivilegeGrant \<Rightarrow> bool" where
  "aclPriv p \<longleftrightarrow> (case pgr_Privilege p of [c] \<Rightarrow> aclChar c \<and> c \<noteq> CHR ''*'' \<and> (of_char c :: nat) < 128 | _ \<Rightarrow> False)"

definition aclEntry :: "UserPrivileges \<times> string \<Rightarrow> bool" where
  "aclEntry e \<longleftrightarrow> (case e of (up, grantor) \<Rightarrow>
     list_all aclChar (upr_User up) \<and> list_all aclChar grantor \<and> list_all aclPriv (upr_Privileges up))"

section \<open>Lemmas\<close>

lemma aclPriv_cases:
  assumes "aclPriv p"
  obtains c where "pgr_Privilege p = [c]" "aclChar c" "c \<noteq> CHR ''*''" "byteString c = [c]"
  using assms unfolding aclPriv_def by (auto simp: byteString_def split: list.splits)

lemma parsePrivs_step:
  assumes "aclPriv p" "s = [] \<or> hd s \<noteq> CHR ''*''"
  shows "parsePrivs (showPriv p @ s) = p # parsePrivs s"
proof -
  obtain c where c: "pgr_Privilege p = [c]" "byteString c = [c]" using aclPriv_cases [OF assms(1)] by metis
  have e: "p = \<lparr>pgr_Privilege = [c], pgr_WithGrantOption = pgr_WithGrantOption p\<rparr>" using c(1) by simp
  show ?thesis
  proof (cases "pgr_WithGrantOption p")
    case True
    then have "showPriv p @ s = c # CHR ''*'' # s" using c(1) by (simp add: showPriv_def)
    then show ?thesis using True c(2) e by simp
  next
    case False
    then have "showPriv p @ s = c # s" using c(1) by (simp add: showPriv_def)
    then show ?thesis using False c(2) e assms(2) by (cases s) simp_all
  qed
qed

lemma showPriv_hd: "aclPriv p \<Longrightarrow> showPriv p \<noteq> [] \<and> hd (showPriv p) \<noteq> CHR ''*''"
  by (erule aclPriv_cases) (simp add: showPriv_def)

lemma parsePrivs_show:
  "list_all aclPriv ps \<Longrightarrow> parsePrivs (concat (map showPriv ps)) = ps"
proof (induction ps)
  case (Cons p ps)
  have "concat (map showPriv ps) = [] \<or> hd (concat (map showPriv ps)) \<noteq> CHR ''*''"
    using Cons.prems by (cases ps) (simp_all add: showPriv_hd)
  then show ?case using Cons parsePrivs_step by simp
qed simp

lemma showPrivs_chars:
  assumes "list_all aclPriv ps"
  shows "list_all aclChar (concat (map showPriv ps))"
proof -
  have "list_all aclChar (showPriv p)" if "aclPriv p" for p
    using that by (rule aclPriv_cases) (simp add: showPriv_def aclChar_def)
  then show ?thesis using assms by (auto simp: list_all_iff)
qed

lemma aclChar_notin:
  "list_all aclChar s \<Longrightarrow> CHR '','' \<notin> set s \<and> CHR ''='' \<notin> set s \<and> CHR ''/'' \<notin> set s \<and> CHR ''{'' \<notin> set s \<and> CHR ''}'' \<notin> set s"
  by (auto simp: list_all_iff aclChar_def)

lemma parseEntry_show:
  assumes "aclEntry e"
  shows "parseEntry (showEntry e) = Some (fst e)"
proof -
  obtain up grantor where e: "e = (up, grantor)" by (cases e)
  let ?ps = "concat (map showPriv (upr_Privileges up))"
  have ok: "list_all aclChar (upr_User up)" "list_all aclChar grantor" "list_all aclPriv (upr_Privileges up)"
    using assms e by (simp_all add: aclEntry_def)
  note n = aclChar_notin [OF ok(1)] aclChar_notin [OF ok(2)] aclChar_notin [OF showPrivs_chars [OF ok(3)]]
  have "splitOn CHR ''='' (showEntry e) = [upr_User up, ?ps @ CHR ''/'' # grantor]"
    using n by (simp add: showEntry_def e splitOn_append_sep splitOn_no_sep)
  moreover have "splitOn CHR ''/'' (?ps @ CHR ''/'' # grantor) = [?ps, grantor]"
    using n by (simp add: splitOn_append_sep splitOn_no_sep)
  ultimately show ?thesis using parsePrivs_show [OF ok(3)] by (simp add: parseEntry_def e)
qed

lemma showEntry_chars:
  assumes "aclEntry e"
  shows "CHR '','' \<notin> set (showEntry e)" "CHR ''{'' \<notin> set (showEntry e)" "CHR ''}'' \<notin> set (showEntry e)" "showEntry e \<noteq> []"
proof -
  obtain up grantor where e: "e = (up, grantor)" by (cases e)
  have ok: "list_all aclChar (upr_User up)" "list_all aclChar grantor" "list_all aclPriv (upr_Privileges up)"
    using assms e by (simp_all add: aclEntry_def)
  note n = aclChar_notin [OF ok(1)] aclChar_notin [OF ok(2)] aclChar_notin [OF showPrivs_chars [OF ok(3)]]
  show "CHR '','' \<notin> set (showEntry e)" "CHR ''{'' \<notin> set (showEntry e)" "CHR ''}'' \<notin> set (showEntry e)" "showEntry e \<noteq> []"
    using n unfolding showEntry_def e by auto
qed

lemma dropWhile_id: "(\<forall>x \<in> set s. \<not> P x) \<Longrightarrow> dropWhile P s = s"
  by (cases s) simp_all

lemma trim_braces:
  assumes "CHR ''{'' \<notin> set s" "CHR ''}'' \<notin> set s"
  shows "trimSet (''{'' @ s @ ''}'') ''{}'' = s"
proof -
  let ?P = "\<lambda>c. c \<in> set ''{}''"
  have f: "\<forall>x \<in> set s. \<not> ?P x" using assms by auto
  have "dropWhile ?P (''{'' @ s @ ''}'') = (if s = [] then [] else s @ ''}'')"
    using f by (cases s) simp_all
  moreover have "dropWhile ?P (rev (s @ ''}'')) = rev s" using f dropWhile_id [of "rev s" ?P] by simp
  ultimately show ?thesis unfolding trimSet_def trimRightSet_def by simp
qed

section \<open>Properties\<close>

text \<open>C27: Parsing inverts printing: the list of entries is read back with users, privileges and grant options.\<close>
theorem ParseACL_roundtrip:
  assumes "list_all aclEntry es"
  shows "ParseACL (showACL es) = map fst es"
proof (cases "es = []")
  case True
  then show ?thesis by (simp add: ParseACL_def showACL_def trimSet_def trimRightSet_def)
next
  case False
  let ?s = "joinStr '','' (map showEntry es)"
  have es: "\<forall>e \<in> set es. aclEntry e" using assms by (simp add: list_all_iff)
  have "set ?s \<subseteq> set '','' \<union> (\<Union>x \<in> set (map showEntry es). set x)" by (rule set_joinStr)
  moreover have "CHR ''{'' \<notin> (\<Union>x \<in> set (map showEntry es). set x)" "CHR ''}'' \<notin> (\<Union>x \<in> set (map showEntry es). set x)"
    using es showEntry_chars(2,3) by simp_all
  ultimately have nb: "CHR ''{'' \<notin> set ?s" "CHR ''}'' \<notin> set ?s" by auto
  have sp: "splitOn CHR '','' ?s = map showEntry es" using False es showEntry_chars(1) by (intro splitOn_join) auto
  have ne: "?s \<noteq> []"
  proof
    assume "?s = []"
    then have "map showEntry es = [[]]" using sp by simp
    then have "\<exists>e \<in> set es. showEntry e = []" using False by (cases es) auto
    then show False using es showEntry_chars(4) by blast
  qed
  have "List.map_filter parseEntry (map showEntry es) = map fst es"
    using es by (induction es) (simp_all add: List.map_filter_simps parseEntry_show)
  then show ?thesis using ne sp unfolding ParseACL_def showACL_def trim_braces [OF nb] Let_def by simp
qed

theorem ParseACL_roundtrip_witness:
  "showACL [(\<lparr>upr_User = ''alice'', upr_Privileges = [\<lparr>pgr_Privilege = ''r'', pgr_WithGrantOption = True\<rparr>]\<rparr>, ''root'')] = ''{alice=r*/root}''
   \<and> ParseACL ''{alice=r*/root}'' = [\<lparr>upr_User = ''alice'', upr_Privileges = [\<lparr>pgr_Privilege = ''r'', pgr_WithGrantOption = True\<rparr>]\<rparr>]"
proof -
  let ?es = "[(\<lparr>upr_User = ''alice'', upr_Privileges = [\<lparr>pgr_Privilege = ''r'', pgr_WithGrantOption = True\<rparr>]\<rparr>, ''root'')]"
  have ok: "list_all aclEntry ?es" and s: "showACL ?es = ''{alice=r*/root}''" by code_simp+
  from ParseACL_roundtrip [OF ok] show ?thesis unfolding s by simp
qed

end
