(* ===== verification/PrivilegeDiff.thy ===== *)
theory PrivilegeDiff
  imports SqlBuilder AclParser "HOL-Library.Multiset"
begin

text \<open>
  \<^verbatim>\<open>pkg/rwclient/privilege_snapshot.go\<close> (the privileges a user has, read from the catalog) and
  \<^verbatim>\<open>pkg/rwclient/privilege_diff.go\<close> (the statements from these to the privileges it should have). The
  database is the argument \<open>query\<close>: a statement and its parameters to an error or the rows. A result set
  holds its rows, each possibly with a scan error, and the error that ended the iteration, which the code
  never asks for. The order of a Go map iteration is the argument \<open>ord\<close>.
\<close>

section \<open>Snapshots\<close>

record ObjectPrivilege =
  opr_Name :: string
  opr_Privileges :: "string list"
  opr_WithGrantOption :: bool

record SchemaPrivilegeSnapshot =
  sps_Name :: string
  sps_Privileges :: "string list"
  sps_WithGrantOption :: bool
  sps_Tables :: "ObjectPrivilege list"
  sps_Views :: "ObjectPrivilege list"
  sps_MaterializedViews :: "ObjectPrivilege list"
  sps_Sources :: "ObjectPrivilege list"

record DatabasePrivilegeSnapshot =
  dps_Name :: string
  dps_Privileges :: "string list"
  dps_WithGrantOption :: bool
  dps_Schemas :: "SchemaPrivilegeSnapshot list"

record UserPrivilegeSnapshot =
  ups_UserName :: string
  ups_Databases :: "DatabasePrivilegeSnapshot list"

type_synonym aclRow = "string \<times> string option"

record Rows =
  rs_Rows :: "(string + aclRow) list"
  rs_Err :: "string option"

type_synonym query = "string \<Rightarrow> string list \<Rightarrow> string + Rows"

type_synonym mapOrder = "string list \<Rightarrow> string list"

text \<open>The loop over the rows of a result set: it ends with the first scan error.\<close>

fun scanRows :: "(string + aclRow) list \<Rightarrow> string + aclRow list" where
  "scanRows [] = Inr []"
| "scanRows (Inl e # rs) = Inl e"
| "scanRows (Inr r # rs) = (case scanRows rs of Inl e \<Rightarrow> Inl e | Inr rs' \<Rightarrow> Inr (r # rs'))"

definition collectPrivs :: "(string \<Rightarrow> string) \<Rightarrow> PrivilegeGrant list \<Rightarrow> string list \<times> bool" where
  "collectPrivs privType ps =
     (filter (\<lambda>t. t \<noteq> []) (map (\<lambda>p. privType (pgr_Privilege p)) ps),
      list_ex (\<lambda>p. privType (pgr_Privilege p) \<noteq> [] \<and> pgr_WithGrantOption p) ps)"

text \<open>The privileges of the user in one row: one entry for every matching entry of its list.\<close>

definition rowPrivs :: "(string \<Rightarrow> string) \<Rightarrow> string \<Rightarrow> aclRow \<Rightarrow> (string \<times> string list \<times> bool) list" where
  "rowPrivs privType userName row =
     (case row of (name, acl) \<Rightarrow>
        (case acl of
           None \<Rightarrow> []
         | Some a \<Rightarrow> map (\<lambda>up. (name, collectPrivs privType (upr_Privileges up)))
                      (filter (\<lambda>up. upr_User up = userName) (ParseACL a))))"

definition fetchSchemaPrivs :: "query \<Rightarrow> string \<Rightarrow> string + SchemaPrivilegeSnapshot list" where
  "fetchSchemaPrivs query userName =
     (case query ''SELECT name, acl FROM rw_catalog.rw_schemas'' [] of
        Inl e \<Rightarrow> Inl e
      | Inr rows \<Rightarrow>
          (case scanRows (rs_Rows rows) of
             Inl e \<Rightarrow> Inl e
           | Inr rs \<Rightarrow> Inr (map (\<lambda>(name, privs, grantOption).
                 \<lparr>sps_Name = name, sps_Privileges = privs, sps_WithGrantOption = grantOption,
                  sps_Tables = [], sps_Views = [], sps_MaterializedViews = [], sps_Sources = []\<rparr>)
               (filter (\<lambda>(name, privs, grantOption). privs \<noteq> [])
                 (concat (map (rowPrivs MapCharToSchemaPrivilege userName) rs))))))"

definition objectQuery :: "string \<Rightarrow> string" where
  "objectQuery catalogTable =
     (let nl = [CHR 0x0A, CHR 0x09, CHR 0x09] in
      nl @ ''SELECT t.name, t.acl '' @ nl @ ''FROM rw_catalog.'' @ catalogTable @ '' t'' @ nl @
      ''JOIN rw_catalog.rw_schemas s ON t.schema_id = s.id'' @ nl @ ''WHERE s.name = $1'')"

definition fetchObjectPrivs :: "query \<Rightarrow> string \<Rightarrow> string \<Rightarrow> string \<Rightarrow> string + ObjectPrivilege list" where
  "fetchObjectPrivs query catalogTable schemaName userName =
     (case query (objectQuery catalogTable) [schemaName] of
        Inl e \<Rightarrow> Inl e
      | Inr rows \<Rightarrow>
          (case scanRows (rs_Rows rows) of
             Inl e \<Rightarrow> Inl e
           | Inr rs \<Rightarrow> Inr (map (\<lambda>(name, privs, grantOption).
                 \<lparr>opr_Name = name, opr_Privileges = privs, opr_WithGrantOption = grantOption\<rparr>)
               (filter (\<lambda>(name, privs, grantOption). privs \<noteq> [])
                 (concat (map (rowPrivs MapCharToTablePrivilege userName) rs))))))"

text \<open>A map from database names: a later entry of the same name replaces the earlier one.\<close>

definition fetchDatabasePrivileges :: "query \<Rightarrow> string \<Rightarrow> string + (string \<times> string list \<times> bool) list" where
  "fetchDatabasePrivileges query userName =
     (case query ''SELECT name, acl FROM rw_catalog.rw_databases'' [] of
        Inl e \<Rightarrow> Inl e
      | Inr rows \<Rightarrow>
          (case scanRows (rs_Rows rows) of
             Inl e \<Rightarrow> Inl e
           | Inr rs \<Rightarrow> Inr (fold (\<lambda>(name, p) m. alUpdate name p m)
               (concat (map (rowPrivs MapCharToDatabasePrivilege userName) rs)) [])))"

definition FetchUserPrivilegeSnapshot :: "mapOrder \<Rightarrow> query \<Rightarrow> string \<Rightarrow> string + UserPrivilegeSnapshot" where
  "FetchUserPrivilegeSnapshot ord query userName =
     (case fetchDatabasePrivileges query userName of
        Inl e \<Rightarrow> Inl (''failed to fetch database privileges: '' @ e)
      | Inr m \<Rightarrow> Inr \<lparr>ups_UserName = userName,
          ups_Databases = map (\<lambda>n. \<lparr>dps_Name = n, dps_Privileges = fst (the (map_of m n)),
              dps_WithGrantOption = snd (the (map_of m n)), dps_Schemas = []\<rparr>) (ord (map fst m))\<rparr>)"

fun fetchObjects :: "query \<Rightarrow> string \<Rightarrow> SchemaPrivilegeSnapshot list \<Rightarrow> string + SchemaPrivilegeSnapshot list" where
  "fetchObjects query userName [] = Inr []"
| "fetchObjects query userName (s # ss) =
     (case fetchObjectPrivs query ''rw_tables'' (sps_Name s) userName of Inl e \<Rightarrow> Inl e | Inr tables \<Rightarrow>
     (case fetchObjectPrivs query ''rw_views'' (sps_Name s) userName of Inl e \<Rightarrow> Inl e | Inr views \<Rightarrow>
     (case fetchObjectPrivs query ''rw_materialized_views'' (sps_Name s) userName of Inl e \<Rightarrow> Inl e | Inr mvs \<Rightarrow>
     (case fetchObjectPrivs query ''rw_sources'' (sps_Name s) userName of Inl e \<Rightarrow> Inl e | Inr sources \<Rightarrow>
     (case fetchObjects query userName ss of Inl e \<Rightarrow> Inl e | Inr ss' \<Rightarrow>
        Inr (s\<lparr>sps_Tables := tables, sps_Views := views, sps_MaterializedViews := mvs, sps_Sources := sources\<rparr> # ss'))))))"

definition FetchSchemaPrivileges :: "query \<Rightarrow> string \<Rightarrow> string + SchemaPrivilegeSnapshot list" where
  "FetchSchemaPrivileges query userName =
     (case fetchSchemaPrivs query userName of Inl e \<Rightarrow> Inl e | Inr schemas \<Rightarrow> fetchObjects query userName schemas)"

section \<open>Differences\<close>

record PrivilegeDiff =
  pd_ToGrant :: "string list"
  pd_ToRevoke :: "string list"

text \<open>The keys of the one map that are not keys of the other, in the order of the iteration.\<close>

definition keysNotIn :: "mapOrder \<Rightarrow> string list \<Rightarrow> string list \<Rightarrow> string list" where
  "keysNotIn ord xs ys = filter (\<lambda>p. p \<notin> set ys) (ord (remdups xs))"

definition CalculateDatabaseDiff ::
  "mapOrder \<Rightarrow> string \<Rightarrow> DatabasePrivilegeSnapshot \<Rightarrow> DatabasePrivilege \<Rightarrow> PrivilegeDiff" where
  "CalculateDatabaseDiff ord userName actual desired =
     (let grantPrivs = keysNotIn ord (dpr_Privileges desired) (dps_Privileges actual);
          revokePrivs = keysNotIn ord (dps_Privileges actual) (dpr_Privileges desired)
      in \<lparr>pd_ToGrant = (if grantPrivs \<noteq> [] then [''GRANT '' @ joinStr '', '' grantPrivs @ '' ON DATABASE '' @
            QuoteIdentifier (dpr_Name desired) @ '' TO '' @ QuoteUser userName] else []),
          pd_ToRevoke = (if revokePrivs \<noteq> [] then [''REVOKE '' @ joinStr '', '' revokePrivs @ '' ON DATABASE '' @
            QuoteIdentifier (dpr_Name desired) @ '' FROM '' @ QuoteUser userName] else [])\<rparr>)"

definition CalculateSchemaDiff ::
  "mapOrder \<Rightarrow> string \<Rightarrow> SchemaPrivilegeSnapshot \<Rightarrow> NestedSchemaPrivilege \<Rightarrow> PrivilegeDiff" where
  "CalculateSchemaDiff ord userName actual desired =
     (let grantPrivs = keysNotIn ord (nsp_Privileges desired) (sps_Privileges actual);
          revokePrivs = keysNotIn ord (sps_Privileges actual) (nsp_Privileges desired)
      in \<lparr>pd_ToGrant = (if grantPrivs \<noteq> [] then [''GRANT '' @ joinStr '', '' grantPrivs @ '' ON SCHEMA '' @
            QuoteIdentifier (nsp_Name desired) @ '' TO '' @ QuoteUser userName] else []),
          pd_ToRevoke = (if revokePrivs \<noteq> [] then [''REVOKE '' @ joinStr '', '' revokePrivs @ '' ON SCHEMA '' @
            QuoteIdentifier (nsp_Name desired) @ '' FROM '' @ QuoteUser userName] else [])\<rparr>)"

definition buildOnClause :: "string \<Rightarrow> string \<Rightarrow> string \<Rightarrow> string" where
  "buildOnClause schemaName objectType targetName =
     (if targetName = ''*''
      then let pluralType = (if objectType = ''MATERIALIZED VIEW'' then ''MATERIALIZED VIEWS'' else objectType @ ''S'')
           in ''ON ALL '' @ pluralType @ '' IN SCHEMA '' @ QuoteIdentifier schemaName
      else ''ON '' @ objectType @ '' '' @ QuoteIdentifier targetName)"

definition CalculateObjectDiff ::
  "mapOrder \<Rightarrow> string \<Rightarrow> string \<Rightarrow> string \<Rightarrow> ObjectPrivilege \<Rightarrow> string \<Rightarrow> string list \<Rightarrow> PrivilegeDiff" where
  "CalculateObjectDiff ord userName schemaName objectType actual desiredName desiredPrivs =
     (let grantPrivs = sort (keysNotIn ord desiredPrivs (opr_Privileges actual));
          revokePrivs = sort (keysNotIn ord (opr_Privileges actual) desiredPrivs)
      in \<lparr>pd_ToGrant = (if grantPrivs \<noteq> [] then [''GRANT '' @ joinStr '', '' grantPrivs @ '' '' @
            buildOnClause schemaName objectType desiredName @ '' TO '' @ QuoteUser userName] else []),
          pd_ToRevoke = (if revokePrivs \<noteq> [] then [''REVOKE '' @ joinStr '', '' revokePrivs @ '' '' @
            buildOnClause schemaName objectType desiredName @ '' FROM '' @ QuoteUser userName] else [])\<rparr>)"


section \<open>What the statements do\<close>

text \<open>
  Executing the REVOKE statements and then the GRANT statements of a difference for one user and one object
  turns the privileges \<open>A\<close> into \<open>D\<close>; the statements are read back with the lexer.
\<close>

definition reaches :: "string \<Rightarrow> sqlObject \<Rightarrow> PrivilegeDiff \<Rightarrow> string set \<Rightarrow> string set \<Rightarrow> bool" where
  "reaches u obj d A D \<longleftrightarrow>
     (\<exists>rs gs. map lexSql (pd_ToRevoke d) = map (\<lambda>ps. Some (stmtTokens (Revoke ps obj u))) rs
       \<and> map lexSql (pd_ToGrant d) = map (\<lambda>ps. Some (stmtTokens (Grant ps obj u False))) gs
       \<and> (A - set (concat rs)) \<union> set (concat gs) = D)"

definition quiet :: "PrivilegeDiff \<Rightarrow> bool" where
  "quiet d \<longleftrightarrow> pd_ToGrant d = [] \<and> pd_ToRevoke d = []"

definition objectTypes :: "string list" where
  "objectTypes = [''TABLE'', ''VIEW'', ''MATERIALIZED VIEW'', ''SOURCE'']"

definition onObject :: "string \<Rightarrow> string \<Rightarrow> string \<Rightarrow> sqlObject" where
  "onObject schemaName objectType n =
     (if n = ''*'' then OnAll (splitOn CHR '' '' (objectType @ ''S'')) (identTok schemaName)
      else OnUnqualified (splitOn CHR '' '' objectType) (identTok n))"

section \<open>Lemmas\<close>

lemma set_keysNotIn:
  assumes "\<forall>xs. mset (ord xs) = mset xs"
  shows "set (keysNotIn ord xs ys) = set xs - set ys"
proof -
  have "set (ord zs) = set zs" for zs using assms by (metis set_mset_mset)
  then show ?thesis by (auto simp: keysNotIn_def)
qed

lemma sort_keysNotIn:
  assumes "\<forall>xs. mset (ord xs) = mset xs" "\<forall>xs. mset (ord' xs) = mset xs"
  shows "sort (keysNotIn ord xs ys) = sort (keysNotIn ord' xs ys)"
proof -
  have "mset (keysNotIn ord xs ys) = mset (keysNotIn ord' xs ys)"
    unfolding keysNotIn_def using assms by (simp add: mset_filter)
  then show ?thesis by (metis mset_sort properties_for_sort sorted_sort)
qed

lemmas lex_stmt = lexFrom_join lex_QuoteIdentifier lex_QuoteUser_end lex_consts lexSql_def

lemma lex_onDatabase:
  assumes "ws \<noteq> []" "\<forall>w \<in> set ws. plainWord w"
  shows "lexSql (''GRANT '' @ joinStr '', '' ws @ '' ON DATABASE '' @ QuoteIdentifier n @ '' TO '' @ QuoteUser u) =
      Some (stmtTokens (Grant ws (OnDatabase (identTok n)) u False))"
    and "lexSql (''REVOKE '' @ joinStr '', '' ws @ '' ON DATABASE '' @ QuoteIdentifier n @ '' FROM '' @ QuoteUser u) =
      Some (stmtTokens (Revoke ws (OnDatabase (identTok n)) u))"
  using assms by (simp_all add: lex_stmt)

lemma lex_onSchema:
  assumes "ws \<noteq> []" "\<forall>w \<in> set ws. plainWord w"
  shows "lexSql (''GRANT '' @ joinStr '', '' ws @ '' ON SCHEMA '' @ QuoteIdentifier n @ '' TO '' @ QuoteUser u) =
      Some (stmtTokens (Grant ws (OnSchema (identTok n)) u False))"
    and "lexSql (''REVOKE '' @ joinStr '', '' ws @ '' ON SCHEMA '' @ QuoteIdentifier n @ '' FROM '' @ QuoteUser u) =
      Some (stmtTokens (Revoke ws (OnSchema (identTok n)) u))"
  using assms by (simp_all add: lex_stmt)

lemma lex_onClause:
  assumes "t \<in> set objectTypes"
  shows "lexFrom (Plain []) (buildOnClause s t n @ CHR '' '' # x) =
    emit (Word ''ON'' # objectTokens (onObject s t n)) (lexFrom (Plain []) x)"
  using assms by (auto simp: objectTypes_def buildOnClause_def onObject_def lex_QuoteIdentifier lex_consts)

lemma lex_onObject:
  assumes "ws \<noteq> []" "\<forall>w \<in> set ws. plainWord w" "t \<in> set objectTypes"
  shows "lexSql (''GRANT '' @ joinStr '', '' ws @ '' '' @ buildOnClause s t n @ '' TO '' @ QuoteUser u) =
      Some (stmtTokens (Grant ws (onObject s t n) u False))"
    and "lexSql (''REVOKE '' @ joinStr '', '' ws @ '' '' @ buildOnClause s t n @ '' FROM '' @ QuoteUser u) =
      Some (stmtTokens (Revoke ws (onObject s t n) u))"
  using assms by (simp_all add: lex_stmt lex_onClause)

lemma reachesI:
  assumes "pd_ToGrant d = (if gs \<noteq> [] then [g] else [])" "pd_ToRevoke d = (if rs \<noteq> [] then [r] else [])"
    and "gs \<noteq> [] \<Longrightarrow> lexSql g = Some (stmtTokens (Grant gs obj u False))"
    and "rs \<noteq> [] \<Longrightarrow> lexSql r = Some (stmtTokens (Revoke rs obj u))"
    and "set gs = D - A" "set rs = A - D"
  shows "reaches u obj d A D \<and> (quiet d \<longleftrightarrow> A = D)"
proof -
  have "reaches u obj d A D"
    unfolding reaches_def
    by (rule exI [of _ "if rs \<noteq> [] then [rs] else []"], rule exI [of _ "if gs \<noteq> [] then [gs] else []"])
       (use assms in auto)
  moreover have "quiet d \<longleftrightarrow> gs = [] \<and> rs = []" using assms(1,2) by (simp add: quiet_def)
  moreover have "(gs = [] \<and> rs = []) \<longleftrightarrow> A = D" using assms(5,6) by (metis Diff_eq_empty_iff set_empty subset_antisym subset_refl)
  ultimately show ?thesis by blast
qed

lemma table_privileges_words:
  "set (fst (collectPrivs MapCharToDatabasePrivilege ps)) \<subseteq> {''CONNECT'', ''CREATE''}"
  by (auto simp: collectPrivs_def MapCharToDatabasePrivilege_def split: if_splits)

lemma fold_alUpdate_values:
  "snd ` set (fold (\<lambda>(k, v) m. alUpdate k v m) kvs m) \<subseteq> snd ` set kvs \<union> snd ` set m"
proof (induction kvs arbitrary: m)
  case (Cons kv kvs)
  obtain k v where kv: "kv = (k, v)" by (cases kv)
  show ?case using Cons [of "alUpdate k v m"] values_alUpdate [of k v m] unfolding kv by auto
qed simp

lemma fetched_privileges:
  assumes "fetchDatabasePrivileges query u = Inr m" "(n, ps, g) \<in> set m"
  shows "set ps \<subseteq> {''CONNECT'', ''CREATE''}"
proof -
  obtain rs where m: "m = fold (\<lambda>(k, v) m. alUpdate k v m) (concat (map (rowPrivs MapCharToDatabasePrivilege u) rs)) []"
    using assms(1) unfolding fetchDatabasePrivileges_def by (auto split: sum.splits)
  have "(ps, g) \<in> snd ` set m" using assms(2) by force
  then have "(ps, g) \<in> snd ` set (concat (map (rowPrivs MapCharToDatabasePrivilege u) rs))"
    using fold_alUpdate_values [of "concat (map (rowPrivs MapCharToDatabasePrivilege u) rs)" "[]"] unfolding m by auto
  then obtain r where "(ps, g) \<in> snd ` set (rowPrivs MapCharToDatabasePrivilege u r)" by auto
  then obtain qs where "(ps, g) = collectPrivs MapCharToDatabasePrivilege qs"
    unfolding rowPrivs_def by (auto split: prod.splits option.splits)
  then show ?thesis using table_privileges_words [of qs] by (metis fst_conv)
qed

section \<open>Properties\<close>


text \<open>The statements for an object do not depend on the order of the map iterations; and they name the object
  without its schema, so that the objects of the same name in different schemas get the same statements.\<close>
theorem object_diff_deterministic:
  assumes "\<forall>xs. mset (ord xs) = mset xs" "\<forall>xs. mset (ord' xs) = mset xs" "n \<noteq> ''*''"
  shows "CalculateObjectDiff ord u s t ao n ps = CalculateObjectDiff ord' u s' t ao n ps"
proof -
  have "buildOnClause s t n = buildOnClause s' t n" using assms(3) by (simp add: buildOnClause_def)
  then show ?thesis
    unfolding CalculateObjectDiff_def sort_keysNotIn [OF assms(1,2), of ps "opr_Privileges ao"]
      sort_keysNotIn [OF assms(1,2), of "opr_Privileges ao" ps] by (simp only:)
qed

text \<open>A grant of ALL on a database never settles: the catalog is read back as CONNECT and CREATE, so that every
  reconciliation grants ALL again and revokes what the user has.\<close>
theorem database_all_never_settles:
  assumes "\<forall>xs. mset (ord xs) = mset xs" "fetchDatabasePrivileges query u = Inr m" "(n, ps, g) \<in> set m"
    and "dpr_Privileges dd = [''ALL'']"
  defines "d \<equiv> CalculateDatabaseDiff ord u \<lparr>dps_Name = n, dps_Privileges = ps, dps_WithGrantOption = g, dps_Schemas = []\<rparr> dd"
  shows "pd_ToGrant d \<noteq> [] \<and> (ps \<noteq> [] \<longrightarrow> pd_ToRevoke d \<noteq> [])"
proof -
  have ps: "''ALL'' \<notin> set ps" using fetched_privileges [OF assms(2,3)] by auto
  have "set (keysNotIn ord [''ALL''] ps) = {''ALL''}" "set (keysNotIn ord ps [''ALL'']) = set ps"
    unfolding set_keysNotIn [OF assms(1)] using ps by (simp_all add: insert_Diff_if)
  then have "keysNotIn ord [''ALL''] ps \<noteq> []" "ps \<noteq> [] \<longrightarrow> keysNotIn ord ps [''ALL''] \<noteq> []"
    by (metis empty_set insert_not_empty, metis set_empty)
  then show ?thesis by (simp add: d_def CalculateDatabaseDiff_def assms(4) Let_def)
qed

section \<open>Examples\<close>

definition demoActualDb :: DatabasePrivilegeSnapshot where
  "demoActualDb = \<lparr>dps_Name = ''dev'', dps_Privileges = [''CREATE''], dps_WithGrantOption = False, dps_Schemas = []\<rparr>"

definition demoActualSchema :: SchemaPrivilegeSnapshot where
  "demoActualSchema = \<lparr>sps_Name = ''public'', sps_Privileges = [], sps_WithGrantOption = False,
     sps_Tables = [], sps_Views = [], sps_MaterializedViews = [], sps_Sources = []\<rparr>"

definition demoActualObject :: ObjectPrivilege where
  "demoActualObject = \<lparr>opr_Name = ''t'', opr_Privileges = [''UPDATE''], opr_WithGrantOption = False\<rparr>"

definition demoQuery :: query where
  "demoQuery q args = Inr \<lparr>rs_Rows = [Inr (''dev'', Some ''{alice=cC/root}''), Inr (''other'', None)], rs_Err = None\<rparr>"


theorem object_diff_deterministic_witness:
  "CalculateObjectDiff rev ''alice'' ''s1'' ''TABLE'' demoActualObject ''t'' [''SELECT'', ''INSERT''] =
   CalculateObjectDiff id ''alice'' ''s2'' ''TABLE'' demoActualObject ''t'' [''SELECT'', ''INSERT'']"
  by (rule object_diff_deterministic) simp_all

theorem database_all_never_settles_witness:
  "pd_ToGrant (CalculateDatabaseDiff id ''alice'' \<lparr>dps_Name = ''dev'', dps_Privileges = [''CONNECT'', ''CREATE''], dps_WithGrantOption = False,
     dps_Schemas = []\<rparr> \<lparr>dpr_Name = ''dev'', dpr_Privileges = [''ALL''], dpr_WithGrantOption = False, dpr_Schemas = []\<rparr>) \<noteq> []"
proof -
  have f: "fetchDatabasePrivileges demoQuery ''alice'' = Inr [(''dev'', [''CONNECT'', ''CREATE''], False)]" by code_simp
  let ?dd = "\<lparr>dpr_Name = ''dev'', dpr_Privileges = [''ALL''], dpr_WithGrantOption = False, dpr_Schemas = []\<rparr>"
  have "\<forall>xs. mset (id xs) = mset xs" "(''dev'', [''CONNECT'', ''CREATE''], False) \<in> set [(''dev'', [''CONNECT'', ''CREATE''], False)]"
    "dpr_Privileges ?dd = [''ALL'']" by simp_all
  from database_all_never_settles [OF this(1) f this(2,3)] show ?thesis by blast
qed

end
