(* ===== verification/UserPrivileges.thy ===== *)
theory UserPrivileges
  imports PrivilegeDiff
begin

text \<open>
  The privilege part of \<^verbatim>\<open>pkg/controller/risingwave_user_controller.go\<close>: \<^verbatim>\<open>applyPrivileges\<close> collects the
  differences between the catalog and the specification, database by database, and executes the statements.
  A connection is a record of functions over the state \<^typ>\<open>'db\<close> of the database session; \<^verbatim>\<open>range\<close> over a map
  visits the keys in the order \<open>ord site\<close>, where \<open>site\<close> names the loop.
\<close>

section \<open>The connection\<close>

record DbErr =
  de_Code :: "string option"
  de_Text :: string

record 'db Conn =
  cn_exec :: "string \<Rightarrow> 'db \<Rightarrow> DbErr option \<times> 'db"
  cn_query :: "'db \<Rightarrow> query"
  cn_names :: "'db \<Rightarrow> DbErr + (DbErr + string) list"
  cn_current :: "'db \<Rightarrow> DbErr + string"

type_synonym rangeOrder = "string list \<Rightarrow> mapOrder"

text \<open>The statements sent, with the error of each one.\<close>

type_synonym sqlLog = "(string \<times> DbErr option) list"

definition ExecContext :: "'db Conn \<Rightarrow> string \<Rightarrow> 'db \<times> sqlLog \<Rightarrow> DbErr option \<times> 'db \<times> sqlLog" where
  "ExecContext conn stmt s =
     (case s of (db, l) \<Rightarrow> (case cn_exec conn stmt db of (e, db') \<Rightarrow> (e, db', l @ [(stmt, e)])))"

definition getCurrentDatabase :: "'db Conn \<Rightarrow> 'db \<Rightarrow> string" where
  "getCurrentDatabase conn db = (case cn_current conn db of Inl e \<Rightarrow> ''dev'' | Inr d \<Rightarrow> d)"

definition switchDatabase :: "'db Conn \<Rightarrow> string \<Rightarrow> 'db \<times> sqlLog \<Rightarrow> DbErr option \<times> 'db \<times> sqlLog" where
  "switchDatabase conn dbName s = ExecContext conn (''SET DATABASE TO '' @ QuoteIdentifier dbName) s"

fun scanNames :: "(DbErr + string) list \<Rightarrow> DbErr + string list" where
  "scanNames [] = Inr []"
| "scanNames (Inl e # rs) = Inl e"
| "scanNames (Inr n # rs) = (case scanNames rs of Inl e \<Rightarrow> Inl e | Inr ns \<Rightarrow> Inr (n # ns))"

definition getAllDatabases :: "'db Conn \<Rightarrow> 'db \<Rightarrow> DbErr + string list" where
  "getAllDatabases conn db = (case cn_names conn db of Inl e \<Rightarrow> Inl e | Inr rows \<Rightarrow> scanNames rows)"

section \<open>Collecting the differences\<close>

definition toViewPrivs :: "NestedViewPrivilege list \<Rightarrow> NestedTablePrivilege list" where
  "toViewPrivs = map (\<lambda>v. \<lparr>ntp_Name = nvp_Name v, ntp_Privileges = nvp_Privileges v, ntp_WithGrantOption = nvp_WithGrantOption v\<rparr>)"

definition toMVPrivs :: "NestedMaterializedViewPrivilege list \<Rightarrow> NestedTablePrivilege list" where
  "toMVPrivs = map (\<lambda>v. \<lparr>ntp_Name = nmp_Name v, ntp_Privileges = nmp_Privileges v, ntp_WithGrantOption = nmp_WithGrantOption v\<rparr>)"

definition toSourcePrivs :: "NestedSourcePrivilege list \<Rightarrow> NestedTablePrivilege list" where
  "toSourcePrivs = map (\<lambda>s. \<lparr>ntp_Name = nsop_Name s, ntp_Privileges = nsop_Privileges s, ntp_WithGrantOption = nsop_WithGrantOption s\<rparr>)"

text \<open>The statements of one object; grants and revokes.\<close>

definition objectStatements ::
  "mapOrder \<Rightarrow> string \<Rightarrow> string \<Rightarrow> string \<Rightarrow> ObjectPrivilege list \<Rightarrow> NestedTablePrivilege list \<Rightarrow> string \<Rightarrow> string list \<times> string list" where
  "objectStatements ord userName schemaName objectType actual desired oName =
     (let actualO = (case find (\<lambda>o'. opr_Name o' = oName) actual of
            Some o' \<Rightarrow> o' | None \<Rightarrow> \<lparr>opr_Name = [], opr_Privileges = [], opr_WithGrantOption = False\<rparr>)
      in case find (\<lambda>d. ntp_Name d = oName) desired of
           None \<Rightarrow> ([], [''REVOKE ALL ON '' @ objectType @ '' '' @ QuoteIdentifier oName @ '' FROM '' @ QuoteUser userName])
         | Some d \<Rightarrow>
             (let diff = CalculateObjectDiff ord userName schemaName objectType actualO oName (ntp_Privileges d)
              in (pd_ToGrant diff, pd_ToRevoke diff)))"

definition pairConcat :: "('a list \<times> 'b list) list \<Rightarrow> 'a list \<times> 'b list" where
  "pairConcat xs = (concat (map fst xs), concat (map snd xs))"

definition reconcileObjectPrivileges ::
  "rangeOrder \<Rightarrow> string \<Rightarrow> string \<Rightarrow> string \<Rightarrow> ObjectPrivilege list \<Rightarrow> NestedTablePrivilege list \<Rightarrow> string list \<times> string list" where
  "reconcileObjectPrivileges ord userName schemaName objectType actual desired =
     pairConcat (map (objectStatements (ord [''privileges'']) userName schemaName objectType actual desired)
       (ord [''objects'', schemaName, objectType] (remdups (map opr_Name actual @ map ntp_Name desired))))"

definition zeroDbSnapshot :: DatabasePrivilegeSnapshot where
  "zeroDbSnapshot = \<lparr>dps_Name = [], dps_Privileges = [], dps_WithGrantOption = False, dps_Schemas = []\<rparr>"

definition zeroSchemaSnapshot :: SchemaPrivilegeSnapshot where
  "zeroSchemaSnapshot = \<lparr>sps_Name = [], sps_Privileges = [], sps_WithGrantOption = False, sps_Tables = [], sps_Views = [],
     sps_MaterializedViews = [], sps_Sources = []\<rparr>"

text \<open>The statements for one database, executed in the original one; None when nothing is recorded.\<close>

definition databaseStatements ::
  "rangeOrder \<Rightarrow> string \<Rightarrow> DatabasePrivilegeSnapshot list \<Rightarrow> DatabasePrivilege list \<Rightarrow> string \<Rightarrow> (string list \<times> string list) option" where
  "databaseStatements ord userName actual desired dbName =
     (let actualDB = (case find (\<lambda>a. dps_Name a = dbName) actual of Some a \<Rightarrow> a | None \<Rightarrow> zeroDbSnapshot)
      in case find (\<lambda>d. dpr_Name d = dbName) desired of
           None \<Rightarrow> if dps_Privileges actualDB \<noteq> []
             then Some ([], [''REVOKE ALL ON DATABASE '' @ QuoteIdentifier dbName @ '' FROM '' @ QuoteUser userName]) else None
         | Some d \<Rightarrow>
             (let diff = CalculateDatabaseDiff (ord [''privileges'']) userName actualDB d in Some (pd_ToGrant diff, pd_ToRevoke diff)))"

text \<open>The statements for one schema and its objects.\<close>

definition schemaStatements ::
  "rangeOrder \<Rightarrow> string \<Rightarrow> SchemaPrivilegeSnapshot list \<Rightarrow> NestedSchemaPrivilege list \<Rightarrow> string \<Rightarrow> string list \<times> string list" where
  "schemaStatements ord userName actual desired sName =
     (let actualS = (case find (\<lambda>a. sps_Name a = sName) actual of Some a \<Rightarrow> a | None \<Rightarrow> zeroSchemaSnapshot);
          objs = (\<lambda>ts vs ms ss. [
            reconcileObjectPrivileges ord userName sName ''TABLE'' (sps_Tables actualS) ts,
            reconcileObjectPrivileges ord userName sName ''VIEW'' (sps_Views actualS) vs,
            reconcileObjectPrivileges ord userName sName ''MATERIALIZED VIEW'' (sps_MaterializedViews actualS) ms,
            reconcileObjectPrivileges ord userName sName ''SOURCE'' (sps_Sources actualS) ss])
      in case find (\<lambda>d. nsp_Name d = sName) desired of
           None \<Rightarrow> pairConcat (([], if sps_Privileges actualS \<noteq> []
               then [''REVOKE ALL ON SCHEMA '' @ QuoteIdentifier sName @ '' FROM '' @ QuoteUser userName] else []) # objs [] [] [] [])
         | Some d \<Rightarrow>
             (let diff = CalculateSchemaDiff (ord [''privileges'']) userName actualS d
              in pairConcat ((pd_ToGrant diff, pd_ToRevoke diff) #
                   objs (nsp_Tables d) (toViewPrivs (nsp_Views d)) (toMVPrivs (nsp_MaterializedViews d)) (toSourcePrivs (nsp_Sources d)))))"

text \<open>\<^verbatim>\<open>statementsPerDB\<close>: a map from database names to grants and revokes.\<close>

type_synonym dbStatements = "(string \<times> string list \<times> string list) list"

definition addStats :: "string \<Rightarrow> string list \<times> string list \<Rightarrow> dbStatements \<Rightarrow> dbStatements" where
  "addStats dbName st m =
     (let (g, r) = (case map_of m dbName of Some x \<Rightarrow> x | None \<Rightarrow> ([], [])) in
      alUpdate dbName (g @ fst st, r @ snd st) m)"

definition collectDatabases ::
  "rangeOrder \<Rightarrow> string \<Rightarrow> DatabasePrivilegeSnapshot list \<Rightarrow> DatabasePrivilege list \<Rightarrow> string \<Rightarrow> string list \<Rightarrow> dbStatements" where
  "collectDatabases ord userName actual desired originalDB dbNames =
     fold (\<lambda>dbName m. case databaseStatements ord userName actual desired dbName of None \<Rightarrow> m | Some st \<Rightarrow> addStats originalDB st m)
       dbNames []"

text \<open>The loop over the databases that reads the schemas; it ends with the first failing read.\<close>

fun collectSchemas ::
  "rangeOrder \<Rightarrow> 'db Conn \<Rightarrow> string \<Rightarrow> DatabasePrivilege list \<Rightarrow> string list \<Rightarrow> string \<Rightarrow> dbStatements \<Rightarrow> 'db \<times> sqlLog
   \<Rightarrow> (string + string \<times> dbStatements) \<times> 'db \<times> sqlLog" where
  "collectSchemas ord conn userName desired [] currentDB m s = (Inr (currentDB, m), s)"
| "collectSchemas ord conn userName desired (dbName # rest) currentDB m s =
     (case (if currentDB \<noteq> dbName then switchDatabase conn dbName s else (None, s)) of
        (Some e, s') \<Rightarrow> collectSchemas ord conn userName desired rest currentDB m s'
      | (None, s') \<Rightarrow>
          (case FetchSchemaPrivileges (cn_query conn (fst s')) userName of
             Inl e \<Rightarrow> (Inl (''failed to fetch schema privileges for database '' @ goQuote dbName @ '': '' @ e), s')
           | Inr actualSchemas \<Rightarrow>
               (let desiredSchemas = (case find (\<lambda>d. dpr_Name d = dbName) desired of Some d \<Rightarrow> dpr_Schemas d | None \<Rightarrow> []);
                    names = ord [''schemas'', dbName] (remdups (map sps_Name actualSchemas @ map nsp_Name desiredSchemas));
                    m' = fold (\<lambda>sName m. addStats dbName (schemaStatements ord userName actualSchemas desiredSchemas sName) m) names m
                in collectSchemas ord conn userName desired rest dbName m' s')))"

section \<open>Executing\<close>

definition ignorable :: "DbErr \<Rightarrow> bool" where
  "ignorable e \<longleftrightarrow> containsStr (de_Text e) ''not found'' \<or> containsStr (de_Text e) ''does not exist''"

fun execRevokes :: "'db Conn \<Rightarrow> string \<Rightarrow> string list \<Rightarrow> 'db \<times> sqlLog \<Rightarrow> string list \<times> 'db \<times> sqlLog" where
  "execRevokes conn dbName [] s = ([], s)"
| "execRevokes conn dbName (stmt # rest) s =
     (case ExecContext conn stmt s of
        (e, s') \<Rightarrow> (case execRevokes conn dbName rest s' of
           (errs, s'') \<Rightarrow> ((case e of
               Some x \<Rightarrow> if ignorable x then errs else (''['' @ dbName @ ''] failed to execute REVOKE: '' @ stmt @ '': '' @ de_Text x) # errs
             | None \<Rightarrow> errs), s'')))"

fun execGrants :: "'db Conn \<Rightarrow> string \<Rightarrow> string list \<Rightarrow> 'db \<times> sqlLog \<Rightarrow> string list \<times> 'db \<times> sqlLog" where
  "execGrants conn dbName [] s = ([], s)"
| "execGrants conn dbName (stmt # rest) s =
     (case ExecContext conn stmt s of
        (e, s') \<Rightarrow> (case execGrants conn dbName rest s' of
           (errs, s'') \<Rightarrow> ((case e of
               Some x \<Rightarrow> (''['' @ dbName @ ''] failed to execute GRANT: '' @ stmt @ '': '' @ de_Text x) # errs
             | None \<Rightarrow> errs), s'')))"

text \<open>The loop over the recorded databases; it returns the errors and the current database.\<close>

fun execAll :: "'db Conn \<Rightarrow> dbStatements \<Rightarrow> string \<Rightarrow> 'db \<times> sqlLog \<Rightarrow> string list \<times> string \<times> 'db \<times> sqlLog" where
  "execAll conn [] currentDB s = ([], currentDB, s)"
| "execAll conn ((dbName, g, r) # rest) currentDB s =
     (if g = [] \<and> r = [] then execAll conn rest currentDB s
      else
        (case (if currentDB \<noteq> dbName then switchDatabase conn dbName s else (None, s)) of
           (Some e, s1) \<Rightarrow>
             (case execAll conn rest currentDB s1 of
                (errs, t) \<Rightarrow> ((''failed to switch to database '' @ goQuote dbName @ '' for execution: '' @ de_Text e) # errs, t))
         | (None, s1) \<Rightarrow>
             (case execRevokes conn dbName r s1 of (re, s2) \<Rightarrow>
             (case execGrants conn dbName g s2 of (ge, s3) \<Rightarrow>
             (case execAll conn rest dbName s3 of (errs, t) \<Rightarrow> (re @ ge @ errs, t))))))"

definition desiredDatabases :: "RisingWaveUserSpec \<Rightarrow> DatabasePrivilege list" where
  "desiredDatabases spec = (case uspec_Grants spec of None \<Rightarrow> [] | Some g \<Rightarrow> grs_Databases g)"

definition applyPrivileges ::
  "rangeOrder \<Rightarrow> 'db Conn \<Rightarrow> string \<Rightarrow> RisingWaveUserSpec \<Rightarrow> 'db \<times> sqlLog \<Rightarrow> string option \<times> 'db \<times> sqlLog" where
  "applyPrivileges ord conn userName spec s =
     (case FetchUserPrivilegeSnapshot (ord [''snapshot'']) (cn_query conn (fst s)) userName of
        Inl e \<Rightarrow> (Some (''failed to fetch actual privilege snapshot: '' @ e), s)
      | Inr actual \<Rightarrow>
     (case getAllDatabases conn (fst s) of
        Inl e \<Rightarrow> (Some (''failed to fetch all databases: '' @ de_Text e), s)
      | Inr allSystemDBs \<Rightarrow>
          (let desired = desiredDatabases spec;
               relevant = remdups (allSystemDBs @ map dpr_Name desired);
               originalDB = getCurrentDatabase conn (fst s);
               m0 = collectDatabases ord userName (ups_Databases actual) desired originalDB (ord [''databases''] relevant)
           in case collectSchemas ord conn userName desired (ord [''schemas''] relevant) originalDB m0 s of
                (Inl e, s1) \<Rightarrow> (Some e, s1)
              | (Inr (currentDB, m), s1) \<Rightarrow>
                  (case execAll conn (map (\<lambda>n. (n, the (map_of m n))) (ord [''execute''] (map fst m))) currentDB s1 of
                     (errs, currentDB', s2) \<Rightarrow>
                       (let s3 = (if originalDB \<noteq> currentDB' then snd (switchDatabase conn originalDB s2) else s2) in
                        if errs \<noteq> [] then (Some (''reconciliation encountered errors: '' @ joinStr ''; '' errs), s3) else (None, s3))))))"

section \<open>Lemmas\<close>

definition stats_ok :: "dbStatements \<Rightarrow> bool" where
  "stats_ok m \<longleftrightarrow> (\<forall>(n, g, r) \<in> set m. (\<forall>x \<in> set g. hasPrefix x ''GRANT '') \<and> (\<forall>x \<in> set r. hasPrefix x ''REVOKE ''))"

definition stmts_ok :: "string list \<times> string list \<Rightarrow> bool" where
  "stmts_ok st \<longleftrightarrow> (\<forall>x \<in> set (fst st). hasPrefix x ''GRANT '') \<and> (\<forall>x \<in> set (snd st). hasPrefix x ''REVOKE '')"

text \<open>What may fail without being reported: a switch of the database, and a revoke of something that is gone.\<close>

definition harmless :: "string \<times> DbErr option \<Rightarrow> bool" where
  "harmless x \<longleftrightarrow> (case x of (stmt, e) \<Rightarrow> e = None \<or> hasPrefix stmt ''SET DATABASE TO '' \<or>
     (hasPrefix stmt ''REVOKE '' \<and> (case e of None \<Rightarrow> True | Some err \<Rightarrow> ignorable err)))"

lemma stmts_ok_pairConcat: "(\<forall>x \<in> set xs. stmts_ok x) \<Longrightarrow> stmts_ok (pairConcat xs)"
  by (auto simp: stmts_ok_def pairConcat_def)

lemma diffs_ok:
  "stmts_ok (pd_ToGrant (CalculateDatabaseDiff o1 u a d), pd_ToRevoke (CalculateDatabaseDiff o1 u a d))"
  "stmts_ok (pd_ToGrant (CalculateSchemaDiff o1 u sa sd), pd_ToRevoke (CalculateSchemaDiff o1 u sa sd))"
  "stmts_ok (pd_ToGrant (CalculateObjectDiff o1 u s t oa n ps), pd_ToRevoke (CalculateObjectDiff o1 u s t oa n ps))"
  by (auto simp: stmts_ok_def CalculateDatabaseDiff_def CalculateSchemaDiff_def CalculateObjectDiff_def Let_def split: if_splits)

lemma objectStatements_ok: "stmts_ok (objectStatements o1 u s t a d n)"
  using diffs_ok(3) by (simp add: objectStatements_def Let_def stmts_ok_def split: option.split)

lemma reconcileObject_ok: "stmts_ok (reconcileObjectPrivileges ord u s t a d)"
  unfolding reconcileObjectPrivileges_def by (rule stmts_ok_pairConcat) (auto simp: objectStatements_ok)

lemma databaseStatements_ok: "databaseStatements ord u a d n = Some st \<Longrightarrow> stmts_ok st"
  using diffs_ok(1) unfolding databaseStatements_def Let_def
  by (auto simp: stmts_ok_def split: option.splits if_splits)

lemma schemaStatements_ok: "stmts_ok (schemaStatements ord u a d n)"
proof (cases "find (\<lambda>d. nsp_Name d = n) d")
  case None
  show ?thesis unfolding schemaStatements_def Let_def None option.case
    by (rule stmts_ok_pairConcat) (auto simp: reconcileObject_ok, simp_all add: stmts_ok_def)
next
  case (Some x)
  show ?thesis unfolding schemaStatements_def Let_def Some option.case
    by (rule stmts_ok_pairConcat) (auto simp: reconcileObject_ok diffs_ok(2))
qed

lemma set_alUpdate: "set (alUpdate k v m) \<subseteq> insert (k, v) (set m)"
  by (induction m) (auto split: if_splits)

lemma addStats_ok:
  assumes "stats_ok m" "stmts_ok st"
  shows "stats_ok (addStats n st m)"
proof -
  obtain g r where gr: "(case map_of m n of Some x \<Rightarrow> x | None \<Rightarrow> ([], [])) = (g, r)" by (cases "case map_of m n of Some x \<Rightarrow> x | None \<Rightarrow> ([], [])")
  have "stmts_ok (g, r)" using gr assms(1) map_of_SomeD [of m n "(g, r)"]
    by (auto simp: stats_ok_def stmts_ok_def split: option.splits)
  then have "stmts_ok (g @ fst st, r @ snd st)" using assms(2) by (auto simp: stmts_ok_def)
  then show ?thesis using assms(1) set_alUpdate [of n "(g @ fst st, r @ snd st)" m] gr
    unfolding addStats_def stats_ok_def stmts_ok_def by fastforce
qed

lemma collectDatabases_ok: "stats_ok (collectDatabases ord u a d orig ns)"
proof -
  have "stats_ok m \<Longrightarrow> stats_ok (fold (\<lambda>dbName m. case databaseStatements ord u a d dbName of None \<Rightarrow> m | Some st \<Rightarrow> addStats orig st m) ns m)" for m
    by (induction ns arbitrary: m) (auto simp: addStats_ok databaseStatements_ok split: option.split)
  moreover have "stats_ok []" by (simp add: stats_ok_def)
  ultimately show ?thesis by (simp only: collectDatabases_def)
qed

lemma foldSchemas_ok:
  "stats_ok m \<Longrightarrow> stats_ok (fold (\<lambda>sName m. addStats n (schemaStatements ord u a d sName) m) names m)"
  by (induction names arbitrary: m) (simp_all add: addStats_ok schemaStatements_ok)

lemma map_of_the: "n \<in> fst ` set m \<Longrightarrow> (n, the (map_of m n)) \<in> set m"
  by (cases "map_of m n") (auto simp: map_of_eq_None_iff dest: map_of_SomeD)

text \<open>Every part of the work appends to the log.\<close>

lemma ExecContext_log:
  "ExecContext conn stmt (db, l) = (e, db', l') \<Longrightarrow> l' = l @ [(stmt, e)]"
  by (auto simp: ExecContext_def split: prod.splits)

lemma switch_log:
  assumes "switchDatabase conn n (db, l) = (e, db', l')"
  shows "\<exists>k. l' = l @ k \<and> list_all harmless k"
proof -
  have "hasPrefix (''SET DATABASE TO '' @ QuoteIdentifier n) ''SET DATABASE TO ''" by simp
  then show ?thesis using ExecContext_log [OF assms [unfolded switchDatabase_def]] by (auto simp: harmless_def)
qed

lemma maybe_switch_log:
  "(if cur \<noteq> n then switchDatabase conn n (db, l) else (None, db, l)) = (e, db', l') \<Longrightarrow> \<exists>k. l' = l @ k \<and> list_all harmless k"
  by (cases "cur = n") (auto dest: switch_log)

lemma execRevokes_log:
  "\<lbrakk>execRevokes conn n rs (db, l) = ([], db', l'); \<forall>x \<in> set rs. hasPrefix x ''REVOKE ''\<rbrakk> \<Longrightarrow> \<exists>k. l' = l @ k \<and> list_all harmless k"
proof (induction rs arbitrary: db l)
  case (Cons stmt rest)
  obtain e db1 l1 where e: "ExecContext conn stmt (db, l) = (e, db1, l1)" by (cases "ExecContext conn stmt (db, l)") auto
  obtain errs db2 l2 where r: "execRevokes conn n rest (db1, l1) = (errs, db2, l2)" by (cases "execRevokes conn n rest (db1, l1)") auto
  have p: "errs = []" "db2 = db'" "l2 = l'" "case e of None \<Rightarrow> True | Some err \<Rightarrow> ignorable err"
    using Cons.prems(1) e r by (auto split: option.splits if_splits)
  have "harmless (stmt, e)" using p(4) Cons.prems(2) by (auto simp: harmless_def)
  moreover obtain k where "l' = l1 @ k" "list_all harmless k" using Cons.IH [of db1 l1] r p Cons.prems(2) by auto
  ultimately show ?case using ExecContext_log [OF e] by (intro exI [of _ "(stmt, e) # k"]) simp
qed simp

lemma execGrants_log:
  "execGrants conn n gs (db, l) = ([], db', l') \<Longrightarrow> \<exists>k. l' = l @ k \<and> list_all harmless k"
proof (induction gs arbitrary: db l)
  case (Cons stmt rest)
  obtain e db1 l1 where e: "ExecContext conn stmt (db, l) = (e, db1, l1)" by (cases "ExecContext conn stmt (db, l)") auto
  obtain errs db2 l2 where r: "execGrants conn n rest (db1, l1) = (errs, db2, l2)" by (cases "execGrants conn n rest (db1, l1)") auto
  have p: "errs = []" "db2 = db'" "l2 = l'" "e = None" using Cons.prems(1) e r by (auto split: option.splits)
  obtain k where "l' = l1 @ k" "list_all harmless k" using Cons.IH [of db1 l1] r p by auto
  moreover have "harmless (stmt, e)" using p(4) by (simp add: harmless_def)
  ultimately show ?case using ExecContext_log [OF e] by (intro exI [of _ "(stmt, e) # k"]) simp
qed simp

lemma execAll_log:
  "\<lbrakk>execAll conn m cur (db, l) = ([], cur', db', l'); stats_ok m\<rbrakk> \<Longrightarrow> \<exists>k. l' = l @ k \<and> list_all harmless k"
proof (induction m arbitrary: cur db l)
  case (Cons x rest)
  obtain n g r where x: "x = (n, g, r)" by (cases x) auto
  have ok: "stats_ok rest" "\<forall>s \<in> set r. hasPrefix s ''REVOKE ''" using Cons.prems(2) by (auto simp: stats_ok_def x)
  show ?case
  proof (cases "g = [] \<and> r = []")
    case True
    then show ?thesis using Cons ok(1) x by simp
  next
    case False
    obtain e db1 l1 where s: "(if cur \<noteq> n then switchDatabase conn n (db, l) else (None, db, l)) = (e, db1, l1)"
      by (cases "if cur \<noteq> n then switchDatabase conn n (db, l) else (None, db, l)") auto
    have e: "e = None" using Cons.prems(1) s False unfolding x by (cases e) (auto split: prod.splits)
    obtain re db2 l2 where r': "execRevokes conn n r (db1, l1) = (re, db2, l2)" by (cases "execRevokes conn n r (db1, l1)") auto
    obtain ge db3 l3 where g': "execGrants conn n g (db2, l2) = (ge, db3, l3)" by (cases "execGrants conn n g (db2, l2)") auto
    obtain errs t where a': "execAll conn rest n (db3, l3) = (errs, t)" by (cases "execAll conn rest n (db3, l3)") auto
    have z: "re = []" "ge = []" "errs = []" "t = (cur', db', l')"
      using Cons.prems(1) s e r' g' a' False unfolding x by (auto split: prod.splits)
    obtain k1 where k1: "l1 = l @ k1" "list_all harmless k1" using maybe_switch_log [OF s] by blast
    obtain k2 where k2: "l2 = l1 @ k2" "list_all harmless k2" using execRevokes_log [OF r' [unfolded z] ok(2)] by blast
    obtain k3 where k3: "l3 = l2 @ k3" "list_all harmless k3" using execGrants_log [OF g' [unfolded z]] by blast
    obtain k4 where k4: "l' = l3 @ k4" "list_all harmless k4" using Cons.IH [OF a' [unfolded z] ok(1)] by blast
    show ?thesis using k1 k2 k3 k4 by (intro exI [of _ "k1 @ k2 @ k3 @ k4"]) simp
  qed
qed simp

lemma collectSchemas_log:
  "\<lbrakk>collectSchemas ord conn u d ns cur m (db, l) = (r, db', l'); stats_ok m\<rbrakk> \<Longrightarrow>
   (\<exists>k. l' = l @ k \<and> list_all harmless k) \<and> (\<forall>cur' m'. r = Inr (cur', m') \<longrightarrow> stats_ok m')"
proof (induction ns arbitrary: cur m db l)
  case (Cons n rest)
  obtain e db1 l1 where s: "(if cur \<noteq> n then switchDatabase conn n (db, l) else (None, db, l)) = (e, db1, l1)"
    by (cases "if cur \<noteq> n then switchDatabase conn n (db, l) else (None, db, l)") auto
  obtain k1 where k1: "l1 = l @ k1" "list_all harmless k1" using maybe_switch_log [OF s] by blast
  show ?case
  proof (cases e)
    case (Some x)
    then have "collectSchemas ord conn u d rest cur m (db1, l1) = (r, db', l')" using Cons.prems(1) s by simp
    from Cons.IH [OF this Cons.prems(2)] k1 show ?thesis by auto
  next
    case None
    show ?thesis
    proof (cases "FetchSchemaPrivileges (cn_query conn db1) u")
      case (Inl f)
      then show ?thesis using Cons.prems(1) s None k1 by auto
    next
      case (Inr as)
      let ?ds = "case find (\<lambda>d. dpr_Name d = n) d of Some d \<Rightarrow> dpr_Schemas d | None \<Rightarrow> []"
      let ?names = "ord [''schemas'', n] (remdups (map sps_Name as @ map nsp_Name ?ds))"
      let ?m = "fold (\<lambda>sName m. addStats n (schemaStatements ord u as ?ds sName) m) ?names m"
      have "collectSchemas ord conn u d rest n ?m (db1, l1) = (r, db', l')"
        using Cons.prems(1) s None Inr by (simp add: Let_def)
      from Cons.IH [OF this foldSchemas_ok [OF Cons.prems(2)]] k1 show ?thesis by auto
    qed
  qed
qed auto

section \<open>Properties\<close>

text \<open>C26: No failure is lost when privileges are applied: if no error is returned, every statement that was executed
  succeeded, but for switches of the database and for revokes of objects that do not exist.\<close>
theorem applyPrivileges_reports_failures:
  assumes "applyPrivileges ord conn u spec (db, []) = (None, db', l)" "\<forall>site xs. mset (ord site xs) = mset xs"
  shows "list_all harmless l"
proof -
  obtain actual where a: "FetchUserPrivilegeSnapshot (ord [''snapshot'']) (cn_query conn db) u = Inr actual"
    using assms(1) by (auto simp: applyPrivileges_def split: sum.splits)
  obtain dbs where d: "getAllDatabases conn db = Inr dbs" using assms(1) a by (auto simp: applyPrivileges_def split: sum.splits)
  let ?rel = "remdups (dbs @ map dpr_Name (desiredDatabases spec))"
  let ?orig = "getCurrentDatabase conn db"
  let ?m0 = "collectDatabases ord u (ups_Databases actual) (desiredDatabases spec) ?orig (ord [''databases''] ?rel)"
  obtain r db1 l1 where c: "collectSchemas ord conn u (desiredDatabases spec) (ord [''schemas''] ?rel) ?orig ?m0 (db, []) = (r, db1, l1)"
    by (cases "collectSchemas ord conn u (desiredDatabases spec) (ord [''schemas''] ?rel) ?orig ?m0 (db, [])") auto
  obtain cur m where r: "r = Inr (cur, m)" using assms(1) a d c by (cases r) (auto simp: applyPrivileges_def Let_def)
  have l1: "list_all harmless l1" "stats_ok m" using collectSchemas_log [OF c collectDatabases_ok] r by auto
  let ?es = "map (\<lambda>n. (n, the (map_of m n))) (ord [''execute''] (map fst m))"
  have "set (ord [''execute''] (map fst m)) = set (map fst m)" using assms(2) by (metis set_mset_mset)
  then have "\<forall>x \<in> set ?es. x \<in> set m" using map_of_the by fastforce
  then have ok: "stats_ok ?es" using l1(2) unfolding stats_ok_def by blast
  obtain errs cur' db2 l2 where x: "execAll conn ?es cur (db1, l1) = (errs, cur', db2, l2)"
    by (cases "execAll conn ?es cur (db1, l1)") auto
  have e: "errs = []" and fin: "(if ?orig \<noteq> cur' then snd (switchDatabase conn ?orig (db2, l2)) else (db2, l2)) = (db', l)"
    using assms(1) a d c r x by (auto simp: applyPrivileges_def Let_def split: if_splits)
  obtain k where k: "l2 = l1 @ k" "list_all harmless k" using execAll_log [OF x [unfolded e] ok] by blast
  have "\<exists>k. l = l2 @ k \<and> list_all harmless k"
  proof (cases "?orig = cur'")
    case True
    then show ?thesis using fin by auto
  next
    case False
    then have "switchDatabase conn ?orig (db2, l2) = (fst (switchDatabase conn ?orig (db2, l2)), db', l)" using fin by (simp add: prod_eq_iff)
    from switch_log [OF this] show ?thesis .
  qed
  then show ?thesis using k l1(1) by auto
qed

section \<open>Examples\<close>

definition demoConn2 :: "string Conn" where
  "demoConn2 = \<lparr>cn_exec = (\<lambda>stmt db. (None, if hasPrefix stmt ''SET DATABASE TO '' then drop 16 stmt else db)),
     cn_query = (\<lambda>db. demoQuery), cn_names = (\<lambda>db. Inr [Inr ''dev'', Inr ''other'']), cn_current = (\<lambda>db. Inr ''dev'')\<rparr>"

theorem applyPrivileges_reports_failures_witness:
  "\<exists>db l. applyPrivileges (\<lambda>site xs. xs) demoConn2 ''alice'' (usr_Spec demoUser) (''dev'', []) = (None, db, l)
     \<and> length l = 7 \<and> list_all harmless l"
proof -
  let ?x = "applyPrivileges (\<lambda>site xs. xs) demoConn2 ''alice'' (usr_Spec demoUser) (''dev'', [])"
  have f: "fst ?x = None" "length (snd (snd ?x)) = 7" by code_simp+
  have "?x = (None, fst (snd ?x), snd (snd ?x))" using f(1) by (simp add: prod_eq_iff)
  from applyPrivileges_reports_failures [OF this] f show ?thesis by (metis prod.collapse)
qed

end
