(* ===== verification/Pool.thy ===== *)
theory Pool
  imports Prelude RwApi
begin

text \<open>
  \<^verbatim>\<open>pkg/rwclient/pool.go\<close>: the pool of database connections. A \<^verbatim>\<open>*sql.DB\<close> is a handle, a number; the state
  holds the pool, the number of handles opened so far and the handles that were closed. The driver is in
  the arguments: \<open>ping h\<close> is the error of a ping (None for an answer), \<open>openErr\<close> the error of opening a
  handle, \<open>now\<close> the time. Durations are in nanoseconds. Each method is one step.
\<close>

section \<open>The code\<close>

definition DefaultMaxOpenConns :: int where "DefaultMaxOpenConns = 5"
definition DefaultMaxIdleConns :: int where "DefaultMaxIdleConns = 2"
definition DefaultConnMaxLifetime :: int where "DefaultConnMaxLifetime = 10 * 60000000000"
definition DefaultConnMaxIdleTime :: int where "DefaultConnMaxIdleTime = 5 * 60000000000"
definition DefaultHealthCheckInterval :: int where "DefaultHealthCheckInterval = 30 * 1000000000"

record ConnectionKey =
  ck_Namespace :: string
  ck_Name :: string
  ck_UID :: string

definition ConnectionKey_String :: "ConnectionKey \<Rightarrow> string" where
  "ConnectionKey_String k = ck_Namespace k @ ''/'' @ ck_Name k @ ''/'' @ ck_UID k"

definition ConnectionKeyFrom :: "string \<Rightarrow> string \<Rightarrow> string \<Rightarrow> ConnectionKey" where
  "ConnectionKeyFrom namespace name uid = \<lparr>ck_Namespace = namespace, ck_Name = name, ck_UID = uid\<rparr>"

record ConnectionInfo =
  ci_Host :: string
  ci_Port :: int
  ci_Username :: string
  ci_Password :: string
  ci_Database :: string
  ci_SSLMode :: string

definition DefaultConnectionInfo :: "string \<Rightarrow> int \<Rightarrow> string \<Rightarrow> string \<Rightarrow> ConnectionInfo" where
  "DefaultConnectionInfo host port username password =
     \<lparr>ci_Host = host, ci_Port = port, ci_Username = username, ci_Password = password,
      ci_Database = ''dev'', ci_SSLMode = ''disable''\<rparr>"

definition DataSourceName :: "ConnectionInfo \<Rightarrow> string" where
  "DataSourceName c = ''host='' @ ci_Host c @ '' port='' @ showInt (ci_Port c) @ '' user='' @ ci_Username c @
     '' password='' @ ci_Password c @ '' dbname='' @ ci_Database c @ '' sslmode='' @ ci_SSLMode c"

type_synonym handle = nat

record PooledConnection =
  pcn_db :: handle
  pcn_connectionInfo :: ConnectionInfo
  pcn_lastUsed :: time

definition UpdateLastUsed :: "time \<Rightarrow> PooledConnection \<Rightarrow> PooledConnection" where
  "UpdateLastUsed now p = p\<lparr>pcn_lastUsed := now\<rparr>"

definition IsStale :: "time \<Rightarrow> PooledConnection \<Rightarrow> int \<Rightarrow> bool" where
  "IsStale now p idleTimeout \<longleftrightarrow> now - pcn_lastUsed p > idleTimeout"

record Pool =
  pool_connections :: "(ConnectionKey \<times> PooledConnection) list"
  pool_maxOpenConns :: int
  pool_maxIdleConns :: int
  pool_connMaxLifetime :: int
  pool_connMaxIdleTime :: int
  pool_idleConnectionTTL :: int
  pool_healthCheckInterval :: int
  pool_stopped :: bool

record PoolConfig =
  pcf_MaxOpenConns :: int
  pcf_MaxIdleConns :: int
  pcf_ConnMaxLifetime :: int
  pcf_ConnMaxIdleTime :: int
  pcf_IdleConnectionTTL :: int
  pcf_HealthCheckInterval :: int

definition DefaultPoolConfig :: PoolConfig where
  "DefaultPoolConfig = \<lparr>pcf_MaxOpenConns = DefaultMaxOpenConns, pcf_MaxIdleConns = DefaultMaxIdleConns,
     pcf_ConnMaxLifetime = DefaultConnMaxLifetime, pcf_ConnMaxIdleTime = DefaultConnMaxIdleTime,
     pcf_IdleConnectionTTL = 10 * 60000000000, pcf_HealthCheckInterval = DefaultHealthCheckInterval\<rparr>"

definition NewPool :: "PoolConfig option \<Rightarrow> Pool" where
  "NewPool config =
     (let c = (case config of None \<Rightarrow> DefaultPoolConfig | Some c \<Rightarrow> c) in
      \<lparr>pool_connections = [], pool_maxOpenConns = pcf_MaxOpenConns c, pool_maxIdleConns = pcf_MaxIdleConns c,
       pool_connMaxLifetime = pcf_ConnMaxLifetime c, pool_connMaxIdleTime = pcf_ConnMaxIdleTime c,
       pool_idleConnectionTTL = pcf_IdleConnectionTTL c, pool_healthCheckInterval = pcf_HealthCheckInterval c,
       pool_stopped = False\<rparr>)"

record PoolState =
  pst_pool :: Pool
  pst_next :: handle
  pst_closed :: "handle list"

abbreviation conns :: "PoolState \<Rightarrow> (ConnectionKey \<times> PooledConnection) list" where
  "conns s \<equiv> pool_connections (pst_pool s)"

definition setConns :: "(ConnectionKey \<times> PooledConnection) list \<Rightarrow> PoolState \<Rightarrow> PoolState" where
  "setConns m s = s\<lparr>pst_pool := (pst_pool s)\<lparr>pool_connections := m\<rparr>\<rparr>"

definition closeDB :: "handle \<Rightarrow> PoolState \<Rightarrow> PoolState" where
  "closeDB h s = s\<lparr>pst_closed := h # pst_closed s\<rparr>"

definition deleteKey :: "ConnectionKey \<Rightarrow> PoolState \<Rightarrow> PoolState" where
  "deleteKey key s = setConns (filter (\<lambda>(k, c). k \<noteq> key) (conns s)) s"

text \<open>The part of \<^verbatim>\<open>Get\<close> that opens a new connection.\<close>

definition openNew ::
  "(handle \<Rightarrow> string option) \<Rightarrow> string option \<Rightarrow> time \<Rightarrow> ConnectionKey \<Rightarrow> ConnectionInfo \<Rightarrow> PoolState
   \<Rightarrow> (string + handle) \<times> PoolState" where
  "openNew ping openErr now key connInfo s =
     (case openErr of
        Some e \<Rightarrow> (Inl (''failed to open database connection: '' @ e), s)
      | None \<Rightarrow>
          (let db = pst_next s; s1 = s\<lparr>pst_next := Suc db\<rparr> in
           case ping db of
             Some e \<Rightarrow> (Inl (''failed to ping database: '' @ e), closeDB db s1)
           | None \<Rightarrow> (Inr db, setConns (alUpdate key
               \<lparr>pcn_db = db, pcn_connectionInfo = connInfo, pcn_lastUsed = now\<rparr> (conns s1)) s1)))"

definition Pool_Get ::
  "(handle \<Rightarrow> string option) \<Rightarrow> string option \<Rightarrow> time \<Rightarrow> ConnectionKey \<Rightarrow> ConnectionInfo \<Rightarrow> PoolState
   \<Rightarrow> (string + handle) \<times> PoolState" where
  "Pool_Get ping openErr now key connInfo s =
     (case map_of (conns s) key of
        None \<Rightarrow> openNew ping openErr now key connInfo s
      | Some c \<Rightarrow>
          (let s1 = setConns (alUpdate key (UpdateLastUsed now c) (conns s)) s in
           if ping (pcn_db c) = None then (Inr (pcn_db c), s1)
           else openNew ping openErr now key connInfo (deleteKey key s1)))"

definition Pool_Remove :: "ConnectionKey \<Rightarrow> PoolState \<Rightarrow> PoolState" where
  "Pool_Remove key s =
     (case map_of (conns s) key of
        None \<Rightarrow> s
      | Some c \<Rightarrow> deleteKey key (closeDB (pcn_db c) s))"

text \<open>A range over the connections that deletes and closes the ones of a given kind.\<close>

definition dropConns :: "(PooledConnection \<Rightarrow> bool) \<Rightarrow> PoolState \<Rightarrow> PoolState" where
  "dropConns gone s =
     (let dead = filter (\<lambda>(k, c). gone c) (conns s) in
      setConns (filter (\<lambda>(k, c). \<not> gone c) (conns s)) (s\<lparr>pst_closed := map (pcn_db \<circ> snd) dead @ pst_closed s\<rparr>))"

definition Pool_Close :: "PoolState \<Rightarrow> PoolState" where
  "Pool_Close s =
     (if pool_stopped (pst_pool s) then s
      else dropConns (\<lambda>c. True) (s\<lparr>pst_pool := (pst_pool s)\<lparr>pool_stopped := True\<rparr>\<rparr>))"

definition healthCheck :: "(handle \<Rightarrow> string option) \<Rightarrow> PoolState \<Rightarrow> PoolState" where
  "healthCheck ping s = dropConns (\<lambda>c. ping (pcn_db c) \<noteq> None) s"

definition cleanupStaleConnections :: "time \<Rightarrow> PoolState \<Rightarrow> PoolState" where
  "cleanupStaleConnections now s = dropConns (\<lambda>c. IsStale now c (pool_idleConnectionTTL (pst_pool s))) s"

definition Pool_Size :: "PoolState \<Rightarrow> nat" where
  "Pool_Size s = length (conns s)"

text \<open>The life of a pool: the calls of its users, and the ticks of the health checker until it is stopped.\<close>

inductive pool_step :: "PoolState \<Rightarrow> PoolState \<Rightarrow> bool" where
  get: "Pool_Get ping openErr now key connInfo s = (r, s') \<Longrightarrow> pool_step s s'"
| remove: "pool_step s (Pool_Remove key s)"
| close: "pool_step s (Pool_Close s)"
| startHealthChecker: "\<not> pool_stopped (pst_pool s) \<Longrightarrow> pool_step s (cleanupStaleConnections now (healthCheck ping s))"

definition initPool :: "PoolConfig option \<Rightarrow> PoolState" where
  "initPool config = \<lparr>pst_pool = NewPool config, pst_next = 0, pst_closed = []\<rparr>"

section \<open>An interface for caches of handles\<close>

text \<open>
  What a client of a cache of handles needs to know: every step keeps the invariant, under which a cached
  handle is open and belongs to one key; closed handles stay closed; a handle that is not cached and not
  closed is lost, no step closes it any more.
\<close>

locale handle_cache =
  fixes cached :: "'s \<Rightarrow> 'k \<Rightarrow> 'h option"
    and opened :: "'s \<Rightarrow> 'h set"
    and closed :: "'s \<Rightarrow> 'h set"
    and invar :: "'s \<Rightarrow> bool"
    and step :: "'s \<Rightarrow> 's \<Rightarrow> bool"
  assumes cached_open: "\<lbrakk>invar s; cached s k = Some h\<rbrakk> \<Longrightarrow> h \<in> opened s - closed s"
    and cached_unshared: "\<lbrakk>invar s; cached s k = Some h; cached s k' = Some h\<rbrakk> \<Longrightarrow> k = k'"
    and step_invar: "\<lbrakk>invar s; step s t\<rbrakk> \<Longrightarrow> invar t"
    and step_closed: "\<lbrakk>invar s; step s t\<rbrakk> \<Longrightarrow> closed s \<subseteq> closed t"
    and step_lost: "\<lbrakk>invar s; step s t; h \<in> opened s - closed s; \<forall>k. cached s k \<noteq> Some h\<rbrakk>
        \<Longrightarrow> h \<in> opened t - closed t \<and> (\<forall>k. cached t k \<noteq> Some h)"
begin

definition lost :: "'s \<Rightarrow> 'h \<Rightarrow> bool" where
  "lost s h \<longleftrightarrow> h \<in> opened s - closed s \<and> (\<forall>k. cached s k \<noteq> Some h)"

lemma steps_invar: "step\<^sup>*\<^sup>* s t \<Longrightarrow> invar s \<Longrightarrow> invar t"
  by (induction rule: rtranclp_induct) (auto intro: step_invar)

lemma steps_closed: "step\<^sup>*\<^sup>* s t \<Longrightarrow> invar s \<Longrightarrow> closed s \<subseteq> closed t"
  by (induction rule: rtranclp_induct) (use step_closed steps_invar in blast)+

lemma steps_lost: "step\<^sup>*\<^sup>* s t \<Longrightarrow> invar s \<Longrightarrow> lost s h \<Longrightarrow> lost t h"
proof (induction rule: rtranclp_induct)
  case (step t u)
  then show ?case using steps_invar [OF step.hyps(1)] step_lost [of t u h] unfolding lost_def by blast
qed

end


section \<open>The invariant\<close>

definition dbs :: "PoolState \<Rightarrow> handle set" where
  "dbs s = {h. \<exists>k c. (k, c) \<in> set (conns s) \<and> pcn_db c = h}"

definition pool_inv :: "PoolState \<Rightarrow> bool" where
  "pool_inv s \<longleftrightarrow> distinct (map fst (conns s)) \<and> distinct (map (pcn_db \<circ> snd) (conns s))
     \<and> (\<forall>(k, c) \<in> set (conns s). pcn_db c < pst_next s \<and> pcn_db c \<notin> set (pst_closed s)) \<and> set (pst_closed s) \<subseteq> {..<pst_next s}"

text \<open>What a step may do to the handles: open new ones, close cached ones.\<close>

definition tame :: "PoolState \<Rightarrow> PoolState \<Rightarrow> bool" where
  "tame s t \<longleftrightarrow> set (pst_closed s) \<subseteq> set (pst_closed t) \<and> pst_next s \<le> pst_next t
     \<and> set (pst_closed t) \<subseteq> set (pst_closed s) \<union> dbs s \<union> {pst_next s..}
     \<and> dbs t \<subseteq> dbs s \<union> {pst_next s..}"

definition cachedDb :: "PoolState \<Rightarrow> ConnectionKey \<Rightarrow> handle option" where
  "cachedDb s k = map_option pcn_db (map_of (conns s) k)"

named_theorems pool_simps \<open>definitions of the elementary updates of the state\<close>

lemmas [pool_simps] = setConns_def closeDB_def deleteKey_def dbs_def

lemma distinct_filter: "distinct (map f xs) \<Longrightarrow> distinct (map f (filter P xs))"
  by (rule distinct_map_filter)

lemma cachedDb_dbs: "cachedDb s k = Some h \<Longrightarrow> h \<in> dbs s"
  by (force simp: cachedDb_def dbs_def dest: map_of_SomeD)

lemma dbs_cachedDb: "pool_inv s \<Longrightarrow> h \<in> dbs s \<Longrightarrow> \<exists>k. cachedDb s k = Some h"
proof -
  assume i: "pool_inv s" "h \<in> dbs s"
  then obtain k c where c: "(k, c) \<in> set (conns s)" "pcn_db c = h" by (auto simp: dbs_def)
  then have "map_of (conns s) k = Some c" using i(1) by (simp add: pool_inv_def)
  then show ?thesis using c(2) by (auto simp: cachedDb_def)
qed

lemma pool_inv_conn: "pool_inv s \<Longrightarrow> (k, c) \<in> set (conns s) \<Longrightarrow> pcn_db c < pst_next s \<and> pcn_db c \<notin> set (pst_closed s)"
  by (auto simp: pool_inv_def)

lemma dbs_alUpdate_same:
  "\<lbrakk>map_of m k = Some c; pcn_db c' = pcn_db c\<rbrakk> \<Longrightarrow> map (pcn_db \<circ> snd) (alUpdate k c' m) = map (pcn_db \<circ> snd) m"
  by (induction m) (auto split: if_splits)

lemma keys_alUpdate_same: "map_of m k = Some c \<Longrightarrow> map fst (alUpdate k c' m) = map fst m"
  by (induction m) (auto split: if_splits)

lemma dropConns_inv:
  assumes "pool_inv s"
  shows "pool_inv (dropConns gone s) \<and> tame s (dropConns gone s)"
proof -
  have d: "distinct (map (pcn_db \<circ> snd) (conns s))" using assms by (simp add: pool_inv_def)
  have "pcn_db c \<noteq> pcn_db c'" if "(k, c) \<in> set (conns s)" "(k', c') \<in> set (conns s)" "gone c" "\<not> gone c'" for k c k' c'
    using d that unfolding distinct_map inj_on_def by fastforce
  then show ?thesis using assms unfolding pool_inv_def tame_def dropConns_def Let_def
    by (auto simp: pool_simps distinct_filter) (blast | metis)+
qed

lemma pool_inv_alt:
  "pool_inv s \<longleftrightarrow> distinct (map fst (conns s)) \<and> distinct (map (pcn_db \<circ> snd) (conns s))
     \<and> dbs s \<subseteq> {..<pst_next s} - set (pst_closed s) \<and> set (pst_closed s) \<subseteq> {..<pst_next s}"
  unfolding pool_inv_def dbs_def by blast

lemma touch_inv:
  fixes now :: time
  assumes "pool_inv s" "map_of (conns s) key = Some c"
  defines "t \<equiv> setConns (alUpdate key (UpdateLastUsed now c) (conns s)) s"
  shows "pool_inv t \<and> tame s t \<and> dbs t = dbs s \<and> map fst (conns t) = map fst (conns s)"
proof -
  have m: "map (pcn_db \<circ> snd) (conns t) = map (pcn_db \<circ> snd) (conns s)" "map fst (conns t) = map fst (conns s)"
    unfolding t_def using dbs_alUpdate_same [OF assms(2)] keys_alUpdate_same [OF assms(2)]
    by (simp_all add: setConns_def UpdateLastUsed_def)
  have e: "dbs t = dbs s" using arg_cong [OF m(1), of set] unfolding dbs_def by force
  have "pst_next t = pst_next s" "pst_closed t = pst_closed s" by (simp_all add: t_def setConns_def)
  then show ?thesis using assms(1) m e unfolding pool_inv_alt tame_def by auto
qed

lemma deleteKey_inv:
  assumes "pool_inv s"
  shows "pool_inv (deleteKey key s) \<and> tame s (deleteKey key s)"
  using assms by (auto simp: pool_inv_def tame_def pool_simps distinct_filter)

lemma openNew_cases:
  assumes "key \<notin> fst ` set (conns s)" "openNew ping openErr now key connInfo s = (r, t)"
  obtains e where "r = Inl e" "t = s"
  | e where "r = Inl e" "t = closeDB (pst_next s) (s\<lparr>pst_next := Suc (pst_next s)\<rparr>)"
  | "r = Inr (pst_next s)" "ping (pst_next s) = None"
    "t = setConns (conns s @ [(key, \<lparr>pcn_db = pst_next s, pcn_connectionInfo = connInfo, pcn_lastUsed = now\<rparr>)])
       (s\<lparr>pst_next := Suc (pst_next s)\<rparr>)"
proof (cases openErr)
  case (Some e)
  then have "r = Inl (''failed to open database connection: '' @ e)" "t = s" using assms(2) by (simp_all add: openNew_def)
  then show ?thesis by (rule that(1))
next
  case o: None
  show ?thesis
  proof (cases "ping (pst_next s)")
    case None
    then show ?thesis using o assms that(3) by (simp add: openNew_def Let_def alUpdate_fresh)
  next
    case (Some e)
    then have "r = Inl (''failed to ping database: '' @ e)" "t = closeDB (pst_next s) (s\<lparr>pst_next := Suc (pst_next s)\<rparr>)"
      using o assms(2) by (simp_all add: openNew_def Let_def)
    then show ?thesis by (rule that(2))
  qed
qed

lemma dbs_simps [simp]:
  "dbs (closeDB h s) = dbs s" "dbs (s\<lparr>pst_next := n\<rparr>) = dbs s" "dbs (setConns (m @ m') s) = dbs (setConns m s) \<union> dbs (setConns m' s)"
  "dbs (setConns (conns s) s) = dbs s" "dbs (setConns [(k, c)] s) = {pcn_db c}" "dbs (setConns m (s\<lparr>pst_next := n\<rparr>)) = dbs (setConns m s)"
  by (auto simp: dbs_def closeDB_def setConns_def)

lemma openNew_inv:
  assumes i: "pool_inv s" and k: "key \<notin> fst ` set (conns s)" and o: "openNew ping openErr now key connInfo s = (r, t)"
  shows "pool_inv t \<and> tame s t"
proof (rule openNew_cases [OF k o])
  fix e
  assume "t = s"
  then show ?thesis using i by (auto simp: tame_def)
next
  fix e
  assume t: "t = closeDB (pst_next s) (s\<lparr>pst_next := Suc (pst_next s)\<rparr>)"
  have "dbs t = dbs s" by (simp add: t)
  then show ?thesis using i unfolding pool_inv_alt tame_def by (auto simp: t closeDB_def)
next
  assume t: "t = setConns (conns s @ [(key, \<lparr>pcn_db = pst_next s, pcn_connectionInfo = connInfo, pcn_lastUsed = now\<rparr>)])
       (s\<lparr>pst_next := Suc (pst_next s)\<rparr>)"
  have d: "dbs t = insert (pst_next s) (dbs s)" by (auto simp: t)
  have "set (map (pcn_db \<circ> snd) (conns s)) = dbs s" by (force simp: dbs_def)
  then have "pst_next s \<notin> set (map (pcn_db \<circ> snd) (conns s))" using i unfolding pool_inv_alt by auto
  then show ?thesis using i k d unfolding pool_inv_alt tame_def by (auto simp: t setConns_def)
qed

lemma tame_trans:
  assumes "tame s t" "tame t u"
  shows "tame s u"
  using assms unfolding tame_def by auto

lemma fst_deleteKey: "key \<notin> fst ` set (conns (deleteKey key s))"
  by (auto simp: pool_simps)

lemma Pool_Get_cached:
  assumes "map_of (conns s) key = Some c"
  shows "ping (pcn_db c) = None \<Longrightarrow> Pool_Get ping openErr now key connInfo s =
      (Inr (pcn_db c), setConns (alUpdate key (UpdateLastUsed now c) (conns s)) s)"
    and "ping (pcn_db c) \<noteq> None \<Longrightarrow> Pool_Get ping openErr now key connInfo s =
      openNew ping openErr now key connInfo (deleteKey key (setConns (alUpdate key (UpdateLastUsed now c) (conns s)) s))"
  using assms by (auto simp: Pool_Get_def Let_def)

lemma Pool_Get_inv:
  assumes "pool_inv s" "Pool_Get ping openErr now key connInfo s = (r, t)"
  shows "pool_inv t \<and> tame s t"
proof (cases "map_of (conns s) key")
  case None
  then have "key \<notin> fst ` set (conns s)" by (simp add: map_of_eq_None_iff)
  then show ?thesis using openNew_inv assms None by (simp add: Pool_Get_def)
next
  case (Some c)
  let ?s1 = "setConns (alUpdate key (UpdateLastUsed now c) (conns s)) s"
  have s1: "pool_inv ?s1" "tame s ?s1" using touch_inv [OF assms(1) Some] by blast+
  show ?thesis
  proof (cases "ping (pcn_db c) = None")
    case True
    then have "t = ?s1" using assms(2) Some by (simp add: Pool_Get_def Let_def)
    then show ?thesis using s1 by simp
  next
    case False
    then have "openNew ping openErr now key connInfo (deleteKey key ?s1) = (r, t)"
      using assms(2) Pool_Get_cached(2) [OF Some] by metis
    from openNew_inv [OF _ fst_deleteKey this] have "pool_inv t" "tame (deleteKey key ?s1) t" using deleteKey_inv [OF s1(1)] by blast+
    moreover have "tame ?s1 (deleteKey key ?s1)" using deleteKey_inv [OF s1(1)] by blast
    ultimately show ?thesis using tame_trans [OF tame_trans [OF s1(2)]] by blast
  qed
qed

lemma Pool_Remove_inv:
  assumes "pool_inv s"
  shows "pool_inv (Pool_Remove key s) \<and> tame s (Pool_Remove key s)"
proof (cases "map_of (conns s) key")
  case None
  then show ?thesis using assms by (auto simp: Pool_Remove_def tame_def)
next
  case (Some c)
  have d: "distinct (map fst (conns s))" "distinct (map (pcn_db \<circ> snd) (conns s))" using assms by (simp_all add: pool_inv_def)
  have m: "(key, c) \<in> set (conns s)" using Some by (rule map_of_SomeD)
  have other: "pcn_db c' \<noteq> pcn_db c" if "(k', c') \<in> set (conns s)" "k' \<noteq> key" for k' c'
    using d(2) m that unfolding distinct_map inj_on_def by fastforce
  show ?thesis using assms Some m other pool_inv_conn [OF assms] unfolding pool_inv_def tame_def Pool_Remove_def
    by (auto simp: pool_simps distinct_filter)
qed

lemma pool_step_inv:
  assumes "pool_step s t" "pool_inv s"
  shows "pool_inv t \<and> tame s t"
  using assms
proof (induction rule: pool_step.induct)
  case (get ping openErr now key connInfo s r s')
  then show ?case using Pool_Get_inv by blast
next
  case (remove s key)
  then show ?case by (rule Pool_Remove_inv)
next
  case (close s)
  let ?s0 = "s\<lparr>pst_pool := (pst_pool s)\<lparr>pool_stopped := True\<rparr>\<rparr>"
  have "pool_inv ?s0" "tame ?s0 u = tame s u" for u using close by (simp_all add: pool_inv_def tame_def dbs_def)
  then show ?case using dropConns_inv [of ?s0 "\<lambda>c. True"] close by (auto simp: Pool_Close_def tame_def)
next
  case (startHealthChecker s now ping)
  have "pool_inv (healthCheck ping s) \<and> tame s (healthCheck ping s)"
    using dropConns_inv [OF startHealthChecker(2)] by (simp add: healthCheck_def)
  moreover from this have "pool_inv (cleanupStaleConnections now (healthCheck ping s))
      \<and> tame (healthCheck ping s) (cleanupStaleConnections now (healthCheck ping s))"
    using dropConns_inv by (simp add: cleanupStaleConnections_def)
  ultimately show ?case using tame_trans by blast
qed

interpretation pool: handle_cache cachedDb "\<lambda>s. {..<pst_next s}" "\<lambda>s. set (pst_closed s)" pool_inv pool_step
proof
  fix s k h
  assume i: "pool_inv s" "cachedDb s k = Some h"
  then show "h \<in> {..<pst_next s} - set (pst_closed s)" using cachedDb_dbs [OF i(2)] by (auto simp: pool_inv_def dbs_def)
next
  fix s k k' h
  assume i: "pool_inv s" "cachedDb s k = Some h" "cachedDb s k' = Some h"
  then obtain c c' where c: "(k, c) \<in> set (conns s)" "(k', c') \<in> set (conns s)" "pcn_db c = h" "pcn_db c' = h"
    by (auto simp: cachedDb_def dest: map_of_SomeD)
  have "inj_on (pcn_db \<circ> snd) (set (conns s))" using i(1) by (simp add: pool_inv_def distinct_map)
  then show "k = k'" using c unfolding inj_on_def by fastforce
next
  fix s t h
  assume i: "pool_inv s" "pool_step s t"
  then show "pool_inv t" "set (pst_closed s) \<subseteq> set (pst_closed t)" using pool_step_inv by (auto simp: tame_def)
  assume h: "h \<in> {..<pst_next s} - set (pst_closed s)" "\<forall>k. cachedDb s k \<noteq> Some h"
  have "h \<notin> dbs s" using h(2) dbs_cachedDb [OF i(1)] by blast
  then have "h \<notin> dbs t" "h \<in> {..<pst_next t} - set (pst_closed t)"
    using pool_step_inv [OF i(2,1)] h(1) unfolding tame_def by auto
  then show "h \<in> {..<pst_next t} - set (pst_closed t) \<and> (\<forall>k. cachedDb t k \<noteq> Some h)" using cachedDb_dbs by blast
qed

lemma initPool_inv: "pool_inv (initPool config)"
  by (simp add: pool_inv_def initPool_def NewPool_def dbs_def Let_def)

lemma openNew_spec:
  assumes "key \<notin> fst ` set (conns s)" "openNew ping openErr now key connInfo s = (r, t)"
  shows "(case r of
      Inr h \<Rightarrow> h = pst_next s \<and> ping h = None \<and> map_of (conns t) key = Some \<lparr>pcn_db = h, pcn_connectionInfo = connInfo, pcn_lastUsed = now\<rparr>
    | Inl e \<Rightarrow> map_of (conns t) key = None \<and> {pst_next s..<pst_next t} \<subseteq> set (pst_closed t))
    \<and> (\<forall>k. k \<noteq> key \<longrightarrow> map_of (conns t) k = map_of (conns s) k)"
proof -
  have n: "map_of (conns s) key = None" using assms(1) by (simp add: map_of_eq_None_iff)
  show ?thesis
    by (rule openNew_cases [OF assms]) (use n in \<open>auto simp: setConns_def closeDB_def map_add_def split: option.split\<close>)
qed

lemma map_of_deleteKey: "map_of (conns (deleteKey key s)) k = (if k = key then None else map_of (conns s) k)"
proof -
  have "map_of (filter (\<lambda>(k, c). k \<noteq> key) m) k = (if k = key then None else map_of m k)" for m :: "(ConnectionKey \<times> PooledConnection) list"
    by (induction m) auto
  then show ?thesis by (simp add: pool_simps)
qed

section \<open>Properties\<close>


text \<open>\<^verbatim>\<open>Get\<close>: a connection is returned only after a ping that was answered, it is then the cached one of the key
  and used now; a cached connection that answers is returned whatever the connection information says, another
  one is opened with it; after an error nothing is cached for the key and what was opened is closed. Other keys are untouched.\<close>
theorem Pool_Get_spec:
  assumes "Pool_Get ping openErr now key connInfo s = (r, t)"
  shows "(\<forall>h. r = Inr h \<longrightarrow> ping h = None \<and> (\<exists>c. map_of (conns t) key = Some c \<and> pcn_db c = h \<and> pcn_lastUsed c = now
        \<and> (if map_option (ping \<circ> pcn_db) (map_of (conns s) key) = Some None then map_option pcn_db (map_of (conns s) key) = Some h
           else pcn_connectionInfo c = connInfo \<and> h = pst_next s)))
    \<and> (\<forall>e. r = Inl e \<longrightarrow> map_of (conns t) key = None \<and> {pst_next s..<pst_next t} \<subseteq> set (pst_closed t))
    \<and> (\<forall>k. k \<noteq> key \<longrightarrow> map_of (conns t) k = map_of (conns s) k)"
proof (cases "map_of (conns s) key")
  case None
  then have k: "key \<notin> fst ` set (conns s)" by (simp add: map_of_eq_None_iff)
  have o: "openNew ping openErr now key connInfo s = (r, t)" using assms None by (simp add: Pool_Get_def)
  show ?thesis using openNew_spec [OF k o] None by (cases r) simp_all
next
  case (Some c)
  let ?s1 = "setConns (alUpdate key (UpdateLastUsed now c) (conns s)) s"
  show ?thesis
  proof (cases "ping (pcn_db c) = None")
    case True
    then have "r = Inr (pcn_db c)" "t = ?s1" using assms Some by (simp_all add: Pool_Get_def Let_def)
    then show ?thesis using Some True by (simp add: setConns_def UpdateLastUsed_def)
  next
    case False
    then have o: "openNew ping openErr now key connInfo (deleteKey key ?s1) = (r, t)"
      using assms Pool_Get_cached(2) [OF Some] by metis
    have n: "pst_next (deleteKey key ?s1) = pst_next s" by (simp add: pool_simps)
    have m: "k \<noteq> key \<Longrightarrow> map_of (conns (deleteKey key ?s1)) k = map_of (conns s) k" for k
      unfolding map_of_deleteKey by (simp add: setConns_def)
    have f: "(map_option (ping \<circ> pcn_db) (map_of (conns s) key) = Some None) = False" using Some False by simp
    show ?thesis using openNew_spec [OF fst_deleteKey o] m unfolding f n by (cases r) auto
  qed
qed

text \<open>A dead connection that \<^verbatim>\<open>Get\<close> replaces is leaked: it is neither cached nor closed afterwards, and no later call
  closes it.\<close>
theorem Pool_Get_leaks:
  assumes "pool_step\<^sup>*\<^sup>* (initPool config) s" "map_of (conns s) key = Some c" "ping (pcn_db c) \<noteq> None"
    and "Pool_Get ping openErr now key connInfo s = (r, t)" "pool_step\<^sup>*\<^sup>* t u"
  shows "pcn_db c < pst_next u \<and> pcn_db c \<notin> set (pst_closed u) \<and> (\<forall>k c'. map_of (conns u) k = Some c' \<longrightarrow> pcn_db c' \<noteq> pcn_db c)"
proof -
  let ?h = "pcn_db c"
  have i: "pool_inv s" using pool.steps_invar [OF assms(1) initPool_inv] .
  have c: "cachedDb s key = Some ?h" using assms(2) by (simp add: cachedDb_def)
  have o: "?h < pst_next s" "?h \<notin> set (pst_closed s)" using pool.cached_open [OF i c] by auto
  let ?s1 = "setConns (alUpdate key (UpdateLastUsed now c) (conns s)) s"
  let ?s2 = "deleteKey key ?s1"
  have i2: "pool_inv ?s2" using deleteKey_inv touch_inv [OF i assms(2)] by blast
  have "cachedDb ?s2 k \<noteq> Some ?h" for k
  proof
    assume a: "cachedDb ?s2 k = Some ?h"
    then have "k \<noteq> key" "cachedDb s k = Some ?h" by (auto simp: cachedDb_def map_of_deleteKey setConns_def split: if_splits)
    then show False using pool.cached_unshared [OF i _ c] by blast
  qed
  then have "?h \<notin> dbs ?s2" using dbs_cachedDb [OF i2] by blast
  moreover have "openNew ping openErr now key connInfo ?s2 = (r, t)" using assms(4) Pool_Get_cached(2) [where ping = ping, OF assms(2) assms(3)] by metis
  then have t: "pool_inv t" "tame ?s2 t" using openNew_inv [OF i2 fst_deleteKey] by blast+
  moreover have "pst_next ?s2 = pst_next s" "pst_closed ?s2 = pst_closed s" by (simp_all add: pool_simps)
  ultimately have "?h \<notin> dbs t" "?h < pst_next t" "?h \<notin> set (pst_closed t)" using o unfolding tame_def by auto
  then have "pool.lost t ?h" unfolding pool.lost_def using cachedDb_dbs by auto
  from pool.steps_lost [OF assms(5) t(1) this] show ?thesis unfolding pool.lost_def by (auto simp: cachedDb_def)
qed

text \<open>The values of a data source name are not quoted: different connection information can give the same name,
  so that a user name or password with a blank changes other parameters of the connection.\<close>
theorem DataSourceName_ambiguous:
  "\<exists>c c'. ci_Password c \<noteq> ci_Password c' \<and> ci_Username c \<noteq> ci_Username c' \<and> DataSourceName c = DataSourceName c'"
proof (intro exI conjI)
  let ?c = "DefaultConnectionInfo ''h'' 4567 ''u'' ''p password=q''"
  let ?c' = "DefaultConnectionInfo ''h'' 4567 ''u password=p'' ''q''"
  show "ci_Password ?c \<noteq> ci_Password ?c'" "ci_Username ?c \<noteq> ci_Username ?c'" "DataSourceName ?c = DataSourceName ?c'"
    by (simp_all add: DefaultConnectionInfo_def DataSourceName_def)
qed

section \<open>Examples\<close>

definition demoKey :: ConnectionKey where
  "demoKey = ConnectionKeyFrom ''ns'' ''rw'' ''uid-1''"

definition demoInfo :: ConnectionInfo where
  "demoInfo = DefaultConnectionInfo ''rw-frontend.ns.svc.cluster.local'' 4567 ''root'' []"

definition demoPool :: PoolState where
  "demoPool = snd (Pool_Get (\<lambda>_. None) None 1 demoKey demoInfo (initPool None))"

definition demoConn :: PooledConnection where
  "demoConn = \<lparr>pcn_db = 0, pcn_connectionInfo = demoInfo, pcn_lastUsed = 1\<rparr>"

lemma demoPool_reachable: "pool_step\<^sup>*\<^sup>* (initPool None) demoPool"
  unfolding demoPool_def by (rule r_into_rtranclp, rule pool_step.get [OF prod.collapse [symmetric]])

lemma demoPool_conn: "map_of (conns demoPool) demoKey = Some demoConn"
  by code_simp


theorem Pool_Get_spec_witness:
  "map_of (conns demoPool) demoKey \<noteq> None \<and> fst (Pool_Get (\<lambda>_. None) None 1 demoKey demoInfo (initPool None)) = Inr 0"
proof -
  have e: "Pool_Get (\<lambda>_. None) None 1 demoKey demoInfo (initPool None) = (Inr 0, demoPool)" by code_simp
  from Pool_Get_spec [OF e] show ?thesis unfolding e by auto
qed

theorem Pool_Get_leaks_witness:
  "\<exists>t. Pool_Get (\<lambda>h. if h = 0 then Some ''EOF'' else None) None 2 demoKey demoInfo demoPool = (Inr 1, t)
     \<and> 0 \<notin> set (pst_closed t)"
proof -
  let ?ping = "\<lambda>h. if h = 0 then Some ''EOF'' else None"
  obtain r t where g: "Pool_Get ?ping None 2 demoKey demoInfo demoPool = (r, t)" by (cases "Pool_Get ?ping None 2 demoKey demoInfo demoPool")
  have f: "fst (Pool_Get ?ping None 2 demoKey demoInfo demoPool) = Inr 1" by code_simp
  have z: "pcn_db demoConn = 0" by (simp add: demoConn_def)
  have p: "?ping (pcn_db demoConn) \<noteq> None" by (simp add: z)
  from Pool_Get_leaks [OF demoPool_reachable demoPool_conn p g rtranclp.rtrancl_refl] g f show ?thesis unfolding z by auto
qed

end
