(* ===== verification/Password.thy ===== *)
theory Password
  imports Prelude "HOL-Library.Multiset"
begin

text \<open>
  \<^verbatim>\<open>pkg/utils/password.go\<close>: random passwords. The system's source of randomness is the argument \<open>rnd\<close>: the
  \<open>k\<close>-th call with the bound \<open>m\<close> gives a number or fails; \<open>k\<close> counts the calls. Go's slices are indexed by
  the numbers it returns, so an index outside of the slice panics; \<open>rnd_ok\<close> is the documented range of
  \<^verbatim>\<open>crypto/rand.Int\<close>.
\<close>

section \<open>The code\<close>

type_synonym random = "nat \<Rightarrow> nat \<Rightarrow> nat option"

definition DefaultPasswordLength :: int where "DefaultPasswordLength = 16"
definition lowercaseLetters :: string where "lowercaseLetters = ''abcdefghijklmnopqrstuvwxyz''"
definition uppercaseLetters :: string where "uppercaseLetters = ''ABCDEFGHIJKLMNOPQRSTUVWXYZ''"
definition digits :: string where "digits = ''0123456789''"
definition specialChars :: string where "specialChars = ''!@#$%^&*()_+-=[]{}|;:,.<>?''"
definition allChars :: string where "allChars = lowercaseLetters @ uppercaseLetters @ digits @ specialChars"

definition randInt :: "random \<Rightarrow> nat \<Rightarrow> nat \<Rightarrow> nat option" where
  "randInt rnd k m = rnd k m"

text \<open>One character of a set, nothing when the randomness fails.\<close>

definition addOne :: "random \<Rightarrow> nat \<Rightarrow> string \<Rightarrow> string \<Rightarrow> string outcome" where
  "addOne rnd k cs password =
     (case randInt rnd k (length cs) of
        None \<Rightarrow> Returns password
      | Some idx \<Rightarrow> if idx < length cs then Returns (password @ [cs ! idx]) else Panics ''index out of range'')"

text \<open>The loop that fills up the rest: \<open>n\<close> iterations.\<close>

fun fillRest :: "random \<Rightarrow> nat \<Rightarrow> nat \<Rightarrow> string \<Rightarrow> string outcome" where
  "fillRest rnd k 0 password = Returns password"
| "fillRest rnd k (Suc n) password =
     (case addOne rnd k allChars password of
        Panics m \<Rightarrow> Panics m
      | Returns p \<Rightarrow> fillRest rnd (Suc k) n p)"

definition swap :: "'a list \<Rightarrow> nat \<Rightarrow> nat \<Rightarrow> 'a list" where
  "swap xs i j = xs[i := xs ! j, j := xs ! i]"

text \<open>The loop of \<^verbatim>\<open>shuffleBytes\<close> from index \<open>i\<close> down to 1.\<close>

fun shuffleFrom :: "random \<Rightarrow> nat \<Rightarrow> nat \<Rightarrow> string \<Rightarrow> string outcome" where
  "shuffleFrom rnd k 0 xs = Returns xs"
| "shuffleFrom rnd k (Suc i) xs =
     (case randInt rnd k (Suc (Suc i)) of
        None \<Rightarrow> shuffleFrom rnd (Suc k) i xs
      | Some j \<Rightarrow> if j < length xs then shuffleFrom rnd (Suc k) i (swap xs (Suc i) j) else Panics ''index out of range'')"

definition shuffleBytes :: "random \<Rightarrow> nat \<Rightarrow> string \<Rightarrow> string outcome" where
  "shuffleBytes rnd k xs = shuffleFrom rnd k (length xs - 1) xs"

definition GenerateRandomPassword :: "random \<Rightarrow> int \<Rightarrow> string outcome" where
  "GenerateRandomPassword rnd len =
     (let len' = nat (if len < 8 then DefaultPasswordLength else len) in
      case addOne rnd 0 lowercaseLetters [] of Panics m \<Rightarrow> Panics m | Returns p1 \<Rightarrow>
      (case addOne rnd 1 uppercaseLetters p1 of Panics m \<Rightarrow> Panics m | Returns p2 \<Rightarrow>
      (case addOne rnd 2 digits p2 of Panics m \<Rightarrow> Panics m | Returns p3 \<Rightarrow>
      (case addOne rnd 3 specialChars p3 of Panics m \<Rightarrow> Panics m | Returns p4 \<Rightarrow>
      (case fillRest rnd 4 (len' - length p4) p4 of Panics m \<Rightarrow> Panics m | Returns p5 \<Rightarrow>
         shuffleBytes rnd (4 + (len' - length p4)) p5)))))"

section \<open>Lemmas\<close>

definition rnd_ok :: "random \<Rightarrow> bool" where
  "rnd_ok rnd \<longleftrightarrow> (\<forall>k m r. rnd k m = Some r \<longrightarrow> r < m)"

definition rnd_total :: "random \<Rightarrow> bool" where
  "rnd_total rnd \<longleftrightarrow> (\<forall>k m. 0 < m \<longrightarrow> rnd k m \<noteq> None)"

lemma addOne_returns:
  assumes "rnd_ok rnd"
  obtains "randInt rnd k (length cs) = None" "addOne rnd k cs p = Returns p"
  | c where "c \<in> set cs" "addOne rnd k cs p = Returns (p @ [c])"
proof (cases "rnd k (length cs)")
  case None
  then show ?thesis using that(1) by (simp add: addOne_def randInt_def)
next
  case (Some i)
  then have "i < length cs" using assms by (simp add: rnd_ok_def)
  then show ?thesis using that(2) [of "cs ! i"] Some by (simp add: addOne_def randInt_def)
qed

lemma addOne_succeeds:
  assumes "rnd_ok rnd" "rnd_total rnd" "cs \<noteq> []"
  shows "\<exists>c \<in> set cs. addOne rnd k cs p = Returns (p @ [c])"
proof -
  have "rnd k (length cs) \<noteq> None" using assms(2,3) by (simp add: rnd_total_def)
  then have n: "randInt rnd k (length cs) \<noteq> None" by (simp add: randInt_def)
  show ?thesis by (rule addOne_returns [OF assms(1), of k cs p]) (use n in blast)+
qed

lemma mset_swap: "\<lbrakk>i < length xs; j < length xs\<rbrakk> \<Longrightarrow> mset (swap xs i j) = mset xs"
  unfolding swap_def using mset_swap by blast

lemma shuffleFrom_mset:
  assumes "rnd_ok rnd"
  shows "i < length xs \<Longrightarrow> \<exists>ys. shuffleFrom rnd k i xs = Returns ys \<and> mset ys = mset xs"
proof (induction i arbitrary: k xs)
  case (Suc i)
  show ?case
  proof (cases "rnd k (Suc (Suc i))")
    case None
    then show ?thesis using Suc by (simp add: randInt_def)
  next
    case (Some j)
    then have j: "j < length xs" using assms Suc.prems unfolding rnd_ok_def by fastforce
    have "\<exists>ys. shuffleFrom rnd (Suc k) i (swap xs (Suc i) j) = Returns ys \<and> mset ys = mset (swap xs (Suc i) j)"
      by (rule Suc.IH) (use Suc.prems in \<open>simp add: swap_def\<close>)
    then show ?thesis using Some j mset_swap [OF Suc.prems j] by (simp add: randInt_def)
  qed
qed simp

lemma shuffleBytes_mset:
  assumes "rnd_ok rnd"
  shows "\<exists>ys. shuffleBytes rnd k xs = Returns ys \<and> mset ys = mset xs"
  using shuffleFrom_mset [OF assms, of "length xs - 1" xs k] unfolding shuffleBytes_def by (cases xs) simp_all

lemma fillRest_spec:
  assumes "rnd_ok rnd"
  shows "\<exists>q. fillRest rnd k n p = Returns (p @ q) \<and> set q \<subseteq> set allChars \<and> length q \<le> n
    \<and> (rnd_total rnd \<longrightarrow> length q = n)"
proof (induction n arbitrary: k p)
  case (Suc n)
  show ?case
  proof (rule addOne_returns [OF assms, of k allChars p])
    assume a: "randInt rnd k (length allChars) = None" "addOne rnd k allChars p = Returns p"
    obtain q where "fillRest rnd (Suc k) n p = Returns (p @ q)" "set q \<subseteq> set allChars" "length q \<le> n"
      using Suc.IH by blast
    then show ?thesis using a by (intro exI [of _ q]) (auto simp: randInt_def rnd_total_def allChars_def lowercaseLetters_def)
  next
    fix c
    assume a: "c \<in> set allChars" "addOne rnd k allChars p = Returns (p @ [c])"
    obtain q where "fillRest rnd (Suc k) n (p @ [c]) = Returns ((p @ [c]) @ q)" "set q \<subseteq> set allChars" "length q \<le> n"
      "rnd_total rnd \<longrightarrow> length q = n" using Suc.IH by blast
    then show ?thesis using a by (intro exI [of _ "c # q"]) auto
  qed
qed simp

lemma length_four: "length [a, b, c, d] = 4"
  by simp

section \<open>Properties\<close>

text \<open>A password is generated without a panic. When the randomness does not fail it has the requested length (16
  when less than 8 is asked for) and at least one lower-case letter, upper-case letter, digit and
  special character, and it consists of these.\<close>
theorem GenerateRandomPassword_spec:
  assumes "rnd_ok rnd" "rnd_total rnd"
  shows "\<exists>p. GenerateRandomPassword rnd len = Returns p
    \<and> int (length p) = (if len < 8 then 16 else len)
    \<and> set p \<subseteq> set allChars
    \<and> set p \<inter> set lowercaseLetters \<noteq> {} \<and> set p \<inter> set uppercaseLetters \<noteq> {}
    \<and> set p \<inter> set digits \<noteq> {} \<and> set p \<inter> set specialChars \<noteq> {}"
proof -
  let ?n = "nat (if len < 8 then DefaultPasswordLength else len)"
  note one = addOne_succeeds [OF assms]
  note ne = lowercaseLetters_def uppercaseLetters_def digits_def specialChars_def
  obtain a where a: "a \<in> set lowercaseLetters" "addOne rnd 0 lowercaseLetters [] = Returns [a]"
    using one [of lowercaseLetters 0 "[]"] by (auto simp: ne [THEN arg_cong [of _ _ "\<lambda>x. x = []"]])
  obtain b where b: "b \<in> set uppercaseLetters" "addOne rnd 1 uppercaseLetters [a] = Returns [a, b]"
    using one [of uppercaseLetters 1 "[a]"] by (auto simp: ne [THEN arg_cong [of _ _ "\<lambda>x. x = []"]])
  obtain c where c: "c \<in> set digits" "addOne rnd 2 digits [a, b] = Returns [a, b, c]"
    using one [of digits 2 "[a, b]"] by (auto simp: ne [THEN arg_cong [of _ _ "\<lambda>x. x = []"]])
  obtain d where d: "d \<in> set specialChars" "addOne rnd 3 specialChars [a, b, c] = Returns [a, b, c, d]"
    using one [of specialChars 3 "[a, b, c]"] by (auto simp: ne [THEN arg_cong [of _ _ "\<lambda>x. x = []"]])
  obtain q where q: "fillRest rnd 4 (?n - 4) [a, b, c, d] = Returns ([a, b, c, d] @ q)" "set q \<subseteq> set allChars" "length q = ?n - 4"
    using fillRest_spec [OF assms(1), of 4 "?n - 4" "[a, b, c, d]"] assms(2) by blast
  obtain p where p: "shuffleBytes rnd (4 + (?n - 4)) ([a, b, c, d] @ q) = Returns p" "mset p = mset ([a, b, c, d] @ q)"
    using shuffleBytes_mset [OF assms(1)] by blast
  have r: "GenerateRandomPassword rnd len = Returns p"
    unfolding GenerateRandomPassword_def Let_def using a(2) b(2) c(2) d(2) q(1) p(1)
    by (simp only: outcome.case length_four)
  have sp: "set p = insert a (insert b (insert c (insert d (set q))))" using arg_cong [OF p(2), of set_mset] by simp
  have lp: "length p = 4 + length q" using arg_cong [OF p(2), of size] by simp
  have "{a, b, c, d} \<subseteq> set allChars" using a(1) b(1) c(1) d(1) by (simp add: allChars_def)
  moreover have "int (length p) = (if len < 8 then 16 else len)" using lp q(3) by (simp add: DefaultPasswordLength_def)
  ultimately show ?thesis using r sp q(2) a(1) b(1) c(1) d(1) by blast
qed

text \<open>Failures of the randomness are swallowed: in the worst case the password is empty.\<close>
theorem GenerateRandomPassword_swallows_failures:
  "GenerateRandomPassword (\<lambda>k m. None) len = Returns []"
proof -
  have "fillRest (\<lambda>k m. None) k n [] = Returns []" for k n
    by (induction n arbitrary: k) (simp_all add: addOne_def randInt_def)
  then show ?thesis by (simp add: GenerateRandomPassword_def addOne_def randInt_def shuffleBytes_def)
qed

definition demoRandom :: random where
  "demoRandom k m = (if m = 0 then None else Some (k mod m))"

theorem GenerateRandomPassword_spec_witness:
  "\<exists>p. GenerateRandomPassword demoRandom 9 = Returns p \<and> length p = 9 \<and> set p \<inter> set digits \<noteq> {}"
proof -
  have "rnd_ok demoRandom" "rnd_total demoRandom" by (simp_all add: rnd_ok_def rnd_total_def demoRandom_def)
  from GenerateRandomPassword_spec [OF this, of 9]
  obtain p where p: "GenerateRandomPassword demoRandom 9 = Returns p" "int (length p) = (if (9::int) < 8 then 16 else 9)"
    "set p \<inter> set digits \<noteq> {}" by blast
  then have "length p = 9" by simp
  with p show ?thesis by blast
qed

end
