(* ===== verification/UserController.thy ===== *)
theory UserController
  imports UserPrivileges Pool Password RwObject
begin

text \<open>
  \<^verbatim>\<open>pkg/controller/risingwave_user_controller.go\<close>: the reconciliation of a RisingWaveUser. The reconciler is a
  record that is passed through the steps; it logs the requests to the API server and the SQL statements, with
  the answer to each one. The environment holds what other programs answer: the API server (reads, writes and
  the text of its errors), the database (\<open>Conn\<close>) and its driver (\<open>Pool\<close>), the time, the randomness and
  the order of map iterations. A read of the API server gives the same answer during one reconciliation.
  Errors are their texts.
\<close>

section \<open>Environment and state\<close>

definition risingWaveUserFinalizer :: string where
  "risingWaveUserFinalizer = ''risingwaveuser.risingwave.risingwavelabs.com/finalizer''"

definition uc_passwordRotateAnnotation :: string where
  "uc_passwordRotateAnnotation = ''risingwave.risingwavelabs.com/rotate-password''"

definition pauseReconcileAnnotation :: string where
  "pauseReconcileAnnotation = ''risingwave.risingwavelabs.com/pause-reconcile''"

definition defaultFrontendPort :: int where "defaultFrontendPort = 4567"
definition defaultUsername :: string where "defaultUsername = ''root''"
definition defaultPassword :: string where "defaultPassword = []"

record Secret =
  sec_Name :: string
  sec_Namespace :: string
  sec_Owner :: string
  sec_Data :: strmap

datatype UserRequest =
    UpdateUser RisingWaveUser
  | UpdateUserStatus RisingWaveUser
  | CreateSecret Secret
  | UpdateSecret Secret

datatype UserEvent =
    Request UserRequest "ApiError option"
  | Exec string "DbErr option"

datatype UserRes = Done | Requeue | RequeueIn int | Failed string

record 'db UserEnv =
  ue_risingWave :: "string \<Rightarrow> string \<Rightarrow> ApiError + RisingWave"
  ue_secret :: "string \<Rightarrow> string \<Rightarrow> ApiError + Secret"
  ue_service :: "string \<Rightarrow> string \<Rightarrow> ApiError + string \<times> string"
  ue_write :: "UserRequest \<Rightarrow> ApiError option"
  ue_setOwner :: "string option"
  ue_errText :: "ApiError \<Rightarrow> string"
  ue_conn :: "'db Conn"
  ue_ping :: "handle \<Rightarrow> string option"
  ue_openErr :: "string option"
  ue_now :: time
  ue_rnd :: random
  ue_ord :: rangeOrder

record 'db Reconciler =
  r_rwUser :: RisingWaveUser
  r_risingWave :: "RisingWave option"
  r_conn :: "handle option"
  r_connectionKey :: ConnectionKey
  r_pool :: PoolState
  r_db :: 'db
  r_log :: "UserEvent list"

section \<open>Status helpers\<close>

definition setStatus :: "(RisingWaveUserStatus \<Rightarrow> RisingWaveUserStatus) \<Rightarrow> 'db Reconciler \<Rightarrow> 'db Reconciler" where
  "setStatus f r = r\<lparr>r_rwUser := (r_rwUser r)\<lparr>usr_Status := f (usr_Status (r_rwUser r))\<rparr>\<rparr>"

definition setPhase :: "string \<Rightarrow> 'db Reconciler \<Rightarrow> 'db Reconciler" where
  "setPhase phase r = setStatus (\<lambda>s. s\<lparr>ust_Phase := phase\<rparr>) r"

fun putMetaCondition :: "time \<Rightarrow> MetaCondition \<Rightarrow> MetaCondition list \<Rightarrow> MetaCondition list" where
  "putMetaCondition now cond [] = [cond\<lparr>mcond_LastTransitionTime := now\<rparr>]"
| "putMetaCondition now cond (c # cs) =
     (if mcond_Type c = mcond_Type cond
      then cond\<lparr>mcond_LastTransitionTime :=
          (if mcond_Status c \<noteq> mcond_Status cond \<or> mcond_Reason c \<noteq> mcond_Reason cond \<or> mcond_Message c \<noteq> mcond_Message cond
           then now else mcond_LastTransitionTime c)\<rparr> # cs
      else c # putMetaCondition now cond cs)"

definition setCondition :: "time \<Rightarrow> MetaCondition \<Rightarrow> 'db Reconciler \<Rightarrow> 'db Reconciler" where
  "setCondition now cond r = setStatus (\<lambda>s. s\<lparr>ust_Conditions := putMetaCondition now cond (ust_Conditions s)\<rparr>) r"

definition mkCondition :: "string \<Rightarrow> string \<Rightarrow> string \<Rightarrow> string \<Rightarrow> MetaCondition" where
  "mkCondition t s reason msg = \<lparr>mcond_Type = t, mcond_Status = s, mcond_Reason = reason, mcond_Message = msg, mcond_LastTransitionTime = 0\<rparr>"

definition setErrorCondition :: "time \<Rightarrow> string \<Rightarrow> string \<Rightarrow> 'db Reconciler \<Rightarrow> 'db Reconciler" where
  "setErrorCondition now reason msg r =
     setCondition now (mkCondition RisingWaveUserConditionConnectionError ''True'' reason msg) r"

definition updateConnectionStatus :: "time \<Rightarrow> bool \<Rightarrow> string \<Rightarrow> 'db Reconciler \<Rightarrow> 'db Reconciler" where
  "updateConnectionStatus now connected errMsg r =
     setStatus (\<lambda>s. s\<lparr>ust_ConnectionStatus := Some \<lparr>cst_Connected = connected,
       cst_LastConnectedTime = (if connected then Some now else None), cst_ErrorMessage = errMsg\<rparr>\<rparr>) r"

definition request :: "'db UserEnv \<Rightarrow> UserRequest \<Rightarrow> 'db Reconciler \<Rightarrow> ApiError option \<times> 'db Reconciler" where
  "request env q r = (ue_write env q, r\<lparr>r_log := r_log r @ [Request q (ue_write env q)]\<rparr>)"

definition execSql :: "'db UserEnv \<Rightarrow> string \<Rightarrow> 'db Reconciler \<Rightarrow> DbErr option \<times> 'db Reconciler" where
  "execSql env stmt r =
     (case cn_exec (ue_conn env) stmt (r_db r) of
        (e, db) \<Rightarrow> (e, r\<lparr>r_db := db, r_log := r_log r @ [Exec stmt e]\<rparr>))"

definition updateStatus :: "'db UserEnv \<Rightarrow> 'db Reconciler \<Rightarrow> ApiError option \<times> 'db Reconciler" where
  "updateStatus env r = request env (UpdateUserStatus (r_rwUser r)) r"

text \<open>The common error exit: the phase Failed, the condition and the status update, then the given result.\<close>

definition failStatus :: "'db UserEnv \<Rightarrow> string \<Rightarrow> string \<Rightarrow> UserRes \<Rightarrow> 'db Reconciler \<Rightarrow> UserRes \<times> 'db Reconciler" where
  "failStatus env reason msg res r =
     (case updateStatus env (setErrorCondition (ue_now env) reason msg (setPhase RisingWaveUserPhaseFailed r)) of
        (Some e, r') \<Rightarrow> (Failed (ue_errText env e), r')
      | (None, r') \<Rightarrow> (res, r'))"

section \<open>The cluster and the connection\<close>

definition usesConnectionRef :: "RisingWaveUser \<Rightarrow> bool" where
  "usesConnectionRef u \<longleftrightarrow> uspec_ConnectionRef (usr_Spec u) \<noteq> None"

definition uc_getUserName :: "RisingWaveUser \<Rightarrow> string" where
  "uc_getUserName u = (if uspec_Name (usr_Spec u) \<noteq> [] then uspec_Name (usr_Spec u) else om_Name (usr_Meta u))"

definition uc_getAuthType :: "RisingWaveUser \<Rightarrow> string" where
  "uc_getAuthType u =
     (case uspec_Auth (usr_Spec u) of
        None \<Rightarrow> AuthTypePassword
      | Some a \<Rightarrow> (case auth_Type a of None \<Rightarrow> AuthTypePassword | Some t \<Rightarrow> t))"

text \<open>The RisingWave is set even when the read fails, to an empty one; a nil reference panics.\<close>

definition fetchRisingWave :: "'db UserEnv \<Rightarrow> 'db Reconciler \<Rightarrow> (ApiError option \<times> 'db Reconciler) outcome" where
  "fetchRisingWave env r =
     (case uspec_RisingWaveRef (usr_Spec (r_rwUser r)) of
        None \<Rightarrow> Panics ''nil pointer dereference''
      | Some ref \<Rightarrow>
          (case ue_risingWave env (if rwref_Namespace ref = [] then om_Namespace (usr_Meta (r_rwUser r)) else rwref_Namespace ref) (rwref_Name ref) of
             Inl e \<Rightarrow> Returns (Some e, r\<lparr>r_risingWave := Some zeroRisingWave\<rparr>)
           | Inr rw \<Rightarrow> Returns (None, r\<lparr>r_risingWave := Some rw\<rparr>)))"

definition isRisingWaveReady :: "'db Reconciler \<Rightarrow> bool" where
  "isRisingWaveReady r =
     (case r_risingWave r of
        None \<Rightarrow> False
      | Some rw \<Rightarrow> list_ex (\<lambda>c. rc_Type c = RisingWaveConditionRunning \<and> rc_Status c = ConditionTrue) (rst_Conditions (rw_Status rw)))"

definition readSecretValue :: "'db UserEnv \<Rightarrow> RisingWaveUser \<Rightarrow> SecretReference \<Rightarrow> string + string" where
  "readSecretValue env u ref =
     (let namespace = (if sref_Namespace ref = [] then om_Namespace (usr_Meta u) else sref_Namespace ref);
          key = (if sref_Key ref = [] then ''password'' else sref_Key ref)
      in case ue_secret env namespace (sref_Name ref) of
           Inl e \<Rightarrow> Inl (''failed to get admin credentials secret '' @ namespace @ ''/'' @ sref_Name ref @ '': '' @ ue_errText env e)
         | Inr s \<Rightarrow>
             (case map_of (sec_Data s) key of
                None \<Rightarrow> Inl (''key '' @ goQuote key @ '' not found in secret '' @ namespace @ ''/'' @ sref_Name ref)
              | Some v \<Rightarrow> Inr v))"

definition resolveAdminCredentials :: "'db UserEnv \<Rightarrow> RisingWaveUser \<Rightarrow> AdminCredentials option \<Rightarrow> string + string \<times> string" where
  "resolveAdminCredentials env u creds =
     (case creds of
        None \<Rightarrow> Inr (defaultUsername, defaultPassword)
      | Some c \<Rightarrow>
          (let username = (if acr_Username c \<noteq> [] then acr_Username c else defaultUsername) in
           case acr_PasswordSecretRef c of
             Some ref \<Rightarrow> (case readSecretValue env u ref of Inl e \<Rightarrow> Inl e | Inr v \<Rightarrow> Inr (username, v))
           | None \<Rightarrow> Inr (username, acr_Password c)))"

text \<open>The common end of both ways to connect.\<close>

definition connect ::
  "'db UserEnv \<Rightarrow> AdminCredentials option \<Rightarrow> string \<Rightarrow> int \<Rightarrow> 'db Reconciler \<Rightarrow> string option \<times> 'db Reconciler" where
  "connect env creds host port r =
     (case resolveAdminCredentials env (r_rwUser r) creds of
        Inl e \<Rightarrow> (Some (''failed to resolve admin credentials: '' @ e), r)
      | Inr (username, password) \<Rightarrow>
          (case Pool_Get (ue_ping env) (ue_openErr env) (ue_now env) (r_connectionKey r)
              (DefaultConnectionInfo host port username password) (r_pool r) of
             (Inl e, p) \<Rightarrow> (Some (''failed to get database connection: '' @ e), r\<lparr>r_pool := p\<rparr>)
           | (Inr h, p) \<Rightarrow> (None, updateConnectionStatus (ue_now env) True [] (r\<lparr>r_pool := p, r_conn := Some h\<rparr>))))"

definition establishConnectionFromRisingWaveRef :: "'db UserEnv \<Rightarrow> 'db Reconciler \<Rightarrow> (string option \<times> 'db Reconciler) outcome" where
  "establishConnectionFromRisingWaveRef env r =
     (case (r_risingWave r, uspec_RisingWaveRef (usr_Spec (r_rwUser r))) of
        (Some rw, Some ref) \<Rightarrow>
          (let r1 = r\<lparr>r_connectionKey := ConnectionKeyFrom (om_Namespace (rw_Meta rw)) (om_Name (rw_Meta rw)) (om_UID (rw_Meta rw))\<rparr> in
           case ue_service env (om_Namespace (rw_Meta rw)) (om_Name (rw_Meta rw) @ ''-frontend'') of
             Inl e \<Rightarrow> Returns (Some (''failed to get frontend service: '' @ ue_errText env e), r1)
           | Inr (svcName, svcNamespace) \<Rightarrow>
               Returns (connect env (rwref_Credentials ref) (svcName @ ''.'' @ svcNamespace @ ''.svc.cluster.local'') defaultFrontendPort r1))
      | _ \<Rightarrow> Panics ''nil pointer dereference'')"

definition establishConnectionFromConnectionRef :: "'db UserEnv \<Rightarrow> ConnectionRef \<Rightarrow> 'db Reconciler \<Rightarrow> string option \<times> 'db Reconciler" where
  "establishConnectionFromConnectionRef env ref r =
     (let port = (if cref_Port ref = 0 then defaultFrontendPort else cref_Port ref);
          r1 = r\<lparr>r_connectionKey := \<lparr>ck_Namespace = om_Namespace (usr_Meta (r_rwUser r)),
              ck_Name = cref_Host ref @ '':'' @ showInt port, ck_UID = []\<rparr>\<rparr>
      in connect env (cref_Credentials ref) (cref_Host ref) port r1)"

definition establishConnection :: "'db UserEnv \<Rightarrow> 'db Reconciler \<Rightarrow> (string option \<times> 'db Reconciler) outcome" where
  "establishConnection env r =
     (case uspec_ConnectionRef (usr_Spec (r_rwUser r)) of
        Some ref \<Rightarrow> Returns (establishConnectionFromConnectionRef env ref r)
      | None \<Rightarrow> establishConnectionFromRisingWaveRef env r)"

definition closeConnection :: "'db Reconciler \<Rightarrow> 'db Reconciler" where
  "closeConnection r = r\<lparr>r_conn := None\<rparr>"

section \<open>Passwords and secrets\<close>

definition getPasswordFromSecret :: "'db UserEnv \<Rightarrow> RisingWaveUser \<Rightarrow> SecretReference \<Rightarrow> string + string" where
  "getPasswordFromSecret env u ref =
     (let namespace = (if sref_Namespace ref = [] then om_Namespace (usr_Meta u) else sref_Namespace ref);
          key = (if sref_Key ref = [] then ''password'' else sref_Key ref)
      in case ue_secret env namespace (sref_Name ref) of
           Inl e \<Rightarrow> Inl (''failed to get password secret: '' @ ue_errText env e)
         | Inr s \<Rightarrow>
             (case map_of (sec_Data s) key of
                None \<Rightarrow> Inl (''key '' @ key @ '' not found in secret '' @ sref_Name ref)
              | Some v \<Rightarrow> Inr v))"

definition getSecretName :: "'db Reconciler \<Rightarrow> string outcome" where
  "getSecretName r =
     (if usesConnectionRef (r_rwUser r) then Returns (''risingwave-direct-'' @ om_Name (usr_Meta (r_rwUser r)))
      else case r_risingWave r of
        None \<Rightarrow> Panics ''nil pointer dereference''
      | Some rw \<Rightarrow> Returns (''risingwave-'' @ om_Name (rw_Meta rw) @ ''-'' @ om_Name (usr_Meta (r_rwUser r))))"

definition getPassword :: "'db UserEnv \<Rightarrow> 'db Reconciler \<Rightarrow> (string + string) outcome" where
  "getPassword env r =
     (let u = r_rwUser r; pw = uspec_Password (usr_Spec u) in
      case Option.bind pw pwc_SecretRef of
        Some ref \<Rightarrow> Returns (getPasswordFromSecret env u ref)
      | None \<Rightarrow>
          (case getSecretName r of
             Panics m \<Rightarrow> Panics m
           | Returns secretName \<Rightarrow>
               (case (case ue_secret env (om_Namespace (usr_Meta u)) secretName of
                        Inl e \<Rightarrow> None | Inr s \<Rightarrow> map_of (sec_Data s) ''password'') of
                  Some p \<Rightarrow> Returns (Inr p)
                | None \<Rightarrow>
                    (case GenerateRandomPassword (ue_rnd env) (case Option.bind pw pwc_GenerateRandomLength of None \<Rightarrow> 16 | Some n \<Rightarrow> n) of
                       Panics m \<Rightarrow> Panics m
                     | Returns p \<Rightarrow> Returns (Inr p)))))"

definition secretCreated :: "'db UserEnv \<Rightarrow> string \<Rightarrow> 'db Reconciler \<Rightarrow> 'db Reconciler" where
  "secretCreated env secretName r =
     setCondition (ue_now env) (mkCondition RisingWaveUserConditionSecretCreated ''True'' ''SecretCreated'' ''Secret created successfully'')
       (setStatus (\<lambda>s. s\<lparr>ust_SecretCreated := True, ust_SecretName := secretName\<rparr>) r)"

text \<open>Sending one request for a secret; the text says what failed.\<close>

definition sendSecret :: "'db UserEnv \<Rightarrow> string \<Rightarrow> string \<Rightarrow> UserRequest \<Rightarrow> 'db Reconciler \<Rightarrow> string option \<times> 'db Reconciler" where
  "sendSecret env secretName what q r =
     (case request env q r of
        (Some e, r') \<Rightarrow> (Some (what @ ue_errText env e), r')
      | (None, r') \<Rightarrow> (None, secretCreated env secretName r'))"

definition createOrUpdateSecret :: "'db UserEnv \<Rightarrow> string \<Rightarrow> 'db Reconciler \<Rightarrow> (string option \<times> 'db Reconciler) outcome" where
  "createOrUpdateSecret env password r =
     (case getSecretName r of
        Panics m \<Rightarrow> Panics m
      | Returns secretName \<Rightarrow>
          (let u = r_rwUser r; ns = om_Namespace (usr_Meta u);
               secret = \<lparr>sec_Name = secretName, sec_Namespace = ns, sec_Owner = om_UID (usr_Meta u),
                         sec_Data = [(''password'', password), (''username'', uc_getUserName u)]\<rparr>
           in Returns (case ue_setOwner env of
                Some e \<Rightarrow> (Some (''failed to set controller reference: '' @ e), r)
              | None \<Rightarrow>
                  (case ue_secret env ns secretName of
                     Inl e \<Rightarrow> if e = NotFoundErr then sendSecret env secretName ''failed to create secret: '' (CreateSecret secret) r
                       else (Some (''failed to get secret: '' @ ue_errText env e), r)
                   | Inr found \<Rightarrow> sendSecret env secretName ''failed to update secret: '' (UpdateSecret (found\<lparr>sec_Data := sec_Data secret\<rparr>)) r))))"

section \<open>The user in the database\<close>

definition isUserAlreadyExistsError :: "DbErr \<Rightarrow> bool" where
  "isUserAlreadyExistsError e \<longleftrightarrow> de_Code e = Some ''42710'' \<or>
     (let m = map toLowerChar (de_Text e) in containsStr m ''user with name'' \<and> containsStr m ''exists'')"

definition createUserSQL :: "RisingWaveUser \<Rightarrow> string \<Rightarrow> string" where
  "createUserSQL u password =
     (if uc_getAuthType u = AuthTypeOAuth
      then BuildCreateUserWithOAuthSQL (uc_getUserName u) (Option.bind (uspec_Auth (usr_Spec u)) auth_OAuth)
      else if uc_getAuthType u = AuthTypeLDAP
      then BuildCreateUserWithLDAPSQL (uc_getUserName u) (Option.bind (uspec_Auth (usr_Spec u)) auth_LDAP)
      else BuildCreateUserSQL u password)"

definition ensureUserExists :: "'db UserEnv \<Rightarrow> string \<Rightarrow> 'db Reconciler \<Rightarrow> DbErr option \<times> 'db Reconciler" where
  "ensureUserExists env password r =
     (let created = (\<lambda>reason msg r. (None, setStatus (\<lambda>s. s\<lparr>ust_UserCreated := True\<rparr>)
            (setCondition (ue_now env) (mkCondition RisingWaveUserConditionUserCreated ''True'' reason msg) r)))
      in case execSql env (createUserSQL (r_rwUser r) password) (setPhase RisingWaveUserPhaseCreating r) of
           (None, r') \<Rightarrow> created ''UserCreated'' ''User created successfully'' r'
         | (Some e, r') \<Rightarrow>
             if isUserAlreadyExistsError e then created ''UserAlreadyExists'' ''User already exists in RisingWave'' r'
             else (Some e, r'))"

definition reconcilePermissions :: "'db UserEnv \<Rightarrow> 'db Reconciler \<Rightarrow> DbErr option \<times> 'db Reconciler" where
  "reconcilePermissions env r =
     (let stmt = BuildAlterUserPermissionsSQL (uc_getUserName (r_rwUser r)) (uspec_Permissions (usr_Spec (r_rwUser r))) in
      if stmt = [] then (None, r) else execSql env stmt r)"

definition rotatePassword :: "'db UserEnv \<Rightarrow> 'db Reconciler \<Rightarrow> (string option \<times> 'db Reconciler) outcome" where
  "rotatePassword env r =
     (case GenerateRandomPassword (ue_rnd env) 16 of
        Panics m \<Rightarrow> Panics m
      | Returns newPassword \<Rightarrow>
          (case execSql env (BuildAlterUserPasswordSQL (uc_getUserName (r_rwUser r)) newPassword) r of
             (Some e, r') \<Rightarrow> Returns (Some (''failed to rotate password: '' @ de_Text e), r')
           | (None, r') \<Rightarrow> createOrUpdateSecret env newPassword r'))"

definition uc_applyPrivileges :: "'db UserEnv \<Rightarrow> 'db Reconciler \<Rightarrow> string option \<times> 'db Reconciler" where
  "uc_applyPrivileges env r =
     (case applyPrivileges (ue_ord env) (ue_conn env) (uc_getUserName (r_rwUser r)) (usr_Spec (r_rwUser r)) (r_db r, []) of
        (e, db, l) \<Rightarrow> (e, r\<lparr>r_db := db, r_log := r_log r @ map (\<lambda>(stmt, e). Exec stmt e) l\<rparr>))"

section \<open>Reconciliation\<close>

text \<open>The last part of \<^verbatim>\<open>reconcileNormal\<close>: the secret, for password authentication, and the status Ready.\<close>

definition finishReady :: "'db UserEnv \<Rightarrow> 'db Reconciler \<Rightarrow> UserRes \<times> 'db Reconciler" where
  "finishReady env r =
     (let r1 = setCondition (ue_now env) (mkCondition RisingWaveUserConditionReady ''True'' ''Ready'' ''RisingWaveUser is ready'')
            (setPhase RisingWaveUserPhaseReady r);
          r2 = setStatus (\<lambda>s. s\<lparr>ust_ObservedGeneration := om_Generation (usr_Meta (r_rwUser r1))\<rparr>) r1
      in case updateStatus env (updateConnectionStatus (ue_now env) True [] r2) of
           (Some e, r3) \<Rightarrow> (Failed (ue_errText env e), r3)
         | (None, r3) \<Rightarrow> (Done, r3))"

definition syncSecret :: "'db UserEnv \<Rightarrow> string \<Rightarrow> 'db Reconciler \<Rightarrow> (UserRes \<times> 'db Reconciler) outcome" where
  "syncSecret env password r =
     (if uc_getAuthType (r_rwUser r) = AuthTypePassword \<or> uspec_Auth (usr_Spec (r_rwUser r)) = None then
        (case createOrUpdateSecret env password r of
           Panics m \<Rightarrow> Panics m
         | Returns (Some e, r') \<Rightarrow> Returns (failStatus env ''SecretCreationFailed'' e (Failed e) r')
         | Returns (None, r') \<Rightarrow> Returns (finishReady env r'))
      else Returns (finishReady env r))"

text \<open>The steps on the database: the user, its permissions and its privileges.\<close>

definition syncUser :: "'db UserEnv \<Rightarrow> string \<Rightarrow> 'db Reconciler \<Rightarrow> (UserRes \<times> 'db Reconciler) outcome" where
  "syncUser env password r =
     (case ensureUserExists env password r of
        (Some e, r1) \<Rightarrow> Returns (failStatus env ''UserCreationFailed'' (de_Text e) (Failed (de_Text e)) r1)
      | (None, r1) \<Rightarrow>
     (case reconcilePermissions env r1 of
        (Some e, r2) \<Rightarrow> Returns (failStatus env ''UserPermissionSyncFailed'' (de_Text e) (Failed (de_Text e)) r2)
      | (None, r2) \<Rightarrow>
     (case uc_applyPrivileges env (setPhase RisingWaveUserPhaseUpdating r2) of
        (Some e, r3) \<Rightarrow> Returns (failStatus env ''PrivilegeSyncFailed'' e (Failed e) r3)
      | (None, r3) \<Rightarrow>
          syncSecret env password
            (setCondition (ue_now env) (mkCondition RisingWaveUserConditionPrivilegesSynced ''True'' ''PrivilegesSynced'' ''Privileges synced successfully'')
              (setStatus (\<lambda>s. s\<lparr>ust_PrivilegesSynced := True\<rparr>) r3)))))"

definition deleteAnnotation :: "string \<Rightarrow> 'db Reconciler \<Rightarrow> 'db Reconciler" where
  "deleteAnnotation key r = r\<lparr>r_rwUser := (r_rwUser r)\<lparr>usr_Meta := (usr_Meta (r_rwUser r))\<lparr>om_Annotations :=
     filter (\<lambda>(k, v). k \<noteq> key) (om_Annotations (usr_Meta (r_rwUser r)))\<rparr>\<rparr>\<rparr>"

text \<open>From an established connection on; the connection is closed at the end, whatever the result.\<close>

definition reconcileConnected :: "'db UserEnv \<Rightarrow> 'db Reconciler \<Rightarrow> (UserRes \<times> 'db Reconciler) outcome" where
  "reconcileConnected env r =
     (if map_of (om_Annotations (usr_Meta (r_rwUser r))) uc_passwordRotateAnnotation = Some ''true'' then
        (case rotatePassword env r of
           Panics m \<Rightarrow> Panics m
         | Returns (Some e, r') \<Rightarrow> Returns (failStatus env ''PasswordRotationFailed'' e (Failed e) r')
         | Returns (None, r') \<Rightarrow>
             (let r1 = deleteAnnotation uc_passwordRotateAnnotation r' in
              case request env (UpdateUser (r_rwUser r1)) r1 of
                (Some e, r2) \<Rightarrow> Returns (Failed (ue_errText env e), r2)
              | (None, r2) \<Rightarrow> Returns (Requeue, r2)))
      else
        (case getPassword env r of
           Panics m \<Rightarrow> Panics m
         | Returns (Inl e) \<Rightarrow> Returns (failStatus env ''PasswordError'' e (Failed e) r)
         | Returns (Inr password) \<Rightarrow> syncUser env password r))"

definition withConnection :: "'db UserEnv \<Rightarrow> 'db Reconciler \<Rightarrow> (UserRes \<times> 'db Reconciler) outcome" where
  "withConnection env r =
     (case establishConnection env r of
        Panics m \<Rightarrow> Panics m
      | Returns (Some e, r') \<Rightarrow> Returns (failStatus env ''ConnectionFailed'' e (RequeueIn 5000) r')
      | Returns (None, r') \<Rightarrow>
          (case reconcileConnected env r' of Panics m \<Rightarrow> Panics m | Returns (res, r'') \<Rightarrow> Returns (res, closeConnection r'')))"

definition addFinalizer :: "'db Reconciler \<Rightarrow> 'db Reconciler" where
  "addFinalizer r = r\<lparr>r_rwUser := (r_rwUser r)\<lparr>usr_Meta := (usr_Meta (r_rwUser r))\<lparr>om_Finalizers :=
     om_Finalizers (usr_Meta (r_rwUser r)) @ [risingWaveUserFinalizer]\<rparr>\<rparr>\<rparr>"

definition reconcileNormal :: "'db UserEnv \<Rightarrow> 'db Reconciler \<Rightarrow> (UserRes \<times> 'db Reconciler) outcome" where
  "reconcileNormal env r =
     (if risingWaveUserFinalizer \<notin> set (om_Finalizers (usr_Meta (r_rwUser r))) then
        (let r1 = addFinalizer r in
         case request env (UpdateUser (r_rwUser r1)) r1 of
           (Some e, r2) \<Rightarrow> Returns (Failed (ue_errText env e), r2)
         | (None, r2) \<Rightarrow> Returns (Requeue, r2))
      else if usesConnectionRef (r_rwUser r) then withConnection env r
      else
        (case fetchRisingWave env r of
           Panics m \<Rightarrow> Panics m
         | Returns (Some e, r1) \<Rightarrow> Returns (failStatus env ''FailedToFetchRisingWave'' (ue_errText env e) (Failed (ue_errText env e)) r1)
         | Returns (None, r1) \<Rightarrow>
             if isRisingWaveReady r1 then withConnection env r1
             else
               (case updateStatus env (setCondition (ue_now env) (mkCondition RisingWaveUserConditionReady ''False'' ''RisingWaveNotReady''
                     ''RisingWave cluster is not ready yet'') (setPhase RisingWaveUserPhasePending r1)) of
                  (Some e, r2) \<Rightarrow> Returns (Failed (ue_errText env e), r2)
                | (None, r2) \<Rightarrow> Returns (RequeueIn 10000, r2))))"

definition removeFinalizer :: "'db UserEnv \<Rightarrow> 'db Reconciler \<Rightarrow> UserRes \<times> 'db Reconciler" where
  "removeFinalizer env r =
     (let r1 = r\<lparr>r_rwUser := (r_rwUser r)\<lparr>usr_Meta := (usr_Meta (r_rwUser r))\<lparr>om_Finalizers :=
            filter (\<lambda>f. f \<noteq> risingWaveUserFinalizer) (om_Finalizers (usr_Meta (r_rwUser r)))\<rparr>\<rparr>\<rparr>
      in case request env (UpdateUser (r_rwUser r1)) r1 of
           (Some e, r2) \<Rightarrow> (Failed (ue_errText env e), r2)
         | (None, r2) \<Rightarrow> (Done, r2))"

text \<open>Dropping the user: a failing connection is ignored, a failing statement is not.\<close>

definition dropAndRemove :: "'db UserEnv \<Rightarrow> 'db Reconciler \<Rightarrow> (UserRes \<times> 'db Reconciler) outcome" where
  "dropAndRemove env r =
     (case establishConnection env r of
        Panics m \<Rightarrow> Panics m
      | Returns (Some e, r') \<Rightarrow> Returns (removeFinalizer env r')
      | Returns (None, r') \<Rightarrow>
          (case execSql env (BuildDropUserSQL (uc_getUserName (r_rwUser r'))) r' of
             (Some e, r'') \<Rightarrow> Returns (Failed (de_Text e), closeConnection r'')
           | (None, r'') \<Rightarrow> (case removeFinalizer env r'' of (res, r3) \<Rightarrow> Returns (res, closeConnection r3))))"

definition reconcileDelete :: "'db UserEnv \<Rightarrow> 'db Reconciler \<Rightarrow> (UserRes \<times> 'db Reconciler) outcome" where
  "reconcileDelete env r =
     (let r0 = setPhase RisingWaveUserPhaseDeleting r in
      if \<not> ust_UserCreated (usr_Status (r_rwUser r)) then Returns (removeFinalizer env r0)
      else if usesConnectionRef (r_rwUser r) then dropAndRemove env r0
      else
        (case fetchRisingWave env r0 of
           Panics m \<Rightarrow> Panics m
         | Returns (Some e, r1) \<Rightarrow> Returns (Failed (ue_errText env e), r1)
         | Returns (None, r1) \<Rightarrow> if isRisingWaveReady r1 then dropAndRemove env r1 else Returns (removeFinalizer env r1)))"

definition newReconciler :: "RisingWaveUser \<Rightarrow> PoolState \<Rightarrow> 'db \<Rightarrow> 'db Reconciler" where
  "newReconciler u pool db = \<lparr>r_rwUser = u, r_risingWave = None, r_conn = None,
     r_connectionKey = \<lparr>ck_Namespace = [], ck_Name = [], ck_UID = []\<rparr>, r_pool = pool, r_db = db, r_log = []\<rparr>"

definition uc_Reconcile ::
  "'db UserEnv \<Rightarrow> (ApiError + RisingWaveUser) \<Rightarrow> PoolState \<Rightarrow> 'db \<Rightarrow> (UserRes \<times> 'db Reconciler option) outcome" where
  "uc_Reconcile env got pool db =
     (case got of
        Inl NotFoundErr \<Rightarrow> Returns (Done, None)
      | Inl e \<Rightarrow> Returns (Failed (ue_errText env e), None)
      | Inr u \<Rightarrow>
          (let r = newReconciler u pool db in
           if map_of (om_Annotations (usr_Meta u)) pauseReconcileAnnotation \<noteq> None then Returns (Done, Some r)
           else
             (case (if om_DeletionTimestamp (usr_Meta u) \<noteq> None then reconcileDelete env r else reconcileNormal env r) of
                Panics m \<Rightarrow> Panics m
              | Returns (res, r') \<Rightarrow> Returns (res, Some r'))))"

text \<open>The users that are reconciled when a RisingWave changes.\<close>

definition usersOfRisingWave :: "RisingWaveUser list \<Rightarrow> (string \<times> string) list" where
  "usersOfRisingWave users = map (\<lambda>u. (om_Namespace (usr_Meta u), om_Name (usr_Meta u)))
     (filter (\<lambda>u. case uspec_RisingWaveRef (usr_Spec u) of None \<Rightarrow> False | Some ref \<Rightarrow> rwref_Name ref \<noteq> []) users)"

section \<open>Lemmas\<close>

text \<open>What the steps of a reconciliation leave alone: the specification and the metadata of the user; the log only grows.\<close>

definition extends :: "'db Reconciler \<Rightarrow> 'db Reconciler \<Rightarrow> bool" where
  "extends r r' \<longleftrightarrow> usr_Spec (r_rwUser r') = usr_Spec (r_rwUser r) \<and> usr_Meta (r_rwUser r') = usr_Meta (r_rwUser r)
     \<and> (\<exists>k. r_log r' = r_log r @ k)"

lemma extends_refl [simp]: "extends r r"
  by (simp add: extends_def)

lemma extends_trans: "extends r r' \<Longrightarrow> extends r' r'' \<Longrightarrow> extends r r''"
  by (auto simp: extends_def)

lemmas status_defs = setStatus_def setPhase_def setCondition_def setErrorCondition_def updateConnectionStatus_def

lemma status_log [simp]:
  "r_log (setStatus f r) = r_log r" "r_log (setPhase p r) = r_log r" "r_log (setCondition now c r) = r_log r"
  "r_log (updateConnectionStatus now b e r) = r_log r" "r_log (setErrorCondition now reason msg r) = r_log r"
  by (simp_all add: status_defs)

lemma status_user [simp]:
  "usr_Spec (r_rwUser (setStatus f r)) = usr_Spec (r_rwUser r)" "usr_Meta (r_rwUser (setStatus f r)) = usr_Meta (r_rwUser r)"
  "usr_Spec (r_rwUser (setPhase p r)) = usr_Spec (r_rwUser r)" "usr_Meta (r_rwUser (setPhase p r)) = usr_Meta (r_rwUser r)"
  "usr_Spec (r_rwUser (setCondition now c r)) = usr_Spec (r_rwUser r)" "usr_Meta (r_rwUser (setCondition now c r)) = usr_Meta (r_rwUser r)"
  "usr_Spec (r_rwUser (updateConnectionStatus now b e r)) = usr_Spec (r_rwUser r)"
  "usr_Meta (r_rwUser (updateConnectionStatus now b e r)) = usr_Meta (r_rwUser r)"
  by (simp_all add: status_defs)

lemma request_log: "request env q r = (e, r') \<Longrightarrow> r_rwUser r' = r_rwUser r \<and> r_log r' = r_log r @ [Request q e]"
  by (auto simp: request_def)

lemma execSql_log: "execSql env stmt r = (e, r') \<Longrightarrow> r_rwUser r' = r_rwUser r \<and> r_log r' = r_log r @ [Exec stmt e]"
  by (auto simp: execSql_def split: prod.splits)

lemma failStatus_not_Done: "failStatus env reason msg res r = (Done, r') \<Longrightarrow> res = Done"
  by (auto simp: failStatus_def split: prod.splits option.splits)

text \<open>The facts about a user that the status keeps until the end.\<close>

definition synced :: "'db Reconciler \<Rightarrow> bool" where
  "synced r \<longleftrightarrow> ust_UserCreated (usr_Status (r_rwUser r)) \<and> ust_PrivilegesSynced (usr_Status (r_rwUser r))"

lemma finishReady_Done:
  assumes "finishReady env r = (Done, r')"
  shows "r_log r' = r_log r @ [Request (UpdateUserStatus (r_rwUser r')) None]"
    and "ust_Phase (usr_Status (r_rwUser r')) = RisingWaveUserPhaseReady"
    and "ust_ObservedGeneration (usr_Status (r_rwUser r')) = om_Generation (usr_Meta (r_rwUser r))"
    and "synced r' = synced r" "extends r r'"
  using assms unfolding finishReady_def updateStatus_def request_def Let_def
  by (auto simp: status_defs synced_def extends_def split: option.splits)

lemma sendSecret_ok:
  assumes "sendSecret env n what q r = (None, r')"
  shows "synced r' = synced r \<and> extends r r' \<and> Request q None \<in> set (r_log r')"
proof -
  obtain e r1 where q: "request env q r = (e, r1)" by (cases "request env q r")
  have e: "e = None" using assms q unfolding sendSecret_def by (cases e) auto
  have r': "r' = secretCreated env n r1" using assms q e unfolding sendSecret_def by simp
  have l: "r_log r' = r_log r @ [Request q None]" using request_log [OF q] e unfolding r' secretCreated_def by simp
  have "synced r' = synced r" using request_log [OF q] unfolding r' secretCreated_def by (simp add: synced_def setCondition_def setStatus_def)
  then show ?thesis using l request_log [OF q] unfolding r' secretCreated_def by (simp add: extends_def)
qed

definition wroteSecret :: "string \<Rightarrow> 'db Reconciler \<Rightarrow> bool" where
  "wroteSecret p r \<longleftrightarrow> (\<exists>sec. (Request (CreateSecret sec) None \<in> set (r_log r) \<or> Request (UpdateSecret sec) None \<in> set (r_log r))
     \<and> map_of (sec_Data sec) ''password'' = Some p)"

lemma wroteSecretI:
  "Request (CreateSecret sec) None \<in> set (r_log r) \<Longrightarrow> map_of (sec_Data sec) ''password'' = Some p \<Longrightarrow> wroteSecret p r"
  "Request (UpdateSecret sec) None \<in> set (r_log r) \<Longrightarrow> map_of (sec_Data sec) ''password'' = Some p \<Longrightarrow> wroteSecret p r"
  unfolding wroteSecret_def by blast+

lemma createOrUpdateSecret_ok:
  assumes "createOrUpdateSecret env p r = Returns (None, r')"
  shows "synced r' = synced r \<and> extends r r' \<and> wroteSecret p r'"
proof -
  obtain n where n: "getSecretName r = Returns n" using assms unfolding createOrUpdateSecret_def by (cases "getSecretName r") auto
  let ?u = "r_rwUser r"
  let ?sec = "\<lparr>sec_Name = n, sec_Namespace = om_Namespace (usr_Meta ?u), sec_Owner = om_UID (usr_Meta ?u),
                sec_Data = [(''password'', p), (''username'', uc_getUserName ?u)]\<rparr>"
  have o: "ue_setOwner env = None" using assms n unfolding createOrUpdateSecret_def by (cases "ue_setOwner env") auto
  show ?thesis
  proof (cases "ue_secret env (om_Namespace (usr_Meta ?u)) n")
    case (Inl e)
    then have "sendSecret env n ''failed to create secret: '' (CreateSecret ?sec) r = (None, r')"
      using assms n o unfolding createOrUpdateSecret_def by (simp add: Let_def split: if_splits)
    from sendSecret_ok [OF this] show ?thesis by (auto intro: wroteSecretI(1))
  next
    case (Inr f)
    then have "sendSecret env n ''failed to update secret: '' (UpdateSecret (f\<lparr>sec_Data := sec_Data ?sec\<rparr>)) r = (None, r')"
      using assms n o unfolding createOrUpdateSecret_def by (simp add: Let_def)
    from sendSecret_ok [OF this] show ?thesis by (auto intro: wroteSecretI(2))
  qed
qed

lemma ensureUserExists_ok:
  assumes "ensureUserExists env p r = (None, r')"
  shows "extends r r' \<and> ust_UserCreated (usr_Status (r_rwUser r'))
    \<and> (\<exists>e. Exec (createUserSQL (r_rwUser r) p) e \<in> set (r_log r') \<and> (\<forall>x. e = Some x \<longrightarrow> isUserAlreadyExistsError x))"
proof -
  obtain e r1 where x: "execSql env (createUserSQL (r_rwUser r) p) (setPhase RisingWaveUserPhaseCreating r) = (e, r1)"
    by (cases "execSql env (createUserSQL (r_rwUser r) p) (setPhase RisingWaveUserPhaseCreating r)")
  have e: "\<forall>x. e = Some x \<longrightarrow> isUserAlreadyExistsError x"
    using assms x unfolding ensureUserExists_def Let_def by (auto split: if_splits)
  have "\<exists>reason msg. r' = setStatus (\<lambda>s. s\<lparr>ust_UserCreated := True\<rparr>)
      (setCondition (ue_now env) (mkCondition RisingWaveUserConditionUserCreated ''True'' reason msg) r1)"
    using assms x unfolding ensureUserExists_def Let_def by (auto split: if_splits option.splits)
  then obtain reason msg where r': "r' = setStatus (\<lambda>s. s\<lparr>ust_UserCreated := True\<rparr>)
      (setCondition (ue_now env) (mkCondition RisingWaveUserConditionUserCreated ''True'' reason msg) r1)" by blast
  have l: "r_log r' = r_log r @ [Exec (createUserSQL (r_rwUser r) p) e]" "extends r r'" "ust_UserCreated (usr_Status (r_rwUser r'))"
    using execSql_log [OF x] unfolding r' by (simp_all add: extends_def) (simp add: status_defs)
  then show ?thesis using e by auto
qed

lemma reconcilePermissions_ok:
  "reconcilePermissions env r = (None, r') \<Longrightarrow> extends r r' \<and> usr_Status (r_rwUser r') = usr_Status (r_rwUser r)"
  unfolding reconcilePermissions_def Let_def by (auto simp: extends_def dest: execSql_log split: if_splits)

lemma uc_applyPrivileges_ok:
  "uc_applyPrivileges env r = (e, r') \<Longrightarrow> extends r r' \<and> usr_Status (r_rwUser r') = usr_Status (r_rwUser r)"
  unfolding uc_applyPrivileges_def by (auto simp: extends_def split: prod.splits)

lemma wroteSecret_extends: "wroteSecret p r \<Longrightarrow> extends r r' \<Longrightarrow> wroteSecret p r'"
  unfolding wroteSecret_def extends_def by fastforce

definition passwordAuth :: "RisingWaveUser \<Rightarrow> bool" where
  "passwordAuth u \<longleftrightarrow> uc_getAuthType u = AuthTypePassword \<or> uspec_Auth (usr_Spec u) = None"

lemma uc_getAuthType_cong: "usr_Spec u = usr_Spec v \<Longrightarrow> uc_getAuthType u = uc_getAuthType v"
  by (simp add: uc_getAuthType_def)

definition readyState :: "'db Reconciler \<Rightarrow> bool" where
  "readyState r \<longleftrightarrow> ust_Phase (usr_Status (r_rwUser r)) = RisingWaveUserPhaseReady
     \<and> ust_ObservedGeneration (usr_Status (r_rwUser r)) = om_Generation (usr_Meta (r_rwUser r))
     \<and> synced r \<and> r_log r \<noteq> [] \<and> last (r_log r) = Request (UpdateUserStatus (r_rwUser r)) None"

lemma syncSecret_Done:
  assumes "syncSecret env p r = Returns (Done, r')" "synced r"
  shows "extends r r' \<and> readyState r' \<and> (passwordAuth (r_rwUser r) \<longrightarrow> wroteSecret p r')"
proof (cases "passwordAuth (r_rwUser r)")
  case True
  then obtain e r1 where c: "createOrUpdateSecret env p r = Returns (e, r1)"
    using assms(1) unfolding syncSecret_def passwordAuth_def by (auto split: outcome.splits prod.splits)
  have e: "e = None" using assms(1) True c unfolding syncSecret_def passwordAuth_def by (cases e) (auto dest: failStatus_not_Done)
  have f: "finishReady env r1 = (Done, r')" using assms(1) True c e unfolding syncSecret_def passwordAuth_def by simp
  note s = createOrUpdateSecret_ok [OF c [unfolded e]] and d = finishReady_Done [OF f]
  have "wroteSecret p r1" using s by blast
  then have "wroteSecret p r'" using d(5) by (rule wroteSecret_extends)
  moreover have "extends r r'" using s d(5) extends_trans by blast
  moreover have "om_Generation (usr_Meta (r_rwUser r')) = om_Generation (usr_Meta (r_rwUser r1))" using d(5) by (simp add: extends_def)
  ultimately show ?thesis using s d(1-4) assms(2) unfolding readyState_def by simp
next
  case False
  then have f: "finishReady env r = (Done, r')" using assms(1) unfolding syncSecret_def passwordAuth_def by auto
  note d = finishReady_Done [OF f]
  have "om_Generation (usr_Meta (r_rwUser r')) = om_Generation (usr_Meta (r_rwUser r))" using d(5) by (simp add: extends_def)
  then show ?thesis using d(1-5) assms(2) False unfolding readyState_def by simp
qed

definition createdUser :: "RisingWaveUser \<Rightarrow> string \<Rightarrow> 'db Reconciler \<Rightarrow> bool" where
  "createdUser u p r \<longleftrightarrow> (\<exists>e. Exec (createUserSQL u p) e \<in> set (r_log r) \<and> (\<forall>x. e = Some x \<longrightarrow> isUserAlreadyExistsError x))"

lemma createdUser_extends: "createdUser u p r \<Longrightarrow> extends r r' \<Longrightarrow> createdUser u p r'"
  unfolding createdUser_def extends_def by fastforce

lemma syncUser_Done:
  assumes "syncUser env p r = Returns (Done, r')"
  shows "extends r r' \<and> readyState r' \<and> createdUser (r_rwUser r) p r' \<and> (passwordAuth (r_rwUser r) \<longrightarrow> wroteSecret p r')"
proof -
  obtain e1 r1 where 1: "ensureUserExists env p r = (e1, r1)" by (cases "ensureUserExists env p r")
  have e1: "e1 = None" using assms 1 unfolding syncUser_def by (cases e1) (auto dest: failStatus_not_Done)
  obtain e2 r2 where 2: "reconcilePermissions env r1 = (e2, r2)" by (cases "reconcilePermissions env r1")
  have e2: "e2 = None" using assms 1 2 e1 unfolding syncUser_def by (cases e2) (auto dest: failStatus_not_Done)
  let ?r2 = "setPhase RisingWaveUserPhaseUpdating r2"
  obtain e3 r3 where 3: "uc_applyPrivileges env ?r2 = (e3, r3)" by (cases "uc_applyPrivileges env ?r2")
  have e3: "e3 = None" using assms 1 2 3 e1 e2 unfolding syncUser_def by (cases e3) (auto dest: failStatus_not_Done)
  let ?r4 = "setCondition (ue_now env) (mkCondition RisingWaveUserConditionPrivilegesSynced ''True'' ''PrivilegesSynced'' ''Privileges synced successfully'')
      (setStatus (\<lambda>s. s\<lparr>ust_PrivilegesSynced := True\<rparr>) r3)"
  have 4: "syncSecret env p ?r4 = Returns (Done, r')" using assms 1 2 3 e1 e2 e3 unfolding syncUser_def by simp
  note u = ensureUserExists_ok [OF 1 [unfolded e1]] and q = reconcilePermissions_ok [OF 2 [unfolded e2]] and a = uc_applyPrivileges_ok [OF 3]
  have "extends r2 ?r2" "extends r3 ?r4" by (simp_all add: extends_def)
  then have x: "extends r1 ?r4" using q a extends_trans by blast
  have st: "ust_UserCreated (usr_Status (r_rwUser r3))" using u q a by (simp add: setPhase_def setStatus_def)
  then have sy: "synced ?r4" by (simp add: synced_def setCondition_def setStatus_def)
  note d = syncSecret_Done [OF 4 sy]
  have c: "createdUser (r_rwUser r) p r1" using u unfolding createdUser_def by blast
  have x1: "extends r1 r'" using x d extends_trans by blast
  have "usr_Spec (r_rwUser ?r4) = usr_Spec (r_rwUser r)" using x u by (simp add: extends_def)
  then have pa: "passwordAuth (r_rwUser ?r4) = passwordAuth (r_rwUser r)" unfolding passwordAuth_def using uc_getAuthType_cong by metis
  have "extends r r'" using u x1 extends_trans by blast
  moreover have "createdUser (r_rwUser r) p r'" using c x1 by (rule createdUser_extends)
  moreover have "readyState r'" "passwordAuth (r_rwUser r) \<longrightarrow> wroteSecret p r'" using d unfolding pa by blast+
  ultimately show ?thesis by blast
qed

lemma establishConnection_user:
  assumes "establishConnection env r = Returns (e, r')"
  shows "extends r r' \<and> r_log r' = r_log r"
proof -
  have "connect env creds host port (r\<lparr>r_connectionKey := k\<rparr>) = (e, r') \<Longrightarrow> extends r r' \<and> r_log r' = r_log r" for creds host port k
    unfolding connect_def by (auto simp: extends_def updateConnectionStatus_def setStatus_def split: sum.splits prod.splits)
  then show ?thesis using assms
    unfolding establishConnection_def establishConnectionFromConnectionRef_def establishConnectionFromRisingWaveRef_def Let_def
    by (auto simp: extends_def split: option.splits sum.splits prod.splits)
qed

lemma reconcileConnected_Done:
  assumes "reconcileConnected env r = Returns (Done, r')"
  shows "\<exists>p. extends r r' \<and> readyState r' \<and> createdUser (r_rwUser r) p r' \<and> (passwordAuth (r_rwUser r) \<longrightarrow> wroteSecret p r')"
proof (cases "map_of (om_Annotations (usr_Meta (r_rwUser r))) uc_passwordRotateAnnotation = Some ''true''")
  case True
  then show ?thesis using assms unfolding reconcileConnected_def Let_def
    by (auto dest: failStatus_not_Done split: outcome.splits prod.splits option.splits)
next
  case False
  then obtain p where "syncUser env p r = Returns (Done, r')"
    using assms unfolding reconcileConnected_def by (auto dest: failStatus_not_Done split: outcome.splits sum.splits)
  then show ?thesis using syncUser_Done by blast
qed

lemma createUserSQL_cong:
  "usr_Spec u = usr_Spec v \<Longrightarrow> usr_Meta u = usr_Meta v \<Longrightarrow> createUserSQL u p = createUserSQL v p"
  by (simp add: createUserSQL_def uc_getAuthType_def uc_getUserName_def BuildCreateUserSQL_def sql_getUserName_def)

lemma extends_props:
  assumes "extends r r'"
  shows "createdUser (r_rwUser r') p s = createdUser (r_rwUser r) p s" "passwordAuth (r_rwUser r') = passwordAuth (r_rwUser r)"
proof -
  have u: "usr_Spec (r_rwUser r') = usr_Spec (r_rwUser r)" "usr_Meta (r_rwUser r') = usr_Meta (r_rwUser r)" using assms by (simp_all add: extends_def)
  show "createdUser (r_rwUser r') p s = createdUser (r_rwUser r) p s" unfolding createdUser_def createUserSQL_cong [OF u] ..
  show "passwordAuth (r_rwUser r') = passwordAuth (r_rwUser r)" unfolding passwordAuth_def uc_getAuthType_cong [OF u(1)] u(1) ..
qed

lemma closeConnection_props [simp]:
  "extends r (closeConnection s) = extends r s" "readyState (closeConnection s) = readyState s"
  "createdUser u p (closeConnection s) = createdUser u p s" "wroteSecret p (closeConnection s) = wroteSecret p s"
  by (simp_all add: closeConnection_def extends_def readyState_def synced_def createdUser_def wroteSecret_def)

lemma withConnection_Done:
  assumes "withConnection env r = Returns (Done, r')"
  shows "\<exists>p. extends r r' \<and> readyState r' \<and> createdUser (r_rwUser r) p r' \<and> (passwordAuth (r_rwUser r) \<longrightarrow> wroteSecret p r')"
proof -
  obtain e r1 where c: "establishConnection env r = Returns (e, r1)" using assms unfolding withConnection_def by (auto split: outcome.splits)
  have e: "e = None" using assms c unfolding withConnection_def by (cases e) (auto dest: failStatus_not_Done)
  obtain r2 where d: "reconcileConnected env r1 = Returns (Done, r2)" "r' = closeConnection r2"
    using assms c e unfolding withConnection_def by (auto split: outcome.splits prod.splits)
  have x: "extends r r1" using establishConnection_user [OF c] by blast
  from reconcileConnected_Done [OF d(1)] obtain p where
    p: "extends r1 r2" "readyState r2" "createdUser (r_rwUser r1) p r2" "passwordAuth (r_rwUser r1) \<longrightarrow> wroteSecret p r2" by blast
  then show ?thesis using d(2) extends_trans [OF x p(1)] extends_props [OF x] by auto
qed

lemma fetchRisingWave_user:
  "fetchRisingWave env r = Returns (e, r') \<Longrightarrow> r_rwUser r' = r_rwUser r \<and> r_log r' = r_log r"
  unfolding fetchRisingWave_def by (auto split: option.splits sum.splits)

lemma reconcileNormal_Done:
  assumes "reconcileNormal env r = Returns (Done, r')"
  shows "\<exists>p. createdUser (r_rwUser r) p r' \<and> (passwordAuth (r_rwUser r) \<longrightarrow> wroteSecret p r') \<and> readyState r'
    \<and> usr_Spec (r_rwUser r') = usr_Spec (r_rwUser r)"
proof -
  have f: "risingWaveUserFinalizer \<in> set (om_Finalizers (usr_Meta (r_rwUser r)))"
    using assms unfolding reconcileNormal_def Let_def by (auto split: prod.splits option.splits if_splits)
  show ?thesis
  proof (cases "usesConnectionRef (r_rwUser r)")
    case True
    then have "withConnection env r = Returns (Done, r')" using assms f unfolding reconcileNormal_def by simp
    from withConnection_Done [OF this] show ?thesis unfolding extends_def by blast
  next
    case False
    obtain e r1 where c: "fetchRisingWave env r = Returns (e, r1)" using assms f False unfolding reconcileNormal_def by (auto split: outcome.splits)
    have e: "e = None" using assms f False c unfolding reconcileNormal_def by (cases e) (auto dest: failStatus_not_Done)
    have "withConnection env r1 = Returns (Done, r')"
      using assms f False c e unfolding reconcileNormal_def by (auto split: if_splits prod.splits option.splits)
    from withConnection_Done [OF this] fetchRisingWave_user [OF c] show ?thesis unfolding extends_def by simp
  qed
qed

section \<open>Properties\<close>

text \<open>C21: A reconciliation that ends without an error and without a requeue has done everything: the user was created in
  the database or existed there, with password authentication its secret was written with the password of
  that statement, and the status that was stored last says Ready for the current generation.\<close>
theorem user_reconcile_done:
  assumes "reconcileNormal env r = Returns (Done, r')"
  shows "\<exists>p. createdUser (r_rwUser r) p r' \<and> (passwordAuth (r_rwUser r) \<longrightarrow> wroteSecret p r') \<and> readyState r'
    \<and> usr_Spec (r_rwUser r') = usr_Spec (r_rwUser r)"
  using assms by (rule reconcileNormal_Done)

text \<open>The end of a deletion: the finalizer is removed and the user updated, after the user was dropped if there is a connection.\<close>

abbreviation otherFinalizers :: "'db Reconciler \<Rightarrow> string list" where
  "otherFinalizers r \<equiv> filter (\<lambda>f. f \<noteq> risingWaveUserFinalizer) (om_Finalizers (usr_Meta (r_rwUser r)))"

lemma removeFinalizer_done:
  assumes "removeFinalizer env s = (Done, r')" "extends r s"
  shows "om_Finalizers (usr_Meta (r_rwUser r')) = otherFinalizers r" "r_log r' = r_log s @ [Request (UpdateUser (r_rwUser r')) None]"
  using assms unfolding removeFinalizer_def Let_def request_def extends_def by (auto split: option.splits)

lemma dropAndRemove_done:
  assumes d: "dropAndRemove env s = Returns (Done, r')" "extends r s" "r_log s = []"
  shows "om_Finalizers (usr_Meta (r_rwUser r')) = otherFinalizers r \<and> r_log r' =
      (if \<exists>r2. establishConnection env s = Returns (None, r2) then [Exec (BuildDropUserSQL (uc_getUserName (r_rwUser r))) None] else [])
        @ [Request (UpdateUser (r_rwUser r')) None]"
proof -
  obtain e r1 where c: "establishConnection env s = Returns (e, r1)" using d(1) unfolding dropAndRemove_def by (auto split: outcome.splits)
  have x1: "extends r r1" "r_log r1 = []" using establishConnection_user [OF c] d(2,3) extends_trans by auto
  show ?thesis
  proof (cases e)
    case (Some m)
    then have "removeFinalizer env r1 = (Done, r')" using d(1) c unfolding dropAndRemove_def by simp
    from removeFinalizer_done [OF this x1(1)] x1(2) c Some show ?thesis by simp
  next
    case None
    have n: "uc_getUserName (r_rwUser r1) = uc_getUserName (r_rwUser r)" using x1(1) by (simp add: extends_def uc_getUserName_def)
    obtain f r2 where q: "execSql env (BuildDropUserSQL (uc_getUserName (r_rwUser r1))) r1 = (f, r2)"
      by (cases "execSql env (BuildDropUserSQL (uc_getUserName (r_rwUser r1))) r1")
    have f: "f = None" using d(1) c None q unfolding dropAndRemove_def by (cases f) auto
    obtain res r3 where m: "removeFinalizer env r2 = (res, r3)" by (cases "removeFinalizer env r2")
    have m2: "res = Done" "r' = closeConnection r3" using d(1) c None q f m unfolding dropAndRemove_def by simp_all
    have x2: "extends r r2" using x1(1) execSql_log [OF q] unfolding extends_def by auto
    from removeFinalizer_done [OF m [unfolded m2(1)] x2]
    show ?thesis using m2(2) execSql_log [OF q] f x1(2) c None n by (simp add: closeConnection_def)
  qed
qed

text \<open>C25: When a user is deleted, the finalizer is removed only after the user was dropped from the database, if it was ever
  created and a connection can be established; other finalizers are kept and no failed statement is ignored.\<close>
theorem user_delete_drops:
  assumes "reconcileDelete env r = Returns (Done, r')" "r_log r = []"
  defines "connected \<equiv> (\<exists>r1 r2. (if usesConnectionRef (r_rwUser r) then r1 = setPhase RisingWaveUserPhaseDeleting r
      else fetchRisingWave env (setPhase RisingWaveUserPhaseDeleting r) = Returns (None, r1) \<and> isRisingWaveReady r1)
    \<and> establishConnection env r1 = Returns (None, r2))"
  shows "om_Finalizers (usr_Meta (r_rwUser r')) = filter (\<lambda>f. f \<noteq> risingWaveUserFinalizer) (om_Finalizers (usr_Meta (r_rwUser r)))
    \<and> r_log r' = (if ust_UserCreated (usr_Status (r_rwUser r)) \<and> connected
        then [Exec (BuildDropUserSQL (uc_getUserName (r_rwUser r))) None] else []) @ [Request (UpdateUser (r_rwUser r')) None]"
proof -
  let ?r0 = "setPhase RisingWaveUserPhaseDeleting r"
  have x0: "extends r ?r0" by (simp add: extends_def)
  show ?thesis
  proof (cases "ust_UserCreated (usr_Status (r_rwUser r))")
    case False
    then have "removeFinalizer env ?r0 = (Done, r')" using assms(1) unfolding reconcileDelete_def by (simp add: Let_def)
    from removeFinalizer_done [OF this x0] False assms(2) show ?thesis by simp
  next
    case created: True
    show ?thesis
    proof (cases "usesConnectionRef (r_rwUser r)")
      case True
      then have "dropAndRemove env ?r0 = Returns (Done, r')" using assms(1) created unfolding reconcileDelete_def by (simp add: Let_def)
      from dropAndRemove_done [OF this x0] assms(2) True created show ?thesis unfolding connected_def by simp
    next
      case False
      obtain e r1 where c: "fetchRisingWave env ?r0 = Returns (e, r1)"
        using assms(1) created False unfolding reconcileDelete_def by (auto simp: Let_def split: outcome.splits)
      have e: "e = None" using assms(1) created False c unfolding reconcileDelete_def by (cases e) (auto simp: Let_def)
      have x1: "extends r r1" "r_log r1 = []" using fetchRisingWave_user [OF c] x0 assms(2) unfolding extends_def by auto
      show ?thesis
      proof (cases "isRisingWaveReady r1")
        case True
        then have "dropAndRemove env r1 = Returns (Done, r')" using assms(1) created False c e unfolding reconcileDelete_def by (simp add: Let_def)
        from dropAndRemove_done [OF this x1] True False c e created show ?thesis unfolding connected_def by simp
      next
        case nr: False
        then have "removeFinalizer env r1 = (Done, r')" using assms(1) created False c e unfolding reconcileDelete_def by (simp add: Let_def)
        from removeFinalizer_done [OF this x1(1)] x1(2) nr False c e show ?thesis unfolding connected_def by simp
      qed
    qed
  qed
qed

section \<open>Examples\<close>

definition demoRunning :: RisingWave where
  "demoRunning = demoRisingWave\<lparr>rw_Status := (rw_Status demoRisingWave)\<lparr>rst_Conditions :=
     [\<lparr>rc_Type = RisingWaveConditionRunning, rc_Status = ConditionTrue, rc_LastTransitionTime = 0, rc_Reason = [], rc_Message = []\<rparr>]\<rparr>\<rparr>"

text \<open>An environment without secrets and privileges; \<open>exists\<close> says whether the database knows the user already.\<close>

definition demoUserEnv :: "bool \<Rightarrow> unit UserEnv" where
  "demoUserEnv exists = \<lparr>ue_risingWave = (\<lambda>ns n. Inr demoRunning), ue_secret = (\<lambda>ns n. Inl NotFoundErr), ue_service = (\<lambda>ns n. Inr (n, ns)),
     ue_write = (\<lambda>q. None), ue_setOwner = None, ue_errText = (\<lambda>e. ''error''),
     ue_conn = \<lparr>cn_exec = (\<lambda>stmt db. (if exists \<and> hasPrefix stmt ''CREATE USER''
          then Some \<lparr>de_Code = Some ''42710'', de_Text = ''user exists''\<rparr> else None, db)),
        cn_query = (\<lambda>db q args. Inr \<lparr>rs_Rows = [], rs_Err = None\<rparr>), cn_names = (\<lambda>db. Inr [Inr ''dev'']), cn_current = (\<lambda>db. Inr ''dev'')\<rparr>,
     ue_ping = (\<lambda>h. None), ue_openErr = None, ue_now = 5, ue_rnd = demoRandom, ue_ord = (\<lambda>site xs. xs)\<rparr>"

definition demoFinalized :: RisingWaveUser where
  "demoFinalized = demoUser\<lparr>usr_Meta := (usr_Meta demoUser)\<lparr>om_Finalizers := [risingWaveUserFinalizer]\<rparr>\<rparr>"

definition demoReconciler :: "unit Reconciler" where
  "demoReconciler = newReconciler demoFinalized (initPool None) ()"

definition demoResult :: "bool \<Rightarrow> UserRes \<times> unit Reconciler" where
  "demoResult exists = (case reconcileNormal (demoUserEnv exists) demoReconciler of Returns x \<Rightarrow> x | Panics m \<Rightarrow> (Failed m, demoReconciler))"

lemma demoResult: "reconcileNormal (demoUserEnv b) demoReconciler = Returns (Done, snd (demoResult b))"
proof -
  have "fst (demoResult True) = Done" "fst (demoResult False) = Done" by code_simp+
  then have "fst (demoResult b) = Done" by (cases b) simp_all
  then show ?thesis unfolding demoResult_def by (auto split: outcome.splits)
qed

text \<open>No statement that succeeded mentions a password.\<close>

definition noPasswordSet :: "UserEvent list \<Rightarrow> bool" where
  "noPasswordSet l = list_all (\<lambda>x. case x of Exec stmt None \<Rightarrow> \<not> containsStr stmt ''PASSWORD'' | _ \<Rightarrow> True) l"


theorem user_reconcile_done_witness:
  "\<exists>p. createdUser demoFinalized p (snd (demoResult False)) \<and> wroteSecret p (snd (demoResult False))"
proof -
  have a: "passwordAuth (r_rwUser demoReconciler)" and u: "r_rwUser demoReconciler = demoFinalized" by code_simp+
  from user_reconcile_done [OF demoResult [of False]] a show ?thesis unfolding u by blast
qed

definition demoCreated :: "unit Reconciler" where
  "demoCreated = setStatus (\<lambda>s. s\<lparr>ust_UserCreated := True\<rparr>) demoReconciler"

definition demoDeleted :: "UserRes \<times> unit Reconciler" where
  "demoDeleted = (case reconcileDelete (demoUserEnv False) demoCreated of Returns x \<Rightarrow> x | Panics m \<Rightarrow> (Failed m, demoCreated))"

theorem user_delete_drops_witness:
  "om_Finalizers (usr_Meta (r_rwUser (snd demoDeleted))) = [] \<and> length (r_log (snd demoDeleted)) = 2"
proof -
  have f: "fst demoDeleted = Done" and l: "r_log demoCreated = []" "length (r_log (snd demoDeleted)) = 2"
    and z: "filter (\<lambda>f. f \<noteq> risingWaveUserFinalizer) (om_Finalizers (usr_Meta (r_rwUser demoCreated))) = []" by code_simp+
  have d: "reconcileDelete (demoUserEnv False) demoCreated = Returns (Done, snd demoDeleted)"
    using f unfolding demoDeleted_def by (auto split: outcome.splits)
  from user_delete_drops [OF d l(1)] l(2) show ?thesis unfolding z by blast
qed

end
