(* ===== verification/GoLib.thy ===== *)
theory GoLib
  imports Prelude
begin

text \<open>
  What the object factory uses of the Go packages \<^verbatim>\<open>path\<close>, \<^verbatim>\<open>net/url\<close> and \<^verbatim>\<open>strings\<close>, and the composition of calls
  that may panic.
\<close>

section \<open>Panics\<close>

definition obind :: "'a outcome \<Rightarrow> ('a \<Rightarrow> 'b outcome) \<Rightarrow> 'b outcome" where
  "obind x f = (case x of Returns a \<Rightarrow> f a | Panics m \<Rightarrow> Panics m)"

definition omap :: "('a \<Rightarrow> 'b) \<Rightarrow> 'a outcome \<Rightarrow> 'b outcome" where
  "omap f x = obind x (\<lambda>a. Returns (f a))"

text \<open>Reading through a pointer.\<close>

definition deref :: "'a option \<Rightarrow> 'a outcome" where
  "deref p = (case p of Some x \<Rightarrow> Returns x | None \<Rightarrow> Panics ''nil pointer dereference'')"

lemma obind_Returns [simp]: "obind (Returns a) f = f a"
  by (simp add: obind_def)

lemma obind_Panics [simp]: "obind (Panics m) f = Panics m"
  by (simp add: obind_def)

lemma omap_simps [simp]: "omap f (Returns a) = Returns (f a)" "omap f (Panics m) = Panics m"
  by (simp_all add: omap_def)

lemma deref_simps [simp]: "deref (Some x) = Returns x" "deref None = Panics ''nil pointer dereference''"
  by (simp_all add: deref_def)

lemma obind_eq_Returns: "obind x f = Returns b \<longleftrightarrow> (\<exists>a. x = Returns a \<and> f a = Returns b)"
  by (cases x) auto

lemma omap_eq_Returns: "omap f x = Returns b \<longleftrightarrow> (\<exists>a. x = Returns a \<and> f a = b)"
  by (cases x) auto

lemma obind_cong: "(\<And>a. x = Returns a \<Longrightarrow> g a = h a) \<Longrightarrow> obind x g = obind x h"
  by (cases x) auto

section \<open>Paths\<close>

text \<open>The elements of a path with \<^verbatim>\<open>.\<close> and \<^verbatim>\<open>..\<close> resolved, in reverse order.\<close>

fun cleanElems :: "bool \<Rightarrow> string list \<Rightarrow> string list \<Rightarrow> string list" where
  "cleanElems rooted acc [] = acc"
| "cleanElems rooted acc (e # es) =
     (if e = [] \<or> e = ''.'' then cleanElems rooted acc es
      else if e = ''..'' then
        (case acc of
           [] \<Rightarrow> cleanElems rooted (if rooted then [] else [''..'']) es
         | a # acc' \<Rightarrow> if a = ''..'' then cleanElems rooted (''..'' # acc) es else cleanElems rooted acc' es)
      else cleanElems rooted (e # acc) es)"

definition pathClean :: "string \<Rightarrow> string" where
  "pathClean p =
     (if p = [] then ''.''
      else let rooted = hasPrefix p ''/''; es = rev (cleanElems rooted [] (splitOn CHR ''/'' p))
           in if rooted then CHR ''/'' # joinStr ''/'' es else if es = [] then ''.'' else joinStr ''/'' es)"

definition pathJoin :: "string \<Rightarrow> string \<Rightarrow> string" where
  "pathJoin a b =
     (if a = [] \<and> b = [] then [] else pathClean (if a = [] then b else a @ CHR ''/'' # b))"

definition lastSlash :: "string \<Rightarrow> nat option" where
  "lastSlash s = map_option (\<lambda>i. length s - Suc i) (indexOf (rev s) ''/'')"

definition pathBase :: "string \<Rightarrow> string" where
  "pathBase p =
     (if p = [] then ''.''
      else let q = trimRightSet p ''/''; b = (case lastSlash q of None \<Rightarrow> q | Some i \<Rightarrow> drop (Suc i) q)
           in if b = [] then ''/'' else b)"

definition pathDir :: "string \<Rightarrow> string" where
  "pathDir p = pathClean (case lastSlash p of None \<Rightarrow> [] | Some i \<Rightarrow> take (Suc i) p)"

section \<open>Query strings\<close>

definition isUnreserved :: "char \<Rightarrow> bool" where
  "isUnreserved c \<longleftrightarrow>
     c \<in> set ''ABCDEFGHIJKLMNOPQRSTUVWXYZabcdefghijklmnopqrstuvwxyz0123456789-_.~''"

definition upperHex :: "nat \<Rightarrow> char" where
  "upperHex n = ''0123456789ABCDEF'' ! n"

definition escapeChar :: "char \<Rightarrow> string" where
  "escapeChar c =
     (if isUnreserved c then [c] else if c = CHR '' '' then ''+''
      else let n = of_char c :: nat in [CHR ''%'', upperHex (n div 16), upperHex (n mod 16)])"

definition queryEscape :: "string \<Rightarrow> string" where
  "queryEscape s = concat (map escapeChar s)"

text \<open>\<^verbatim>\<open>url.Values.Encode\<close> of a map with one value per key, given in the order of the keys.\<close>

definition encodeValues :: "(string \<times> string) list \<Rightarrow> string" where
  "encodeValues vs = joinStr ''&'' (map (\<lambda>(k, v). queryEscape k @ CHR ''='' # queryEscape v) vs)"

text \<open>The inverse, as the receiver of a query string reads it.\<close>

definition hexValue :: "char \<Rightarrow> nat option" where
  "hexValue c = (case indexOf ''0123456789ABCDEF'' [c] of Some i \<Rightarrow> Some i | None \<Rightarrow> None)"

fun queryUnescape :: "string \<Rightarrow> string option" where
  "queryUnescape [] = Some []"
| "queryUnescape (c # s) =
     (if c = CHR ''%'' then
        (case s of
           h # l # s' \<Rightarrow>
             (case (hexValue h, hexValue l) of
                (Some a, Some b) \<Rightarrow> map_option ((#) (char_of (16 * a + b))) (queryUnescape s')
              | _ \<Rightarrow> None)
         | _ \<Rightarrow> None)
      else map_option ((#) (if c = CHR ''+'' then CHR '' '' else c)) (queryUnescape s))"

definition decodePair :: "string \<Rightarrow> (string \<times> string) option" where
  "decodePair s =
     (case splitOn CHR ''='' s of
        [k, v] \<Rightarrow> (case (queryUnescape k, queryUnescape v) of (Some a, Some b) \<Rightarrow> Some (a, b) | _ \<Rightarrow> None)
      | _ \<Rightarrow> None)"

definition decodeValues :: "string \<Rightarrow> (string \<times> string) option list" where
  "decodeValues s = (if s = [] then [] else map decodePair (splitOn CHR ''&'' s))"

section \<open>Strings\<close>

text \<open>\<^verbatim>\<open>strings.ReplaceAll\<close> of a string that is not empty; \<^verbatim>\<open>strings.TrimSpace\<close> of ASCII text.\<close>

fun replaceFrom :: "nat \<Rightarrow> string \<Rightarrow> string \<Rightarrow> string \<Rightarrow> string" where
  "replaceFrom k old new [] = []"
| "replaceFrom (Suc k) old new (c # s) = replaceFrom k old new s"
| "replaceFrom 0 old new (c # s) =
     (if hasPrefix (c # s) old then new @ replaceFrom (length old - 1) old new s else c # replaceFrom 0 old new s)"

definition replaceAll :: "string \<Rightarrow> string \<Rightarrow> string \<Rightarrow> string" where
  "replaceAll s old new = replaceFrom 0 old new s"

definition trimSpace :: "string \<Rightarrow> string" where
  "trimSpace s = trimSet s [CHR 0x09, CHR 0x0A, CHR 0x0B, CHR 0x0C, CHR 0x0D, CHR '' '']"

section \<open>Reading a query string back\<close>

lemma escapeChar_shape:
  "escapeChar c = (if isUnreserved c then [c] else if c = CHR '' '' then ''+''
     else [CHR ''%'', upperHex (of_char c div 16), upperHex (of_char c mod 16)])"
  by (simp add: escapeChar_def Let_def)

lemma hexValue_upperHex: "n < 16 \<Longrightarrow> hexValue (upperHex n) = Some n"
proof -
  have "\<forall>n \<in> set [0..<16]. hexValue (upperHex n) = Some n" by code_simp
  then show "n < 16 \<Longrightarrow> hexValue (upperHex n) = Some n" by simp
qed

lemma upperHex_chars: "n < 16 \<Longrightarrow> upperHex n \<noteq> CHR ''='' \<and> upperHex n \<noteq> CHR ''&''"
proof -
  have "\<forall>n \<in> set [0..<16]. upperHex n \<noteq> CHR ''='' \<and> upperHex n \<noteq> CHR ''&''" by code_simp
  then show "n < 16 \<Longrightarrow> upperHex n \<noteq> CHR ''='' \<and> upperHex n \<noteq> CHR ''&''" by simp
qed

lemma hex_digits: "of_char c div 16 < (16 :: nat)" "of_char c mod 16 < (16 :: nat)"
  using nat_of_char_less_256 [of c] by (auto intro!: less_mult_imp_div_less)

lemma unescape_escape: "queryUnescape (queryEscape s) = Some s"
proof (induction s)
  case Nil
  then show ?case by (simp add: queryEscape_def)
next
  case (Cons c s)
  note d = hex_digits [of c]
  have c: "char_of (16 * (of_char c div 16) + of_char c mod (16 :: nat)) = c" by simp
  have u: "isUnreserved c \<Longrightarrow> c \<noteq> CHR ''%'' \<and> c \<noteq> CHR ''+''" by (auto simp: isUnreserved_def)
  show ?case using Cons u c
    by (auto simp: queryEscape_def escapeChar_shape hexValue_upperHex [OF d(1)] hexValue_upperHex [OF d(2)] simp del: char_of_def)
qed

lemma escape_chars: "CHR ''='' \<notin> set (queryEscape s)" "CHR ''&'' \<notin> set (queryEscape s)"
proof -
  have "CHR ''='' \<notin> set (escapeChar c) \<and> CHR ''&'' \<notin> set (escapeChar c)" for c
    using upperHex_chars [OF hex_digits(1) [of c]] upperHex_chars [OF hex_digits(2) [of c]]
    by (auto simp: escapeChar_shape isUnreserved_def)
  then show "CHR ''='' \<notin> set (queryEscape s)" "CHR ''&'' \<notin> set (queryEscape s)" by (auto simp: queryEscape_def)
qed

lemma decode_encode: "decodeValues (encodeValues vs) = map Some vs"
proof (cases "vs = []")
  case True
  then show ?thesis by (simp add: encodeValues_def decodeValues_def)
next
  case False
  let ?ps = "map (\<lambda>(k, v). queryEscape k @ CHR ''='' # queryEscape v) vs"
  have "decodePair (queryEscape k @ CHR ''='' # queryEscape v) = Some (k, v)" for k v
    using splitOn_append_sep [OF escape_chars(1), of k "queryEscape v"] splitOn_no_sep [OF escape_chars(1), of v]
    by (simp add: decodePair_def unescape_escape)
  then have "map decodePair ?ps = map Some vs" by (simp add: case_prod_beta)
  moreover have "splitOn CHR ''&'' (joinStr ''&'' ?ps) = ?ps"
    using False escape_chars(2) by (intro splitOn_join) auto
  moreover have "joinStr ''&'' ?ps \<noteq> []"
    using False by (cases "(''&'', ?ps)" rule: joinStr.cases) auto
  ultimately show ?thesis by (simp add: encodeValues_def decodeValues_def)
qed

end
