(* ===== verification/GoTime.thy ===== *)
theory GoTime
  imports CoreV1
begin

text \<open>
  The calendar that \<^verbatim>\<open>pkg/utils/date.go\<close> and \<^verbatim>\<open>pkg/utils/nightly.go\<close> use of the package \<^verbatim>\<open>time\<close>: a time is the
  number of seconds since the zero time of Go, January 1 of the year 1, in UTC. \<^verbatim>\<open>time.Date\<close> normalises months
  and days that are out of range; \<^verbatim>\<open>time.Parse\<close> with the layout \<^verbatim>\<open>2006-01-02\<close> rejects them.
\<close>

section \<open>The calendar\<close>

definition isLeap :: "int \<Rightarrow> bool" where
  "isLeap y \<longleftrightarrow> y mod 4 = 0 \<and> (y mod 100 \<noteq> 0 \<or> y mod 400 = 0)"

definition daysIn :: "int \<Rightarrow> int \<Rightarrow> int" where
  "daysIn y m = (if m = 2 then (if isLeap y then 29 else 28) else if m \<in> {4, 6, 9, 11} then 30 else 31)"

definition daysBeforeYear :: "int \<Rightarrow> int" where
  "daysBeforeYear y = 365 * (y - 1) + (y - 1) div 4 - (y - 1) div 100 + (y - 1) div 400"

text \<open>The days before a month, given by its number from 0.\<close>

definition daysBeforeMonth :: "int \<Rightarrow> int \<Rightarrow> int" where
  "daysBeforeMonth y m = sum_list (map (daysIn y) [1..m])"

definition secondsPerDay :: int where "secondsPerDay = 86400"

definition Date :: "int \<Rightarrow> int \<Rightarrow> int \<Rightarrow> time" where
  "Date year month day =
     (let y = year + (month - 1) div 12; m = (month - 1) mod 12
      in (daysBeforeYear y + daysBeforeMonth y m + day - 1) * secondsPerDay)"

section \<open>Nightly versions\<close>

text \<open>A number of exactly \<open>n\<close> digits at the start of a string.\<close>

definition leadingDigits :: "nat \<Rightarrow> string \<Rightarrow> (int \<times> string) option" where
  "leadingDigits n s =
     (if n \<le> length s \<and> list_all isDigit (take n s) then Some (digitsVal (take n s), drop n s) else None)"

fun skipDash :: "string \<Rightarrow> string option" where
  "skipDash (c # s) = (if c = CHR ''-'' then Some s else None)"
| "skipDash [] = None"

text \<open>\<^verbatim>\<open>time.Parse("2006-01-02", s)\<close>.\<close>

definition parseDate :: "string \<Rightarrow> time option" where
  "parseDate s =
     Option.bind (leadingDigits 4 s) (\<lambda>(y, s1). Option.bind (skipDash s1) (\<lambda>s2.
     Option.bind (leadingDigits 2 s2) (\<lambda>(m, s3). Option.bind (skipDash s3) (\<lambda>s4.
     Option.bind (leadingDigits 2 s4) (\<lambda>(d, s5).
       if s5 = [] \<and> 1 \<le> m \<and> m \<le> 12 \<and> 1 \<le> d \<and> d \<le> daysIn y m then Some (Date y m d) else None)))))"

definition IsNightlyVersionAfter :: "string \<Rightarrow> (string \<Rightarrow> time option) \<Rightarrow> time \<Rightarrow> bool" where
  "IsNightlyVersionAfter version parse date =
     (if hasPrefix version ''nightly-''
      then (case parse (drop (length ''nightly-'') version) of None \<Rightarrow> False | Some t \<Rightarrow> date < t)
      else False)"

definition IsRisingWaveNightlyVersionAfter :: "string \<Rightarrow> time \<Rightarrow> bool" where
  "IsRisingWaveNightlyVersionAfter version date = IsNightlyVersionAfter version parseDate date"

section \<open>Formatting\<close>

definition padNum :: "nat \<Rightarrow> int \<Rightarrow> string" where
  "padNum w n =
     (let s = showInt \<bar>n\<bar> in (if n < 0 then ''-'' else []) @ replicate (w - length s) CHR ''0'' @ s)"

text \<open>The date of a day number, as the package computes it: cycles of 400, 100, 4 and 1 years.\<close>

definition civil :: "int \<Rightarrow> int \<times> int \<times> int" where
  "civil days =
     (let n400 = days div 146097; d1 = days mod 146097;
          n100 = min (d1 div 36524) 3; d2 = d1 - 36524 * n100;
          n4 = d2 div 1461; d3 = d2 mod 1461;
          n1 = min (d3 div 365) 3; yday = d3 - 365 * n1;
          y = 400 * n400 + 100 * n100 + 4 * n4 + n1 + 1;
          ms = filter (\<lambda>m. daysBeforeMonth y (m - 1) \<le> yday) [1..12]; m = List.last ms
      in (y, m, yday - daysBeforeMonth y (m - 1) + 1))"

text \<open>\<^verbatim>\<open>t.In(time.UTC).Format("2006-01-02T15:04:05Z")\<close>.\<close>

definition formatUTC :: "time \<Rightarrow> string" where
  "formatUTC t =
     (case civil (t div secondsPerDay) of (y, m, d) \<Rightarrow>
      let s = t mod secondsPerDay
      in padNum 4 y @ ''-'' @ padNum 2 m @ ''-'' @ padNum 2 d @ ''T'' @
         padNum 2 (s div 3600) @ '':'' @ padNum 2 (s div 60 mod 60) @ '':'' @ padNum 2 (s mod 60) @ ''Z'')"

section \<open>Lemmas\<close>

lemma daysIn_range: "28 \<le> daysIn y m" "daysIn y m \<le> 31"
  by (simp_all add: daysIn_def)

lemma daysBeforeMonth_step: "0 \<le> m \<Longrightarrow> daysBeforeMonth y (m + 1) = daysBeforeMonth y m + daysIn y (m + 1)"
  by (simp add: daysBeforeMonth_def upto_rec2)

lemma daysBeforeMonth_year: "daysBeforeMonth y 12 = (if isLeap y then 366 else 365)"
  by (simp add: daysBeforeMonth_def daysIn_def upto.simps)

lemma daysBeforeMonth_mono:
  assumes "0 \<le> m" "m \<le> n"
  shows "daysBeforeMonth y m \<le> daysBeforeMonth y n"
  using assms(2,1)
proof (induction n rule: int_ge_induct)
  case base
  then show ?case by simp
next
  case (step i)
  then show ?case using daysBeforeMonth_step [of i y] daysIn_range(1) [of y "i + 1"] by linarith
qed

lemma daysBeforeYear_step: "daysBeforeYear (y + 1) = daysBeforeYear y + (if isLeap y then 366 else 365)"
proof -
  have d: "(y - 1) div k = y div k - (if y mod k = 0 then 1 else 0)" if k: "0 < k" for k :: int
  proof (cases "y mod k = 0")
    case True
    have "y - 1 = k * (y div k - 1) + (k - 1)" using True div_mult_mod_eq [of y k] by (simp add: algebra_simps)
    then show ?thesis using int_div_pos_eq [of "y - 1" k "y div k - 1" "k - 1"] k True by simp
  next
    case False
    have "0 \<le> y mod k" "y mod k < k" using k by simp_all
    moreover have "y - 1 = k * (y div k) + (y mod k - 1)" using div_mult_mod_eq [of y k] by (simp add: algebra_simps)
    ultimately show ?thesis using int_div_pos_eq [of "y - 1" k "y div k" "y mod k - 1"] False by simp
  qed
  have m: "y mod 100 = 0" if "y mod 400 = 0" using that by (simp add: mod_eq_0_iff_dvd dvd_trans [of 100 400])
  have m': "y mod 4 = 0" if "y mod 100 = 0" using that by (simp add: mod_eq_0_iff_dvd dvd_trans [of 4 100])
  have "daysBeforeYear (y + 1) - daysBeforeYear y = 365 + (if y mod 4 = 0 then 1 else 0)
      - (if y mod 100 = 0 then 1 else 0) + (if y mod 400 = 0 then 1 else 0)"
  proof -
    have "(365 * y + a - b + c) - (365 * (y - 1) + a' - b' + c') = 365 + u - v + w"
      if "a' = a - u" "b' = b - v" "c' = c - w" for a b c a' b' c' u v w :: int using that by simp
    note this [OF d [of 4] d [of 100] d [of 400]]
    then show ?thesis by (simp only: daysBeforeYear_def add_diff_cancel_right' zero_less_numeral)
  qed
  moreover have "(if y mod 4 = 0 then 1 else 0) - (if y mod 100 = 0 then 1 else 0) + (if y mod 400 = 0 then 1 else 0)
      = (if isLeap y then 1 else 0 :: int)" 
  proof -
    have "(if p then 1 else 0) - (if q then 1 else 0) + (if r then 1 else 0) = (if p \<and> (\<not> q \<or> r) then 1 else 0 :: int)"
      if "r \<Longrightarrow> q" "q \<Longrightarrow> p" for p q r using that by auto
    from this [OF m m'] show ?thesis unfolding isLeap_def .
  qed
  ultimately show ?thesis by (simp only: algebra_simps split: if_split) auto
qed

text \<open>Dates in range are ordered as their numbers.\<close>

definition validDate :: "int \<Rightarrow> int \<Rightarrow> int \<Rightarrow> bool" where
  "validDate y m d \<longleftrightarrow> 1 \<le> m \<and> m \<le> 12 \<and> 1 \<le> d \<and> d \<le> daysIn y m"

lemma daysBeforeYear_mono: "y \<le> z \<Longrightarrow> daysBeforeYear y \<le> daysBeforeYear z"
proof (induction z rule: int_ge_induct)
  case base
  then show ?case by simp
next
  case (step i)
  then show ?case using daysBeforeYear_step [of i] by (simp split: if_splits)
qed

lemma Date_valid:
  assumes "validDate y m d"
  shows "Date y m d = (daysBeforeYear y + daysBeforeMonth y (m - 1) + d - 1) * secondsPerDay"
    and "daysBeforeMonth y (m - 1) + d \<le> daysBeforeMonth y m"
    and "daysBeforeMonth y m \<le> daysBeforeYear (y + 1) - daysBeforeYear y"
proof -
  have r: "0 \<le> m - 1" "m - 1 < 12" "d \<le> daysIn y m" using assms by (simp_all add: validDate_def)
  then have q: "(m - 1) div 12 = 0" "(m - 1) mod 12 = m - 1" by (simp_all add: div_pos_pos_trivial mod_pos_pos_trivial)
  show "Date y m d = (daysBeforeYear y + daysBeforeMonth y (m - 1) + d - 1) * secondsPerDay"
    unfolding Date_def q by simp
  show "daysBeforeMonth y (m - 1) + d \<le> daysBeforeMonth y m"
    using daysBeforeMonth_step [OF r(1), of y] r(3) by simp
  show "daysBeforeMonth y m \<le> daysBeforeYear (y + 1) - daysBeforeYear y"
    using daysBeforeMonth_mono [of m 12 y] r daysBeforeMonth_year [of y] daysBeforeYear_step [of y] by simp
qed

lemma Date_less:
  assumes v: "validDate y m d" "validDate y' m' d'" and l: "y < y' \<or> y = y' \<and> (m < m' \<or> m = m' \<and> d < d')"
  shows "Date y m d < Date y' m' d'"
proof -
  let ?n = "daysBeforeYear y + daysBeforeMonth y (m - 1) + d - 1"
  let ?n' = "daysBeforeYear y' + daysBeforeMonth y' (m' - 1) + d' - 1"
  have b: "1 \<le> m" "1 \<le> m'" "1 \<le> d'" using v by (simp_all add: validDate_def)
  have m0: "0 \<le> daysBeforeMonth y' (m' - 1)"
    using daysBeforeMonth_mono [of 0 "m' - 1" y'] b by (simp add: daysBeforeMonth_def [of _ 0])
  have "?n < ?n'"
  proof (cases "y < y'")
    case True
    have "?n < daysBeforeYear (y + 1)" using Date_valid(2,3) [OF v(1)] by linarith
    also have "\<dots> \<le> daysBeforeYear y'" using True by (intro daysBeforeYear_mono) simp
    also have "\<dots> \<le> ?n'" using m0 b by simp
    finally show ?thesis .
  next
    case False
    then have y: "y = y'" and md: "m < m' \<or> m = m' \<and> d < d'" using l by auto
    show ?thesis
    proof (cases "m < m'")
      case True
      then have "daysBeforeMonth y m \<le> daysBeforeMonth y (m' - 1)" using b by (intro daysBeforeMonth_mono) simp_all
      then show ?thesis using Date_valid(2) [OF v(1)] b unfolding y [symmetric] by linarith
    next
      case False
      then show ?thesis using md y by simp
    qed
  qed
  then show ?thesis unfolding Date_valid(1) [OF v(1)] Date_valid(1) [OF v(2)] by (simp add: secondsPerDay_def)
qed

lemma Date_less_iff:
  assumes "validDate y m d" "validDate y' m' d'"
  shows "Date y m d < Date y' m' d' \<longleftrightarrow> y < y' \<or> y = y' \<and> (m < m' \<or> m = m' \<and> d < d')"
proof
  assume l: "Date y m d < Date y' m' d'"
  show "y < y' \<or> y = y' \<and> (m < m' \<or> m = m' \<and> d < d')"
  proof (rule ccontr)
    assume "\<not> ?thesis"
    then have "(y, m, d) = (y', m', d') \<or> (y' < y \<or> y' = y \<and> (m' < m \<or> m' = m \<and> d' < d))" by auto
    then have "Date y' m' d' \<le> Date y m d" using Date_less [OF assms(2,1)] by auto
    then show False using l by simp
  qed
next
  assume "y < y' \<or> y = y' \<and> (m < m' \<or> m = m' \<and> d < d')"
  then show "Date y m d < Date y' m' d'" using Date_less [OF assms] by simp
qed

text \<open>Numbers of a fixed width.\<close>

lemma length_showNat: "n < 10 ^ Suc w \<Longrightarrow> length (showNat n) \<le> Suc w"
proof (induction w arbitrary: n)
  case 0
  then show ?case by (simp add: showNat.simps)
next
  case (Suc w)
  show ?case
  proof (cases "n < 10")
    case True
    then show ?thesis by (simp add: showNat.simps)
  next
    case False
    have "n div 10 < 10 ^ Suc w" using Suc.prems by (simp add: div_less_iff_less_mult mult.commute)
    then show ?thesis using Suc.IH [of "n div 10"] False by (simp add: showNat.simps [of n])
  qed
qed

lemma digitsVal_zeros: "digitsVal (replicate k CHR ''0'' @ s) = digitsVal s"
  by (induction k) (simp_all add: digitsVal_def)

lemma leadingDigits_padNum:
  assumes "0 \<le> n" "n < 10 ^ w" "0 < w"
  shows "leadingDigits w (padNum w n @ s) = Some (n, s)"
proof -
  obtain v where w: "w = Suc v" using assms(3) by (cases w) auto
  have sh: "showInt \<bar>n\<bar> = showNat (nat n)" using assms(1) by (simp add: showInt_def)
  have "nat n < 10 ^ Suc v" using assms w by (simp add: nat_less_iff del: power_Suc)
  then have len: "length (showNat (nat n)) \<le> w" using length_showNat w by simp
  have p: "padNum w n = replicate (w - length (showNat (nat n))) CHR ''0'' @ showNat (nat n)"
    using assms(1) by (simp add: padNum_def sh [simplified] showInt_def Let_def)
  have l: "length (padNum w n) = w" using len by (simp add: p)
  have "list_all isDigit (replicate k CHR ''0'')" for k by (simp add: list_all_iff isDigit_def)
  then have "list_all isDigit (padNum w n)" using showNat_digits [of "nat n"] by (simp add: p)
  moreover have "digitsVal (padNum w n) = n" using showNat_digits [of "nat n"] assms(1) by (simp add: p digitsVal_zeros)
  ultimately show ?thesis using l by (simp add: leadingDigits_def)
qed

text \<open>The version of a day.\<close>

definition nightly :: "int \<Rightarrow> int \<Rightarrow> int \<Rightarrow> string" where
  "nightly y m d = ''nightly-'' @ padNum 4 y @ ''-'' @ padNum 2 m @ ''-'' @ padNum 2 d"

lemma parseDate_print:
  assumes "validDate y m d" "0 \<le> y" "y < 10000"
  shows "parseDate (padNum 4 y @ ''-'' @ padNum 2 m @ ''-'' @ padNum 2 d) = Some (Date y m d)"
proof -
  have r: "0 \<le> m" "m < 100" "0 \<le> d" "d < 100" "1 \<le> m" "m \<le> 12" "1 \<le> d" "d \<le> daysIn y m"
    using assms(1) daysIn_range(2) [of y m] by (auto simp: validDate_def)
  have a: "leadingDigits 4 (padNum 4 y @ s) = Some (y, s)" "leadingDigits 2 (padNum 2 m @ s) = Some (m, s)"
    "leadingDigits 2 (padNum 2 d @ s) = Some (d, s)" for s
    using assms(2,3) r by (intro leadingDigits_padNum; simp)+
  show ?thesis using r a(3) [of "[]"] by (simp add: parseDate_def a(1,2))
qed

text \<open>A nightly version is after a day exactly when its year, month and day are lexicographically after it.\<close>
theorem nightly_after_iff:
  assumes "validDate y m d" "0 \<le> y" "y < 10000" "validDate y' m' d'"
  shows "IsRisingWaveNightlyVersionAfter (nightly y m d) (Date y' m' d') \<longleftrightarrow>
    y' < y \<or> y' = y \<and> (m' < m \<or> m' = m \<and> d' < d)"
proof -
  have "drop (length ''nightly-'') (nightly y m d) = padNum 4 y @ ''-'' @ padNum 2 m @ ''-'' @ padNum 2 d"
    "hasPrefix (nightly y m d) ''nightly-''" by (simp_all add: nightly_def hasPrefix_def)
  then show ?thesis
    by (simp only: IsRisingWaveNightlyVersionAfter_def IsNightlyVersionAfter_def parseDate_print [OF assms(1-3)]
        Date_less_iff [OF assms(4,1)] option.simps if_True)
qed

theorem nightly_after_iff_witness:
  "IsRisingWaveNightlyVersionAfter ''nightly-2023-12-31'' (Date 2023 7 14)"
proof -
  have n: "nightly 2023 12 31 = ''nightly-2023-12-31''" by code_simp
  have v: "validDate 2023 12 31" "validDate 2023 7 14" by code_simp+
  show ?thesis using nightly_after_iff [OF v(1) _ _ v(2)] by (simp add: n)
qed

end
