(* ===== verification/FactoryConsts.thy ===== *)
theory FactoryConsts
  imports CoreV1
begin

text \<open>
  The constants the object factory uses: labels, annotations, port names and numbers of \<^verbatim>\<open>pkg/consts/consts.go\<close>, the names of
  the environment variables of \<^verbatim>\<open>pkg/factory/envs\<close>, and those of \<^verbatim>\<open>pkg/factory/risingwave_object_factory.go\<close>.
\<close>

section \<open>Labels, annotations and ports\<close>

definition LabelRisingWaveComponent :: string where "LabelRisingWaveComponent = ''risingwave/component''"
definition LabelRisingWaveName :: string where "LabelRisingWaveName = ''risingwave/name''"
definition LabelRisingWaveMetaRole :: string where "LabelRisingWaveMetaRole = ''risingwave/meta-role''"
definition AnnotationRestartAt :: string where "AnnotationRestartAt = ''risingwave/restart-at''"
definition AnnotationInheritLabelPrefix :: string where "AnnotationInheritLabelPrefix = ''risingwave.risingwavelabs.com/inherit-label-prefix''"
definition MetaRoleLeader :: string where "MetaRoleLeader = ''leader''"
definition MetaRoleFollower :: string where "MetaRoleFollower = ''follower''"
definition MetaRoleUnknown :: string where "MetaRoleUnknown = ''unknown''"
definition ComponentConfig :: string where "ComponentConfig = ''config''"
definition SecretKeyMinIOUsername :: string where "SecretKeyMinIOUsername = ''username''"
definition SecretKeyMinIOPassword :: string where "SecretKeyMinIOPassword = ''password''"
definition SecretKeyEtcdUsername :: string where "SecretKeyEtcdUsername = ''username''"
definition SecretKeyEtcdPassword :: string where "SecretKeyEtcdPassword = ''password''"
definition SecretKeyAWSS3AccessKeyID :: string where "SecretKeyAWSS3AccessKeyID = ''AccessKeyID''"
definition SecretKeyAWSS3SecretAccessKey :: string where "SecretKeyAWSS3SecretAccessKey = ''SecretAccessKey''"
definition SecretKeyAWSS3Region :: string where "SecretKeyAWSS3Region = ''Region''"
definition SecretKeyAzureBlobAccountName :: string where "SecretKeyAzureBlobAccountName = ''AccountName''"
definition SecretKeyAzureBlobAccountKey :: string where "SecretKeyAzureBlobAccountKey = ''AccountKey''"
definition SecretKeyAliyunOSSAccessKeyID :: string where "SecretKeyAliyunOSSAccessKeyID = ''AccessKeyID''"
definition SecretKeyAliyunOSSAccessKeySecret :: string where "SecretKeyAliyunOSSAccessKeySecret = ''AccessKeySecret''"
definition SecretKeyHuaweiCloudOBSAccessKeyID :: string where "SecretKeyHuaweiCloudOBSAccessKeyID = ''AccessKeyID''"
definition SecretKeyHuaweiCloudOBSAccessKeySecret :: string where "SecretKeyHuaweiCloudOBSAccessKeySecret = ''AccessKeySecret''"
definition SecretKeyGCSServiceAccountCredentials :: string where "SecretKeyGCSServiceAccountCredentials = ''ServiceAccountCredentials''"
definition PortService :: string where "PortService = ''service''"
definition PortHTTP :: string where "PortHTTP = ''http''"
definition PortMetrics :: string where "PortMetrics = ''metrics''"
definition PortDashboard :: string where "PortDashboard = ''dashboard''"
definition MetaServicePort :: int where "MetaServicePort = 5690"
definition MetaDashboardPort :: int where "MetaDashboardPort = 5691"
definition MetaMetricsPort :: int where "MetaMetricsPort = 1250"
definition ComputeServicePort :: int where "ComputeServicePort = 5688"
definition ComputeMetricsPort :: int where "ComputeMetricsPort = 1222"
definition FrontendServicePort :: int where "FrontendServicePort = 4567"
definition FrontendMetricsPort :: int where "FrontendMetricsPort = 8080"
definition FrontendWebhookPort :: int where "FrontendWebhookPort = 4560"
definition CompactorServicePort :: int where "CompactorServicePort = 6660"
definition CompactorMetricsPort :: int where "CompactorMetricsPort = 1260"

lemmas port_defs = MetaServicePort_def MetaDashboardPort_def MetaMetricsPort_def ComputeServicePort_def
   ComputeMetricsPort_def FrontendServicePort_def FrontendMetricsPort_def FrontendWebhookPort_def
   CompactorServicePort_def CompactorMetricsPort_def

section \<open>Environment variables\<close>

definition RustBacktrace :: string where "RustBacktrace = ''RUST_BACKTRACE''"
definition RustLog :: string where "RustLog = ''RUST_LOG''"
definition RustMinStack :: string where "RustMinStack = ''RUST_MIN_STACK''"
definition JavaOpts :: string where "JavaOpts = ''JAVA_OPTS''"
definition RWListenAddr :: string where "RWListenAddr = ''RW_LISTEN_ADDR''"
definition RWAdvertiseAddr :: string where "RWAdvertiseAddr = ''RW_ADVERTISE_ADDR''"
definition RWDashboardHost :: string where "RWDashboardHost = ''RW_DASHBOARD_HOST''"
definition RWPrometheusHost :: string where "RWPrometheusHost = ''RW_PROMETHEUS_HOST''"
definition RWEtcdEndpoints :: string where "RWEtcdEndpoints = ''RW_ETCD_ENDPOINTS''"
definition RWSQLEndpoint :: string where "RWSQLEndpoint = ''RW_SQL_ENDPOINT''"
definition RWSQLDatabase :: string where "RWSQLDatabase = ''RW_SQL_DATABASE''"
definition RWEtcdAuth :: string where "RWEtcdAuth = ''RW_ETCD_AUTH''"
definition RWEtcdUsername :: string where "RWEtcdUsername = ''RW_ETCD_USERNAME''"
definition RWEtcdPassword :: string where "RWEtcdPassword = ''RW_ETCD_PASSWORD''"
definition RWSQLUsername :: string where "RWSQLUsername = ''RW_SQL_USERNAME''"
definition RWSQLPassword :: string where "RWSQLPassword = ''RW_SQL_PASSWORD''"
definition RWMySQLUsername :: string where "RWMySQLUsername = ''RW_MYSQL_USERNAME''"
definition RWMySQLPassword :: string where "RWMySQLPassword = ''RW_MYSQL_PASSWORD''"
definition RWPostgresUsername :: string where "RWPostgresUsername = ''RW_POSTGRES_USERNAME''"
definition RWPostgresPassword :: string where "RWPostgresPassword = ''RW_POSTGRES_PASSWORD''"
definition RWConfigPath :: string where "RWConfigPath = ''RW_CONFIG_PATH''"
definition RWStateStore :: string where "RWStateStore = ''RW_STATE_STORE''"
definition RWDataDirectory :: string where "RWDataDirectory = ''RW_DATA_DIRECTORY''"
definition RWWorkerThreads :: string where "RWWorkerThreads = ''RW_WORKER_THREADS''"
definition RWBackend :: string where "RWBackend = ''RW_BACKEND''"
definition RWMetaAddr :: string where "RWMetaAddr = ''RW_META_ADDR''"
definition RWMetaAddrLegacy :: string where "RWMetaAddrLegacy = ''RW_META_ADDRESS''"
definition RWPrometheusListenerAddr :: string where "RWPrometheusListenerAddr = ''RW_PROMETHEUS_LISTENER_ADDR''"
definition RWParallelism :: string where "RWParallelism = ''RW_PARALLELISM''"
definition RWTotalMemoryBytes :: string where "RWTotalMemoryBytes = ''RW_TOTAL_MEMORY_BYTES''"
definition RWSslCert :: string where "RWSslCert = ''RW_SSL_CERT''"
definition RWSslKey :: string where "RWSslKey = ''RW_SSL_KEY''"
definition RWLicenseKey :: string where "RWLicenseKey = ''RW_LICENSE_KEY''"
definition RWLicenseKeyPath :: string where "RWLicenseKeyPath = ''RW_LICENSE_KEY_PATH''"
definition RWSecretStorePrivateKeyHex :: string where "RWSecretStorePrivateKeyHex = ''RW_SECRET_STORE_PRIVATE_KEY_HEX''"
definition RWResourceGroup :: string where "RWResourceGroup = ''RW_RESOURCE_GROUP''"
definition RWWebhookListenAddr :: string where "RWWebhookListenAddr = ''RW_WEBHOOK_LISTEN_ADDR''"
definition MinIOEndpoint :: string where "MinIOEndpoint = ''MINIO_ENDPOINT''"
definition MinIOBucket :: string where "MinIOBucket = ''MINIO_BUCKET''"
definition MinIOUsername :: string where "MinIOUsername = ''MINIO_USERNAME''"
definition MinIOPassword :: string where "MinIOPassword = ''MINIO_PASSWORD''"
definition EtcdUsernameLegacy :: string where "EtcdUsernameLegacy = ''ETCD_USERNAME''"
definition EtcdPasswordLegacy :: string where "EtcdPasswordLegacy = ''ETCD_PASSWORD''"
definition AWSRegion :: string where "AWSRegion = ''AWS_REGION''"
definition AWSAccessKeyID :: string where "AWSAccessKeyID = ''AWS_ACCESS_KEY_ID''"
definition AWSSecretAccessKey :: string where "AWSSecretAccessKey = ''AWS_SECRET_ACCESS_KEY''"
definition AWSS3Bucket :: string where "AWSS3Bucket = ''AWS_S3_BUCKET''"
definition AWSEC2MetadataDisabled :: string where "AWSEC2MetadataDisabled = ''AWS_EC2_METADATA_DISABLED''"
definition AWSForcePathStyle :: string where "AWSForcePathStyle = ''RW_IS_FORCE_PATH_STYLE''"
definition S3CompatibleRegion :: string where "S3CompatibleRegion = ''AWS_REGION''"
definition S3CompatibleBucket :: string where "S3CompatibleBucket = ''AWS_S3_BUCKET''"
definition S3CompatibleAccessKeyID :: string where "S3CompatibleAccessKeyID = ''AWS_ACCESS_KEY_ID''"
definition S3CompatibleSecretAccessKey :: string where "S3CompatibleSecretAccessKey = ''AWS_SECRET_ACCESS_KEY''"
definition S3CompatibleEndpoint :: string where "S3CompatibleEndpoint = ''RW_S3_ENDPOINT''"
definition S3CompatibleForcePathStyle :: string where "S3CompatibleForcePathStyle = ''RW_IS_FORCE_PATH_STYLE''"
definition AzureBlobEndpoint :: string where "AzureBlobEndpoint = ''AZBLOB_ENDPOINT''"
definition AzureBlobAccountName :: string where "AzureBlobAccountName = ''AZBLOB_ACCOUNT_NAME''"
definition AzureBlobAccountKey :: string where "AzureBlobAccountKey = ''AZBLOB_ACCOUNT_KEY''"
definition AliyunOSSRegion :: string where "AliyunOSSRegion = ''OSS_REGION''"
definition AliyunOSSBucket :: string where "AliyunOSSBucket = ''OSS_S3_BUCKET''"
definition AliyunOSSEndpoint :: string where "AliyunOSSEndpoint = ''OSS_ENDPOINT''"
definition AliyunOSSAccessKeyID :: string where "AliyunOSSAccessKeyID = ''OSS_ACCESS_KEY_ID''"
definition AliyunOSSSecretAccessKey :: string where "AliyunOSSSecretAccessKey = ''OSS_ACCESS_KEY_SECRET''"
definition HuaweiCloudOBSRegion :: string where "HuaweiCloudOBSRegion = ''OBS_REGION''"
definition HuaweiCloudOBSEndpoint :: string where "HuaweiCloudOBSEndpoint = ''OBS_ENDPOINT''"
definition HuaweiCloudOBSAccessKeyID :: string where "HuaweiCloudOBSAccessKeyID = ''OBS_ACCESS_KEY_ID''"
definition HuaweiCloudOBSSecretAccessKey :: string where "HuaweiCloudOBSSecretAccessKey = ''OBS_SECRET_ACCESS_KEY''"
definition GoogleApplicationCredentials :: string where "GoogleApplicationCredentials = ''GOOGLE_APPLICATION_CREDENTIALS''"

definition PodIP :: string where "PodIP = ''POD_IP''"
definition PodName :: string where "PodName = ''POD_NAME''"
definition PodNamespace :: string where "PodNamespace = ''POD_NAMESPACE''"

lemmas env_defs = RustBacktrace_def RustLog_def RustMinStack_def JavaOpts_def RWListenAddr_def RWAdvertiseAddr_def
   RWDashboardHost_def RWPrometheusHost_def RWEtcdEndpoints_def RWSQLEndpoint_def RWSQLDatabase_def RWEtcdAuth_def
   RWEtcdUsername_def RWEtcdPassword_def RWSQLUsername_def RWSQLPassword_def RWMySQLUsername_def RWMySQLPassword_def
   RWPostgresUsername_def RWPostgresPassword_def RWConfigPath_def RWStateStore_def RWDataDirectory_def
   RWWorkerThreads_def RWBackend_def RWMetaAddr_def RWMetaAddrLegacy_def RWPrometheusListenerAddr_def
   RWParallelism_def RWTotalMemoryBytes_def RWSslCert_def RWSslKey_def RWLicenseKey_def RWLicenseKeyPath_def
   RWSecretStorePrivateKeyHex_def RWResourceGroup_def RWWebhookListenAddr_def MinIOEndpoint_def MinIOBucket_def
   MinIOUsername_def MinIOPassword_def EtcdUsernameLegacy_def EtcdPasswordLegacy_def AWSRegion_def
   AWSAccessKeyID_def AWSSecretAccessKey_def AWSS3Bucket_def AWSEC2MetadataDisabled_def AWSForcePathStyle_def
   S3CompatibleRegion_def S3CompatibleBucket_def S3CompatibleAccessKeyID_def S3CompatibleSecretAccessKey_def
   S3CompatibleEndpoint_def S3CompatibleForcePathStyle_def AzureBlobEndpoint_def AzureBlobAccountName_def
   AzureBlobAccountKey_def AliyunOSSRegion_def AliyunOSSBucket_def AliyunOSSEndpoint_def AliyunOSSAccessKeyID_def
   AliyunOSSSecretAccessKey_def HuaweiCloudOBSRegion_def HuaweiCloudOBSEndpoint_def HuaweiCloudOBSAccessKeyID_def
   HuaweiCloudOBSSecretAccessKey_def GoogleApplicationCredentials_def PodIP_def PodName_def PodNamespace_def

section \<open>Files and volumes\<close>

definition risingWaveConfigVolume :: string where "risingWaveConfigVolume = ''risingwave-config''"
definition risingwaveTLSVolume :: string where "risingwaveTLSVolume = ''risingwave-tls''"
definition risingWaveConfigMapKey :: string where "risingWaveConfigMapKey = ''risingwave.toml''"
definition risingwaveExecutablePath :: string where "risingwaveExecutablePath = ''/risingwave/bin/risingwave''"
definition risingwaveConfigMountPath :: string where "risingwaveConfigMountPath = ''/risingwave/config''"
definition risingwaveConfigFileName :: string where "risingwaveConfigFileName = ''risingwave.toml''"
definition risingwaveLicenseKeyPath :: string where "risingwaveLicenseKeyPath = ''/license/license.jwt''"
definition risingwaveTLSCertsMountPath :: string where "risingwaveTLSCertsMountPath = ''/risingwave/tls''"

definition RisingWaveLicenseKeySecretKey :: string where "RisingWaveLicenseKeySecretKey = ''licenseKey''"

text \<open>Constructors of environment variables: a value, a key of a secret, a field of the pod.\<close>

definition envVal :: "string \<Rightarrow> string \<Rightarrow> EnvVar" where
  "envVal n v = \<lparr>ev_Name = n, ev_Value = v, ev_ValueFrom = None\<rparr>"

definition envSecret :: "string \<Rightarrow> string \<Rightarrow> string \<Rightarrow> EnvVar" where
  "envSecret n secret key = \<lparr>ev_Name = n, ev_Value = [], ev_ValueFrom = Some (SecretKeyRef \<lparr>sks_Name = secret, sks_Key = key\<rparr>)\<rparr>"

definition envField :: "string \<Rightarrow> string \<Rightarrow> EnvVar" where
  "envField n fieldPath = \<lparr>ev_Name = n, ev_Value = [], ev_ValueFrom = Some (FieldRef fieldPath)\<rparr>"

lemma ev_Name_simps [simp]: "ev_Name (envVal n v) = n" "ev_Name (envSecret n s k) = n" "ev_Name (envField n p) = n"
  by (simp_all add: envVal_def envSecret_def envField_def)

end
