(* ===== verification/FactoryEnv.thy ===== *)
theory FactoryEnv
  imports Workloads GoLib GoTime FactoryConsts
begin

text \<open>
  \<^verbatim>\<open>pkg/factory/risingwave_object_factory.go\<close>, first part: the factory, the names and labels of the objects, and the
  environment variables of the containers. What is not part of the repository is the record \<open>FactoryLib\<close>: the
  comparison of semantic versions, the roundings of resource quantities, \<^verbatim>\<open>SetControllerReference\<close> with the scheme,
  the order of a map iteration, and the name of OpenKruise's readiness gate. A call that panics returns \<open>Panics\<close>.
\<close>

section \<open>The factory\<close>

record FactoryLib =
  lib_semverCompare :: "string \<Rightarrow> string \<Rightarrow> int"
  lib_quantityValue :: "int \<Rightarrow> int"
  lib_quantityCeil :: "int \<Rightarrow> int"
  lib_quantityAsInt64 :: "int \<Rightarrow> int"
  lib_setControllerReference :: "RisingWave \<Rightarrow> ObjectMeta \<Rightarrow> string + ObjectMeta"
  lib_envOrder :: "nat list \<Rightarrow> nat list"
  lib_inPlaceUpdateReady :: string

record RisingWaveObjectFactory =
  f_scheme :: FactoryLib
  f_risingwave :: RisingWave
  f_inheritedLabels :: strmap
  f_operatorVersion :: string

abbreviation rwSpec :: "RisingWaveObjectFactory \<Rightarrow> RisingWaveSpec" where
  "rwSpec f \<equiv> rw_Spec (f_risingwave f)"

abbreviation stateStore :: "RisingWaveObjectFactory \<Rightarrow> RisingWaveStateStoreBackend" where
  "stateStore f \<equiv> rws_StateStore (rwSpec f)"

abbreviation metaStore :: "RisingWaveObjectFactory \<Rightarrow> RisingWaveMetaStoreBackend" where
  "metaStore f \<equiv> rws_MetaStore (rwSpec f)"

definition minVersionForSQLCredentialsViaEnv :: string where
  "minVersionForSQLCredentialsViaEnv = ''v1.10.1''"

definition isSQLCredentialsViaEnvSupported :: "FactoryLib \<Rightarrow> string \<Rightarrow> bool" where
  "isSQLCredentialsViaEnvSupported lib version \<longleftrightarrow>
     lib_semverCompare lib version minVersionForSQLCredentialsViaEnv \<ge> 0
     \<or> IsRisingWaveNightlyVersionAfter version (Date 2023 7 14)"

definition namespace :: "RisingWaveObjectFactory \<Rightarrow> string" where
  "namespace f = om_Namespace (rw_Meta (f_risingwave f))"

definition rwName :: "RisingWaveObjectFactory \<Rightarrow> string" where
  "rwName f = om_Name (rw_Meta (f_risingwave f))"

section \<open>Kinds of stores\<close>

definition isStateStoreMemory :: "RisingWaveObjectFactory \<Rightarrow> bool" where
  "isStateStoreMemory f = derefBool (ss_Memory (stateStore f)) False"

definition isStateStoreS3 :: "RisingWaveObjectFactory \<Rightarrow> bool" where
  "isStateStoreS3 f = (case ss_S3 (stateStore f) of None \<Rightarrow> False | Some s3 \<Rightarrow> length (s3_Endpoint s3) = 0)"

definition isStateStoreS3Compatible :: "RisingWaveObjectFactory \<Rightarrow> bool" where
  "isStateStoreS3Compatible f = (case ss_S3 (stateStore f) of None \<Rightarrow> False | Some s3 \<Rightarrow> length (s3_Endpoint s3) > 0)"

definition isStateStoreGCS :: "RisingWaveObjectFactory \<Rightarrow> bool" where
  "isStateStoreGCS f \<longleftrightarrow> ss_GCS (stateStore f) \<noteq> None"

definition isStateStoreAliyunOSS :: "RisingWaveObjectFactory \<Rightarrow> bool" where
  "isStateStoreAliyunOSS f \<longleftrightarrow> ss_AliyunOSS (stateStore f) \<noteq> None"

definition isStateStoreAzureBlob :: "RisingWaveObjectFactory \<Rightarrow> bool" where
  "isStateStoreAzureBlob f \<longleftrightarrow> ss_AzureBlob (stateStore f) \<noteq> None"

definition isStateStoreHDFS :: "RisingWaveObjectFactory \<Rightarrow> bool" where
  "isStateStoreHDFS f \<longleftrightarrow> ss_HDFS (stateStore f) \<noteq> None"

definition isStateStoreWebHDFS :: "RisingWaveObjectFactory \<Rightarrow> bool" where
  "isStateStoreWebHDFS f \<longleftrightarrow> ss_WebHDFS (stateStore f) \<noteq> None"

definition isStateStoreMinIO :: "RisingWaveObjectFactory \<Rightarrow> bool" where
  "isStateStoreMinIO f \<longleftrightarrow> ss_MinIO (stateStore f) \<noteq> None"

definition isStateStoreLocalDisk :: "RisingWaveObjectFactory \<Rightarrow> bool" where
  "isStateStoreLocalDisk f \<longleftrightarrow> ss_LocalDisk (stateStore f) \<noteq> None"

definition isStateStoreHuaweiCloudOBS :: "RisingWaveObjectFactory \<Rightarrow> bool" where
  "isStateStoreHuaweiCloudOBS f \<longleftrightarrow> ss_HuaweiCloudOBS (stateStore f) \<noteq> None"

definition isMetaStoreMemory :: "RisingWaveObjectFactory \<Rightarrow> bool" where
  "isMetaStoreMemory f = derefBool (ms_Memory (metaStore f)) False"

definition isMetaStoreEtcd :: "RisingWaveObjectFactory \<Rightarrow> bool" where
  "isMetaStoreEtcd f \<longleftrightarrow> ms_Etcd (metaStore f) \<noteq> None"

definition isMetaStoreSQLite :: "RisingWaveObjectFactory \<Rightarrow> bool" where
  "isMetaStoreSQLite f \<longleftrightarrow> ms_SQLite (metaStore f) \<noteq> None"

definition isMetaStoreMySQL :: "RisingWaveObjectFactory \<Rightarrow> bool" where
  "isMetaStoreMySQL f \<longleftrightarrow> ms_MySQL (metaStore f) \<noteq> None"

definition isMetaStorePostgreSQL :: "RisingWaveObjectFactory \<Rightarrow> bool" where
  "isMetaStorePostgreSQL f \<longleftrightarrow> ms_PostgreSQL (metaStore f) \<noteq> None"

definition isFullKubernetesAddr :: "RisingWaveObjectFactory \<Rightarrow> bool" where
  "isFullKubernetesAddr f = derefBool (rws_EnableFullKubernetesAddr (rwSpec f)) False"

text \<open>A reference to an environment variable, as Kubernetes expands it.\<close>

definition envRef :: "string \<Rightarrow> string" where
  "envRef n = ''$('' @ n @ '')''"

definition hummockConnectionStr :: "RisingWaveObjectFactory \<Rightarrow> string outcome" where
  "hummockConnectionStr f =
     (let s = stateStore f in
      if isStateStoreMemory f then Returns ''hummock+memory''
      else if isStateStoreS3 f then omap (\<lambda>x. ''hummock+s3://'' @ s3_Bucket x) (deref (ss_S3 s))
      else if isStateStoreS3Compatible f then omap (\<lambda>x. ''hummock+s3://'' @ s3_Bucket x) (deref (ss_S3 s))
      else if ss_MinIO s \<noteq> None then
        omap (\<lambda>m. ''hummock+minio://'' @ envRef MinIOUsername @ '':'' @ envRef MinIOPassword @ ''@'' @ minio_Endpoint m @ ''/'' @ minio_Bucket m)
          (deref (ss_MinIO s))
      else if isStateStoreGCS f then omap (\<lambda>x. ''hummock+gcs://'' @ gcs_Bucket x) (deref (ss_GCS s))
      else if isStateStoreAliyunOSS f then omap (\<lambda>x. ''hummock+oss://'' @ oss_Bucket x) (deref (ss_AliyunOSS s))
      else if isStateStoreAzureBlob f then omap (\<lambda>x. ''hummock+azblob://'' @ az_Container x) (deref (ss_AzureBlob s))
      else if isStateStoreHDFS f then omap (\<lambda>x. ''hummock+hdfs://'' @ hdfs_NameNode x) (deref (ss_HDFS s))
      else if isStateStoreWebHDFS f then omap (\<lambda>x. ''hummock+webhdfs://'' @ hdfs_NameNode x) (deref (ss_WebHDFS s))
      else if isStateStoreLocalDisk f then omap (\<lambda>x. ''hummock+fs://'' @ ld_Root x) (deref (ss_LocalDisk s))
      else if isStateStoreHuaweiCloudOBS f then omap (\<lambda>x. ''hummock+obs://'' @ obs_Bucket x) (deref (ss_HuaweiCloudOBS s))
      else Panics ''unrecognized storage type'')"

section \<open>Names and labels\<close>

definition groupSuffix :: "string \<Rightarrow> string" where
  "groupSuffix grp = (if grp = [] then [] else CHR ''-'' # grp)"

definition componentName :: "RisingWaveObjectFactory \<Rightarrow> string \<Rightarrow> string \<Rightarrow> string outcome" where
  "componentName f component grp =
     (if component = ComponentMeta then Returns (rwName f @ ''-meta'' @ groupSuffix grp)
      else if component = ComponentCompute then Returns (rwName f @ ''-compute'' @ groupSuffix grp)
      else if component = ComponentFrontend then Returns (rwName f @ ''-frontend'' @ groupSuffix grp)
      else if component = ComponentCompactor then Returns (rwName f @ ''-compactor'' @ groupSuffix grp)
      else if component = ComponentStandalone then Returns (rwName f @ ''-standalone'')
      else if component = ComponentConfig then Returns (rwName f @ ''-default-config'')
      else Panics ''never reach here'')"

definition componentAddr :: "RisingWaveObjectFactory \<Rightarrow> string \<Rightarrow> string \<Rightarrow> string outcome" where
  "componentAddr f component grp =
     omap (\<lambda>n. if isFullKubernetesAddr f then n @ ''.$(POD_NAMESPACE).svc'' else n) (componentName f component grp)"

definition mergeMap :: "strmap \<Rightarrow> strmap \<Rightarrow> strmap" where
  "mergeMap a b = smap (a @ b)"

definition getInheritedLabels :: "RisingWaveObjectFactory \<Rightarrow> strmap" where
  "getInheritedLabels f = f_inheritedLabels f"

definition generationLabel :: "RisingWaveObjectFactory \<Rightarrow> bool \<Rightarrow> string" where
  "generationLabel f sync = (if \<not> sync then NoSync else showInt (om_Generation (rw_Meta (f_risingwave f))))"

definition newObjectMeta :: "RisingWaveObjectFactory \<Rightarrow> string \<Rightarrow> strmap \<Rightarrow> ObjectMeta" where
  "newObjectMeta f n labels = zeroObjectMeta\<lparr>om_Name := n, om_Namespace := namespace f, om_Labels := mergeMap labels (getInheritedLabels f)\<rparr>"

definition getObjectMetaForGeneralResources :: "RisingWaveObjectFactory \<Rightarrow> string \<Rightarrow> bool \<Rightarrow> ObjectMeta" where
  "getObjectMetaForGeneralResources f n sync =
     newObjectMeta f n (smap [(LabelRisingWaveName, rwName f), (LabelRisingWaveGeneration, generationLabel f sync),
       (LabelRisingWaveOperatorVersion, f_operatorVersion f)])"

definition getObjectMetaForComponentLevelResources :: "RisingWaveObjectFactory \<Rightarrow> string \<Rightarrow> bool \<Rightarrow> ObjectMeta outcome" where
  "getObjectMetaForComponentLevelResources f component sync =
     omap (\<lambda>n. newObjectMeta f n (smap [(LabelRisingWaveName, rwName f), (LabelRisingWaveComponent, component),
         (LabelRisingWaveGeneration, generationLabel f sync), (LabelRisingWaveOperatorVersion, f_operatorVersion f)]))
       (componentName f component [])"

definition getObjectMetaForComponentGroupLevelResources ::
  "RisingWaveObjectFactory \<Rightarrow> string \<Rightarrow> string \<Rightarrow> bool \<Rightarrow> ObjectMeta outcome" where
  "getObjectMetaForComponentGroupLevelResources f component grp sync =
     omap (\<lambda>n. newObjectMeta f n (smap [(LabelRisingWaveName, rwName f), (LabelRisingWaveComponent, component),
         (LabelRisingWaveGeneration, generationLabel f sync), (LabelRisingWaveGroup, grp),
         (LabelRisingWaveOperatorVersion, f_operatorVersion f)]))
       (componentName f component grp)"

definition podLabelsOrSelectorsForComponent :: "RisingWaveObjectFactory \<Rightarrow> string \<Rightarrow> strmap" where
  "podLabelsOrSelectorsForComponent f component =
     smap [(LabelRisingWaveName, rwName f), (LabelRisingWaveComponent, component)]"

definition podLabelsOrSelectorsForComponentGroup :: "RisingWaveObjectFactory \<Rightarrow> string \<Rightarrow> string \<Rightarrow> strmap" where
  "podLabelsOrSelectorsForComponentGroup f component grp =
     smap [(LabelRisingWaveName, rwName f), (LabelRisingWaveComponent, component), (LabelRisingWaveGroup, grp)]"

text \<open>The labels that objects inherit: those whose key starts with one of the listed prefixes and a slash.\<close>

definition captureInheritedLabels :: "RisingWave \<Rightarrow> strmap" where
  "captureInheritedLabels rw =
     (case map_of (om_Annotations (rw_Meta rw)) AnnotationInheritLabelPrefix of
        None \<Rightarrow> []
      | Some inheritLabelPrefix \<Rightarrow>
          (let prefixes = filter (\<lambda>s. length s > 0 \<and> s \<noteq> ''risingwave'') (map trimSpace (splitOn CHR '','' inheritLabelPrefix))
           in if prefixes = [] then []
              else filter (\<lambda>(k, v). \<exists>p \<in> set prefixes. hasPrefix k (p @ ''/'')) (om_Labels (rw_Meta rw))))"

definition NewRisingWaveObjectFactory :: "RisingWave \<Rightarrow> FactoryLib \<Rightarrow> string \<Rightarrow> RisingWaveObjectFactory" where
  "NewRisingWaveObjectFactory rw scheme operatorVersion =
     \<lparr>f_scheme = scheme, f_risingwave = rw, f_inheritedLabels = captureInheritedLabels rw, f_operatorVersion = operatorVersion\<rparr>"

section \<open>Environment variables of the meta store\<close>

definition envsForEtcd :: "RisingWaveObjectFactory \<Rightarrow> EnvVar list outcome" where
  "envsForEtcd f =
     omap (\<lambda>etcd.
       case etcd_Credentials etcd of
         None \<Rightarrow> []
       | Some c \<Rightarrow>
           if ec_SecretName c = [] then []
           else [envSecret EtcdUsernameLegacy (ec_SecretName c) (ec_UsernameKeyRef c),
                 envSecret EtcdPasswordLegacy (ec_SecretName c) (ec_PasswordKeyRef c),
                 envSecret RWEtcdUsername (ec_SecretName c) (ec_UsernameKeyRef c),
                 envSecret RWEtcdPassword (ec_SecretName c) (ec_PasswordKeyRef c)])
       (deref (ms_Etcd (metaStore f)))"

definition envsForSQLite :: "EnvVar list" where
  "envsForSQLite = []"

definition envsForMySQL :: "RisingWaveObjectFactory \<Rightarrow> EnvVar list outcome" where
  "envsForMySQL f =
     omap (\<lambda>m. let c = mysql_Credentials m in
         [envSecret RWMySQLUsername (dbc_SecretName c) (dbc_UsernameKeyRef c),
          envSecret RWSQLUsername (dbc_SecretName c) (dbc_UsernameKeyRef c),
          envSecret RWMySQLPassword (dbc_SecretName c) (dbc_PasswordKeyRef c),
          envSecret RWSQLPassword (dbc_SecretName c) (dbc_PasswordKeyRef c)])
       (deref (ms_MySQL (metaStore f)))"

definition envsForPostgreSQL :: "RisingWaveObjectFactory \<Rightarrow> EnvVar list outcome" where
  "envsForPostgreSQL f =
     omap (\<lambda>m. let c = pg_Credentials m in
         [envSecret RWPostgresUsername (dbc_SecretName c) (dbc_UsernameKeyRef c),
          envSecret RWPostgresPassword (dbc_SecretName c) (dbc_PasswordKeyRef c),
          envSecret RWSQLUsername (dbc_SecretName c) (dbc_UsernameKeyRef c),
          envSecret RWSQLPassword (dbc_SecretName c) (dbc_PasswordKeyRef c)])
       (deref (ms_PostgreSQL (metaStore f)))"

definition envsForMetaStore :: "RisingWaveObjectFactory \<Rightarrow> EnvVar list outcome" where
  "envsForMetaStore f =
     (if isMetaStoreMemory f then Returns []
      else if isMetaStoreEtcd f then envsForEtcd f
      else if isMetaStoreSQLite f then Returns envsForSQLite
      else if isMetaStoreMySQL f then envsForMySQL f
      else if isMetaStorePostgreSQL f then envsForPostgreSQL f
      else Panics ''unsupported meta storage type'')"

definition formatConnectionOptions :: "strmap \<Rightarrow> string" where
  "formatConnectionOptions opts = (if length opts = 0 then [] else CHR ''?'' # encodeValues opts)"

definition getDataDirectory :: "RisingWaveObjectFactory \<Rightarrow> string" where
  "getDataDirectory f =
     (let p = rst_StateStoreRootPath (rw_Status (f_risingwave f));
          rootPath = (if p = [] then StateStoreRootPath (f_risingwave f) else p)
      in pathJoin rootPath (ss_DataDirectory (stateStore f)))"

section \<open>The license key and the secret store\<close>

definition useLicenseFile :: "RisingWaveObjectFactory \<Rightarrow> bool" where
  "useLicenseFile f =
     (case Option.bind (rws_LicenseKey (rwSpec f)) lic_PassAsFile of
        Some b \<Rightarrow> b
      | None \<Rightarrow>
          (let v = GetVersionFromImage (rws_Image (rwSpec f))
           in \<not> hasPrefix v ''v0.'' \<and> \<not> hasPrefix v ''v1.'' \<and> \<not> hasPrefix v ''v2.0.''))"

text \<open>The license key when a secret holds it.\<close>

definition licenseSecret :: "RisingWaveObjectFactory \<Rightarrow> (string \<times> string) option" where
  "licenseSecret f =
     (case rws_LicenseKey (rwSpec f) of
        None \<Rightarrow> None
      | Some l \<Rightarrow>
          if lic_SecretName l = [] then None
          else Some (lic_SecretName l, if lic_SecretKey l = [] then RisingWaveLicenseKeySecretKey else lic_SecretKey l))"

definition volumeAndVolumeMountForLicenseKey :: "RisingWaveObjectFactory \<Rightarrow> Volume list \<times> VolumeMount list" where
  "volumeAndVolumeMountForLicenseKey f =
     (case licenseSecret f of
        None \<Rightarrow> ([], [])
      | Some (secretName, secretKey) \<Rightarrow>
          if \<not> useLicenseFile f then ([], [])
          else ([\<lparr>vol_Name = ''license'', vol_Source = SecretVolume \<lparr>fs_Name = secretName,
                   fs_Items = [\<lparr>kp_Key = secretKey, kp_Path = pathBase risingwaveLicenseKeyPath\<rparr>], fs_Optional = None\<rparr>\<rparr>],
                [\<lparr>vm_Name = ''license'', vm_ReadOnly = True, vm_MountPath = pathDir risingwaveLicenseKeyPath, vm_Rest = []\<rparr>]))"

definition envsForLicenseKey :: "RisingWaveObjectFactory \<Rightarrow> EnvVar list" where
  "envsForLicenseKey f =
     (case licenseSecret f of
        None \<Rightarrow> []
      | Some (secretName, secretKey) \<Rightarrow>
          if useLicenseFile f then [envVal RWLicenseKeyPath risingwaveLicenseKeyPath]
          else [envSecret RWLicenseKey secretName secretKey])"

definition envsForSecretStore :: "RisingWaveObjectFactory \<Rightarrow> EnvVar list" where
  "envsForSecretStore f =
     (let pk = sst_PrivateKey (rws_SecretStore (rwSpec f)) in
      case pk_SecretRef pk of
        Some ref \<Rightarrow> [envSecret RWSecretStorePrivateKeyHex (pkr_Name ref) (pkr_Key ref)]
      | None \<Rightarrow> (case pk_Value pk of Some v \<Rightarrow> [envVal RWSecretStorePrivateKeyHex v] | None \<Rightarrow> []))"

end
