(* ===== verification/FactoryArgs.thy ===== *)
theory FactoryArgs
  imports FactoryEnv
begin

text \<open>
  \<^verbatim>\<open>pkg/factory/risingwave_object_factory.go\<close>, second part: the environment variables and arguments of the containers of each
  component, the ports, and the volumes of configuration and certificates.
\<close>

section \<open>The meta node\<close>

definition addr :: "string \<Rightarrow> int \<Rightarrow> string" where
  "addr host port = host @ CHR '':'' # showInt port"

text \<open>The variables that select the meta store.\<close>

definition metaBackendEnvs :: "RisingWaveObjectFactory \<Rightarrow> bool \<Rightarrow> EnvVar list outcome" where
  "metaBackendEnvs f viaEnv =
     (if isMetaStoreMemory f then Returns [envVal RWBackend ''mem'']
      else if isMetaStoreEtcd f then
        omap (\<lambda>etcd. [envVal RWBackend ''etcd'', envVal RWEtcdEndpoints (etcd_Endpoint etcd)] @
            (case etcd_Credentials etcd of
               None \<Rightarrow> []
             | Some c \<Rightarrow> if ec_SecretName c \<noteq> [] then [envVal RWEtcdAuth ''true''] else []))
          (deref (ms_Etcd (metaStore f)))
      else if isMetaStoreSQLite f then
        omap (\<lambda>s. if viaEnv then [envVal RWBackend ''sqlite'', envVal RWSQLEndpoint (sqlite_Path s)]
            else [envVal RWBackend ''sql'', envVal RWSQLEndpoint (''sqlite://'' @ sqlite_Path s @ ''?mode=rwc'')])
          (deref (ms_SQLite (metaStore f)))
      else if isMetaStoreMySQL f then
        omap (\<lambda>m. if viaEnv
            then [envVal RWBackend ''mysql'',
                  envVal RWSQLEndpoint (addr (mysql_Host m) (mysql_Port m) @ formatConnectionOptions (mysql_Options m)),
                  envVal RWSQLDatabase (mysql_Database m)]
            else [envVal RWBackend ''sql'',
                  envVal RWSQLEndpoint (''mysql://'' @ envRef RWMySQLUsername @ '':'' @ envRef RWMySQLPassword @ ''@'' @
                    addr (mysql_Host m) (mysql_Port m) @ ''/'' @ mysql_Database m @ formatConnectionOptions (mysql_Options m))])
          (deref (ms_MySQL (metaStore f)))
      else if isMetaStorePostgreSQL f then
        omap (\<lambda>m. if viaEnv
            then [envVal RWBackend ''postgres'',
                  envVal RWSQLEndpoint (addr (pg_Host m) (pg_Port m) @ formatConnectionOptions (pg_Options m)),
                  envVal RWSQLDatabase (pg_Database m)]
            else [envVal RWBackend ''sql'',
                  envVal RWSQLEndpoint (''postgres://'' @ envRef RWPostgresUsername @ '':'' @ envRef RWPostgresPassword @ ''@'' @
                    addr (pg_Host m) (pg_Port m) @ ''/'' @ pg_Database m @ formatConnectionOptions (pg_Options m))])
          (deref (ms_PostgreSQL (metaStore f)))
      else Panics ''unsupported meta storage type'')"

definition coreEnvsForMeta :: "RisingWaveObjectFactory \<Rightarrow> string \<Rightarrow> EnvVar list outcome" where
  "coreEnvsForMeta f img =
     obind (hummockConnectionStr f) (\<lambda>hummock.
     obind (metaBackendEnvs f (isSQLCredentialsViaEnvSupported (f_scheme f) (GetVersionFromImage img))) (\<lambda>backend.
       Returns ([envVal RWStateStore hummock, envVal RWDataDirectory (getDataDirectory f),
                 envVal RWDashboardHost (addr ''0.0.0.0'' MetaDashboardPort)] @
         backend @ envsForLicenseKey f @ envsForSecretStore f)))"

text \<open>The address a node advertises: that of the pod or its name below the service.\<close>

definition advertiseAddr :: "RisingWaveObjectFactory \<Rightarrow> string \<Rightarrow> int \<Rightarrow> string outcome" where
  "advertiseAddr f component port =
     (if derefBool (rws_EnableAdvertisingWithIP (rwSpec f)) False then Returns (addr ''$(POD_IP)'' port)
      else omap (\<lambda>a. addr (''$(POD_NAME).'' @ a) port) (componentAddr f component []))"

definition configPath :: string where
  "configPath = pathJoin risingwaveConfigMountPath risingwaveConfigFileName"

definition envsForMetaArgs :: "RisingWaveObjectFactory \<Rightarrow> string \<Rightarrow> EnvVar list outcome" where
  "envsForMetaArgs f img =
     obind (advertiseAddr f ComponentMeta MetaServicePort) (\<lambda>advertise.
     obind (coreEnvsForMeta f img) (\<lambda>core.
       Returns ([envVal RWMetaAddr (addr ''http://127.0.0.1'' MetaServicePort),
                 envVal RWConfigPath configPath,
                 envVal RWListenAddr (addr ''0.0.0.0'' MetaServicePort),
                 envVal RWAdvertiseAddr advertise,
                 envVal RWPrometheusHost (addr ''0.0.0.0'' MetaMetricsPort)] @ core)))"

section \<open>The other nodes\<close>

definition volumeAndVolumeMountForTLS :: "RisingWaveObjectFactory \<Rightarrow> (Volume \<times> VolumeMount) option" where
  "volumeAndVolumeMountForTLS f =
     (case rws_TLS (rwSpec f) of
        None \<Rightarrow> None
      | Some tls \<Rightarrow>
          if tls_SecretName tls = [] then None
          else Some (\<lparr>vol_Name = risingwaveTLSVolume, vol_Source = SecretVolume \<lparr>fs_Name = tls_SecretName tls, fs_Items = [], fs_Optional = None\<rparr>\<rparr>,
                     \<lparr>vm_Name = risingwaveTLSVolume, vm_ReadOnly = True, vm_MountPath = risingwaveTLSCertsMountPath, vm_Rest = []\<rparr>))"

definition envsForTLS :: "RisingWaveObjectFactory \<Rightarrow> EnvVar list" where
  "envsForTLS f =
     (case rws_TLS (rwSpec f) of
        None \<Rightarrow> []
      | Some tls \<Rightarrow>
          if tls_SecretName tls \<noteq> []
          then [envVal RWSslKey (pathJoin risingwaveTLSCertsMountPath ''tls.key''),
                envVal RWSslCert (pathJoin risingwaveTLSCertsMountPath ''tls.crt'')]
          else [])"

definition isWebhookListenerEnabled :: "RisingWaveObjectFactory \<Rightarrow> bool" where
  "isWebhookListenerEnabled f = derefBool (rws_EnableWebhookListener (rwSpec f)) False"

definition metaLoadBalance :: "RisingWaveObjectFactory \<Rightarrow> string outcome" where
  "metaLoadBalance f = omap (\<lambda>a. addr (''load-balance+http://'' @ a) MetaServicePort) (componentAddr f ComponentMeta [])"

definition envsForFrontendArgs :: "RisingWaveObjectFactory \<Rightarrow> EnvVar list outcome" where
  "envsForFrontendArgs f =
     omap (\<lambda>meta.
       [envVal RWListenAddr (addr ''0.0.0.0'' FrontendServicePort),
        envVal RWConfigPath configPath,
        envVal RWAdvertiseAddr (addr ''$(POD_IP)'' FrontendServicePort),
        envVal RWMetaAddr meta,
        envVal RWMetaAddrLegacy meta,
        envVal RWPrometheusListenerAddr (addr ''0.0.0.0'' FrontendMetricsPort)] @
       (if isWebhookListenerEnabled f then [envVal RWWebhookListenAddr (addr ''0.0.0.0'' FrontendWebhookPort)] else []) @
       envsForTLS f)
     (metaLoadBalance f)"

definition envsForResourceLimits :: "int \<Rightarrow> int \<Rightarrow> EnvVar list" where
  "envsForResourceLimits cpuLimit memLimit =
     (if cpuLimit \<noteq> 0 then [envVal RWParallelism (showInt cpuLimit)] else []) @
     (if memLimit \<noteq> 0 then [envVal RWTotalMemoryBytes (showInt memLimit)] else [])"

definition envsForComputeArgs :: "RisingWaveObjectFactory \<Rightarrow> int \<Rightarrow> int \<Rightarrow> EnvVar list outcome" where
  "envsForComputeArgs f cpuLimit memLimit =
     obind (advertiseAddr f ComponentCompute ComputeServicePort) (\<lambda>advertise.
     omap (\<lambda>meta.
       [envVal RWConfigPath configPath,
        envVal RWListenAddr (addr ''0.0.0.0'' ComputeServicePort),
        envVal RWAdvertiseAddr advertise,
        envVal RWMetaAddr meta,
        envVal RWMetaAddrLegacy meta,
        envVal RWPrometheusListenerAddr (addr ''0.0.0.0'' ComputeMetricsPort)] @
       envsForResourceLimits cpuLimit memLimit)
     (metaLoadBalance f))"

definition envsForCompactorArgs :: "RisingWaveObjectFactory \<Rightarrow> EnvVar list outcome" where
  "envsForCompactorArgs f =
     omap (\<lambda>meta.
       [envVal RWConfigPath configPath,
        envVal RWListenAddr (addr ''0.0.0.0'' CompactorServicePort),
        envVal RWAdvertiseAddr (addr ''$(POD_IP)'' CompactorServicePort),
        envVal RWPrometheusListenerAddr (addr ''0.0.0.0'' CompactorMetricsPort),
        envVal RWMetaAddr meta,
        envVal RWMetaAddrLegacy meta])
     (metaLoadBalance f)"

section \<open>The state store\<close>

definition envsForMinIO :: "RisingWaveObjectFactory \<Rightarrow> EnvVar list outcome" where
  "envsForMinIO f =
     omap (\<lambda>m. let c = minio_Credentials m in
         [envVal MinIOEndpoint (minio_Endpoint m),
          envVal MinIOBucket (minio_Bucket m),
          envSecret MinIOUsername (mc_SecretName c) (mc_UsernameKeyRef c),
          envSecret MinIOPassword (mc_SecretName c) (mc_PasswordKeyRef c)])
       (deref (ss_MinIO (stateStore f)))"

definition envsForAWSS3 :: "string \<Rightarrow> string \<Rightarrow> RisingWaveS3Credentials \<Rightarrow> bool \<Rightarrow> EnvVar list" where
  "envsForAWSS3 region bucket c forcePathStyle =
     [envVal AWSRegion region, envVal AWSS3Bucket bucket] @
     (if \<not> derefBool (s3c_UseServiceAccount c) False
      then [envSecret AWSAccessKeyID (s3c_SecretName c) (s3c_AccessKeyRef c),
            envSecret AWSSecretAccessKey (s3c_SecretName c) (s3c_SecretAccessKeyRef c)] else []) @
     (if forcePathStyle then [envVal AWSForcePathStyle ''true''] else [])"

definition envsForS3Compatible :: "string \<Rightarrow> string \<Rightarrow> string \<Rightarrow> RisingWaveS3Credentials \<Rightarrow> bool \<Rightarrow> EnvVar list" where
  "envsForS3Compatible region endpoint bucket c forcePathStyle =
     [envVal AWSEC2MetadataDisabled ''true'',
      envVal S3CompatibleBucket bucket,
      (if length region > 0 then envVal S3CompatibleRegion region
       else envSecret S3CompatibleRegion (s3c_SecretName c) SecretKeyAWSS3Region),
      envSecret S3CompatibleAccessKeyID (s3c_SecretName c) (s3c_AccessKeyRef c),
      envSecret S3CompatibleSecretAccessKey (s3c_SecretName c) (s3c_SecretAccessKeyRef c),
      envVal S3CompatibleEndpoint endpoint] @
     (if forcePathStyle then [envVal S3CompatibleForcePathStyle ''true''] else [])"

text \<open>The endpoint with the variables replaced and a scheme in front.\<close>

definition s3Endpoint :: "string \<Rightarrow> string" where
  "s3Endpoint endpoint =
     (let e = replaceAll (replaceAll (trimSpace endpoint) ''${REGION}'' (envRef S3CompatibleRegion)) ''${BUCKET}'' (envRef S3CompatibleBucket)
      in if \<not> hasPrefix e ''https://'' \<and> \<not> hasPrefix e ''http://'' then ''https://'' @ e else e)"

definition envsForS3 :: "RisingWaveObjectFactory \<Rightarrow> EnvVar list outcome" where
  "envsForS3 f =
     omap (\<lambda>s3.
       if length (s3_Endpoint s3) > 0
       then envsForS3Compatible (s3_Region s3) (s3Endpoint (s3_Endpoint s3)) (s3_Bucket s3) (s3_Credentials s3) (s3_ForcePathStyle s3)
       else envsForAWSS3 (s3_Region s3) (s3_Bucket s3) (s3_Credentials s3) (s3_ForcePathStyle s3))
     (deref (ss_S3 (stateStore f)))"

definition envsForGCS :: "RisingWaveObjectFactory \<Rightarrow> EnvVar list outcome" where
  "envsForGCS f =
     omap (\<lambda>gcs. let c = gcs_Credentials gcs in
         if derefBool (gcsc_UseWorkloadIdentity c) False then []
         else [envSecret GoogleApplicationCredentials (gcsc_SecretName c) (gcsc_ServiceAccountCredentialsKeyRef c)])
       (deref (ss_GCS (stateStore f)))"

definition aliyunOSSEndpoint :: string where
  "aliyunOSSEndpoint = ''https://oss-'' @ envRef AliyunOSSRegion @ ''.aliyuncs.com''"

definition internalAliyunOSSEndpoint :: string where
  "internalAliyunOSSEndpoint = ''https://oss-'' @ envRef AliyunOSSRegion @ ''-internal.aliyuncs.com''"

definition huaweiCloudOBSEndpoint :: string where
  "huaweiCloudOBSEndpoint = ''https://obs.'' @ envRef HuaweiCloudOBSRegion @ ''.myhuaweicloud.com''"

definition envsForAliyunOSS :: "RisingWaveObjectFactory \<Rightarrow> EnvVar list outcome" where
  "envsForAliyunOSS f =
     omap (\<lambda>oss. let c = oss_Credentials oss in
         [envVal AliyunOSSRegion (oss_Region oss),
          envSecret AliyunOSSAccessKeyID (ossc_SecretName c) (ossc_AccessKeyIDRef c),
          envSecret AliyunOSSSecretAccessKey (ossc_SecretName c) (ossc_AccessKeySecretRef c),
          envVal AliyunOSSEndpoint (if oss_InternalEndpoint oss then internalAliyunOSSEndpoint else aliyunOSSEndpoint)])
       (deref (ss_AliyunOSS (stateStore f)))"

definition envsForAzureBlob :: "RisingWaveObjectFactory \<Rightarrow> EnvVar list outcome" where
  "envsForAzureBlob f =
     omap (\<lambda>az. let c = az_Credentials az in
         [envVal AzureBlobEndpoint (az_Endpoint az)] @
         (if \<not> derefBool (azc_UseServiceAccount c) False
          then [envSecret AzureBlobAccountName (azc_SecretName c) (azc_AccountNameRef c),
                envSecret AzureBlobAccountKey (azc_SecretName c) (azc_AccountKeyRef c)] else []))
       (deref (ss_AzureBlob (stateStore f)))"

definition envsForHDFS :: "EnvVar list" where "envsForHDFS = []"
definition envsForWebHDFS :: "EnvVar list" where "envsForWebHDFS = []"
definition envsForLocalDisk :: "EnvVar list" where "envsForLocalDisk = []"

definition envsForHuaweiCloudOBS :: "RisingWaveObjectFactory \<Rightarrow> EnvVar list outcome" where
  "envsForHuaweiCloudOBS f =
     omap (\<lambda>obs. let c = obs_Credentials obs in
         [envVal HuaweiCloudOBSRegion (obs_Region obs),
          envVal HuaweiCloudOBSEndpoint huaweiCloudOBSEndpoint,
          envSecret HuaweiCloudOBSAccessKeyID (obsc_SecretName c) (obsc_AccessKeyIDRef c),
          envSecret HuaweiCloudOBSSecretAccessKey (obsc_SecretName c) (obsc_AccessKeySecretRef c)])
       (deref (ss_HuaweiCloudOBS (stateStore f)))"

definition envsForStateStore :: "RisingWaveObjectFactory \<Rightarrow> EnvVar list outcome" where
  "envsForStateStore f =
     (if isStateStoreMinIO f then envsForMinIO f
      else if isStateStoreS3 f \<or> isStateStoreS3Compatible f then envsForS3 f
      else if isStateStoreGCS f then envsForGCS f
      else if isStateStoreAliyunOSS f then envsForAliyunOSS f
      else if isStateStoreAzureBlob f then envsForAzureBlob f
      else if isStateStoreHDFS f then Returns envsForHDFS
      else if isStateStoreWebHDFS f then Returns envsForWebHDFS
      else if isStateStoreLocalDisk f then Returns envsForLocalDisk
      else if isStateStoreHuaweiCloudOBS f then envsForHuaweiCloudOBS f
      else Returns [])"

section \<open>Configuration and ports\<close>

definition risingWaveConfigVolumeOf :: "RisingWaveObjectFactory \<Rightarrow> RisingWaveNodeGroup \<Rightarrow> Volume outcome" where
  "risingWaveConfigVolumeOf f nodeGroup =
     (let src = (case ng_Configuration nodeGroup of Some c \<Rightarrow> c | None \<Rightarrow> rws_Configuration (rwSpec f)) in
      case cfg_ConfigMap src of
        Some cm \<Rightarrow> Returns \<lparr>vol_Name = risingWaveConfigVolume, vol_Source = ConfigMapVolume \<lparr>fs_Name = cms_Name cm,
          fs_Items = [\<lparr>kp_Key = cms_Key cm, kp_Path = risingwaveConfigFileName\<rparr>], fs_Optional = cms_Optional cm\<rparr>\<rparr>
      | None \<Rightarrow>
          (case cfg_Secret src of
             Some s \<Rightarrow> Returns \<lparr>vol_Name = risingWaveConfigVolume, vol_Source = SecretVolume \<lparr>fs_Name = css_Name s,
               fs_Items = [\<lparr>kp_Key = css_Key s, kp_Path = risingwaveConfigFileName\<rparr>], fs_Optional = css_Optional s\<rparr>\<rparr>
           | None \<Rightarrow>
               omap (\<lambda>n. \<lparr>vol_Name = risingWaveConfigVolume, vol_Source = ConfigMapVolume \<lparr>fs_Name = n,
                   fs_Items = [\<lparr>kp_Key = risingWaveConfigMapKey, kp_Path = risingwaveConfigFileName\<rparr>], fs_Optional = None\<rparr>\<rparr>)
                 (componentName f ComponentConfig [])))"

definition volumeMountForConfig :: VolumeMount where
  "volumeMountForConfig = \<lparr>vm_Name = risingWaveConfigVolume, vm_ReadOnly = True, vm_MountPath = risingwaveConfigMountPath, vm_Rest = []\<rparr>"

definition tcpPort :: "string \<Rightarrow> int \<Rightarrow> ContainerPort" where
  "tcpPort n p = \<lparr>cp_Name = n, cp_Protocol = ''TCP'', cp_ContainerPort = p\<rparr>"

definition portsForMetaContainer :: "ContainerPort list" where
  "portsForMetaContainer =
     [tcpPort PortService MetaServicePort, tcpPort PortMetrics MetaMetricsPort, tcpPort PortDashboard MetaDashboardPort]"

definition portsForFrontendContainer :: "RisingWaveObjectFactory \<Rightarrow> ContainerPort list" where
  "portsForFrontendContainer f =
     [tcpPort PortService FrontendServicePort, tcpPort PortMetrics FrontendMetricsPort] @
     (if isWebhookListenerEnabled f then [tcpPort PortHTTP FrontendWebhookPort] else [])"

definition portsForComputeContainer :: "ContainerPort list" where
  "portsForComputeContainer = [tcpPort PortService ComputeServicePort, tcpPort PortMetrics ComputeMetricsPort]"

definition portsForCompactorContainer :: "ContainerPort list" where
  "portsForCompactorContainer = [tcpPort PortService CompactorServicePort, tcpPort PortMetrics CompactorMetricsPort]"

definition portsForStandaloneContainer :: "RisingWaveObjectFactory \<Rightarrow> ContainerPort list" where
  "portsForStandaloneContainer f =
     [tcpPort PortMetrics MetaMetricsPort, tcpPort PortService FrontendServicePort, tcpPort PortDashboard MetaDashboardPort] @
     (if isWebhookListenerEnabled f then [tcpPort PortHTTP FrontendWebhookPort] else [])"

section \<open>Arguments of the standalone mode\<close>

definition argsForStandaloneMetaStore :: "RisingWaveObjectFactory \<Rightarrow> string list" where
  "argsForStandaloneMetaStore f =
     [''--backend $(RW_BACKEND)''] @
     (case ms_Etcd (metaStore f) of
        None \<Rightarrow> []
      | Some etcd \<Rightarrow>
          [''--etcd-endpoints $(RW_ETCD_ENDPOINTS)''] @
          (case etcd_Credentials etcd of
             None \<Rightarrow> []
           | Some c \<Rightarrow>
               if ec_SecretName c \<noteq> []
               then [''--etcd-auth'', ''--etcd-username $(RW_ETCD_USERNAME)'', ''--etcd-password $(RW_ETCD_PASSWORD)'']
               else []))"

definition argsForStandalone :: "RisingWaveObjectFactory \<Rightarrow> string list" where
  "argsForStandalone f =
     [''--config-path=$(RW_CONFIG_PATH)'',
      addr ''--prometheus-listener-addr=0.0.0.0'' MetaMetricsPort,
      ''--meta-opts='' @ joinStr '' ''
        ([addr ''--listen-addr 127.0.0.1'' MetaServicePort,
          addr ''--advertise-addr 127.0.0.1'' MetaServicePort,
          addr ''--dashboard-host 0.0.0.0'' MetaDashboardPort,
          addr ''--prometheus-host 0.0.0.0'' MetaMetricsPort,
          ''--state-store $(RW_STATE_STORE)'',
          ''--data-directory $(RW_DATA_DIRECTORY)''] @ argsForStandaloneMetaStore f),
      ''--compute-opts='' @ joinStr '' ''
        [addr ''--listen-addr 127.0.0.1'' ComputeServicePort,
         addr ''--advertise-addr 127.0.0.1'' ComputeServicePort,
         addr ''--meta-address http://127.0.0.1'' MetaServicePort],
      ''--frontend-opts='' @ joinStr '' ''
        [addr ''--listen-addr 0.0.0.0'' FrontendServicePort,
         addr ''--advertise-addr 127.0.0.1'' FrontendServicePort,
         addr ''--meta-addr http://127.0.0.1'' MetaServicePort],
      ''--compactor-opts='' @ joinStr '' ''
        [addr ''--listen-addr 127.0.0.1'' CompactorServicePort,
         addr ''--advertise-addr 127.0.0.1'' CompactorServicePort,
         addr ''--meta-address http://127.0.0.1'' MetaServicePort]]"

definition argsForStandaloneV2 :: "string list" where
  "argsForStandaloneV2 =
     [''--config-path=$(RW_CONFIG_PATH)'',
      addr ''--prometheus-listener-addr=0.0.0.0'' MetaMetricsPort,
      addr ''--listen-addr=0.0.0.0'' FrontendServicePort]"

end
