(* ===== verification/EnvHeap.thy ===== *)
theory EnvHeap
  imports CoreV1 "HOL-Library.Multiset"
begin

text \<open>
  The priority queue of \<^verbatim>\<open>pkg/utils/sort.go\<close>: an array of pairs of an environment variable's name and its index,
  ordered by name, with the operations of \<^verbatim>\<open>container/heap\<close>. The interface of a priority queue is the locale
  \<open>min_queue\<close>; the array heap is an instance of it.
\<close>

section \<open>The operations\<close>

record envVarIdxPair =
  EnvVarName :: string
  Idx :: nat

type_synonym envVarPriorityQueue = "envVarIdxPair list"

definition Less :: "envVarPriorityQueue \<Rightarrow> nat \<Rightarrow> nat \<Rightarrow> bool" where
  "Less pq i j \<longleftrightarrow> EnvVarName (pq ! i) < EnvVarName (pq ! j)"

definition Swap :: "envVarPriorityQueue \<Rightarrow> nat \<Rightarrow> nat \<Rightarrow> envVarPriorityQueue" where
  "Swap pq i j = pq[i := pq ! j, j := pq ! i]"

definition Push :: "envVarPriorityQueue \<Rightarrow> envVarIdxPair \<Rightarrow> envVarPriorityQueue" where
  "Push pq x = pq @ [x]"

definition Pop :: "envVarPriorityQueue \<Rightarrow> envVarIdxPair \<times> envVarPriorityQueue" where
  "Pop pq = (pq ! (length pq - 1), take (length pq - 1) pq)"

text \<open>\<^verbatim>\<open>up\<close>, \<^verbatim>\<open>down\<close>, \<^verbatim>\<open>Push\<close> and \<^verbatim>\<open>Pop\<close> of \<^verbatim>\<open>container/heap\<close>.\<close>

function up :: "envVarPriorityQueue \<Rightarrow> nat \<Rightarrow> envVarPriorityQueue" where
  "up h j =
     (let i = (j - 1) div 2 in
      if i = j \<or> \<not> Less h j i then h else up (Swap h i j) i)"
  by pat_completeness auto
termination
  by (relation "measure snd") auto

definition lesserChild :: "envVarPriorityQueue \<Rightarrow> nat \<Rightarrow> nat \<Rightarrow> nat" where
  "lesserChild h j1 n = (if j1 + 1 < n \<and> Less h (j1 + 1) j1 then j1 + 1 else j1)"

lemma lesserChild_bounds: "j1 \<le> lesserChild h j1 n" "lesserChild h j1 n \<le> j1 + 1" "j1 < n \<Longrightarrow> lesserChild h j1 n < n"
  by (simp_all add: lesserChild_def)

function down :: "envVarPriorityQueue \<Rightarrow> nat \<Rightarrow> nat \<Rightarrow> envVarPriorityQueue" where
  "down h i n =
     (let j1 = 2 * i + 1 in
      if n \<le> j1 then h
      else let j = lesserChild h j1 n
           in if \<not> Less h j i then h else down (Swap h i j) j n)"
  by pat_completeness auto
termination
proof (relation "measure (\<lambda>(h, i, n). n - i)", goal_cases)
  case 1
  then show ?case by simp
next
  case (2 h i n j1 j)
  then show ?case using lesserChild_bounds(1) [of j1 h n] lesserChild_bounds(3) [of j1 n h] by simp
qed

declare up.simps [simp del] down.simps [simp del]

definition heapPush :: "envVarPriorityQueue \<Rightarrow> envVarIdxPair \<Rightarrow> envVarPriorityQueue" where
  "heapPush h x = up (Push h x) (length (Push h x) - 1)"

definition heapPop :: "envVarPriorityQueue \<Rightarrow> envVarIdxPair \<times> envVarPriorityQueue" where
  "heapPop h = (let n = length h - 1 in Pop (down (Swap h 0 n) 0 n))"

section \<open>The interface\<close>

locale min_queue =
  fixes push :: "'q \<Rightarrow> 'a \<Rightarrow> 'q"
    and pop :: "'q \<Rightarrow> 'a \<times> 'q"
    and invar :: "'q \<Rightarrow> bool"
    and elems :: "'q \<Rightarrow> 'a multiset"
    and key :: "'a \<Rightarrow> 'k::linorder"
  assumes push_invar: "invar q \<Longrightarrow> invar (push q x)"
    and push_elems: "invar q \<Longrightarrow> elems (push q x) = add_mset x (elems q)"
    and pop_invar: "\<lbrakk>invar q; elems q \<noteq> {#}; pop q = (x, q')\<rbrakk> \<Longrightarrow> invar q'"
    and pop_elems: "\<lbrakk>invar q; elems q \<noteq> {#}; pop q = (x, q')\<rbrakk> \<Longrightarrow> elems q = add_mset x (elems q')"
    and pop_min: "\<lbrakk>invar q; elems q \<noteq> {#}; pop q = (x, q'); y \<in># elems q\<rbrakk> \<Longrightarrow> key x \<le> key y"
begin

lemma push_all: "invar q \<Longrightarrow> invar (foldl push q xs) \<and> elems (foldl push q xs) = elems q + mset xs"
  by (induction xs arbitrary: q) (simp_all add: push_invar push_elems)

text \<open>With distinct keys the element that is popped does not depend on how the queue was built.\<close>

lemma pop_unique:
  assumes "invar q" "invar r" "elems q = elems r" "elems q \<noteq> {#}" "inj_on key (set_mset (elems q))"
    and "pop q = (x, q')" "pop r = (y, r')"
  shows "x = y \<and> elems q' = elems r'"
proof -
  have m: "x \<in># elems q" "y \<in># elems q"
    using pop_elems [OF assms(1,4,6)] apply simp
    using pop_elems [OF assms(2) _ assms(7)] assms(3,4) by simp
  have "key x \<le> key y" using pop_min [OF assms(1,4,6) m(2)] .
  moreover have "key y \<le> key x" using pop_min [OF assms(2) _ assms(7), of x] m(1) assms(3,4) by simp
  ultimately have "x = y" using assms(5) m by (auto dest: inj_onD)
  then show ?thesis using pop_elems [OF assms(1,4,6)] pop_elems [OF assms(2) _ assms(7)] assms(3,4) by simp
qed

end

section \<open>Heaps\<close>

definition parent :: "nat \<Rightarrow> nat" where
  "parent k = (k - 1) div 2"

lemma parent_less: "0 < k \<Longrightarrow> parent k < k" "parent k \<le> k" "parent k = k \<longleftrightarrow> k = 0"
  by (auto simp: parent_def)

lemma children: "0 < k \<Longrightarrow> parent k = i \<longleftrightarrow> k = 2 * i + 1 \<or> k = 2 * i + 2"
  by (auto simp: parent_def)

lemma up_eq: "up h j = (if j = 0 \<or> \<not> Less h j (parent j) then h else up (Swap h (parent j) j) (parent j))"
  by (subst up.simps) (auto simp: parent_def Let_def)

abbreviation nameAt :: "envVarPriorityQueue \<Rightarrow> nat \<Rightarrow> string" where "nameAt h k \<equiv> EnvVarName (h ! k)"

definition heap :: "envVarPriorityQueue \<Rightarrow> nat \<Rightarrow> bool" where
  "heap h n \<longleftrightarrow> (\<forall>k. 0 < k \<and> k < n \<longrightarrow> nameAt h (parent k) \<le> nameAt h k)"

text \<open>A heap but for the edge above \<open>j\<close>, and but for the edges below \<open>i\<close>.\<close>

definition heapAbove :: "envVarPriorityQueue \<Rightarrow> nat \<Rightarrow> nat \<Rightarrow> bool" where
  "heapAbove h j n \<longleftrightarrow> (\<forall>k. 0 < k \<and> k < n \<and> k \<noteq> j \<longrightarrow> nameAt h (parent k) \<le> nameAt h k)
     \<and> (\<forall>k. 0 < k \<and> k < n \<and> 0 < j \<and> parent k = j \<longrightarrow> nameAt h (parent j) \<le> nameAt h k)"

definition heapBelow :: "envVarPriorityQueue \<Rightarrow> nat \<Rightarrow> nat \<Rightarrow> bool" where
  "heapBelow h i n \<longleftrightarrow> (\<forall>k. 0 < k \<and> k < n \<and> parent k \<noteq> i \<longrightarrow> nameAt h (parent k) \<le> nameAt h k)
     \<and> (\<forall>k. 0 < k \<and> k < n \<and> 0 < i \<and> parent k = i \<longrightarrow> nameAt h (parent i) \<le> nameAt h k)"

lemma length_Swap [simp]: "length (Swap h i j) = length h"
  by (simp add: Swap_def)

lemma Swap_nth:
  "i < length h \<Longrightarrow> j < length h \<Longrightarrow> Swap h i j ! k = (if k = j then h ! i else if k = i then h ! j else h ! k)"
  by (simp add: Swap_def nth_list_update)

lemma mset_Swap: "i < length h \<Longrightarrow> j < length h \<Longrightarrow> mset (Swap h i j) = mset h"
  by (simp add: Swap_def mset_swap)

lemma up_mset: "j < length h \<Longrightarrow> length (up h j) = length h \<and> mset (up h j) = mset h"
proof (induction h j rule: up.induct)
  case (1 h j)
  show ?case
  proof (cases "j = 0 \<or> \<not> Less h j (parent j)")
    case True
    then show ?thesis by (simp add: up_eq [of h j])
  next
    case False
    have "parent j < length h" using "1.prems" parent_less(2) [of j] by linarith
    moreover have "(j - 1) div 2 = j \<or> \<not> Less h j ((j - 1) div 2) \<Longrightarrow> False"
      using False parent_less [of j] by (auto simp: parent_def)
    ultimately show ?thesis using "1.IH" [OF refl] "1.prems" False
      by (auto simp: up_eq [of h j] mset_Swap parent_def)
  qed
qed

lemma up_heap: "j < length h \<Longrightarrow> heapAbove h j (length h) \<Longrightarrow> heap (up h j) (length h)"
proof (induction h j rule: up.induct)
  case (1 h j)
  let ?i = "parent j"
  show ?case
  proof (cases "j = 0 \<or> \<not> Less h j ?i")
    case True
    have u: "up h j = h" using True by (simp add: up_eq [of h j])
    have "nameAt h (parent k) \<le> nameAt h k" if "0 < k" "k < length h" for k
      using "1.prems"(2) True that by (cases "k = j") (auto simp: heapAbove_def Less_def)
    then show ?thesis by (simp add: u heap_def)
  next
    case False
    then have j: "0 < j" "?i < j" "?i < length h" using parent_less(1) [of j] "1.prems"(1) by auto
    let ?h = "Swap h ?i j"
    have lt: "nameAt h j < nameAt h ?i" using False by (simp add: Less_def)
    have n: "?h ! k = (if k = j then h ! ?i else if k = ?i then h ! j else h ! k)" for k
      using "1.prems"(1) j by (simp add: Swap_nth)
    have a: "\<And>k. 0 < k \<Longrightarrow> k < length h \<Longrightarrow> k \<noteq> j \<Longrightarrow> nameAt h (parent k) \<le> nameAt h k"
      and b: "\<And>k. 0 < k \<Longrightarrow> k < length h \<Longrightarrow> parent k = j \<Longrightarrow> nameAt h ?i \<le> nameAt h k"
      using "1.prems"(2) j by (auto simp: heapAbove_def)
    have "nameAt ?h (parent k) \<le> nameAt ?h k" if k: "0 < k" "k < length h" "k \<noteq> ?i" for k
    proof (cases "k = j")
      case True
      then show ?thesis using lt j by (simp add: n)
    next
      case False
      consider "parent k = j" | "parent k = ?i" "parent k \<noteq> j" | "parent k \<noteq> ?i" "parent k \<noteq> j" by blast
      then show ?thesis
      proof cases
        case 1
        then show ?thesis using b [OF k(1,2)] False k(3) by (simp add: n)
      next
        case 2
        then show ?thesis using a [OF k(1,2) False] lt False k(3) by (simp add: n)
      next
        case 3
        then show ?thesis using a [OF k(1,2) False] False k(3) by (simp add: n)
      qed
    qed
    moreover have "nameAt ?h (parent ?i) \<le> nameAt ?h k" if k: "0 < k" "k < length h" "0 < ?i" "parent k = ?i" for k
    proof -
      have p: "parent ?i \<noteq> j" "parent ?i \<noteq> ?i" "k \<noteq> ?i"
        using j k parent_less(1) [of ?i] parent_less(1) [of k] by auto
      have u: "nameAt h (parent ?i) \<le> nameAt h ?i" using a [of ?i] k(3) j by simp
      show ?thesis
      proof (cases "k = j")
        case True
        then show ?thesis using u p by (simp add: n)
      next
        case False
        then show ?thesis using order_trans [OF u] a [OF k(1,2) False] p k(4) by (simp add: n)
      qed
    qed
    ultimately have "heapAbove ?h ?i (length ?h)" by (simp add: heapAbove_def)
    moreover have "up h j = up ?h ?i" using False by (simp add: up_eq [of h j])
    moreover have "\<not> ((j - 1) div 2 = j \<or> \<not> Less h j ((j - 1) div 2))"
      using False parent_less [of j] by (auto simp: parent_def)
    ultimately show ?thesis using "1.IH" [OF refl] j by (simp add: parent_def)
  qed
qed

lemma down_mset:
  "n \<le> length h \<Longrightarrow> length (down h i n) = length h \<and> mset (down h i n) = mset h \<and> (\<forall>k \<ge> n. down h i n ! k = h ! k)"
proof (induction h i n rule: down.induct)
  case (1 h i n)
  let ?j1 = "2 * i + 1"
  let ?j = "lesserChild h ?j1 n"
  show ?case
  proof (cases "n \<le> ?j1 \<or> \<not> Less h ?j i")
    case True
    then show ?thesis by (auto simp: down.simps [of h i n] Let_def)
  next
    case False
    then have j: "?j < n" "i < ?j" "\<not> n \<le> ?j1" "Less h ?j i"
      using lesserChild_bounds(1) [of ?j1 h n] lesserChild_bounds(3) [of ?j1 n h] by auto
    have e: "down h i n = down (Swap h i ?j) ?j n" using False by (simp add: down.simps [of h i n] Let_def)
    have "mset (Swap h i ?j) = mset h" using j "1.prems" by (intro mset_Swap) linarith+
    moreover have "Swap h i ?j ! k = h ! k" if "n \<le> k" for k using j that "1.prems" by (subst Swap_nth) auto
    ultimately show ?thesis using "1.IH" [OF refl j(3) refl] j(4) "1.prems" unfolding e by auto
  qed
qed

lemma down_heap: "i < n \<Longrightarrow> n \<le> length h \<Longrightarrow> heapBelow h i n \<Longrightarrow> heap (down h i n) n"
proof (induction h i n rule: down.induct)
  case (1 h i n)
  let ?j1 = "2 * i + 1"
  let ?j = "lesserChild h ?j1 n"
  have a: "\<And>k. 0 < k \<Longrightarrow> k < n \<Longrightarrow> parent k \<noteq> i \<Longrightarrow> nameAt h (parent k) \<le> nameAt h k"
    and b: "\<And>k. 0 < k \<Longrightarrow> k < n \<Longrightarrow> 0 < i \<Longrightarrow> parent k = i \<Longrightarrow> nameAt h (parent i) \<le> nameAt h k"
    using "1.prems"(3) by (auto simp: heapBelow_def)
  have least: "nameAt h ?j \<le> nameAt h k" if "0 < k" "k < n" "parent k = i" for k
    using that children [OF that(1), of i] by (auto simp: Less_def lesserChild_def)
  show ?case
  proof (cases "n \<le> ?j1 \<or> \<not> Less h ?j i")
    case True
    have d: "down h i n = h" using True by (auto simp: down.simps [of h i n] Let_def)
    have "nameAt h (parent k) \<le> nameAt h k" if k: "0 < k" "k < n" for k
    proof (cases "parent k = i")
      case True
      have "\<not> n \<le> ?j1" using k True children [OF k(1), of i] by auto
      then have "nameAt h i \<le> nameAt h ?j" using \<open>n \<le> ?j1 \<or> \<not> Less h ?j i\<close> by (simp add: Less_def not_less)
      then show ?thesis using least [OF k True] True by (simp only: order_trans)
    next
      case False
      then show ?thesis using a [OF k] by simp
    qed
    then show ?thesis by (simp add: d heap_def)
  next
    case False
    then have j: "?j < n" "i < ?j" "\<not> n \<le> ?j1" "Less h ?j i" "parent ?j = i" "0 < ?j"
      using lesserChild_bounds(1) [of ?j1 h n] lesserChild_bounds(3) [of ?j1 n h] by (auto simp: parent_def lesserChild_def)
    define c where "c = ?j"
    note j = j [folded c_def] and least = least [folded c_def]
    let ?h = "Swap h i c"
    have lt: "nameAt h c < nameAt h i" using j(4) by (simp add: Less_def)
    have n: "?h ! k = (if k = c then h ! i else if k = i then h ! c else h ! k)" for k
      using j "1.prems" by (simp add: Swap_nth)
    have "nameAt ?h (parent k) \<le> nameAt ?h k" if k: "0 < k" "k < n" "parent k \<noteq> c" for k
    proof (cases "parent k = i")
      case True
      then show ?thesis using least [OF k(1,2) True] lt j(2) parent_less(1) [OF k(1)] by (auto simp: n)
    next
      case False
      then show ?thesis using a [OF k(1,2) False] b [of c] k j lt by (cases "k = i") (auto simp: n)
    qed
    moreover have "nameAt ?h (parent c) \<le> nameAt ?h k" if k: "0 < k" "k < n" "parent k = c" for k
    proof -
      have "k \<noteq> i" "k \<noteq> c" "c \<noteq> i" using parent_less(1) [OF k(1)] k(3) j(2) by auto
      then show ?thesis using a [OF k(1,2)] k(3) j(5) by (simp add: n)
    qed
    ultimately have "heapBelow ?h c n" by (simp add: heapBelow_def)
    moreover have "down h i n = down ?h c n" using False by (simp add: down.simps [of h i n] Let_def c_def)
    ultimately show ?thesis using "1.IH" [OF refl j(3) refl, folded c_def] j(1,4) "1.prems" by simp
  qed
qed

lemma heap_root: "heap h n \<Longrightarrow> k < n \<Longrightarrow> nameAt h 0 \<le> nameAt h k"
proof (induction k rule: less_induct)
  case (less k)
  show ?case
  proof (cases "k = 0")
    case False
    then have "nameAt h 0 \<le> nameAt h (parent k)" using less parent_less(1) [of k] by simp
    also have "\<dots> \<le> nameAt h k" using less.prems False by (simp add: heap_def)
    finally show ?thesis .
  qed simp
qed

lemma heapPush_heap:
  assumes "heap h (length h)"
  shows "heap (heapPush h x) (length (heapPush h x)) \<and> mset (heapPush h x) = add_mset x (mset h)"
proof -
  let ?h = "h @ [x]"
  have "heapAbove ?h (length h) (length ?h)" unfolding heapAbove_def
  proof (intro conjI allI impI)
    fix k
    assume k: "0 < k \<and> k < length ?h \<and> k \<noteq> length h"
    then have "k < length h" "parent k < length h" using parent_less(2) [of k] by auto
    then show "nameAt ?h (parent k) \<le> nameAt ?h k" using assms k by (simp add: heap_def nth_append)
  next
    fix k
    assume k: "0 < k \<and> k < length ?h \<and> 0 < length h \<and> parent k = length h"
    then show "nameAt ?h (parent (length h)) \<le> nameAt ?h k" using parent_less(1) [of k] by simp
  qed
  then show ?thesis using up_heap [of "length h" ?h] up_mset [of "length h" ?h] by (simp add: heapPush_def Push_def)
qed

lemma heapPop_heap:
  assumes h: "heap h (length h)" "h \<noteq> []" and p: "heapPop h = (x, q)"
  shows "heap q (length q) \<and> mset h = add_mset x (mset q) \<and> x = h ! 0"
proof -
  let ?n = "length h - 1"
  let ?s = "Swap h 0 ?n"
  let ?d = "down ?s 0 ?n"
  have n: "?n < length h" "0 < length h" using h(2) by simp_all
  have m: "length ?d = length h" "mset ?d = mset h" "?d ! ?n = ?s ! ?n"
    using down_mset [of ?n ?s 0] mset_Swap [OF n(2,1)] by simp_all
  have x: "x = ?d ! ?n" and q: "q = take ?n ?d" using p m(1) by (simp_all add: heapPop_def Pop_def Let_def)
  have "heapBelow ?s 0 ?n" unfolding heapBelow_def
  proof (intro conjI allI impI)
    fix k
    assume k: "0 < k \<and> k < ?n \<and> parent k \<noteq> 0"
    then have "parent k < ?n" "k < length h" using parent_less(1) [of k] by auto
    then have "nameAt h (parent k) \<le> nameAt h k" using h(1) k by (simp add: heap_def)
    then show "nameAt ?s (parent k) \<le> nameAt ?s k" using k n \<open>parent k < ?n\<close> by (simp add: Swap_nth)
  qed simp
  then have "heap ?d ?n" using down_heap [of 0 ?n ?s] by (cases "?n = 0") (simp_all add: heap_def)
  then have hd: "nameAt ?d (parent k) \<le> nameAt ?d k" if "0 < k" "k < ?n" for k using that by (simp add: heap_def)
  have "heap q (length q)" unfolding heap_def
  proof (intro allI impI)
    fix k
    assume k: "0 < k \<and> k < length q"
    then have "k < ?n" "parent k < ?n" using m(1) parent_less(2) [of k] by (simp_all add: q)
    then show "nameAt q (parent k) \<le> nameAt q k" using hd [of k] k by (simp add: q)
  qed
  moreover have "?d = q @ [x]" using x q m(1) n(1) by (metis Suc_diff_1 n(2) take_Suc_conv_app_nth take_all_iff order_refl)
  then have "mset h = add_mset x (mset q)" using m(2) by (metis add_mset_add_single mset.simps mset_append mset_single_iff_right)
  moreover have "x = h ! 0" using x m(3) n by (simp add: Swap_nth)
  ultimately show ?thesis by blast
qed

interpretation env_queue: min_queue heapPush heapPop "\<lambda>h. heap h (length h)" mset EnvVarName
proof
  fix q :: envVarPriorityQueue and q' x y
  assume h: "heap q (length q)"
  show "heap (heapPush q x) (length (heapPush q x))" "mset (heapPush q x) = add_mset x (mset q)"
    using heapPush_heap [OF h] by simp_all
  assume n: "mset q \<noteq> {#}" and p: "heapPop q = (x, q')"
  then show "heap q' (length q')" "mset q = add_mset x (mset q')" using heapPop_heap [OF h _ p] by simp_all
  assume "y \<in># mset q"
  then obtain k where "k < length q" "y = q ! k" by (metis in_set_conv_nth set_mset_mset)
  then show "EnvVarName x \<le> EnvVarName y" using heap_root [OF h] heapPop_heap [OF h _ p] n by simp
qed

end
