(* ===== verification/EnvSort.thy ===== *)
theory EnvSort
  imports EnvHeap
begin

text \<open>
  \<^verbatim>\<open>pkg/utils/sort.go\<close>: the order of the environment variables of a container. A variable that refers to another
  one, \<^verbatim>\<open>$(NAME)\<close> in its value, has to come after it; among those that may come next the least name is taken.
  The iteration over the map of the in-degrees goes in the order \<open>ord\<close>.
\<close>

section \<open>Dependencies\<close>

text \<open>The number of \<^verbatim>\<open>$\<close> signs directly before an index.\<close>

definition dollarsBefore :: "string \<Rightarrow> nat \<Rightarrow> nat" where
  "dollarsBefore s idx = length (takeWhile (\<lambda>c. c = CHR ''$'') (rev (take idx s)))"

definition DependsOn :: "EnvVar \<Rightarrow> EnvVar \<Rightarrow> bool" where
  "DependsOn a b =
     (case indexOf (ev_Value a) (''$('' @ ev_Name b @ '')'') of
        None \<Rightarrow> False
      | Some idx \<Rightarrow> \<not> odd (dollarsBefore (ev_Value a) idx))"

section \<open>Topological sort\<close>

type_synonym depGraph = "nat list list \<times> int list"

text \<open>The edge of a pair of indices; \<^verbatim>\<open>graph[j]\<close> gets the variables that depend on \<open>j\<close>.\<close>

definition addEdge :: "EnvVar list \<Rightarrow> depGraph \<Rightarrow> nat \<times> nat \<Rightarrow> depGraph" where
  "addEdge e gd p =
     (case (gd, p) of ((graph, inDegree), (i, j)) \<Rightarrow>
        if DependsOn (e ! i) (e ! j) then (graph[j := graph ! j @ [i]], inDegree[i := inDegree ! i + 1])
        else if DependsOn (e ! j) (e ! i) then (graph[i := graph ! i @ [j]], inDegree[j := inDegree ! j + 1])
        else (graph, inDegree))"

definition indexPairs :: "nat \<Rightarrow> (nat \<times> nat) list" where
  "indexPairs n = concat (map (\<lambda>i. map (\<lambda>j. (i, j)) [i..<n]) [0..<n])"

definition buildGraph :: "EnvVar list \<Rightarrow> depGraph" where
  "buildGraph e = foldl (addEdge e) (replicate (length e) [], replicate (length e) 0) (indexPairs (length e))"

definition pairOf :: "EnvVar list \<Rightarrow> nat \<Rightarrow> envVarIdxPair" where
  "pairOf e i = \<lparr>EnvVarName = ev_Name (e ! i), Idx = i\<rparr>"

text \<open>The loop over the children of a vertex. A key that is missing from the map counts down from 0.\<close>

fun relax :: "EnvVar list \<Rightarrow> nat list \<Rightarrow> int list \<times> envVarPriorityQueue \<Rightarrow> int list \<times> envVarPriorityQueue" where
  "relax e [] ds = ds"
| "relax e (child # children) (inDegree, sources) =
     (let d = inDegree[child := inDegree ! child - 1]
      in relax e children (d, if child < length d \<and> d ! child = 0 then heapPush sources (pairOf e child) else sources))"

text \<open>Vertices that can still become a source, and those that are one: the measure of the main loop.\<close>

definition pending :: "int list \<Rightarrow> nat" where
  "pending ds = length (filter (\<lambda>d. 0 < d) ds)"

lemma length_up: "length (up h j) = length h"
proof (induction h j rule: up.induct)
  case (1 h j)
  then show ?case by (cases "(j - 1) div 2 = j \<or> \<not> Less h j ((j - 1) div 2)") (auto simp: up.simps [of h j] Let_def)
qed

lemma length_down: "length (down h i n) = length h"
proof (induction h i n rule: down.induct)
  case (1 h i n)
  then show ?case by (cases "n \<le> 2 * i + 1 \<or> \<not> Less h (lesserChild h (2 * i + 1) n) i") (auto simp: down.simps [of h i n] Let_def)
qed

lemma length_heapPush [simp]: "length (heapPush h x) = Suc (length h)"
  by (simp add: heapPush_def Push_def length_up)

lemma length_heapPop: "length (snd (heapPop h)) = length h - 1"
  by (simp add: heapPop_def Pop_def Let_def length_down)

lemma pending_update:
  assumes "c < length ds"
  shows "pending (ds[c := ds ! c - 1]) + (if ds ! c = 1 then 1 else 0) = pending ds"
proof -
  obtain xs x ys where d: "ds = xs @ x # ys" "length xs = c" using assms by (metis id_take_nth_drop length_take min.absorb4)
  have "0 < x - 1 \<longleftrightarrow> 0 < x \<and> x \<noteq> 1" by auto
  then show ?thesis using d(2) by (auto simp: d(1) pending_def)
qed

lemma relax_measure:
  "relax e cs (d, s) = (d', s') \<Longrightarrow> length d' = length d \<and> length s' + pending d' = length s + pending d"
proof (induction cs arbitrary: d s)
  case Nil
  then show ?case by simp
next
  case (Cons c cs)
  let ?d = "d[c := d ! c - 1]"
  let ?s = "if c < length ?d \<and> ?d ! c = 0 then heapPush s (pairOf e c) else s"
  have "length ?s + pending ?d = length s + pending d"
    using pending_update [of c d] by (cases "c < length d") (auto simp: list_update_beyond split: if_splits)
  then show ?case using Cons.IH [of ?d ?s] Cons.prems by (simp add: Let_def)
qed

function kahn :: "EnvVar list \<Rightarrow> nat list list \<Rightarrow> int list \<Rightarrow> envVarPriorityQueue \<Rightarrow> nat list \<Rightarrow> nat list" where
  "kahn e graph inDegree sources sortedOrder =
     (if sources = [] then sortedOrder
      else case heapPop sources of (vertex, rest) \<Rightarrow>
        (case relax e (if Idx vertex < length graph then graph ! Idx vertex else []) (inDegree, rest) of (inDegree', sources') \<Rightarrow>
           kahn e graph inDegree' sources' (sortedOrder @ [Idx vertex])))"
  by pat_completeness auto
termination
proof (relation "measure (\<lambda>(e, g, d, s, r). length s + pending d)", goal_cases)
  case 1
  then show ?case by simp
next
  case (2 e graph inDegree sources sortedOrder vertex rest inDegree' sources')
  have "length rest = length sources - 1" using length_heapPop [of sources] 2(2) by (metis snd_conv)
  moreover have "length sources' + pending inDegree' = length rest + pending inDegree"
    using relax_measure [OF 2(3) [symmetric]] by simp
  ultimately show ?case using 2(1) by (cases sources) auto
qed

declare kahn.simps [simp del]

definition initialSources :: "EnvVar list \<Rightarrow> (nat list \<Rightarrow> nat list) \<Rightarrow> int list \<Rightarrow> envVarPriorityQueue" where
  "initialSources e ord inDegree =
     foldl (\<lambda>s key. if inDegree ! key = 0 then heapPush s (pairOf e key) else s) [] (ord [0..<length e])"

definition sortedOrder :: "(nat list \<Rightarrow> nat list) \<Rightarrow> EnvVar list \<Rightarrow> nat list" where
  "sortedOrder ord e =
     (case buildGraph e of (graph, inDegree) \<Rightarrow> kahn e graph inDegree (initialSources e ord inDegree) [])"

text \<open>Writing the variables back in place.\<close>

fun writeBack :: "EnvVar list \<Rightarrow> nat \<Rightarrow> nat list \<Rightarrow> EnvVar list \<Rightarrow> EnvVar list" where
  "writeBack oldEnv idx [] e = e"
| "writeBack oldEnv idx (correctIdx # is) e =
     writeBack oldEnv (Suc idx) is (if idx \<noteq> correctIdx then e[idx := oldEnv ! correctIdx] else e)"

definition TopologicalSort :: "(nat list \<Rightarrow> nat list) \<Rightarrow> EnvVar list \<Rightarrow> EnvVar list" where
  "TopologicalSort ord e = writeBack e 0 (sortedOrder ord e) e"

section \<open>Sorting volumes\<close>

text \<open>
  \<^verbatim>\<open>sort.Sort\<close> over the wrappers \<^verbatim>\<open>VolumeMountSlice\<close>, \<^verbatim>\<open>VolumeSlice\<close> and \<^verbatim>\<open>VolumeDeviceSlice\<close>, which compare names. Equal
  names keep their order here, as in the insertion sort the library uses for up to twelve elements.
\<close>

definition sortVolumeMounts :: "VolumeMount list \<Rightarrow> VolumeMount list" where
  "sortVolumeMounts = sort_key vm_Name"

definition sortVolumes :: "Volume list \<Rightarrow> Volume list" where
  "sortVolumes = sort_key vol_Name"

definition sortVolumeDevices :: "VolumeDevice list \<Rightarrow> VolumeDevice list" where
  "sortVolumeDevices = sort_key vd_Name"

section \<open>The dependency graph\<close>

definition edgeOf :: "EnvVar list \<Rightarrow> nat \<times> nat \<Rightarrow> (nat \<times> nat) list" where
  "edgeOf e p =
     (if DependsOn (e ! fst p) (e ! snd p) then [(snd p, fst p)]
      else if DependsOn (e ! snd p) (e ! fst p) then [p] else [])"

definition depEdges :: "EnvVar list \<Rightarrow> (nat \<times> nat) list" where
  "depEdges e = concat (map (edgeOf e) (indexPairs (length e)))"

definition represents :: "nat \<Rightarrow> (nat \<times> nat) list \<Rightarrow> depGraph \<Rightarrow> bool" where
  "represents n E gd \<longleftrightarrow> length (fst gd) = n \<and> length (snd gd) = n
     \<and> (\<forall>u < n. fst gd ! u = map snd (filter (\<lambda>p. fst p = u) E))
     \<and> (\<forall>v < n. snd gd ! v = int (length (filter (\<lambda>p. snd p = v) E)))"

lemma set_indexPairs: "set (indexPairs n) = {(i, j). i \<le> j \<and> j < n}"
  by (force simp: indexPairs_def)

lemma distinct_indexPairs: "distinct (indexPairs n)"
proof -
  have "distinct (concat (map (\<lambda>i. map (\<lambda>j. (i, j)) [i..<n]) is))" if "distinct is" for "is"
    using that by (induction "is") (auto simp: distinct_map inj_on_def)
  then show ?thesis by (simp add: indexPairs_def)
qed

lemma addEdge_represents:
  assumes "represents n E gd" "fst p < n" "snd p < n"
  shows "represents n (E @ edgeOf e p) (addEdge e gd p)"
proof -
  obtain g d i j where gd: "gd = (g, d)" "p = (i, j)" by (metis surj_pair)
  show ?thesis using assms unfolding represents_def addEdge_def edgeOf_def gd by (simp add: nth_list_update)
qed

lemma buildGraph_represents: "represents (length e) (depEdges e) (buildGraph e)"
proof -
  have "represents n (E @ concat (map (edgeOf e) ps)) (foldl (addEdge e) gd ps)"
    if "represents n E gd" "\<forall>p \<in> set ps. fst p < n \<and> snd p < n" for n E gd ps
    using that
  proof (induction ps arbitrary: E gd)
    case Nil
    then show ?case by simp
  next
    case (Cons p ps)
    have "represents n (E @ edgeOf e p) (addEdge e gd p)" using Cons.prems by (intro addEdge_represents) simp_all
    from Cons.IH [OF this] show ?case using Cons.prems(2) by simp
  qed
  from this [of "length e" "[]" "(replicate (length e) [], replicate (length e) 0)" "indexPairs (length e)"]
  show ?thesis by (simp add: buildGraph_def depEdges_def represents_def set_indexPairs split: prod.splits)
qed

lemma edgeOf_range: "(u, v) \<in> set (edgeOf e (i, j)) \<Longrightarrow> (u = i \<and> v = j \<or> u = j \<and> v = i) \<and> DependsOn (e ! v) (e ! u)"
  by (auto simp: edgeOf_def split: if_splits)

lemma depEdges_range: "(u, v) \<in> set (depEdges e) \<Longrightarrow> u < length e \<and> v < length e \<and> DependsOn (e ! v) (e ! u)"
  unfolding depEdges_def by (auto simp: set_indexPairs dest!: edgeOf_range)

lemma distinct_depEdges: "distinct (depEdges e)"
proof -
  let ?f = "\<lambda>p :: nat \<times> nat. (min (fst p) (snd p), max (fst p) (snd p))"
  have "map ?f (edgeOf e p) = (if edgeOf e p = [] then [] else [p])" if "fst p \<le> snd p" for p
    using that by (auto simp: edgeOf_def)
  then have "map ?f (concat (map (edgeOf e) ps)) = filter (\<lambda>p. edgeOf e p \<noteq> []) ps" if "\<forall>p \<in> set ps. fst p \<le> snd p" for ps
    using that by (induction ps) auto
  then have "map ?f (depEdges e) = filter (\<lambda>p. edgeOf e p \<noteq> []) (indexPairs (length e))"
    by (auto simp: depEdges_def set_indexPairs)
  then have "distinct (map ?f (depEdges e))" by (simp add: distinct_indexPairs)
  then show ?thesis by (rule distinct_map [THEN iffD1, THEN conjunct1])
qed

lemma children_of:
  assumes "represents n E (g, d)" "distinct E" "u < n"
  shows "distinct (g ! u)" "set (g ! u) = {v. (u, v) \<in> set E}"
proof -
  have g: "g ! u = map snd (filter (\<lambda>p. fst p = u) E)" using assms by (simp add: represents_def)
  show "set (g ! u) = {v. (u, v) \<in> set E}" by (force simp: g)
  show "distinct (g ! u)" using assms(2) by (auto simp: g distinct_map inj_on_def prod_eq_iff)
qed

lemma count_preds:
  assumes "distinct E"
  shows "length (filter (\<lambda>p. snd p = v) E) = card {u. (u, v) \<in> set E}"
proof -
  have "card {u. (u, v) \<in> set E} = card (fst ` set (filter (\<lambda>p. snd p = v) E))" by (rule arg_cong [of _ _ card]) force
  also have "\<dots> = card (set (filter (\<lambda>p. snd p = v) E))" by (rule card_image) (auto simp: inj_on_def prod_eq_iff)
  finally show ?thesis using distinct_card [OF distinct_filter [OF assms], of "\<lambda>p. snd p = v"] by simp
qed

section \<open>The main loop\<close>

lemma relax_spec:
  assumes "distinct cs" "\<forall>c \<in> set cs. c < length d" "heap s (length s)" "relax e cs (d, s) = (d', s')"
  shows "length d' = length d \<and> (\<forall>v < length d. d' ! v = d ! v - (if v \<in> set cs then 1 else 0))
    \<and> heap s' (length s') \<and> mset s' = mset s + mset (map (pairOf e) (filter (\<lambda>c. d ! c = 1) cs))"
  using assms
proof (induction cs arbitrary: d s)
  case Nil
  then show ?case by simp
next
  case (Cons c cs)
  let ?d = "d[c := d ! c - 1]"
  let ?s = "if d ! c = 1 then heapPush s (pairOf e c) else s"
  have c: "c < length d" "c \<notin> set cs" using Cons.prems by simp_all
  have h: "heap ?s (length ?s)" "mset ?s = (if d ! c = 1 then {#pairOf e c#} else {#}) + mset s"
    using env_queue.push_invar [OF Cons.prems(3), of "pairOf e c"] env_queue.push_elems [OF Cons.prems(3), of "pairOf e c"] Cons.prems(3) by auto
  have "relax e cs (?d, ?s) = (d', s')" using Cons.prems(4) c by (simp add: Let_def split: if_splits)
  from Cons.IH [OF _ _ h(1) this] Cons.prems
  have i: "length d' = length ?d" "\<forall>v < length ?d. d' ! v = ?d ! v - (if v \<in> set cs then 1 else 0)"
    "heap s' (length s')" "mset s' = mset ?s + mset (map (pairOf e) (filter (\<lambda>c. ?d ! c = 1) cs))" by simp_all
  have "filter (\<lambda>x. ?d ! x = 1) cs = filter (\<lambda>x. d ! x = 1) cs" using c by (intro filter_cong) (auto simp: nth_list_update)
  then have "mset s' = mset s + mset (map (pairOf e) (filter (\<lambda>c. d ! c = 1) (c # cs)))" using i(4) h(2) by simp
  moreover have "\<forall>v < length d. d' ! v = d ! v - (if v \<in> set (c # cs) then 1 else 0)" using i(2) c by (auto simp: nth_list_update)
  ultimately show ?case using i(1,3) by simp
qed

text \<open>
  The invariant of the loop: the order so far lists vertices after their predecessors, the in-degrees count
  the predecessors that are not listed, and the queue holds the unlisted vertices without one.
\<close>

definition ready :: "nat \<Rightarrow> int list \<Rightarrow> nat list \<Rightarrow> nat set" where
  "ready n d order = {v. v < n \<and> v \<notin> set order \<and> d ! v = 0}"

definition kahn_inv :: "EnvVar list \<Rightarrow> nat list \<Rightarrow> int list \<Rightarrow> envVarPriorityQueue \<Rightarrow> bool" where
  "kahn_inv e order d s \<longleftrightarrow>
     distinct order \<and> set order \<subseteq> {..<length e} \<and> length d = length e
     \<and> (\<forall>v < length e. d ! v = int (card {u. (u, v) \<in> set (depEdges e) \<and> u \<notin> set order}))
     \<and> heap s (length s) \<and> mset s = image_mset (pairOf e) (mset_set (ready (length e) d order))
     \<and> (\<forall>xs v ys. order = xs @ v # ys \<longrightarrow> (\<forall>u. (u, v) \<in> set (depEdges e) \<longrightarrow> u \<in> set xs))"

lemma pairOf_inj: "inj (pairOf e)"
  by (auto simp: inj_def pairOf_def)

lemma finite_ready [simp]: "finite (ready n d order)"
  by (rule finite_subset [of _ "{..<n}"]) (auto simp: ready_def)

lemma finite_preds: "finite {u. (u, v) \<in> set (depEdges e) \<and> P u}"
  by (rule finite_subset [of _ "fst ` set (depEdges e)"]) force+

lemma kahn_inv_pop:
  assumes i: "kahn_inv e order d s" and s: "s \<noteq> []" and p: "heapPop s = (x, rest)"
  obtains v where "x = pairOf e v" "v \<in> ready (length e) d order" "heap rest (length rest)"
    "mset rest = image_mset (pairOf e) (mset_set (ready (length e) d order - {v}))"
proof -
  let ?S = "ready (length e) d order"
  have h: "heap s (length s)" and m: "mset s = image_mset (pairOf e) (mset_set ?S)" using i by (simp_all add: kahn_inv_def)
  have e: "mset s = add_mset x (mset rest)" "heap rest (length rest)"
    using env_queue.pop_elems [OF h _ p] env_queue.pop_invar [OF h _ p] s by simp_all
  have "x \<in># image_mset (pairOf e) (mset_set ?S)" using e(1) m by (metis union_single_eq_member add_mset_add_single insert_noteq_member)
  then obtain v where v: "v \<in> ?S" "x = pairOf e v" by (auto simp: elem_mset_set)
  have "mset_set ?S = add_mset v (mset_set (?S - {v}))" using v(1) by (metis finite_ready mset_set.remove)
  then have "mset rest = image_mset (pairOf e) (mset_set (?S - {v}))" using e(1) m v(2) by simp
  then show ?thesis using that v e(2) by blast
qed

text \<open>One round: the vertex is listed, its children count down, and the new sources are exactly the ready vertices.\<close>

lemma ready_step:
  assumes i: "kahn_inv e order d s" and v: "v \<in> ready (length e) d order"
    and d': "length d' = length e" "\<forall>w < length e. d' ! w = d ! w - (if (v, w) \<in> set (depEdges e) then 1 else 0)"
  shows "ready (length e) d' (order @ [v]) = (ready (length e) d order - {v}) \<union> {w. (v, w) \<in> set (depEdges e) \<and> d ! w = 1}"
    and "(ready (length e) d order - {v}) \<inter> {w. (v, w) \<in> set (depEdges e) \<and> d ! w = 1} = {}"
    and "(v, v) \<notin> set (depEdges e)"
    and "w < length e \<Longrightarrow> d' ! w = int (card {u. (u, w) \<in> set (depEdges e) \<and> u \<notin> set (order @ [v])})"
proof -
  let ?E = "set (depEdges e)"
  have cnt: "\<And>w. w < length e \<Longrightarrow> d ! w = int (card {u. (u, w) \<in> ?E \<and> u \<notin> set order})"
    and topo: "\<And>xs w ys u. order = xs @ w # ys \<Longrightarrow> (u, w) \<in> ?E \<Longrightarrow> u \<in> set xs"
    using i by (auto simp: kahn_inv_def)
  have vv: "v < length e" "v \<notin> set order" "d ! v = 0" using v by (simp_all add: ready_def)
  have pos: "0 < d ! w" if "(v, w) \<in> ?E" for w
  proof -
    have "w < length e" using depEdges_range [OF that] by simp
    moreover have "v \<in> {u. (u, w) \<in> ?E \<and> u \<notin> set order}" using that vv by simp
    then have "0 < card {u. (u, w) \<in> ?E \<and> u \<notin> set order}" using finite_preds [of w e] by (metis card_gt_0_iff empty_iff)
    ultimately show ?thesis using cnt by simp
  qed
  have unlisted: "w \<notin> set order" if "(v, w) \<in> ?E" for w
  proof
    assume "w \<in> set order"
    then obtain xs ys where o: "order = xs @ w # ys" using split_list by fast
    show False using topo [OF o that] o vv(2) by simp
  qed
  show self: "(v, v) \<notin> ?E" using pos [of v] vv(3) by auto
  show "ready (length e) d' (order @ [v]) = (ready (length e) d order - {v}) \<union> {w. (v, w) \<in> ?E \<and> d ! w = 1}"
  proof (rule set_eqI)
    fix w
    have r: "(v, w) \<in> ?E \<Longrightarrow> w < length e" using depEdges_range by blast
    have n: "w < length e \<Longrightarrow> d' ! w = d ! w - (if (v, w) \<in> ?E then 1 else 0)" using d'(2) by blast
    show "w \<in> ready (length e) d' (order @ [v]) \<longleftrightarrow> w \<in> (ready (length e) d order - {v}) \<union> {w. (v, w) \<in> ?E \<and> d ! w = 1}"
      using pos [of w] unlisted [of w] self r n by (cases "(v, w) \<in> ?E") (auto simp: ready_def)
  qed
  show "(ready (length e) d order - {v}) \<inter> {w. (v, w) \<in> ?E \<and> d ! w = 1} = {}" by (auto simp: ready_def)
  assume w: "w < length e"
  have "{u. (u, w) \<in> ?E \<and> u \<notin> set order} =
      (if (v, w) \<in> ?E then insert v {u. (u, w) \<in> ?E \<and> u \<notin> set (order @ [v])} else {u. (u, w) \<in> ?E \<and> u \<notin> set (order @ [v])})"
    using vv(2) by auto
  then have "card {u. (u, w) \<in> ?E \<and> u \<notin> set order} =
      card {u. (u, w) \<in> ?E \<and> u \<notin> set (order @ [v])} + (if (v, w) \<in> ?E then 1 else 0)"
    using finite_preds [of w e] by simp
  then show "d' ! w = int (card {u. (u, w) \<in> ?E \<and> u \<notin> set (order @ [v])})" using d'(2) cnt [OF w] w by simp
qed

lemma kahn_inv_step:
  assumes i: "kahn_inv e order d s" and s: "s \<noteq> []" and p: "heapPop s = (x, rest)"
    and g: "buildGraph e = (graph, d0)" and r: "relax e (if Idx x < length graph then graph ! Idx x else []) (d, rest) = (d', s')"
  shows "kahn_inv e (order @ [Idx x]) d' s'"
proof -
  let ?E = "set (depEdges e)"
  let ?S = "ready (length e) d order"
  obtain v where v: "x = pairOf e v" "v \<in> ?S" "heap rest (length rest)" "mset rest = image_mset (pairOf e) (mset_set (?S - {v}))"
    using kahn_inv_pop [OF i s p] by blast
  have vn: "v < length e" "v \<notin> set order" "Idx x = v" "length d = length e" using v i by (simp_all add: ready_def pairOf_def kahn_inv_def)
  have rep: "represents (length e) (depEdges e) (graph, d0)" using buildGraph_represents [of e] g by simp
  have cs: "distinct (graph ! v)" "set (graph ! v) = {w. (v, w) \<in> ?E}" "length graph = length e"
    using children_of [OF rep distinct_depEdges vn(1)] rep by (simp_all add: represents_def)
  have lt: "\<forall>c \<in> set (graph ! v). c < length d" using cs(2) vn(4) depEdges_range by auto
  have rs: "length d' = length e" "\<forall>w < length e. d' ! w = d ! w - (if (v, w) \<in> ?E then 1 else 0)" "heap s' (length s')"
    "mset s' = mset rest + mset (map (pairOf e) (filter (\<lambda>c. d ! c = 1) (graph ! v)))"
    using relax_spec [OF cs(1) lt v(3), of e d' s'] r vn cs by simp_all
  note st = ready_step [OF i v(2) rs(1,2)]
  have "mset (filter (\<lambda>c. d ! c = 1) (graph ! v)) = mset_set {w. (v, w) \<in> ?E \<and> d ! w = 1}"
    using mset_set_set [OF distinct_filter [OF cs(1)], of "\<lambda>c. d ! c = 1"] cs(2) by simp
  then have "mset s' = image_mset (pairOf e) (mset_set (?S - {v}) + mset_set {w. (v, w) \<in> ?E \<and> d ! w = 1})"
    using rs(4) v(4) by (simp add: mset_map)
  also have "mset_set (?S - {v}) + mset_set {w. (v, w) \<in> ?E \<and> d ! w = 1} = mset_set (ready (length e) d' (order @ [v]))"
    unfolding st(1) using st(2) finite_subset [of "{w. (v, w) \<in> ?E \<and> d ! w = 1}" "snd ` ?E"]
    by (subst mset_set_Union) force+
  finally have m: "mset s' = image_mset (pairOf e) (mset_set (ready (length e) d' (order @ [v])))" .
  have cnt: "\<forall>w. (w, v) \<in> ?E \<longrightarrow> w \<in> set order"
  proof (intro allI impI)
    fix w
    assume w: "(w, v) \<in> ?E"
    have "d ! v = int (card {u. (u, v) \<in> ?E \<and> u \<notin> set order})" using i vn(1) by (simp add: kahn_inv_def)
    then have "card {u. (u, v) \<in> ?E \<and> u \<notin> set order} = 0" using v(2) by (simp add: ready_def)
    then have "{u. (u, v) \<in> ?E \<and> u \<notin> set order} = {}" using finite_preds [of v e] by (metis card_0_eq)
    then show "w \<in> set order" using w by blast
  qed
  have topo: "u \<in> set xs" if o: "order @ [v] = xs @ w # ys" and u: "(u, w) \<in> ?E" for xs w ys u
  proof (cases ys rule: rev_cases)
    case Nil
    then show ?thesis using o u cnt by simp
  next
    case (snoc ys' y)
    then have "order = xs @ w # ys'" using o by simp
    then show ?thesis using i u by (simp add: kahn_inv_def)
  qed
  show ?thesis unfolding kahn_inv_def vn(3) using i vn rs(1,3) m st(4) topo by (simp add: kahn_inv_def)
qed

lemma kahn_Nil: "kahn e graph d [] order = order"
  by (simp add: kahn.simps)

lemma kahn_step:
  assumes "s \<noteq> []" "heapPop s = (x, rest)" "relax e (if Idx x < length graph then graph ! Idx x else []) (d, rest) = (d', s')"
  shows "kahn e graph d s order = kahn e graph d' s' (order @ [Idx x])"
  using assms by (subst kahn.simps) simp

lemma kahn_inv_result:
  assumes "kahn_inv e order d s" "buildGraph e = (graph, d0)"
  shows "\<exists>d'. kahn_inv e (kahn e graph d s order) d' []"
  using assms
proof (induction e graph d s order rule: kahn.induct)
  case (1 e graph d s order)
  show ?case
  proof (cases "s = []")
    case True
    then show ?thesis using "1.prems"(1) kahn_Nil [of e graph d order] by auto
  next
    case False
    obtain x rest where p: "heapPop s = (x, rest)" by fastforce
    obtain d' s' where r: "relax e (if Idx x < length graph then graph ! Idx x else []) (d, rest) = (d', s')" by fastforce
    have "kahn_inv e (order @ [Idx x]) d' s'" using kahn_inv_step [OF "1.prems"(1) False p "1.prems"(2) r] .
    then show ?thesis unfolding kahn_step [OF False p r]
      using "1.IH" [OF False p [symmetric] r [symmetric]] "1.prems"(2) by blast
  qed
qed

text \<open>The initial state: the queue holds the vertices without predecessors, whatever the order of the map.\<close>

lemma kahn_inv_init:
  assumes "mset (ord [0..<length e]) = mset [0..<length e]" "buildGraph e = (graph, d)"
  shows "kahn_inv e [] d (initialSources e ord d)"
proof -
  have rep: "represents (length e) (depEdges e) (graph, d)" using buildGraph_represents [of e] assms(2) by simp
  have "foldl (\<lambda>s k. if d ! k = 0 then heapPush s (pairOf e k) else s) h ks
      = foldl heapPush h (map (pairOf e) (filter (\<lambda>k. d ! k = 0) ks))" for h ks
    by (induction ks arbitrary: h) simp_all
  then have q: "heap (initialSources e ord d) (length (initialSources e ord d))"
    "mset (initialSources e ord d) = mset (map (pairOf e) (filter (\<lambda>k. d ! k = 0) (ord [0..<length e])))"
    using env_queue.push_all [of "[]" "map (pairOf e) (filter (\<lambda>k. d ! k = 0) (ord [0..<length e]))"]
    by (simp_all add: initialSources_def heap_def)
  have "mset (filter (\<lambda>k. d ! k = 0) (ord [0..<length e])) = mset (filter (\<lambda>k. d ! k = 0) [0..<length e])"
    using assms(1) by (simp add: mset_filter)
  also have "\<dots> = mset_set (ready (length e) d [])"
  proof -
    have "set (filter (\<lambda>k. d ! k = 0) [0..<length e]) = ready (length e) d []" by (auto simp: ready_def)
    then show ?thesis using mset_set_set [of "filter (\<lambda>k. d ! k = 0) [0..<length e]"] by (simp del: set_filter)
  qed
  finally have "mset (initialSources e ord d) = image_mset (pairOf e) (mset_set (ready (length e) d []))"
    using q(2) by (simp add: mset_map)
  then show ?thesis using q(1) rep by (simp add: kahn_inv_def represents_def count_preds [OF distinct_depEdges])
qed

lemma sortedOrder_inv:
  assumes "mset (ord [0..<length e]) = mset [0..<length e]"
  shows "\<exists>d. kahn_inv e (sortedOrder ord e) d []"
proof -
  obtain graph d where g: "buildGraph e = (graph, d)" by fastforce
  show ?thesis using kahn_inv_result [OF kahn_inv_init [of ord e, OF assms g] g] by (simp add: sortedOrder_def g)
qed

lemma kahn_deterministic:
  assumes "kahn_inv e order d s" "kahn_inv e order d t" "buildGraph e = (graph, d0)" "distinct (map ev_Name e)"
  shows "kahn e graph d s order = kahn e graph d t order"
  using assms
proof (induction e graph d s order arbitrary: t rule: kahn.induct)
  case (1 e graph d s order)
  let ?S = "ready (length e) d order"
  have h: "heap s (length s)" "heap t (length t)" and m: "mset s = image_mset (pairOf e) (mset_set ?S)" "mset t = mset s"
    using "1.prems"(1,2) by (simp_all add: kahn_inv_def)
  show ?case
  proof (cases "s = []")
    case True
    then show ?thesis using m(2) by simp
  next
    case False
    then have t: "t \<noteq> []" using m(2) by auto
    obtain x rest where p: "heapPop s = (x, rest)" by fastforce
    obtain y rest' where p': "heapPop t = (y, rest')" by fastforce
    have "inj_on EnvVarName (set_mset (mset s))"
    proof (rule inj_onI)
      fix a b
      assume "a \<in># mset s" "b \<in># mset s" and n: "EnvVarName a = EnvVarName b"
      then obtain v w where "v < length e" "w < length e" "a = pairOf e v" "b = pairOf e w" by (auto simp: m(1) ready_def)
      then show "a = b" using "1.prems"(4) n by (simp add: pairOf_def distinct_conv_nth) blast
    qed
    then have xy: "x = y" using env_queue.pop_unique [OF h m(2) [symmetric] _ _ p p'] False by simp
    let ?cs = "if Idx x < length graph then graph ! Idx x else []"
    obtain d' s' where r: "relax e ?cs (d, rest) = (d', s')" by fastforce
    obtain d'' t' where r': "relax e ?cs (d, rest') = (d'', t')" by fastforce
    have "d'' = d'"
    proof -
      have "fst (relax e cs (d, a)) = fst (relax e cs (d, b))" for cs d a b
        by (induction cs arbitrary: d a b) (simp_all add: Let_def)
      then show ?thesis using r r' by (metis fst_conv)
    qed
    then have r'': "relax e (if Idx y < length graph then graph ! Idx y else []) (d, rest') = (d', t')" using r' unfolding xy by simp
    have "kahn_inv e (order @ [Idx x]) d' s'" using kahn_inv_step [OF "1.prems"(1) False p "1.prems"(3) r] .
    moreover have "kahn_inv e (order @ [Idx x]) d' t'" using kahn_inv_step [OF "1.prems"(2) t p' "1.prems"(3) r''] xy by simp
    ultimately show ?thesis unfolding kahn_step [OF False p r] kahn_step [OF t p' r''] xy [symmetric]
      using "1.IH" [OF False p [symmetric] r [symmetric]] "1.prems"(3,4) by blast
  qed
qed

lemma writeBack_nth:
  assumes "idx + length is \<le> length e" "\<forall>k. idx \<le> k \<longrightarrow> k < length e \<longrightarrow> e ! k = oldEnv ! k" "length oldEnv = length e"
  shows "writeBack oldEnv idx is e = take idx e @ map ((!) oldEnv) is @ drop (idx + length is) e"
  using assms
proof (induction "is" arbitrary: idx e)
  case Nil
  then show ?case by simp
next
  case (Cons i "is")
  let ?e = "if idx \<noteq> i then e[idx := oldEnv ! i] else e"
  have l: "idx < length e" using Cons.prems by simp
  have e: "?e = e[idx := oldEnv ! i]" using Cons.prems(2) l by (metis list_update_id order_refl)
  have "take (Suc idx) (e[idx := oldEnv ! i]) = take idx e @ [oldEnv ! i]" using l by (simp add: take_Suc_conv_app_nth)
  moreover have "drop (Suc (idx + length is)) (e[idx := oldEnv ! i]) = drop (Suc (idx + length is)) e" by simp
  moreover have "writeBack oldEnv (Suc idx) is ?e = take (Suc idx) ?e @ map ((!) oldEnv) is @ drop (Suc idx + length is) ?e"
    using Cons.prems l unfolding e by (intro Cons.IH) (auto simp: nth_list_update)
  ultimately have "writeBack oldEnv (Suc idx) is ?e = take idx e @ map ((!) oldEnv) (i # is) @ drop (idx + length (i # is)) e"
    unfolding e by simp
  then show ?case by (simp only: writeBack.simps)
qed

lemma TopologicalSort_eq:
  assumes "mset (ord [0..<length e]) = mset [0..<length e]"
  shows "TopologicalSort ord e = map ((!) e) (sortedOrder ord e) @ drop (length (sortedOrder ord e)) e"
proof -
  obtain d where i: "kahn_inv e (sortedOrder ord e) d []" using sortedOrder_inv [of ord e, OF assms] by blast
  then have "distinct (sortedOrder ord e)" "set (sortedOrder ord e) \<subseteq> {..<length e}" by (simp_all add: kahn_inv_def)
  then have "length (sortedOrder ord e) \<le> length e" by (metis card_lessThan card_mono distinct_card finite_lessThan)
  then show ?thesis using writeBack_nth [of 0 "sortedOrder ord e" e e] by (simp add: TopologicalSort_def)
qed

section \<open>Properties\<close>

text \<open>The references between the variables of a list.\<close>

definition references :: "EnvVar list \<Rightarrow> (nat \<times> nat) set" where
  "references e = {(i, j). i < length e \<and> j < length e \<and> DependsOn (e ! i) (e ! j)}"

lemma depEdge_of_reference:
  assumes "acyclic (references e)" "(i, j) \<in> references e"
  shows "(j, i) \<in> set (depEdges e)"
proof -
  have r: "i < length e" "j < length e" "DependsOn (e ! i) (e ! j)" using assms(2) by (simp_all add: references_def)
  have "\<not> DependsOn (e ! j) (e ! i)"
  proof
    assume "DependsOn (e ! j) (e ! i)"
    then have "(j, i) \<in> references e" using r by (simp add: references_def)
    then have "(i, i) \<in> (references e)\<^sup>+" using assms(2) by (meson r_into_trancl trancl_trans)
    then show False using assms(1) by (simp add: acyclic_def)
  qed
  then have "(j, i) \<in> set (edgeOf e (min i j, max i j))" using r by (auto simp: edgeOf_def min_def max_def)
  moreover have "(min i j, max i j) \<in> set (indexPairs (length e))" using r by (simp add: set_indexPairs)
  ultimately show ?thesis by (force simp: depEdges_def)
qed

lemma sortedOrder_complete:
  assumes "mset (ord [0..<length e]) = mset [0..<length e]" "acyclic (references e)"
  shows "set (sortedOrder ord e) = {..<length e}"
proof -
  let ?E = "set (depEdges e)"
  let ?U = "{..<length e} - set (sortedOrder ord e)"
  obtain d where i: "kahn_inv e (sortedOrder ord e) d []" using sortedOrder_inv [of ord e, OF assms(1)] by blast
  have "mset_set (ready (length e) d (sortedOrder ord e)) = {#}" using i by (simp add: kahn_inv_def)
  then have empty: "ready (length e) d (sortedOrder ord e) = {}" by (simp add: mset_set_empty_iff)
  have pred: "\<exists>u \<in> ?U. (u, v) \<in> ?E" if v: "v \<in> ?U" for v
  proof -
    have "d ! v \<noteq> 0" using empty v by (auto simp: ready_def)
    moreover have "d ! v = int (card {u. (u, v) \<in> ?E \<and> u \<notin> set (sortedOrder ord e)})" using i v by (simp add: kahn_inv_def)
    ultimately have "{u. (u, v) \<in> ?E \<and> u \<notin> set (sortedOrder ord e)} \<noteq> {}" by force
    then obtain u where u: "(u, v) \<in> ?E" "u \<notin> set (sortedOrder ord e)" by blast
    then have "u \<in> ?U" using depEdges_range [OF u(1)] by simp
    then show ?thesis using u(1) by (rule bexI [rotated])
  qed
  have "?E \<subseteq> (references e)\<inverse>"
  proof (rule subrelI)
    fix u v
    assume "(u, v) \<in> ?E"
    then show "(u, v) \<in> (references e)\<inverse>" using depEdges_range [of u v e] by (simp add: references_def)
  qed
  moreover have "acyclic ((references e)\<inverse>)" using assms(2) by (simp add: acyclic_converse)
  ultimately have "acyclic ?E" by (rule acyclic_subset [rotated])
  then have wf: "wf ?E" by (simp add: finite_acyclic_wf)
  have "?U = {}"
  proof (rule ccontr)
    assume "?U \<noteq> {}"
    then obtain w where w: "w \<in> ?U" by (metis equals0I)
    obtain v where v: "v \<in> ?U" "\<And>u. (u, v) \<in> ?E \<Longrightarrow> u \<notin> ?U" using wfE_min [OF wf w] by metis
    obtain u where u: "u \<in> ?U" "(u, v) \<in> ?E" using pred [OF v(1)] by (elim bexE)
    show False using v(2) [OF u(2)] u(1) by contradiction
  qed
  then show ?thesis using i by (auto simp: kahn_inv_def)
qed

text \<open>C38: When the references between the variables have no cycle, the sort permutes them and puts every variable after
  the ones its value refers to, whatever the order of the map iteration.\<close>
theorem TopologicalSort_spec:
  assumes ord: "mset (ord [0..<length e]) = mset [0..<length e]" and "acyclic (references e)"
  shows "mset (TopologicalSort ord e) = mset e
    \<and> (\<forall>i j. i \<le> j \<longrightarrow> j < length e \<longrightarrow> \<not> DependsOn (TopologicalSort ord e ! i) (TopologicalSort ord e ! j))"
proof -
  let ?o = "sortedOrder ord e"
  obtain d where i: "kahn_inv e ?o d []" using sortedOrder_inv [of ord e, OF ord] by blast
  have o: "set ?o = {..<length e}" "distinct ?o" using sortedOrder_complete [of ord e, OF assms] i by (simp_all add: kahn_inv_def)
  then have l: "length ?o = length e" by (metis card_lessThan distinct_card)
  have r: "TopologicalSort ord e = map ((!) e) ?o" using TopologicalSort_eq [of ord e, OF ord] l by simp
  have "mset ?o = mset [0..<length e]" using o by (subst set_eq_iff_mset_eq_distinct [symmetric]) (auto simp: atLeast0LessThan)
  then have "mset (map ((!) e) ?o) = mset (map ((!) e) [0..<length e])" by (simp add: mset_map)
  then have "mset (TopologicalSort ord e) = mset e" unfolding r by (simp add: map_nth)
  moreover have "\<not> DependsOn (TopologicalSort ord e ! i) (TopologicalSort ord e ! j)" if ij: "i \<le> j" "j < length e" for i j
  proof
    assume dep: "DependsOn (TopologicalSort ord e ! i) (TopologicalSort ord e ! j)"
    have "?o ! i < length e" "?o ! j < length e" using o(1) l ij nth_mem [of _ ?o] by auto
    then have "(?o ! i, ?o ! j) \<in> references e" using dep ij l by (simp add: references_def r)
    then have "(?o ! j, ?o ! i) \<in> set (depEdges e)" using depEdge_of_reference [OF assms(2)] by simp
    moreover have "?o = take i ?o @ ?o ! i # drop (Suc i) ?o" using ij l by (simp add: id_take_nth_drop)
    ultimately have "?o ! j \<in> set (take i ?o)" using i unfolding kahn_inv_def by blast
    then obtain k where "k < i" "?o ! k = ?o ! j" "k < length ?o" by (auto simp: in_set_conv_nth)
    then show False using o(2) ij l nth_eq_iff_index_eq [of ?o k j] by simp
  qed
  ultimately show ?thesis by blast
qed

text \<open>With distinct names the result does not depend on the order of the map iteration, so that the same pod
  template is built in every reconciliation, with or without cyclic references.\<close>
theorem TopologicalSort_deterministic:
  assumes "mset (ord [0..<length e]) = mset [0..<length e]" "mset (ord' [0..<length e]) = mset [0..<length e]"
    and "distinct (map ev_Name e)"
  shows "TopologicalSort ord e = TopologicalSort ord' e"
proof -
  obtain graph d where g: "buildGraph e = (graph, d)" by fastforce
  have "sortedOrder ord e = sortedOrder ord' e"
    using kahn_deterministic [OF kahn_inv_init [of ord e, OF assms(1) g] kahn_inv_init [of ord' e, OF assms(2) g] g assms(3)]
    by (simp add: sortedOrder_def g)
  then show ?thesis by (simp add: TopologicalSort_def)
qed

definition demoEnv :: "string \<Rightarrow> string \<Rightarrow> EnvVar" where
  "demoEnv n v = \<lparr>ev_Name = n, ev_Value = v, ev_ValueFrom = None\<rparr>"

text \<open>A variable that refers to itself is lost: it never becomes a source, the variables after it move up and the last
  one is there twice.\<close>
theorem TopologicalSort_loses_variables:
  "TopologicalSort (\<lambda>xs. xs) [demoEnv ''A'' ''$(A):x'', demoEnv ''B'' ''b''] = [demoEnv ''B'' ''b'', demoEnv ''B'' ''b'']"
  by code_simp

theorem TopologicalSort_spec_witness:
  "TopologicalSort rev [demoEnv ''A'' ''$(B)'', demoEnv ''B'' ''b''] = [demoEnv ''B'' ''b'', demoEnv ''A'' ''$(B)'']
   \<and> mset (TopologicalSort rev [demoEnv ''A'' ''$(B)'', demoEnv ''B'' ''b'']) = mset [demoEnv ''A'' ''$(B)'', demoEnv ''B'' ''b'']"
proof -
  let ?e = "[demoEnv ''A'' ''$(B)'', demoEnv ''B'' ''b'']"
  have d: "DependsOn (?e ! i) (?e ! j) \<longleftrightarrow> i = 0 \<and> j = 1" if "i < 2" "j < 2" for i j :: nat
  proof -
    have "\<forall>i \<in> set [0..<2]. \<forall>j \<in> set [0..<2]. DependsOn (?e ! i) (?e ! j) \<longleftrightarrow> i = 0 \<and> j = 1" by code_simp
    then show ?thesis using that by simp
  qed
  then have "references ?e \<subseteq> {(0, 1)}" by (auto simp: references_def)
  moreover have "acyclic {(0 :: nat, 1 :: nat)}" by (rule acyclicI_order [of _ "\<lambda>n. - int n"]) simp
  ultimately have a: "acyclic (references ?e)" using acyclic_subset by blast
  have t: "TopologicalSort rev ?e = [demoEnv ''B'' ''b'', demoEnv ''A'' ''$(B)'']" by code_simp
  show ?thesis using TopologicalSort_spec [of rev ?e, OF _ a] t by simp
qed

theorem TopologicalSort_deterministic_witness:
  "TopologicalSort rev [demoEnv ''A'' ''$(B)'', demoEnv ''B'' ''b''] = TopologicalSort (\<lambda>xs. xs) [demoEnv ''A'' ''$(B)'', demoEnv ''B'' ''b'']"
  by (rule TopologicalSort_deterministic) (simp_all add: demoEnv_def)

end
