(* ===== verification/FactoryPod.thy ===== *)
theory FactoryPod
  imports FactoryArgs EnvSort
begin

text \<open>
  \<^verbatim>\<open>pkg/factory/risingwave_object_factory.go\<close>, third part, with \<^verbatim>\<open>risingwave_object_factory_common.go\<close>: from a node group to the
  pod template. A set-up function takes the pod specification and the container of RisingWave and returns both.
\<close>

section \<open>Merging lists\<close>

fun mergeListWhenKeyEquals :: "'a list \<Rightarrow> 'a \<Rightarrow> ('a \<Rightarrow> 'a \<Rightarrow> bool) \<Rightarrow> 'a list" where
  "mergeListWhenKeyEquals [] val equals = [val]"
| "mergeListWhenKeyEquals (v # vs) val equals =
     (if equals val v then val # vs else v # mergeListWhenKeyEquals vs val equals)"

fun mergeListByKey :: "'a list \<Rightarrow> 'a \<Rightarrow> ('a \<Rightarrow> bool) \<Rightarrow> 'a list" where
  "mergeListByKey [] val keyPred = [val]"
| "mergeListByKey (v # vs) val keyPred = (if keyPred v then val # vs else v # mergeListByKey vs val keyPred)"

text \<open>The three uses: variables and volumes by name, mounts by path; and the loop that merges a list of variables.\<close>

definition mergeEnv :: "EnvVar list \<Rightarrow> EnvVar \<Rightarrow> EnvVar list" where
  "mergeEnv list val = mergeListWhenKeyEquals list val (\<lambda>a b. ev_Name a = ev_Name b)"

definition mergeVolume :: "Volume list \<Rightarrow> Volume \<Rightarrow> Volume list" where
  "mergeVolume list val = mergeListWhenKeyEquals list val (\<lambda>a b. vol_Name a = vol_Name b)"

definition mergeMount :: "VolumeMount list \<Rightarrow> VolumeMount \<Rightarrow> VolumeMount list" where
  "mergeMount list val = mergeListWhenKeyEquals list val (\<lambda>a b. vm_MountPath a = vm_MountPath b)"

definition mergeEnvs :: "EnvVar list \<Rightarrow> EnvVar list \<Rightarrow> EnvVar list" where
  "mergeEnvs list vals = foldl mergeEnv list vals"

definition setEnv :: "EnvVar \<Rightarrow> Container \<Rightarrow> Container" where
  "setEnv val c = c\<lparr>c_Env := mergeListByKey (c_Env c) val (\<lambda>e. ev_Name e = ev_Name val)\<rparr>"

section \<open>Keeping the pod consistent\<close>

definition sortSlicesInContainer :: "FactoryLib \<Rightarrow> Container \<Rightarrow> Container" where
  "sortSlicesInContainer lib c =
     c\<lparr>c_Env := TopologicalSort (lib_envOrder lib) (c_Env c), c_VolumeMounts := sortVolumeMounts (c_VolumeMounts c),
       c_VolumeDevices := sortVolumeDevices (c_VolumeDevices c)\<rparr>"

definition keepPodSpecConsistent :: "FactoryLib \<Rightarrow> PodSpec \<Rightarrow> PodSpec" where
  "keepPodSpecConsistent lib podSpec =
     podSpec\<lparr>ps_Volumes := sortVolumes (ps_Volumes podSpec),
       ps_InitContainers := map (sortSlicesInContainer lib) (ps_InitContainers podSpec),
       ps_Containers := map (sortSlicesInContainer lib) (ps_Containers podSpec)\<rparr>"

section \<open>The container of RisingWave\<close>

definition tcpProbe :: "int \<Rightarrow> int \<Rightarrow> int \<Rightarrow> int \<Rightarrow> Probe" where
  "tcpProbe delay period timeout failures =
     \<lparr>pr_InitialDelaySeconds = delay, pr_PeriodSeconds = period, pr_TimeoutSeconds = timeout, pr_FailureThreshold = failures,
      pr_TCPSocketPort = Some (StrVal PortService), pr_Rest = []\<rparr>"

definition cpuLimitOf :: "Container \<Rightarrow> int option" where
  "cpuLimitOf c = Option.bind (rr_Limits (c_Resources c)) (\<lambda>l. map_of l ''cpu'')"

definition memLimitOf :: "Container \<Rightarrow> int option" where
  "memLimitOf c = Option.bind (rr_Limits (c_Resources c)) (\<lambda>l. map_of l ''memory'')"

definition workerThreads :: "FactoryLib \<Rightarrow> int \<Rightarrow> string" where
  "workerThreads lib cpuLimit = showInt (max (lib_quantityValue lib cpuLimit) 4)"

definition basicSetupRisingWaveContainer :: "FactoryLib \<Rightarrow> Container \<Rightarrow> RisingWaveComponent option \<Rightarrow> Container" where
  "basicSetupRisingWaveContainer lib c compo =
     (let component = (case compo of Some x \<Rightarrow> x | None \<Rightarrow> zeroComponent\<lparr>cmp_LogLevel := ''INFO''\<rparr>);
          c1 = setEnv (envVal RustLog (cmp_LogLevel component)) (c\<lparr>c_Command := [risingwaveExecutablePath]\<rparr>);
          c2 = setEnv (envField PodIP ''status.podIP'') c1;
          c3 = setEnv (envField PodName ''metadata.name'') c2;
          c4 = setEnv (envField PodNamespace ''metadata.namespace'') c3;
          c5 = setEnv (envVal RustMinStack ''4194304'') c4;
          c6 = (if \<not> derefBool (cmp_DisallowPrintStackTraces component) False then setEnv (envVal RustBacktrace ''full'') c5 else c5);
          c7 = (case cpuLimitOf c6 of None \<Rightarrow> c6 | Some cpuLimit \<Rightarrow> setEnv (envVal RWWorkerThreads (workerThreads lib cpuLimit)) c6)
      in c7\<lparr>c_StartupProbe := Some (tcpProbe 5 5 5 12), c_LivenessProbe := Some (tcpProbe 2 10 0 0),
            c_ReadinessProbe := Some (tcpProbe 2 10 0 0), c_Stdin := False, c_StdinOnce := False, c_TTY := False\<rparr>)"

definition setupVolumeAndVolumeMountForLicenseKey :: "RisingWaveObjectFactory \<Rightarrow> PodSpec \<times> Container \<Rightarrow> PodSpec \<times> Container" where
  "setupVolumeAndVolumeMountForLicenseKey f pc =
     (case (pc, volumeAndVolumeMountForLicenseKey f) of ((p, c), (volumes, volumeMounts)) \<Rightarrow>
        (p\<lparr>ps_Volumes := ps_Volumes p @ volumes\<rparr>, c\<lparr>c_VolumeMounts := c_VolumeMounts c @ volumeMounts\<rparr>))"

definition mountConfig :: "Container \<Rightarrow> Container" where
  "mountConfig c = c\<lparr>c_VolumeMounts := mergeMount (c_VolumeMounts c) volumeMountForConfig\<rparr>"

definition mountTLS :: "RisingWaveObjectFactory \<Rightarrow> PodSpec \<times> Container \<Rightarrow> PodSpec \<times> Container" where
  "mountTLS f pc =
     (case (pc, volumeAndVolumeMountForTLS f) of
        ((p, c), None) \<Rightarrow> (p, c)
      | ((p, c), Some (vol, volMount)) \<Rightarrow>
          (p\<lparr>ps_Volumes := mergeVolume (ps_Volumes p) vol\<rparr>, c\<lparr>c_VolumeMounts := mergeMount (c_VolumeMounts c) volMount\<rparr>))"

definition setupMetaContainer :: "RisingWaveObjectFactory \<Rightarrow> PodSpec \<times> Container \<Rightarrow> (PodSpec \<times> Container) outcome" where
  "setupMetaContainer f pc =
     (case pc of (p, c) \<Rightarrow>
        obind (envsForMetaArgs f (c_Image c)) (\<lambda>args.
        obind (envsForStateStore f) (\<lambda>ss.
        obind (envsForMetaStore f) (\<lambda>ms.
          Returns (setupVolumeAndVolumeMountForLicenseKey f
            (p, mountConfig (c\<lparr>c_Name := ''meta'', c_Args := [''meta-node''], c_Ports := portsForMetaContainer,
                 c_Env := mergeEnvs (mergeEnvs (mergeEnvs args (c_Env c)) ss) ms\<rparr>)))))))"

definition isEmbeddedServingModeEnabled :: "RisingWaveObjectFactory \<Rightarrow> bool" where
  "isEmbeddedServingModeEnabled f = derefBool (rws_EnableEmbeddedServingMode (rwSpec f)) False"

text \<open>The limits as the compute node takes them: CPUs rounded up, bytes of memory, 0 when there is none.\<close>

definition resourceEnvs :: "FactoryLib \<Rightarrow> Container \<Rightarrow> int \<times> int" where
  "resourceEnvs lib c =
     (lib_quantityCeil lib (case cpuLimitOf c of Some q \<Rightarrow> q | None \<Rightarrow> 0),
      lib_quantityAsInt64 lib (case memLimitOf c of Some q \<Rightarrow> q | None \<Rightarrow> 0))"

definition frontendCommand :: "RisingWaveObjectFactory \<Rightarrow> Container \<Rightarrow> Container" where
  "frontendCommand f c =
     (if isEmbeddedServingModeEnabled f
      then c\<lparr>c_Args := [''standalone'',
               addr ''--compute-opts=--listen-addr 0.0.0.0'' ComputeServicePort @ '' --advertise-addr '' @ addr (envRef PodIP) ComputeServicePort @ '' --role=serving'',
               addr ''--frontend-opts=--listen-addr 0.0.0.0'' FrontendServicePort @ '' --advertise-addr '' @ addr (envRef PodIP) FrontendServicePort],
             c_PreStop := Some [''bash'', ''-c'',
               risingwaveExecutablePath @ '' ctl meta unregister-workers --yes --workers '' @ addr (''${'' @ PodIP @ ''}'') ComputeServicePort]\<rparr>
      else c\<lparr>c_Args := [''frontend-node'']\<rparr>)"

definition setupFrontendContainer :: "RisingWaveObjectFactory \<Rightarrow> PodSpec \<times> Container \<Rightarrow> (PodSpec \<times> Container) outcome" where
  "setupFrontendContainer f pc =
     (case pc of (p, c) \<Rightarrow>
        obind (envsForFrontendArgs f) (\<lambda>args.
        obind (if isEmbeddedServingModeEnabled f
               then (case resourceEnvs (f_scheme f) c of (cpuLimit, memLimit) \<Rightarrow>
                       omap (\<lambda>ss. envsForResourceLimits cpuLimit memLimit @ ss) (envsForStateStore f))
               else Returns []) (\<lambda>extra.
          (case mountTLS f (p, (frontendCommand f (c\<lparr>c_Name := ''frontend''\<rparr>))\<lparr>c_Env := mergeEnvs (args @ extra) (c_Env c),
                 c_Ports := portsForFrontendContainer f\<rparr>) of
             (p', c') \<Rightarrow> Returns (p', mountConfig c')))))"

definition setupComputeContainer :: "RisingWaveObjectFactory \<Rightarrow> PodSpec \<times> Container \<Rightarrow> (PodSpec \<times> Container) outcome" where
  "setupComputeContainer f pc =
     (case pc of (p, c) \<Rightarrow> (case resourceEnvs (f_scheme f) c of (cpuLimit, memLimit) \<Rightarrow>
        obind (envsForComputeArgs f cpuLimit memLimit) (\<lambda>args.
        obind (envsForStateStore f) (\<lambda>ss.
          Returns (p, mountConfig (c\<lparr>c_Name := ''compute'',
             c_Args := [''compute-node''] @ (if isEmbeddedServingModeEnabled f then [''--role=streaming''] else []),
             c_Ports := portsForComputeContainer, c_Env := mergeEnvs (mergeEnvs args (c_Env c)) ss\<rparr>))))))"

definition setupCompactorContainer :: "RisingWaveObjectFactory \<Rightarrow> PodSpec \<times> Container \<Rightarrow> (PodSpec \<times> Container) outcome" where
  "setupCompactorContainer f pc =
     (case pc of (p, c) \<Rightarrow>
        obind (envsForCompactorArgs f) (\<lambda>args.
        obind (envsForStateStore f) (\<lambda>ss.
          Returns (p, mountConfig (c\<lparr>c_Name := ''compactor'', c_Args := [''compactor-node''],
             c_Ports := portsForCompactorContainer, c_Env := mergeEnvs (mergeEnvs args (c_Env c)) ss\<rparr>)))))"

definition useV2Style :: "RisingWaveObjectFactory \<Rightarrow> bool" where
  "useV2Style f =
     (let v = GetVersionFromImage (rws_Image (rwSpec f)) in
      if rws_StandaloneMode (rwSpec f) = 0
      then \<not> hasPrefix v ''v1.3.'' \<and> \<not> hasPrefix v ''v1.4.'' \<and> \<not> hasPrefix v ''v1.5.'' \<and> \<not> hasPrefix v ''v1.6.'' \<and> \<not> hasPrefix v ''v1.7.''
      else if rws_StandaloneMode (rwSpec f) = 1 then False
      else rws_StandaloneMode (rwSpec f) = 2)"

definition setupStandaloneContainer :: "RisingWaveObjectFactory \<Rightarrow> PodSpec \<times> Container \<Rightarrow> (PodSpec \<times> Container) outcome" where
  "setupStandaloneContainer f pc =
     (case pc of (p, c) \<Rightarrow>
        obind (coreEnvsForMeta f (c_Image c)) (\<lambda>core.
        obind (envsForStateStore f) (\<lambda>ss.
        obind (envsForMetaStore f) (\<lambda>ms.
          (let env1 = mergeEnv (c_Env c @ envsForTLS f) (envVal RWConfigPath configPath);
               env2 = mergeEnv (mergeEnvs env1 core) (envVal RWMetaAddr (addr ''http://127.0.0.1'' MetaServicePort));
               env3 = mergeEnvs (mergeEnvs env2 ss) ms;
               env4 = (if isWebhookListenerEnabled f then env3 @ [envVal RWWebhookListenAddr (addr ''0.0.0.0'' FrontendWebhookPort)] else env3)
           in case mountTLS f (p, c\<lparr>c_Name := ''standalone'',
                  c_Command := [risingwaveExecutablePath, if useV2Style f then ''single-node'' else ''standalone''],
                  c_Args := (if useV2Style f then argsForStandaloneV2 else argsForStandalone f),
                  c_Ports := portsForStandaloneContainer f, c_Env := env4\<rparr>) of
                (p', c') \<Rightarrow> Returns (setupVolumeAndVolumeMountForLicenseKey f (p', mountConfig c')))))))"

section \<open>Pod templates\<close>

definition newPodSpecFromNodeGroupTemplate :: "RisingWaveNodePodTemplate \<Rightarrow> PodTemplateSpec" where
  "newPodSpecFromNodeGroupTemplate template =
     (let t = npt_Spec template; nc = tps_Container t; k = tps_Copied t in
      \<lparr>pt_Labels = pm_Labels (npt_ObjectMeta template), pt_Annotations = pm_Annotations (npt_ObjectMeta template),
       pt_Spec = \<lparr>ps_InitContainers = [],
         ps_Containers = \<lparr>c_Name = [], c_Image = nc_Image nc, c_Command = [], c_Args = [], c_Ports = [], c_EnvFrom = nc_EnvFrom nc,
             c_Env = nc_Env nc, c_Resources = nc_Resources nc, c_VolumeMounts = nc_VolumeMounts nc, c_VolumeDevices = nc_VolumeDevices nc,
             c_LivenessProbe = None, c_ReadinessProbe = None, c_StartupProbe = None, c_PreStop = None,
             c_ImagePullPolicy = nc_ImagePullPolicy nc, c_SecurityContext = nc_SecurityContext nc, c_Stdin = False, c_StdinOnce = False,
             c_TTY = False, c_Rest = []\<rparr> # tps_AdditionalContainers t,
         ps_EnableServiceLinks = Some False, ps_Volumes = tps_Volumes t, ps_ReadinessGates = [],
         ps_Copied = \<lparr>pc_ActiveDeadlineSeconds = pc_ActiveDeadlineSeconds k,
           pc_TerminationGracePeriodSeconds = pc_TerminationGracePeriodSeconds k, pc_DNSPolicy = pc_DNSPolicy k,
           pc_NodeSelector = pc_NodeSelector k, pc_ServiceAccountName = pc_ServiceAccountName k,
           pc_AutomountServiceAccountToken = pc_AutomountServiceAccountToken k, pc_HostPID = pc_HostPID k, pc_HostIPC = pc_HostIPC k,
           pc_ShareProcessNamespace = pc_ShareProcessNamespace k, pc_SecurityContext = pc_SecurityContext k,
           pc_ImagePullSecrets = pc_ImagePullSecrets k, pc_Affinity = pc_Affinity k, pc_SchedulerName = pc_SchedulerName k,
           pc_Tolerations = pc_Tolerations k, pc_HostAliases = pc_HostAliases k, pc_PriorityClassName = pc_PriorityClassName k,
           pc_Priority = pc_Priority k, pc_DNSConfig = pc_DNSConfig k, pc_RuntimeClassName = pc_RuntimeClassName k,
           pc_PreemptionPolicy = pc_PreemptionPolicy k, pc_TopologySpreadConstraints = pc_TopologySpreadConstraints k,
           pc_SetHostnameAsFQDN = pc_SetHostnameAsFQDN k, pc_OS = pc_OS k, pc_HostUsers = pc_HostUsers k\<rparr>\<rparr>\<rparr>)"

text \<open>The group of a compute node becomes its resource group unless the template sets one.\<close>

definition addResourceGroup :: "string \<Rightarrow> RisingWaveNodeGroup \<Rightarrow> Container \<Rightarrow> Container" where
  "addResourceGroup component nodeGroup c =
     (if component = ComponentCompute \<and> ng_Name nodeGroup \<noteq> [] \<and> \<not> (\<exists>e \<in> set (c_Env c). ev_Name e = RWResourceGroup)
      then c\<lparr>c_Env := c_Env c @ [envVal RWResourceGroup (ng_Name nodeGroup)]\<rparr> else c)"

definition buildPodTemplateFromNodeGroup ::
  "RisingWaveObjectFactory \<Rightarrow> string \<Rightarrow> RisingWaveNodeGroup \<Rightarrow> (PodSpec \<times> Container \<Rightarrow> (PodSpec \<times> Container) outcome) \<Rightarrow> PodTemplateSpec outcome" where
  "buildPodTemplateFromNodeGroup f component nodeGroup setup =
     (let t = newPodSpecFromNodeGroupTemplate (ng_Template nodeGroup); spec = pt_Spec t;
          c = addResourceGroup component nodeGroup (hd (ps_Containers spec)); others = tl (ps_Containers spec)
      in obind (risingWaveConfigVolumeOf f nodeGroup) (\<lambda>vol.
         obind (setup (spec\<lparr>ps_Volumes := mergeVolume (ps_Volumes spec) vol\<rparr>, c)) (\<lambda>(spec', c').
           Returns \<lparr>pt_Labels = mergeMap (mergeMap (pt_Labels t) (podLabelsOrSelectorsForComponentGroup f component (ng_Name nodeGroup))) (getInheritedLabels f),
             pt_Annotations = (case ng_RestartAt nodeGroup of
                None \<Rightarrow> pt_Annotations t | Some at \<Rightarrow> mergeMap (pt_Annotations t) [(AnnotationRestartAt, formatUTC at)]),
             pt_Spec = keepPodSpecConsistent (f_scheme f) (spec'\<lparr>ps_Containers := c' # others\<rparr>)\<rparr>)))"

definition convertStandaloneSpecIntoComponent :: "RisingWaveObjectFactory \<Rightarrow> RisingWaveComponent" where
  "convertStandaloneSpecIntoComponent f =
     (case comps_Standalone (rws_Components (rwSpec f)) of
        Some s \<Rightarrow> zeroComponent\<lparr>cmp_LogLevel := sa_LogLevel s, cmp_DisallowPrintStackTraces := sa_DisallowPrintStackTraces s\<rparr>
      | None \<Rightarrow> zeroComponent\<lparr>cmp_LogLevel := ''INFO''\<rparr>)"

definition setupFor ::
  "RisingWaveObjectFactory \<Rightarrow> string \<Rightarrow> ((PodSpec \<times> Container \<Rightarrow> (PodSpec \<times> Container) outcome) \<times> RisingWaveComponent) outcome" where
  "setupFor f component =
     (let cs = rws_Components (rwSpec f) in
      if component = ComponentMeta then Returns (setupMetaContainer f, comps_Meta cs)
      else if component = ComponentFrontend then Returns (setupFrontendContainer f, comps_Frontend cs)
      else if component = ComponentCompactor then Returns (setupCompactorContainer f, comps_Compactor cs)
      else if component = ComponentCompute then Returns (setupComputeContainer f, comps_Compute cs)
      else if component = ComponentStandalone then Returns (setupStandaloneContainer f, convertStandaloneSpecIntoComponent f)
      else Panics ''invalid component'')"

definition newPodTemplateSpecFromNodeGroupByComponent ::
  "RisingWaveObjectFactory \<Rightarrow> string \<Rightarrow> RisingWaveNodeGroup \<Rightarrow> PodTemplateSpec outcome" where
  "newPodTemplateSpecFromNodeGroupByComponent f component nodeGroup =
     obind (setupFor f component) (\<lambda>(containerModifier, compo).
       buildPodTemplateFromNodeGroup f component nodeGroup
         (\<lambda>(p, c). containerModifier (p, basicSetupRisingWaveContainer (f_scheme f) c (Some compo))))"

definition overrideFieldsOfNodeGroup :: "RisingWaveObjectFactory \<Rightarrow> RisingWaveNodeGroup \<Rightarrow> RisingWaveNodeGroup" where
  "overrideFieldsOfNodeGroup f g =
     (let t = ng_Template g; sp = npt_Spec t; c = tps_Container sp in
      if nc_Image c = []
      then g\<lparr>ng_Template := t\<lparr>npt_Spec := sp\<lparr>tps_Container := c\<lparr>nc_Image := rws_Image (rwSpec f)\<rparr>\<rparr>\<rparr>\<rparr>
      else g)"

definition convertStandaloneIntoNodeGroup :: "RisingWaveObjectFactory \<Rightarrow> RisingWaveNodeGroup" where
  "convertStandaloneIntoNodeGroup f =
     (let zero = \<lparr>ng_Name = [], ng_Replicas = 1, ng_RestartAt = None, ng_Configuration = None,
          ng_UpgradeStrategy = \<lparr>us_Type = [], us_RollingUpdate = None, us_InPlaceUpdateStrategy = None\<rparr>,
          ng_MinReadySeconds = 0, ng_VolumeClaimTemplates = [], ng_PersistentVolumeClaimRetentionPolicy = None,
          ng_ProgressDeadlineSeconds = None, ng_Template = zeroPodTemplate\<rparr>
      in case comps_Standalone (rws_Components (rwSpec f)) of
           None \<Rightarrow> zero
         | Some s \<Rightarrow> zero\<lparr>ng_Replicas := sa_Replicas s, ng_RestartAt := sa_RestartAt s, ng_UpgradeStrategy := sa_UpgradeStrategy s,
             ng_MinReadySeconds := sa_MinReadySeconds s, ng_VolumeClaimTemplates := sa_VolumeClaimTemplates s,
             ng_PersistentVolumeClaimRetentionPolicy := sa_PersistentVolumeClaimRetentionPolicy s,
             ng_ProgressDeadlineSeconds := sa_ProgressDeadlineSeconds s, ng_Template := sa_Template s\<rparr>)"

end
