(* ===== verification/Factory.thy ===== *)
theory Factory
  imports FactoryPod
begin

text \<open>
  \<^verbatim>\<open>pkg/factory/risingwave_object_factory.go\<close>, last part: the objects. The structs of the workloads have the fields the factory
  sets; the constants of the Kubernetes and OpenKruise API that only name a strategy are constructors. Two
  fields that the model keeps of every object are what the controller reads of it: \<open>objectView\<close>
  turns metadata and replicas into the object of Workloads.
\<close>

section \<open>Workload objects\<close>

datatype DeploymentStrategyType = NoDeploymentStrategyType | RollingUpdateDeploymentStrategyType | RecreateDeploymentStrategyType

record DeploymentStrategy =
  ds_Type :: DeploymentStrategyType
  ds_MaxUnavailable :: "IntOrString option option"

datatype CloneSetUpdateStrategyType =
    NoCloneSetUpdateStrategyType
  | RecreateCloneSetUpdateStrategyType
  | InPlaceIfPossibleCloneSetUpdateStrategyType
  | InPlaceOnlyCloneSetUpdateStrategyType

record CloneSetUpdateStrategy =
  cus_Type :: CloneSetUpdateStrategyType
  cus_Partition :: "IntOrString option"
  cus_MaxUnavailable :: "IntOrString option"
  cus_MaxSurge :: "IntOrString option"
  cus_InPlaceUpdateStrategy :: "InPlaceUpdateStrategy option"

datatype StatefulSetStrategyType = NoStatefulSetStrategyType | RollingUpdateStatefulSetStrategyType

record StatefulSetUpdateStrategy =
  sus_Type :: StatefulSetStrategyType
  sus_MaxUnavailable :: "IntOrString option option"

datatype PodUpdateStrategyType =
    NoPodUpdateStrategyType
  | RecreatePodUpdateStrategyType
  | InPlaceIfPossiblePodUpdateStrategyType
  | InPlaceOnlyPodUpdateStrategyType

record RollingUpdateStatefulSetStrategy =
  rus_Partition :: "int option"
  rus_MaxUnavailable :: "IntOrString option"
  rus_PodUpdatePolicy :: PodUpdateStrategyType
  rus_InPlaceUpdateStrategy :: "InPlaceUpdateStrategy option"

record AdvancedStatefulSetUpdateStrategy =
  aus_Type :: StatefulSetStrategyType
  aus_RollingUpdate :: "RollingUpdateStatefulSetStrategy option"

record Deployment =
  dep_Meta :: ObjectMeta
  dep_Replicas :: int
  dep_Selector :: strmap
  dep_Template :: PodTemplateSpec
  dep_Strategy :: DeploymentStrategy
  dep_MinReadySeconds :: int
  dep_ProgressDeadlineSeconds :: "int option"

record CloneSet =
  cs_Meta :: ObjectMeta
  cs_Replicas :: int
  cs_Selector :: strmap
  cs_Template :: PodTemplateSpec
  cs_UpdateStrategy :: CloneSetUpdateStrategy
  cs_MinReadySeconds :: int

text \<open>The claim of a volume: the metadata of the template, moved field by field, and its specification.\<close>

record CorePersistentVolumeClaim =
  cpvc_Meta :: ObjectMeta
  cpvc_Spec :: opaque

record StatefulSet =
  sts_Meta :: ObjectMeta
  sts_ServiceName :: string
  sts_Replicas :: int
  sts_UpdateStrategy :: StatefulSetUpdateStrategy
  sts_Selector :: strmap
  sts_Template :: PodTemplateSpec
  sts_Parallel :: bool
  sts_MinReadySeconds :: int
  sts_VolumeClaimTemplates :: "CorePersistentVolumeClaim list"
  sts_RetentionPolicy :: "RetentionPolicy option"

record AdvancedStatefulSet =
  asts_Meta :: ObjectMeta
  asts_ServiceName :: string
  asts_Replicas :: int
  asts_UpdateStrategy :: AdvancedStatefulSetUpdateStrategy
  asts_Selector :: strmap
  asts_Template :: PodTemplateSpec
  asts_Parallel :: bool
  asts_VolumeClaimTemplates :: "CorePersistentVolumeClaim list"
  asts_RetentionPolicy :: "RetentionPolicy option"

record ServicePort =
  svp_Name :: string
  svp_Protocol :: string
  svp_Port :: int
  svp_TargetPort :: IntOrString

text \<open>\<open>svc_Headless\<close>: the cluster IP is \<^verbatim>\<open>None\<close>, else it is left to the cluster.\<close>

record Service =
  svc_Meta :: ObjectMeta
  svc_Type :: string
  svc_Headless :: bool
  svc_Selector :: strmap
  svc_Ports :: "ServicePort list"

record ConfigMap =
  cm_Meta :: ObjectMeta
  cm_Data :: strmap

record MetricRelabelConfig =
  mrc_SourceLabels :: "string list"
  mrc_Action :: string
  mrc_Regex :: string

record MonitorEndpoint =
  me_Port :: string
  me_Interval :: string
  me_ScrapeTimeout :: string
  me_MetricRelabelConfigs :: "MetricRelabelConfig list"

record ServiceMonitor =
  smon_Meta :: ObjectMeta
  smon_JobLabel :: string
  smon_TargetLabels :: "string list"
  smon_Endpoints :: "MonitorEndpoint list"
  smon_SelectorIn :: "(string \<times> string list) list"

section \<open>Upgrade strategies\<close>

definition rollingUpdateOrDefault :: "RisingWaveNodeGroupRollingUpdate option \<Rightarrow> RisingWaveNodeGroupRollingUpdate" where
  "rollingUpdateOrDefault r =
     (case r of Some x \<Rightarrow> x | None \<Rightarrow> \<lparr>ru_MaxUnavailable = None, ru_Partition = None, ru_MaxSurge = None\<rparr>)"

definition inPlaceUpdateStrategyOrDefault :: "InPlaceUpdateStrategy option \<Rightarrow> InPlaceUpdateStrategy" where
  "inPlaceUpdateStrategyOrDefault s = (case s of Some x \<Rightarrow> x | None \<Rightarrow> \<lparr>ips_GracePeriodSeconds = 0\<rparr>)"

definition buildUpgradeStrategyForDeployment :: "RisingWaveNodeGroupUpgradeStrategy \<Rightarrow> DeploymentStrategy" where
  "buildUpgradeStrategyForDeployment strategy =
     (if us_Type strategy = RisingWaveUpgradeStrategyTypeRollingUpdate
      then \<lparr>ds_Type = RollingUpdateDeploymentStrategyType,
            ds_MaxUnavailable = Some (ru_MaxUnavailable (rollingUpdateOrDefault (us_RollingUpdate strategy)))\<rparr>
      else if us_Type strategy = RisingWaveUpgradeStrategyTypeRecreate
      then \<lparr>ds_Type = RecreateDeploymentStrategyType, ds_MaxUnavailable = None\<rparr>
      else \<lparr>ds_Type = NoDeploymentStrategyType, ds_MaxUnavailable = None\<rparr>)"

definition zeroCloneSetUpdateStrategy :: CloneSetUpdateStrategy where
  "zeroCloneSetUpdateStrategy = \<lparr>cus_Type = NoCloneSetUpdateStrategyType, cus_Partition = None, cus_MaxUnavailable = None,
     cus_MaxSurge = None, cus_InPlaceUpdateStrategy = None\<rparr>"

definition buildUpgradeStrategyForCloneSet :: "RisingWaveNodeGroupUpgradeStrategy \<Rightarrow> CloneSetUpdateStrategy" where
  "buildUpgradeStrategyForCloneSet strategy =
     (let ru = rollingUpdateOrDefault (us_RollingUpdate strategy);
          s = zeroCloneSetUpdateStrategy\<lparr>cus_MaxUnavailable := ru_MaxUnavailable ru, cus_MaxSurge := ru_MaxSurge ru,
            cus_Partition := ru_Partition ru,
            cus_InPlaceUpdateStrategy := (if us_InPlaceUpdateStrategy strategy \<noteq> None
              then Some (inPlaceUpdateStrategyOrDefault (us_InPlaceUpdateStrategy strategy)) else None)\<rparr>
      in if us_Type strategy = RisingWaveUpgradeStrategyTypeRecreate then s\<lparr>cus_Type := RecreateCloneSetUpdateStrategyType\<rparr>
         else if us_Type strategy = RisingWaveUpgradeStrategyTypeInPlaceIfPossible
         then s\<lparr>cus_Type := InPlaceIfPossibleCloneSetUpdateStrategyType\<rparr>
         else if us_Type strategy = RisingWaveUpgradeStrategyTypeInPlaceOnly
         then s\<lparr>cus_Type := InPlaceOnlyCloneSetUpdateStrategyType\<rparr>
         else zeroCloneSetUpdateStrategy)"

definition buildUpgradeStrategyForStatefulSet :: "RisingWaveNodeGroupUpgradeStrategy \<Rightarrow> StatefulSetUpdateStrategy" where
  "buildUpgradeStrategyForStatefulSet strategy =
     (if us_Type strategy = RisingWaveUpgradeStrategyTypeRollingUpdate
      then \<lparr>sus_Type = RollingUpdateStatefulSetStrategyType,
            sus_MaxUnavailable = Some (ru_MaxUnavailable (rollingUpdateOrDefault (us_RollingUpdate strategy)))\<rparr>
      else if us_Type strategy = RisingWaveUpgradeStrategyTypeRecreate
      then \<lparr>sus_Type = RollingUpdateStatefulSetStrategyType, sus_MaxUnavailable = Some (Some (StrVal ''100%''))\<rparr>
      else \<lparr>sus_Type = NoStatefulSetStrategyType, sus_MaxUnavailable = None\<rparr>)"

text \<open>The partition of an advanced stateful set is a number: the percent sign of a string is dropped.\<close>

definition Atoi :: "string \<Rightarrow> string + int" where
  "Atoi s = (if atoiOk s then Inr (signedVal s) else Inl ''invalid syntax or value out of range'')"

definition partitionOf :: "RisingWaveNodeGroupUpgradeStrategy \<Rightarrow> int option outcome" where
  "partitionOf strategy =
     (case ru_Partition (rollingUpdateOrDefault (us_RollingUpdate strategy)) of
        None \<Rightarrow> Returns None
      | Some (IntVal n) \<Rightarrow> Returns (Some n)
      | Some (StrVal s) \<Rightarrow>
          (case Atoi (replaceChar CHR ''%'' [] s) of
             Inl e \<Rightarrow> Panics e
           | Inr n \<Rightarrow> Returns (Some (i32 n))))"

definition buildUpgradeStrategyForAdvancedStatefulSet ::
  "RisingWaveNodeGroupUpgradeStrategy \<Rightarrow> AdvancedStatefulSetUpdateStrategy outcome" where
  "buildUpgradeStrategyForAdvancedStatefulSet strategy =
     omap (\<lambda>partition.
       let r = \<lparr>rus_Partition = partition,
                rus_MaxUnavailable = ru_MaxUnavailable (rollingUpdateOrDefault (us_RollingUpdate strategy)),
                rus_PodUpdatePolicy = NoPodUpdateStrategyType,
                rus_InPlaceUpdateStrategy = us_InPlaceUpdateStrategy strategy\<rparr>;
           withPolicy = (\<lambda>p. \<lparr>aus_Type = RollingUpdateStatefulSetStrategyType, aus_RollingUpdate = Some (r\<lparr>rus_PodUpdatePolicy := p\<rparr>)\<rparr>)
       in if us_Type strategy = RisingWaveUpgradeStrategyTypeRecreate then withPolicy RecreatePodUpdateStrategyType
          else if us_Type strategy = RisingWaveUpgradeStrategyTypeInPlaceIfPossible then withPolicy InPlaceIfPossiblePodUpdateStrategyType
          else if us_Type strategy = RisingWaveUpgradeStrategyTypeInPlaceOnly then withPolicy InPlaceOnlyPodUpdateStrategyType
          else \<lparr>aus_Type = NoStatefulSetStrategyType, aus_RollingUpdate = None\<rparr>)
     (partitionOf strategy)"

section \<open>Building workloads\<close>

text \<open>The gate that in-place updates need.\<close>

definition addReadinessGate :: "FactoryLib \<Rightarrow> PodTemplateSpec \<Rightarrow> PodTemplateSpec" where
  "addReadinessGate lib t = t\<lparr>pt_Spec := (pt_Spec t)\<lparr>ps_ReadinessGates := ps_ReadinessGates (pt_Spec t) @ [lib_inPlaceUpdateReady lib]\<rparr>\<rparr>"

definition newDeployment :: "RisingWaveObjectFactory \<Rightarrow> string \<Rightarrow> RisingWaveNodeGroup \<Rightarrow> PodTemplateSpec \<Rightarrow> Deployment outcome" where
  "newDeployment f component nodeGroup template =
     omap (\<lambda>meta. \<lparr>dep_Meta = meta, dep_Replicas = ng_Replicas nodeGroup,
         dep_Selector = podLabelsOrSelectorsForComponentGroup f component (ng_Name nodeGroup), dep_Template = template,
         dep_Strategy = buildUpgradeStrategyForDeployment (ng_UpgradeStrategy nodeGroup),
         dep_MinReadySeconds = ng_MinReadySeconds nodeGroup, dep_ProgressDeadlineSeconds = ng_ProgressDeadlineSeconds nodeGroup\<rparr>)
       (getObjectMetaForComponentGroupLevelResources f component (ng_Name nodeGroup) True)"

definition newCloneSet :: "RisingWaveObjectFactory \<Rightarrow> string \<Rightarrow> RisingWaveNodeGroup \<Rightarrow> PodTemplateSpec \<Rightarrow> CloneSet outcome" where
  "newCloneSet f component nodeGroup template =
     omap (\<lambda>meta. \<lparr>cs_Meta = meta, cs_Replicas = ng_Replicas nodeGroup,
         cs_Selector = podLabelsOrSelectorsForComponentGroup f component (ng_Name nodeGroup), cs_Template = addReadinessGate (f_scheme f) template,
         cs_UpdateStrategy = buildUpgradeStrategyForCloneSet (ng_UpgradeStrategy nodeGroup),
         cs_MinReadySeconds = ng_MinReadySeconds nodeGroup\<rparr>)
       (getObjectMetaForComponentGroupLevelResources f component (ng_Name nodeGroup) True)"

definition buildPersistentVolumeClaims :: "PersistentVolumeClaim list \<Rightarrow> CorePersistentVolumeClaim list" where
  "buildPersistentVolumeClaims claims =
     map (\<lambda>claim. let m = pvc_Meta claim in
         \<lparr>cpvc_Meta = zeroObjectMeta\<lparr>om_Name := pvcm_Name m, om_Labels := pvcm_Labels m, om_Annotations := pvcm_Annotations m,
            om_Finalizers := pvcm_Finalizers m\<rparr>,
          cpvc_Spec = pvc_Spec claim\<rparr>) claims"

definition newStatefulSet :: "RisingWaveObjectFactory \<Rightarrow> string \<Rightarrow> RisingWaveNodeGroup \<Rightarrow> PodTemplateSpec \<Rightarrow> StatefulSet outcome" where
  "newStatefulSet f component nodeGroup template =
     obind (getObjectMetaForComponentGroupLevelResources f component (ng_Name nodeGroup) True) (\<lambda>meta.
     obind (componentName f component []) (\<lambda>serviceName.
       Returns \<lparr>sts_Meta = meta, sts_ServiceName = serviceName, sts_Replicas = ng_Replicas nodeGroup,
         sts_UpdateStrategy = buildUpgradeStrategyForStatefulSet (ng_UpgradeStrategy nodeGroup),
         sts_Selector = podLabelsOrSelectorsForComponentGroup f component (ng_Name nodeGroup), sts_Template = template,
         sts_Parallel = True, sts_MinReadySeconds = ng_MinReadySeconds nodeGroup,
         sts_VolumeClaimTemplates = buildPersistentVolumeClaims (ng_VolumeClaimTemplates nodeGroup),
         sts_RetentionPolicy = ng_PersistentVolumeClaimRetentionPolicy nodeGroup\<rparr>))"

definition convertAppsV1StatefulSetPersistentVolumeClaimRetentionPolicyToKruise :: "RetentionPolicy option \<Rightarrow> RetentionPolicy option" where
  "convertAppsV1StatefulSetPersistentVolumeClaimRetentionPolicyToKruise p =
     (case p of
        None \<Rightarrow> None
      | Some x \<Rightarrow> Some \<lparr>rp_WhenDeleted = rp_WhenDeleted x, rp_WhenScaled = rp_WhenScaled x\<rparr>)"

definition newAdvancedStatefulSet ::
  "RisingWaveObjectFactory \<Rightarrow> string \<Rightarrow> RisingWaveNodeGroup \<Rightarrow> PodTemplateSpec \<Rightarrow> AdvancedStatefulSet outcome" where
  "newAdvancedStatefulSet f component nodeGroup template =
     obind (getObjectMetaForComponentGroupLevelResources f component (ng_Name nodeGroup) True) (\<lambda>meta.
     obind (componentName f component []) (\<lambda>serviceName.
     obind (buildUpgradeStrategyForAdvancedStatefulSet (ng_UpgradeStrategy nodeGroup)) (\<lambda>strategy.
       Returns \<lparr>asts_Meta = meta, asts_ServiceName = serviceName, asts_Replicas = ng_Replicas nodeGroup,
         asts_UpdateStrategy = strategy,
         asts_Selector = podLabelsOrSelectorsForComponentGroup f component (ng_Name nodeGroup),
         asts_Template = addReadinessGate (f_scheme f) template, asts_Parallel = True,
         asts_VolumeClaimTemplates = buildPersistentVolumeClaims (ng_VolumeClaimTemplates nodeGroup),
         asts_RetentionPolicy = convertAppsV1StatefulSetPersistentVolumeClaimRetentionPolicyToKruise
           (ng_PersistentVolumeClaimRetentionPolicy nodeGroup)\<rparr>)))"

text \<open>
  The owner reference that \<^verbatim>\<open>SetControllerReference\<close> adds to the metadata of an object; \<open>get\<close> and \<open>put\<close> reach
  the metadata in the object.
\<close>

definition mustSetControllerReference ::
  "RisingWaveObjectFactory \<Rightarrow> ('a \<Rightarrow> ObjectMeta) \<Rightarrow> (ObjectMeta \<Rightarrow> 'a \<Rightarrow> 'a) \<Rightarrow> 'a \<Rightarrow> 'a outcome" where
  "mustSetControllerReference f get put controlled =
     (case lib_setControllerReference (f_scheme f) (f_risingwave f) (get controlled) of
        Inl e \<Rightarrow> Panics e
      | Inr meta \<Rightarrow> Returns (put meta controlled))"

lemma mustSetControllerReference_eq_Returns:
  "mustSetControllerReference f get put x = Returns y \<longleftrightarrow>
     (\<exists>m. lib_setControllerReference (f_scheme f) (f_risingwave f) (get x) = Inr m \<and> y = put m x)"
  by (auto simp: mustSetControllerReference_def split: sum.splits)

abbreviation setDeployment :: "ObjectMeta \<Rightarrow> Deployment \<Rightarrow> Deployment" where "setDeployment m x \<equiv> x\<lparr>dep_Meta := m\<rparr>"
abbreviation setCloneSet :: "ObjectMeta \<Rightarrow> CloneSet \<Rightarrow> CloneSet" where "setCloneSet m x \<equiv> x\<lparr>cs_Meta := m\<rparr>"
abbreviation setStatefulSet :: "ObjectMeta \<Rightarrow> StatefulSet \<Rightarrow> StatefulSet" where "setStatefulSet m x \<equiv> x\<lparr>sts_Meta := m\<rparr>"
abbreviation setAdvancedStatefulSet :: "ObjectMeta \<Rightarrow> AdvancedStatefulSet \<Rightarrow> AdvancedStatefulSet" where
  "setAdvancedStatefulSet m x \<equiv> x\<lparr>asts_Meta := m\<rparr>"
abbreviation setService :: "ObjectMeta \<Rightarrow> Service \<Rightarrow> Service" where "setService m x \<equiv> x\<lparr>svc_Meta := m\<rparr>"

definition newWorkloadObjectForComponentNodeGroup ::
  "RisingWaveObjectFactory \<Rightarrow> string \<Rightarrow> string \<Rightarrow> (RisingWaveObjectFactory \<Rightarrow> string \<Rightarrow> RisingWaveNodeGroup \<Rightarrow> PodTemplateSpec \<Rightarrow> 'a outcome) \<Rightarrow>
    ('a \<Rightarrow> ObjectMeta) \<Rightarrow> (ObjectMeta \<Rightarrow> 'a \<Rightarrow> 'a) \<Rightarrow> 'a outcome" where
  "newWorkloadObjectForComponentNodeGroup f component grp builder get put =
     obind (GetNodeGroup (f_risingwave f) component grp) (\<lambda>p.
     obind (deref p) (\<lambda>nodeGroup.
     obind (newPodTemplateSpecFromNodeGroupByComponent f component (overrideFieldsOfNodeGroup f nodeGroup)) (\<lambda>template.
     obind (builder f component (overrideFieldsOfNodeGroup f nodeGroup) template) (\<lambda>workloadObj.
       mustSetControllerReference f get put workloadObj))))"

definition NewMetaStatefulSet :: "RisingWaveObjectFactory \<Rightarrow> string \<Rightarrow> StatefulSet outcome" where
  "NewMetaStatefulSet f grp = newWorkloadObjectForComponentNodeGroup f ComponentMeta grp newStatefulSet sts_Meta setStatefulSet"

definition NewMetaAdvancedStatefulSet :: "RisingWaveObjectFactory \<Rightarrow> string \<Rightarrow> AdvancedStatefulSet outcome" where
  "NewMetaAdvancedStatefulSet f grp = newWorkloadObjectForComponentNodeGroup f ComponentMeta grp newAdvancedStatefulSet asts_Meta setAdvancedStatefulSet"

definition NewFrontendDeployment :: "RisingWaveObjectFactory \<Rightarrow> string \<Rightarrow> Deployment outcome" where
  "NewFrontendDeployment f grp = newWorkloadObjectForComponentNodeGroup f ComponentFrontend grp newDeployment dep_Meta setDeployment"

definition NewFrontendCloneSet :: "RisingWaveObjectFactory \<Rightarrow> string \<Rightarrow> CloneSet outcome" where
  "NewFrontendCloneSet f grp = newWorkloadObjectForComponentNodeGroup f ComponentFrontend grp newCloneSet cs_Meta setCloneSet"

definition NewCompactorDeployment :: "RisingWaveObjectFactory \<Rightarrow> string \<Rightarrow> Deployment outcome" where
  "NewCompactorDeployment f grp = newWorkloadObjectForComponentNodeGroup f ComponentCompactor grp newDeployment dep_Meta setDeployment"

definition NewCompactorCloneSet :: "RisingWaveObjectFactory \<Rightarrow> string \<Rightarrow> CloneSet outcome" where
  "NewCompactorCloneSet f grp = newWorkloadObjectForComponentNodeGroup f ComponentCompactor grp newCloneSet cs_Meta setCloneSet"

definition NewComputeStatefulSet :: "RisingWaveObjectFactory \<Rightarrow> string \<Rightarrow> StatefulSet outcome" where
  "NewComputeStatefulSet f grp = newWorkloadObjectForComponentNodeGroup f ComponentCompute grp newStatefulSet sts_Meta setStatefulSet"

definition NewComputeAdvancedStatefulSet :: "RisingWaveObjectFactory \<Rightarrow> string \<Rightarrow> AdvancedStatefulSet outcome" where
  "NewComputeAdvancedStatefulSet f grp = newWorkloadObjectForComponentNodeGroup f ComponentCompute grp newAdvancedStatefulSet asts_Meta setAdvancedStatefulSet"

definition NewStandaloneStatefulSet :: "RisingWaveObjectFactory \<Rightarrow> StatefulSet outcome" where
  "NewStandaloneStatefulSet f =
     (let nodeGroup = overrideFieldsOfNodeGroup f (convertStandaloneIntoNodeGroup f) in
      obind (newPodTemplateSpecFromNodeGroupByComponent f ComponentStandalone nodeGroup) (\<lambda>template.
      obind (newStatefulSet f ComponentStandalone nodeGroup template) (\<lambda>workloadObj.
        mustSetControllerReference f sts_Meta setStatefulSet workloadObj)))"

definition NewStandaloneAdvancedStatefulSet :: "RisingWaveObjectFactory \<Rightarrow> AdvancedStatefulSet outcome" where
  "NewStandaloneAdvancedStatefulSet f =
     (let nodeGroup = overrideFieldsOfNodeGroup f (convertStandaloneIntoNodeGroup f) in
      obind (newPodTemplateSpecFromNodeGroupByComponent f ComponentStandalone nodeGroup) (\<lambda>template.
      obind (newAdvancedStatefulSet f ComponentStandalone nodeGroup template) (\<lambda>workloadObj.
        mustSetControllerReference f asts_Meta setAdvancedStatefulSet workloadObj)))"

section \<open>Services, configuration and monitor\<close>

definition servicePort :: "string \<Rightarrow> int \<Rightarrow> ServicePort" where
  "servicePort n port = \<lparr>svp_Name = n, svp_Protocol = ''TCP'', svp_Port = port, svp_TargetPort = StrVal n\<rparr>"

definition newService :: "RisingWaveObjectFactory \<Rightarrow> string \<Rightarrow> string \<Rightarrow> ServicePort list \<Rightarrow> Service outcome" where
  "newService f component serviceType ports =
     omap (\<lambda>meta. \<lparr>svc_Meta = meta, svc_Type = serviceType, svc_Headless = False,
         svc_Selector = podLabelsOrSelectorsForComponent f component, svc_Ports = ports\<rparr>)
       (getObjectMetaForComponentLevelResources f component True)"

definition addMetadata :: "PartialObjectMeta \<Rightarrow> Service \<Rightarrow> Service" where
  "addMetadata extra s =
     s\<lparr>svc_Meta := (svc_Meta s)\<lparr>om_Labels := mergeMap (om_Labels (svc_Meta s)) (pm_Labels extra),
        om_Annotations := mergeMap (om_Annotations (svc_Meta s)) (pm_Annotations extra)\<rparr>\<rparr>"

definition NewStandaloneService :: "RisingWaveObjectFactory \<Rightarrow> Service outcome" where
  "NewStandaloneService f =
     obind (newService f ComponentStandalone ''ClusterIP''
        ([servicePort PortService FrontendServicePort, servicePort PortMetrics MetaMetricsPort,
          servicePort PortDashboard MetaDashboardPort] @
         (if isWebhookListenerEnabled f then [servicePort PortHTTP FrontendWebhookPort] else [])))
       (mustSetControllerReference f svc_Meta setService)"

definition NewMetaService :: "RisingWaveObjectFactory \<Rightarrow> Service outcome" where
  "NewMetaService f =
     obind (newService f ComponentMeta ''ClusterIP''
        [servicePort PortService MetaServicePort, servicePort PortMetrics MetaMetricsPort, servicePort PortDashboard MetaDashboardPort])
       (\<lambda>s. mustSetControllerReference f svc_Meta setService
          (addMetadata (rws_AdditionalMetaServiceMetadata (rwSpec f)) (s\<lparr>svc_Headless := True\<rparr>)))"

definition NewFrontendService :: "RisingWaveObjectFactory \<Rightarrow> Service outcome" where
  "NewFrontendService f =
     obind (newService f ComponentFrontend (rws_FrontendServiceType (rwSpec f))
        ([servicePort PortService FrontendServicePort] @
         (if \<not> derefBool (rws_EnableStandaloneMode (rwSpec f)) False then [servicePort PortMetrics FrontendMetricsPort] else []) @
         (if isWebhookListenerEnabled f then [servicePort PortHTTP FrontendWebhookPort] else [])))
       (\<lambda>s. mustSetControllerReference f svc_Meta setService
          (addMetadata (rws_AdditionalFrontendServiceMetadata (rwSpec f))
            (if IsStandaloneModeEnabled (f_risingwave f)
             then s\<lparr>svc_Selector := smapUpdate LabelRisingWaveComponent ComponentStandalone (svc_Selector s)\<rparr> else s)))"

definition NewComputeService :: "RisingWaveObjectFactory \<Rightarrow> Service outcome" where
  "NewComputeService f =
     obind (newService f ComponentCompute ''ClusterIP''
        [servicePort PortService ComputeServicePort, servicePort PortMetrics ComputeMetricsPort])
       (\<lambda>s. mustSetControllerReference f svc_Meta setService (s\<lparr>svc_Headless := True\<rparr>))"

definition NewCompactorService :: "RisingWaveObjectFactory \<Rightarrow> Service outcome" where
  "NewCompactorService f =
     obind (newService f ComponentCompactor ''ClusterIP''
        [servicePort PortService CompactorServicePort, servicePort PortMetrics CompactorMetricsPort])
       (\<lambda>s. mustSetControllerReference f svc_Meta setService (s\<lparr>svc_Headless := True\<rparr>))"

definition NewConfigConfigMap :: "RisingWaveObjectFactory \<Rightarrow> string \<Rightarrow> ConfigMap outcome" where
  "NewConfigConfigMap f val =
     obind (getObjectMetaForComponentLevelResources f ComponentConfig False) (\<lambda>meta.
       mustSetControllerReference f cm_Meta (\<lambda>m x. x\<lparr>cm_Meta := m\<rparr>)
         \<lparr>cm_Meta = meta, cm_Data = [(risingWaveConfigMapKey, val)]\<rparr>)"

definition dropMetric :: "string \<Rightarrow> MetricRelabelConfig" where
  "dropMetric regex = \<lparr>mrc_SourceLabels = [''__name__''], mrc_Action = ''drop'', mrc_Regex = regex\<rparr>"

definition NewServiceMonitor :: "RisingWaveObjectFactory \<Rightarrow> ServiceMonitor outcome" where
  "NewServiceMonitor f =
     mustSetControllerReference f smon_Meta (\<lambda>m x. x\<lparr>smon_Meta := m\<rparr>)
       \<lparr>smon_Meta = getObjectMetaForGeneralResources f (''risingwave-'' @ rwName f) True,
        smon_JobLabel = ''risingwave/'' @ rwName f,
        smon_TargetLabels = [LabelRisingWaveName, LabelRisingWaveComponent, LabelRisingWaveGroup],
        smon_Endpoints = [\<lparr>me_Port = PortMetrics, me_Interval = ''15s'', me_ScrapeTimeout = ''15s'',
           me_MetricRelabelConfigs = [dropMetric ''batch_.+'', dropMetric ''stream_exchange_.+'']\<rparr>],
        smon_SelectorIn = [(LabelRisingWaveName, [rwName f])]\<rparr>"

section \<open>The objects as the controller reads them\<close>

definition objectView :: "string \<Rightarrow> ObjectMeta \<Rightarrow> int option \<Rightarrow> K8sObject" where
  "objectView kind meta replicas =
     \<lparr>ko_Kind = kind, ko_Name = om_Name meta, ko_Namespace = om_Namespace meta, ko_UID = om_UID meta, ko_ResourceVersion = [],
      ko_Labels = om_Labels meta, ko_Generation = om_Generation meta, ko_SpecReplicas = replicas, ko_ObservedGeneration = 0,
      ko_Conditions = [], ko_Replicas = 0, ko_UpdatedReplicas = 0, ko_ReadyReplicas = 0, ko_AvailableReplicas = 0,
      ko_OwnerReferences = om_OwnerReferences meta\<rparr>"

end
