(* ===== verification/FactoryLabels.thy ===== *)
theory FactoryLabels
  imports Factory
begin

text \<open>
  What the objects of the factory carry: names and labels, selectors that match the labels of the pods, and service ports that
  exist in the containers. The laws are stated once for a pod template and a metadata, and then for the eight workloads.
\<close>

section \<open>Merged maps\<close>

lemma map_of_rev_sorted: "sorted_keys m \<Longrightarrow> map_of (rev m) = map_of m"
proof -
  assume "sorted_keys m"
  then have "distinct (map fst m)" using strict_sorted_iff by blast
  then show ?thesis by (intro map_of_inject_set [THEN iffD2]) (simp_all add: rev_map [symmetric])
qed

lemma map_of_mergeMap: "map_of (mergeMap a b) = map_of (rev a) ++ map_of (rev b)"
  by (simp add: mergeMap_def map_of_smap)

lemma sorted_mergeMap: "sorted_keys (mergeMap a b)"
  by (simp add: mergeMap_def sorted_smap)

lemma mergeMap_left: "k \<notin> fst ` set b \<Longrightarrow> sorted_keys a \<Longrightarrow> map_of (mergeMap a b) k = map_of a k"
proof -
  assume "k \<notin> fst ` set b" "sorted_keys a"
  moreover from this have "map_of (rev b) k = None" by (simp add: map_of_eq_None_iff)
  ultimately show ?thesis by (simp add: map_of_mergeMap map_of_rev_sorted map_add_def)
qed

lemma mergeMap_right: "map_of b k = Some v \<Longrightarrow> sorted_keys b \<Longrightarrow> map_of (mergeMap a b) k = Some v"
  by (simp add: map_of_mergeMap map_of_rev_sorted map_add_def)

section \<open>Inherited labels\<close>

text \<open>A label of the operator: the prefix \<^verbatim>\<open>risingwave/\<close> and a name without slash.\<close>

definition systemLabel :: "string \<Rightarrow> bool" where
  "systemLabel k \<longleftrightarrow> hasPrefix k ''risingwave/'' \<and> CHR ''/'' \<notin> set (drop 11 k)"

lemma slash_split:
  assumes "p @ CHR ''/'' # t = q @ CHR ''/'' # u" "CHR ''/'' \<notin> set q" "CHR ''/'' \<notin> set u"
  shows "p = q"
  using assms by (auto simp: append_eq_append_conv2 Cons_eq_append_conv append_eq_Cons_conv)

lemma inherited_not_system:
  assumes "k \<in> fst ` set (captureInheritedLabels rw)"
  shows "\<not> systemLabel k"
proof
  assume s: "systemLabel k"
  then obtain u where u: "k = ''risingwave'' @ CHR ''/'' # u" "CHR ''/'' \<notin> set u"
    by (auto simp: systemLabel_def hasPrefix_iff)
  obtain p t where p: "p \<noteq> ''risingwave''" "k = p @ CHR ''/'' # t"
    using assms by (auto simp: captureInheritedLabels_def Let_def hasPrefix_iff split: option.splits if_splits)
  have "p = ''risingwave''" using slash_split [of p t "''risingwave''" u] u p(2) by simp
  then show False using p(1) by simp
qed

lemmas label_defs = LabelRisingWaveName_def LabelRisingWaveComponent_def LabelRisingWaveGroup_def
  LabelRisingWaveGeneration_def LabelRisingWaveOperatorVersion_def

lemma system_labels:
  "systemLabel LabelRisingWaveName" "systemLabel LabelRisingWaveComponent" "systemLabel LabelRisingWaveGroup"
  "systemLabel LabelRisingWaveGeneration" "systemLabel LabelRisingWaveOperatorVersion"
  by (simp_all add: systemLabel_def label_defs)

section \<open>Metadata\<close>

text \<open>A factory that \<^verbatim>\<open>NewRisingWaveObjectFactory\<close> made: its inherited labels are those of its RisingWave.\<close>

definition madeFactory :: "RisingWaveObjectFactory \<Rightarrow> bool" where
  "madeFactory f \<longleftrightarrow> f_inheritedLabels f = captureInheritedLabels (f_risingwave f)"

lemma madeFactory_new: "madeFactory (NewRisingWaveObjectFactory rw lib v)"
  by (simp add: madeFactory_def NewRisingWaveObjectFactory_def)

lemma newObjectMeta_label:
  assumes "madeFactory f" "systemLabel k"
  shows "map_of (om_Labels (newObjectMeta f n (smap kvs))) k = map_of (rev kvs) k"
  using assms mergeMap_left [OF _ sorted_smap, of k "getInheritedLabels f" kvs] inherited_not_system [of k "f_risingwave f"]
  by (auto simp: newObjectMeta_def madeFactory_def getInheritedLabels_def map_of_smap)

lemma groupMeta_labels:
  assumes m: "getObjectMetaForComponentGroupLevelResources f component grp sync = Returns m" and f: "madeFactory f"
  shows "map_of (om_Labels m) LabelRisingWaveName = Some (rwName f)"
    and "map_of (om_Labels m) LabelRisingWaveComponent = Some component"
    and "map_of (om_Labels m) LabelRisingWaveGroup = Some grp"
    and "map_of (om_Labels m) LabelRisingWaveGeneration = Some (generationLabel f sync)"
    and "map_of (om_Labels m) LabelRisingWaveOperatorVersion = Some (f_operatorVersion f)"
  using m f
  by (auto simp: getObjectMetaForComponentGroupLevelResources_def omap_eq_Returns newObjectMeta_label system_labels)
     (simp_all add: label_defs)

lemma groupMeta_name:
  assumes "getObjectMetaForComponentGroupLevelResources f component grp sync = Returns m"
  shows "componentName f component grp = Returns (om_Name m)" "om_Namespace m = namespace f"
  using assms by (auto simp: getObjectMetaForComponentGroupLevelResources_def omap_eq_Returns newObjectMeta_def)

lemma componentName_inj:
  assumes "componentName f component g = Returns n" "componentName f component g' = Returns n" "component \<noteq> ComponentStandalone"
    "component \<noteq> ComponentConfig"
  shows "g = g'"
  using assms by (auto simp: componentName_def groupSuffix_def split: if_splits)

section \<open>Pods\<close>

lemma pod_labels:
  assumes t: "buildPodTemplateFromNodeGroup f component nodeGroup setup = Returns t" and f: "madeFactory f" and k: "systemLabel k"
    and v: "map_of (podLabelsOrSelectorsForComponentGroup f component (ng_Name nodeGroup)) k = Some v"
  shows "map_of (pt_Labels t) k = Some v"
proof -
  let ?pod = "podLabelsOrSelectorsForComponentGroup f component (ng_Name nodeGroup)"
  obtain ls where l: "pt_Labels t = mergeMap (mergeMap ls ?pod) (getInheritedLabels f)"
    using t by (auto simp: buildPodTemplateFromNodeGroup_def obind_eq_Returns Let_def)
  have "k \<notin> fst ` set (getInheritedLabels f)"
    using inherited_not_system [of k "f_risingwave f"] f k by (auto simp: madeFactory_def getInheritedLabels_def)
  then show ?thesis unfolding l
    using mergeMap_left [OF _ sorted_mergeMap] mergeMap_right [OF v] by (simp add: podLabelsOrSelectorsForComponentGroup_def sorted_smap)
qed

lemma selector_keys:
  assumes "(k, v) \<in> set (podLabelsOrSelectorsForComponentGroup f component grp)"
  shows "systemLabel k \<and> map_of (podLabelsOrSelectorsForComponentGroup f component grp) k = Some v"
proof -
  let ?m = "podLabelsOrSelectorsForComponentGroup f component grp"
  have s: "sorted_keys ?m" by (simp add: podLabelsOrSelectorsForComponentGroup_def sorted_smap)
  then have "map_of ?m k = Some v" using assms by (simp add: strict_sorted_iff)
  moreover have "k \<in> {LabelRisingWaveName, LabelRisingWaveComponent, LabelRisingWaveGroup}"
    using \<open>map_of ?m k = Some v\<close> by (auto simp: podLabelsOrSelectorsForComponentGroup_def map_of_smap split: if_splits)
  ultimately show ?thesis using system_labels by auto
qed


text \<open>The container of RisingWave in a built pod, before the slices are sorted.\<close>

lemma built_ports:
  assumes t: "buildPodTemplateFromNodeGroup f component nodeGroup setup = Returns t"
    and s: "\<And>p c p' c'. setup (p, c) = Returns (p', c') \<Longrightarrow> c_Ports c' = ps"
  shows "c_Ports (hd (ps_Containers (pt_Spec t))) = ps"
  using t by (auto simp: buildPodTemplateFromNodeGroup_def obind_eq_Returns Let_def keepPodSpecConsistent_def sortSlicesInContainer_def dest!: s)

lemma mount_ports [simp]:
  "c_Ports (mountConfig c) = c_Ports c" "c_Ports (snd (mountTLS f pc)) = c_Ports (snd pc)"
  "c_Ports (snd (setupVolumeAndVolumeMountForLicenseKey f pc)) = c_Ports (snd pc)"
  by (auto simp: mountConfig_def mountTLS_def setupVolumeAndVolumeMountForLicenseKey_def split: prod.split option.split)

definition componentPorts :: "RisingWaveObjectFactory \<Rightarrow> string \<Rightarrow> ContainerPort list" where
  "componentPorts f component =
     (if component = ComponentMeta then portsForMetaContainer
      else if component = ComponentFrontend then portsForFrontendContainer f
      else if component = ComponentCompactor then portsForCompactorContainer
      else if component = ComponentCompute then portsForComputeContainer
      else portsForStandaloneContainer f)"

lemma frontendCommand_fields [simp]:
  "c_Ports (frontendCommand f c) = c_Ports c" "c_Env (frontendCommand f c) = c_Env c"
  by (simp_all add: frontendCommand_def)

lemma setup_ports_each:
  "setupMetaContainer f pc = Returns (p', c') \<Longrightarrow> c_Ports c' = portsForMetaContainer"
  "setupFrontendContainer f pc = Returns (p', c') \<Longrightarrow> c_Ports c' = portsForFrontendContainer f"
  "setupComputeContainer f pc = Returns (p', c') \<Longrightarrow> c_Ports c' = portsForComputeContainer"
  "setupCompactorContainer f pc = Returns (p', c') \<Longrightarrow> c_Ports c' = portsForCompactorContainer"
  "setupStandaloneContainer f pc = Returns (p', c') \<Longrightarrow> c_Ports c' = portsForStandaloneContainer f"
proof -
  have r: "x = (p', c') \<Longrightarrow> c_Ports (snd x) = ps \<Longrightarrow> c_Ports c' = ps" for x ps by simp
  show "setupMetaContainer f pc = Returns (p', c') \<Longrightarrow> c_Ports c' = portsForMetaContainer"
    by (auto simp: setupMetaContainer_def obind_eq_Returns split_beta dest!: r)
  show "setupFrontendContainer f pc = Returns (p', c') \<Longrightarrow> c_Ports c' = portsForFrontendContainer f"
    by (auto simp: setupFrontendContainer_def obind_eq_Returns split_beta)
  show "setupComputeContainer f pc = Returns (p', c') \<Longrightarrow> c_Ports c' = portsForComputeContainer"
    by (auto simp: setupComputeContainer_def obind_eq_Returns split_beta)
  show "setupCompactorContainer f pc = Returns (p', c') \<Longrightarrow> c_Ports c' = portsForCompactorContainer"
    by (auto simp: setupCompactorContainer_def obind_eq_Returns split_beta)
  show "setupStandaloneContainer f pc = Returns (p', c') \<Longrightarrow> c_Ports c' = portsForStandaloneContainer f"
    by (auto simp: setupStandaloneContainer_def obind_eq_Returns Let_def split_beta dest!: r)
qed

lemma setup_ports:
  assumes "setupFor f component = Returns (m, compo)" "m pc = Returns (p', c')"
  shows "c_Ports c' = componentPorts f component"
  using assms unfolding setupFor_def Let_def componentPorts_def
  by (auto split: if_splits dest: setup_ports_each)

lemma template_ports:
  assumes "newPodTemplateSpecFromNodeGroupByComponent f component nodeGroup = Returns t"
  shows "c_Ports (hd (ps_Containers (pt_Spec t))) = componentPorts f component"
  using assms by (auto simp: newPodTemplateSpecFromNodeGroupByComponent_def obind_eq_Returns intro: built_ports setup_ports)

section \<open>Workloads\<close>

text \<open>
  \<^verbatim>\<open>SetControllerReference\<close> as documented: on success only the owner references of the object change.
\<close>

definition setsOwnerOnly :: "FactoryLib \<Rightarrow> bool" where
  "setsOwnerOnly lib \<longleftrightarrow>
     (\<forall>rw m m'. lib_setControllerReference lib rw m = Inr m' \<longrightarrow> m' = m\<lparr>om_OwnerReferences := om_OwnerReferences m'\<rparr>)"

text \<open>What the four kinds of workloads have in common.\<close>

record WorkloadView =
  wv_Kind :: string
  wv_Meta :: ObjectMeta
  wv_Selector :: strmap
  wv_Template :: PodTemplateSpec
  wv_Replicas :: int

definition workloadOk :: "RisingWaveObjectFactory \<Rightarrow> string \<Rightarrow> string \<Rightarrow> WorkloadView \<Rightarrow> bool" where
  "workloadOk f component grp v \<longleftrightarrow>
     componentName f component grp = Returns (om_Name (wv_Meta v)) \<and> om_Namespace (wv_Meta v) = namespace f
     \<and> map_of (om_Labels (wv_Meta v)) LabelRisingWaveName = Some (rwName f)
     \<and> map_of (om_Labels (wv_Meta v)) LabelRisingWaveComponent = Some component
     \<and> map_of (om_Labels (wv_Meta v)) LabelRisingWaveGroup = Some grp
     \<and> map_of (om_Labels (wv_Meta v)) LabelRisingWaveGeneration = Some (generationLabel f True)
     \<and> wv_Selector v = podLabelsOrSelectorsForComponentGroup f component grp
     \<and> (\<forall>(k, x) \<in> set (wv_Selector v). map_of (pt_Labels (wv_Template v)) k = Some x)
     \<and> c_Ports (hd (ps_Containers (pt_Spec (wv_Template v)))) = componentPorts f component
     \<and> (\<exists>g. GetNodeGroup (f_risingwave f) component grp = Returns (Some g) \<and> wv_Replicas v = ng_Replicas g)"

lemma group_named: "GetNodeGroup rw component grp = Returns (Some g) \<Longrightarrow> ng_Name g = grp"
  by (auto simp: GetNodeGroup_def find_Some_iff split: outcome.splits)

lemma override_fields [simp]:
  "ng_Name (overrideFieldsOfNodeGroup f g) = ng_Name g" "ng_Replicas (overrideFieldsOfNodeGroup f g) = ng_Replicas g"
  "ng_UpgradeStrategy (overrideFieldsOfNodeGroup f g) = ng_UpgradeStrategy g"
  by (simp_all add: overrideFieldsOfNodeGroup_def Let_def)

lemma template_selected:
  assumes "newPodTemplateSpecFromNodeGroupByComponent f component g = Returns t" "madeFactory f"
  shows "\<forall>(k, x) \<in> set (podLabelsOrSelectorsForComponentGroup f component (ng_Name g)). map_of (pt_Labels t) k = Some x"
  using assms by (auto simp: newPodTemplateSpecFromNodeGroupByComponent_def obind_eq_Returns dest!: selector_keys intro: pod_labels)

text \<open>
  The interface of a builder of workloads: \<open>view\<close> reads the common fields of a workload, \<open>put\<close> replaces its
  metadata; a built workload carries the metadata, the selector and the replicas of its group and a template with
  the labels and containers of the given one.
\<close>

locale workload_kind =
  fixes builder :: "RisingWaveObjectFactory \<Rightarrow> string \<Rightarrow> RisingWaveNodeGroup \<Rightarrow> PodTemplateSpec \<Rightarrow> 'a outcome"
    and get :: "'a \<Rightarrow> ObjectMeta" and put :: "ObjectMeta \<Rightarrow> 'a \<Rightarrow> 'a" and view :: "'a \<Rightarrow> WorkloadView"
  assumes view_put: "view (put m w) = (view w)\<lparr>wv_Meta := m\<rparr>"
    and view_get: "wv_Meta (view w) = get w"
    and built_meta: "builder f component g t = Returns w \<Longrightarrow>
      getObjectMetaForComponentGroupLevelResources f component (ng_Name g) True = Returns (get w)"
    and built_view: "builder f component g t = Returns w \<Longrightarrow>
      wv_Selector (view w) = podLabelsOrSelectorsForComponentGroup f component (ng_Name g)
      \<and> wv_Replicas (view w) = ng_Replicas g \<and> pt_Labels (wv_Template (view w)) = pt_Labels t
      \<and> ps_Containers (pt_Spec (wv_Template (view w))) = ps_Containers (pt_Spec t)"
begin

lemma workload_parts:
  assumes "newWorkloadObjectForComponentNodeGroup f component grp builder get put = Returns w"
  obtains g t w' m where "GetNodeGroup (f_risingwave f) component grp = Returns (Some g)"
    "newPodTemplateSpecFromNodeGroupByComponent f component (overrideFieldsOfNodeGroup f g) = Returns t"
    "builder f component (overrideFieldsOfNodeGroup f g) t = Returns w'"
    "lib_setControllerReference (f_scheme f) (f_risingwave f) (get w') = Inr m" "w = put m w'"
  using assms
  by (auto simp: newWorkloadObjectForComponentNodeGroup_def obind_eq_Returns deref_def mustSetControllerReference_eq_Returns
      split: option.splits)

lemma workload_ok:
  assumes w: "newWorkloadObjectForComponentNodeGroup f component grp builder get put = Returns w"
    and f: "madeFactory f" "setsOwnerOnly (f_scheme f)"
  shows "workloadOk f component grp (view w)"
proof -
  obtain g t w' m where p: "GetNodeGroup (f_risingwave f) component grp = Returns (Some g)"
    "newPodTemplateSpecFromNodeGroupByComponent f component (overrideFieldsOfNodeGroup f g) = Returns t"
    "builder f component (overrideFieldsOfNodeGroup f g) t = Returns w'"
    "lib_setControllerReference (f_scheme f) (f_risingwave f) (get w') = Inr m" "w = put m w'"
    by (rule workload_parts [OF w])
  have n: "ng_Name g = grp" using group_named [OF p(1)] by simp
  have m: "om_Name m = om_Name (get w')" "om_Namespace m = om_Namespace (get w')" "om_Labels m = om_Labels (get w')"
    using f(2) p(4) unfolding setsOwnerOnly_def by (metis ObjectMeta.ext_inject ObjectMeta.surjective ObjectMeta.update_convs)+
  note meta = built_meta [OF p(3)] and bv = built_view [OF p(3)]
  show ?thesis unfolding workloadOk_def
    using groupMeta_labels [OF meta f(1)] groupMeta_name [OF meta] template_ports [OF p(2)] group_named [OF p(1)]
      template_selected [OF p(2) f(1)] bv
    by (simp add: p(1,5) view_put m n)
qed

end

definition deploymentView :: "Deployment \<Rightarrow> WorkloadView" where
  "deploymentView w = \<lparr>wv_Kind = ''Deployment'', wv_Meta = dep_Meta w, wv_Selector = dep_Selector w, wv_Template = dep_Template w,
     wv_Replicas = dep_Replicas w\<rparr>"

definition cloneSetView :: "CloneSet \<Rightarrow> WorkloadView" where
  "cloneSetView w = \<lparr>wv_Kind = ''CloneSet'', wv_Meta = cs_Meta w, wv_Selector = cs_Selector w, wv_Template = cs_Template w,
     wv_Replicas = cs_Replicas w\<rparr>"

definition statefulSetView :: "StatefulSet \<Rightarrow> WorkloadView" where
  "statefulSetView w = \<lparr>wv_Kind = ''StatefulSet'', wv_Meta = sts_Meta w, wv_Selector = sts_Selector w, wv_Template = sts_Template w,
     wv_Replicas = sts_Replicas w\<rparr>"

definition advancedStatefulSetView :: "AdvancedStatefulSet \<Rightarrow> WorkloadView" where
  "advancedStatefulSetView w = \<lparr>wv_Kind = ''AdvancedStatefulSet'', wv_Meta = asts_Meta w, wv_Selector = asts_Selector w,
     wv_Template = asts_Template w, wv_Replicas = asts_Replicas w\<rparr>"

lemmas builder_simps = newDeployment_def newCloneSet_def newStatefulSet_def newAdvancedStatefulSet_def addReadinessGate_def
  deploymentView_def cloneSetView_def statefulSetView_def advancedStatefulSetView_def obind_eq_Returns omap_eq_Returns

interpretation deployments: workload_kind newDeployment dep_Meta setDeployment deploymentView
  by unfold_locales (auto simp: builder_simps)

interpretation cloneSets: workload_kind newCloneSet cs_Meta setCloneSet cloneSetView
  by unfold_locales (auto simp: builder_simps)

interpretation statefulSets: workload_kind newStatefulSet sts_Meta setStatefulSet statefulSetView
  by unfold_locales (auto simp: builder_simps)

interpretation advancedStatefulSets: workload_kind newAdvancedStatefulSet asts_Meta setAdvancedStatefulSet advancedStatefulSetView
  by unfold_locales (auto simp: builder_simps)

text \<open>
  The workload that the controller asks the factory for: meta and compute nodes in stateful sets, frontends and compactors in
  deployments, with OpenKruise their advanced counterparts.
\<close>

definition newWorkload :: "RisingWaveObjectFactory \<Rightarrow> bool \<Rightarrow> string \<Rightarrow> string \<Rightarrow> WorkloadView outcome" where
  "newWorkload f kruise component grp =
     (if component = ComponentMeta then
        (if kruise then omap advancedStatefulSetView (NewMetaAdvancedStatefulSet f grp) else omap statefulSetView (NewMetaStatefulSet f grp))
      else if component = ComponentFrontend then
        (if kruise then omap cloneSetView (NewFrontendCloneSet f grp) else omap deploymentView (NewFrontendDeployment f grp))
      else if component = ComponentCompute then
        (if kruise then omap advancedStatefulSetView (NewComputeAdvancedStatefulSet f grp) else omap statefulSetView (NewComputeStatefulSet f grp))
      else if component = ComponentCompactor then
        (if kruise then omap cloneSetView (NewCompactorCloneSet f grp) else omap deploymentView (NewCompactorDeployment f grp))
      else Panics ''unknown component'')"

lemmas new_workload_defs = NewMetaAdvancedStatefulSet_def NewMetaStatefulSet_def NewFrontendCloneSet_def NewFrontendDeployment_def
  NewComputeAdvancedStatefulSet_def NewComputeStatefulSet_def NewCompactorCloneSet_def NewCompactorDeployment_def

lemma newWorkload_ok:
  assumes "newWorkload f kruise component grp = Returns v" "madeFactory f" "setsOwnerOnly (f_scheme f)"
  shows "workloadOk f component grp v"
  using assms unfolding newWorkload_def new_workload_defs
  by (auto simp: omap_eq_Returns split: if_splits
      intro: deployments.workload_ok cloneSets.workload_ok statefulSets.workload_ok advancedStatefulSets.workload_ok)

section \<open>Services\<close>

text \<open>
  A service reaches a pod when the selector is part of the labels of the pod and every target port is the name of a port
  of the container of RisingWave with the number of the service port.
\<close>

definition reachesPods :: "Service \<Rightarrow> PodTemplateSpec \<Rightarrow> bool" where
  "reachesPods s t \<longleftrightarrow>
     (\<forall>(k, x) \<in> set (svc_Selector s). map_of (pt_Labels t) k = Some x)
     \<and> (\<forall>p \<in> set (svc_Ports s). \<exists>cp \<in> set (c_Ports (hd (ps_Containers (pt_Spec t)))).
          svp_TargetPort p = StrVal (cp_Name cp) \<and> cp_ContainerPort cp = svp_Port p)"

definition newComponentService :: "RisingWaveObjectFactory \<Rightarrow> string \<Rightarrow> Service outcome" where
  "newComponentService f component =
     (if component = ComponentMeta then NewMetaService f
      else if component = ComponentFrontend then NewFrontendService f
      else if component = ComponentCompute then NewComputeService f
      else if component = ComponentCompactor then NewCompactorService f
      else Panics ''unknown component'')"

definition componentServicePorts :: "RisingWaveObjectFactory \<Rightarrow> string \<Rightarrow> ServicePort list" where
  "componentServicePorts f component = map (\<lambda>cp. servicePort (cp_Name cp) (cp_ContainerPort cp)) (componentPorts f component)"

lemma addMetadata_fields [simp]: "svc_Selector (addMetadata e s) = svc_Selector s" "svc_Ports (addMetadata e s) = svc_Ports s"
  by (simp_all add: addMetadata_def)

lemmas service_defs = NewMetaService_def NewFrontendService_def NewComputeService_def NewCompactorService_def NewStandaloneService_def
  newService_def obind_eq_Returns omap_eq_Returns mustSetControllerReference_eq_Returns

lemma component_names [simp]:
  "ComponentMeta \<noteq> ComponentFrontend" "ComponentMeta \<noteq> ComponentCompute" "ComponentMeta \<noteq> ComponentCompactor"
  "ComponentFrontend \<noteq> ComponentCompute" "ComponentFrontend \<noteq> ComponentCompactor" "ComponentCompute \<noteq> ComponentCompactor"
  "ComponentStandalone \<noteq> ComponentMeta" "ComponentStandalone \<noteq> ComponentFrontend" "ComponentStandalone \<noteq> ComponentCompute"
  "ComponentStandalone \<noteq> ComponentCompactor"
  by (simp_all add: ComponentMeta_def ComponentFrontend_def ComponentCompute_def ComponentCompactor_def ComponentStandalone_def)

lemmas component_names_sym [simp] = component_names [symmetric]

lemma component_service_fields:
  assumes "newComponentService f component = Returns s" "component = ComponentFrontend \<longrightarrow> \<not> IsStandaloneModeEnabled (f_risingwave f)"
  shows "svc_Selector s = podLabelsOrSelectorsForComponent f component"
    and "set (svc_Ports s) \<subseteq> set (componentServicePorts f component)"
  using assms unfolding newComponentService_def componentServicePorts_def componentPorts_def
  by (auto simp: service_defs IsStandaloneModeEnabled_def portsForMetaContainer_def portsForFrontendContainer_def
      portsForComputeContainer_def portsForCompactorContainer_def tcpPort_def split: if_splits)

lemma standalone_service_fields:
  assumes "NewFrontendService f = Returns s" "IsStandaloneModeEnabled (f_risingwave f)"
  shows "svc_Selector s = podLabelsOrSelectorsForComponent f ComponentStandalone"
    and "set (svc_Ports s) \<subseteq> set (componentServicePorts f ComponentStandalone)"
proof -
  have "smapUpdate LabelRisingWaveComponent ComponentStandalone (podLabelsOrSelectorsForComponent f ComponentFrontend)
      = podLabelsOrSelectorsForComponent f ComponentStandalone"
    by (simp add: podLabelsOrSelectorsForComponent_def smap_def label_defs)
  then show "svc_Selector s = podLabelsOrSelectorsForComponent f ComponentStandalone"
    using assms by (auto simp: service_defs)
  show "set (svc_Ports s) \<subseteq> set (componentServicePorts f ComponentStandalone)"
    using assms unfolding componentServicePorts_def componentPorts_def
    by (auto simp: service_defs IsStandaloneModeEnabled_def portsForStandaloneContainer_def tcpPort_def split: if_splits)
qed

lemma component_selector_sub:
  "(k, x) \<in> set (podLabelsOrSelectorsForComponent f component) \<Longrightarrow> (k, x) \<in> set (podLabelsOrSelectorsForComponentGroup f component grp)"
  by (auto simp: podLabelsOrSelectorsForComponent_def podLabelsOrSelectorsForComponentGroup_def smap_def label_defs)

lemma reachesPodsI:
  assumes "svc_Selector s = podLabelsOrSelectorsForComponent f component" "set (svc_Ports s) \<subseteq> set (componentServicePorts f component)"
    and "\<forall>(k, x) \<in> set (podLabelsOrSelectorsForComponentGroup f component grp). map_of (pt_Labels t) k = Some x"
    and "c_Ports (hd (ps_Containers (pt_Spec t))) = componentPorts f component"
  shows "reachesPods s t"
  using assms component_selector_sub [of _ _ f component grp] unfolding reachesPods_def componentServicePorts_def
  by (fastforce simp: servicePort_def)
end
