(* ===== verification/FactoryPanics.thy ===== *)
theory FactoryPanics
  imports FactoryLabels RwWebhook
begin

text \<open>
  When the factory panics and when it does not: a RisingWave that the validating webhook accepts has a known meta store and state store
  and partitions that are numbers, so that every workload and service of its node groups can be built.
\<close>

section \<open>Calls that return\<close>

definition returns :: "'a outcome \<Rightarrow> bool" where
  "returns x = (case x of Returns a \<Rightarrow> True | Panics m \<Rightarrow> False)"

lemma returns_simps [simp]: "returns (Returns a)" "\<not> returns (Panics m)"
  by (simp_all add: returns_def)

lemma returns_iff: "returns x \<longleftrightarrow> (\<exists>a. x = Returns a)"
  by (cases x) auto

lemma returns_obind [simp]: "returns (obind x g) \<longleftrightarrow> (\<exists>a. x = Returns a \<and> returns (g a))"
  by (cases x) auto

lemma returns_omap [simp]: "returns (omap g x) \<longleftrightarrow> returns x"
  by (cases x) auto

lemma returns_deref [simp]: "returns (deref p) \<longleftrightarrow> p \<noteq> None"
  by (cases p) auto

lemma returnsE: "returns x \<Longrightarrow> (\<And>a. x = Returns a \<Longrightarrow> P) \<Longrightarrow> P"
  by (cases x) auto

section \<open>Known stores\<close>

definition knownStateStore :: "RisingWaveStateStoreBackend \<Rightarrow> bool" where
  "knownStateStore s \<longleftrightarrow> ss_Memory s = Some True \<or> ss_S3 s \<noteq> None \<or> ss_MinIO s \<noteq> None \<or> ss_GCS s \<noteq> None \<or> ss_AliyunOSS s \<noteq> None
     \<or> ss_AzureBlob s \<noteq> None \<or> ss_HDFS s \<noteq> None \<or> ss_WebHDFS s \<noteq> None \<or> ss_LocalDisk s \<noteq> None \<or> ss_HuaweiCloudOBS s \<noteq> None"

definition knownMetaStore :: "RisingWaveMetaStoreBackend \<Rightarrow> bool" where
  "knownMetaStore m \<longleftrightarrow> ms_Memory m = Some True \<or> ms_Etcd m \<noteq> None \<or> ms_SQLite m \<noteq> None \<or> ms_MySQL m \<noteq> None \<or> ms_PostgreSQL m \<noteq> None"

lemmas state_store_defs = isStateStoreMemory_def isStateStoreS3_def isStateStoreS3Compatible_def isStateStoreGCS_def
  isStateStoreAliyunOSS_def isStateStoreAzureBlob_def isStateStoreHDFS_def isStateStoreWebHDFS_def isStateStoreMinIO_def
  isStateStoreLocalDisk_def isStateStoreHuaweiCloudOBS_def

lemmas meta_store_defs = isMetaStoreMemory_def isMetaStoreEtcd_def isMetaStoreSQLite_def isMetaStoreMySQL_def isMetaStorePostgreSQL_def

lemma returns_if: "(c \<Longrightarrow> returns x) \<Longrightarrow> (\<not> c \<Longrightarrow> returns y) \<Longrightarrow> returns (if c then x else y)"
  by simp

lemma hummock_returns: "returns (hummockConnectionStr f) \<longleftrightarrow> knownStateStore (stateStore f)"
  unfolding hummockConnectionStr_def Let_def knownStateStore_def state_store_defs
  by (cases "ss_S3 (stateStore f)"; cases "ss_Memory (stateStore f)") (auto simp: derefBool_def)

lemma stateStore_returns: "returns (envsForStateStore f)"
  unfolding envsForStateStore_def
  by (auto simp: state_store_defs envsForMinIO_def envsForS3_def envsForGCS_def envsForAliyunOSS_def envsForAzureBlob_def
      envsForHuaweiCloudOBS_def split: option.splits)

lemma metaStore_returns: "returns (envsForMetaStore f) \<longleftrightarrow> knownMetaStore (metaStore f)"
  unfolding envsForMetaStore_def knownMetaStore_def meta_store_defs envsForEtcd_def envsForMySQL_def envsForPostgreSQL_def
  by (cases "ms_Memory (metaStore f)") (auto simp: derefBool_def)

lemma metaBackend_returns: "returns (metaBackendEnvs f b) \<longleftrightarrow> knownMetaStore (metaStore f)"
  unfolding metaBackendEnvs_def knownMetaStore_def meta_store_defs
  by (cases "ms_Memory (metaStore f)") (auto simp: derefBool_def)

section \<open>Containers and pods\<close>

definition workloadComponent :: "string \<Rightarrow> bool" where
  "workloadComponent c \<longleftrightarrow> c \<in> {ComponentMeta, ComponentFrontend, ComponentCompute, ComponentCompactor, ComponentStandalone}"

lemma componentName_returns: "workloadComponent c \<or> c = ComponentConfig \<Longrightarrow> returns (componentName f c grp)"
  by (auto simp: workloadComponent_def componentName_def)

lemma addresses_return:
  "workloadComponent c \<Longrightarrow> returns (componentAddr f c grp)"
  "workloadComponent c \<Longrightarrow> returns (advertiseAddr f c port)"
  "returns (metaLoadBalance f)"
  by (simp_all add: componentAddr_def advertiseAddr_def metaLoadBalance_def componentName_returns)
     (simp add: workloadComponent_def componentName_returns)

lemma coreEnvs_return:
  "returns (coreEnvsForMeta f img) \<longleftrightarrow> knownStateStore (stateStore f) \<and> knownMetaStore (metaStore f)"
  unfolding coreEnvsForMeta_def returns_obind returns_simps(1)
  using hummock_returns [of f] metaBackend_returns [of f] by (simp add: returns_iff)

definition storesKnown :: "RisingWaveObjectFactory \<Rightarrow> bool" where
  "storesKnown f \<longleftrightarrow> knownStateStore (stateStore f) \<and> knownMetaStore (metaStore f)"

lemma obind_returnsI: "returns x \<Longrightarrow> (\<And>a. returns (g a)) \<Longrightarrow> returns (obind x g)"
  by (cases x) auto

lemma args_return:
  "storesKnown f \<Longrightarrow> returns (envsForMetaArgs f img)"
  "returns (envsForFrontendArgs f)" "returns (envsForComputeArgs f c m)" "returns (envsForCompactorArgs f)"
  unfolding envsForMetaArgs_def envsForFrontendArgs_def envsForComputeArgs_def envsForCompactorArgs_def
  by (auto intro!: obind_returnsI addresses_return simp: coreEnvs_return storesKnown_def workloadComponent_def simp del: returns_obind)

lemma setups_return:
  "storesKnown f \<Longrightarrow> returns (setupMetaContainer f pc)" "returns (setupFrontendContainer f pc)" "returns (setupComputeContainer f pc)"
  "returns (setupCompactorContainer f pc)" "storesKnown f \<Longrightarrow> returns (setupStandaloneContainer f pc)"
  unfolding setupMetaContainer_def setupFrontendContainer_def setupComputeContainer_def setupCompactorContainer_def
    setupStandaloneContainer_def Let_def split_beta
  by (auto intro!: obind_returnsI args_return stateStore_returns simp: coreEnvs_return metaStore_returns storesKnown_def
      simp del: returns_obind)

lemma template_returns:
  assumes "storesKnown f" "workloadComponent component"
  shows "returns (newPodTemplateSpecFromNodeGroupByComponent f component g)"
proof -
  have "\<exists>m cmp. setupFor f component = Returns (m, cmp) \<and> (\<forall>pc. returns (m pc))"
    using assms(2) unfolding workloadComponent_def
    by (elim insertE emptyE) (simp_all add: setupFor_def Let_def setups_return assms(1))
  then obtain m cmp where m: "setupFor f component = Returns (m, cmp)" "\<And>pc. returns (m pc)" by blast
  have "returns (risingWaveConfigVolumeOf f g)"
    by (auto simp: risingWaveConfigVolumeOf_def Let_def componentName_returns split: option.split)
  then show ?thesis
    unfolding newPodTemplateSpecFromNodeGroupByComponent_def m(1) obind_Returns split buildPodTemplateFromNodeGroup_def Let_def
    by (intro obind_returnsI) (auto simp: m(2) split_beta)
qed

section \<open>Workloads\<close>

definition partitionReadable :: "RisingWaveNodeGroupUpgradeStrategy \<Rightarrow> bool" where
  "partitionReadable s =
     (case us_RollingUpdate s of
        None \<Rightarrow> True
      | Some r \<Rightarrow> (case ru_Partition r of Some (StrVal p) \<Rightarrow> atoiOk (replaceChar CHR ''%'' [] p) | _ \<Rightarrow> True))"

lemma partition_returns: "returns (partitionOf s) \<longleftrightarrow> partitionReadable s"
  by (auto simp: partitionOf_def partitionReadable_def rollingUpdateOrDefault_def Atoi_def split: option.split IntOrString.split)

lemma strategy_returns: "returns (buildUpgradeStrategyForAdvancedStatefulSet s) \<longleftrightarrow> partitionReadable s"
  by (simp add: buildUpgradeStrategyForAdvancedStatefulSet_def partition_returns)

lemma builders_return:
  assumes "workloadComponent component"
  shows "returns (newDeployment f component g t)" "returns (newCloneSet f component g t)" "returns (newStatefulSet f component g t)"
    "returns (newAdvancedStatefulSet f component g t) \<longleftrightarrow> partitionReadable (ng_UpgradeStrategy g)"
proof -
  have n: "returns (componentName f component grp)" for grp using assms componentName_returns by blast
  then have m: "returns (getObjectMetaForComponentGroupLevelResources f component grp b)" for grp b
    by (simp add: getObjectMetaForComponentGroupLevelResources_def)
  obtain meta name where r: "getObjectMetaForComponentGroupLevelResources f component (ng_Name g) True = Returns meta"
    "componentName f component [] = Returns name" using n m returnsE by metis
  show "returns (newDeployment f component g t)" "returns (newCloneSet f component g t)" "returns (newStatefulSet f component g t)"
    by (simp_all add: newDeployment_def newCloneSet_def newStatefulSet_def r)
  show "returns (newAdvancedStatefulSet f component g t) \<longleftrightarrow> partitionReadable (ng_UpgradeStrategy g)"
    by (simp add: newAdvancedStatefulSet_def r returns_iff [symmetric] strategy_returns)
qed

text \<open>\<^verbatim>\<open>SetControllerReference\<close> accepts the objects of this RisingWave.\<close>

definition ownable :: "FactoryLib \<Rightarrow> RisingWave \<Rightarrow> bool" where
  "ownable lib rw \<longleftrightarrow> (\<forall>m. om_OwnerReferences m = [] \<longrightarrow> (\<exists>m'. lib_setControllerReference lib rw m = Inr m'))"

lemma metas_unowned: "om_OwnerReferences (newObjectMeta f n l) = []"
  by (simp add: newObjectMeta_def zeroObjectMeta_def)

lemma groupMeta_unowned: "getObjectMetaForComponentGroupLevelResources f c g b = Returns m \<Longrightarrow> om_OwnerReferences m = []"
  by (auto simp: getObjectMetaForComponentGroupLevelResources_def omap_eq_Returns metas_unowned)

lemma owner_returns:
  "ownable (f_scheme f) (f_risingwave f) \<Longrightarrow> om_OwnerReferences (get x) = [] \<Longrightarrow> returns (mustSetControllerReference f get put x)"
  by (auto simp: ownable_def returns_iff mustSetControllerReference_eq_Returns)

context workload_kind
begin

lemma workload_returns:
  assumes g: "GetNodeGroup (f_risingwave f) component grp = Returns (Some g)"
    and f: "storesKnown f" "workloadComponent component" "ownable (f_scheme f) (f_risingwave f)"
    and b: "\<And>t. returns (builder f component (overrideFieldsOfNodeGroup f g) t)"
  shows "returns (newWorkloadObjectForComponentNodeGroup f component grp builder get put)"
proof -
  obtain t where t: "newPodTemplateSpecFromNodeGroupByComponent f component (overrideFieldsOfNodeGroup f g) = Returns t"
    using template_returns [OF f(1,2)] returnsE by metis
  obtain w where w: "builder f component (overrideFieldsOfNodeGroup f g) t = Returns w" using b returnsE by metis
  have "returns (mustSetControllerReference f get put w)"
    by (rule owner_returns [OF f(3)]) (rule groupMeta_unowned [OF built_meta [OF w]])
  then show ?thesis by (simp add: newWorkloadObjectForComponentNodeGroup_def g t w)
qed

end

lemma newWorkload_returns:
  assumes g: "GetNodeGroup (f_risingwave f) component grp = Returns (Some g)" "component \<noteq> ComponentStandalone"
    and f: "storesKnown f" "workloadComponent component" "ownable (f_scheme f) (f_risingwave f)"
    and p: "kruise \<longrightarrow> partitionReadable (ng_UpgradeStrategy g)"
  shows "returns (newWorkload f kruise component grp)"
proof -
  note b = builders_return [OF f(2)]
  have "returns (newWorkloadObjectForComponentNodeGroup f component grp newDeployment dep_Meta setDeployment)"
    by (rule deployments.workload_returns [OF g(1) f]) (rule b(1))
  moreover have "returns (newWorkloadObjectForComponentNodeGroup f component grp newCloneSet cs_Meta setCloneSet)"
    by (rule cloneSets.workload_returns [OF g(1) f]) (rule b(2))
  moreover have "returns (newWorkloadObjectForComponentNodeGroup f component grp newStatefulSet sts_Meta setStatefulSet)"
    by (rule statefulSets.workload_returns [OF g(1) f]) (rule b(3))
  moreover have "returns (newWorkloadObjectForComponentNodeGroup f component grp newAdvancedStatefulSet asts_Meta setAdvancedStatefulSet)"
    if kruise
    by (rule advancedStatefulSets.workload_returns [OF g(1) f]) (simp add: b(4) p that)
  ultimately show ?thesis using f(2) g(2) unfolding newWorkload_def new_workload_defs workloadComponent_def
    by (elim insertE emptyE) (cases kruise; simp)+
qed

section \<open>Services\<close>

lemma services_return:
  assumes "ownable (f_scheme f) (f_risingwave f)" "component \<in> {ComponentMeta, ComponentFrontend, ComponentCompute, ComponentCompactor}"
  shows "returns (newComponentService f component)"
proof -
  have o: "\<exists>m'. lib_setControllerReference (f_scheme f) (f_risingwave f) m = Inr m'" if "om_OwnerReferences m = []" for m
    using assms(1) that by (simp add: ownable_def)
  have "returns (mustSetControllerReference f svc_Meta setService s)" if "om_OwnerReferences (svc_Meta s) = []" for s
    using o [OF that] by (auto simp: returns_iff mustSetControllerReference_eq_Returns)
  then show ?thesis
    using assms(2) unfolding newComponentService_def NewMetaService_def NewFrontendService_def NewComputeService_def NewCompactorService_def
      newService_def getObjectMetaForComponentLevelResources_def
    by (elim insertE emptyE) (simp_all add: componentName_def addMetadata_def metas_unowned)
qed

section \<open>What validation guarantees\<close>

lemma countTrue_pos: "countTrue bs = 1 \<Longrightarrow> \<exists>b \<in> set bs. b"
proof -
  assume "countTrue bs = 1"
  then have "filter (\<lambda>b. b) bs \<noteq> []" unfolding countTrue_def by auto
  then show ?thesis by (auto simp: filter_empty_conv)
qed

lemma accepted_stores:
  assumes "validateMetaStoreAndStateStore p ms ss = Returns []"
  shows "knownMetaStore ms" "knownStateStore ss"
proof -
  have c: "countTrue (metaStoreKinds ms) = 1" "countTrue (stateStoreKinds ss) = 1"
    using assms by (auto simp: validateMetaStoreAndStateStore_def kindErrors_Nil split: outcome.splits)
  show "knownMetaStore ms" using countTrue_pos [OF c(1)]
    by (cases "ms_Memory ms") (auto simp: metaStoreKinds_def knownMetaStore_def ptrValueNotZero_def)
  show "knownStateStore ss" using countTrue_pos [OF c(2)]
    by (cases "ss_Memory ss") (auto simp: stateStoreKinds_def knownStateStore_def ptrValueNotZero_def)
qed

lemma validateNodeGroup_partition:
  assumes "validateNodeGroup imageOk dnsErrs p g k = []"
  shows "partitionReadable (ng_UpgradeStrategy g)"
proof -
  note parts = assms [unfolded validateNodeGroup_def Let_def append_is_Nil_conv if_Nil]
  have "\<not> (nodeGroupPartitionExistAndIsString g \<and> \<not> atoiOk (replaceChar CHR ''%'' [] (partitionString g)))"
    using parts by (elim conjE) assumption
  then show ?thesis
    by (auto simp: partitionReadable_def nodeGroupPartitionExistAndIsString_def partitionString_def split: option.split IntOrString.split)
qed

lemma validateGroups_partition:
  "validateGroups imageOk dnsErrs p i gs k = [] \<Longrightarrow> g \<in> set gs \<Longrightarrow> partitionReadable (ng_UpgradeStrategy g)"
  by (induction gs arbitrary: i) (auto dest: validateNodeGroup_partition)

lemma validateComponents_partition:
  assumes "validateComponents imageOk dnsErrs p (rws_Components (rw_Spec rw)) k = []" "known_component c" "g \<in> set (nodeGroups rw c)"
  shows "partitionReadable (ng_UpgradeStrategy g)"
proof -
  let ?cs = "rws_Components (rw_Spec rw)"
  obtain x where "x \<in> {comps_Meta ?cs, comps_Frontend ?cs, comps_Compactor ?cs, comps_Compute ?cs}" "g \<in> set (cmp_NodeGroups x)"
    using assms(2,3) by (auto simp: known_component_def nodeGroups_def componentNodeGroups_def Let_def split: if_splits)
  then show ?thesis
    using assms(1) unfolding validateComponents_def append_is_Nil_conv by (blast dest: validateGroups_partition)
qed

lemma accepted_parts:
  assumes "\<not> isBypassed rw" "rw_ValidateCreate imageOk dnsErrs k rw = Returns None"
  shows "validateMetaStoreAndStateStore (children [''spec'']) (rws_MetaStore (rw_Spec rw)) (rws_StateStore (rw_Spec rw)) = Returns []"
    "validateComponents imageOk dnsErrs (children [''spec'', ''components'']) (rws_Components (rw_Spec rw))
       (k \<and> derefBool (rws_EnableOpenKruise (rw_Spec rw)) False) = []"
  using assms by (auto simp: rw_ValidateCreate_def rw_validateCreate_def Let_def invalidIfAny_def split: outcome.splits if_splits)

lemma accepted_builds:
  assumes a: "\<not> isBypassed rw" "rw_ValidateCreate imageOk dnsErrs k rw = Returns None"
    and f: "f_risingwave f = rw" "ownable (f_scheme f) rw"
    and g: "known_component component" "g \<in> set (nodeGroups rw component)"
  shows "returns (newWorkload f kruise component (ng_Name g))" "returns (newComponentService f component)"
proof -
  note parts = accepted_parts [OF a]
  have s: "storesKnown f" using accepted_stores [OF parts(1)] by (simp add: storesKnown_def f(1))
  have c: "component \<in> {ComponentMeta, ComponentFrontend, ComponentCompute, ComponentCompactor}"
    using g(1) by (simp add: known_component_def)
  obtain g' where g': "find (\<lambda>x. ng_Name x = ng_Name g) (nodeGroups rw component) = Some g'"
    using g(2) by (cases "find (\<lambda>x. ng_Name x = ng_Name g) (nodeGroups rw component)") (auto simp: find_None_iff)
  then have m: "g' \<in> set (nodeGroups rw component)" by (auto simp: find_Some_iff)
  have r: "GetNodeGroup (f_risingwave f) component (ng_Name g) = Returns (Some g')"
    using g' g(1) by (simp add: GetNodeGroup_def GetNodeGroups_eq f(1))
  show "returns (newComponentService f component)" using services_return [OF _ c] f by simp
  show "returns (newWorkload f kruise component (ng_Name g))"
    by (rule newWorkload_returns [OF r])
      (use c s f validateComponents_partition [OF parts(2) g(1) m] in \<open>auto simp: workloadComponent_def\<close>)
qed

lemma standalone_unreadable:
  assumes "\<not> partitionReadable (ng_UpgradeStrategy (convertStandaloneIntoNodeGroup f))"
  shows "\<not> returns (NewStandaloneAdvancedStatefulSet f)"
proof -
  have "\<not> returns (newAdvancedStatefulSet f ComponentStandalone (overrideFieldsOfNodeGroup f (convertStandaloneIntoNodeGroup f)) t)" for t
    using builders_return(4) [of ComponentStandalone f] assms by (simp add: workloadComponent_def)
  then show ?thesis by (simp add: NewStandaloneAdvancedStatefulSet_def Let_def returns_iff obind_eq_Returns)
qed

section \<open>The factory as the controller uses it\<close>

definition workloadKind :: "bool \<Rightarrow> string \<Rightarrow> string" where
  "workloadKind kruise component =
     (if component = ComponentMeta \<or> component = ComponentCompute
      then (if kruise then ''AdvancedStatefulSet'' else ''StatefulSet'') else (if kruise then ''CloneSet'' else ''Deployment''))"

text \<open>The object that the controller gets for a group, with the fields that it reads.\<close>

definition builtObject :: "RisingWaveObjectFactory \<Rightarrow> bool \<Rightarrow> string \<Rightarrow> string \<Rightarrow> K8sObject" where
  "builtObject f kruise component grp =
     (case newWorkload f kruise component grp of
        Returns v \<Rightarrow> objectView (wv_Kind v) (wv_Meta v) (Some (wv_Replicas v))
      | Panics m \<Rightarrow> objectView [] zeroObjectMeta None)"

text \<open>An observed object that this factory built, now or for an earlier generation.\<close>

definition ownObject :: "RisingWaveObjectFactory \<Rightarrow> bool \<Rightarrow> string \<Rightarrow> K8sObject \<Rightarrow> bool" where
  "ownObject f kruise component x \<longleftrightarrow> ko_Kind x = workloadKind kruise component \<and> ko_Namespace x = namespace f
     \<and> componentName f component (groupOf x) = Returns (ko_Name x)"

lemma newWorkload_kind: "newWorkload f kruise component grp = Returns v \<Longrightarrow> wv_Kind v = workloadKind kruise component"
  by (auto simp: newWorkload_def workloadKind_def omap_eq_Returns statefulSetView_def advancedStatefulSetView_def deploymentView_def
      cloneSetView_def split: if_splits)

lemma builtObject_fields:
  assumes "returns (newWorkload f kruise component g)" "madeFactory f" "setsOwnerOnly (f_scheme f)"
  shows "groupOf (builtObject f kruise component g) = g" "ownObject f kruise component (builtObject f kruise component g)"
    "labelOf LabelRisingWaveGeneration (builtObject f kruise component g) = generationLabel f True"
proof -
  obtain v where v: "newWorkload f kruise component g = Returns v" using assms(1) returnsE by blast
  have ok: "workloadOk f component g v" by (rule newWorkload_ok [OF v assms(2,3)])
  have b: "builtObject f kruise component g = objectView (wv_Kind v) (wv_Meta v) (Some (wv_Replicas v))"
    by (simp add: builtObject_def v)
  show g: "groupOf (builtObject f kruise component g) = g"
    using ok by (simp add: b labelOf_def objectView_def workloadOk_def)
  then show "ownObject f kruise component (builtObject f kruise component g)"
    using ok newWorkload_kind [OF v] by (simp add: b ownObject_def objectView_def workloadOk_def)
  show "labelOf LabelRisingWaveGeneration (builtObject f kruise component g) = generationLabel f True"
    using ok by (simp add: b labelOf_def objectView_def workloadOk_def)
qed

lemma ownObject_key:
  assumes "ownObject f kruise component x" "ownObject f kruise component y" "known_component component"
  shows "keyOf x = keyOf y \<longleftrightarrow> groupOf x = groupOf y"
  using assms componentName_inj [of f component "groupOf x" "ko_Name x" "groupOf y"]
  by (auto simp: ownObject_def keyOf_def known_component_def component_defs ComponentConfig_def)

text \<open>The laws that the sync relies on hold for the factory of a RisingWave that was accepted.\<close>

lemma real_factory_ok:
  assumes f: "madeFactory f" "setsOwnerOnly (f_scheme f)" "f_risingwave f = m_risingwave (im_risingwaveManager mgr)"
    and gen: "0 \<le> currentGeneration mgr" "currentGeneration mgr \<le> 9223372036854775807"
    and c: "known_component component" and r: "\<forall>g \<in> set expected. returns (newWorkload f kruise component g)"
    and own: "\<forall>x \<in> set objects. ownObject f kruise component x"
  shows "factory_ok mgr (builtObject f kruise component) expected objects"
proof -
  let ?b = "builtObject f kruise component"
  have b: "groupOf (?b g) = g" "ownObject f kruise component (?b g)" "isObjectSynced mgr (Some (?b g))" if "g \<in> set expected" for g
    using builtObject_fields [OF _ f(1,2), of kruise component g] that r parseInt64_showInt [of "currentGeneration mgr"] gen
    by (simp_all add: generationLabel_def f(3))
  have "keyOf (?b g) = keyOf (?b g') \<longleftrightarrow> g = g'" if "g \<in> set expected" "g' \<in> set expected" for g g'
    using ownObject_key [OF b(2) b(2) c] b(1) that by simp
  then have inj: "inj_on (\<lambda>g. keyOf (?b g)) (set expected)" by (auto intro: inj_onI)
  have k: "keyOf x = keyOf (?b g) \<longleftrightarrow> groupOf x = g" if "x \<in> set objects" "g \<in> set expected" for x g
    using ownObject_key [OF _ b(2) c] own b(1) that by simp
  have kind: "ko_Kind x = ko_Kind (?b g)" if "x \<in> set objects" "g \<in> set expected" for x g
    using own b(2) that by (simp add: ownObject_def)
  show ?thesis unfolding factory_ok_def
  proof (intro conjI ballI allI impI)
    fix g w assume "g \<in> set expected" "find (\<lambda>x. groupOf x = g) objects = Some w"
    moreover from this have "w \<in> set objects" "groupOf w = g" by (auto simp: find_Some_iff)
    ultimately show "keyOf w = keyOf (?b g)" "ko_Kind w = ko_Kind (?b g)" using k kind by auto
  next
    fix g assume g: "g \<in> set expected" "g \<notin> groupOf ` set objects"
    show "keyOf (?b g) \<notin> keyOf ` set objects"
    proof
      assume "keyOf (?b g) \<in> keyOf ` set objects"
      then obtain x where "x \<in> set objects" "keyOf x = keyOf (?b g)" by auto
      then show False using k g by blast
    qed
  qed (use b inj in auto)
qed

section \<open>A concrete factory\<close>

definition demoLib :: FactoryLib where
  "demoLib = \<lparr>lib_semverCompare = (\<lambda>a b. 0), lib_quantityValue = (\<lambda>q. q), lib_quantityCeil = (\<lambda>q. q), lib_quantityAsInt64 = (\<lambda>q. q),
     lib_setControllerReference = (\<lambda>rw m. Inr (m\<lparr>om_OwnerReferences := [\<lparr>or_APIVersion = [], or_Kind = ''RisingWave'',
       or_Name = om_Name (rw_Meta rw), or_UID = om_UID (rw_Meta rw), or_Controller = Some True\<rparr>]\<rparr>)),
     lib_envOrder = (\<lambda>xs. xs), lib_inPlaceUpdateReady = ''InPlaceUpdateReady''\<rparr>"

definition memoryRisingWave :: RisingWave where
  "memoryRisingWave = demoRisingWave\<lparr>
     rw_Meta := (rw_Meta demoRisingWave)\<lparr>om_Labels := [(''risingwave/group'', ''z''), (''team/name'', ''x'')],
       om_Annotations := [(AnnotationInheritLabelPrefix, ''team,risingwave'')]\<rparr>,
     rw_Spec := (rw_Spec demoRisingWave)\<lparr>rws_MetaStore := zeroMetaStore\<lparr>ms_Memory := Some True\<rparr>,
     rws_StateStore := zeroStateStore\<lparr>ss_Memory := Some True\<rparr>\<rparr>\<rparr>"

abbreviation demoObjectFactory :: RisingWaveObjectFactory where
  "demoObjectFactory \<equiv> NewRisingWaveObjectFactory memoryRisingWave demoLib ''v1''"

lemma demoLib_ok: "setsOwnerOnly demoLib" "ownable demoLib rw"
  by (auto simp: setsOwnerOnly_def ownable_def demoLib_def)

lemma memory_accepted:
  "\<not> isBypassed memoryRisingWave" "rw_ValidateCreate (\<lambda>_. True) (\<lambda>_. []) True memoryRisingWave = Returns None"
  by code_simp+

lemma memory_groups:
  "known_component ComponentCompute" "demoNodeGroup ''a'' 1 \<in> set (nodeGroups memoryRisingWave ComponentCompute)"
  "ng_Name (demoNodeGroup ''a'' 1) = ''a''" by code_simp+

lemma demo_builds:
  "returns (newWorkload demoObjectFactory kruise ComponentCompute ''a'')" "returns (newComponentService demoObjectFactory ComponentCompute)"
  using accepted_builds [OF memory_accepted _ _ memory_groups(1,2), of demoObjectFactory] demoLib_ok(2) memory_groups(3)
  by (simp_all add: NewRisingWaveObjectFactory_def)

end
