(* ===== verification/FactoryOrder.thy ===== *)
theory FactoryOrder
  imports FactoryPanics
begin

text \<open>
  The pod template does not depend on the order of the map iteration in the sort of the environment variables: the variables of the
  container of RisingWave have distinct names, whatever the node group sets.
\<close>

section \<open>Names of merged variables\<close>

lemma names_mergeEnv:
  "map ev_Name (mergeEnv list val) =
     (if ev_Name val \<in> ev_Name ` set list then map ev_Name list else map ev_Name list @ [ev_Name val])"
  unfolding mergeEnv_def by (induction list) auto

lemma distinct_mergeEnv: "distinct (map ev_Name list) \<Longrightarrow> distinct (map ev_Name (mergeEnv list val))"
  by (auto simp: names_mergeEnv)

lemma distinct_mergeEnvs: "distinct (map ev_Name list) \<Longrightarrow> distinct (map ev_Name (mergeEnvs list vals))"
  unfolding mergeEnvs_def by (induction vals arbitrary: list) (simp_all add: distinct_mergeEnv)

text \<open>Merging makes the new value the one of its name and keeps the values of the other names.\<close>

lemma mergeEnv_values:
  assumes "distinct (map ev_Name list)"
  shows "e \<in> set (mergeEnv list val) \<longleftrightarrow> e = val \<or> e \<in> set list \<and> ev_Name e \<noteq> ev_Name val"
  using assms unfolding mergeEnv_def by (induction list) (auto simp: rev_image_eqI)

section \<open>The variables that the factory sets\<close>

definition distinctEnv :: "EnvVar list outcome \<Rightarrow> bool" where
  "distinctEnv x = (case x of Returns es \<Rightarrow> distinct (map ev_Name es) | Panics m \<Rightarrow> True)"

lemma distinctEnvD: "distinctEnv x \<Longrightarrow> x = Returns es \<Longrightarrow> distinct (map ev_Name es)"
  by (simp add: distinctEnv_def)

definition envNames :: "EnvVar list \<Rightarrow> string set" where
  "envNames es = ev_Name ` set es"

lemma metaBackend_names:
  assumes "metaBackendEnvs f b = Returns es"
  shows "distinct (map ev_Name es)" "envNames es \<subseteq> {RWBackend, RWEtcdEndpoints, RWEtcdAuth, RWSQLEndpoint, RWSQLDatabase}"
  using assms unfolding metaBackendEnvs_def envNames_def
  by (auto simp: omap_eq_Returns deref_def RWBackend_def RWEtcdEndpoints_def RWEtcdAuth_def RWSQLEndpoint_def RWSQLDatabase_def
      split: if_splits option.splits)

lemma license_names:
  "distinct (map ev_Name (envsForLicenseKey f))" "envNames (envsForLicenseKey f) \<subseteq> {RWLicenseKeyPath, RWLicenseKey}"
  by (auto simp: envsForLicenseKey_def envNames_def split: option.split)

lemma secretStore_names:
  "distinct (map ev_Name (envsForSecretStore f))" "envNames (envsForSecretStore f) \<subseteq> {RWSecretStorePrivateKeyHex}"
  by (auto simp: envsForSecretStore_def envNames_def Let_def split: option.split)

lemma distinct_names_append:
  "distinct (map ev_Name (xs @ ys)) \<longleftrightarrow> distinct (map ev_Name xs) \<and> distinct (map ev_Name ys) \<and> envNames xs \<inter> envNames ys = {}"
  by (simp add: envNames_def)

lemma envNames_append: "envNames (xs @ ys) = envNames xs \<union> envNames ys"
  by (auto simp: envNames_def)

lemma metaArgs_distinct: "envsForMetaArgs f img = Returns es \<Longrightarrow> distinct (map ev_Name es)"
proof -
  assume "envsForMetaArgs f img = Returns es"
  then obtain a h backend b where es: "es = [envVal RWMetaAddr (addr ''http://127.0.0.1'' MetaServicePort), envVal RWConfigPath configPath,
      envVal RWListenAddr (addr ''0.0.0.0'' MetaServicePort), envVal RWAdvertiseAddr a,
      envVal RWPrometheusHost (addr ''0.0.0.0'' MetaMetricsPort), envVal RWStateStore h, envVal RWDataDirectory (getDataDirectory f),
      envVal RWDashboardHost (addr ''0.0.0.0'' MetaDashboardPort)] @ backend @ envsForLicenseKey f @ envsForSecretStore f"
    and backend: "metaBackendEnvs f b = Returns backend"
    by (auto simp: envsForMetaArgs_def coreEnvsForMeta_def obind_eq_Returns)
  let ?first = "take 8 es"
  have n: "distinct (map ev_Name ?first)"
    "envNames ?first = {RWMetaAddr, RWConfigPath, RWListenAddr, RWAdvertiseAddr, RWPrometheusHost, RWStateStore, RWDataDirectory, RWDashboardHost}"
    unfolding es by (auto simp: env_defs envNames_def)
  have "distinct (map ev_Name (?first @ backend @ envsForLicenseKey f @ envsForSecretStore f))"
    using n metaBackend_names [OF backend] license_names [of f] secretStore_names [of f]
    unfolding distinct_names_append envNames_append env_defs by auto
  then show ?thesis unfolding es by simp
qed

definition stateStoreNames :: "string set" where
  "stateStoreNames = {MinIOEndpoint, MinIOBucket, MinIOUsername, MinIOPassword, AWSRegion, AWSS3Bucket, AWSAccessKeyID,
     AWSSecretAccessKey, AWSForcePathStyle, AWSEC2MetadataDisabled, S3CompatibleEndpoint, GoogleApplicationCredentials, AliyunOSSRegion,
     AliyunOSSAccessKeyID, AliyunOSSSecretAccessKey, AliyunOSSEndpoint, AzureBlobEndpoint, AzureBlobAccountName, AzureBlobAccountKey,
     HuaweiCloudOBSRegion, HuaweiCloudOBSEndpoint, HuaweiCloudOBSAccessKeyID, HuaweiCloudOBSSecretAccessKey}"

lemma s3_names:
  "distinct (map ev_Name (envsForAWSS3 r b c p))" "envNames (envsForAWSS3 r b c p) \<subseteq> stateStoreNames"
  "distinct (map ev_Name (envsForS3Compatible r e b c p))" "envNames (envsForS3Compatible r e b c p) \<subseteq> stateStoreNames"
  by (auto simp: envsForAWSS3_def envsForS3Compatible_def envNames_def stateStoreNames_def env_defs)

lemma minIO_names: "envsForMinIO f = Returns es \<Longrightarrow> distinct (map ev_Name es) \<and> envNames es \<subseteq> stateStoreNames"
  by (auto simp: envsForMinIO_def omap_eq_Returns Let_def envNames_def stateStoreNames_def env_defs)

lemma gcs_names: "envsForGCS f = Returns es \<Longrightarrow> distinct (map ev_Name es) \<and> envNames es \<subseteq> stateStoreNames"
  by (auto simp: envsForGCS_def omap_eq_Returns Let_def envNames_def stateStoreNames_def split: if_splits)

lemma aliyun_names: "envsForAliyunOSS f = Returns es \<Longrightarrow> distinct (map ev_Name es) \<and> envNames es \<subseteq> stateStoreNames"
  by (auto simp: envsForAliyunOSS_def omap_eq_Returns Let_def envNames_def stateStoreNames_def env_defs)

lemma azure_names: "envsForAzureBlob f = Returns es \<Longrightarrow> distinct (map ev_Name es) \<and> envNames es \<subseteq> stateStoreNames"
  by (auto simp: envsForAzureBlob_def omap_eq_Returns Let_def envNames_def stateStoreNames_def env_defs)

lemma huawei_names: "envsForHuaweiCloudOBS f = Returns es \<Longrightarrow> distinct (map ev_Name es) \<and> envNames es \<subseteq> stateStoreNames"
  by (auto simp: envsForHuaweiCloudOBS_def omap_eq_Returns Let_def envNames_def stateStoreNames_def env_defs)

lemma s3_all_names: "envsForS3 f = Returns es \<Longrightarrow> distinct (map ev_Name es) \<and> envNames es \<subseteq> stateStoreNames"
  by (clarsimp simp: envsForS3_def omap_eq_Returns s3_names)

lemmas other_store_names = minIO_names gcs_names aliyun_names azure_names huawei_names s3_all_names

lemma stateStore_names:
  assumes "envsForStateStore f = Returns es"
  shows "distinct (map ev_Name es)" "envNames es \<subseteq> stateStoreNames"
proof -
  have e: "distinct (map ev_Name []) \<and> envNames [] \<subseteq> stateStoreNames" by (simp add: envNames_def)
  have "distinct (map ev_Name es) \<and> envNames es \<subseteq> stateStoreNames"
    using assms other_store_names [of f es] e unfolding envsForStateStore_def envsForHDFS_def envsForWebHDFS_def envsForLocalDisk_def
    by (auto split: if_splits)
  then show "distinct (map ev_Name es)" "envNames es \<subseteq> stateStoreNames" by auto
qed

lemma limits_names:
  "distinct (map ev_Name (envsForResourceLimits c m))" "envNames (envsForResourceLimits c m) \<subseteq> {RWParallelism, RWTotalMemoryBytes}"
  by (auto simp: envsForResourceLimits_def envNames_def env_defs)

lemma frontendArgs_names:
  assumes "envsForFrontendArgs f = Returns es"
  shows "distinct (map ev_Name es)" "envNames es \<subseteq> {RWListenAddr, RWConfigPath, RWAdvertiseAddr, RWMetaAddr, RWMetaAddrLegacy,
    RWPrometheusListenerAddr, RWWebhookListenAddr, RWSslKey, RWSslCert}"
  using assms by (auto simp: envsForFrontendArgs_def envsForTLS_def omap_eq_Returns envNames_def env_defs split: option.splits)

lemma computeArgs_distinct: "envsForComputeArgs f c m = Returns es \<Longrightarrow> distinct (map ev_Name es)"
  by (auto simp: envsForComputeArgs_def envsForResourceLimits_def omap_eq_Returns obind_eq_Returns env_defs)

lemma compactorArgs_distinct: "envsForCompactorArgs f = Returns es \<Longrightarrow> distinct (map ev_Name es)"
  by (auto simp: envsForCompactorArgs_def omap_eq_Returns env_defs)

lemma frontend_distinct:
  assumes "envsForFrontendArgs f = Returns args"
    and "extra = [] \<or> (\<exists>c m ss. extra = envsForResourceLimits c m @ ss \<and> envsForStateStore f = Returns ss)"
  shows "distinct (map ev_Name (args @ extra))"
  using assms(2)
proof (elim disjE exE conjE)
  fix c m ss assume e: "extra = envsForResourceLimits c m @ ss" "envsForStateStore f = Returns ss"
  show ?thesis
    using frontendArgs_names [OF assms(1)] limits_names [of c m] stateStore_names [OF e(2)]
    unfolding e(1) distinct_names_append envNames_append stateStoreNames_def env_defs by auto
qed (use frontendArgs_names(1) [OF assms(1)] in simp)

lemma mount_env [simp]:
  "c_Env (mountConfig c) = c_Env c" "c_Env (snd (mountTLS f pc)) = c_Env (snd pc)"
  "c_Env (snd (setupVolumeAndVolumeMountForLicenseKey f pc)) = c_Env (snd pc)"
  by (auto simp: mountConfig_def mountTLS_def setupVolumeAndVolumeMountForLicenseKey_def split: prod.split option.split)

text \<open>Whatever variables the container had, those that the four set-up functions leave have distinct names.\<close>

lemma setup_distinct_each:
  "setupMetaContainer f pc = Returns (p', c') \<Longrightarrow> distinct (map ev_Name (c_Env c'))"
  "setupFrontendContainer f pc = Returns (p', c') \<Longrightarrow> distinct (map ev_Name (c_Env c'))"
  "setupComputeContainer f pc = Returns (p', c') \<Longrightarrow> distinct (map ev_Name (c_Env c'))"
  "setupCompactorContainer f pc = Returns (p', c') \<Longrightarrow> distinct (map ev_Name (c_Env c'))"
proof -
  have r: "x = (p', c') \<Longrightarrow> c_Env c' = c_Env (snd x)" for x by simp
  show "setupMetaContainer f pc = Returns (p', c') \<Longrightarrow> distinct (map ev_Name (c_Env c'))"
    by (auto simp: setupMetaContainer_def obind_eq_Returns split_beta dest!: r metaArgs_distinct intro!: distinct_mergeEnvs)
  show "setupComputeContainer f pc = Returns (p', c') \<Longrightarrow> distinct (map ev_Name (c_Env c'))"
    by (auto simp: setupComputeContainer_def obind_eq_Returns split_beta dest!: computeArgs_distinct intro!: distinct_mergeEnvs)
  show "setupCompactorContainer f pc = Returns (p', c') \<Longrightarrow> distinct (map ev_Name (c_Env c'))"
    by (auto simp: setupCompactorContainer_def obind_eq_Returns split_beta dest!: compactorArgs_distinct intro!: distinct_mergeEnvs)
  assume "setupFrontendContainer f pc = Returns (p', c')"
  then obtain args extra where a: "envsForFrontendArgs f = Returns args" and c: "c_Env c' = mergeEnvs (args @ extra) (c_Env (snd pc))"
    and e: "(if isEmbeddedServingModeEnabled f
               then (case resourceEnvs (f_scheme f) (snd pc) of (cpuLimit, memLimit) \<Rightarrow>
                       omap (\<lambda>ss. envsForResourceLimits cpuLimit memLimit @ ss) (envsForStateStore f))
               else Returns []) = Returns extra"
    unfolding setupFrontendContainer_def obind_eq_Returns split_beta by auto
  have "extra = [] \<or> (\<exists>c m ss. extra = envsForResourceLimits c m @ ss \<and> envsForStateStore f = Returns ss)"
    using e by (auto simp: omap_eq_Returns split_beta split: if_splits)
  then show "distinct (map ev_Name (c_Env c'))" unfolding c by (intro distinct_mergeEnvs frontend_distinct [OF a])
qed

section \<open>Independence of the map order\<close>

text \<open>The same factory in a run in which the map iterations take another order.\<close>

definition reorder :: "(nat list \<Rightarrow> nat list) \<Rightarrow> RisingWaveObjectFactory \<Rightarrow> RisingWaveObjectFactory" where
  "reorder ord f = f\<lparr>f_scheme := (f_scheme f)\<lparr>lib_envOrder := ord\<rparr>\<rparr>"

lemma reorder_fields:
  "f_risingwave (reorder ord f) = f_risingwave f" "f_inheritedLabels (reorder ord f) = f_inheritedLabels f"
  "f_scheme (reorder ord f) = (f_scheme f)\<lparr>lib_envOrder := ord\<rparr>"
  by (simp_all add: reorder_def)

lemma reorder_stores:
  "hummockConnectionStr (reorder ord f) = hummockConnectionStr f" "envsForMetaStore (reorder ord f) = envsForMetaStore f"
  "envsForStateStore (reorder ord f) = envsForStateStore f" "metaBackendEnvs (reorder ord f) = metaBackendEnvs f"
proof -
  show "hummockConnectionStr (reorder ord f) = hummockConnectionStr f"
    unfolding hummockConnectionStr_def state_store_defs reorder_fields by (rule refl)
  show "envsForMetaStore (reorder ord f) = envsForMetaStore f"
    unfolding envsForMetaStore_def meta_store_defs envsForEtcd_def envsForMySQL_def envsForPostgreSQL_def reorder_fields by (rule refl)
  show "envsForStateStore (reorder ord f) = envsForStateStore f"
    unfolding envsForStateStore_def state_store_defs envsForMinIO_def envsForS3_def envsForGCS_def envsForAliyunOSS_def
      envsForAzureBlob_def envsForHuaweiCloudOBS_def reorder_fields by (rule refl)
  show "metaBackendEnvs (reorder ord f) = metaBackendEnvs f" unfolding metaBackendEnvs_def meta_store_defs fun_eq_iff reorder_fields by simp
qed

lemma reorder_names:
  "componentName (reorder ord f) c g = componentName f c g"
  "componentAddr (reorder ord f) c g = componentAddr f c g"
  "advertiseAddr (reorder ord f) c p = advertiseAddr f c p"
  "metaLoadBalance (reorder ord f) = metaLoadBalance f"
  "getInheritedLabels (reorder ord f) = getInheritedLabels f"
  "podLabelsOrSelectorsForComponentGroup (reorder ord f) c g = podLabelsOrSelectorsForComponentGroup f c g"
  "risingWaveConfigVolumeOf (reorder ord f) ng = risingWaveConfigVolumeOf f ng"
  unfolding componentName_def rwName_def componentAddr_def isFullKubernetesAddr_def advertiseAddr_def metaLoadBalance_def getInheritedLabels_def podLabelsOrSelectorsForComponentGroup_def risingWaveConfigVolumeOf_def
    reorder_fields by (rule refl)+

lemma reorder_settings:
  "getDataDirectory (reorder ord f) = getDataDirectory f"
  "useLicenseFile (reorder ord f) = useLicenseFile f"
  "licenseSecret (reorder ord f) = licenseSecret f"
  "envsForLicenseKey (reorder ord f) = envsForLicenseKey f"
  "envsForSecretStore (reorder ord f) = envsForSecretStore f"
  "isWebhookListenerEnabled (reorder ord f) = isWebhookListenerEnabled f"
  "envsForTLS (reorder ord f) = envsForTLS f"
  unfolding getDataDirectory_def useLicenseFile_def licenseSecret_def envsForLicenseKey_def envsForSecretStore_def isWebhookListenerEnabled_def envsForTLS_def
    reorder_fields reorder_names by (rule refl)+

lemma via_env_order: "isSQLCredentialsViaEnvSupported (lib\<lparr>lib_envOrder := ord\<rparr>) v = isSQLCredentialsViaEnvSupported lib v"
  by (simp add: isSQLCredentialsViaEnvSupported_def)

lemma resourceEnvs_order: "resourceEnvs (lib\<lparr>lib_envOrder := ord\<rparr>) c = resourceEnvs lib c"
  by (simp add: resourceEnvs_def)

lemmas reorder_rules = reorder_fields reorder_stores reorder_names reorder_settings via_env_order resourceEnvs_order

lemma reorder_args:
  "envsForMetaArgs (reorder ord f) img = envsForMetaArgs f img" "envsForFrontendArgs (reorder ord f) = envsForFrontendArgs f"
  "envsForComputeArgs (reorder ord f) c m = envsForComputeArgs f c m" "envsForCompactorArgs (reorder ord f) = envsForCompactorArgs f"
  unfolding envsForMetaArgs_def coreEnvsForMeta_def envsForFrontendArgs_def envsForComputeArgs_def envsForCompactorArgs_def reorder_rules
  by (rule refl)+

lemma reorder_mounts:
  "setupVolumeAndVolumeMountForLicenseKey (reorder ord f) pc = setupVolumeAndVolumeMountForLicenseKey f pc"
  "mountTLS (reorder ord f) pc = mountTLS f pc" "isEmbeddedServingModeEnabled (reorder ord f) = isEmbeddedServingModeEnabled f"
  "portsForFrontendContainer (reorder ord f) = portsForFrontendContainer f"
  unfolding setupVolumeAndVolumeMountForLicenseKey_def volumeAndVolumeMountForLicenseKey_def mountTLS_def volumeAndVolumeMountForTLS_def
    isEmbeddedServingModeEnabled_def portsForFrontendContainer_def reorder_rules
  by (rule refl)+

lemma reorder_setups:
  "setupMetaContainer (reorder ord f) = setupMetaContainer f" "setupFrontendContainer (reorder ord f) = setupFrontendContainer f"
  "setupComputeContainer (reorder ord f) = setupComputeContainer f" "setupCompactorContainer (reorder ord f) = setupCompactorContainer f"
  unfolding fun_eq_iff setupMetaContainer_def setupFrontendContainer_def frontendCommand_def setupComputeContainer_def
    setupCompactorContainer_def reorder_rules reorder_args reorder_mounts
  by simp_all

lemma reorder_setupFor: "component \<noteq> ComponentStandalone \<Longrightarrow> setupFor (reorder ord f) component = setupFor f component"
  by (simp add: setupFor_def Let_def reorder_setups reorder_fields)

lemma workerThreads_order: "workerThreads (lib\<lparr>lib_envOrder := ord\<rparr>) q = workerThreads lib q"
  by (simp add: workerThreads_def)

lemma basicSetup_order: "basicSetupRisingWaveContainer (lib\<lparr>lib_envOrder := ord\<rparr>) c m = basicSetupRisingWaveContainer lib c m"
  unfolding basicSetupRisingWaveContainer_def workerThreads_order by (rule refl)

lemma mount_init [simp]:
  "ps_InitContainers (fst (mountTLS f pc)) = ps_InitContainers (fst pc)"
  "ps_InitContainers (fst (setupVolumeAndVolumeMountForLicenseKey f pc)) = ps_InitContainers (fst pc)"
  by (auto simp: mountTLS_def setupVolumeAndVolumeMountForLicenseKey_def split: prod.split option.split)

lemma setup_init:
  assumes "setupFor f component = Returns (m, compo)" "component \<noteq> ComponentStandalone" "m pc = Returns (p', c')"
  shows "distinct (map ev_Name (c_Env c')) \<and> ps_InitContainers p' = ps_InitContainers (fst pc)"
proof -
  have r: "x = (p', c') \<Longrightarrow> ps_InitContainers p' = ps_InitContainers (fst x)" for x by simp
  have "setupMetaContainer f pc = Returns (p', c') \<Longrightarrow> ps_InitContainers p' = ps_InitContainers (fst pc)"
    by (auto simp: setupMetaContainer_def obind_eq_Returns split_beta dest!: r)
  moreover have "setupFrontendContainer f pc = Returns (p', c') \<Longrightarrow> ps_InitContainers p' = ps_InitContainers (fst pc)"
    unfolding setupFrontendContainer_def obind_eq_Returns split_beta by auto
  moreover have "setupComputeContainer f pc = Returns (p', c') \<Longrightarrow> ps_InitContainers p' = ps_InitContainers (fst pc)"
    by (auto simp: setupComputeContainer_def obind_eq_Returns split_beta)
  moreover have "setupCompactorContainer f pc = Returns (p', c') \<Longrightarrow> ps_InitContainers p' = ps_InitContainers (fst pc)"
    by (auto simp: setupCompactorContainer_def obind_eq_Returns split_beta)
  ultimately show ?thesis
    using assms unfolding setupFor_def Let_def by (auto split: if_splits dest: setup_distinct_each)
qed

definition anyOrder :: "(nat list \<Rightarrow> nat list) \<Rightarrow> bool" where
  "anyOrder ord \<longleftrightarrow> (\<forall>n. mset (ord [0..<n]) = mset [0..<n])"

lemma keepPodSpecConsistent_order:
  assumes "anyOrder ord" "anyOrder ord'"
    and "\<forall>c \<in> set (ps_InitContainers p) \<union> set (ps_Containers p). distinct (map ev_Name (c_Env c))"
  shows "keepPodSpecConsistent (lib\<lparr>lib_envOrder := ord\<rparr>) p = keepPodSpecConsistent (lib\<lparr>lib_envOrder := ord'\<rparr>) p"
proof -
  have "sortSlicesInContainer (lib\<lparr>lib_envOrder := ord\<rparr>) c = sortSlicesInContainer (lib\<lparr>lib_envOrder := ord'\<rparr>) c"
    if "c \<in> set (ps_InitContainers p) \<union> set (ps_Containers p)" for c
    using TopologicalSort_deterministic [of ord "c_Env c" ord'] assms that by (auto simp: sortSlicesInContainer_def anyOrder_def)
  then show ?thesis by (auto simp: keepPodSpecConsistent_def)
qed

lemma buildPodTemplate_order:
  assumes o: "anyOrder ord" "anyOrder ord'"
    and s: "\<And>pc p' c'. setup pc = Returns (p', c') \<Longrightarrow> distinct (map ev_Name (c_Env c')) \<and> ps_InitContainers p' = ps_InitContainers (fst pc)"
    and d: "\<forall>c \<in> set (tps_AdditionalContainers (npt_Spec (ng_Template g))). distinct (map ev_Name (c_Env c))"
  shows "buildPodTemplateFromNodeGroup (reorder ord f) component g setup = buildPodTemplateFromNodeGroup (reorder ord' f) component g setup"
proof -
  let ?t = "newPodSpecFromNodeGroupTemplate (ng_Template g)"
  have t: "ps_InitContainers (pt_Spec ?t) = []" "tl (ps_Containers (pt_Spec ?t)) = tps_AdditionalContainers (npt_Spec (ng_Template g))"
    by (simp_all add: newPodSpecFromNodeGroupTemplate_def Let_def)
  have k: "keepPodSpecConsistent ((f_scheme f)\<lparr>lib_envOrder := ord\<rparr>) (p\<lparr>ps_Containers := c # tl (ps_Containers (pt_Spec ?t))\<rparr>)
      = keepPodSpecConsistent ((f_scheme f)\<lparr>lib_envOrder := ord'\<rparr>) (p\<lparr>ps_Containers := c # tl (ps_Containers (pt_Spec ?t))\<rparr>)"
    if "setup ((pt_Spec ?t)\<lparr>ps_Volumes := vs\<rparr>, c0) = Returns (p, c)" for vs c0 p c
    using s [OF that] d by (intro keepPodSpecConsistent_order [OF o]) (simp add: t)
  show ?thesis
    unfolding buildPodTemplateFromNodeGroup_def Let_def reorder_rules
    by (intro obind_cong) (auto simp: k)
qed

section \<open>Properties\<close>

text \<open>C37: Pod templates are reproducible: the template of a meta, frontend, compute or compactor group is the same
  in every run, whatever order the map iterations take in the sort of the environment variables, and also when
  the node group repeats a name or sets a name of the operator; only the additional containers that a user adds need
  distinct names of their own. Without this property two reconciliations could replace the pods of each other.\<close>
theorem pod_template_deterministic:
  assumes "anyOrder ord" "anyOrder ord'" "component \<in> {ComponentMeta, ComponentFrontend, ComponentCompute, ComponentCompactor}"
    and "\<forall>c \<in> set (tps_AdditionalContainers (npt_Spec (ng_Template g))). distinct (map ev_Name (c_Env c))"
  shows "newPodTemplateSpecFromNodeGroupByComponent (reorder ord f) component g
    = newPodTemplateSpecFromNodeGroupByComponent (reorder ord' f) component g"
proof -
  have c: "component \<noteq> ComponentStandalone" using assms(3) by auto
  have s: "distinct (map ev_Name (c_Env c')) \<and> ps_InitContainers p' = ps_InitContainers (fst pc)"
    if "setupFor f component = Returns (m, compo)" "(case pc of (p, c) \<Rightarrow> m (p, basicSetupRisingWaveContainer lib c (Some compo))) = Returns (p', c')"
    for m compo pc p' c' lib
    using setup_init [OF that(1) c] that(2) by (fastforce split: prod.splits)
  show ?thesis
    unfolding newPodTemplateSpecFromNodeGroupByComponent_def reorder_setupFor [OF c] reorder_fields basicSetup_order
    by (intro obind_cong) (auto intro!: buildPodTemplate_order assms(1,2,4) s)
qed

section \<open>Witnesses\<close>

theorem pod_template_deterministic_witness:
  "newPodTemplateSpecFromNodeGroupByComponent (reorder rev demoObjectFactory) ComponentCompute (demoNodeGroup ''a'' 1)
    = newPodTemplateSpecFromNodeGroupByComponent (reorder (\<lambda>xs. xs) demoObjectFactory) ComponentCompute (demoNodeGroup ''a'' 1)"
  by (rule pod_template_deterministic) (simp_all add: anyOrder_def demoNodeGroup_def zeroPodTemplate_def)

end
