(* ===== verification/FactoryTheorems.thy ===== *)
theory FactoryTheorems
  imports FactoryOrder
begin

text \<open>
  The properties of the object factory.
\<close>

text \<open>A standalone RisingWave on OpenKruise whose partition is not a number.\<close>

definition standaloneRisingWave :: RisingWave where
  "standaloneRisingWave = memoryRisingWave\<lparr>rw_Spec := (rw_Spec memoryRisingWave)\<lparr>rws_EnableStandaloneMode := Some True,
     rws_EnableOpenKruise := Some True,
     rws_Components := (rws_Components (rw_Spec memoryRisingWave))\<lparr>comps_Standalone := Some
       \<lparr>sa_LogLevel = ''INFO'', sa_DisallowPrintStackTraces = None, sa_RestartAt = None, sa_Replicas = 1,
        sa_UpgradeStrategy = \<lparr>us_Type = RisingWaveUpgradeStrategyTypeInPlaceIfPossible, us_RollingUpdate = Some
          \<lparr>ru_MaxUnavailable = None, ru_Partition = Some (StrVal ''half''), ru_MaxSurge = None\<rparr>, us_InPlaceUpdateStrategy = None\<rparr>,
        sa_MinReadySeconds = 0, sa_VolumeClaimTemplates = [], sa_PersistentVolumeClaimRetentionPolicy = None,
        sa_ProgressDeadlineSeconds = None, sa_Template = zeroPodTemplate\<rparr>\<rparr>\<rparr>\<rparr>"

section \<open>Properties\<close>


text \<open>C33: The identity of a workload: it has the name and namespace of its component and group, the labels by
  which the controller finds it, among them the current generation, whatever labels are inherited from the
  RisingWave; its selector is part of the labels of its pods; its replicas are those of the node group.\<close>
theorem workload_identity:
  assumes "newWorkload (NewRisingWaveObjectFactory rw lib v) kruise component grp = Returns w" "setsOwnerOnly lib"
  shows "componentName (NewRisingWaveObjectFactory rw lib v) component grp = Returns (om_Name (wv_Meta w))
    \<and> om_Namespace (wv_Meta w) = om_Namespace (rw_Meta rw)
    \<and> map_of (om_Labels (wv_Meta w)) LabelRisingWaveName = Some (om_Name (rw_Meta rw))
    \<and> map_of (om_Labels (wv_Meta w)) LabelRisingWaveComponent = Some component
    \<and> map_of (om_Labels (wv_Meta w)) LabelRisingWaveGroup = Some grp
    \<and> map_of (om_Labels (wv_Meta w)) LabelRisingWaveGeneration = Some (showInt (om_Generation (rw_Meta rw)))
    \<and> (\<forall>(k, x) \<in> set (wv_Selector w). map_of (pt_Labels (wv_Template w)) k = Some x)
    \<and> map_of (wv_Selector w) LabelRisingWaveGroup = Some grp
    \<and> (\<exists>g. GetNodeGroup rw component grp = Returns (Some g) \<and> wv_Replicas w = ng_Replicas g)"
proof -
  have "workloadOk (NewRisingWaveObjectFactory rw lib v) component grp w"
    using newWorkload_ok [OF assms(1) madeFactory_new] assms(2) by (simp add: NewRisingWaveObjectFactory_def)
  moreover have "map_of (podLabelsOrSelectorsForComponentGroup f component grp) LabelRisingWaveGroup = Some grp" for f
    by (simp add: podLabelsOrSelectorsForComponentGroup_def map_of_smap label_defs)
  ultimately show ?thesis
    by (simp add: workloadOk_def generationLabel_def namespace_def rwName_def) (simp add: NewRisingWaveObjectFactory_def)
qed

text \<open>C34: Services reach pods: the service of a component selects the pods of every group of the component and
  each of its target ports is a port of their container with the same number; in standalone mode the
  frontend service reaches the standalone pod instead.\<close>
theorem services_reach_pods:
  assumes "f = NewRisingWaveObjectFactory rw lib v" "setsOwnerOnly lib"
  shows "(newComponentService f component = Returns s \<longrightarrow> newWorkload f kruise component grp = Returns w \<longrightarrow>
      (component = ComponentFrontend \<longrightarrow> \<not> IsStandaloneModeEnabled rw) \<longrightarrow> reachesPods s (wv_Template w))
    \<and> (NewFrontendService f = Returns s \<longrightarrow> NewStandaloneStatefulSet f = Returns sts \<longrightarrow> IsStandaloneModeEnabled rw \<longrightarrow>
      reachesPods s (sts_Template sts))"
proof (intro conjI impI)
  have f: "madeFactory f" "f_risingwave f = rw" "setsOwnerOnly (f_scheme f)"
    using madeFactory_new assms by (simp_all add: NewRisingWaveObjectFactory_def)
  show "reachesPods s (wv_Template w)" if "newComponentService f component = Returns s" "newWorkload f kruise component grp = Returns w"
    "component = ComponentFrontend \<longrightarrow> \<not> IsStandaloneModeEnabled rw"
    using newWorkload_ok [OF that(2) f(1,3)] component_service_fields [OF that(1)] that(3)
    by (intro reachesPodsI [of s f component grp]) (simp_all add: workloadOk_def f(2))
  show "reachesPods s (sts_Template sts)"
    if a: "NewFrontendService f = Returns s" "NewStandaloneStatefulSet f = Returns sts" "IsStandaloneModeEnabled rw"
  proof -
    obtain g where g: "newPodTemplateSpecFromNodeGroupByComponent f ComponentStandalone g = Returns (sts_Template sts)"
      using a(2) by (auto simp: NewStandaloneStatefulSet_def Let_def obind_eq_Returns mustSetControllerReference_eq_Returns newStatefulSet_def)
    show ?thesis
      using standalone_service_fields [OF a(1)] a(3) template_ports [OF g] template_selected [OF g f(1)]
      by (intro reachesPodsI [of s f ComponentStandalone "ng_Name g"]) (simp_all add: f(2))
  qed
qed


text \<open>The webhook checks the partitions of the node groups but not the one of the standalone component: this RisingWave passes
  validation and the factory panics when it builds the advanced stateful set of the standalone mode.\<close>
theorem standalone_partition_panics:
  "rw_ValidateCreate (\<lambda>_. True) (\<lambda>_. []) True standaloneRisingWave = Returns None
   \<and> (\<exists>m. NewStandaloneAdvancedStatefulSet (NewRisingWaveObjectFactory standaloneRisingWave demoLib ''v1'') = Panics m)"
proof -
  let ?f = "NewRisingWaveObjectFactory standaloneRisingWave demoLib ''v1''"
  have a: "rw_ValidateCreate (\<lambda>_. True) (\<lambda>_. []) True standaloneRisingWave = Returns None" by code_simp
  have "\<not> partitionReadable (ng_UpgradeStrategy (convertStandaloneIntoNodeGroup ?f))" by code_simp
  then have "\<not> returns (NewStandaloneAdvancedStatefulSet ?f)" by (rule standalone_unreadable)
  then show ?thesis using a by (cases "NewStandaloneAdvancedStatefulSet ?f") auto
qed

text \<open>The options of a connection survive their encoding: decoding the query string that is appended to the
  endpoint of a MySQL or PostgreSQL meta store gives the options back, whatever characters they contain.\<close>
theorem formatConnectionOptions_roundtrip:
  "(formatConnectionOptions opts = [] \<longleftrightarrow> opts = []) \<and> (opts = [] \<or>
     hd (formatConnectionOptions opts) = CHR ''?'' \<and> decodeValues (tl (formatConnectionOptions opts)) = map Some opts)"
  by (cases opts) (simp_all add: formatConnectionOptions_def decode_encode)

section \<open>Witnesses\<close>


theorem workload_identity_witness:
  "\<exists>w. newWorkload demoObjectFactory False ComponentCompute ''a'' = Returns w
    \<and> map_of (om_Labels (wv_Meta w)) LabelRisingWaveGroup = Some ''a''"
  using demo_builds(1) [of False] workload_identity [OF _ demoLib_ok(1)] unfolding returns_iff by blast

theorem services_reach_pods_witness:
  "\<exists>s w. newComponentService demoObjectFactory ComponentCompute = Returns s
    \<and> newWorkload demoObjectFactory False ComponentCompute ''a'' = Returns w \<and> reachesPods s (wv_Template w)"
proof -
  obtain w s where r: "newWorkload demoObjectFactory False ComponentCompute ''a'' = Returns w"
    "newComponentService demoObjectFactory ComponentCompute = Returns s"
    using demo_builds returns_iff by metis
  show ?thesis using r services_reach_pods [OF refl demoLib_ok(1)] component_names_sym(4) by blast
qed


end
