(* ===== verification/Features.thy ===== *)
theory Features
  imports GoLib
begin

text \<open>
  \<^verbatim>\<open>pkg/features/feature_manager.go\<close>: the feature gates of the operator and the parser of the command line argument. The map of
  features is an association list with one entry per name; the order of its iteration is the argument
  \<open>ord\<close> of the functions that list features. White space is that of ASCII.
\<close>

section \<open>Features\<close>

definition EnableOpenKruiseFeature :: string where "EnableOpenKruiseFeature = ''EnableOpenKruise''"
definition EnableForceUpdate :: string where "EnableForceUpdate = ''EnableForceUpdate''"
definition RandomSecretStorePrivateKey :: string where "RandomSecretStorePrivateKey = ''RandomSecretStorePrivateKey''"
definition Alpha :: string where "Alpha = ''Alpha''"
definition Beta :: string where "Beta = ''Beta''"

record Feature =
  ft_Name :: string
  ft_Description :: string
  ft_Enabled :: bool
  ft_DefaultEnable :: bool
  ft_Stage :: string

definition SupportedFeatureList :: "Feature list" where
  "SupportedFeatureList =
     [\<lparr>ft_Name = EnableOpenKruiseFeature, ft_Description = ''This feature enables open kruise as an optional provider'',
       ft_Enabled = False, ft_DefaultEnable = False, ft_Stage = Beta\<rparr>,
      \<lparr>ft_Name = EnableForceUpdate, ft_Description = ''This feature enables force resolve version conflict due to operator update'',
       ft_Enabled = False, ft_DefaultEnable = True, ft_Stage = Beta\<rparr>,
      \<lparr>ft_Name = RandomSecretStorePrivateKey,
       ft_Description = ''This feature enables the random generation of a secret store private key if it is not set'',
       ft_Enabled = False, ft_DefaultEnable = False, ft_Stage = Alpha\<rparr>]"

record FeatureManager =
  fm_featureMap :: "(string \<times> Feature) list"

definition NewRisingWaveFeatureManager :: FeatureManager where
  "NewRisingWaveFeatureManager = \<lparr>fm_featureMap = []\<rparr>"

definition Feature_DeepCopy :: "Feature \<Rightarrow> Feature" where
  "Feature_DeepCopy f = \<lparr>ft_Name = ft_Name f, ft_Description = ft_Description f, ft_Enabled = ft_Enabled f,
     ft_DefaultEnable = ft_DefaultEnable f, ft_Stage = ft_Stage f\<rparr>"

definition addFeature :: "FeatureManager \<Rightarrow> Feature \<Rightarrow> FeatureManager" where
  "addFeature m f = m\<lparr>fm_featureMap := alUpdate (ft_Name f) (Feature_DeepCopy f) (fm_featureMap m)\<rparr>"

definition InitFeatureManagerWithSupportedFeatures :: "Feature list \<Rightarrow> FeatureManager" where
  "InitFeatureManagerWithSupportedFeatures fs =
     foldl (\<lambda>m f. addFeature m (f\<lparr>ft_Enabled := ft_DefaultEnable f\<rparr>)) NewRisingWaveFeatureManager fs"

definition IsFeatureExist :: "FeatureManager \<Rightarrow> string \<Rightarrow> bool" where
  "IsFeatureExist m n \<longleftrightarrow> map_of (fm_featureMap m) n \<noteq> None"

text \<open>The update of the flag of a feature through its pointer in the map.\<close>

definition setEnabled :: "FeatureManager \<Rightarrow> string \<Rightarrow> bool \<Rightarrow> FeatureManager" where
  "setEnabled m n b = m\<lparr>fm_featureMap := map (\<lambda>(k, f). (k, if k = n then f\<lparr>ft_Enabled := b\<rparr> else f)) (fm_featureMap m)\<rparr>"

definition noSuchFeature :: "string \<Rightarrow> string" where
  "noSuchFeature n = ''the following feature does not exist: '' @ n"

definition setFeatureEnable :: "FeatureManager \<Rightarrow> string \<Rightarrow> bool \<Rightarrow> FeatureManager \<times> string option" where
  "setFeatureEnable m n b = (if IsFeatureExist m n then (setEnabled m n b, None) else (m, Some (noSuchFeature n)))"

definition IsFeatureEnabled :: "FeatureManager \<Rightarrow> string \<Rightarrow> bool" where
  "IsFeatureEnabled m n = (case map_of (fm_featureMap m) n of Some f \<Rightarrow> ft_Enabled f | None \<Rightarrow> False)"

definition EnableFeature :: "FeatureManager \<Rightarrow> string \<Rightarrow> FeatureManager \<times> string option" where
  "EnableFeature m n = setFeatureEnable m n True"

definition DisableFeature :: "FeatureManager \<Rightarrow> string \<Rightarrow> FeatureManager \<times> string option" where
  "DisableFeature m n = setFeatureEnable m n False"

definition GetNumOfFeatures :: "FeatureManager \<Rightarrow> nat" where
  "GetNumOfFeatures m = length (fm_featureMap m)"

definition ListFeatures :: "((string \<times> Feature) list \<Rightarrow> (string \<times> Feature) list) \<Rightarrow> FeatureManager \<Rightarrow> Feature list" where
  "ListFeatures ord m = map (Feature_DeepCopy \<circ> snd) (ord (fm_featureMap m))"

definition ListEnabledFeatures :: "((string \<times> Feature) list \<Rightarrow> (string \<times> Feature) list) \<Rightarrow> FeatureManager \<Rightarrow> Feature list" where
  "ListEnabledFeatures ord m = map (Feature_DeepCopy \<circ> snd) (filter (\<lambda>(k, f). ft_Enabled f) (ord (fm_featureMap m)))"

definition ListDisabledFeatures :: "((string \<times> Feature) list \<Rightarrow> (string \<times> Feature) list) \<Rightarrow> FeatureManager \<Rightarrow> Feature list" where
  "ListDisabledFeatures ord m = map (Feature_DeepCopy \<circ> snd) (filter (\<lambda>(k, f). \<not> ft_Enabled f) (ord (fm_featureMap m)))"

definition GetFeature :: "FeatureManager \<Rightarrow> string \<Rightarrow> string + Feature" where
  "GetFeature m n = (case map_of (fm_featureMap m) n of None \<Rightarrow> Inl (noSuchFeature n) | Some f \<Rightarrow> Inr (Feature_DeepCopy f))"

section \<open>The argument of the command line\<close>

text \<open>\<^verbatim>\<open>strconv.ParseBool\<close>.\<close>

definition ParseBool :: "string \<Rightarrow> bool option" where
  "ParseBool s =
     (if s \<in> {''1'', ''t'', ''T'', ''TRUE'', ''true'', ''True''} then Some True
      else if s \<in> {''0'', ''f'', ''F'', ''FALSE'', ''false'', ''False''} then Some False
      else None)"

definition parseFeatureString :: "string \<Rightarrow> string + string \<times> bool" where
  "parseFeatureString s =
     (case splitOn CHR ''='' s of
        [n, v] \<Rightarrow>
          (let featureName = trimSpace n in
           if length featureName = 0 then Inl (''invalid feature name given: '' @ featureName)
           else (case ParseBool (trimSpace v) of
                   None \<Rightarrow> Inl (''invalid feature status: '' @ s)
                 | Some b \<Rightarrow> Inr (featureName, b)))
      | _ \<Rightarrow> Inl (''invalid feature syntax given: '' @ s))"

text \<open>The loop over the parts: an error stops it and keeps what was set before.\<close>

fun setFromParts :: "FeatureManager \<Rightarrow> string list \<Rightarrow> FeatureManager \<times> string option" where
  "setFromParts m [] = (m, None)"
| "setFromParts m (s # ss) =
     (case parseFeatureString s of
        Inl e \<Rightarrow> (m, Some e)
      | Inr (n, b) \<Rightarrow> setFromParts (if IsFeatureExist m n then setEnabled m n b else m) ss)"

text \<open>The first byte as a rune: an ASCII letter, or part of a longer rune, which the conversion makes invalid.\<close>

definition isLetterByte :: "char \<Rightarrow> bool" where
  "isLetterByte c \<longleftrightarrow> (let n = of_char c :: nat in 65 \<le> n \<and> n \<le> 90 \<or> 97 \<le> n \<and> n \<le> 122)"

definition ParseFromFeatureGateString :: "FeatureManager \<Rightarrow> string \<Rightarrow> (FeatureManager \<times> string option) outcome" where
  "ParseFromFeatureGateString m gates =
     (if length gates = 0 then Returns (m, None)
      else (case trimSpace gates of
              [] \<Rightarrow> Panics ''slice bounds out of range [:1] with length 0''
            | c # s \<Rightarrow>
                if \<not> isLetterByte c then Returns (m, Some (''parsing error of feature gate string: '' @ c # s))
                else Returns (setFromParts m (splitOn CHR '','' (c # s)))))"

definition InitFeatureManager :: "Feature list \<Rightarrow> string \<Rightarrow> FeatureManager outcome" where
  "InitFeatureManager fs gates =
     obind (ParseFromFeatureGateString (InitFeatureManagerWithSupportedFeatures fs) gates) (\<lambda>(m, err).
       if err \<noteq> None then Panics ''Invalid value given to feature-gates argument'' else Returns m)"

section \<open>Lemmas\<close>

lemma map_of_setEnabled:
  "map_of (fm_featureMap (setEnabled m n b)) k = map_option (\<lambda>f. if k = n then f\<lparr>ft_Enabled := b\<rparr> else f) (map_of (fm_featureMap m) k)"
proof -
  have "map_of (map (\<lambda>(k, f). (k, if k = n then f\<lparr>ft_Enabled := b\<rparr> else f)) xs) k =
      map_option (\<lambda>f. if k = n then f\<lparr>ft_Enabled := b\<rparr> else f) (map_of xs k)" for xs :: "(string \<times> Feature) list"
    by (induction xs) auto
  then show ?thesis by (simp add: setEnabled_def)
qed

text \<open>The settings that a list of parts asks for, the last one of a name first.\<close>

definition settings :: "string list \<Rightarrow> (string \<times> bool) list" where
  "settings ss = rev (List.map_filter (\<lambda>s. case parseFeatureString s of Inl e \<Rightarrow> None | Inr p \<Rightarrow> Some p) ss)"

lemma settings_Cons:
  "parseFeatureString s = Inr p \<Longrightarrow> settings (s # ss) = settings ss @ [p]"
  by (simp add: settings_def List.map_filter_simps)

lemma setFromParts_ok:
  assumes "setFromParts m ss = (m', None)"
  shows "map_of (fm_featureMap m') k =
     map_option (\<lambda>f. case map_of (settings ss) k of Some b \<Rightarrow> f\<lparr>ft_Enabled := b\<rparr> | None \<Rightarrow> f) (map_of (fm_featureMap m) k)"
  using assms
proof (induction m ss rule: setFromParts.induct)
  case (1 m)
  then show ?case by (simp add: settings_def List.map_filter_simps option.map_ident)
next
  case (2 m s ss)
  obtain n b where p: "parseFeatureString s = Inr (n, b)" using "2.prems" by (auto split: sum.splits)
  let ?m = "if IsFeatureExist m n then setEnabled m n b else m"
  have IH: "map_of (fm_featureMap m') k =
      map_option (\<lambda>f. case map_of (settings ss) k of Some b \<Rightarrow> f\<lparr>ft_Enabled := b\<rparr> | None \<Rightarrow> f) (map_of (fm_featureMap ?m) k)"
    using "2.IH" [OF p refl] "2.prems" p by simp
  show ?case
    unfolding IH settings_Cons [OF p]
    by (cases "map_of (fm_featureMap m) k"; cases "k = n") (auto simp: map_of_setEnabled IsFeatureExist_def map_add_def split: option.split)
qed

text \<open>An accepted feature gate string sets the named features that exist, the last setting of a name wins, and
  keeps everything else.\<close>

lemma ParseFromFeatureGateString_ok:
  assumes "ParseFromFeatureGateString m gates = Returns (m', None)"
  shows "IsFeatureEnabled m' k = (case map_of (fm_featureMap m) k of None \<Rightarrow> False
     | Some f \<Rightarrow> (case map_of (settings (if gates = [] then [] else splitOn CHR '','' (trimSpace gates))) k of Some b \<Rightarrow> b | None \<Rightarrow> ft_Enabled f))"
proof (cases "gates = []")
  case True
  then show ?thesis using assms by (auto simp: ParseFromFeatureGateString_def IsFeatureEnabled_def settings_def List.map_filter_simps split: option.split)
next
  case False
  then have "setFromParts m (splitOn CHR '','' (trimSpace gates)) = (m', None)"
    using assms by (cases "trimSpace gates") (auto simp: ParseFromFeatureGateString_def simp del: splitOn.simps setFromParts.simps split: if_splits)
  from setFromParts_ok [OF this, of k] show ?thesis
    using False by (auto simp: IsFeatureEnabled_def split: option.splits)
qed

text \<open>A blank argument makes the operator panic with a slice error instead of the message about the argument.\<close>

lemma blank_gates_panic: "ParseFromFeatureGateString m '' '' = Panics ''slice bounds out of range [:1] with length 0''"
  by (simp add: ParseFromFeatureGateString_def trimSpace_def trimSet_def trimRightSet_def)

end
