(* ===== verification/PodControllers.thy ===== *)
theory PodControllers
  imports FactoryOrder
begin

text \<open>
  The two controllers that work on pods: \<^verbatim>\<open>pkg/controller/meta_pod_role_labeler.go\<close> asks the meta nodes for their role and labels
  their pods with it, \<^verbatim>\<open>pkg/controller/risingwave_compute_sts_update_strategy.go\<close> deletes the outdated pods of a compute stateful set
  all at once; with the helpers of \<^verbatim>\<open>pkg/utils/common.go\<close>. The API server and the meta service are arguments: their answers to
  a get, a list, a patch, a delete and the request for the members.
\<close>

section \<open>Pods\<close>

record Pod =
  pod_Meta :: ObjectMeta
  pod_Containers :: "Container list"
  pod_PodIP :: string
  pod_Phase :: string

definition podLabel :: "Pod \<Rightarrow> string \<Rightarrow> string" where
  "podLabel pod k = (case map_of (om_Labels (pod_Meta pod)) k of Some v \<Rightarrow> v | None \<Rightarrow> [])"

definition IsDeleted :: "ObjectMeta \<Rightarrow> bool" where
  "IsDeleted m \<longleftrightarrow> om_DeletionTimestamp m \<noteq> None"

definition IsPodRunning :: "Pod option \<Rightarrow> bool" where
  "IsPodRunning pod = (case pod of None \<Rightarrow> False | Some p \<Rightarrow> pod_Phase p = ''Running'')"

definition GetNamespacedName :: "ObjectMeta \<Rightarrow> string \<times> string" where
  "GetNamespacedName m = (om_Namespace m, om_Name m)"

definition GetContainerFromPod :: "Pod option \<Rightarrow> string \<Rightarrow> Container option" where
  "GetContainerFromPod pod n = (case pod of None \<Rightarrow> None | Some p \<Rightarrow> find (\<lambda>c. c_Name c = n) (pod_Containers p))"

definition GetPortFromContainer :: "Container option \<Rightarrow> string \<Rightarrow> int \<times> bool" where
  "GetPortFromContainer c n =
     (case c of
        None \<Rightarrow> (0, False)
      | Some x \<Rightarrow> (case find (\<lambda>p. cp_Name p = n) (c_Ports x) of Some p \<Rightarrow> (cp_ContainerPort p, True) | None \<Rightarrow> (0, False)))"

definition MapObjectsToNames :: "Pod list \<Rightarrow> string list" where
  "MapObjectsToNames ps = map (\<lambda>p. om_Name (pod_Meta p)) ps"

section \<open>The role of a meta pod\<close>

record Member =
  mb_Host :: string
  mb_Port :: int
  mb_IsLeader :: bool

text \<open>The answer of the meta service at an address: an error or the members.\<close>

type_synonym membersRpc = "string \<Rightarrow> string + Member list"

definition getMetaRole :: "membersRpc \<Rightarrow> string \<Rightarrow> int \<Rightarrow> string \<Rightarrow> string + string" where
  "getMetaRole rpc host port endpoint =
     (case rpc (addr host port) of
        Inl e \<Rightarrow> Inl e
      | Inr members \<Rightarrow>
          (case find (\<lambda>m. mb_Host m = endpoint \<and> mb_Port m = port) members of
             Some m \<Rightarrow> Inr (if mb_IsLeader m then MetaRoleLeader else MetaRoleFollower)
           | None \<Rightarrow> Inr MetaRoleUnknown))"

text \<open>The value of one argument, with the argument after it.\<close>

definition argEndpoint :: "string \<Rightarrow> string \<Rightarrow> string" where
  "argEndpoint arg after =
     (if arg = ''--host'' then after
      else if arg = ''--advertise-addr'' then hd (splitOn CHR '':'' after)
      else if hasPrefix arg ''--host='' then drop (length ''--host='') arg
      else if hasPrefix arg ''--advertise-addr='' then hd (splitOn CHR '':'' (drop (length ''--advertise-addr='') arg))
      else [])"

fun firstEndpoint :: "string list \<Rightarrow> string" where
  "firstEndpoint (arg # after # rest) =
     (if length (argEndpoint arg after) > 0 then argEndpoint arg after else firstEndpoint (after # rest))"
| "firstEndpoint _ = []"

text \<open>The variables of the pod in an endpoint.\<close>

definition expandEndpoint :: "Pod \<Rightarrow> string \<Rightarrow> string" where
  "expandEndpoint pod endpoint =
     (if length endpoint = 0 then []
      else replaceAll (replaceAll (replaceAll endpoint ''$(POD_IP)'' (pod_PodIP pod)) ''$(POD_NAME)'' (om_Name (pod_Meta pod)))
        ''$(POD_NAMESPACE)'' (om_Namespace (pod_Meta pod)))"

definition getEndpointFromArgs :: "Pod \<Rightarrow> string list \<Rightarrow> string" where
  "getEndpointFromArgs pod args = expandEndpoint pod (firstEndpoint args)"

definition getEndpointFromEnvVars :: "Pod \<Rightarrow> EnvVar list \<Rightarrow> string" where
  "getEndpointFromEnvVars pod envVars =
     expandEndpoint pod (case find (\<lambda>e. ev_Name e = RWAdvertiseAddr) envVars of
        Some e \<Rightarrow> hd (splitOn CHR '':'' (ev_Value e)) | None \<Rightarrow> [])"

definition isRisingWaveMetaPod :: "Pod option \<Rightarrow> bool" where
  "isRisingWaveMetaPod pod =
     (case pod of
        None \<Rightarrow> False
      | Some p \<Rightarrow> map_of (om_Labels (pod_Meta p)) LabelRisingWaveName \<noteq> None
          \<and> podLabel p LabelRisingWaveComponent = ComponentMeta \<and> GetContainerFromPod pod ''meta'' \<noteq> None)"

section \<open>Labelling\<close>

definition setRole :: "string \<Rightarrow> Pod \<Rightarrow> Pod" where
  "setRole role pod = pod\<lparr>pod_Meta := (pod_Meta pod)\<lparr>om_Labels := smapUpdate LabelRisingWaveMetaRole role (om_Labels (pod_Meta pod))\<rparr>\<rparr>"

text \<open>The patches that are sent, with the pod as it is after the patch; the result is the role or an error.\<close>

definition syncRoleLabelForSinglePod ::
  "membersRpc \<Rightarrow> (Pod \<Rightarrow> ApiError option) \<Rightarrow> Pod \<Rightarrow> (string + string) \<times> Pod list" where
  "syncRoleLabelForSinglePod rpc patch pod =
     (if \<not> isRisingWaveMetaPod (Some pod) then (Inl ''not a meta pod'', [])
      else if pod_PodIP pod = [] then (Inl ''not running'', [])
      else (case GetContainerFromPod (Some pod) ''meta'' of
         None \<Rightarrow> (Inl ''meta container not found'', [])
       | Some metaContainer \<Rightarrow>
          (case GetPortFromContainer (Some metaContainer) PortService of
             (_, False) \<Rightarrow> (Inl ''service port not found'', [])
           | (svcPort, True) \<Rightarrow>
              (let e = getEndpointFromArgs pod (c_Args metaContainer);
                   endpoint = (if length e = 0 then getEndpointFromEnvVars pod (c_Env metaContainer) else e)
               in if length endpoint = 0 then (Inl ''endpoint not found'', [])
                  else (let role = (case getMetaRole rpc (pod_PodIP pod) svcPort endpoint of Inr r \<Rightarrow> r | Inl _ \<Rightarrow> MetaRoleUnknown)
                        in if podLabel pod LabelRisingWaveMetaRole \<noteq> role
                           then (case patch (setRole role pod) of
                                   None \<Rightarrow> (Inr role, [setRole role pod])
                                 | Some err \<Rightarrow> (Inl ''patch failed'', [setRole role pod]))
                           else (Inr role, []))))))"

definition leaderSelector :: "Pod \<Rightarrow> strmap" where
  "leaderSelector pod = smap [(LabelRisingWaveName, podLabel pod LabelRisingWaveName), (LabelRisingWaveComponent, ComponentMeta),
     (LabelRisingWaveMetaRole, MetaRoleLeader)]"

definition syncRoleLabels ::
  "membersRpc \<Rightarrow> (string \<Rightarrow> strmap \<Rightarrow> ApiError + Pod list) \<Rightarrow> (Pod \<Rightarrow> ApiError option) \<Rightarrow> Pod \<Rightarrow> Pod list" where
  "syncRoleLabels rpc listPods patch pod =
     (case syncRoleLabelForSinglePod rpc patch pod of
        (Inl e, patches) \<Rightarrow> patches
      | (Inr role, patches) \<Rightarrow>
          patches @
          (if podLabel pod LabelRisingWaveMetaRole \<noteq> MetaRoleLeader \<and> role = MetaRoleLeader
           then (let items = (case listPods (om_Namespace (pod_Meta pod)) (leaderSelector pod) of Inr ps \<Rightarrow> ps | Inl _ \<Rightarrow> []);
                     leaderPods = filter (\<lambda>p. om_Name (pod_Meta p) \<noteq> om_Name (pod_Meta pod)) items
                 in concat (map (\<lambda>p. snd (syncRoleLabelForSinglePod rpc patch p)) leaderPods))
           else []))"

definition metaReconcile ::
  "membersRpc \<Rightarrow> (string \<times> string \<Rightarrow> ApiError + Pod) \<Rightarrow> (string \<Rightarrow> strmap \<Rightarrow> ApiError + Pod list) \<Rightarrow> (Pod \<Rightarrow> ApiError option)
   \<Rightarrow> string \<times> string \<Rightarrow> Res \<times> Pod list" where
  "metaReconcile rpc getPod listPods patch req =
     (case getPod req of
        Inl NotFoundErr \<Rightarrow> (NoRequeue, [])
      | Inl e \<Rightarrow> (RequeueErr [] e, [])
      | Inr pod \<Rightarrow> (RequeueAfter 2000, syncRoleLabels rpc listPods patch pod))"

definition podFilterFunc :: "Pod \<Rightarrow> bool" where
  "podFilterFunc pod \<longleftrightarrow> \<not> (pod_PodIP pod = [] \<or> \<not> isRisingWaveMetaPod (Some pod) \<or> IsDeleted (pod_Meta pod) \<or> \<not> IsPodRunning (Some pod))"

section \<open>The update of compute stateful sets\<close>

text \<open>The stateful set as this controller reads it; the label of the revision is a constant of the Kubernetes API.\<close>

record ObservedStatefulSet =
  os_Meta :: ObjectMeta
  os_Selector :: "strmap option"
  os_ObservedGeneration :: int
  os_Replicas :: int
  os_UpdatedReplicas :: int
  os_UpdateRevision :: string

definition GetControllerOf :: "ObjectMeta \<Rightarrow> OwnerReference option" where
  "GetControllerOf m = find (\<lambda>r. or_Controller r = Some True) (om_OwnerReferences m)"

definition isPodUpToDate :: "string \<Rightarrow> ObservedStatefulSet \<Rightarrow> Pod \<Rightarrow> bool" where
  "isPodUpToDate revisionLabel sts pod \<longleftrightarrow> podLabel pod revisionLabel = os_UpdateRevision sts"

text \<open>Whether a pod is deleted; a pod without controller makes the check panic.\<close>

definition toDelete :: "string \<Rightarrow> ObservedStatefulSet \<Rightarrow> Pod \<Rightarrow> bool outcome" where
  "toDelete revisionLabel sts pod =
     (if IsDeleted (pod_Meta pod) then Returns False
      else omap (\<lambda>r. or_UID r = om_UID (os_Meta sts) \<and> \<not> isPodUpToDate revisionLabel sts pod) (deref (GetControllerOf (pod_Meta pod))))"

fun filterPods :: "(Pod \<Rightarrow> bool outcome) \<Rightarrow> Pod list \<Rightarrow> Pod list outcome" where
  "filterPods P [] = Returns []"
| "filterPods P (p # ps) = obind (P p) (\<lambda>b. omap (\<lambda>r. if b then p # r else r) (filterPods P ps))"

fun deletePods :: "(Pod \<Rightarrow> ApiError option) \<Rightarrow> Pod list \<Rightarrow> Res \<times> Pod list" where
  "deletePods del [] = (NoRequeue, [])"
| "deletePods del (p # ps) =
     (case del p of
        Some e \<Rightarrow> if e = NotFoundErr then (case deletePods del ps of (r, ds) \<Rightarrow> (r, p # ds)) else (RequeueErr ''unable to delete pod'' e, [p])
      | None \<Rightarrow> (case deletePods del ps of (r, ds) \<Rightarrow> (r, p # ds)))"

definition stsReconcile ::
  "string \<Rightarrow> (strmap option \<Rightarrow> ApiError + strmap) \<Rightarrow> (string \<times> string \<Rightarrow> ApiError + ObservedStatefulSet) \<Rightarrow> (string \<Rightarrow> strmap \<Rightarrow> ApiError + Pod list)
   \<Rightarrow> (Pod \<Rightarrow> ApiError option) \<Rightarrow> string \<times> string \<Rightarrow> (Res \<times> Pod list) outcome" where
  "stsReconcile revisionLabel asSelector getSts listPods del req =
     (case getSts req of
        Inl NotFoundErr \<Rightarrow> Returns (NoRequeue, [])
      | Inl e \<Rightarrow> Returns (RequeueErr ''unable to get statefulset'' e, [])
      | Inr sts \<Rightarrow>
          if om_Generation (os_Meta sts) \<noteq> os_ObservedGeneration sts then Returns (RequeueAfter 1000, [])
          else if os_UpdatedReplicas sts = os_Replicas sts then Returns (NoRequeue, [])
          else (case asSelector (os_Selector sts) of
             Inl e \<Rightarrow> Returns (RequeueErr ''unable to get label selector'' e, [])
           | Inr selector \<Rightarrow>
              (case listPods (fst req) selector of
                 Inl e \<Rightarrow> Returns (RequeueErr ''unable to list pods'' e, [])
               | Inr pods \<Rightarrow> omap (deletePods del) (filterPods (toDelete revisionLabel sts) pods))))"

text \<open>The mapping of the watch events: stateful sets of compute nodes that a RisingWave controls.\<close>

definition stsRequests :: "string \<Rightarrow> string \<Rightarrow> ObjectMeta option \<Rightarrow> (string \<times> string) list" where
  "stsRequests apiVersion kind obj =
     (case obj of
        None \<Rightarrow> []
      | Some m \<Rightarrow>
          (case GetControllerOf m of
             None \<Rightarrow> []
           | Some ownerRef \<Rightarrow>
               if or_APIVersion ownerRef \<noteq> apiVersion \<or> or_Kind ownerRef \<noteq> kind then []
               else (let label = (\<lambda>k. case map_of (om_Labels m) k of Some v \<Rightarrow> v | None \<Rightarrow> []) in
                     if label LabelRisingWaveName = [] \<or> label LabelRisingWaveComponent \<noteq> ComponentCompute then []
                     else [(om_Namespace m, om_Name m)])))"

section \<open>Lemmas\<close>

lemma filterPods_Returns:
  "filterPods P ps = Returns qs \<longleftrightarrow> (\<forall>p \<in> set ps. returns (P p)) \<and> qs = filter (\<lambda>p. P p = Returns True) ps"
proof (induction ps arbitrary: qs)
  case Nil
  then show ?case by auto
next
  case (Cons p ps)
  show ?case
  proof (cases "P p")
    case (Returns b)
    show ?thesis
    proof (cases "filterPods P ps")
      case (Returns rs)
      then have "(\<forall>p \<in> set ps. returns (P p)) \<and> rs = filter (\<lambda>p. P p = Returns True) ps" using Cons.IH by blast
      then show ?thesis using Returns \<open>P p = Returns b\<close> by (cases b) auto
    next
      case (Panics m)
      then have "\<not> (\<forall>p \<in> set ps. returns (P p))" using Cons.IH [of "filter (\<lambda>p. P p = Returns True) ps"] by simp
      then show ?thesis using Panics Returns by simp
    qed
  qed simp
qed

lemma deletePods_all: "fst (deletePods del ps) = NoRequeue \<Longrightarrow> snd (deletePods del ps) = ps"
  by (induction ps) (auto split: option.splits prod.splits if_splits)

lemma deletePods_sub: "set (snd (deletePods del ps)) \<subseteq> set ps"
  by (induction ps) (auto split: option.splits prod.splits)

text \<open>The pods that the update may replace: outdated, not yet deleted, and controlled by the stateful set.\<close>

definition replaceable :: "string \<Rightarrow> ObservedStatefulSet \<Rightarrow> Pod \<Rightarrow> bool" where
  "replaceable revisionLabel sts p \<longleftrightarrow> om_DeletionTimestamp (pod_Meta p) = None \<and> podLabel p revisionLabel \<noteq> os_UpdateRevision sts
     \<and> (\<exists>r. GetControllerOf (pod_Meta p) = Some r \<and> or_UID r = om_UID (os_Meta sts))"

lemma toDelete_True: "toDelete revisionLabel sts p = Returns True \<longleftrightarrow> replaceable revisionLabel sts p"
  by (auto simp: toDelete_def replaceable_def IsDeleted_def isPodUpToDate_def omap_eq_Returns deref_def split: option.splits)

lemma toDelete_returns: "returns (toDelete revisionLabel sts p) \<longleftrightarrow> IsDeleted (pod_Meta p) \<or> GetControllerOf (pod_Meta p) \<noteq> None"
  by (simp add: toDelete_def)

lemma replaceFrom_none: "CHR ''$'' \<notin> set s \<Longrightarrow> replaceFrom 0 (CHR ''$'' # old) new s = s"
  by (induction s) auto

lemma replaceFrom_skip: "CHR ''$'' \<notin> set s \<Longrightarrow> replaceFrom 0 (CHR ''$'' # old) new (s @ t) = s @ replaceFrom 0 (CHR ''$'' # old) new t"
  by (induction s) auto

lemma hd_splitOn: "c \<notin> set s \<Longrightarrow> hd (splitOn c (s @ c # t)) = s"
  by (induction s) (auto split: list.split)

lemma expand_name:
  assumes "CHR ''$'' \<notin> set svc" "CHR ''$'' \<notin> set (om_Name (pod_Meta pod))" "CHR ''$'' \<notin> set (om_Namespace (pod_Meta pod))"
  shows "expandEndpoint pod (''$(POD_NAME).'' @ svc) = om_Name (pod_Meta pod) @ ''.'' @ svc"
    and "expandEndpoint pod (''$(POD_NAME).'' @ svc @ ''.$(POD_NAMESPACE).svc'')
      = om_Name (pod_Meta pod) @ ''.'' @ svc @ ''.'' @ om_Namespace (pod_Meta pod) @ ''.svc''"
  using assms by (simp_all add: expandEndpoint_def replaceAll_def replaceFrom_none replaceFrom_skip)

lemma expand_ip: "CHR ''$'' \<notin> set (pod_PodIP pod) \<Longrightarrow> expandEndpoint pod ''$(POD_IP)'' = pod_PodIP pod"
  by (simp add: expandEndpoint_def replaceAll_def replaceFrom_none)

section \<open>The address that the factory advertises\<close>

text \<open>The host under which the meta node of a pod registers itself.\<close>

definition advertisedHost :: "RisingWaveObjectFactory \<Rightarrow> Pod \<Rightarrow> string" where
  "advertisedHost f pod =
     (if IsAdvertisingWithIP (f_risingwave f) then pod_PodIP pod
      else om_Name (pod_Meta pod) @ ''.'' @ (rwName f @ ''-meta'') @
        (if isFullKubernetesAddr f then ''.'' @ om_Namespace (pod_Meta pod) @ ''.svc'' else []))"

definition plainName :: "string \<Rightarrow> bool" where
  "plainName s \<longleftrightarrow> CHR ''$'' \<notin> set s \<and> CHR '':'' \<notin> set s"

lemma advertised_expands:
  assumes "advertiseAddr f ComponentMeta MetaServicePort = Returns a"
    and p: "plainName (om_Name (pod_Meta pod))" "plainName (om_Namespace (pod_Meta pod))" "plainName (rwName f)"
      "CHR ''$'' \<notin> set (pod_PodIP pod)"
  shows "expandEndpoint pod (hd (splitOn CHR '':'' a)) = advertisedHost f pod"
proof -
  let ?n = "rwName f @ ''-meta''"
  have n: "componentName f ComponentMeta [] = Returns ?n" by (simp add: componentName_def groupSuffix_def)
  have no: "CHR '':'' \<notin> set ?n" "CHR ''$'' \<notin> set ?n" using p(3) by (simp_all add: plainName_def)
  consider "IsAdvertisingWithIP (f_risingwave f)" | "\<not> IsAdvertisingWithIP (f_risingwave f)" "isFullKubernetesAddr f"
    | "\<not> IsAdvertisingWithIP (f_risingwave f)" "\<not> isFullKubernetesAddr f" by blast
  then show ?thesis
  proof cases
    case 1
    then have "a = ''$(POD_IP)'' @ CHR '':'' # showInt MetaServicePort"
      using assms(1) by (simp add: advertiseAddr_def IsAdvertisingWithIP_def addr_def)
    then have "hd (splitOn CHR '':'' a) = ''$(POD_IP)''" using hd_splitOn [of "CHR '':''" "''$(POD_IP)''"] by simp
    then show ?thesis using 1 expand_ip [OF p(4)] by (simp add: advertisedHost_def)
  next
    case 2
    let ?h = "''$(POD_NAME).'' @ ?n @ ''.$(POD_NAMESPACE).svc''"
    have "a = ?h @ CHR '':'' # showInt MetaServicePort"
      using 2 assms(1) n by (simp add: advertiseAddr_def IsAdvertisingWithIP_def addr_def componentAddr_def)
    then have "hd (splitOn CHR '':'' a) = ?h" using hd_splitOn [of "CHR '':''" ?h] no(1) by simp
    then show ?thesis using 2 expand_name(2) [of ?n pod] no(2) p(1,2) by (simp add: advertisedHost_def plainName_def)
  next
    case 3
    let ?h = "''$(POD_NAME).'' @ ?n"
    have "a = ?h @ CHR '':'' # showInt MetaServicePort"
      using 3 assms(1) n by (simp add: advertiseAddr_def IsAdvertisingWithIP_def addr_def componentAddr_def)
    then have "hd (splitOn CHR '':'' a) = ?h" using hd_splitOn [of "CHR '':''" ?h] no(1) by simp
    then show ?thesis using 3 expand_name(1) [of ?n pod] no(2) p(1,2) by (simp add: advertisedHost_def plainName_def)
  qed
qed

lemma mergeEnvs_keeps:
  assumes "distinct (map ev_Name list)" "e \<in> set list" "ev_Name e \<notin> envNames vals"
  shows "e \<in> set (mergeEnvs list vals)"
  using assms unfolding mergeEnvs_def envNames_def
proof (induction vals arbitrary: list)
  case (Cons v vals)
  then show ?case using mergeEnv_values [OF Cons.prems(1)] by (simp add: distinct_mergeEnv)
qed simp

lemma find_unique_name: "distinct (map ev_Name es) \<Longrightarrow> e \<in> set es \<Longrightarrow> find (\<lambda>x. ev_Name x = ev_Name e) es = Some e"
  by (induction es) (auto simp: rev_image_eqI)

lemma metaStore_names:
  assumes "envsForMetaStore f = Returns es"
  shows "envNames es \<subseteq> {EtcdUsernameLegacy, EtcdPasswordLegacy, RWEtcdUsername, RWEtcdPassword, RWMySQLUsername, RWMySQLPassword,
    RWSQLUsername, RWSQLPassword, RWPostgresUsername, RWPostgresPassword}"
proof -
  have "envNames x \<subseteq> {EtcdUsernameLegacy, EtcdPasswordLegacy, RWEtcdUsername, RWEtcdPassword}" if r: "envsForEtcd f = Returns x" for x
  proof -
    obtain etcd where e: "ms_Etcd (metaStore f) = Some etcd" using r by (cases "ms_Etcd (metaStore f)") (auto simp: envsForEtcd_def)
    show ?thesis using r by (cases "etcd_Credentials etcd") (auto simp: envsForEtcd_def e envNames_def split: if_splits)
  qed
  moreover have "envNames x \<subseteq> {RWMySQLUsername, RWSQLUsername, RWMySQLPassword, RWSQLPassword}" if "envsForMySQL f = Returns x" for x
    using that by (auto simp: envsForMySQL_def omap_eq_Returns Let_def envNames_def)
  moreover have "envNames x \<subseteq> {RWPostgresUsername, RWPostgresPassword, RWSQLUsername, RWSQLPassword}" if "envsForPostgreSQL f = Returns x" for x
    using that by (auto simp: envsForPostgreSQL_def omap_eq_Returns Let_def envNames_def)
  moreover have "envNames [] = {}" by (simp add: envNames_def)
  ultimately show ?thesis
    using assms unfolding envsForMetaStore_def envsForSQLite_def by (auto split: if_splits)
qed

lemma meta_advertises:
  assumes "setupMetaContainer f (p0, c0) = Returns (p, c)" "RWAdvertiseAddr \<notin> envNames (c_Env c0)"
  obtains a where "advertiseAddr f ComponentMeta MetaServicePort = Returns a" "envVal RWAdvertiseAddr a \<in> set (c_Env c)"
    "c_Name c = ''meta''" "c_Args c = [''meta-node'']"
proof -
  obtain args ss ms where e: "envsForMetaArgs f (c_Image c0) = Returns args" "envsForStateStore f = Returns ss" "envsForMetaStore f = Returns ms"
    and c: "c_Env c = mergeEnvs (mergeEnvs (mergeEnvs args (c_Env c0)) ss) ms" "c_Name c = ''meta''" "c_Args c = [''meta-node'']"
    using assms(1)
    by (auto simp: setupMetaContainer_def obind_eq_Returns setupVolumeAndVolumeMountForLicenseKey_def mountConfig_def split_beta)
  obtain a where a: "advertiseAddr f ComponentMeta MetaServicePort = Returns a" "envVal RWAdvertiseAddr a \<in> set args"
    using e(1) by (auto simp: envsForMetaArgs_def obind_eq_Returns)
  have d: "distinct (map ev_Name args)" by (rule metaArgs_distinct [OF e(1)])
  have "RWAdvertiseAddr \<notin> envNames ss" "RWAdvertiseAddr \<notin> envNames ms"
    using stateStore_names(2) [OF e(2)] metaStore_names [OF e(3)] unfolding stateStoreNames_def env_defs by auto
  then have "envVal RWAdvertiseAddr a \<in> set (c_Env c)"
    unfolding c(1) using a(2) d assms(2) by (intro mergeEnvs_keeps distinct_mergeEnvs) auto
  then show thesis using that a(1) c(2,3) by blast
qed

section \<open>Properties\<close>


text \<open>C36: The update of a compute stateful set deletes pods only when its latest specification is observed and an update is under
  way, and only outdated pods that it controls and that are not deleted yet; when it ends without an
  error all of those among the listed pods are deleted. During an update it panics exactly when a listed pod that is not being
  deleted has no controller.\<close>
theorem stsReconcile_deletes:
  assumes "getSts req = Inr sts" "asSelector (os_Selector sts) = Inr selector" "listPods (fst req) selector = Inr pods"
  shows "(case stsReconcile revisionLabel asSelector getSts listPods del req of
       Returns (r, ds) \<Rightarrow>
         (ds = [] \<or> om_Generation (os_Meta sts) = os_ObservedGeneration sts \<and> os_UpdatedReplicas sts \<noteq> os_Replicas sts)
         \<and> (\<forall>p \<in> set ds. p \<in> set pods \<and> replaceable revisionLabel sts p)
         \<and> (r = NoRequeue \<and> os_UpdatedReplicas sts \<noteq> os_Replicas sts \<longrightarrow> set ds = {p \<in> set pods. replaceable revisionLabel sts p})
         \<and> (om_Generation (os_Meta sts) = os_ObservedGeneration sts \<and> os_UpdatedReplicas sts \<noteq> os_Replicas sts
              \<longrightarrow> (\<forall>p \<in> set pods. om_DeletionTimestamp (pod_Meta p) = None \<longrightarrow> GetControllerOf (pod_Meta p) \<noteq> None))
     | Panics m \<Rightarrow> om_Generation (os_Meta sts) = os_ObservedGeneration sts \<and> os_UpdatedReplicas sts \<noteq> os_Replicas sts
         \<and> (\<exists>p \<in> set pods. om_DeletionTimestamp (pod_Meta p) = None \<and> GetControllerOf (pod_Meta p) = None))"
proof (cases "om_Generation (os_Meta sts) = os_ObservedGeneration sts \<and> os_UpdatedReplicas sts \<noteq> os_Replicas sts")
  case False
  then show ?thesis by (auto simp: stsReconcile_def assms)
next
  case True
  then have r: "stsReconcile revisionLabel asSelector getSts listPods del req
      = omap (deletePods del) (filterPods (toDelete revisionLabel sts) pods)" by (simp add: stsReconcile_def assms)
  show ?thesis
  proof (cases "filterPods (toDelete revisionLabel sts) pods")
    case (Returns qs)
    then have "set qs = {p \<in> set pods. replaceable revisionLabel sts p}" by (auto simp: filterPods_Returns toDelete_True)
    moreover have "\<forall>p \<in> set pods. om_DeletionTimestamp (pod_Meta p) = None \<longrightarrow> GetControllerOf (pod_Meta p) \<noteq> None"
      using Returns by (auto simp: filterPods_Returns toDelete_returns IsDeleted_def)
    ultimately show ?thesis
      using True deletePods_sub [of del qs] deletePods_all [of del qs] by (auto simp: r Returns split: prod.split)
  next
    case (Panics m)
    then have "\<not> (\<forall>p \<in> set pods. returns (toDelete revisionLabel sts p))"
      using filterPods_Returns [of "toDelete revisionLabel sts" pods] by force
    then show ?thesis using True by (auto simp: r Panics toDelete_returns IsDeleted_def)
  qed
qed

section \<open>Witnesses\<close>

definition demoContainer :: Container where
  "demoContainer = hd (ps_Containers (pt_Spec (newPodSpecFromNodeGroupTemplate zeroPodTemplate)))"

definition demoPodSpec :: PodSpec where
  "demoPodSpec = pt_Spec (newPodSpecFromNodeGroupTemplate zeroPodTemplate)"

definition demoMetaPod :: "Container \<Rightarrow> Pod" where
  "demoMetaPod c = \<lparr>pod_Meta = zeroObjectMeta\<lparr>om_Name := ''rw-meta-0'', om_Namespace := ''ns'',
       om_Labels := smap [(LabelRisingWaveName, ''rw''), (LabelRisingWaveComponent, ComponentMeta)]\<rparr>,
     pod_Containers = [c], pod_PodIP = ''10.0.0.7'', pod_Phase = ''Running''\<rparr>"


definition demoSts :: ObservedStatefulSet where
  "demoSts = \<lparr>os_Meta = zeroObjectMeta\<lparr>om_UID := ''s''\<rparr>, os_Selector = Some [], os_ObservedGeneration = 0, os_Replicas = 2,
     os_UpdatedReplicas = 1, os_UpdateRevision = ''new''\<rparr>"

definition demoStsPod :: "string \<Rightarrow> Pod" where
  "demoStsPod revision = \<lparr>pod_Meta = zeroObjectMeta\<lparr>om_Name := revision, om_Labels := [(''rev'', revision)],
       om_OwnerReferences := [\<lparr>or_APIVersion = [], or_Kind = [], or_Name = [], or_UID = ''s'', or_Controller = Some True\<rparr>]\<rparr>,
     pod_Containers = [], pod_PodIP = [], pod_Phase = []\<rparr>"

theorem stsReconcile_deletes_witness:
  "\<exists>ds. stsReconcile ''rev'' (\<lambda>_. Inr []) (\<lambda>_. Inr demoSts) (\<lambda>_ _. Inr [demoStsPod ''new'', demoStsPod ''old'']) (\<lambda>_. None) ([], [])
      = Returns (NoRequeue, ds) \<and> set ds = {p \<in> {demoStsPod ''new'', demoStsPod ''old''}. replaceable ''rev'' demoSts p}"
proof -
  have r: "stsReconcile ''rev'' (\<lambda>_. Inr []) (\<lambda>_. Inr demoSts) (\<lambda>_ _. Inr [demoStsPod ''new'', demoStsPod ''old'']) (\<lambda>_. None) ([], [])
      = Returns (NoRequeue, [demoStsPod ''old''])" by code_simp
  have u: "os_UpdatedReplicas demoSts \<noteq> os_Replicas demoSts" by code_simp
  have "set [demoStsPod ''old''] = {p \<in> set [demoStsPod ''new'', demoStsPod ''old'']. replaceable ''rev'' demoSts p}"
    using stsReconcile_deletes [of "\<lambda>_. Inr demoSts" "([], [])" demoSts "\<lambda>_. Inr []" "[]" "\<lambda>_ _. Inr [demoStsPod ''new'', demoStsPod ''old'']"
        "[demoStsPod ''new'', demoStsPod ''old'']" "''rev''" "\<lambda>_. None"] u unfolding r by simp blast
  then show ?thesis unfolding r by simp blast
qed

end
