(* ===== verification/RwFrame.thy ===== *)
theory RwFrame
  imports RwWorkflow
begin

text \<open>
  What the actions of \<open>RwWorkflow\<close> leave alone: no action changes the observed RisingWave, only the syncs and the
  sync of the service monitor send requests, and only one action turns the condition Running to true.
\<close>

section \<open>The frame of an action\<close>

text \<open>The parts of the manager that no action changes.\<close>

definition fixedParts :: "RisingWaveControllerManagerImpl \<Rightarrow> RisingWave \<times> bool" where
  "fixedParts impl = (imRisingWave impl, m_openkruiseAvailable (im_risingwaveManager impl))"

text \<open>An action keeps the manager but for its conditions, sends no request, or never turns Running to true.\<close>

definition keepsFixed :: "managerAction \<Rightarrow> bool" where
  "keepsFixed a \<longleftrightarrow> (\<forall>env m x. a env m = Returns x \<longrightarrow> fixedParts (ran_Impl x) = fixedParts (cm_impl m)
     \<and> im_objectFactory (ran_Impl x) = im_objectFactory (cm_impl m))"

definition silent :: "managerAction \<Rightarrow> bool" where
  "silent a \<longleftrightarrow> (\<forall>env m x. a env m = Returns x \<longrightarrow> ran_Requests x = [])"

abbreviation saysRunning :: "RisingWaveControllerManagerImpl \<Rightarrow> bool" where
  "saysRunning impl \<equiv> statusOf (im_risingwaveManager impl) RisingWaveConditionRunning = Some ConditionTrue"

definition neverRunning :: "managerAction \<Rightarrow> bool" where
  "neverRunning a \<longleftrightarrow> (\<forall>env m x. a env m = Returns x \<longrightarrow> saysRunning (ran_Impl x) \<longrightarrow> saysRunning (cm_impl m))"

text \<open>The actions are built from a few parts.\<close>

definition plain :: "managerAction \<Rightarrow> bool" where
  "plain a \<longleftrightarrow> (\<forall>env m x. a env m = Returns x \<longrightarrow> ran_Impl x = cm_impl m)"

lemma plain_frame: "plain a \<Longrightarrow> keepsFixed a \<and> neverRunning a"
  by (simp add: plain_def keepsFixed_def neverRunning_def)

lemmas action_parts = fetching_def invoke_def sends_def waits_def collects_def

lemma fetching_Returns:
  "fetching m got k = Returns x \<longleftrightarrow>
     (\<exists>msg e. got = Inl (msg, e) \<and> x = \<lparr>ran_Res = RequeueErr msg e, ran_Requests = [], ran_Impl = cm_impl m, ran_Hooks = []\<rparr>)
     \<or> (\<exists>y. got = Inr y \<and> k y = Returns x)"
  by (auto simp: fetching_def split: sum.splits)

lemma invoke_Returns:
  "invoke m a st b = Returns x \<longleftrightarrow> (\<exists>r qs impl. b = Returns (r, qs, impl) \<and>
     x = \<lparr>ran_Res = r, ran_Requests = qs, ran_Impl = impl, ran_Hooks = (if cm_hook m then [PreRunCall a st, PostRunCall a r] else [])\<rparr>)"
  by (auto simp: invoke_def split: outcome.splits)

lemma sends_Returns: "sends m b = Returns (r, qs, impl) \<longleftrightarrow> b = Returns (r, qs) \<and> impl = cm_impl m"
  by (auto simp: sends_def split: outcome.splits)

lemma waits_Returns: "waits m b = Returns (r, qs, impl) \<longleftrightarrow> b = Returns r \<and> qs = [] \<and> impl = cm_impl m"
  by (auto simp: waits_def split: outcome.splits)

lemma collects_Returns: "collects b = Returns (r, qs, impl) \<longleftrightarrow> b = (r, impl) \<and> qs = []"
  by (cases b) (auto simp: collects_def)

lemmas action_Returns = fetching_Returns invoke_Returns sends_Returns waits_Returns collects_Returns

lemmas sync_action_defs = SyncConfigConfigMap_action_def SyncMetaService_action_def SyncMetaStatefulSets_action_def
  SyncMetaAdvancedStatefulSets_action_def SyncFrontendService_action_def SyncFrontendDeployments_action_def SyncFrontendCloneSets_action_def
  SyncComputeService_action_def SyncComputeStatefulSets_action_def SyncComputeAdvancedStatefulSets_action_def SyncCompactorService_action_def
  SyncCompactorDeployments_action_def SyncCompactorCloneSets_action_def SyncStandaloneService_action_def
  SyncStandaloneStatefulSet_action_def SyncStandaloneAdvancedStatefulSet_action_def

lemmas wait_action_defs = WaitBeforeMetaServiceIsAvailable_action_def WaitBeforeMetaStatefulSetsReady_action_def
  WaitBeforeMetaAdvancedStatefulSetsReady_action_def WaitBeforeFrontendDeploymentsReady_action_def WaitBeforeFrontendCloneSetsReady_action_def
  WaitBeforeComputeStatefulSetsReady_action_def WaitBeforeComputeAdvancedStatefulSetsReady_action_def WaitBeforeCompactorDeploymentsReady_action_def
  WaitBeforeCompactorCloneSetsReady_action_def WaitBeforeStandaloneStatefulSetReady_action_def WaitBeforeStandaloneAdvancedStatefulSetReady_action_def

lemma sync_plain: "\<forall>(n, a) \<in> set syncActions. plain a"
  unfolding syncActions_def plain_def by (auto simp: sync_action_defs action_Returns)

lemma wait_plain: "\<forall>(n, a) \<in> set waitActions. plain a \<and> silent a"
  unfolding waitActions_def plain_def silent_def by (auto simp: wait_action_defs action_Returns)

lemma monitor_plain: "plain SyncServiceMonitor_action"
  unfolding plain_def by (auto simp: SyncServiceMonitor_action_def action_Returns)

text \<open>The actions on the status.\<close>

lemma onManager_Returns:
  "onManager d f env m = Returns x \<longleftrightarrow> (\<exists>r mgr. f (im_risingwaveManager (cm_impl m)) = (r, mgr) \<and>
     x = \<lparr>ran_Res = r, ran_Requests = [], ran_Impl = (cm_impl m)\<lparr>im_risingwaveManager := mgr\<rparr>,
          ran_Hooks = (if cm_hook m then [PreRunCall d [], PostRunCall d r] else [])\<rparr>)"
  by (auto simp: onManager_def NewAction_def invoke_Returns split: prod.splits)

text \<open>An operation on the manager that keeps what was observed and does not turn Running to true.\<close>

definition managerKeeps :: "(RisingWaveManager \<Rightarrow> Res \<times> RisingWaveManager) \<Rightarrow> bool" where
  "managerKeeps f \<longleftrightarrow> (\<forall>m. m_risingwave (snd (f m)) = m_risingwave m \<and> m_openkruiseAvailable (snd (f m)) = m_openkruiseAvailable m)"

definition managerModest :: "(RisingWaveManager \<Rightarrow> Res \<times> RisingWaveManager) \<Rightarrow> bool" where
  "managerModest f \<longleftrightarrow> (\<forall>m. statusOf (snd (f m)) RisingWaveConditionRunning = Some ConditionTrue \<longrightarrow>
     statusOf m RisingWaveConditionRunning = Some ConditionTrue)"

lemma onManager_frame:
  "managerKeeps f \<Longrightarrow> keepsFixed (onManager d f)"
  "silent (onManager d f)"
  "managerModest f \<Longrightarrow> neverRunning (onManager d f)"
proof -
  have x: "ran_Impl x = (cm_impl m)\<lparr>im_risingwaveManager := snd (f (im_risingwaveManager (cm_impl m)))\<rparr> \<and> ran_Requests x = []"
    if "onManager d f env m = Returns x" for env m x
    using that by (auto simp: onManager_Returns)
  show "keepsFixed (onManager d f)" if "managerKeeps f"
    using that x unfolding keepsFixed_def managerKeeps_def fixedParts_def by fastforce
  show "silent (onManager d f)" using x by (simp add: silent_def)
  show "neverRunning (onManager d f)" if "managerModest f"
    using that x unfolding neverRunning_def managerModest_def by fastforce
qed

lemma UpdateStatus_keeps [simp]:
  "m_risingwave (UpdateStatus m f) = m_risingwave m" "m_openkruiseAvailable (UpdateStatus m f) = m_openkruiseAvailable m"
  by (simp_all add: UpdateStatus_def)

lemma UpdateStatus_statusOf: "(\<And>s. rst_Conditions (f s) = rst_Conditions s) \<Longrightarrow> statusOf (UpdateStatus m f) t = statusOf m t"
  by (simp add: statusOf_def UpdateStatus_def GetCondition_def)

lemma conditionIn_removeOther: "t \<noteq> t' \<Longrightarrow> conditionIn (removeFirst t cs) t' = conditionIn cs t'"
  by (induction cs) (auto simp: conditionIn_def)

lemma statusOf_removeOther: "t \<noteq> t' \<Longrightarrow> statusOf (RemoveCondition m t) t' = statusOf m t'"
  by (simp add: statusOf_def RemoveCondition_def UpdateStatus_def GetCondition_def conditionIn_removeOther)

lemma manager_fixed [simp]:
  "m_risingwave (UpdateCondition now m c) = m_risingwave m" "m_openkruiseAvailable (UpdateCondition now m c) = m_openkruiseAvailable m"
  "m_risingwave (RemoveCondition m t) = m_risingwave m" "m_openkruiseAvailable (RemoveCondition m t) = m_openkruiseAvailable m"
  "m_risingwave (SyncObservedGeneration m) = m_risingwave m" "m_openkruiseAvailable (SyncObservedGeneration m) = m_openkruiseAvailable m"
  "m_risingwave (KeepLock m ls) = m_risingwave m" "m_openkruiseAvailable (KeepLock m ls) = m_openkruiseAvailable m"
  by (simp_all add: UpdateCondition_def RemoveCondition_def SyncObservedGeneration_def KeepLock_def)

lemma KeepLock_statusOf [simp]: "statusOf (KeepLock m ls) t = statusOf m t"
  by (simp add: KeepLock_def UpdateStatus_statusOf)

lemmas condition_types = RisingWaveConditionRunning_def RisingWaveConditionInitializing_def RisingWaveConditionUpgrading_def
  ConditionTrue_def ConditionFalse_def

lemma manager_ops:
  "managerKeeps firstTimeObservedBarrier \<and> managerModest firstTimeObservedBarrier"
  "managerKeeps (markCondition now t st)" "t \<noteq> RisingWaveConditionRunning \<or> st \<noteq> ConditionTrue \<Longrightarrow> managerModest (markCondition now t st)"
  "managerKeeps (conditionBarrier t st) \<and> managerModest (conditionBarrier t st)"
  "managerKeeps removeConditionInitializing \<and> managerModest removeConditionInitializing"
  "managerKeeps observedGenerationOutdatedBarrier \<and> managerModest observedGenerationOutdatedBarrier"
  "managerKeeps syncObservedGeneration \<and> managerModest syncObservedGeneration"
  "managerKeeps syncInternalStatus \<and> managerModest syncInternalStatus"
  "managerKeeps (releaseScaleViewLock get) \<and> managerModest (releaseScaleViewLock get)"
  "managerKeeps (\<lambda>m. (r m, m)) \<and> managerModest (\<lambda>m. (r m, m))"
  by (auto simp: managerKeeps_def managerModest_def firstTimeObservedBarrier_def markCondition_def newCondition_def conditionBarrier_def
      removeConditionInitializing_def observedGenerationOutdatedBarrier_def syncObservedGeneration_def syncInternalStatus_def
      releaseScaleViewLock_def statusOf_removeOther condition_types Let_def UpdateStatus_statusOf split: sum.splits)

lemma reportBroken_frame:
  "fixedParts (reportBroken now (withStatus impl reps) checks) = fixedParts impl"
  "im_objectFactory (reportBroken now (withStatus impl reps) checks) = im_objectFactory impl"
  "saysRunning (reportBroken now (withStatus impl reps) checks) \<Longrightarrow> saysRunning impl"
proof -
  have s: "statusOf (im_risingwaveManager (withStatus impl reps)) t = statusOf (im_risingwaveManager impl) t" for t
    by (simp add: withStatus_def reportStatus_def UpdateStatus_statusOf)
  show "fixedParts (reportBroken now (withStatus impl reps) checks) = fixedParts impl"
    "im_objectFactory (reportBroken now (withStatus impl reps) checks) = im_objectFactory impl"
    by (simp_all add: reportBroken_def withStatus_def fixedParts_def Let_def)
  show "saysRunning impl" if "saysRunning (reportBroken now (withStatus impl reps) checks)"
    using that by (auto simp: reportBroken_def s Let_def newCondition_def condition_types split: if_splits)
qed

lemmas collect_action_defs = CollectRunningStatisticsAndSyncStatus_action_def CollectOpenKruiseRunningStatisticsAndSyncStatus_action_def
  CollectRunningStatisticsAndSyncStatusForStandalone_action_def CollectOpenKruiseRunningStatisticsAndSyncStatusForStandalone_action_def
  CollectRunningStatisticsAndSyncStatus_def CollectOpenKruiseRunningStatisticsAndSyncStatus_def
  CollectRunningStatisticsAndSyncStatusForStandalone_def CollectOpenKruiseRunningStatisticsAndSyncStatusForStandalone_def

abbreviation collectActions :: "managerAction set" where
  "collectActions \<equiv> {CollectRunningStatisticsAndSyncStatus_action, CollectOpenKruiseRunningStatisticsAndSyncStatus_action,
     CollectRunningStatisticsAndSyncStatusForStandalone_action, CollectOpenKruiseRunningStatisticsAndSyncStatusForStandalone_action}"

lemma collect_frame:
  assumes "a \<in> collectActions"
  shows "keepsFixed a" "silent a" "neverRunning a"
  using assms unfolding keepsFixed_def silent_def neverRunning_def
  by (auto simp: collect_action_defs action_Returns reportBroken_frame(1,2) Let_def dest!: reportBroken_frame(3))

lemmas mark_defs = markConditionInitializingAsTrue_def markConditionRunningAsFalse_def markConditionRunningAsTrue_def
  markConditionUpgradingAsTrue_def markConditionUpgradingAsFalse_def conditionInitializingIsTrueBarrier_def
  conditionRunningIsTrueBarrier_def conditionRunningIsFalseBarrier_def conditionUpgradingIsTrueBarrier_def

lemma status_frame: "\<forall>(n, a) \<in> set (statusActions c). keepsFixed a \<and> silent a \<and> neverRunning a"
  unfolding statusActions_def by (simp add: collect_frame mark_defs onManager_frame manager_ops condition_types)

section \<open>Steps of a run\<close>

lemma step_Returns:
  "step c a w = Returns (r, w') \<longleftrightarrow> (\<exists>x. a (envOf c w) (managerOf c w) = Returns x \<and> r = ran_Res x \<and>
     w' = w\<lparr>run_Step := Suc (run_Step w), run_Objects := foldl (rc_effect c (run_Step w)) (run_Objects w) (ran_Requests x), run_Impl := ran_Impl x,
             run_Events := run_Events w @ concat (map (hookEvents (ran_Impl x)) (ran_Hooks x))\<rparr>)"
  by (auto simp: step_def split: outcome.splits)

definition stateOf :: "RisingWaveController \<Rightarrow> Run \<Rightarrow> RisingWaveControllerManagerState" where
  "stateOf c w = NewRisingWaveControllerManagerState (rc_reader c (run_Objects w)) (runTarget w)"

lemma managerOf_simps [simp]: "cm_impl (managerOf c w) = run_Impl w" "cm_state (managerOf c w) = stateOf c w" "cm_hook (managerOf c w)"
  by (simp_all add: managerOf_def stateOf_def NewRisingWaveControllerManager_def RisingWaveControllerManager_WithActionHook_def)

lemma envOf_owned [simp]: "ae_owned (envOf c w) = rc_owned c"
  by (simp add: envOf_def)

text \<open>The tables hold every action but three.\<close>

lemma actionOf_cases:
  assumes "actionOf c n w = Returns (r, w')"
  obtains (update) "n = ''UpdateRisingWaveStatusViaClient''" "UpdateRisingWaveStatusViaClient c w = Returns (r, w')"
  | (mark) "n = markRunning" "step c (onManager markRunning (markConditionRunningAsTrue (rc_now c))) w = Returns (r, w')"
  | (monitor) "n = ''SyncServiceMonitor''" "step c SyncServiceMonitor_action w = Returns (r, w')"
  | (wait) a where "(n, a) \<in> set waitActions" "step c a w = Returns (r, w')"
  | (sync) a where "(n, a) \<in> set syncActions" "step c a w = Returns (r, w')"
  | (status) a where "(n, a) \<in> set (statusActions c)" "step c a w = Returns (r, w')"
  using assms unfolding actionOf_def by (auto split: if_splits option.splits dest!: map_of_SomeD)

lemma mark_frame: "keepsFixed (onManager markRunning (markConditionRunningAsTrue now))" "silent (onManager markRunning (markConditionRunningAsTrue now))"
  by (simp_all add: onManager_frame manager_ops markConditionRunningAsTrue_def)

definition sameFixed :: "Run \<Rightarrow> Run \<Rightarrow> bool" where
  "sameFixed w w' \<longleftrightarrow> fixedParts (run_Impl w') = fixedParts (run_Impl w) \<and> im_objectFactory (run_Impl w') = im_objectFactory (run_Impl w)"

lemma step_fixed: "keepsFixed a \<Longrightarrow> step c a w = Returns (r, w') \<Longrightarrow> sameFixed w w'"
  by (auto simp: step_Returns keepsFixed_def sameFixed_def)

lemma step_silent: "silent a \<Longrightarrow> step c a w = Returns (r, w') \<Longrightarrow> run_Objects w' = run_Objects w"
  by (auto simp: step_Returns silent_def)

lemma step_running: "neverRunning a \<Longrightarrow> step c a w = Returns (r, w') \<Longrightarrow> saysRunning (run_Impl w') \<Longrightarrow> saysRunning (run_Impl w)"
proof -
  assume a: "neverRunning a" "step c a w = Returns (r, w')" "saysRunning (run_Impl w')"
  from a(2) obtain x where "a (envOf c w) (managerOf c w) = Returns x" "run_Impl w' = ran_Impl x" by (auto simp: step_Returns)
  then show "saysRunning (run_Impl w)" using a(1,3) unfolding neverRunning_def by fastforce
qed

lemma step_reported: "step c a w = Returns (r, w') \<Longrightarrow> run_Reported w' = run_Reported w"
  by (auto simp: step_Returns)

lemma update_run:
  assumes "UpdateRisingWaveStatusViaClient c w = Returns (r, w')"
  shows "run_Impl w' = run_Impl w" "run_Objects w' = run_Objects w"
    "run_Reported w' = run_Reported w @ (if rw_Status (m_mutableRisingWave (runManager w)) = rw_Status (runTarget w) then []
       else [m_mutableRisingWave (runManager w)])"
  using assms unfolding UpdateRisingWaveStatusViaClient_def step_Returns by (auto simp: onManager_Returns)

text \<open>Every action keeps the observed RisingWave and the factory.\<close>

lemma action_fixed:
  assumes "actionOf c n w = Returns (r, w')"
  shows "sameFixed w w'"
  using assms
proof (cases rule: actionOf_cases)
  case update
  then show ?thesis using update_run(1) by (simp add: sameFixed_def)
next
  case mark
  then show ?thesis using step_fixed mark_frame(1) by blast
next
  case monitor
  then show ?thesis using step_fixed plain_frame monitor_plain by blast
next
  case (wait a)
  then show ?thesis using step_fixed plain_frame wait_plain by blast
next
  case (sync a)
  then show ?thesis using step_fixed plain_frame sync_plain by blast
next
  case (status a)
  then show ?thesis using step_fixed status_frame by blast
qed

text \<open>Only one action turns Running to true.\<close>

lemma action_running:
  assumes "actionOf c n w = Returns (r, w')" "n \<noteq> markRunning" "saysRunning (run_Impl w')"
  shows "saysRunning (run_Impl w)"
  using assms(1)
proof (cases rule: actionOf_cases)
  case update
  then show ?thesis using update_run(1) assms(3) by simp
next
  case mark
  then show ?thesis using assms(2) by simp
next
  case monitor
  then show ?thesis using step_running plain_frame monitor_plain assms(3) by blast
next
  case (wait a)
  then show ?thesis using step_running plain_frame wait_plain assms(3) by blast
next
  case (sync a)
  then show ?thesis using step_running plain_frame sync_plain assms(3) by blast
next
  case (status a)
  then show ?thesis using step_running status_frame assms(3) by blast
qed

lemma action_reported: "actionOf c n w = Returns (r, w') \<Longrightarrow> n \<noteq> ''UpdateRisingWaveStatusViaClient'' \<Longrightarrow> run_Reported w' = run_Reported w"
  by (erule actionOf_cases) (auto dest: step_reported)

section \<open>The objects of the cluster\<close>

definition ofKind :: "string \<Rightarrow> K8sObject list \<Rightarrow> K8sObject list" where
  "ofKind kind os = filter (\<lambda>x. ko_Kind x = kind) os"

fun requestObject :: "Request \<Rightarrow> K8sObject" where
  "requestObject (CreateReq x) = x"
| "requestObject (UpdateReq x) = x"
| "requestObject (DeleteReq x) = x"

text \<open>The API server: a request changes objects of its kind only, and what is read of a kind depends on its objects only.\<close>

definition serverLaws :: "RisingWaveController \<Rightarrow> bool" where
  "serverLaws c \<longleftrightarrow>
     (\<forall>n os q kind. kind \<noteq> ko_Kind (requestObject q) \<longrightarrow> ofKind kind (rc_effect c n os q) = ofKind kind os)
     \<and> (\<forall>os os' kind. ofKind kind os = ofKind kind os' \<longrightarrow>
          rd_Get (rc_reader c os) kind = rd_Get (rc_reader c os') kind \<and> rd_List (rc_reader c os) kind = rd_List (rc_reader c os') kind)"

lemma syncObject_kinds:
  assumes "syncObject gvk api mgr obj built = Returns (e, qs)"
  shows "\<forall>q \<in> set qs. ko_Kind (requestObject q) = ko_Kind built"
  using assms unfolding syncObject_def
  by (auto simp: ensureTheSameObject_def Let_def simp del: isObjectSynced.simps split: option.splits outcome.splits if_splits)

lemma serve_others:
  assumes "serverLaws c" "\<forall>q \<in> set qs. ko_Kind (requestObject q) \<noteq> kind"
  shows "ofKind kind (foldl (rc_effect c n) os qs) = ofKind kind os"
  using assms(2)
proof (induction qs arbitrary: os)
  case (Cons q qs)
  then have "kind \<noteq> ko_Kind (requestObject q)" by auto
  then have "ofKind kind (rc_effect c n os q) = ofKind kind os" using assms(1) unfolding serverLaws_def by blast
  then show ?case using Cons by simp
qed simp

definition monitorKind :: "Run \<Rightarrow> bool" where
  "monitorKind w \<longleftrightarrow> ko_Kind (of_NewServiceMonitor (im_objectFactory (run_Impl w))) = ''ServiceMonitor''"

text \<open>Nothing that the waits look at has changed.\<close>

definition quiet :: "Run \<Rightarrow> Run \<Rightarrow> bool" where
  "quiet w w' \<longleftrightarrow> sameFixed w w' \<and> (\<forall>kind. kind \<noteq> ''ServiceMonitor'' \<longrightarrow> ofKind kind (run_Objects w') = ofKind kind (run_Objects w))"

lemma syncOne_Returns:
  "syncOne msg gvk api mgr obj built = Returns (r, qs) \<longleftrightarrow>
     (\<exists>e. syncObject gvk api mgr obj built = Returns (e, qs) \<and> r = RequeueIfErrorAndWrap msg e)"
  by (cases "syncObject gvk api mgr obj built") (auto simp: syncOne_def)

lemma monitor_requests:
  assumes "SyncServiceMonitor_action env m = Returns x"
  shows "\<forall>q \<in> set (ran_Requests x). ko_Kind (requestObject q) = ko_Kind (of_NewServiceMonitor (im_objectFactory (cm_impl m)))"
proof -
  from assms consider "ran_Requests x = []"
    | obj e where "syncObject (ae_gvk env) (ae_api env) (cm_impl m) obj (of_NewServiceMonitor (im_objectFactory (cm_impl m))) = Returns (e, ran_Requests x)"
    by (auto simp: SyncServiceMonitor_action_def action_Returns SyncServiceMonitor_def syncOne_Returns)
  then show ?thesis by cases (auto dest: syncObject_kinds)
qed

lemma action_quiet:
  assumes "actionOf c n w = Returns (r, w')" "serverLaws c" "n \<notin> fst ` set syncActions" "monitorKind w"
  shows "quiet w w'"
proof -
  have "\<forall>kind. kind \<noteq> ''ServiceMonitor'' \<longrightarrow> ofKind kind (run_Objects w') = ofKind kind (run_Objects w)"
    using assms(1)
  proof (cases rule: actionOf_cases)
    case update
    then show ?thesis using update_run(2) by simp
  next
    case mark
    then show ?thesis using step_silent mark_frame(2) by metis
  next
    case monitor
    then obtain x where "SyncServiceMonitor_action (envOf c w) (managerOf c w) = Returns x"
      and "run_Objects w' = foldl (rc_effect c (run_Step w)) (run_Objects w) (ran_Requests x)" by (auto simp: step_Returns)
    then show ?thesis using monitor_requests [of "envOf c w" "managerOf c w" x] assms(4) serve_others [OF assms(2)]
      by (simp add: monitorKind_def)
  next
    case (wait a)
    then show ?thesis using step_silent wait_plain by (metis (no_types, lifting) case_prodD)
  next
    case (sync a)
    then show ?thesis using assms(3) by force
  next
    case (status a)
    then show ?thesis using step_silent status_frame by (metis (no_types, lifting) case_prodD)
  qed
  then show ?thesis using action_fixed [OF assms(1)] by (simp add: quiet_def)
qed

end
