(* ===== verification/RwReady.thy ===== *)
theory RwReady
  imports RwFrame
begin

text \<open>
  What the runs of the RisingWave controller of \<open>RwWorkflow\<close> promise: Running is reported only when all
  components are ready in the cluster, whatever the interleaving of the branches and the answers of the API server.
\<close>

section \<open>Waits\<close>

definition passes :: "RisingWaveController \<Rightarrow> string \<Rightarrow> Run \<Rightarrow> bool" where
  "passes c n w \<longleftrightarrow> (\<exists>w'. actionOf c n w = Returns (Continue, w'))"

text \<open>A wait reads one state and looks at it.\<close>

definition waitOn ::
  "string \<Rightarrow> ('a \<Rightarrow> StateValue) \<Rightarrow> (ownership \<Rightarrow> RisingWaveControllerManagerState \<Rightarrow> 'a fetch)
   \<Rightarrow> (RisingWaveControllerManagerImpl \<Rightarrow> 'a \<Rightarrow> Res outcome) \<Rightarrow> string \<Rightarrow> managerAction" where
  "waitOn name val get check st env m = fetching m (get (ae_owned env) (cm_state m)) (\<lambda>s. invoke m name [(st, val s)] (waits m (check (cm_impl m) s)))"

lemma passes_wait:
  assumes "actionOf c n = step c (waitOn name val get check st)"
  shows "passes c n w \<longleftrightarrow> (\<exists>s. get (rc_owned c) (stateOf c w) = Inr s \<and> check (run_Impl w) s = Returns Continue)"
  unfolding passes_def assms step_Returns waitOn_def by (auto simp: action_Returns)

lemmas wait_table = actionOf_def waitActions_def markRunning_def

lemma passes_lists:
  "passes c ''WaitBeforeMetaStatefulSetsReady'' w \<longleftrightarrow>
     (\<exists>s. GetMetaStatefulSets (rc_owned c) (stateOf c w) = Inr s \<and> WaitBeforeMetaStatefulSetsReady (run_Impl w) s = Returns Continue)"
  "passes c ''WaitBeforeMetaAdvancedStatefulSetsReady'' w \<longleftrightarrow>
     (\<exists>s. GetMetaAdvancedStatefulSets (rc_owned c) (stateOf c w) = Inr s \<and> WaitBeforeMetaAdvancedStatefulSetsReady (run_Impl w) s = Returns Continue)"
  "passes c ''WaitBeforeFrontendDeploymentsReady'' w \<longleftrightarrow>
     (\<exists>s. GetFrontendDeployments (rc_owned c) (stateOf c w) = Inr s \<and> WaitBeforeFrontendDeploymentsReady (run_Impl w) s = Returns Continue)"
  "passes c ''WaitBeforeFrontendCloneSetsReady'' w \<longleftrightarrow>
     (\<exists>s. GetFrontendCloneSets (rc_owned c) (stateOf c w) = Inr s \<and> WaitBeforeFrontendCloneSetsReady (run_Impl w) s = Returns Continue)"
  "passes c ''WaitBeforeComputeStatefulSetsReady'' w \<longleftrightarrow>
     (\<exists>s. GetComputeStatefulSets (rc_owned c) (stateOf c w) = Inr s \<and> WaitBeforeComputeStatefulSetsReady (run_Impl w) s = Returns Continue)"
  "passes c ''WaitBeforeComputeAdvancedStatefulSetsReady'' w \<longleftrightarrow>
     (\<exists>s. GetComputeAdvancedStatefulSets (rc_owned c) (stateOf c w) = Inr s \<and> WaitBeforeComputeAdvancedStatefulSetsReady (run_Impl w) s = Returns Continue)"
  "passes c ''WaitBeforeCompactorDeploymentsReady'' w \<longleftrightarrow>
     (\<exists>s. GetCompactorDeployments (rc_owned c) (stateOf c w) = Inr s \<and> WaitBeforeCompactorDeploymentsReady (run_Impl w) s = Returns Continue)"
  "passes c ''WaitBeforeCompactorCloneSetsReady'' w \<longleftrightarrow>
     (\<exists>s. GetCompactorCloneSets (rc_owned c) (stateOf c w) = Inr s \<and> WaitBeforeCompactorCloneSetsReady (run_Impl w) s = Returns Continue)"
  by (rule passes_wait, rule ext, simp add: wait_table step_def waitOn_def wait_action_defs)+

lemma passes_objects:
  "passes c ''WaitBeforeMetaServiceIsAvailable'' w \<longleftrightarrow>
     (\<exists>s. GetMetaService (rc_owned c) (stateOf c w) = Inr s \<and> WaitBeforeMetaServiceIsAvailable (run_Impl w) s = Continue)"
  "passes c ''WaitBeforeStandaloneStatefulSetReady'' w \<longleftrightarrow>
     (\<exists>s. GetStandaloneStatefulSet (rc_owned c) (stateOf c w) = Inr s \<and> WaitBeforeStandaloneStatefulSetReady (run_Impl w) s = Continue)"
  "passes c ''WaitBeforeStandaloneAdvancedStatefulSetReady'' w \<longleftrightarrow>
     (\<exists>s. GetStandaloneAdvancedStatefulSet (rc_owned c) (stateOf c w) = Inr s \<and> WaitBeforeStandaloneAdvancedStatefulSetReady (run_Impl w) s = Continue)"
proof -
  show "passes c ''WaitBeforeMetaServiceIsAvailable'' w \<longleftrightarrow> (\<exists>s. GetMetaService (rc_owned c) (stateOf c w) = Inr s \<and> WaitBeforeMetaServiceIsAvailable (run_Impl w) s = Continue)"
    using passes_wait [of c "''WaitBeforeMetaServiceIsAvailable''" "''WaitBeforeMetaServiceIsAvailable''" OneState GetMetaService "\<lambda>impl s. Returns (WaitBeforeMetaServiceIsAvailable impl s)" "''metaService''"]
    by (simp add: wait_table step_def waitOn_def wait_action_defs fun_eq_iff)
  show "passes c ''WaitBeforeStandaloneStatefulSetReady'' w \<longleftrightarrow> (\<exists>s. GetStandaloneStatefulSet (rc_owned c) (stateOf c w) = Inr s \<and> WaitBeforeStandaloneStatefulSetReady (run_Impl w) s = Continue)"
    using passes_wait [of c "''WaitBeforeStandaloneStatefulSetReady''" "''WaitBeforeStandaloneStatefulSetReady''" OneState GetStandaloneStatefulSet "\<lambda>impl s. Returns (WaitBeforeStandaloneStatefulSetReady impl s)" "''standaloneStatefulSet''"]
    by (simp add: wait_table step_def waitOn_def wait_action_defs fun_eq_iff)
  show "passes c ''WaitBeforeStandaloneAdvancedStatefulSetReady'' w \<longleftrightarrow> (\<exists>s. GetStandaloneAdvancedStatefulSet (rc_owned c) (stateOf c w) = Inr s \<and> WaitBeforeStandaloneAdvancedStatefulSetReady (run_Impl w) s = Continue)"
    using passes_wait [of c "''WaitBeforeStandaloneAdvancedStatefulSetReady''" "''WaitBeforeStandaloneAdvancedStatefulSetReady''" OneState GetStandaloneAdvancedStatefulSet "\<lambda>impl s. Returns (WaitBeforeStandaloneAdvancedStatefulSetReady impl s)" "''standaloneAdvancedStatefulSet''"]
    by (simp add: wait_table step_def waitOn_def wait_action_defs fun_eq_iff)
qed

text \<open>What the waits depend on.\<close>

lemma state_quiet:
  assumes "serverLaws c" "quiet w w'"
  shows "st_target (stateOf c w') = st_target (stateOf c w)"
    "kind \<noteq> ''ServiceMonitor'' \<Longrightarrow> listOwned owned (stateOf c w') st kind cmp = listOwned owned (stateOf c w) st kind cmp"
    "kind \<noteq> ''ServiceMonitor'' \<Longrightarrow> getOwned owned (stateOf c w') st kind nm = getOwned owned (stateOf c w) st kind nm"
proof -
  show t: "st_target (stateOf c w') = st_target (stateOf c w)"
    using assms(2) by (simp add: stateOf_def NewRisingWaveControllerManagerState_def quiet_def sameFixed_def fixedParts_def)
  have "rd_Get (st_Reader (stateOf c w')) kind = rd_Get (st_Reader (stateOf c w)) kind
      \<and> rd_List (st_Reader (stateOf c w')) kind = rd_List (st_Reader (stateOf c w)) kind" if "kind \<noteq> ''ServiceMonitor''"
  proof -
    have "ofKind kind (run_Objects w') = ofKind kind (run_Objects w)" using assms(2) that unfolding quiet_def by blast
    then have "rd_Get (rc_reader c (run_Objects w')) kind = rd_Get (rc_reader c (run_Objects w)) kind
        \<and> rd_List (rc_reader c (run_Objects w')) kind = rd_List (rc_reader c (run_Objects w)) kind"
      using assms(1) unfolding serverLaws_def by blast
    then show ?thesis by (simp add: stateOf_def NewRisingWaveControllerManagerState_def)
  qed
  note r = this [THEN conjunct1] this [THEN conjunct2]
  show "listOwned owned (stateOf c w') st kind cmp = listOwned owned (stateOf c w) st kind cmp" if "kind \<noteq> ''ServiceMonitor''"
    unfolding listOwned_def t r(2) [OF that] by (rule refl)
  show "getOwned owned (stateOf c w') st kind nm = getOwned owned (stateOf c w) st kind nm" if "kind \<noteq> ''ServiceMonitor''"
    unfolding getOwned_def t r(1) [OF that] by (rule refl)
qed

lemmas wait_defs = WaitBeforeMetaServiceIsAvailable_def WaitBeforeMetaStatefulSetsReady_def WaitBeforeMetaAdvancedStatefulSetsReady_def
  WaitBeforeFrontendDeploymentsReady_def WaitBeforeFrontendCloneSetsReady_def WaitBeforeComputeStatefulSetsReady_def
  WaitBeforeComputeAdvancedStatefulSetsReady_def WaitBeforeCompactorDeploymentsReady_def WaitBeforeCompactorCloneSetsReady_def
  WaitBeforeStandaloneStatefulSetReady_def WaitBeforeStandaloneAdvancedStatefulSetReady_def

lemma synced_fixed: "fixedParts impl = fixedParts impl' \<Longrightarrow> isObjectSynced impl x = isObjectSynced impl' x"
  by (cases x) (simp_all add: fixedParts_def)

lemma modes_fixed:
  assumes "fixedParts impl = fixedParts impl'"
  shows "kruise impl = kruise impl'" "standalone impl = standalone impl'"
    "waitGroups impl cmp b ws rolledOut = waitGroups impl' cmp b ws rolledOut"
proof -
  have f: "imRisingWave impl = imRisingWave impl'"
    "m_openkruiseAvailable (im_risingwaveManager impl) = m_openkruiseAvailable (im_risingwaveManager impl')"
    using assms by (simp_all add: fixedParts_def)
  show "kruise impl = kruise impl'" "standalone impl = standalone impl'"
    by (simp_all add: f IsOpenKruiseEnabled_def IsOpenKruiseAvailable_def)
  show "waitGroups impl cmp b ws rolledOut = waitGroups impl' cmp b ws rolledOut"
    unfolding waitGroups_def buildExpectedGroupSet_def f synced_fixed [OF assms] by (rule refl)
qed

lemma waits_fixed:
  assumes "fixedParts impl = fixedParts impl'"
  shows "WaitBeforeMetaServiceIsAvailable impl = WaitBeforeMetaServiceIsAvailable impl'"
    "WaitBeforeMetaStatefulSetsReady impl = WaitBeforeMetaStatefulSetsReady impl'"
    "WaitBeforeMetaAdvancedStatefulSetsReady impl = WaitBeforeMetaAdvancedStatefulSetsReady impl'"
    "WaitBeforeFrontendDeploymentsReady impl = WaitBeforeFrontendDeploymentsReady impl'"
    "WaitBeforeFrontendCloneSetsReady impl = WaitBeforeFrontendCloneSetsReady impl'"
    "WaitBeforeComputeStatefulSetsReady impl = WaitBeforeComputeStatefulSetsReady impl'"
    "WaitBeforeComputeAdvancedStatefulSetsReady impl = WaitBeforeComputeAdvancedStatefulSetsReady impl'"
    "WaitBeforeCompactorDeploymentsReady impl = WaitBeforeCompactorDeploymentsReady impl'"
    "WaitBeforeCompactorCloneSetsReady impl = WaitBeforeCompactorCloneSetsReady impl'"
    "WaitBeforeStandaloneStatefulSetReady impl = WaitBeforeStandaloneStatefulSetReady impl'"
    "WaitBeforeStandaloneAdvancedStatefulSetReady impl = WaitBeforeStandaloneAdvancedStatefulSetReady impl'"
  by (rule ext, simp only: wait_defs modes_fixed [OF assms] synced_fixed [OF assms])+

lemma passes_quiet:
  assumes "n \<in> fst ` set waitActions" "serverLaws c" "quiet w w'" "passes c n w"
  shows "passes c n w'"
proof -
  have f: "fixedParts (run_Impl w) = fixedParts (run_Impl w')" using assms(3) by (simp add: quiet_def sameFixed_def)
  note eqs = state_quiet [OF assms(2,3)] waits_fixed [OF f]
  show ?thesis using assms(1,4)
    by (auto simp: waitActions_def passes_lists passes_objects list_getters object_getters eqs)
qed

section \<open>The order of the actions\<close>

definition isWait :: "Event \<Rightarrow> bool" where
  "isWait e \<longleftrightarrow> (\<exists>a \<in> fst ` set waitActions. a \<in> ranOf e)"

definition isSync :: "Event \<Rightarrow> bool" where
  "isSync e \<longleftrightarrow> (\<exists>a \<in> fst ` set syncActions. a \<in> ranOf e)"

definition marks :: "Event \<Rightarrow> bool" where
  "marks e \<longleftrightarrow> markRunning \<in> ranOf e"

lemma event_simps [simp]:
  "isWait (Ran a r) \<longleftrightarrow> a \<in> fst ` set waitActions" "\<not> isWait (SharedRan r)" "\<not> isWait (SharedUsed r)"
  "isSync (Ran a r) \<longleftrightarrow> a \<in> fst ` set syncActions" "\<not> isSync (SharedRan r)" "\<not> isSync (SharedUsed r)"
  "marks (Ran a r) \<longleftrightarrow> a = markRunning" "\<not> marks (SharedRan r)" "\<not> marks (SharedUsed r)"
  by (auto simp: isWait_def isSync_def marks_def)

abbreviation sharedContinue :: "Event \<Rightarrow> bool" where
  "sharedContinue e \<equiv> e = SharedRan Continue \<or> e = SharedUsed Continue"

text \<open>The shared part: no sync after a wait, all waits passed when it continues, and it never marks.\<close>

lemma seq_waits_last:
  assumes "runs_seq (x # xs) t r" "actions x \<inter> fst ` set waitActions = {}" "\<And>u r. runs_seq xs u r \<Longrightarrow> never_after isWait isSync u"
  shows "never_after isWait isSync t"
proof -
  have no: "\<forall>e \<in> set u. \<not> isWait e" if "runs x u r'" for u r'
    using runs_actions(1) [OF that] assms(2) unfolding isWait_def by blast
  from assms(1) consider "runs x t r" | u v where "t = u @ v" "runs x u Continue" "runs_seq xs v r"
    by (rule runs_seq_ConsE)
  then show ?thesis
  proof cases
    case 1
    then show ?thesis using no by (blast intro: never_after_none)
  next
    case 2
    then show ?thesis using no assms(3) by (auto simp: never_after_append intro!: never_after_none)
  qed
qed

lemma never_after_noQ: "\<forall>e \<in> set t. \<not> Q e \<Longrightarrow> never_after P Q t"
  by (induction t) auto

lemma names_apart:
  "actions (syncAllComponents kr) \<inter> fst ` set waitActions = {}" "actions (allComponentsReadyBarrier kr) \<inter> fst ` set syncActions = {}"
  "actions (allComponentsReadyBarrier kr) \<subseteq> fst ` set waitActions" "markRunning \<notin> actions (syncAllAndWait kr)"
  by (simp_all add: component_workflows syncAllAndWait_def waitActions_def syncActions_def markRunning_def)

lemma shared_part:
  assumes "runs (syncAllAndWait kr) t r"
  shows "never_after isWait isSync t" "\<forall>e \<in> set t. \<not> marks e" "\<forall>e \<in> set t. \<exists>a r. e = Ran a r"
    "r = Continue \<Longrightarrow> \<forall>a \<in> actions (allComponentsReadyBarrier kr). Ran a Continue \<in> set t"
proof -
  have u: "unshared (syncAllAndWait kr)"
    by (simp add: syncAllAndWait_def component_workflows)
  show "\<forall>e \<in> set t. \<exists>a r. e = Ran a r" by (rule unshared_events(1) [OF assms u])
  show "\<forall>a \<in> actions (allComponentsReadyBarrier kr). Ran a Continue \<in> set t" if "r = Continue"
    using runs_continue(1) [OF assms that u] by (simp add: syncAllAndWait_def)
  show "\<forall>e \<in> set t. \<not> marks e" using runs_actions(1) [OF assms] names_apart(4) by (fastforce simp: marks_def)
  have "never_after isWait isSync v" if "runs_seq [allComponentsReadyBarrier kr] v r'" for v r'
    using runs_actions(2) [OF that] names_apart(2) by (intro never_after_noQ) (fastforce simp: isSync_def)
  then have "never_after isWait isSync v" if "runs_seq [syncAllComponents kr, allComponentsReadyBarrier kr] v r'" for v r'
    using that names_apart(1) by (rule_tac seq_waits_last)
  then have "never_after isWait isSync v"
    if "runs_seq [Action ''SyncConfigConfigMap'', syncAllComponents kr, allComponentsReadyBarrier kr] v r'" for v r'
    using that by (rule_tac seq_waits_last) (auto simp: waitActions_def)
  moreover have "runs_seq [Action ''SyncObservedGeneration'', Action ''SyncConfigConfigMap'', syncAllComponents kr, allComponentsReadyBarrier kr] t r"
    using assms unfolding syncAllAndWait_def by (auto elim: runs_SequentialE)
  ultimately show "never_after isWait isSync t" by (rule_tac seq_waits_last) (auto simp: waitActions_def)
qed

text \<open>The branches of the workflow.\<close>

definition goodBranch :: "bool \<Rightarrow> Workflow \<Rightarrow> bool" where
  "goodBranch kr x \<longleftrightarrow> (\<forall>t r. runs x t r \<longrightarrow> ordered isWait isSync t \<and> before sharedContinue marks t
     \<and> (\<forall>a \<in> actions (allComponentsReadyBarrier kr). before (\<lambda>e. e = Ran a Continue) (\<lambda>e. e = SharedRan Continue) t))"

definition otherName :: "string \<Rightarrow> bool" where
  "otherName a \<longleftrightarrow> a \<notin> fst ` set waitActions \<and> a \<notin> fst ` set syncActions"

lemma goodBranch_other:
  assumes "unshared x" "\<forall>a \<in> actions x. otherName a \<and> a \<noteq> markRunning"
  shows "goodBranch kr x"
  unfolding goodBranch_def
proof (intro allI impI conjI ballI)
  fix t r
  assume r: "runs x t r"
  have e: "\<forall>e \<in> set t. \<not> isWait e \<and> \<not> isSync e \<and> \<not> marks e"
    using runs_actions(1) [OF r] assms(2) unfolding isWait_def isSync_def marks_def otherName_def by blast
  then show "ordered isWait isSync t" by (simp add: ordered_def never_after_none)
  show "before sharedContinue marks t" using e by (simp add: before_none)
  have "SharedRan Continue \<notin> set t" using unshared_events(1) [OF r assms(1)] by auto
  then show "before (\<lambda>e. e = Ran a Continue) (\<lambda>e. e = SharedRan Continue) t" for a by (auto intro: before_none)
qed

lemma shared_branch:
  assumes "runs (Sequential [Action b, Shared x, Action d]) t r"
  obtains (stopped) "t = [Ran b r]"
  | (went) tx r' rest where "runs (Shared x) tx r'" "t = Ran b Continue # tx @ rest" "rest = [] \<or> r' = Continue \<and> rest = [Ran d r]"
  using assms by (fastforce elim!: runs_SequentialE runs_seq_ConsE runs_seq_NilE runs_ActionE)

lemma goodBranch_shared:
  assumes "otherName b" "otherName d" "b \<noteq> markRunning"
  shows "goodBranch kr (Sequential [Action b, Shared (syncAllAndWait kr), Action d])"
  unfolding goodBranch_def
proof (intro allI impI)
  fix t r
  assume "runs (Sequential [Action b, Shared (syncAllAndWait kr), Action d]) t r"
  then show "ordered isWait isSync t \<and> before sharedContinue marks t
     \<and> (\<forall>a \<in> actions (allComponentsReadyBarrier kr). before (\<lambda>e. e = Ran a Continue) (\<lambda>e. e = SharedRan Continue) t)"
  proof (cases rule: shared_branch)
    case stopped
    then show ?thesis using assms by (auto simp: ordered_def otherName_def)
  next
    case (went tx r' rest)
    have rest: "\<forall>e \<in> set rest. \<not> isWait e \<and> \<not> isSync e \<and> \<not> isSharedRan e" using went(3) assms by (auto simp: otherName_def)
    from went(1) consider u where "tx = u @ [SharedRan r']" "runs (syncAllAndWait kr) u r'" | "tx = [SharedUsed r']"
      by (rule runs_SharedE)
    then show ?thesis
    proof cases
      case 1
      note u = shared_part [OF 1(2)]
      have "ordered isWait isSync t"
        using u(1) rest assms by (auto simp: went(2) 1(1) ordered_def never_after_append otherName_def intro: never_after_noQ)
      moreover have "before sharedContinue marks t"
        using before_hit [of "Ran b Continue # u" marks "SharedRan r'" sharedContinue rest] u(2) went(3) assms(3) by (auto simp: went(2) 1(1))
      moreover have "before (\<lambda>e. e = Ran a Continue) (\<lambda>e. e = SharedRan Continue) t" if a: "a \<in> actions (allComponentsReadyBarrier kr)" for a
      proof -
        have "SharedRan Continue \<notin> set u" "SharedRan Continue \<notin> set rest" using u(3) rest by auto
        then have "before (\<lambda>e. e = Ran a Continue) (\<lambda>e. e = SharedRan Continue) (Ran b Continue # u)"
          "r' \<noteq> Continue \<Longrightarrow> before (\<lambda>e. e = Ran a Continue) (\<lambda>e. e = SharedRan Continue) (SharedRan r' # rest)"
          by (auto intro!: before_none)
        then have "before (\<lambda>e. e = Ran a Continue) (\<lambda>e. e = SharedRan Continue) ((Ran b Continue # u) @ SharedRan r' # rest)"
          using u(4) a by (intro before_append) auto
        then show ?thesis by (simp add: went(2) 1(1))
      qed
      ultimately show ?thesis by blast
    next
      case 2
      then show ?thesis using rest went assms
        by (auto simp: ordered_def otherName_def intro!: before_none never_after_none)
    qed
  qed
qed

lemma branches_good:
  "\<forall>x \<in> set [Action ''SyncInternalStatus'',
      Sequential [Action ''BarrierFirstTimeObserved'', Action ''MarkConditionInitializingAsTrue'', Action ''MarkConditionRunningAsFalse''],
      Sequential [Action ''BarrierConditionInitializingIsTrue'', Shared (syncAllAndWait kr), Action ''RemoveConditionInitializing''],
      Sequential [Action ''BarrierConditionRunningIsFalse'', Shared (syncAllAndWait kr), Action markRunning],
      Sequential [Action ''BarrierConditionRunningIsTrue'', Action ''BarrierObservedGenerationOutdated'', Action ''MarkConditionUpgradingAsTrue''],
      Sequential [Action ''BarrierConditionUpgradingIsTrue'', Shared (syncAllAndWait kr), Action ''MarkConditionUpgradingAsFalse''],
      syncRunningStatus m, syncServiceMonitorIfPossible m, Action ''ReleaseScaleViewLock'']. goodBranch kr x"
proof -
  note names = otherName_def waitActions_def syncActions_def markRunning_def
  show ?thesis
    by (simp add: goodBranch_other goodBranch_shared names syncRunningStatus_def syncServiceMonitorIfPossible_def)
qed

lemma workflow_order:
  assumes "runs (reactiveWorkflow kr m) t r" "shared_ok None t"
  shows "never_after isWait isSync t" "a \<in> actions (allComponentsReadyBarrier kr) \<Longrightarrow> before (\<lambda>e. e = Ran a Continue) marks t"
proof -
  obtain xs rs where xs: "runs_par xs t rs" "\<forall>x \<in> set xs. goodBranch kr x"
    using assms(1) branches_good [of kr m] unfolding reactiveWorkflow_def by (auto elim!: runs_ParallelJoinE)
  have "length (filter isSharedRan t) \<le> 1" using shared_once [OF assms(2)] by simp
  then have "ordered isWait isSync t" using xs(2) unfolding goodBranch_def by (intro ordered_par [OF xs(1)]) auto
  then show "never_after isWait isSync t" by (simp add: ordered_def)
  show "before (\<lambda>e. e = Ran a Continue) marks t" if a: "a \<in> actions (allComponentsReadyBarrier kr)"
  proof -
    have ran: "before (\<lambda>e. e = Ran a Continue) (\<lambda>e. e = SharedRan Continue) t"
      using xs(2) a unfolding goodBranch_def by (intro before_par [OF xs(1)]) auto
    have "before (\<lambda>e. e = Ran a Continue) (\<lambda>e. e = SharedUsed Continue) t"
      by (rule before_trans [OF ran shared_before [OF assms(2)]])
    then have "before (\<lambda>e. e = Ran a Continue) sharedContinue t" by (rule before_or [OF ran])
    moreover have "before sharedContinue marks t"
      using xs(2) unfolding goodBranch_def by (intro before_par [OF xs(1)]) auto
    ultimately show ?thesis by (rule before_trans)
  qed
qed

section \<open>Running is reported only when all is ready\<close>

lemma sameFixed_refl: "sameFixed w w"
  by (simp add: sameFixed_def)

lemma sameFixed_trans: "sameFixed u v \<Longrightarrow> sameFixed v w \<Longrightarrow> sameFixed u w"
  by (simp add: sameFixed_def)

lemma sameFixed_monitor: "sameFixed u v \<Longrightarrow> monitorKind u \<longleftrightarrow> monitorKind v"
  by (simp add: sameFixed_def monitorKind_def)

lemma quiet_trans: "quiet u v \<Longrightarrow> quiet v w \<Longrightarrow> quiet u w"
  by (auto simp: quiet_def intro: sameFixed_trans)

lemma quiet_refl: "quiet w w"
  by (simp add: quiet_def sameFixed_refl)

lemma replay_fixed: "replay (actionOf c) w t = Some w' \<Longrightarrow> sameFixed w w'"
  by (rule replay_rel [where R = sameFixed]) (auto intro: sameFixed_refl sameFixed_trans action_fixed)

lemma replay_quiet:
  assumes "replay (actionOf c) w t = Some w'" "serverLaws c" "monitorKind w" "\<forall>e \<in> set t. \<not> isSync e"
  shows "quiet w w'"
proof -
  have "monitorKind w \<longrightarrow> quiet w w'"
  proof (rule replay_rel [OF assms(1), where R = "\<lambda>u v. monitorKind u \<longrightarrow> quiet u v"])
    fix u v x assume "monitorKind u \<longrightarrow> quiet u v" "monitorKind v \<longrightarrow> quiet v x"
    then show "monitorKind u \<longrightarrow> quiet u x" using sameFixed_monitor [of u v] quiet_trans [of u v x] by (auto simp: quiet_def)
  next
    show "\<forall>a r u v. Ran a r \<in> set t \<longrightarrow> actionOf c a u = Returns (r, v) \<longrightarrow> monitorKind u \<longrightarrow> quiet u v"
      using action_quiet [OF _ assms(2)] assms(4) by (metis event_simps(4))
  qed (simp add: quiet_refl)
  then show ?thesis using assms(3) by simp
qed

lemma replay_marks:
  assumes "replay (actionOf c) w t = Some w'" "\<not> saysRunning (run_Impl w)" "saysRunning (run_Impl w')"
  obtains t1 e t2 where "t = t1 @ e # t2" "marks e"
proof -
  have "\<exists>e \<in> set t. marks e"
  proof (rule ccontr)
    assume no: "\<not> (\<exists>e \<in> set t. marks e)"
    have "saysRunning (run_Impl w') \<longrightarrow> saysRunning (run_Impl w)"
    proof (rule replay_rel [OF assms(1), where R = "\<lambda>u v. saysRunning (run_Impl v) \<longrightarrow> saysRunning (run_Impl u)"])
      show "\<forall>a r u v. Ran a r \<in> set t \<longrightarrow> actionOf c a u = Returns (r, v) \<longrightarrow> saysRunning (run_Impl v) \<longrightarrow> saysRunning (run_Impl u)"
        using action_running no by (metis event_simps(7))
    qed auto
    then show False using assms(2,3) by simp
  qed
  then show thesis using that by (meson split_list)
qed

lemma run_passes:
  assumes "runs (reactiveWorkflow kr m) t r" "shared_ok None t" "replay (actionOf c) w0 t = Some w"
    and "serverLaws c" "monitorKind w0" "\<not> saysRunning (run_Impl w0)" "saysRunning (run_Impl w)"
    and a: "a \<in> actions (allComponentsReadyBarrier kr)"
  shows "passes c a w"
proof -
  obtain t1 e t2 where t: "t = t1 @ e # t2" "marks e" by (rule replay_marks [OF assms(3,6,7)])
  have "Ran a Continue \<in> set t1" using before_at [of _ marks t1 e t2] workflow_order(2) [OF assms(1,2) a] t by auto
  then obtain s1 s2 where "t1 = s1 @ Ran a Continue # s2" by (meson split_list)
  then obtain s3 where s: "t = s1 @ Ran a Continue # s3" using t by simp
  obtain w1 where w1: "replay (actionOf c) w0 s1 = Some w1" "replay (actionOf c) w1 (Ran a Continue # s3) = Some w"
    using assms(3) unfolding s replay_append by (auto simp: bind_eq_Some_conv simp del: replay.simps)
  then obtain w2 where w2: "actionOf c a w1 = Returns (Continue, w2)" "replay (actionOf c) w2 s3 = Some w"
    by (auto simp: replay_Ran simp del: replay.simps)
  have wait: "a \<in> fst ` set waitActions" "a \<notin> fst ` set syncActions" using a names_apart(2,3) by blast+
  have "\<forall>e \<in> set s3. \<not> isSync e" using workflow_order(1) [OF assms(1,2)] wait(1) by (simp add: s never_after_append)
  moreover have m1: "monitorKind w1" using sameFixed_monitor [OF replay_fixed [OF w1(1)]] assms(5) by simp
  moreover have "quiet w1 w2" by (rule action_quiet [OF w2(1) assms(4) wait(2) m1])
  moreover from this have "monitorKind w2" using m1 sameFixed_monitor by (auto simp: quiet_def)
  ultimately have "quiet w1 w" using replay_quiet [OF w2(2) assms(4)] quiet_trans by blast
  then show ?thesis using passes_quiet [OF wait(1) assms(4)] w2(1) by (auto simp: passes_def)
qed

definition workloadsReady ::
  "RisingWaveController \<Rightarrow> Run \<Rightarrow> listGetter \<Rightarrow> string \<Rightarrow> bool \<Rightarrow> (K8sObject option \<Rightarrow> bool) \<Rightarrow> bool" where
  "workloadsReady c w get component wanted rolledOut \<longleftrightarrow>
     (\<exists>ws. get (rc_owned c) (stateOf c w) = Inr ws \<and>
        (if wanted then groupOf ` set ws = ng_Name ` set (nodeGroups (runTarget w) component)
           \<and> (\<forall>x \<in> set ws. isObjectSynced (run_Impl w) (Some x) \<and> rolledOut (Some x))
         else ws = []))"

definition objectReady :: "RisingWaveController \<Rightarrow> Run \<Rightarrow> objectGetter \<Rightarrow> bool \<Rightarrow> (K8sObject option \<Rightarrow> bool) \<Rightarrow> bool" where
  "objectReady c w get wanted ok \<longleftrightarrow>
     (\<exists>x. get (rc_owned c) (stateOf c w) = Inr x \<and> (if wanted then isObjectSynced (run_Impl w) x \<and> ok x else x = None))"

text \<open>All components, in the mode in use; nothing is left of the other modes.\<close>

definition allReady :: "RisingWaveController \<Rightarrow> Run \<Rightarrow> bool" where
  "allReady c w \<longleftrightarrow>
     (let k = kruise (run_Impl w); s = standalone (run_Impl w) in
        workloadsReady c w GetMetaStatefulSets ComponentMeta (\<not> k \<and> \<not> s) IsStatefulSetRolledOut
      \<and> workloadsReady c w GetFrontendDeployments ComponentFrontend (\<not> k \<and> \<not> s) IsDeploymentRolledOut
      \<and> workloadsReady c w GetComputeStatefulSets ComponentCompute (\<not> k \<and> \<not> s) IsStatefulSetRolledOut
      \<and> workloadsReady c w GetCompactorDeployments ComponentCompactor (\<not> k \<and> \<not> s) IsDeploymentRolledOut
      \<and> objectReady c w GetMetaService (\<not> s) (\<lambda>_. True)
      \<and> objectReady c w GetStandaloneStatefulSet (s \<and> \<not> k) IsStatefulSetRolledOut
      \<and> (rc_openKruiseAvailable c \<longrightarrow>
          workloadsReady c w GetMetaAdvancedStatefulSets ComponentMeta (k \<and> \<not> s) IsAdvancedStatefulSetRolledOut
        \<and> workloadsReady c w GetFrontendCloneSets ComponentFrontend (k \<and> \<not> s) IsCloneSetRolledOut
        \<and> workloadsReady c w GetComputeAdvancedStatefulSets ComponentCompute (k \<and> \<not> s) IsAdvancedStatefulSetRolledOut
        \<and> workloadsReady c w GetCompactorCloneSets ComponentCompactor (k \<and> \<not> s) IsCloneSetRolledOut
        \<and> objectReady c w GetStandaloneAdvancedStatefulSet (s \<and> k) IsAdvancedStatefulSetRolledOut))"

lemma passes_ready:
  assumes "\<forall>a \<in> actions (allComponentsReadyBarrier (rc_openKruiseAvailable c)). passes c a w"
  shows "allReady c w"
proof -
  have known: "known_component ComponentMeta" "known_component ComponentFrontend" "known_component ComponentCompute"
    "known_component ComponentCompactor" by (simp_all add: known_component_def)
  note wait = wait_defs known [THEN waitGroups_continue]
  have exit: "(if b then Continue else ExitAction) = Continue \<longleftrightarrow> b" "(if b then ExitAction else Continue) = Continue \<longleftrightarrow> \<not> b" for b
    by simp_all
  show ?thesis using assms
    unfolding allReady_def workloadsReady_def objectReady_def Let_def
    by (simp add: component_workflows passes_lists passes_objects wait exit del: isObjectSynced.simps
        IsDeploymentRolledOut.simps IsStatefulSetRolledOut.simps IsCloneSetRolledOut.simps IsAdvancedStatefulSetRolledOut.simps
        split: if_splits)
qed

lemma workflow_reports_last:
  assumes "runs (reactiveWorkflow kr m) t r" "replay (actionOf c) w t = Some w'"
  shows "run_Reported w' = run_Reported w"
proof -
  have "''UpdateRisingWaveStatusViaClient'' \<notin> actions (reactiveWorkflow kr m)"
    by (simp add: reactiveWorkflow_def syncAllAndWait_def component_workflows syncRunningStatus_def
        syncServiceMonitorIfPossible_def markRunning_def)
  then have "\<forall>a r. Ran a r \<in> set t \<longrightarrow> a \<noteq> ''UpdateRisingWaveStatusViaClient''" using runs_actions(1) [OF assms(1)] by fastforce
  then have "run_Reported w = run_Reported w'"
    by (intro replay_rel [OF assms(2), where R = "\<lambda>u v. run_Reported u = run_Reported v"]) (metis action_reported)+
  then show ?thesis by simp
qed

lemma start_simps:
  "saysRunning (run_Impl (startRun c f b rw objects)) \<longleftrightarrow> observed rw RisingWaveConditionRunning = Some ConditionTrue"
  "monitorKind (startRun c f b rw objects) \<longleftrightarrow> ko_Kind (of_NewServiceMonitor f) = ''ServiceMonitor''"
  "runTarget (startRun c f b rw objects) = rw" "run_Reported (startRun c f b rw objects) = []"
  by (simp_all add: startRun_def statusOf_def observed_def NewRisingWaveManager_def monitorKind_def)

text \<open>A reconciliation is a run of the branches and then the status update, which reports what they left.\<close>

lemma reconcile_parts:
  assumes "\<forall>x t r. ctrlkit x t r \<longrightarrow> runs x t r" "reconciles ctrlkit c factory forceUpdateEnabled (Inr rw) objects r (Some w)"
  obtains u r2 w1 where
    "runs (reactiveWorkflow (rc_openKruiseAvailable c) (NewRisingWaveManager rw (rc_openKruiseAvailable c))) u r2" "shared_ok None u"
    "replay (actionOf c) (startRun c factory forceUpdateEnabled rw objects) u = Some w1" "runTarget w1 = rw"
    "run_Impl w = run_Impl w1" "run_Objects w = run_Objects w1"
    "run_Reported w = (if rw_Status (m_mutableRisingWave (runManager w1)) = rw_Status rw then [] else [m_mutableRisingWave (runManager w1)])"
proof -
  let ?k = "rc_openKruiseAvailable c" and ?w0 = "startRun c factory forceUpdateEnabled rw objects"
  obtain rw1 t r1 where t1: "reconcileGuard (Inr rw) = Inr rw1" "ctrlkit (reconcileWorkflow ?k (NewRisingWaveManager rw1 ?k)) t r1" "shared_ok None t"
    "replay (actionOf c) (startRun c factory forceUpdateEnabled rw1 objects) t = Some w"
    using assms(2) by (rule reconcilesE)
  then have "rw1 = rw" by (simp add: reconcileGuard_def split: if_splits)
  then have t: "runs (reconcileWorkflow ?k (NewRisingWaveManager rw ?k)) t r1" "shared_ok None t" "replay (actionOf c) ?w0 t = Some w"
    using t1 assms(1) by blast+
  obtain u r2 r3 where u: "runs (reactiveWorkflow ?k (NewRisingWaveManager rw ?k)) u r2" "t = u @ [Ran ''UpdateRisingWaveStatusViaClient'' r3]"
    using t(1) unfolding reconcileWorkflow_def
    by (auto elim!: runs_SequentialJoinE runs_ord_ConsE runs_ord_NilE runs_ActionE)
  obtain w1 where w1: "replay (actionOf c) ?w0 u = Some w1" "actionOf c ''UpdateRisingWaveStatusViaClient'' w1 = Returns (r3, w)"
    using t(3) unfolding u(2) replay_append by (auto simp: bind_eq_Some_conv replay_Ran simp del: replay.simps(2))
  have up: "UpdateRisingWaveStatusViaClient c w1 = Returns (r3, w)" using w1(2) by (simp add: actionOf_def)
  have target: "runTarget w1 = rw" using replay_fixed [OF w1(1)] by (simp add: sameFixed_def fixedParts_def start_simps)
  show thesis
  proof (rule that [OF u(1) _ w1(1) target update_run(1,2) [OF up]])
    show "shared_ok None u" using t(2) shared_ok_prefix unfolding u(2) by blast
    show "run_Reported w = (if rw_Status (m_mutableRisingWave (runManager w1)) = rw_Status rw then [] else [m_mutableRisingWave (runManager w1)])"
      using update_run(3) [OF up] workflow_reports_last [OF u(1) w1(1)] target by (simp add: start_simps)
  qed
qed

section \<open>Properties\<close>

text \<open>C5: For a RisingWave that was not observed as running, a reconciliation reports the condition Running as true only
  when everything is ready in the cluster at the end: in the mode in use, the workloads of every component are those of
  its node groups, all are in sync with the current generation and rolled out, the meta service is in sync, and
  nothing is left of the other modes. This holds for every interleaving of the branches of the workflow, for
  every behaviour of the API server on the requests, and for runs in which the sync is shared between branches.\<close>
theorem running_means_ready:
  assumes ctrlkit: "\<forall>x t r. ctrlkit x t r \<longrightarrow> runs x t r"
    and run: "reconciles ctrlkit c factory forceUpdateEnabled (Inr rw) objects r (Some w)"
    and server: "serverLaws c" "ko_Kind (of_NewServiceMonitor factory) = ''ServiceMonitor''"
    and before: "observed rw RisingWaveConditionRunning \<noteq> Some ConditionTrue"
    and reported: "rw' \<in> set (run_Reported w)" "observed rw' RisingWaveConditionRunning = Some ConditionTrue"
  shows "runTarget w = rw \<and> allReady c w"
proof -
  let ?k = "rc_openKruiseAvailable c"
  obtain u r2 w1 where u: "runs (reactiveWorkflow ?k (NewRisingWaveManager rw ?k)) u r2" "shared_ok None u"
    "replay (actionOf c) (startRun c factory forceUpdateEnabled rw objects) u = Some w1" "runTarget w1 = rw"
    and w: "run_Impl w = run_Impl w1" "run_Objects w = run_Objects w1"
      "run_Reported w = (if rw_Status (m_mutableRisingWave (runManager w1)) = rw_Status rw then [] else [m_mutableRisingWave (runManager w1)])"
    by (rule reconcile_parts [OF ctrlkit run])
  have "rw' = m_mutableRisingWave (runManager w1)" using reported(1) w(3) by (simp split: if_splits)
  then have run: "saysRunning (run_Impl w1)" using reported(2) by (simp add: observed_def statusOf_def)
  then have pass: "passes c a w1" if "a \<in> actions (allComponentsReadyBarrier ?k)" for a
    using run_passes [OF u(1,2,3) server(1) _ _ run that] before server(2) by (simp add: start_simps)
  have quiet: "quiet w1 w" using w(1,2) by (simp add: quiet_def sameFixed_def)
  have "passes c a w" if "a \<in> actions (allComponentsReadyBarrier ?k)" for a
    using passes_quiet [OF _ server(1) quiet pass [OF that]] names_apart(3) that by auto
  then have "allReady c w" by (intro passes_ready) blast
  then show ?thesis using u(4) w(1) by simp
qed

section \<open>Witnesses\<close>

definition demoObject :: "string \<Rightarrow> string \<Rightarrow> K8sObject" where
  "demoObject kind name = (demoWorkload [] ''7'')\<lparr>ko_Kind := kind, ko_Name := name\<rparr>"

definition demoController :: RisingWaveController where
  "demoController = \<lparr>rc_openKruiseAvailable = False, rc_owned = (\<lambda>_ _. True), rc_ord = rev, rc_gvk = (\<lambda>_. None), rc_now = 5,
     rc_reader = (\<lambda>os. \<lparr>rd_Get = (\<lambda>kind key. case find (\<lambda>x. keyOf x = key) (ofKind kind os) of Some x \<Rightarrow> Inr x | None \<Rightarrow> Inl NotFoundErr),
       rd_List = (\<lambda>kind ns labels. Inr (filter (\<lambda>x. ko_Namespace x = ns \<and> list_all (\<lambda>(k, v). map_of (ko_Labels x) k = Some v) labels) (ofKind kind os)))\<rparr>),
     rc_answer = (\<lambda>_ _ _. None),
     rc_effect = (\<lambda>n os q. case q of
         CreateReq x \<Rightarrow> os @ [x]
       | UpdateReq x \<Rightarrow> map (\<lambda>y. if ko_Kind y = ko_Kind x \<and> keyOf y = keyOf x then x else y) os
       | DeleteReq x \<Rightarrow> filter (\<lambda>y. \<not> (ko_Kind y = ko_Kind x \<and> keyOf y = keyOf x)) os),
     rc_getScaleView = (\<lambda>_ _. Inl NotFoundErr), rc_getCRD = (\<lambda>_. Inl NotFoundErr), rc_updateStatus = (\<lambda>_. None)\<rparr>"

text \<open>A RisingWave in standalone mode that recovers: its stateful set is out of date. It has the lock of a scale view that is gone.\<close>

definition demoRecovering :: RisingWave where
  "demoRecovering = zeroRisingWave\<lparr>rw_Meta := zeroObjectMeta\<lparr>om_Name := ''rw'', om_Namespace := ''ns'', om_Generation := 7\<rparr>,
     rw_Spec := zeroSpec\<lparr>rws_EnableStandaloneMode := Some True\<rparr>,
     rw_Status := (rw_Status zeroRisingWave)\<lparr>rst_Conditions := [newCondition RisingWaveConditionRunning ConditionFalse], rst_ScaleViews := [demoLock]\<rparr>\<rparr>"

definition demoCluster :: "K8sObject list" where
  "demoCluster = [(demoWorkload [] ''6'')\<lparr>ko_Name := ''rw-standalone''\<rparr>, demoObject ''Service'' ''rw-standalone'',
     demoObject ''Service'' ''rw-frontend'', demoObject ''ConfigMap'' ''rw-default-config'']"

definition demoBuilders :: ObjectFactory where
  "demoBuilders = demoFactory\<lparr>of_NewStandaloneStatefulSet := demoObject ''StatefulSet'' ''rw-standalone'',
     of_NewServiceMonitor := demoObject ''ServiceMonitor'' ''risingwave-rw''\<rparr>"

lemma ofKind_update: "kind \<noteq> ko_Kind x \<Longrightarrow> ofKind kind (map (\<lambda>y. if ko_Kind y = ko_Kind x \<and> P y then x else y) os) = ofKind kind os"
  by (induction os) (auto simp: ofKind_def)

lemma ofKind_delete: "kind \<noteq> ko_Kind x \<Longrightarrow> ofKind kind (filter (\<lambda>y. ko_Kind y = ko_Kind x \<longrightarrow> P y) os) = ofKind kind os"
  by (induction os) (auto simp: ofKind_def)

lemma demo_server: "serverLaws demoController"
  unfolding serverLaws_def
proof (intro conjI allI impI)
  fix n os q kind assume "kind \<noteq> ko_Kind (requestObject q)"
  then show "ofKind kind (rc_effect demoController n os q) = ofKind kind os"
    by (cases q) (simp_all add: demoController_def ofKind_update ofKind_delete, simp add: ofKind_def)
qed (simp_all add: demoController_def)

text \<open>One of its runs, with the actions in the order of the text: the other branches stop at their barriers.\<close>

definition demoResult :: "string \<Rightarrow> unit \<Rightarrow> (Res \<times> unit) outcome" where
  "demoResult a u = Returns (if a \<in> {''BarrierFirstTimeObserved'', ''BarrierConditionInitializingIsTrue'', ''BarrierConditionRunningIsTrue'',
     ''BarrierConditionUpgradingIsTrue''} then ExitAction else Continue, u)"

definition demoTrace :: trace where
  "demoTrace = (case exec demoResult (reconcileWorkflow False (NewRisingWaveManager demoRecovering False)) None () of None \<Rightarrow> [] | Some (t, _) \<Rightarrow> t)"

lemma demo_run: "\<exists>r. runs (reconcileWorkflow False (NewRisingWaveManager demoRecovering False)) demoTrace r" "shared_ok None demoTrace"
proof -
  have "exec demoResult (reconcileWorkflow False (NewRisingWaveManager demoRecovering False)) None () \<noteq> None" by code_simp
  then obtain t r sh where e: "exec demoResult (reconcileWorkflow False (NewRisingWaveManager demoRecovering False)) None () = Some (t, r, sh, ())"
    by auto
  then show "\<exists>r. runs (reconcileWorkflow False (NewRisingWaveManager demoRecovering False)) demoTrace r" "shared_ok None demoTrace"
    using exec_runs(1) [OF e] exec_replay(1) [OF e] by (auto simp: demoTrace_def)
qed

lemma demo_reports:
  obtains r w rw' where "reconciles runs demoController demoBuilders True (Inr demoRecovering) demoCluster r (Some w)"
    "rw' \<in> set (run_Reported w)" "observed rw' RisingWaveConditionRunning = Some ConditionTrue"
proof -
  have "case replay (actionOf demoController) (startRun demoController demoBuilders True demoRecovering demoCluster) demoTrace of
      None \<Rightarrow> False
    | Some w \<Rightarrow> \<exists>rw' \<in> set (run_Reported w). observed rw' RisingWaveConditionRunning = Some ConditionTrue" by code_simp
  then obtain w rw' where e: "replay (actionOf demoController) (startRun demoController demoBuilders True demoRecovering demoCluster) demoTrace = Some w"
    and rw': "rw' \<in> set (run_Reported w)" "observed rw' RisingWaveConditionRunning = Some ConditionTrue"
    by (auto split: option.splits)
  have k: "rc_openKruiseAvailable demoController = False" "reconcileGuard (Inr demoRecovering) = Inr demoRecovering" by code_simp+
  obtain r where r: "runs (reconcileWorkflow False (NewRisingWaveManager demoRecovering False)) demoTrace r" using demo_run(1) by blast
  have "reconciles runs demoController demoBuilders True (Inr demoRecovering) demoCluster (IgnoreExit r) (Some w)"
    using r demo_run(2) e k by (intro reconciles.workflow [where rw = demoRecovering and t = demoTrace]) auto
  then show thesis using rw' by (rule that)
qed

theorem running_means_ready_witness:
  "\<exists>r w. reconciles runs demoController demoBuilders True (Inr demoRecovering) demoCluster r (Some w) \<and> allReady demoController w"
proof -
  obtain r w rw' where run: "reconciles runs demoController demoBuilders True (Inr demoRecovering) demoCluster r (Some w)"
    and rw': "rw' \<in> set (run_Reported w)" "observed rw' RisingWaveConditionRunning = Some ConditionTrue" by (rule demo_reports)
  have k: "observed demoRecovering RisingWaveConditionRunning \<noteq> Some ConditionTrue"
    "ko_Kind (of_NewServiceMonitor demoBuilders) = ''ServiceMonitor''" by code_simp+
  show ?thesis using running_means_ready [OF _ run demo_server k(2,1) rw'] run by blast
qed

end
