(* ===== verification/RwReports.thy ===== *)
theory RwReports
  imports RwReady
begin

text \<open>
  What the RisingWave controller may report: the shape of every status that a run sends to the API server, whatever the
  interleaving of its actions. It is shown action by action, as the frame of \<open>RwFrame\<close>.
\<close>

section \<open>Well-formed reports\<close>

abbreviation conditionTypes :: "RisingWave \<Rightarrow> string list" where
  "conditionTypes rw \<equiv> map rc_Type (rst_Conditions (rw_Status rw))"

definition knownTypes :: "string set" where
  "knownTypes = {RisingWaveConditionRunning, RisingWaveConditionInitializing, RisingWaveConditionUpgrading}"

text \<open>The status of \<open>rw'\<close> is one that may follow the status of the observed \<open>rw\<close>.\<close>

definition mayFollow :: "RisingWave \<Rightarrow> RisingWave \<Rightarrow> bool" where
  "mayFollow rw rw' \<longleftrightarrow> rw_Meta rw' = rw_Meta rw \<and> rw_Spec rw' = rw_Spec rw
     \<and> (distinct (conditionTypes rw) \<longrightarrow> distinct (conditionTypes rw'))
     \<and> set (conditionTypes rw') \<subseteq> set (conditionTypes rw) \<union> knownTypes
     \<and> rst_ObservedGeneration (rw_Status rw') \<in> {rst_ObservedGeneration (rw_Status rw), om_Generation (rw_Meta rw)}
     \<and> (\<exists>P. locksOf rw' = filter P (locksOf rw))
     \<and> (rst_StateStoreRootPath (rw_Status rw) \<noteq> [] \<longrightarrow> rst_StateStoreRootPath (rw_Status rw') = rst_StateStoreRootPath (rw_Status rw))"

definition reportOk :: "RisingWaveManager \<Rightarrow> bool" where
  "reportOk m \<longleftrightarrow> mayFollow (m_risingwave m) (m_mutableRisingWave m)"

lemma mayFollow_refl [simp]: "mayFollow rw rw"
proof -
  have "locksOf rw = filter (\<lambda>_. True) (locksOf rw)" by simp
  then show ?thesis unfolding mayFollow_def by blast
qed

text \<open>The operations of the manager.\<close>

lemma removeFirst_subset: "set (removeFirst t cs) \<subseteq> set cs"
  by (induction cs) auto

lemma stampCondition_type [simp]: "rc_Type (stampCondition now m c) = rc_Type c"
  by (simp add: stampCondition_def split: option.split)

text \<open>A change of the status that keeps what a report must keep.\<close>

lemma reportOk_status:
  assumes "reportOk m" "\<And>s. distinct (map rc_Type (rst_Conditions s)) \<Longrightarrow> distinct (map rc_Type (rst_Conditions (f s)))"
    and "\<And>s. rc_Type ` set (rst_Conditions (f s)) \<subseteq> rc_Type ` set (rst_Conditions s) \<union> knownTypes"
    and "\<And>s. rst_ObservedGeneration (f s) = rst_ObservedGeneration s" "\<And>s. rst_ScaleViews (f s) = rst_ScaleViews s"
    and "\<And>s. rst_StateStoreRootPath s \<noteq> [] \<Longrightarrow> rst_StateStoreRootPath (f s) = rst_StateStoreRootPath s"
  shows "reportOk (UpdateStatus m f)"
proof -
  let ?s = "rw_Status (m_mutableRisingWave m)"
  have "rc_Type ` set (rst_Conditions (f ?s)) \<subseteq> set (conditionTypes (m_risingwave m)) \<union> knownTypes"
    using assms(1) assms(3) [of ?s] unfolding reportOk_def mayFollow_def by (auto simp: image_iff)
  then show ?thesis using assms(1) assms(2,4,5,6) [of ?s] unfolding reportOk_def mayFollow_def UpdateStatus_def by auto
qed

lemma UpdateCondition_report:
  assumes "reportOk m" "rc_Type c \<in> knownTypes"
  shows "reportOk (UpdateCondition now m c)"
  unfolding UpdateCondition_def
proof (rule reportOk_status [OF assms(1)])
  show "rc_Type ` set (rst_Conditions (s\<lparr>rst_Conditions := putCondition (stampCondition now m c) (rst_Conditions s)\<rparr>))
      \<subseteq> rc_Type ` set (rst_Conditions s) \<union> knownTypes" for s
    using putCondition_types [of "stampCondition now m c" "rst_Conditions s"] assms(2) by auto
qed (simp_all add: putCondition_distinct)

lemma RemoveCondition_report: "reportOk m \<Longrightarrow> reportOk (RemoveCondition m t)"
  unfolding RemoveCondition_def using removeFirst_subset by (elim reportOk_status) (auto simp: removeFirst_distinct)

lemma SyncObservedGeneration_report: "reportOk m \<Longrightarrow> reportOk (SyncObservedGeneration m)"
  by (simp add: SyncObservedGeneration_def UpdateStatus_def reportOk_def mayFollow_def)

lemma KeepLock_report: "reportOk m \<Longrightarrow> ls = filter P (locksOf (m_risingwave m)) \<Longrightarrow> reportOk (KeepLock m ls)"
  unfolding KeepLock_def UpdateStatus_def reportOk_def mayFollow_def by auto

section \<open>The actions\<close>

definition keepsReport :: "managerAction \<Rightarrow> bool" where
  "keepsReport a \<longleftrightarrow> (\<forall>env m x. a env m = Returns x \<longrightarrow> reportOk (im_risingwaveManager (cm_impl m)) \<longrightarrow> reportOk (im_risingwaveManager (ran_Impl x)))"

definition managerReports :: "(RisingWaveManager \<Rightarrow> Res \<times> RisingWaveManager) \<Rightarrow> bool" where
  "managerReports f \<longleftrightarrow> (\<forall>m. reportOk m \<longrightarrow> reportOk (snd (f m)))"

lemma plain_report: "plain a \<Longrightarrow> keepsReport a"
  by (simp add: plain_def keepsReport_def)

lemma onManager_report: "managerReports f \<Longrightarrow> keepsReport (onManager d f)"
  unfolding managerReports_def keepsReport_def by (auto simp: onManager_Returns)

lemma releaseScaleViewLock_report: "managerReports (releaseScaleViewLock get)"
  unfolding managerReports_def releaseScaleViewLock_def by (auto split: sum.split intro: KeepLock_report dest: aliveLocks_Inr)

lemma manager_reports:
  "t \<in> knownTypes \<Longrightarrow> managerReports (markCondition now t st)"
  "managerReports firstTimeObservedBarrier" "managerReports (conditionBarrier t st)" "managerReports observedGenerationOutdatedBarrier"
  "managerReports removeConditionInitializing" "managerReports syncObservedGeneration" "managerReports (\<lambda>m. (r m, m))"
  by (auto simp: managerReports_def firstTimeObservedBarrier_def markCondition_def newCondition_def conditionBarrier_def
      removeConditionInitializing_def observedGenerationOutdatedBarrier_def syncObservedGeneration_def
      intro: UpdateCondition_report RemoveCondition_report SyncObservedGeneration_report)

lemma syncInternalStatus_report: "managerReports syncInternalStatus"
  unfolding managerReports_def syncInternalStatus_def Let_def snd_conv by (intro allI impI) (erule reportOk_status; simp)

lemma reportBroken_report:
  assumes "reportOk (im_risingwaveManager impl)"
  shows "reportOk (im_risingwaveManager (reportBroken now (withStatus impl reps) checks))"
proof -
  have "reportOk (im_risingwaveManager (withStatus impl reps))"
    unfolding withStatus_def using reportOk_status [OF assms, of "reportStatus (imRisingWave impl) reps"] by (simp add: reportStatus_def)
  then show ?thesis
    using UpdateCondition_report [of "im_risingwaveManager (withStatus impl reps)" "newCondition RisingWaveConditionRunning ConditionFalse"]
    by (simp add: reportBroken_def Let_def newCondition_def knownTypes_def)
qed

lemma collect_report: "a \<in> collectActions \<Longrightarrow> keepsReport a"
  unfolding keepsReport_def by (auto simp: collect_action_defs action_Returns Let_def intro!: reportBroken_report)

lemma status_report: "\<forall>(n, a) \<in> set (statusActions c). keepsReport a"
  unfolding statusActions_def
  by (simp add: collect_report onManager_report mark_defs manager_reports releaseScaleViewLock_report syncInternalStatus_report knownTypes_def)

lemma step_report: "keepsReport a \<Longrightarrow> step c a w = Returns (r, w') \<Longrightarrow> reportOk (runManager w) \<Longrightarrow> reportOk (runManager w')"
  by (auto simp: step_Returns keepsReport_def)

lemma action_report:
  assumes "actionOf c n w = Returns (r, w')" "reportOk (runManager w)"
  shows "reportOk (runManager w')"
  using assms(1)
proof (cases rule: actionOf_cases)
  case update
  then show ?thesis using update_run(1) assms(2) by simp
next
  case mark
  have "keepsReport (onManager markRunning (markConditionRunningAsTrue (rc_now c)))"
    by (simp add: onManager_report manager_reports markConditionRunningAsTrue_def knownTypes_def)
  then show ?thesis using step_report mark(2) assms(2) by blast
next
  case monitor
  then show ?thesis using step_report plain_report monitor_plain assms(2) by blast
next
  case (wait a)
  then show ?thesis using step_report plain_report wait_plain assms(2) by blast
next
  case (sync a)
  then show ?thesis using step_report plain_report sync_plain assms(2) by blast
next
  case (status a)
  then show ?thesis using step_report status_report assms(2) by blast
qed

text \<open>The reports of a run are well-formed.\<close>

definition reportsOk :: "Run \<Rightarrow> bool" where
  "reportsOk w \<longleftrightarrow> reportOk (runManager w) \<and> (\<forall>rw' \<in> set (run_Reported w). mayFollow (runTarget w) rw')"

lemma action_reportsOk:
  assumes "actionOf c n w = Returns (r, w')" "reportsOk w"
  shows "reportsOk w'"
proof -
  have target: "runTarget w' = runTarget w" using action_fixed [OF assms(1)] by (simp add: sameFixed_def fixedParts_def)
  have ok: "reportOk (runManager w')" using action_report [OF assms(1)] assms(2) by (simp add: reportsOk_def)
  have "run_Reported w' = run_Reported w \<or> run_Reported w' = run_Reported w @ [m_mutableRisingWave (runManager w)]"
    using assms(1)
  proof (cases rule: actionOf_cases)
    case update
    then show ?thesis using update_run(3) by auto
  qed (auto dest: step_reported)
  then show ?thesis using ok target assms(2) by (auto simp: reportsOk_def reportOk_def)
qed

section \<open>Properties\<close>

text \<open>C8: Every status that a reconciliation of a RisingWave sends is well-formed, for every interleaving: the object is the observed one but for its
  status; the types of its conditions are distinct when they were, and no type appears but the three the controller knows; the
  observed generation is the old one or the generation of the object; the scale view locks are some of the observed ones,
  unchanged and in their order, so the controller never grants a lock; and the recorded root path of the state store never changes.\<close>
theorem reports_wellformed:
  assumes "reconciles ctrlkit c factory forceUpdateEnabled (Inr rw) objects r (Some w)" "rw' \<in> set (run_Reported w)"
  shows "rw_Meta rw' = rw_Meta rw \<and> rw_Spec rw' = rw_Spec rw
    \<and> (distinct (conditionTypes rw) \<longrightarrow> distinct (conditionTypes rw'))
    \<and> set (conditionTypes rw') \<subseteq> set (conditionTypes rw) \<union> {RisingWaveConditionRunning, RisingWaveConditionInitializing, RisingWaveConditionUpgrading}
    \<and> rst_ObservedGeneration (rw_Status rw') \<in> {rst_ObservedGeneration (rw_Status rw), om_Generation (rw_Meta rw)}
    \<and> (\<exists>P. locksOf rw' = filter P (locksOf rw))
    \<and> (rst_StateStoreRootPath (rw_Status rw) \<noteq> [] \<longrightarrow> rst_StateStoreRootPath (rw_Status rw') = rst_StateStoreRootPath (rw_Status rw))"
proof -
  obtain rw1 t where t: "reconcileGuard (Inr rw) = Inr rw1" "replay (actionOf c) (startRun c factory forceUpdateEnabled rw1 objects) t = Some w"
    using assms(1) by (rule reconcilesE)
  let ?w0 = "startRun c factory forceUpdateEnabled rw1 objects"
  have "rw1 = rw" using t(1) by (simp add: reconcileGuard_def split: if_splits)
  then have start: "reportsOk ?w0" "runTarget ?w0 = rw" by (simp_all add: reportsOk_def reportOk_def startRun_def NewRisingWaveManager_def)
  have "reportsOk ?w0 \<longrightarrow> reportsOk w"
    by (rule replay_rel [OF t(2), where R = "\<lambda>u v. reportsOk u \<longrightarrow> reportsOk v"]) (use action_reportsOk in blast)+
  moreover have "runTarget w = rw" using replay_fixed [OF t(2)] start(2) by (simp add: sameFixed_def fixedParts_def)
  ultimately have "mayFollow rw rw'" using assms(2) start(1) by (simp add: reportsOk_def)
  then show ?thesis unfolding mayFollow_def knownTypes_def .
qed

theorem reports_wellformed_witness:
  "\<exists>r w rw'. reconciles runs demoController demoBuilders True (Inr demoRecovering) demoCluster r (Some w)
     \<and> rw' \<in> set (run_Reported w) \<and> observed rw' RisingWaveConditionRunning = Some ConditionTrue \<and> distinct (conditionTypes rw')"
proof -
  obtain r w rw' where run: "reconciles runs demoController demoBuilders True (Inr demoRecovering) demoCluster r (Some w)"
    and rw': "rw' \<in> set (run_Reported w)" "observed rw' RisingWaveConditionRunning = Some ConditionTrue" by (rule demo_reports)
  have "distinct (conditionTypes demoRecovering)" by code_simp
  then have "distinct (conditionTypes rw')" using reports_wellformed [OF run rw'(1)] by blast
  then show ?thesis using run rw' by blast
qed

end
