(* ===== verification/RwRelease.thy ===== *)
theory RwRelease
  imports RwReports
begin

text \<open>
  The locks of scale views that are gone, through a whole reconciliation of their RisingWave: one action of the workflow
  releases them, no other action touches the locks, and the status update reports it. With the filters of watch events
  (\<^verbatim>\<open>pkg/utils/predicates.go\<close>) and the watches that bring such a reconciliation about.
\<close>

section \<open>Watches\<close>

datatype WatchEvent = CreateEvent | UpdateEvent | DeleteEvent | GenericEvent

record Funcs =
  CreateFunc :: bool
  DeleteFunc :: bool
  UpdateFunc :: bool
  GenericFunc :: bool

definition CreateEventFilter :: Funcs where
  "CreateEventFilter = \<lparr>CreateFunc = True, DeleteFunc = False, UpdateFunc = False, GenericFunc = False\<rparr>"

definition DeleteEventFilter :: Funcs where
  "DeleteEventFilter = \<lparr>CreateFunc = False, DeleteFunc = True, UpdateFunc = False, GenericFunc = False\<rparr>"

definition UpdateEventFilter :: Funcs where
  "UpdateEventFilter = \<lparr>CreateFunc = False, DeleteFunc = False, UpdateFunc = True, GenericFunc = False\<rparr>"

definition GenericEventFilter :: Funcs where
  "GenericEventFilter = \<lparr>CreateFunc = False, DeleteFunc = False, UpdateFunc = False, GenericFunc = True\<rparr>"

fun passesFilter :: "Funcs \<Rightarrow> WatchEvent \<Rightarrow> bool" where
  "passesFilter f CreateEvent = CreateFunc f"
| "passesFilter f DeleteEvent = DeleteFunc f"
| "passesFilter f UpdateEvent = UpdateFunc f"
| "passesFilter f GenericEvent = GenericFunc f"

text \<open>The watch of the RisingWave controller on scale views.\<close>

definition requestsForScaleView :: "WatchEvent \<Rightarrow> RisingWaveScaleView \<Rightarrow> (string \<times> string) list" where
  "requestsForScaleView ev obj = (if passesFilter DeleteEventFilter ev then [(om_Namespace (sv_Meta obj), tr_Name (targetOf obj))] else [])"

section \<open>No other action touches the locks\<close>

abbreviation mutableLocks :: "RisingWaveManager \<Rightarrow> RisingWaveScaleViewLock list" where
  "mutableLocks m \<equiv> locksOf (m_mutableRisingWave m)"

definition keepsLocks :: "managerAction \<Rightarrow> bool" where
  "keepsLocks a \<longleftrightarrow> (\<forall>env m x. a env m = Returns x \<longrightarrow> mutableLocks (im_risingwaveManager (ran_Impl x)) = mutableLocks (im_risingwaveManager (cm_impl m)))"

definition managerLocks :: "(RisingWaveManager \<Rightarrow> Res \<times> RisingWaveManager) \<Rightarrow> bool" where
  "managerLocks f \<longleftrightarrow> (\<forall>m. mutableLocks (snd (f m)) = mutableLocks m)"

lemma plain_locks: "plain a \<Longrightarrow> keepsLocks a"
  by (simp add: plain_def keepsLocks_def)

lemma onManager_locks: "managerLocks f \<Longrightarrow> keepsLocks (onManager d f)"
  unfolding managerLocks_def keepsLocks_def by (auto simp: onManager_Returns) (metis snd_conv)+

lemma manager_locks:
  "managerLocks (markCondition now t st)" "managerLocks firstTimeObservedBarrier" "managerLocks (conditionBarrier t st)"
  "managerLocks observedGenerationOutdatedBarrier" "managerLocks removeConditionInitializing" "managerLocks syncObservedGeneration"
  "managerLocks (\<lambda>m. (r m, m))" "managerLocks syncInternalStatus"
  by (simp_all add: managerLocks_def firstTimeObservedBarrier_def markCondition_def conditionBarrier_def removeConditionInitializing_def
      observedGenerationOutdatedBarrier_def syncObservedGeneration_def syncInternalStatus_def UpdateCondition_def RemoveCondition_def
      SyncObservedGeneration_def UpdateStatus_def Let_def)

lemma collect_locks: "a \<in> collectActions \<Longrightarrow> keepsLocks a"
  unfolding keepsLocks_def
  by (auto simp: collect_action_defs action_Returns Let_def reportBroken_def withStatus_def reportStatus_def UpdateCondition_def UpdateStatus_def)

definition releaseName :: string where "releaseName = ''ReleaseScaleViewLock''"

lemma status_locks: "\<forall>(n, a) \<in> set (statusActions c). n \<noteq> releaseName \<longrightarrow> keepsLocks a"
  unfolding statusActions_def releaseName_def by (simp add: collect_locks onManager_locks mark_defs manager_locks)

lemma step_locks: "keepsLocks a \<Longrightarrow> step c a w = Returns (r, w') \<Longrightarrow> mutableLocks (runManager w') = mutableLocks (runManager w)"
  by (auto simp: step_Returns keepsLocks_def)

lemma action_locks:
  assumes "actionOf c n w = Returns (r, w')" "n \<noteq> releaseName"
  shows "mutableLocks (runManager w') = mutableLocks (runManager w)"
  using assms(1)
proof (cases rule: actionOf_cases)
  case update
  then show ?thesis using update_run(1) by simp
next
  case mark
  have "keepsLocks (onManager markRunning (markConditionRunningAsTrue (rc_now c)))"
    by (simp add: onManager_locks manager_locks markConditionRunningAsTrue_def)
  then show ?thesis using step_locks mark(2) by blast
next
  case monitor
  then show ?thesis using step_locks plain_locks monitor_plain by blast
next
  case (wait a)
  then show ?thesis using step_locks plain_locks wait_plain by blast
next
  case (sync a)
  then show ?thesis using step_locks plain_locks sync_plain by blast
next
  case (status a)
  then show ?thesis using step_locks status_locks assms(2) by blast
qed

section \<open>The release\<close>

text \<open>The scale views are found or are not there; there is no other answer.\<close>

definition clearReads :: "getSV \<Rightarrow> bool" where
  "clearReads get \<longleftrightarrow> (\<forall>ns n e. get ns n = Inl e \<longrightarrow> e = NotFoundErr)"

lemma aliveLocks_clear: "clearReads get \<Longrightarrow> aliveLocks get ns ls = Inr (filter (lock_alive get ns) ls)"
proof (induction ls)
  case (Cons s ss)
  show ?case
  proof (cases "get ns (lk_Name s)")
    case (Inl e)
    then have "e = NotFoundErr" using Cons.prems unfolding clearReads_def by blast
    then show ?thesis using Cons Inl by (simp add: lock_alive_def)
  next
    case (Inr sv)
    then show ?thesis using Cons by (simp add: lock_alive_def)
  qed
qed simp

abbreviation aliveOf :: "RisingWaveController \<Rightarrow> RisingWave \<Rightarrow> RisingWaveScaleViewLock list" where
  "aliveOf c rw \<equiv> filter (lock_alive (rc_getScaleView c) (om_Namespace (rw_Meta rw))) (locksOf rw)"

lemma release_action:
  assumes "actionOf c releaseName w = Returns (r, w')" "clearReads (rc_getScaleView c)"
  shows "mutableLocks (runManager w') = aliveOf c (runTarget w)"
proof -
  have "step c (onManager releaseName (releaseScaleViewLock (rc_getScaleView c))) w = Returns (r, w')"
    using assms(1) by (simp add: actionOf_def releaseName_def markRunning_def waitActions_def syncActions_def statusActions_def)
  then show ?thesis
    using aliveLocks_clear [OF assms(2)]
    by (auto simp: step_Returns onManager_Returns releaseScaleViewLock_def KeepLock_def UpdateStatus_def)
qed

lemma replay_locks:
  assumes "replay (actionOf c) w t = Some w'" "\<forall>r. Ran releaseName r \<notin> set t"
  shows "mutableLocks (runManager w') = mutableLocks (runManager w)"
proof (rule replay_rel [OF assms(1), where R = "\<lambda>u v. mutableLocks (runManager v) = mutableLocks (runManager u)"])
  show "\<forall>a r u v. Ran a r \<in> set t \<longrightarrow> actionOf c a u = Returns (r, v) \<longrightarrow> mutableLocks (runManager v) = mutableLocks (runManager u)"
    using action_locks assms(2) by blast
qed simp_all

definition isRelease :: "Event \<Rightarrow> bool" where
  "isRelease e \<longleftrightarrow> (\<exists>r. e = Ran releaseName r)"

lemma replay_release:
  assumes "replay (actionOf c) w t = Some w'" "Ran releaseName r \<in> set t" "clearReads (rc_getScaleView c)"
  shows "mutableLocks (runManager w') = aliveOf c (runTarget w)"
proof -
  have "\<exists>e \<in> set t. isRelease e" using assms(2) by (auto simp: isRelease_def)
  then obtain t1 e t2 where t: "t = t1 @ e # t2" "isRelease e" "\<forall>e \<in> set t2. \<not> isRelease e"
    using split_list_last_prop [of t isRelease] by blast
  then obtain q where e: "e = Ran releaseName q" by (auto simp: isRelease_def)
  obtain u v where u: "replay (actionOf c) w t1 = Some u" "actionOf c releaseName u = Returns (q, v)" "replay (actionOf c) v t2 = Some w'"
    using assms(1) unfolding t(1) e replay_append by (auto simp: bind_eq_Some_conv replay_Ran simp del: replay.simps(2))
  have "mutableLocks (runManager w') = mutableLocks (runManager v)" using replay_locks [OF u(3)] t(3) by (auto simp: isRelease_def)
  also have "\<dots> = aliveOf c (runTarget u)" by (rule release_action [OF u(2) assms(3)])
  also have "runTarget u = runTarget w" using replay_fixed [OF u(1)] by (simp add: sameFixed_def fixedParts_def)
  finally show ?thesis .
qed

text \<open>Every branch of a join is in the run.\<close>

lemma runs_par_branch: "runs_par xs t rs \<Longrightarrow> x \<in> set xs \<Longrightarrow> \<exists>u r. runs x u r \<and> set u \<subseteq> set t"
proof (induction xs arbitrary: t rs)
  case (Cons y xs)
  from Cons.prems(1) obtain t1 r1 u rs' where u: "runs y t1 r1" "runs_par xs u rs'" "t \<in> shuffles t1 u" by (auto elim: runs_par_ConsE)
  then show ?case using Cons.IH [OF u(2)] Cons.prems(2) set_shuffles [OF u(3)] by auto
qed simp

lemma workflow_releases:
  assumes "runs (reactiveWorkflow kr m) t r"
  shows "\<exists>q. Ran releaseName q \<in> set t"
proof -
  obtain xs rs where xs: "runs_par xs t rs" "Action releaseName \<in> set xs"
    using assms unfolding reactiveWorkflow_def releaseName_def by (auto elim!: runs_ParallelJoinE)
  from runs_par_branch [OF this] obtain u q where "runs (Action releaseName) u q" "set u \<subseteq> set t" by blast
  then show ?thesis by (auto elim!: runs_ActionE)
qed

section \<open>Properties\<close>

text \<open>C7: A reconciliation releases the locks of the scale views that are gone: when every scale view can be read or is reported missing, every
  status sent holds exactly the observed locks whose scale view still exists under the recorded uid, in every interleaving of the
  workflow, and when one is gone a status is sent. The deletion of a scale view asks for the reconciliation of its target.\<close>
theorem dead_locks_released:
  assumes library: "\<forall>x t r. ctrlkit x t r \<longrightarrow> runs x t r"
    and run: "reconciles ctrlkit c factory forceUpdateEnabled (Inr rw) objects r (Some w)"
    and reads: "clearReads (rc_getScaleView c)"
  shows "(\<forall>rw' \<in> set (run_Reported w). locksOf rw' = aliveOf c rw)
    \<and> (aliveOf c rw \<noteq> locksOf rw \<longrightarrow> run_Reported w \<noteq> [])
    \<and> requestsForScaleView DeleteEvent sv = [(om_Namespace (sv_Meta sv), tr_Name (targetOf sv))]"
proof -
  obtain u r2 w1 where u: "runs (reactiveWorkflow (rc_openKruiseAvailable c) (NewRisingWaveManager rw (rc_openKruiseAvailable c))) u r2"
    "replay (actionOf c) (startRun c factory forceUpdateEnabled rw objects) u = Some w1"
    and w: "run_Reported w = (if rw_Status (m_mutableRisingWave (runManager w1)) = rw_Status rw then [] else [m_mutableRisingWave (runManager w1)])"
    by (rule reconcile_parts [OF library run])
  obtain q where "Ran releaseName q \<in> set u" using workflow_releases [OF u(1)] by blast
  then have "mutableLocks (runManager w1) = aliveOf c rw" using replay_release [OF u(2) _ reads] by (simp add: start_simps)
  then show ?thesis using w by (auto simp: requestsForScaleView_def DeleteEventFilter_def)
qed

section \<open>Witnesses\<close>

theorem dead_locks_released_witness:
  "\<exists>r w rw'. reconciles runs demoController demoBuilders True (Inr demoRecovering) demoCluster r (Some w)
     \<and> rw' \<in> set (run_Reported w) \<and> locksOf demoRecovering = [demoLock] \<and> locksOf rw' = []"
proof -
  obtain r w rw' where run: "reconciles runs demoController demoBuilders True (Inr demoRecovering) demoCluster r (Some w)"
    and rw': "rw' \<in> set (run_Reported w)" by (rule demo_reports)
  have "clearReads (rc_getScaleView demoController)" by (simp add: clearReads_def demoController_def)
  then have "locksOf rw' = aliveOf demoController demoRecovering" using dead_locks_released [OF _ run] rw' by blast
  moreover have "aliveOf demoController demoRecovering = []" by code_simp
  ultimately have "locksOf rw' = []" by (rule trans)
  moreover have "locksOf demoRecovering = [demoLock]" by (simp add: demoRecovering_def)
  ultimately show ?thesis using run rw' by blast
qed

end
