(* ===== verification/RwLookup.thy ===== *)
theory RwLookup
  imports RwState FactoryTheorems
begin

text \<open>
  The two ends of the controller's view of the cluster fit together: what the object factory builds under its names and labels
  (\<^verbatim>\<open>pkg/factory\<close>) is what the getters of the generated manager (\<^verbatim>\<open>pkg/manager\<close>) look for. Otherwise the controller would
  create its objects again and again.
\<close>

section \<open>The API server as a store\<close>

text \<open>What the reader documents of an API server that holds the objects.\<close>

definition holds :: "Reader \<Rightarrow> K8sObject list \<Rightarrow> bool" where
  "holds reader objects \<longleftrightarrow>
     (\<forall>kind ns labels. rd_List reader kind ns labels = Inr (filter (\<lambda>x. ko_Kind x = kind \<and> ko_Namespace x = ns
        \<and> list_all (\<lambda>(k, v). map_of (ko_Labels x) k = Some v) labels) objects))
     \<and> (\<forall>kind ns name. rd_Get reader kind (ns, name) =
        (case find (\<lambda>x. ko_Kind x = kind \<and> ko_Namespace x = ns \<and> ko_Name x = name) objects of Some x \<Rightarrow> Inr x | None \<Rightarrow> Inl NotFoundErr))"

definition uniqueNames :: "K8sObject list \<Rightarrow> bool" where
  "uniqueNames objects \<longleftrightarrow> distinct (map (\<lambda>x. (ko_Kind x, ko_Namespace x, ko_Name x)) objects)"

section \<open>Workloads\<close>

text \<open>The getter of the workloads of a component.\<close>

definition workloadGetter :: "bool \<Rightarrow> string \<Rightarrow> listGetter" where
  "workloadGetter kr component =
     (if component = ComponentMeta then (if kr then GetMetaAdvancedStatefulSets else GetMetaStatefulSets)
      else if component = ComponentFrontend then (if kr then GetFrontendCloneSets else GetFrontendDeployments)
      else if component = ComponentCompute then (if kr then GetComputeAdvancedStatefulSets else GetComputeStatefulSets)
      else (if kr then GetCompactorCloneSets else GetCompactorDeployments))"

definition workloadState :: "bool \<Rightarrow> string \<Rightarrow> string" where
  "workloadState kr component =
     (if component = ComponentMeta then (if kr then ''metaAdvancedStatefulSets'' else ''metaStatefulSets'')
      else if component = ComponentFrontend then (if kr then ''frontendCloneSets'' else ''frontendDeployments'')
      else if component = ComponentCompute then (if kr then ''computeAdvancedStatefulSets'' else ''computeStatefulSets'')
      else (if kr then ''compactorCloneSets'' else ''compactorDeployments''))"

lemma workloadGetter_list:
  assumes "known_component component"
  shows "workloadGetter kr component owned s = listOwned owned s (workloadState kr component) (workloadKind kr component) component"
proof -
  have "component = ComponentMeta \<or> component = ComponentFrontend \<or> component = ComponentCompute \<or> component = ComponentCompactor"
    using assms by (auto simp: known_component_def)
  then show ?thesis
    by (elim disjE; cases kr; simp add: workloadGetter_def workloadState_def workloadKind_def list_getters; simp add: component_defs)
qed

lemma listOwned_holds:
  assumes "holds (st_Reader s) objects"
  shows "listOwned owned s state kind component = Inr (filter (\<lambda>x. owned x (st_target s) \<and> ko_Kind x = kind \<and> ko_Namespace x = targetNamespace s
    \<and> map_of (ko_Labels x) LabelRisingWaveComponent = Some component \<and> map_of (ko_Labels x) LabelRisingWaveName = Some (targetName s)) objects)"
proof -
  have "rd_List (st_Reader s) kind (targetNamespace s) labels = Inr (filter (\<lambda>x. ko_Kind x = kind \<and> ko_Namespace x = targetNamespace s
      \<and> list_all (\<lambda>(k, v). map_of (ko_Labels x) k = Some v) labels) objects)" for labels
    using assms unfolding holds_def by blast
  then show ?thesis
    by (auto simp: listOwned_def LabelRisingWaveComponent_def LabelRisingWaveName_def intro!: filter_cong)
qed

section \<open>Single objects\<close>

text \<open>The objects that exist once, each with its getter. The text of the configuration is an argument.\<close>

definition singles :: "RisingWaveObjectFactory \<Rightarrow> string \<Rightarrow> (objectGetter \<times> K8sObject outcome) list" where
  "singles f config =
     [(GetMetaService, omap (\<lambda>x. objectView ''Service'' (svc_Meta x) None) (NewMetaService f)),
      (GetFrontendService, omap (\<lambda>x. objectView ''Service'' (svc_Meta x) None) (NewFrontendService f)),
      (GetComputeService, omap (\<lambda>x. objectView ''Service'' (svc_Meta x) None) (NewComputeService f)),
      (GetCompactorService, omap (\<lambda>x. objectView ''Service'' (svc_Meta x) None) (NewCompactorService f)),
      (GetStandaloneService, omap (\<lambda>x. objectView ''Service'' (svc_Meta x) None) (NewStandaloneService f)),
      (GetConfigConfigMap, omap (\<lambda>x. objectView ''ConfigMap'' (cm_Meta x) None) (NewConfigConfigMap f config)),
      (GetServiceMonitor, omap (\<lambda>x. objectView ''ServiceMonitor'' (smon_Meta x) None) (NewServiceMonitor f)),
      (GetStandaloneStatefulSet, omap (\<lambda>x. objectView ''StatefulSet'' (sts_Meta x) (Some (sts_Replicas x))) (NewStandaloneStatefulSet f)),
      (GetStandaloneAdvancedStatefulSet,
         omap (\<lambda>x. objectView ''AdvancedStatefulSet'' (asts_Meta x) (Some (asts_Replicas x))) (NewStandaloneAdvancedStatefulSet f))]"

text \<open>Setting the owner keeps the name.\<close>

lemma owner_keeps:
  assumes "setsOwnerOnly lib" "lib_setControllerReference lib rw m = Inr m'"
  shows "om_Name m' = om_Name m" "om_Namespace m' = om_Namespace m"
proof -
  have m': "m' = m\<lparr>om_OwnerReferences := om_OwnerReferences m'\<rparr>" using assms unfolding setsOwnerOnly_def by blast
  show "om_Name m' = om_Name m" using arg_cong [OF m', of om_Name] by simp
  show "om_Namespace m' = om_Namespace m" using arg_cong [OF m', of om_Namespace] by simp
qed

lemma componentMeta_name:
  assumes "getObjectMetaForComponentLevelResources f component sync = Returns m"
  shows "componentName f component [] = Returns (om_Name m)" "om_Namespace m = namespace f"
  using assms by (auto simp: getObjectMetaForComponentLevelResources_def omap_eq_Returns newObjectMeta_def)

lemma addMetadata_name [simp]: "om_Name (svc_Meta (addMetadata e s)) = om_Name (svc_Meta s)" "om_Namespace (svc_Meta (addMetadata e s)) = om_Namespace (svc_Meta s)"
  by (simp_all add: addMetadata_def)

lemma service_name:
  assumes "newService f component t ports = Returns s0" "mustSetControllerReference f svc_Meta setService s1 = Returns s"
    and "om_Name (svc_Meta s1) = om_Name (svc_Meta s0)" "om_Namespace (svc_Meta s1) = om_Namespace (svc_Meta s0)" "setsOwnerOnly (f_scheme f)"
  shows "componentName f component [] = Returns (om_Name (svc_Meta s)) \<and> om_Namespace (svc_Meta s) = namespace f"
proof -
  obtain m where m: "lib_setControllerReference (f_scheme f) (f_risingwave f) (svc_Meta s1) = Inr m" "s = s1\<lparr>svc_Meta := m\<rparr>"
    using assms(2) by (auto simp: mustSetControllerReference_eq_Returns)
  obtain m0 where "getObjectMetaForComponentLevelResources f component True = Returns m0" "svc_Meta s0 = m0"
    using assms(1) by (auto simp: newService_def omap_eq_Returns)
  then show ?thesis using owner_keeps [OF assms(5) m(1)] m(2) assms(3,4) componentMeta_name by simp
qed

lemma service_names:
  assumes "setsOwnerOnly (f_scheme f)"
  shows "NewMetaService f = Returns s \<Longrightarrow> componentName f ComponentMeta [] = Returns (om_Name (svc_Meta s)) \<and> om_Namespace (svc_Meta s) = namespace f"
    "NewFrontendService f = Returns s \<Longrightarrow> componentName f ComponentFrontend [] = Returns (om_Name (svc_Meta s)) \<and> om_Namespace (svc_Meta s) = namespace f"
    "NewComputeService f = Returns s \<Longrightarrow> componentName f ComponentCompute [] = Returns (om_Name (svc_Meta s)) \<and> om_Namespace (svc_Meta s) = namespace f"
    "NewCompactorService f = Returns s \<Longrightarrow> componentName f ComponentCompactor [] = Returns (om_Name (svc_Meta s)) \<and> om_Namespace (svc_Meta s) = namespace f"
    "NewStandaloneService f = Returns s \<Longrightarrow> componentName f ComponentStandalone [] = Returns (om_Name (svc_Meta s)) \<and> om_Namespace (svc_Meta s) = namespace f"
  unfolding NewMetaService_def NewFrontendService_def NewComputeService_def NewCompactorService_def NewStandaloneService_def obind_eq_Returns
  by (elim exE conjE; rule service_name, assumption, assumption; simp add: assms)+

lemma statefulSet_name:
  assumes "NewStandaloneStatefulSet f = Returns w" "setsOwnerOnly (f_scheme f)"
  shows "componentName f ComponentStandalone [] = Returns (om_Name (sts_Meta w)) \<and> om_Namespace (sts_Meta w) = namespace f"
proof -
  obtain g t w0 m where w: "newStatefulSet f ComponentStandalone g t = Returns w0"
    "lib_setControllerReference (f_scheme f) (f_risingwave f) (sts_Meta w0) = Inr m" "w = w0\<lparr>sts_Meta := m\<rparr>"
    using assms(1) by (auto simp: NewStandaloneStatefulSet_def Let_def obind_eq_Returns mustSetControllerReference_eq_Returns)
  have "componentName f ComponentStandalone (ng_Name g) = Returns (om_Name (sts_Meta w0))" "om_Namespace (sts_Meta w0) = namespace f"
    using groupMeta_name [OF statefulSets.built_meta [OF w(1)]] by simp_all
  then show ?thesis using owner_keeps [OF assms(2) w(2)] w(3) by (simp add: componentName_def)
qed

lemma advancedStatefulSet_name:
  assumes "NewStandaloneAdvancedStatefulSet f = Returns w" "setsOwnerOnly (f_scheme f)"
  shows "componentName f ComponentStandalone [] = Returns (om_Name (asts_Meta w)) \<and> om_Namespace (asts_Meta w) = namespace f"
proof -
  obtain g t w0 m where w: "newAdvancedStatefulSet f ComponentStandalone g t = Returns w0"
    "lib_setControllerReference (f_scheme f) (f_risingwave f) (asts_Meta w0) = Inr m" "w = w0\<lparr>asts_Meta := m\<rparr>"
    using assms(1) by (auto simp: NewStandaloneAdvancedStatefulSet_def Let_def obind_eq_Returns mustSetControllerReference_eq_Returns)
  have "componentName f ComponentStandalone (ng_Name g) = Returns (om_Name (asts_Meta w0))" "om_Namespace (asts_Meta w0) = namespace f"
    using groupMeta_name [OF advancedStatefulSets.built_meta [OF w(1)]] by simp_all
  then show ?thesis using owner_keeps [OF assms(2) w(2)] w(3) by (simp add: componentName_def)
qed

lemma configMap_name:
  assumes "NewConfigConfigMap f config = Returns x" "setsOwnerOnly (f_scheme f)"
  shows "componentName f ComponentConfig [] = Returns (om_Name (cm_Meta x)) \<and> om_Namespace (cm_Meta x) = namespace f"
proof -
  obtain m0 m where m: "getObjectMetaForComponentLevelResources f ComponentConfig False = Returns m0"
    "lib_setControllerReference (f_scheme f) (f_risingwave f) m0 = Inr m" "cm_Meta x = m"
    using assms(1) by (auto simp: NewConfigConfigMap_def obind_eq_Returns mustSetControllerReference_eq_Returns)
  then show ?thesis using owner_keeps [OF assms(2) m(2)] componentMeta_name [OF m(1)] by simp
qed

lemma serviceMonitor_name:
  assumes "NewServiceMonitor f = Returns x" "setsOwnerOnly (f_scheme f)"
  shows "om_Name (smon_Meta x) = ''risingwave-'' @ rwName f \<and> om_Namespace (smon_Meta x) = namespace f"
proof -
  obtain m where m: "lib_setControllerReference (f_scheme f) (f_risingwave f) (getObjectMetaForGeneralResources f (''risingwave-'' @ rwName f) True) = Inr m" "smon_Meta x = m"
    using assms(1) by (auto simp: NewServiceMonitor_def mustSetControllerReference_eq_Returns)
  then show ?thesis using owner_keeps [OF assms(2) m(1)] by (simp add: getObjectMetaForGeneralResources_def newObjectMeta_def)
qed

text \<open>The name and the kind under which a getter looks.\<close>

definition looksFor :: "objectGetter \<Rightarrow> RisingWave \<Rightarrow> string \<Rightarrow> string \<Rightarrow> bool" where
  "looksFor getter rw kind name \<longleftrightarrow> (\<exists>state. \<forall>owned s. st_target s = rw \<longrightarrow> getter owned s = getOwned owned s state kind name)"

lemma looksForI: "(\<And>owned s. st_target s = rw \<Longrightarrow> getter owned s = getOwned owned s state kind name) \<Longrightarrow> looksFor getter rw kind name"
  unfolding looksFor_def by blast

lemma getOwned_holds:
  assumes "holds (st_Reader s) objects" "uniqueNames objects" "x \<in> set objects" "ko_Kind x = kind" "ko_Namespace x = targetNamespace s"
    "owned x (st_target s)"
  shows "getOwned owned s state kind (ko_Name x) = Inr (Some x)"
proof -
  have "find (\<lambda>y. ko_Kind y = kind \<and> ko_Namespace y = targetNamespace s \<and> ko_Name y = ko_Name x) objects = Some x"
    using assms(2-5)
  proof (induction objects)
    case (Cons y ys)
    then show ?case by (auto simp: uniqueNames_def image_iff)
  qed simp
  then show ?thesis using assms(1,6) by (simp add: getOwned_def holds_def)
qed

lemma getOwned_missing:
  assumes "holds (st_Reader s) objects" "\<forall>x \<in> set objects. \<not> (ko_Kind x = kind \<and> ko_Namespace x = targetNamespace s \<and> ko_Name x = name)"
  shows "getOwned owned s state kind name = Inr None"
proof -
  have "find (\<lambda>y. ko_Kind y = kind \<and> ko_Namespace y = targetNamespace s \<and> ko_Name y = name) objects = None"
    using assms(2) by (simp add: find_None_iff)
  then show ?thesis using assms(1) by (simp add: getOwned_def holds_def)
qed

lemma Returns_eq_omap: "Returns b = omap g y \<longleftrightarrow> (\<exists>a. y = Returns a \<and> g a = b)"
  using omap_eq_Returns [of g y b] by auto

lemma objectView_fields [simp]:
  "ko_Kind (objectView kind m n) = kind" "ko_Name (objectView kind m n) = om_Name m" "ko_Namespace (objectView kind m n) = om_Namespace m"
  "ko_Labels (objectView kind m n) = om_Labels m"
  by (simp_all add: objectView_def)

text \<open>Every single object is built under the name that its getter looks for.\<close>

lemma singles_names:
  assumes "(getter, built) \<in> set (singles f config)" "built = Returns x" "setsOwnerOnly (f_scheme f)"
  shows "looksFor getter (f_risingwave f) (ko_Kind x) (ko_Name x) \<and> ko_Namespace x = namespace f"
proof -
  have look: "looksFor GetMetaService (f_risingwave f) ''Service'' (rwName f @ ''-meta'')"
    "looksFor GetFrontendService (f_risingwave f) ''Service'' (rwName f @ ''-frontend'')"
    "looksFor GetComputeService (f_risingwave f) ''Service'' (rwName f @ ''-compute'')"
    "looksFor GetCompactorService (f_risingwave f) ''Service'' (rwName f @ ''-compactor'')"
    "looksFor GetStandaloneService (f_risingwave f) ''Service'' (rwName f @ ''-standalone'')"
    "looksFor GetConfigConfigMap (f_risingwave f) ''ConfigMap'' (rwName f @ ''-default-config'')"
    "looksFor GetServiceMonitor (f_risingwave f) ''ServiceMonitor'' (''risingwave-'' @ rwName f)"
    "looksFor GetStandaloneStatefulSet (f_risingwave f) ''StatefulSet'' (rwName f @ ''-standalone'')"
    "looksFor GetStandaloneAdvancedStatefulSet (f_risingwave f) ''AdvancedStatefulSet'' (rwName f @ ''-standalone'')"
    by (rule looksForI, simp only: object_getters rwName_def)+
  have config: "ComponentConfig \<noteq> ComponentMeta" "ComponentConfig \<noteq> ComponentFrontend" "ComponentConfig \<noteq> ComponentCompute"
    "ComponentConfig \<noteq> ComponentCompactor" "ComponentConfig \<noteq> ComponentStandalone"
    by (simp_all add: ComponentConfig_def component_defs)
  show ?thesis
    using assms(1,2) look unfolding singles_def
    by (auto simp: Returns_eq_omap componentName_def groupSuffix_def config
        dest!: service_names [OF assms(3)] statefulSet_name [OF _ assms(3)] advancedStatefulSet_name [OF _ assms(3)]
          configMap_name [OF _ assms(3)] serviceMonitor_name [OF _ assms(3)])
qed

section \<open>Properties\<close>

text \<open>C9: What the factory builds, the manager finds. When the API server holds an object that the factory built for a RisingWave and the RisingWave owns it,
  the getter of its component returns the workload of every node group, in both kinds, and every single object is returned by its getter
  as the one there is; a getter of a single object returns nothing when the server holds none under the name that the factory gives.\<close>
theorem built_objects_found:
  assumes server: "holds reader objects" "uniqueNames objects" and lib: "setsOwnerOnly lib" and c: "known_component component"
    and f: "f = NewRisingWaveObjectFactory rw lib v" and s: "s = NewRisingWaveControllerManagerState reader rw"
  shows "(newWorkload f kr component grp = Returns w \<longrightarrow> builtObject f kr component grp \<in> set objects \<longrightarrow> owned (builtObject f kr component grp) rw \<longrightarrow>
      (\<exists>xs. workloadGetter kr component owned s = Inr xs \<and> builtObject f kr component grp \<in> set xs))
    \<and> ((getter, Returns x) \<in> set (singles f config) \<longrightarrow> x \<in> set objects \<longrightarrow> owned x rw \<longrightarrow> getter owned s = Inr (Some x))
    \<and> ((getter, Returns x) \<in> set (singles f config) \<longrightarrow> (\<forall>y \<in> set objects. (ko_Kind y, keyOf y) \<noteq> (ko_Kind x, keyOf x)) \<longrightarrow> getter owned s = Inr None)"
proof -
  have fs: "f_risingwave f = rw" "f_scheme f = lib" "madeFactory f" using madeFactory_new by (simp_all add: f NewRisingWaveObjectFactory_def)
  have st: "st_Reader s = reader" "st_target s = rw" by (simp_all add: s NewRisingWaveControllerManagerState_def)
  have workload: "\<exists>xs. workloadGetter kr component owned s = Inr xs \<and> builtObject f kr component grp \<in> set xs"
    if w: "newWorkload f kr component grp = Returns w" "builtObject f kr component grp \<in> set objects" "owned (builtObject f kr component grp) rw"
  proof -
    have "workloadOk f component grp w" using newWorkload_ok [OF w(1) fs(3)] lib fs(2) by simp
    then show ?thesis
      using w newWorkload_kind [OF w(1)] server(1) fs(1)
      by (simp add: workloadGetter_list [OF c] listOwned_holds [where objects = objects] st builtObject_def workloadOk_def namespace_def rwName_def)
  qed
  have single: "looksFor getter rw (ko_Kind x) (ko_Name x) \<and> ko_Namespace x = om_Namespace (rw_Meta rw)" if "(getter, Returns x) \<in> set (singles f config)"
    using singles_names [OF that refl] lib fs by (simp add: namespace_def)
  have found: "getter owned s = Inr (Some x)" if "(getter, Returns x) \<in> set (singles f config)" "x \<in> set objects" "owned x rw"
    using single [OF that(1)] getOwned_holds [of s objects x] server that(2,3) st unfolding looksFor_def by metis
  have missing: "getter owned s = Inr None"
    if "(getter, Returns x) \<in> set (singles f config)" "\<forall>y \<in> set objects. (ko_Kind y, keyOf y) \<noteq> (ko_Kind x, keyOf x)"
    using single [OF that(1)] getOwned_missing [of s objects "ko_Kind x" "ko_Name x"] server(1) that(2) st unfolding looksFor_def keyOf_def
    by (metis prod.inject)
  show ?thesis using workload found missing by blast
qed

section \<open>Witnesses\<close>

definition storeReader :: "K8sObject list \<Rightarrow> Reader" where
  "storeReader objects =
     \<lparr>rd_Get = (\<lambda>kind key. case find (\<lambda>x. ko_Kind x = kind \<and> ko_Namespace x = fst key \<and> ko_Name x = snd key) objects of Some x \<Rightarrow> Inr x | None \<Rightarrow> Inl NotFoundErr),
      rd_List = (\<lambda>kind ns labels. Inr (filter (\<lambda>x. ko_Kind x = kind \<and> ko_Namespace x = ns
        \<and> list_all (\<lambda>(k, v). map_of (ko_Labels x) k = Some v) labels) objects))\<rparr>"

lemma storeReader_holds: "holds (storeReader objects) objects"
  by (simp add: holds_def storeReader_def)

theorem built_objects_found_witness:
  "\<exists>xs. workloadGetter False ComponentCompute (\<lambda>_ _. True)
      (NewRisingWaveControllerManagerState (storeReader [builtObject demoObjectFactory False ComponentCompute ''a'']) memoryRisingWave) = Inr xs
    \<and> builtObject demoObjectFactory False ComponentCompute ''a'' \<in> set xs"
proof -
  let ?objects = "[builtObject demoObjectFactory False ComponentCompute ''a'']"
  obtain w where w: "newWorkload demoObjectFactory False ComponentCompute ''a'' = Returns w" using demo_builds(1) unfolding returns_iff by blast
  have "uniqueNames ?objects" by (simp add: uniqueNames_def)
  from built_objects_found [OF storeReader_holds this demoLib_ok(1) memory_groups(1) refl refl,
      where rw = memoryRisingWave and v = "''v1''" and kr = False and grp = "''a''" and w = w and owned = "\<lambda>_ _. True"] w
  show ?thesis by (simp del: objectView_fields)
qed

end
