(* ===== verification/Metrics.thy ===== *)
theory Metrics
  imports GoLib RwWebhook ScaleWebhook UserWebhook
begin

text \<open>
  \<^verbatim>\<open>pkg/metrics\<close>: the metrics of the operator and the recorders around every webhook and every controller, which also catch
  the panics of what they wrap; with the webhook types of \<^verbatim>\<open>pkg/utils/types.go\<close> and the constructors of the registered
  webhooks in \<^verbatim>\<open>pkg/webhook\<close>. A vector of counters is a function from label values to the count, a histogram one
  to the observed values; the Prometheus registry is the list of the registered metrics. A Go object is described by its kind and
  its metadata (\<open>MetricsObject\<close>). The time that a call takes is an argument.
\<close>

section \<open>The metrics\<close>

type_synonym WebhookType = string

definition ValidatingWebhookType :: WebhookType where "ValidatingWebhookType = ''validating''"
definition MutatingWebhookType :: WebhookType where "MutatingWebhookType = ''mutating''"

definition IsValidating :: "WebhookType \<Rightarrow> bool" where
  "IsValidating wt \<longleftrightarrow> wt = ValidatingWebhookType"

definition IsMutating :: "WebhookType \<Rightarrow> bool" where
  "IsMutating wt \<longleftrightarrow> \<not> IsValidating wt"

record GroupVersionKind =
  gvk_Group :: string
  gvk_Version :: string
  gvk_Kind :: string

record MetricsObject =
  mo_GVK :: GroupVersionKind
  mo_Meta :: ObjectMeta

type_synonym CounterVec = "string list \<Rightarrow> nat"
type_synonym HistogramVec = "string list \<Rightarrow> int list"

record MetricVectors =
  webhookRequestCount :: CounterVec
  webhookRequestPassCount :: CounterVec
  webhookRequestRejectCount :: CounterVec
  webhookRequestPanicCount :: CounterVec
  controllerReconcileCount :: CounterVec
  controllerReconcileRequeueCount :: CounterVec
  controllerReconcileRequeueErrorCount :: CounterVec
  controllerReconcilePanicCount :: CounterVec
  controllerReconcileRequeueAfter :: HistogramVec
  controllerReconcileDuration :: HistogramVec

definition Inc :: "string list \<Rightarrow> CounterVec \<Rightarrow> CounterVec" where
  "Inc labels counter = counter(labels := Suc (counter labels))"

definition Observe :: "string list \<Rightarrow> int \<Rightarrow> HistogramVec \<Rightarrow> HistogramVec" where
  "Observe labels v histogram = histogram(labels := histogram labels @ [v])"

text \<open>A namespaced name is a pair of the namespace and the name.\<close>

definition toNamespacedName :: "MetricsObject \<Rightarrow> string \<times> string" where
  "toNamespacedName obj = (om_Namespace (mo_Meta obj), om_Name (mo_Meta obj))"

definition webhookLabels :: "WebhookType \<Rightarrow> MetricsObject \<Rightarrow> string list" where
  "webhookLabels wt obj = (let g = mo_GVK obj; nn = toNamespacedName obj in
     [wt, gvk_Group g, gvk_Version g, gvk_Kind g, fst nn, snd nn])"

definition incWebhooksWithLabelValues :: "CounterVec \<Rightarrow> WebhookType \<Rightarrow> MetricsObject \<Rightarrow> CounterVec" where
  "incWebhooksWithLabelValues metric wt obj = Inc (webhookLabels wt obj) metric"

text \<open>The labels that are read have the version in the place of the kind.\<close>

definition getWebhooksWithLabelValues :: "CounterVec \<Rightarrow> WebhookType \<Rightarrow> MetricsObject \<Rightarrow> nat" where
  "getWebhooksWithLabelValues metric wt obj = (let g = mo_GVK obj; nn = toNamespacedName obj in
     metric [wt, gvk_Group g, gvk_Version g, gvk_Version g, fst nn, snd nn])"

definition IncWebhookRequestCount :: "WebhookType \<Rightarrow> MetricsObject \<Rightarrow> MetricVectors \<Rightarrow> MetricVectors" where
  "IncWebhookRequestCount wt obj m = m\<lparr>webhookRequestCount := incWebhooksWithLabelValues (webhookRequestCount m) wt obj\<rparr>"

definition IncWebhookRequestPassCount :: "WebhookType \<Rightarrow> MetricsObject \<Rightarrow> MetricVectors \<Rightarrow> MetricVectors" where
  "IncWebhookRequestPassCount wt obj m = m\<lparr>webhookRequestPassCount := incWebhooksWithLabelValues (webhookRequestPassCount m) wt obj\<rparr>"

definition IncWebhookRequestRejectCount :: "WebhookType \<Rightarrow> MetricsObject \<Rightarrow> MetricVectors \<Rightarrow> MetricVectors" where
  "IncWebhookRequestRejectCount wt obj m = m\<lparr>webhookRequestRejectCount := incWebhooksWithLabelValues (webhookRequestRejectCount m) wt obj\<rparr>"

definition IncWebhookRequestPanicCount :: "WebhookType \<Rightarrow> MetricsObject \<Rightarrow> MetricVectors \<Rightarrow> MetricVectors" where
  "IncWebhookRequestPanicCount wt obj m = m\<lparr>webhookRequestPanicCount := incWebhooksWithLabelValues (webhookRequestPanicCount m) wt obj\<rparr>"

definition GetWebhookRequestPanicCountWith :: "WebhookType \<Rightarrow> MetricsObject \<Rightarrow> MetricVectors \<Rightarrow> nat" where
  "GetWebhookRequestPanicCountWith wt obj m = getWebhooksWithLabelValues (webhookRequestPanicCount m) wt obj"

definition GetWebhookRequestRejectCount :: "WebhookType \<Rightarrow> MetricsObject \<Rightarrow> MetricVectors \<Rightarrow> nat" where
  "GetWebhookRequestRejectCount wt obj m = getWebhooksWithLabelValues (webhookRequestRejectCount m) wt obj"

definition GetWebhookRequestCount :: "WebhookType \<Rightarrow> MetricsObject \<Rightarrow> MetricVectors \<Rightarrow> nat" where
  "GetWebhookRequestCount wt obj m = getWebhooksWithLabelValues (webhookRequestCount m) wt obj"

definition GetWebhookRequestPassCount :: "WebhookType \<Rightarrow> MetricsObject \<Rightarrow> MetricVectors \<Rightarrow> nat" where
  "GetWebhookRequestPassCount wt obj m = getWebhooksWithLabelValues (webhookRequestPassCount m) wt obj"

definition controllerLabels :: "string \<times> string \<Rightarrow> GroupVersionKind \<Rightarrow> string list" where
  "controllerLabels target g = [gvk_Group g, gvk_Version g, gvk_Kind g, fst target, snd target]"

definition incControllersWithLabelValues :: "CounterVec \<Rightarrow> string \<times> string \<Rightarrow> GroupVersionKind \<Rightarrow> CounterVec" where
  "incControllersWithLabelValues metric target g = Inc (controllerLabels target g) metric"

definition IncControllerReconcileCount :: "string \<times> string \<Rightarrow> GroupVersionKind \<Rightarrow> MetricVectors \<Rightarrow> MetricVectors" where
  "IncControllerReconcileCount target g m = m\<lparr>controllerReconcileCount := incControllersWithLabelValues (controllerReconcileCount m) target g\<rparr>"

definition IncControllerReconcilePanicCount :: "string \<times> string \<Rightarrow> GroupVersionKind \<Rightarrow> MetricVectors \<Rightarrow> MetricVectors" where
  "IncControllerReconcilePanicCount target g m =
     m\<lparr>controllerReconcilePanicCount := incControllersWithLabelValues (controllerReconcilePanicCount m) target g\<rparr>"

definition IncControllerReconcileRequeueCount :: "string \<times> string \<Rightarrow> GroupVersionKind \<Rightarrow> MetricVectors \<Rightarrow> MetricVectors" where
  "IncControllerReconcileRequeueCount target g m =
     m\<lparr>controllerReconcileRequeueCount := incControllersWithLabelValues (controllerReconcileRequeueCount m) target g\<rparr>"

definition IncControllerReconcileRequeueErrorCount :: "string \<times> string \<Rightarrow> GroupVersionKind \<Rightarrow> MetricVectors \<Rightarrow> MetricVectors" where
  "IncControllerReconcileRequeueErrorCount target g m =
     m\<lparr>controllerReconcileRequeueErrorCount := incControllersWithLabelValues (controllerReconcileRequeueErrorCount m) target g\<rparr>"

definition UpdateControllerReconcileRequeueAfter :: "int \<Rightarrow> string \<times> string \<Rightarrow> GroupVersionKind \<Rightarrow> MetricVectors \<Rightarrow> MetricVectors" where
  "UpdateControllerReconcileRequeueAfter timeInMilliSecond target g m =
     m\<lparr>controllerReconcileRequeueAfter := Observe (controllerLabels target g) timeInMilliSecond (controllerReconcileRequeueAfter m)\<rparr>"

definition UpdateControllerReconcileDuration :: "int \<Rightarrow> GroupVersionKind \<Rightarrow> string \<Rightarrow> string \<times> string \<Rightarrow> MetricVectors \<Rightarrow> MetricVectors" where
  "UpdateControllerReconcileDuration timeInMilliSeconds g webhookName target m =
     m\<lparr>controllerReconcileDuration := Observe (webhookName # controllerLabels target g) timeInMilliSeconds (controllerReconcileDuration m)\<rparr>"

text \<open>\<^verbatim>\<open>Write\<close> of a metric changes nothing; the histogram of the durations is not reset.\<close>

definition ResetMetrics :: "MetricVectors \<Rightarrow> MetricVectors" where
  "ResetMetrics m = m\<lparr>controllerReconcileCount := (\<lambda>_. 0), controllerReconcilePanicCount := (\<lambda>_. 0), controllerReconcileRequeueAfter := (\<lambda>_. []),
     controllerReconcileRequeueCount := (\<lambda>_. 0), controllerReconcileRequeueErrorCount := (\<lambda>_. 0), webhookRequestCount := (\<lambda>_. 0),
     webhookRequestPanicCount := (\<lambda>_. 0), webhookRequestPassCount := (\<lambda>_. 0), webhookRequestRejectCount := (\<lambda>_. 0)\<rparr>"

definition InitMetrics :: "string list \<Rightarrow> string list" where
  "InitMetrics registry = registry @
     [''controller_reconcile_count_total'', ''controller_reconcile_panic_count_total'', ''controller_reconcile_requeue_after'',
      ''controller_reconcile_requeue_count_total'', ''controller_reconcile_error_count_total'', ''receiving_metrics_from_operator'',
      ''webhook_request_count_total'', ''webhook_request_panic_count_total'', ''webhook_request_pass_count_total'',
      ''webhook_request_reject_count_total'']"

section \<open>The recorder of webhooks\<close>

definition beforeInvoke :: "WebhookType \<Rightarrow> MetricsObject \<Rightarrow> MetricVectors \<Rightarrow> MetricVectors" where
  "beforeInvoke webhookType obj m = IncWebhookRequestCount webhookType obj m"

text \<open>The deferred call: it recovers from a panic and turns it into an error.\<close>

definition panicError :: "WebhookType \<Rightarrow> string \<Rightarrow> ApiError" where
  "panicError webhookType rec = OtherErr (''Internal error occurred: panic in '' @ webhookType @ '' webhook: '' @ rec)"

fun afterInvoke :: "WebhookType \<Rightarrow> MetricsObject \<Rightarrow> ApiError option outcome \<Rightarrow> MetricVectors \<Rightarrow> ApiError option \<times> MetricVectors" where
  "afterInvoke webhookType obj (Panics rec) m =
     (Some (panicError webhookType rec), IncWebhookRequestRejectCount webhookType obj (IncWebhookRequestPanicCount webhookType obj m))"
| "afterInvoke webhookType obj (Returns (Some err)) m = (Some err, IncWebhookRequestRejectCount webhookType obj m)"
| "afterInvoke webhookType obj (Returns None) m = (None, IncWebhookRequestPassCount webhookType obj m)"

text \<open>The interfaces of the webhooks: a defaulter returns an error and the changed object, a validator warnings and an error.\<close>

type_synonym 'o Defaulter = "'o \<Rightarrow> (ApiError option \<times> 'o) outcome"

record 'o Validator =
  va_ValidateCreate :: "'o \<Rightarrow> (string list \<times> ApiError option) outcome"
  va_ValidateUpdate :: "'o \<Rightarrow> 'o \<Rightarrow> (string list \<times> ApiError option) outcome"
  va_ValidateDelete :: "'o \<Rightarrow> (string list \<times> ApiError option) outcome"

text \<open>A recorded defaulter has no panic; the object is of use only without an error.\<close>

definition recordDefault :: "('o \<Rightarrow> MetricsObject) \<Rightarrow> 'o Defaulter \<Rightarrow> 'o \<Rightarrow> MetricVectors \<Rightarrow> ApiError option \<times> 'o option \<times> MetricVectors" where
  "recordDefault describe inner obj m =
     (let (err, m') = afterInvoke MutatingWebhookType (describe obj) (omap fst (inner obj)) (beforeInvoke MutatingWebhookType (describe obj) m)
      in (err, map_option snd (returned (inner obj)), m'))"

definition recordValidate ::
  "MetricsObject \<Rightarrow> (string list \<times> ApiError option) outcome \<Rightarrow> MetricVectors \<Rightarrow> string list \<times> ApiError option \<times> MetricVectors" where
  "recordValidate obj answer m =
     (let (err, m') = afterInvoke ValidatingWebhookType obj (omap snd answer) (beforeInvoke ValidatingWebhookType obj m)
      in (case returned answer of Some (warnings, _) \<Rightarrow> warnings | None \<Rightarrow> [], err, m'))"

record 'o RecordedValidator =
  rv_ValidateCreate :: "'o \<Rightarrow> MetricVectors \<Rightarrow> string list \<times> ApiError option \<times> MetricVectors"
  rv_ValidateUpdate :: "'o \<Rightarrow> 'o \<Rightarrow> MetricVectors \<Rightarrow> string list \<times> ApiError option \<times> MetricVectors"
  rv_ValidateDelete :: "'o \<Rightarrow> MetricVectors \<Rightarrow> string list \<times> ApiError option \<times> MetricVectors"

definition NewMutatingWebhookMetricsRecorder :: "('o \<Rightarrow> MetricsObject) \<Rightarrow> 'o Defaulter \<Rightarrow> 'o \<Rightarrow> MetricVectors \<Rightarrow> ApiError option \<times> 'o option \<times> MetricVectors" where
  "NewMutatingWebhookMetricsRecorder describe inner = recordDefault describe inner"

definition NewValidatingWebhookMetricsRecorder :: "('o \<Rightarrow> MetricsObject) \<Rightarrow> 'o Validator \<Rightarrow> 'o RecordedValidator" where
  "NewValidatingWebhookMetricsRecorder describe inner =
     \<lparr>rv_ValidateCreate = (\<lambda>obj. recordValidate (describe obj) (va_ValidateCreate inner obj)),
      rv_ValidateUpdate = (\<lambda>oldObj newObj. recordValidate (describe newObj) (va_ValidateUpdate inner oldObj newObj)),
      rv_ValidateDelete = (\<lambda>obj. recordValidate (describe obj) (va_ValidateDelete inner obj))\<rparr>"

section \<open>The registered webhooks\<close>

text \<open>\<^verbatim>\<open>RandomHex\<close> of \<^verbatim>\<open>pkg/utils/rand.go\<close>: the source of randomness is the argument \<open>read\<close>, which fills a buffer or fails.\<close>

definition lowerHex :: "nat \<Rightarrow> char" where
  "lowerHex n = ''0123456789abcdef'' ! n"

definition EncodeToString :: "string \<Rightarrow> string" where
  "EncodeToString bs = concat (map (\<lambda>b. let n = of_char b :: nat in [lowerHex (n div 16), lowerHex (n mod 16)]) bs)"

definition RandomHex :: "(nat \<Rightarrow> string + string) \<Rightarrow> nat \<Rightarrow> string + string" where
  "RandomHex read n = (case read n of Inl err \<Rightarrow> Inl err | Inr b \<Rightarrow> Inr (EncodeToString b))"

text \<open>The defaulting of a RisingWave: \<^verbatim>\<open>lo.Must\<close> panics when a key is needed and there is no randomness.\<close>

definition needsRandomKey :: "bool \<Rightarrow> RisingWave \<Rightarrow> bool" where
  "needsRandomKey randomKeyEnabled rw \<longleftrightarrow> (let pk = sst_PrivateKey (rws_SecretStore (rw_Spec rw)) in
     randomKeyEnabled \<and> pk_Value pk = None \<and> pk_SecretRef pk = None)"

definition rw_DefaultWith :: "(nat \<Rightarrow> string + string) \<Rightarrow> bool \<Rightarrow> RisingWave Defaulter" where
  "rw_DefaultWith read randomKeyEnabled rw =
     (if needsRandomKey randomKeyEnabled rw then
        (case RandomHex read 16 of Inl err \<Rightarrow> Panics err | Inr key \<Rightarrow> Returns (None, rw_Default randomKeyEnabled key rw))
      else Returns (None, rw_Default randomKeyEnabled [] rw))"

definition NewRisingWaveMutatingWebhook ::
  "(RisingWave \<Rightarrow> MetricsObject) \<Rightarrow> (nat \<Rightarrow> string + string) \<Rightarrow> bool \<Rightarrow> RisingWave \<Rightarrow> MetricVectors \<Rightarrow> ApiError option \<times> RisingWave option \<times> MetricVectors" where
  "NewRisingWaveMutatingWebhook describe read randomKeyEnabled = NewMutatingWebhookMetricsRecorder describe (rw_DefaultWith read randomKeyEnabled)"

definition NewRisingWaveValidatingWebhook ::
  "(RisingWave \<Rightarrow> MetricsObject) \<Rightarrow> imageCheck \<Rightarrow> dnsCheck \<Rightarrow> bool \<Rightarrow> RisingWave RecordedValidator" where
  "NewRisingWaveValidatingWebhook describe imageOk dnsErrs openKruiseAvailable = NewValidatingWebhookMetricsRecorder describe
     \<lparr>va_ValidateCreate = (\<lambda>obj. omap (Pair []) (rw_ValidateCreate imageOk dnsErrs openKruiseAvailable obj)),
      va_ValidateUpdate = (\<lambda>oldObj newObj. omap (Pair []) (rw_ValidateUpdate imageOk dnsErrs openKruiseAvailable oldObj newObj)),
      va_ValidateDelete = (\<lambda>obj. Returns ([], rw_ValidateDelete obj))\<rparr>"

definition NewRisingWaveScaleViewMutatingWebhook ::
  "(RisingWaveScaleView \<Rightarrow> MetricsObject) \<Rightarrow> getRW \<Rightarrow> RisingWaveScaleView \<Rightarrow> MetricVectors \<Rightarrow> ApiError option \<times> RisingWaveScaleView option \<times> MetricVectors" where
  "NewRisingWaveScaleViewMutatingWebhook describe get = NewMutatingWebhookMetricsRecorder describe (sv_Default get)"

definition NewRisingWaveScaleViewValidatingWebhook :: "(RisingWaveScaleView \<Rightarrow> MetricsObject) \<Rightarrow> getRW \<Rightarrow> RisingWaveScaleView RecordedValidator" where
  "NewRisingWaveScaleViewValidatingWebhook describe get = NewValidatingWebhookMetricsRecorder describe
     \<lparr>va_ValidateCreate = (\<lambda>obj. omap (Pair []) (sv_ValidateCreate get obj)),
      va_ValidateUpdate = (\<lambda>oldObj newObj. Returns ([], sv_ValidateUpdate oldObj newObj)),
      va_ValidateDelete = (\<lambda>obj. Returns ([], sv_ValidateDelete obj))\<rparr>"

definition NewRisingWaveUserValidatingWebhook ::
  "(RisingWaveUser \<Rightarrow> MetricsObject) \<Rightarrow> getRisingWave \<Rightarrow> errText \<Rightarrow> RisingWaveUser RecordedValidator" where
  "NewRisingWaveUserValidatingWebhook describe get errText = NewValidatingWebhookMetricsRecorder describe
     \<lparr>va_ValidateCreate = (\<lambda>obj. Returns (uw_ValidateCreate get errText obj)),
      va_ValidateUpdate = (\<lambda>oldObj newObj. Returns (uw_ValidateUpdate get errText oldObj newObj)),
      va_ValidateDelete = (\<lambda>obj. Returns (uw_ValidateDelete obj))\<rparr>"

section \<open>The recorder of controllers\<close>

record controllerMetricsRecorder =
  cmr_name :: string
  cmr_gvk :: GroupVersionKind

definition beforeReconcile :: "controllerMetricsRecorder \<Rightarrow> string \<times> string \<Rightarrow> MetricVectors \<Rightarrow> MetricVectors" where
  "beforeReconcile r target m = IncControllerReconcileCount target (cmr_gvk r) m"

text \<open>The deferred call: a panic becomes the empty result without an error.\<close>

fun recordResult :: "controllerMetricsRecorder \<Rightarrow> string \<times> string \<Rightarrow> Res \<Rightarrow> MetricVectors \<Rightarrow> MetricVectors" where
  "recordResult r target (RequeueErr msg e) m = IncControllerReconcileRequeueErrorCount target (cmr_gvk r) m"
| "recordResult r target ExitAction m = IncControllerReconcileRequeueErrorCount target (cmr_gvk r) m"
| "recordResult r target (RequeueAfter ms) m = (if ms > 0 then UpdateControllerReconcileRequeueAfter ms target (cmr_gvk r) m else m)"
| "recordResult r target RequeueImmediately m = IncControllerReconcileRequeueCount target (cmr_gvk r) m"
| "recordResult r target Continue m = m"

fun afterReconcile :: "controllerMetricsRecorder \<Rightarrow> string \<times> string \<Rightarrow> Res outcome \<Rightarrow> int \<Rightarrow> MetricVectors \<Rightarrow> Res \<times> MetricVectors" where
  "afterReconcile r target (Panics rec) elapsed m = (NoRequeue, IncControllerReconcilePanicCount target (cmr_gvk r) m)"
| "afterReconcile r target (Returns res) elapsed m =
     (res, UpdateControllerReconcileDuration elapsed (cmr_gvk r) (cmr_name r) target (recordResult r target res m))"

definition recordReconcile :: "controllerMetricsRecorder \<Rightarrow> (string \<times> string \<Rightarrow> Res outcome) \<Rightarrow> string \<times> string \<Rightarrow> int \<Rightarrow> MetricVectors \<Rightarrow> Res \<times> MetricVectors" where
  "recordReconcile r inner request elapsed m = afterReconcile r request (inner request) elapsed (beforeReconcile r request m)"

definition NewControllerMetricsRecorder :: "(string \<times> string \<Rightarrow> Res outcome) \<Rightarrow> string \<Rightarrow> GroupVersionKind \<Rightarrow> string \<times> string \<Rightarrow> int \<Rightarrow> MetricVectors \<Rightarrow> Res \<times> MetricVectors" where
  "NewControllerMetricsRecorder inner name g = recordReconcile \<lparr>cmr_name = name, cmr_gvk = g\<rparr> inner"

section \<open>Histories of webhook calls\<close>

text \<open>A call of a registered webhook: its type, the object and what the webhook itself does.\<close>

datatype WebhookCall = WebhookCall WebhookType MetricsObject "ApiError option outcome"

fun recordCall :: "WebhookCall \<Rightarrow> MetricVectors \<Rightarrow> ApiError option \<times> MetricVectors" where
  "recordCall (WebhookCall wt obj answer) m = afterInvoke wt obj answer (beforeInvoke wt obj m)"

fun recordCalls :: "WebhookCall list \<Rightarrow> MetricVectors \<Rightarrow> ApiError option list \<times> MetricVectors" where
  "recordCalls [] m = ([], m)"
| "recordCalls (x # xs) m = (case recordCall x m of (err, m') \<Rightarrow> (case recordCalls xs m' of (errs, m'') \<Rightarrow> (err # errs, m'')))"

text \<open>The recorded webhooks are such calls.\<close>

lemma recordValidate_call: "snd (recordValidate obj answer m) = recordCall (WebhookCall ValidatingWebhookType obj (omap snd answer)) m"
  by (simp add: recordValidate_def split_beta)

lemma recordDefault_call:
  "(fst (recordDefault describe inner obj m), snd (snd (recordDefault describe inner obj m))) =
     recordCall (WebhookCall MutatingWebhookType (describe obj) (omap fst (inner obj))) m"
  by (simp add: recordDefault_def split_beta)

fun isFor :: "string list \<Rightarrow> WebhookCall \<Rightarrow> bool" where
  "isFor labels (WebhookCall wt obj answer) = (webhookLabels wt obj = labels)"

fun answerOf :: "WebhookCall \<Rightarrow> ApiError option outcome" where
  "answerOf (WebhookCall wt obj answer) = answer"

lemmas webhook_incs = IncWebhookRequestCount_def IncWebhookRequestPassCount_def IncWebhookRequestRejectCount_def IncWebhookRequestPanicCount_def
  incWebhooksWithLabelValues_def Inc_def beforeInvoke_def

definition countOf :: "bool \<Rightarrow> nat" where "countOf b = (if b then 1 else 0)"

lemma recordCall_spec:
  "fst (recordCall x m) = None \<longleftrightarrow> answerOf x = Returns None"
  "webhookRequestCount (snd (recordCall x m)) l = webhookRequestCount m l + countOf (isFor l x)"
  "webhookRequestPassCount (snd (recordCall x m)) l = webhookRequestPassCount m l + countOf (isFor l x \<and> answerOf x = Returns None)"
  "webhookRequestRejectCount (snd (recordCall x m)) l = webhookRequestRejectCount m l + countOf (isFor l x \<and> answerOf x \<noteq> Returns None)"
  "webhookRequestPanicCount (snd (recordCall x m)) l = webhookRequestPanicCount m l + countOf (isFor l x \<and> (\<exists>rec. answerOf x = Panics rec))"
proof -
  obtain wt obj answer where x: "x = WebhookCall wt obj answer" by (cases x)
  have "answer = Returns None \<or> (\<exists>e. answer = Returns (Some e)) \<or> (\<exists>rec. answer = Panics rec)"
    by (cases answer) auto
  then show "fst (recordCall x m) = None \<longleftrightarrow> answerOf x = Returns None"
    "webhookRequestCount (snd (recordCall x m)) l = webhookRequestCount m l + countOf (isFor l x)"
    "webhookRequestPassCount (snd (recordCall x m)) l = webhookRequestPassCount m l + countOf (isFor l x \<and> answerOf x = Returns None)"
    "webhookRequestRejectCount (snd (recordCall x m)) l = webhookRequestRejectCount m l + countOf (isFor l x \<and> answerOf x \<noteq> Returns None)"
    "webhookRequestPanicCount (snd (recordCall x m)) l = webhookRequestPanicCount m l + countOf (isFor l x \<and> (\<exists>rec. answerOf x = Panics rec))"
    by (auto simp: x webhook_incs countOf_def)
qed

lemma recordCalls_spec:
  "map (\<lambda>e. e = None) (fst (recordCalls xs m)) = map (\<lambda>x. answerOf x = Returns None) xs"
  "webhookRequestCount (snd (recordCalls xs m)) l = webhookRequestCount m l + length (filter (isFor l) xs)"
  "webhookRequestPassCount (snd (recordCalls xs m)) l = webhookRequestPassCount m l + length (filter (\<lambda>x. isFor l x \<and> answerOf x = Returns None) xs)"
  "webhookRequestRejectCount (snd (recordCalls xs m)) l = webhookRequestRejectCount m l + length (filter (\<lambda>x. isFor l x \<and> answerOf x \<noteq> Returns None) xs)"
  "webhookRequestPanicCount (snd (recordCalls xs m)) l = webhookRequestPanicCount m l + length (filter (\<lambda>x. isFor l x \<and> (\<exists>rec. answerOf x = Panics rec)) xs)"
proof (induction xs arbitrary: m)
  case (Cons x xs)
  {
    case 1
    show ?case using Cons(1) recordCall_spec(1) [of x m] by (simp add: split_beta)
  next
    case 2
    show ?case using Cons(2) recordCall_spec(2) [of x m] by (simp add: split_beta countOf_def)
  next
    case 3
    show ?case using Cons(3) recordCall_spec(3) [of x m] by (simp add: split_beta countOf_def)
  next
    case 4
    show ?case using Cons(4) recordCall_spec(4) [of x m] by (simp add: split_beta countOf_def)
  next
    case 5
    show ?case using Cons(5) recordCall_spec(5) [of x m] by (simp add: split_beta countOf_def)
  }
qed simp_all

section \<open>Properties\<close>

text \<open>C40: In every history of webhook calls after a reset no call panics: a call is accepted exactly when the webhook returned without an error,
  so a panicking webhook refuses the object. For every object and webhook type the requests are the accepted and
  the refused ones, and the panics are among the refused ones.\<close>
theorem webhook_history:
  "map (\<lambda>e. e = None) (fst (recordCalls xs (ResetMetrics m))) = map (\<lambda>x. answerOf x = Returns None) xs
   \<and> (let m' = snd (recordCalls xs (ResetMetrics m)) in
      webhookRequestCount m' l = webhookRequestPassCount m' l + webhookRequestRejectCount m' l
      \<and> webhookRequestPanicCount m' l \<le> webhookRequestRejectCount m' l
      \<and> webhookRequestPassCount m' l = length (filter (\<lambda>x. isFor l x \<and> answerOf x = Returns None) xs)
      \<and> webhookRequestPanicCount m' l = length (filter (\<lambda>x. isFor l x \<and> (\<exists>rec. answerOf x = Panics rec)) xs))"
proof -
  have "length (filter (isFor l) xs) =
    length (filter (\<lambda>x. isFor l x \<and> answerOf x = Returns None) xs) + length (filter (\<lambda>x. isFor l x \<and> answerOf x \<noteq> Returns None) xs)"
    by (induction xs) auto
  moreover have "length (filter (\<lambda>x. isFor l x \<and> (\<exists>rec. answerOf x = Panics rec)) xs)
      \<le> length (filter (\<lambda>x. isFor l x \<and> answerOf x \<noteq> Returns None) xs)"
    by (induction xs) auto
  ultimately show ?thesis unfolding Let_def recordCalls_spec by (simp add: ResetMetrics_def)
qed

text \<open>The registered webhooks refuse what the webhooks refuse or panic on: what is admitted has passed the validation.\<close>
theorem registered_webhooks_admit:
  "fst (snd (rv_ValidateCreate (NewRisingWaveValidatingWebhook describe imageOk dnsErrs k) rw m)) = None
     \<longleftrightarrow> rw_ValidateCreate imageOk dnsErrs k rw = Returns None"
  "fst (snd (rv_ValidateUpdate (NewRisingWaveValidatingWebhook describe imageOk dnsErrs k) old rw m)) = None
     \<longleftrightarrow> rw_ValidateUpdate imageOk dnsErrs k old rw = Returns None"
  "fst (snd (rv_ValidateCreate (NewRisingWaveScaleViewValidatingWebhook describeSV get) sv m)) = None
     \<longleftrightarrow> sv_ValidateCreate get sv = Returns None"
  by (simp_all add: NewRisingWaveValidatingWebhook_def NewRisingWaveScaleViewValidatingWebhook_def NewValidatingWebhookMetricsRecorder_def
      recordValidate_call recordCall_spec omap_eq_Returns del: recordCall.simps)

text \<open>A reconciliation is counted once and its result is passed on; a panic is counted and ends the reconciliation
  without a requeue.\<close>
theorem recordReconcile_spec:
  "fst (recordReconcile r inner request elapsed m) = (case inner request of Returns res \<Rightarrow> res | Panics rec \<Rightarrow> NoRequeue)"
  "controllerReconcileCount (snd (recordReconcile r inner request elapsed m)) l =
     controllerReconcileCount m l + countOf (l = controllerLabels request (cmr_gvk r))"
  "controllerReconcilePanicCount (snd (recordReconcile r inner request elapsed m)) l =
     controllerReconcilePanicCount m l + countOf (l = controllerLabels request (cmr_gvk r) \<and> (\<exists>rec. inner request = Panics rec))"
proof -
  have "controllerReconcileCount (recordResult r request res m) = controllerReconcileCount m
      \<and> controllerReconcilePanicCount (recordResult r request res m) = controllerReconcilePanicCount m" for res m
    by (cases res) (simp_all add: IncControllerReconcileRequeueErrorCount_def UpdateControllerReconcileRequeueAfter_def IncControllerReconcileRequeueCount_def)
  then show "fst (recordReconcile r inner request elapsed m) = (case inner request of Returns res \<Rightarrow> res | Panics rec \<Rightarrow> NoRequeue)"
    "controllerReconcileCount (snd (recordReconcile r inner request elapsed m)) l =
       controllerReconcileCount m l + countOf (l = controllerLabels request (cmr_gvk r))"
    "controllerReconcilePanicCount (snd (recordReconcile r inner request elapsed m)) l =
       controllerReconcilePanicCount m l + countOf (l = controllerLabels request (cmr_gvk r) \<and> (\<exists>rec. inner request = Panics rec))"
    by (cases "inner request"; auto simp: recordReconcile_def beforeReconcile_def IncControllerReconcileCount_def IncControllerReconcilePanicCount_def
        UpdateControllerReconcileDuration_def incControllersWithLabelValues_def Inc_def countOf_def)+
qed

text \<open>The getters of the webhook metrics do not see the calls on an object whose kind is not its version.\<close>
theorem getter_misses_calls:
  assumes "\<And>x. x \<in> set xs \<Longrightarrow> (case x of WebhookCall wt o' a \<Rightarrow> gvk_Kind (mo_GVK o') \<noteq> gvk_Version (mo_GVK o'))"
  shows "GetWebhookRequestCount wt obj (snd (recordCalls xs (ResetMetrics m))) = 0"
proof -
  have "filter (isFor [wt, gvk_Group (mo_GVK obj), gvk_Version (mo_GVK obj), gvk_Version (mo_GVK obj), fst (toNamespacedName obj), snd (toNamespacedName obj)]) xs = []"
    unfolding filter_empty_conv
  proof
    fix x assume "x \<in> set xs"
    then show "\<not> isFor [wt, gvk_Group (mo_GVK obj), gvk_Version (mo_GVK obj), gvk_Version (mo_GVK obj), fst (toNamespacedName obj), snd (toNamespacedName obj)] x"
      using assms [of x] by (cases x rule: WebhookCall.exhaust) (auto simp: webhookLabels_def Let_def)
  qed
  then show ?thesis
    by (simp add: GetWebhookRequestCount_def getWebhooksWithLabelValues_def Let_def recordCalls_spec) (simp add: ResetMetrics_def)
qed

lemma duration_never_exported: "''controller_reconcile_duration'' \<in> set (InitMetrics registry) \<longleftrightarrow> ''controller_reconcile_duration'' \<in> set registry"
  by (simp add: InitMetrics_def)

lemma duration_not_reset: "controllerReconcileDuration (ResetMetrics m) = controllerReconcileDuration m"
  by (simp add: ResetMetrics_def)

end
