(* ===== verification/Spec2Isabelle.thy ===== *)
theory Spec2Isabelle
  imports ScaleWorkflow RwController RwWebhook UserWebhook UserController FactoryTheorems Features PodControllers RwRelease RwLookup Metrics
begin

text \<open>
  The RisingWave operator (\<^verbatim>\<open>src/\<close>, Go) keeps a RisingWave database running in a Kubernetes cluster. A user
  declares custom resources; webhooks check them when they are written; controllers observe them and send requests to the API
  server, and, for database users, statements to the database. This development models the webhooks, the controllers and
  what they call, function by function, and proves what each part promises.

  \<^bold>\<open>The parts and how they interact.\<close>
  A RisingWave (\<^verbatim>\<open>apis/risingwave/v1alpha1\<close>) has components (meta, frontend, compute, compactor, or one standalone component),
  each with node groups. Its webhooks (\<^verbatim>\<open>pkg/webhook\<close>) set defaults and refuse bad specifications. The RisingWave controller
  (\<^verbatim>\<open>pkg/controller/risingwave_controller.go\<close>) reads the objects that exist through the generated manager, builds the objects
  that should exist with the object factory (\<^verbatim>\<open>pkg/factory\<close>), syncs and awaits them
  (\<^verbatim>\<open>pkg/manager\<close>) and writes the conditions and replicas to the status through the object manager (\<^verbatim>\<open>pkg/object\<close>). A RisingWaveScaleView
  is a handle on the replicas of some node groups: its controller takes a lock in the status of the RisingWave, divides
  its replicas among the groups (\<^verbatim>\<open>pkg/object/scaleview/split.go\<close>) and writes them to the RisingWave, and the webhook of the RisingWave
  refuses other writes to the locked groups. A RisingWaveUser is a user of the database: its controller connects through a pool
  (\<^verbatim>\<open>pkg/rwclient\<close>), creates the user with a generated password, keeps the password in a secret and brings the privileges
  to the specification. Two small controllers label the meta pods with their role and restart the pods of compute
  stateful sets.

  \<^bold>\<open>Conventions.\<close> A struct is a record with the source's field names behind a short prefix; a pointer or an optional value is
  an option; an enumeration of strings stays a string where the code compares strings. A Go panic is a value (\<open>Panics\<close> of the type \<open>outcome\<close> in
  \<open>Prelude\<close>), an error is a value of an option, a sum or a result type, and code that writes returns the list of the requests it sent. \<^verbatim>\<open>int32\<close> arithmetic is done on
  \<open>int\<close> with the two's complement reduction \<open>i32\<close> of \<open>Prelude\<close> written out. The order of an iteration over a Go map is an argument \<open>ord\<close>, any permutation. What is not under
  \<^verbatim>\<open>src/\<close> is an argument of the definitions that use it: the API server's answers, the database, the driver, randomness, the clock,
  semantic versions and image references, resource quantities, \<^verbatim>\<open>SetControllerReference\<close>, the ctrlkit workflow library. Where a theorem needs
  something of them, it is a hypothesis, and the witness after the theorem gives a concrete instance.

  \<^bold>\<open>The theories, bottom up.\<close>

  \<^item> Vocabulary. \<open>Prelude\<close> has Go's integers, strings, maps and panics, the collections of rewrite rules and the generic
    lemmas. \<open>GoLib\<close> (\<^verbatim>\<open>path\<close>, \<^verbatim>\<open>net/url\<close>, \<^verbatim>\<open>strings\<close>) and \<open>GoTime\<close> (dates, \<^verbatim>\<open>pkg/utils/date.go\<close> and \<^verbatim>\<open>nightly.go\<close>) are what
    the code uses of the standard library. \<open>RwApi\<close>, \<open>UserApi\<close>, \<open>CoreV1\<close>, \<open>Admission\<close> are the structs of the custom resources and of
    Kubernetes, field errors, API errors and the result of a reconciliation.
  \<^item> Scale views. \<open>ScaleSplit\<close> is \<^verbatim>\<open>SplitReplicas\<close> with its loops at 32 bits: it returns for every accepted input, the parts add up,
    respect limits and priorities and are fair (C1, C13, C14). \<open>ScaleLock\<close> is the helper and the
    lock manager, \<open>ScaleWebhook\<close> the webhooks (C20), \<open>ScaleManager\<close> the actions of the controller. \<open>ScaleProtocol\<close> is the
    protocol as a step relation over a cluster with many scale views and interleaved, possibly stale reads; its invariants are
    C2 and C10. \<open>ScaleWorkflow\<close> is the generated manager and \<^verbatim>\<open>Reconcile\<close> of the controller: its writes come in
    order and hold what they should (C12), and each run refines the protocol (C11).
  \<^item> The RisingWave controller. \<open>RwObject\<close> is the object manager with conditions and events. \<open>Workloads\<close> and \<open>RwActions\<close> are the
    actions that sync, await and count the workloads (C17, C18, C19).
    \<open>RwState\<close> is the generated manager: which objects an action reads and what its hook sees. \<open>RwController\<close> has the condition machine,
    the guards and the final status update (C6). \<open>Workflow\<close> gives the workflows of ctrlkit a meaning: \<open>runs\<close> relates a workflow to
    the sequences of actions it may execute, with every interleaving of parallel branches, every early exit and every retry, and
    \<open>exec\<close> is one schedule, proved to be a run. \<open>RwWorkflow\<close> is \<^verbatim>\<open>Reconcile\<close> as the workflow that the code builds over the actions, \<open>RwFrame\<close> what each
    action leaves alone, \<open>RwReady\<close> the main result that Running is reported only when everything is ready (C5),
    \<open>RwReports\<close> the shape of every report (C8) and \<open>RwRelease\<close> the release of the locks of deleted scale views
    (C7), with the filters of watch events. \<open>RwLookup\<close> shows that the getters find what the factory builds (C9).
  \<^item> Webhooks of RisingWave. \<open>RwWebhook\<close>: C3, C15, C16.
  \<^item> The object factory. \<open>FactoryConsts\<close>, \<open>FactoryEnv\<close>, \<open>FactoryArgs\<close>, \<open>FactoryPod\<close>, \<open>Factory\<close> are the file
    \<^verbatim>\<open>risingwave_object_factory.go\<close> from its constants to the objects; \<open>EnvHeap\<close> and \<open>EnvSort\<close> the topological sort of the environment
    variables (C38). \<open>FactoryLabels\<close> shows names, labels and selectors, \<open>FactoryPanics\<close> when the factory panics,
    \<open>FactoryOrder\<close> that map orders do not matter (C37), and \<open>FactoryTheorems\<close> collects the properties
    (C32, C33, C34, C39).
  \<^item> Pods, gates and metrics. \<open>PodControllers\<close> (C35, C36), \<open>Features\<close>, and \<open>Metrics\<close>: the counters and the recorders
    around webhooks and controllers, which catch panics (C40).
  \<^item> Users. \<open>SqlSyntax\<close> is a reference lexer and \<open>SqlBuilder\<close> the statements, which read back as intended (C22,
    C23). \<open>AclParser\<close> (C27), \<open>PrivilegeDiff\<close> (C24) and \<open>UserPrivileges\<close>
    (C26) bring the privileges to the specification; \<open>Pool\<close> is the connection pool (C28),
    \<open>Password\<close> the generator, \<open>UserController\<close> the reconciliation (C21, C25, C31) and
    \<open>UserWebhook\<close> the webhook (C29, C30).
  \<^item> This theory. C4 composes webhook, factory and controller.

  \<^bold>\<open>Interfaces.\<close> \<open>replica_splitter\<close> (what a division of replicas promises to the lock manager and the webhook), \<open>replica_store\<close> (reading and
  writing the replicas of a group, for the helper), \<open>min_queue\<close> (the heap, for the topological sort), \<open>workload_kind\<close> (the four kinds
  of workloads of the factory, for names, labels and selectors) and \<open>handle_cache\<close> (the table of the pool, for its life cycle) are locales; each is
  interpreted on the definitions of the model.

  \<^bold>\<open>Termination.\<close> No fuel is used: every definition is total by structural recursion or a measure, and the loops of \<^verbatim>\<open>SplitReplicas\<close> and of the
  topological sort are such functions (C1, C38). The number of attempts of a retry is the one
  of the source. The one loop without a bound, the background health check of the pool, is a step of the pool's state machine. A run of a
  workflow ends where an action panics; the theorems on reports and writes speak of runs that end, and
  C11 of every prefix of a run.

  \<^bold>\<open>Not modelled.\<close> The generated deep copies (\<^verbatim>\<open>zz_generated.deepcopy.go\<close>): a value of HOL is its own copy. The process entry
  point (\<^verbatim>\<open>cmd/manager\<close>), the scheme and the registration of controllers, webhooks and watches with the controller runtime: wiring
  without state of its own. Log output. The test helpers (\<^verbatim>\<open>pkg/testutils\<close>). Of the pod templates that a user may give,
  the fields that the code reads or changes are modelled.
\<close>

section \<open>Properties that span components\<close>

text \<open>C4: Webhook, factory and controller together: for a RisingWave that passed validation, syncing the workloads of a
  component with the objects of the real factory converges in one round. When the API server accepts the
  requests and the observed workloads were made by this operator, then whatever the order of the map
  iterations the action continues, afterwards every node group has exactly one workload and every workload
  is in sync with the current generation, and syncing again sends no request at all.\<close>
theorem workloads_converge:
  assumes "\<forall>q. api q = None" "\<forall>w. gvk w = None" "\<forall>xs. mset (ord xs) = mset xs"
    and rw: "rw = m_risingwave (im_risingwaveManager mgr)" "f = NewRisingWaveObjectFactory rw lib v"
    and accepted: "\<not> isBypassed rw" "rw_ValidateCreate imageOk dnsErrs k rw = Returns None"
    and lib: "ownable lib rw" "setsOwnerOnly lib"
    and gen: "0 \<le> om_Generation (rw_Meta rw)" "om_Generation (rw_Meta rw) \<le> 9223372036854775807"
    and c: "known_component component"
    and objects: "\<forall>x \<in> set objects. ownObject f advanced component x" "distinct (map keyOf objects)"
  shows "\<exists>qs. syncComponentGroupWorkloads ord gvk api mgr component objects (builtObject f advanced component) True = Returns (Continue, qs)
    \<and> (\<forall>w \<in> set (applyRequests objects qs). isObjectSynced mgr (Some w))
    \<and> distinct (map groupOf (applyRequests objects qs))
    \<and> ng_Name ` set (nodeGroups rw component) \<subseteq> groupOf ` set (applyRequests objects qs)
    \<and> syncComponentGroupWorkloads ord gvk api mgr component (applyRequests objects qs) (builtObject f advanced component) True
        = Returns (Continue, [])"
proof -
  let ?expected = "buildKeyMapFromList (nodeGroups rw component) ng_Name"
  have f: "madeFactory f" "f_risingwave f = rw" "f_scheme f = lib"
    using madeFactory_new by (simp_all add: rw(2) NewRisingWaveObjectFactory_def)
  have "returns (newWorkload f advanced component g)" if "g \<in> set ?expected" for g
    using that accepted_builds(1) [OF accepted f(2) _ c] lib(1) by (auto simp: buildKeyMapFromList_def f(3))
  then have "factory_ok mgr (builtObject f advanced component) ?expected objects"
    using real_factory_ok [OF f(1)] f lib(2) gen c objects(1) unfolding rw(1) by simp
  moreover have "set ?expected = ng_Name ` set (nodeGroups rw component)" by (simp add: buildKeyMapFromList_def)
  ultimately show ?thesis
    using sync_converges [OF assms(1-3) c _ _ objects(2), of ?expected mgr "builtObject f advanced component"] by (simp add: rw(1))
qed

section \<open>Witnesses\<close>

definition demoManager :: RisingWaveControllerManagerImpl where
  "demoManager = demoImpl\<lparr>im_risingwaveManager := NewRisingWaveManager memoryRisingWave False\<rparr>"

text \<open>Group a is out of date, groups b and c are missing, group d is not expected any more.\<close>

definition demoObserved :: "K8sObject list" where
  "demoObserved = [demoWorkload ''a'' ''-1'', demoWorkload ''d'' ''-1'']"

theorem workloads_converge_witness:
  "\<exists>qs. syncComponentGroupWorkloads rev (\<lambda>_. None) (\<lambda>_. None) demoManager ComponentCompute demoObserved
      (builtObject demoObjectFactory False ComponentCompute) True = Returns (Continue, qs)
    \<and> ng_Name ` set (nodeGroups memoryRisingWave ComponentCompute) \<subseteq> groupOf ` set (applyRequests demoObserved qs)"
proof -
  have rw: "memoryRisingWave = m_risingwave (im_risingwaveManager demoManager)"
    by (simp add: demoManager_def NewRisingWaveManager_def)
  have gen: "0 \<le> om_Generation (rw_Meta memoryRisingWave)" "om_Generation (rw_Meta memoryRisingWave) \<le> 9223372036854775807"
    by code_simp+
  have "\<forall>x \<in> set demoObserved. ownObject demoObjectFactory False ComponentCompute x" "distinct (map keyOf demoObserved)" by code_simp+
  from workloads_converge [OF _ _ _ rw refl memory_accepted demoLib_ok(2,1) gen memory_groups(1) this, of "\<lambda>_. None" "\<lambda>_. None" rev]
  show ?thesis by (simp del: isObjectSynced.simps) blast
qed

end
